(* ===== verification/Sailing_Prelude.thy ===== *)
theory Sailing_Prelude
  imports Main "HOL-Library.Word" "HOL-Library.FSet"
begin

text \<open>
  What every component of the development shares: the machine types of the
  Rust sources, the \<open>Result\<close> type, the ordered containers of
  \<^verbatim>\<open>std::collections\<close>, byte order conversions, and the collections of simplification
  rules the component proofs are carried by.

  The crate is generic in its node identifier (\<^verbatim>\<open>I: NodeId\<close>, an \<open>Ord\<close> type); the model
  is polymorphic in a type of class \<open>linorder\<close>. Unsigned integers are words of
  their width. A \<^verbatim>\<open>Vec\<close>, a \<^verbatim>\<open>VecDeque\<close> and a \<^verbatim>\<open>Bytes\<close> are lists, and the
  \<open>usize\<close> lengths of collections are natural numbers.
\<close>

unbundle bit_operations_syntax

section \<open>Machine types\<close>

type_synonym u8 = "8 word"
type_synonym u16 = "16 word"
type_synonym u32 = "32 word"
type_synonym u64 = "64 word"
type_synonym bytes = "u8 list"

abbreviation u64_max :: u64 where
  "u64_max \<equiv> - 1"

named_theorems counter_simps \<open>laws of the saturating and checked u64 counters\<close>
named_theorems codec_simps \<open>lengths and round trips of byte encodings\<close>

text \<open>The saturating and checked additions of the primitive integers.\<close>

definition saturating_add :: "'a::len word \<Rightarrow> 'a word \<Rightarrow> 'a word" where
  "saturating_add a b = (if unat a + unat b < 2 ^ LENGTH('a) then a + b else - 1)"

definition saturating_sub :: "'a::len word \<Rightarrow> 'a word \<Rightarrow> 'a word" where
  "saturating_sub a b = (if b \<le> a then a - b else 0)"

definition checked_add :: "'a::len word \<Rightarrow> 'a word \<Rightarrow> 'a word option" where
  "checked_add a b = (if unat a + unat b < 2 ^ LENGTH('a) then Some (a + b) else None)"

lemma no_overflow_inc: "unat (a :: 'a::len word) + 1 < 2 ^ LENGTH('a) \<longleftrightarrow> a \<noteq> - 1"
proof -
  have "a \<noteq> - 1 \<longleftrightarrow> unat a < unat (- 1 :: 'a word)"
    by (metis word_less_nat_alt word_order.not_eq_extremum)
  then show ?thesis
    by (simp add: unsigned_minus_1_eq_mask mask_eq_exp_minus_1 less_diff_conv)
qed

lemma saturating_add_1: "saturating_add (a :: u64) 1 = (if a = - 1 then - 1 else a + 1)"
  using no_overflow_inc [of a] by (simp add: saturating_add_def)

lemma checked_add_1: "checked_add (a :: u64) 1 = (if a = - 1 then None else Some (a + 1))"
  using no_overflow_inc [of a] by (simp add: checked_add_def)

section \<open>Results\<close>

text \<open>Rust's \<^verbatim>\<open>Result<T, E>\<close>, and the sequencing the \<^verbatim>\<open>?\<close> operator performs.\<close>

datatype ('a, 'e) result = Ok (the_ok: 'a) | Err (the_err: 'e)

primrec is_ok :: "('a, 'e) result \<Rightarrow> bool" where
  "is_ok (Ok _) = True"
| "is_ok (Err _) = False"

primrec and_then :: "('a, 'e) result \<Rightarrow> ('a \<Rightarrow> ('b, 'e) result) \<Rightarrow> ('b, 'e) result" where
  "and_then (Ok x) f = f x"
| "and_then (Err e) f = Err e"

lemma and_then_eq_Ok [simp]: "and_then r f = Ok y \<longleftrightarrow> (\<exists>x. r = Ok x \<and> f x = Ok y)"
  by (cases r) auto

lemma and_then_eq_Err [simp]:
  "and_then r f = Err e \<longleftrightarrow> r = Err e \<or> (\<exists>x. r = Ok x \<and> f x = Err e)"
  by (cases r) auto

lemma is_ok_iff: "is_ok r \<longleftrightarrow> (\<exists>x. r = Ok x)"
  by (cases r) auto

text \<open>Collecting an iterator of results into a result of a list stops at the first error.\<close>

fun collect_results :: "('a \<Rightarrow> ('b, 'e) result) \<Rightarrow> 'a list \<Rightarrow> ('b list, 'e) result" where
  "collect_results f [] = Ok []"
| "collect_results f (x # xs) =
     and_then (f x) (\<lambda>y. and_then (collect_results f xs) (\<lambda>ys. Ok (y # ys)))"

lemma collect_results_map:
  "(\<And>x. x \<in> set xs \<Longrightarrow> f (g x) = Ok x) \<Longrightarrow> collect_results f (map g xs) = Ok xs"
  by (induction xs) auto

section \<open>Ordered sets\<close>

text \<open>
  A \<^verbatim>\<open>BTreeSet\<close> is a finite set; iterating it yields its elements in ascending order,
  which is what \<^const>\<open>sorted_list_of_fset\<close> lists.
\<close>

type_synonym 'a btree_set = "'a fset"

abbreviation btree_iter :: "'a::linorder btree_set \<Rightarrow> 'a list" where
  "btree_iter \<equiv> sorted_list_of_fset"

abbreviation btree_remove :: "'a \<Rightarrow> 'a btree_set \<Rightarrow> 'a btree_set" where
  "btree_remove x s \<equiv> s |-| {|x|}"

lemma set_btree_iter [simp]: "set (btree_iter s) = fset s"
  by simp

lemma fset_empty_iff [simp]: "fset s = {} \<longleftrightarrow> s = {||}"
  by (metis bot_fset.rep_eq fset_inject)

lemma fcard_pos_iff: "0 < fcard s \<longleftrightarrow> s \<noteq> {||}"
  by (metis fcard_0_eq neq0_conv)

lemma length_btree_iter [simp]: "length (btree_iter s) = fcard s"
  by (simp add: sorted_list_of_fset.rep_eq fcard.rep_eq)

lemma distinct_btree_iter [simp]: "distinct (btree_iter s)"
  by (simp add: sorted_list_of_fset.rep_eq)

lemma sorted_btree_iter [simp]: "sorted (btree_iter s)"
  by (simp add: sorted_list_of_fset.rep_eq)

lemma strict_sorted_btree_iter [simp]: "sorted_wrt (<) (btree_iter s)"
  by (simp add: strict_sorted_iff)

lemma fset_of_list_btree_iter [simp]: "fset_of_list (btree_iter s) = s"
  by (simp add: fset_eq_iff fset_of_list.rep_eq)

section \<open>Byte order conversions\<close>

text \<open>
  \<^verbatim>\<open>to_le_bytes\<close> and \<^verbatim>\<open>from_le_bytes\<close> of the primitive integers, at a given number of bytes.
\<close>

definition to_le_bytes :: "nat \<Rightarrow> 'a::len word \<Rightarrow> bytes" where
  "to_le_bytes n w = map (\<lambda>i. ucast (drop_bit (8 * i) w)) [0..<n]"

primrec from_le_bytes :: "bytes \<Rightarrow> 'a::len word" where
  "from_le_bytes [] = 0"
| "from_le_bytes (b # bs) = (ucast b OR push_bit 8 (from_le_bytes bs))"

definition to_be_bytes :: "nat \<Rightarrow> 'a::len word \<Rightarrow> bytes" where
  "to_be_bytes n w = rev (to_le_bytes n w)"

definition from_be_bytes :: "bytes \<Rightarrow> 'a::len word" where
  "from_be_bytes bs = from_le_bytes (rev bs)"

lemma length_to_le_bytes [simp, codec_simps]: "length (to_le_bytes n w) = n"
  by (simp add: to_le_bytes_def)

lemma length_to_be_bytes [simp, codec_simps]: "length (to_be_bytes n w) = n"
  by (simp add: to_be_bytes_def)

lemma bit_u8_bound: "bit (b :: u8) n \<Longrightarrow> n < 8"
  by (drule bit_imp_le_length) simp

lemma bit_from_le_bytes:
  "bit (from_le_bytes bs :: 'a::len word) n \<longleftrightarrow>
     n < LENGTH('a) \<and> n div 8 < length bs \<and> bit (bs ! (n div 8)) (n mod 8)"
proof (induction bs arbitrary: n)
  case Nil
  then show ?case by simp
next
  case (Cons b bs)
  show ?case
  proof (cases "n < 8")
    case True
    then show ?thesis
      by (auto simp: bit_or_iff bit_push_bit_iff bit_unsigned_iff)
  next
    case False
    then have "n div 8 = Suc ((n - 8) div 8)" and "n mod 8 = (n - 8) mod 8"
      by (simp_all add: le_div_geq le_mod_geq)
    with False Cons [of "n - 8"] show ?thesis
      by (auto simp: bit_or_iff bit_push_bit_iff bit_unsigned_iff dest: bit_u8_bound)
  qed
qed

lemma from_to_le_bytes [simp, codec_simps]:
  fixes w :: "'a::len word"
  assumes "LENGTH('a) \<le> 8 * n"
  shows "from_le_bytes (to_le_bytes n w) = w"
proof (rule bit_word_eqI)
  fix m
  assume m: "m < LENGTH('a)"
  with assms have "m div 8 < n" by auto
  moreover have "m mod 8 + 8 * (m div 8) = m" and "m mod 8 < LENGTH(8)" by simp_all
  ultimately show "bit (from_le_bytes (to_le_bytes n w) :: 'a word) m = bit w m"
    using m by (simp add: bit_from_le_bytes to_le_bytes_def bit_unsigned_iff bit_drop_bit_eq add.commute
        del: mod_less_divisor)
qed

lemma to_from_le_bytes:
  assumes "8 * length bs \<le> LENGTH('a::len)"
  shows "to_le_bytes (length bs) (from_le_bytes bs :: 'a word) = bs"
proof (rule nth_equalityI)
  show "length (to_le_bytes (length bs) (from_le_bytes bs :: 'a word)) = length bs" by simp
  fix i
  assume "i < length (to_le_bytes (length bs) (from_le_bytes bs :: 'a word))"
  then have i: "i < length bs" by simp
  show "to_le_bytes (length bs) (from_le_bytes bs :: 'a word) ! i = bs ! i"
  proof (rule bit_word_eqI)
    fix m
    assume m: "m < LENGTH(8)"
    then have "8 * i + m < LENGTH('a)" using i assms by simp
    moreover have "(8 * i + m) div 8 = i" and "(8 * i + m) mod 8 = m" using m by simp_all
    ultimately show "bit (to_le_bytes (length bs) (from_le_bytes bs :: 'a word) ! i) m = bit (bs ! i) m"
      using i m by (simp add: to_le_bytes_def bit_unsigned_iff bit_drop_bit_eq bit_from_le_bytes)
  qed
qed

lemma from_to_be_bytes [simp, codec_simps]:
  fixes w :: "'a::len word"
  assumes "LENGTH('a) \<le> 8 * n"
  shows "from_be_bytes (to_be_bytes n w) = w"
  using assms by (simp add: from_be_bytes_def to_be_bytes_def)

lemma to_from_be_bytes:
  assumes "8 * length bs \<le> LENGTH('a::len)"
  shows "to_be_bytes (length bs) (from_be_bytes bs :: 'a word) = bs"
  using to_from_le_bytes [where 'a = 'a, of "rev bs"] assms
  by (simp add: from_be_bytes_def to_be_bytes_def)

lemma to_be_bytes_inject:
  fixes v w :: "'a::len word"
  assumes "LENGTH('a) \<le> 8 * n"
  shows "to_be_bytes n v = to_be_bytes n w \<longleftrightarrow> v = w"
  using from_to_be_bytes [OF assms] by metis

section \<open>Lists\<close>

lemma takeWhile_sorted_filter:
  "sorted_wrt (\<lambda>x y. Q y \<longrightarrow> Q x) xs \<Longrightarrow> dropWhile Q xs = filter (\<lambda>x. \<not> Q x) xs"
  by (induction xs) (auto simp: filter_id_conv filter_empty_conv)

text \<open>\<^verbatim>\<open>Iterator::position\<close>: the index of the first element that satisfies a predicate.\<close>

fun position :: "('a \<Rightarrow> bool) \<Rightarrow> 'a list \<Rightarrow> nat option" where
  "position P [] = None"
| "position P (x # xs) = (if P x then Some 0 else map_option Suc (position P xs))"

lemma position_None [simp]: "position P xs = None \<longleftrightarrow> (\<forall>x \<in> set xs. \<not> P x)"
  by (induction xs) auto

lemma position_append:
  "\<forall>x \<in> set xs. \<not> P x \<Longrightarrow> P y \<Longrightarrow> position P (xs @ y # ys) = Some (length xs)"
  by (induction xs) auto

lemma position_SomeD:
  "position P xs = Some i \<Longrightarrow>
     i < length xs \<and> P (xs ! i) \<and> xs = take i xs @ xs ! i # drop (Suc i) xs \<and> (\<forall>x \<in> set (take i xs). \<not> P x)"
  by (induction xs arbitrary: i) (auto split: if_splits simp: nth_Cons')

end
