(* ===== verification/Counters.thy ===== *)
theory Counters
  imports Sailing_Prelude
begin

text \<open>
  The scalar values of the protocol: the \<^verbatim>\<open>Term\<close> and \<^verbatim>\<open>Index\<close> counters of
  \<^verbatim>\<open>sailing-proto/src/num.rs\<close> and the clock readings of \<^verbatim>\<open>sailing-proto/src/time.rs\<close>.
  A counter is its \<open>u64\<close>. A \<^verbatim>\<open>core::time::Duration\<close> is its number of nanoseconds;
  the type's ceiling is written out where the code saturates at it.
\<close>

section \<open>Terms and indices\<close>

type_synonym raft_term = u64
type_synonym index = u64

definition counter_next :: "u64 \<Rightarrow> u64" where
  "counter_next v = saturating_add v 1"

definition checked_next :: "u64 \<Rightarrow> u64 option" where
  "checked_next v = (case checked_add v 1 of Some w \<Rightarrow> Some w | None \<Rightarrow> None)"

lemma counter_next_eq: "counter_next v = (if v = u64_max then u64_max else v + 1)"
  by (simp add: counter_next_def saturating_add_1)

lemma checked_next_eq [counter_simps]:
  "checked_next v = (if v = u64_max then None else Some (v + 1))"
  by (simp add: checked_next_def checked_add_1)

lemma counter_next_max [simp]: "counter_next u64_max = u64_max"
  by (simp add: counter_next_eq)

lemma inc_gt: "v \<noteq> u64_max \<Longrightarrow> v < v + (1 :: u64)"
  by (metis inc_less_eq_self_iff_eq linorder_not_less)

lemma less_counter_next [counter_simps]: "v < counter_next v \<longleftrightarrow> v \<noteq> u64_max"
  by (auto simp: counter_next_eq inc_gt)

lemma counter_next_ge [simp]: "v \<le> counter_next v"
  using inc_gt [of v] by (auto simp: counter_next_eq)

lemma inc_le_iff: "v \<noteq> u64_max \<Longrightarrow> v + 1 \<le> w \<longleftrightarrow> v < (w :: u64)"
  using inc_gt [of v] inc_le [of v w] by auto

lemma counter_next_le_iff [counter_simps]: "v \<noteq> u64_max \<Longrightarrow> counter_next v \<le> w \<longleftrightarrow> v < w"
  by (simp add: counter_next_eq inc_le_iff)

lemma less_counter_next_iff [counter_simps]: "v \<noteq> u64_max \<Longrightarrow> w < counter_next v \<longleftrightarrow> w \<le> v"
  using counter_next_le_iff [of v w] by auto

lemma counter_next_mono: "v \<le> w \<Longrightarrow> counter_next v \<le> counter_next w"
proof (cases "w = u64_max")
  case False
  assume "v \<le> w"
  with False have "v \<noteq> u64_max" and "v < counter_next w"
    using word_order.extremum_unique [of w] by (auto simp: less_counter_next_iff)
  then show ?thesis by (simp add: counter_next_le_iff)
qed simp

lemma counter_next_nonzero [simp]: "counter_next v \<noteq> 0"
proof (cases "v = u64_max")
  case False
  then have "v < counter_next v" by (simp add: less_counter_next)
  then show ?thesis by auto
qed simp

section \<open>Instants, wall readings and the clock input\<close>

type_synonym duration = nat

definition DURATION_MAX :: duration where
  "DURATION_MAX = (2 ^ 64 - 1) * 10 ^ 9 + 999999999"

type_synonym instant = duration

definition duration_since :: "instant \<Rightarrow> instant \<Rightarrow> duration" where
  "duration_since self earlier = self - earlier"

definition instant_add :: "instant \<Rightarrow> duration \<Rightarrow> instant" where
  "instant_add self d = min DURATION_MAX (self + d)"

type_synonym wall = u64

definition wall_ABSENT :: wall where
  "wall_ABSENT = 0"

definition wall_is_absent :: "wall \<Rightarrow> bool" where
  "wall_is_absent w \<longleftrightarrow> w = 0"

record now =
  mono :: instant
  wall :: wall

definition now_monotonic :: "instant \<Rightarrow> now" where
  "now_monotonic i = \<lparr>mono = i, wall = wall_ABSENT\<rparr>"

definition now_synchronized :: "instant \<Rightarrow> wall \<Rightarrow> now" where
  "now_synchronized i w = \<lparr>mono = i, wall = w\<rparr>"

lemma instant_add_exact: "i + d \<le> DURATION_MAX \<Longrightarrow> duration_since (instant_add i d) i = d"
  by (simp add: instant_add_def duration_since_def)

lemma instant_add_mono: "d \<le> e \<Longrightarrow> instant_add i d \<le> instant_add i e"
  by (auto simp: instant_add_def)

lemma now_synchronized_absent: "now_synchronized i wall_ABSENT = now_monotonic i"
  by (simp add: now_synchronized_def now_monotonic_def)

end
