(* ===== verification/Quorum.thy ===== *)
theory Quorum
  imports Counters
begin

text \<open>
  Majority and joint quorums, \<^verbatim>\<open>sailing-proto/src/quorum/mod.rs\<close>. The operations are
  \<open>committed_index\<close> and \<open>vote_result\<close> of a majority configuration and of a joint
  configuration. The lemmas say what each computes: the greatest index a majority holds,
  and whether the votes still missing can change the outcome. The locale
  \<open>quorum_system\<close> is the interface the protocol relies on (two quorums intersect,
  a superset of a quorum is one), with the uniqueness of a quorum's decision proved in it
  once and interpreted on the joint configurations of the code.
\<close>

section \<open>Model\<close>

datatype VoteResult = Won | Lost | Pending

record 'i majority_config =
  mc_ids :: "'i btree_set"

definition mc_new :: "'i btree_set \<Rightarrow> 'i majority_config" where
  "mc_new i = \<lparr>mc_ids = i\<rparr>"

definition mc_is_empty :: "'i majority_config \<Rightarrow> bool" where
  "mc_is_empty c \<longleftrightarrow> mc_ids c = {||}"

definition mc_contains :: "'i majority_config \<Rightarrow> 'i \<Rightarrow> bool" where
  "mc_contains c i \<longleftrightarrow> i |\<in>| mc_ids c"

definition STACK_CAP :: nat where
  "STACK_CAP = 16"

text \<open>
  Writing the first slots of a fixed buffer, and the element \<open>select_nth_unstable\<close>
  leaves at a position: the one a full sort would place there.
\<close>

definition fill_slots :: "'a list \<Rightarrow> 'a list \<Rightarrow> 'a list" where
  "fill_slots buf xs = xs @ drop (length xs) buf"

definition select_nth :: "'a::linorder list \<Rightarrow> nat \<Rightarrow> 'a" where
  "select_nth s pos = sort s ! pos"

definition mc_committed_index :: "'i::linorder majority_config \<Rightarrow> ('i \<Rightarrow> index) \<Rightarrow> index" where
  "mc_committed_index c acked =
     (let n = fcard (mc_ids c) in
      if n = 0 then u64_max
      else
        let pos = n - (n div 2 + 1) in
        if n \<le> STACK_CAP then
          let buf = fill_slots (replicate STACK_CAP 0) (map acked (btree_iter (mc_ids c)));
              s = take n buf
          in select_nth s pos
        else
          let srt = map acked (btree_iter (mc_ids c))
          in select_nth srt pos)"

definition tally_step :: "('i \<Rightarrow> bool option) \<Rightarrow> 'i \<Rightarrow> nat \<times> nat \<Rightarrow> nat \<times> nat" where
  "tally_step votes i = (\<lambda>(grants, missing).
     case votes i of
       Some True \<Rightarrow> (grants + 1, missing)
     | Some False \<Rightarrow> (grants, missing)
     | None \<Rightarrow> (grants, missing + 1))"

definition mc_vote_result :: "'i::linorder majority_config \<Rightarrow> ('i \<Rightarrow> bool option) \<Rightarrow> VoteResult" where
  "mc_vote_result c votes =
     (if mc_is_empty c then Won
      else
        let (grants, missing) = fold (tally_step votes) (btree_iter (mc_ids c)) (0, 0);
            q = fcard (mc_ids c) div 2 + 1
        in if grants \<ge> q then Won
           else if grants + missing \<ge> q then Pending
           else Lost)"

record 'i joint_config =
  jc_incoming :: "'i majority_config"
  jc_outgoing :: "'i majority_config"

definition jc_new :: "'i majority_config \<Rightarrow> 'i majority_config \<Rightarrow> 'i joint_config" where
  "jc_new i out = \<lparr>jc_incoming = i, jc_outgoing = out\<rparr>"

definition jc_from_voters :: "'i btree_set \<Rightarrow> 'i joint_config" where
  "jc_from_voters voters = \<lparr>jc_incoming = mc_new voters, jc_outgoing = mc_new {||}\<rparr>"

definition jc_ids :: "'i joint_config \<Rightarrow> 'i btree_set" where
  "jc_ids c = mc_ids (jc_incoming c) |\<union>| mc_ids (jc_outgoing c)"

definition jc_committed_index :: "'i::linorder joint_config \<Rightarrow> ('i \<Rightarrow> index) \<Rightarrow> index" where
  "jc_committed_index c acked =
     min (mc_committed_index (jc_incoming c) acked) (mc_committed_index (jc_outgoing c) acked)"

definition jc_vote_result :: "'i::linorder joint_config \<Rightarrow> ('i \<Rightarrow> bool option) \<Rightarrow> VoteResult" where
  "jc_vote_result c votes =
     (let r1 = mc_vote_result (jc_incoming c) votes;
          r2 = mc_vote_result (jc_outgoing c) votes
      in if r1 = r2 then r1
         else if r1 = Lost \<or> r2 = Lost then Lost
         else Pending)"

section \<open>Specification\<close>

text \<open>
  A set of nodes decides for a majority configuration when more than half of its members
  are in it (an empty configuration puts no constraint), and for a joint configuration
  when it decides for both halves.
\<close>

definition majority :: "'i majority_config \<Rightarrow> 'i set \<Rightarrow> bool" where
  "majority c Q \<longleftrightarrow>
     mc_ids c = {||} \<or> fcard (mc_ids c) div 2 + 1 \<le> card (fset (mc_ids c) \<inter> Q)"

definition joint_majority :: "'i joint_config \<Rightarrow> 'i set \<Rightarrow> bool" where
  "joint_majority c Q \<longleftrightarrow> majority (jc_incoming c) Q \<and> majority (jc_outgoing c) Q"

definition jc_live :: "'i joint_config \<Rightarrow> bool" where
  "jc_live c \<longleftrightarrow> mc_ids (jc_incoming c) \<noteq> {||}"

definition joint_quorum :: "'i joint_config \<Rightarrow> 'i set \<Rightarrow> bool" where
  "joint_quorum c Q \<longleftrightarrow> jc_live c \<and> joint_majority c Q"

section \<open>The committed index\<close>

lemma nth_sorted_ge_iff:
  assumes s: "sorted ys" and p: "pos < length ys"
  shows "n \<le> ys ! pos \<longleftrightarrow> length ys - pos \<le> length (filter (\<lambda>y. n \<le> y) ys)"
proof
  assume n: "n \<le> ys ! pos"
  have "\<forall>y \<in> set (drop pos ys). n \<le> y"
  proof
    fix y assume "y \<in> set (drop pos ys)"
    then obtain i where "i < length ys - pos" and "y = ys ! (pos + i)"
      by (auto simp: in_set_conv_nth)
    with s p have "ys ! pos \<le> y" by (auto intro: sorted_nth_mono)
    with n show "n \<le> y" by (rule order_trans)
  qed
  then have "filter (\<lambda>y. n \<le> y) (drop pos ys) = drop pos ys"
    by (simp add: filter_id_conv)
  moreover have "filter (\<lambda>y. n \<le> y) ys = filter (\<lambda>y. n \<le> y) (take pos ys) @ filter (\<lambda>y. n \<le> y) (drop pos ys)"
    by (metis append_take_drop_id filter_append)
  ultimately show "length ys - pos \<le> length (filter (\<lambda>y. n \<le> y) ys)"
    by simp
next
  assume len: "length ys - pos \<le> length (filter (\<lambda>y. n \<le> y) ys)"
  show "n \<le> ys ! pos"
  proof (rule ccontr)
    assume n: "\<not> n \<le> ys ! pos"
    have "\<forall>y \<in> set (take (Suc pos) ys). \<not> n \<le> y"
    proof
      fix y assume "y \<in> set (take (Suc pos) ys)"
      then obtain i where "i < Suc pos" and "y = ys ! i"
        by (auto simp: in_set_conv_nth)
      with s p have "y \<le> ys ! pos" by (auto intro: sorted_nth_mono)
      with n show "\<not> n \<le> y" by auto
    qed
    then have "filter (\<lambda>y. n \<le> y) (take (Suc pos) ys) = []"
      by (simp add: filter_empty_conv)
    moreover have "filter (\<lambda>y. n \<le> y) ys = filter (\<lambda>y. n \<le> y) (take (Suc pos) ys) @ filter (\<lambda>y. n \<le> y) (drop (Suc pos) ys)"
      by (metis append_take_drop_id filter_append)
    ultimately have "length (filter (\<lambda>y. n \<le> y) ys) \<le> length ys - Suc pos"
      using length_filter_le [of "\<lambda>y. n \<le> y" "drop (Suc pos) ys"] by simp
    with len p show False by simp
  qed
qed

lemma length_filter_btree_iter:
  "length (filter P (btree_iter A)) = card {x \<in> fset A. P x}"
proof -
  have "card (set (filter P (btree_iter A))) = length (filter P (btree_iter A))"
    by (rule distinct_card) simp
  then show ?thesis by simp
qed

lemma length_filter_sort_map:
  "length (filter P (sort (map f (btree_iter A)))) = card {x \<in> fset A. P (f x)}"
proof -
  have "length (filter P (sort (map f (btree_iter A)))) = length (filter P (map f (btree_iter A)))"
    by (simp add: filter_sort)
  also have "\<dots> = length (filter (P \<circ> f) (btree_iter A))"
    by (simp add: filter_map)
  finally show ?thesis by (simp add: length_filter_btree_iter)
qed

lemma mc_committed_index_alt:
  "mc_committed_index c acked =
     (let n = fcard (mc_ids c) in
      if n = 0 then u64_max else sort (map acked (btree_iter (mc_ids c))) ! (n - (n div 2 + 1)))"
  by (simp add: mc_committed_index_def select_nth_def fill_slots_def Let_def)

lemma le_mc_committed_index_iff:
  "n \<le> mc_committed_index c acked \<longleftrightarrow> majority c {i. n \<le> acked i}"
proof (cases "mc_ids c = {||}")
  case True
  then show ?thesis by (simp add: mc_committed_index_alt majority_def)
next
  case False
  define k where "k = fcard (mc_ids c)"
  have k: "0 < k" using False by (simp add: k_def fcard_pos_iff)
  let ?ys = "sort (map acked (btree_iter (mc_ids c)))"
  have len: "length ?ys = k" by (simp add: k_def)
  have "n \<le> ?ys ! (k - (k div 2 + 1)) \<longleftrightarrow>
      length ?ys - (k - (k div 2 + 1)) \<le> length (filter (\<lambda>y. n \<le> y) ?ys)"
    using k len by (intro nth_sorted_ge_iff) simp_all
  moreover have "length ?ys - (k - (k div 2 + 1)) = k div 2 + 1"
    using k len by simp
  moreover have "{i \<in> fset (mc_ids c). n \<le> acked i} = fset (mc_ids c) \<inter> {i. n \<le> acked i}"
    by auto
  ultimately show ?thesis
    using k False
    by (simp add: mc_committed_index_alt Let_def k_def [symmetric] majority_def length_filter_sort_map)
qed

lemma le_jc_committed_index_iff:
  "n \<le> jc_committed_index c acked \<longleftrightarrow> joint_majority c {i. n \<le> acked i}"
  by (simp add: jc_committed_index_def joint_majority_def le_mc_committed_index_iff)

section \<open>The vote result\<close>

lemma fold_tally:
  "fold (tally_step votes) xs (g, m) =
     (g + length (filter (\<lambda>i. votes i = Some True) xs),
      m + length (filter (\<lambda>i. votes i = None) xs))"
  by (induction xs arbitrary: g m) (auto simp: tally_step_def split: option.splits bool.splits)

definition granted :: "('i \<Rightarrow> bool option) \<Rightarrow> 'i set" where
  "granted votes = {i. votes i = Some True}"

definition unrefused :: "('i \<Rightarrow> bool option) \<Rightarrow> 'i set" where
  "unrefused votes = {i. votes i \<noteq> Some False}"

lemma tally_cards:
  "fold (tally_step votes) (btree_iter A) (0, 0) =
     (card (fset A \<inter> granted votes), card (fset A \<inter> unrefused votes) - card (fset A \<inter> granted votes))"
  "card (fset A \<inter> granted votes) \<le> card (fset A \<inter> unrefused votes)"
proof -
  let ?G = "fset A \<inter> granted votes" and ?M = "fset A \<inter> {i. votes i = None}"
  let ?U = "fset A \<inter> unrefused votes"
  have "?U = ?G \<union> ?M" and "?G \<inter> ?M = {}"
    by (auto simp: granted_def unrefused_def)
  then have card: "card ?U = card ?G + card ?M"
    by (simp add: card_Un_disjoint)
  have "{i \<in> fset A. votes i = Some True} = ?G" and "{i \<in> fset A. votes i = None} = ?M"
    by (auto simp: granted_def)
  then show "fold (tally_step votes) (btree_iter A) (0, 0) = (card ?G, card ?U - card ?G)"
    using card by (simp add: fold_tally length_filter_btree_iter)
  show "card ?G \<le> card ?U" using card by simp
qed

text \<open>
  The outcome in terms of who granted and who has not refused: a majority configuration
  is won when a majority granted, lost when those who have not refused are no majority.
\<close>

lemma mc_vote_result_eq:
  "mc_vote_result c votes =
     (if majority c (granted votes) then Won
      else if majority c (unrefused votes) then Pending
      else Lost)"
  using tally_cards(2) [of "mc_ids c" votes]
  by (simp add: mc_vote_result_def mc_is_empty_def majority_def tally_cards(1))

lemma majority_mono: "majority c Q \<Longrightarrow> Q \<subseteq> R \<Longrightarrow> majority c R"
  unfolding majority_def
  by (metis (no_types, lifting) Int_mono card_mono finite_Int finite_fset order_refl order_trans)

lemma joint_majority_mono: "joint_majority c Q \<Longrightarrow> Q \<subseteq> R \<Longrightarrow> joint_majority c R"
  by (auto simp: joint_majority_def intro: majority_mono)

lemma granted_unrefused: "granted votes \<subseteq> unrefused votes"
  by (auto simp: granted_def unrefused_def)

lemma jc_vote_result_eq:
  "jc_vote_result c votes =
     (if joint_majority c (granted votes) then Won
      else if joint_majority c (unrefused votes) then Pending
      else Lost)"
  using granted_unrefused [of votes]
  by (auto simp: jc_vote_result_def Let_def mc_vote_result_eq joint_majority_def
      dest: majority_mono)

text \<open>
  The votes that may still arrive: a later ballot box agrees with every vote already cast.
\<close>

definition extends :: "('i \<Rightarrow> bool option) \<Rightarrow> ('i \<Rightarrow> bool option) \<Rightarrow> bool" where
  "extends votes later \<longleftrightarrow> votes \<subseteq>\<^sub>m later"

lemma extends_granted: "extends votes later \<Longrightarrow> granted votes \<subseteq> granted later"
  by (force simp: extends_def granted_def map_le_def)

lemma extends_unrefused: "extends votes later \<Longrightarrow> granted later \<subseteq> unrefused votes"
  by (force simp: extends_def granted_def unrefused_def map_le_def)

definition all_missing_grant :: "('i \<Rightarrow> bool option) \<Rightarrow> 'i \<Rightarrow> bool option" where
  "all_missing_grant votes i = (case votes i of None \<Rightarrow> Some True | Some b \<Rightarrow> Some b)"

lemma extends_all_missing_grant: "extends votes (all_missing_grant votes)"
  by (auto simp: extends_def map_le_def all_missing_grant_def split: option.splits)

lemma granted_all_missing_grant: "granted (all_missing_grant votes) = unrefused votes"
  by (auto simp: granted_def unrefused_def all_missing_grant_def split: option.splits)

lemma jc_won_iff:
  "jc_vote_result c votes = Won \<longleftrightarrow>
     (\<forall>later. extends votes later \<longrightarrow> joint_majority c (granted later))"
proof -
  have "jc_vote_result c votes = Won \<longleftrightarrow> joint_majority c (granted votes)"
    by (simp add: jc_vote_result_eq)
  moreover have "extends votes votes" by (simp add: extends_def)
  ultimately show ?thesis
    by (meson extends_granted joint_majority_mono)
qed

lemma jc_lost_iff:
  "jc_vote_result c votes = Lost \<longleftrightarrow>
     (\<forall>later. extends votes later \<longrightarrow> \<not> joint_majority c (granted later))"
proof -
  have "jc_vote_result c votes = Lost \<longleftrightarrow> \<not> joint_majority c (unrefused votes)"
    using joint_majority_mono [OF _ granted_unrefused] by (auto simp: jc_vote_result_eq)
  moreover have "extends votes (all_missing_grant votes)"
    by (rule extends_all_missing_grant)
  ultimately show ?thesis
    by (metis extends_unrefused granted_all_missing_grant joint_majority_mono)
qed

section \<open>Quorum systems\<close>

locale quorum_system =
  fixes quorum :: "'c \<Rightarrow> 'i set \<Rightarrow> bool"
  assumes quorum_intersect: "quorum c Q \<Longrightarrow> quorum c R \<Longrightarrow> Q \<inter> R \<noteq> {}"
    and quorum_mono: "quorum c Q \<Longrightarrow> Q \<subseteq> R \<Longrightarrow> quorum c R"
begin

lemma quorum_nonempty: "quorum c Q \<Longrightarrow> Q \<noteq> {}"
  using quorum_intersect by fastforce

lemma quorum_common_member: "quorum c Q \<Longrightarrow> quorum c R \<Longrightarrow> \<exists>i. i \<in> Q \<and> i \<in> R"
  using quorum_intersect by fastforce

text \<open>Where every member chooses at most one value, at most one value gathers a quorum.\<close>

lemma quorum_choice_unique:
  assumes "quorum c {i. choice i = Some a}" and "quorum c {i. choice i = Some b}"
  shows "a = b"
  using quorum_common_member [OF assms] by auto

end

lemma majority_intersect:
  assumes "mc_ids c \<noteq> {||}" and "majority c Q" and "majority c R"
  shows "fset (mc_ids c) \<inter> Q \<inter> R \<noteq> {}"
proof
  let ?V = "fset (mc_ids c)"
  assume "?V \<inter> Q \<inter> R = {}"
  then have "(?V \<inter> Q) \<inter> (?V \<inter> R) = {}" by auto
  then have "card (?V \<inter> Q) + card (?V \<inter> R) = card ((?V \<inter> Q) \<union> (?V \<inter> R))"
    by (simp add: card_Un_disjoint)
  also have "\<dots> \<le> card ?V" by (intro card_mono) auto
  finally show False using assms by (simp add: majority_def fcard.rep_eq)
qed

lemma joint_quorum_intersect:
  "joint_quorum c Q \<Longrightarrow> joint_quorum c R \<Longrightarrow> Q \<inter> R \<noteq> {}"
  using majority_intersect [of "jc_incoming c" Q R]
  by (auto simp: joint_quorum_def joint_majority_def jc_live_def)

interpretation jq: quorum_system joint_quorum
proof unfold_locales
  show "joint_quorum c Q \<Longrightarrow> joint_quorum c R \<Longrightarrow> Q \<inter> R \<noteq> {}" for c :: "'a joint_config" and Q R
    by (rule joint_quorum_intersect)
  show "joint_quorum c Q \<Longrightarrow> Q \<subseteq> R \<Longrightarrow> joint_quorum c R" for c :: "'a joint_config" and Q R
    by (auto simp: joint_quorum_def intro: joint_majority_mono)
qed

lemma jc_won_quorum:
  "jc_live c \<Longrightarrow> jc_vote_result c votes = Won \<longleftrightarrow> joint_quorum c (granted votes)"
  by (simp add: joint_quorum_def jc_vote_result_eq)

lemma jc_committed_quorum:
  "jc_live c \<Longrightarrow> n \<le> jc_committed_index c acked \<longleftrightarrow> joint_quorum c {i. n \<le> acked i}"
  by (simp add: joint_quorum_def le_jc_committed_index_iff)

section \<open>Properties\<close>

text \<open>
  C13: the committed index of a joint configuration is exactly the greatest index that a
  majority of the incoming voters and a majority of the outgoing voters have acknowledged:
  an index is at or below it if and only if both majorities hold it. An empty half puts no
  constraint, as the sentinel \<open>u64::MAX\<close> intends.
\<close>

theorem jc_committed_index_correct:
  "n \<le> jc_committed_index c acked \<longleftrightarrow> joint_majority c {i. n \<le> acked i}"
  by (rule le_jc_committed_index_iff)

text \<open>
  C14: the joint tally is decided exactly when the votes still missing cannot change it: it is
  \<open>Won\<close> if and only if every completion of the ballots wins both halves, and
  \<open>Lost\<close> if and only if no completion does.
\<close>

theorem jc_vote_result_decided:
  "(jc_vote_result c votes = Won \<longleftrightarrow>
      (\<forall>later. extends votes later \<longrightarrow> joint_majority c (granted later))) \<and>
   (jc_vote_result c votes = Lost \<longleftrightarrow>
      (\<forall>later. extends votes later \<longrightarrow> \<not> joint_majority c (granted later)))"
  by (simp add: jc_won_iff jc_lost_iff)

theorem jc_vote_result_decided_witness:
  "jc_vote_result (jc_from_voters {|1, 2, 3 :: nat|}) (\<lambda>i. if i < 3 then Some True else None) = Won \<and>
   joint_majority (jc_from_voters {|1, 2, 3 :: nat|}) (granted (\<lambda>i. if i < 3 then Some True else Some False))"
proof -
  let ?c = "jc_from_voters {|1, 2, 3 :: nat|}" and ?votes = "\<lambda>i::nat. if i < 3 then Some True else None"
  have won: "jc_vote_result ?c ?votes = Won" by code_simp
  have "extends ?votes (\<lambda>i. if i < 3 then Some True else Some False)"
    by (auto simp: extends_def map_le_def dom_def split: if_splits)
  with won show ?thesis
    using jc_vote_result_decided [of ?c ?votes] by blast
qed

text \<open>
  C15: election uniqueness at the tally. When every voter casts at most one vote, two
  candidates whose ballots both win under the same live joint configuration are the same
  candidate.
\<close>

theorem jc_vote_winner_unique:
  assumes "jc_live c"
    and "jc_vote_result c (\<lambda>i. map_option (\<lambda>x. x = a) (ballot i)) = Won"
    and "jc_vote_result c (\<lambda>i. map_option (\<lambda>x. x = b) (ballot i)) = Won"
  shows "a = b"
proof -
  have "granted (\<lambda>i. map_option (\<lambda>x. x = v) (ballot i)) = {i. ballot i = Some v}" for v
    by (auto simp: granted_def)
  with assms show ?thesis
    using jq.quorum_choice_unique [of c ballot a b] by (simp add: jc_won_quorum)
qed

theorem jc_vote_winner_unique_witness:
  "jc_vote_result (jc_from_voters {|1, 2, 3 :: nat|})
     (\<lambda>i. map_option (\<lambda>x. x = (7::nat)) (if i < 3 then Some 7 else Some 8)) = Won \<and> (3 + 4 :: nat) = 7"
proof -
  have live: "jc_live (jc_from_voters {|1, 2, 3 :: nat|})"
    by (simp add: jc_live_def jc_from_voters_def mc_new_def)
  have w: "jc_vote_result (jc_from_voters {|1, 2, 3 :: nat|})
     (\<lambda>i. map_option (\<lambda>x. x = (7::nat)) (if i < 3 then Some 7 else Some 8)) = Won"
    by code_simp
  have w': "jc_vote_result (jc_from_voters {|1, 2, 3 :: nat|})
     (\<lambda>i. map_option (\<lambda>x. x = (3 + 4 :: nat)) (if i < 3 then Some 7 else Some 8)) = Won"
    by code_simp
  show ?thesis
    using w jc_vote_winner_unique [OF live w' w] by (rule conjI)
qed

text \<open>
  C16: an election and a commit under the same live joint configuration share a voter: if the
  tally is won and an index is committed, some voter granted its vote and acknowledged the
  index. A winner therefore heard from a voter that holds every committed entry.
\<close>

theorem won_and_committed_share_voter:
  assumes "jc_live c" and "jc_vote_result c votes = Won" and "n \<le> jc_committed_index c acked"
  shows "\<exists>i. votes i = Some True \<and> n \<le> acked i"
  using assms jq.quorum_common_member [of c "granted votes" "{i. n \<le> acked i}"]
  by (auto simp: jc_won_quorum jc_committed_quorum granted_def)

theorem won_and_committed_share_voter_witness:
  "\<exists>i. (\<lambda>i::nat. if i < 3 then Some True else None) i = Some True \<and> (5::index) \<le> (if i = 1 then 0 else 5)"
proof (rule won_and_committed_share_voter [of "jc_from_voters {|1, 2, 3 :: nat|}"])
  show "jc_live (jc_from_voters {|1, 2, 3 :: nat|})"
    by (simp add: jc_live_def jc_from_voters_def mc_new_def)
  show "jc_vote_result (jc_from_voters {|1, 2, 3 :: nat|}) (\<lambda>i. if i < 3 then Some True else None) = Won"
    by code_simp
  show "5 \<le> jc_committed_index (jc_from_voters {|1, 2, 3 :: nat|}) (\<lambda>i. if i = 1 then 0 else 5)"
    by code_simp
qed

end
