(* ===== verification/Progress.thy ===== *)
theory Progress
  imports Counters
begin

text \<open>
  Flow control and per-peer replication bookkeeping: the bounded window of unacknowledged
  appends of \<^verbatim>\<open>sailing-proto/src/inflights.rs\<close> and the \<^verbatim>\<open>Progress\<close> state machine of
  \<^verbatim>\<open>sailing-proto/src/progress/mod.rs\<close>. The byte counter of the window is a \<open>u64\<close> whose
  additions and subtractions wrap, as they do in a release build; the invariant says that it
  is the sum of the sizes in flight, and a window whose true sum fits the width is counted
  exactly. The \<open>Progress\<close> invariant rules out the permanent stall the source guards
  against: a peer is in the snapshot state only while it is still behind the snapshot.
\<close>

section \<open>The in-flight window\<close>

record inflights =
  inflight :: "(index \<times> u64) list"
  max_msgs :: nat
  max_bytes :: u64
  infl_bytes :: u64

definition inflights_new :: "nat \<Rightarrow> u64 \<Rightarrow> inflights" where
  "inflights_new msgs cap = \<lparr>inflight = [], max_msgs = msgs, max_bytes = cap, infl_bytes = 0\<rparr>"

definition inflights_full :: "inflights \<Rightarrow> bool" where
  "inflights_full f \<longleftrightarrow>
     length (inflight f) \<ge> max_msgs f \<or> (max_bytes f \<noteq> 0 \<and> infl_bytes f \<ge> max_bytes f)"

definition inflights_add :: "index \<Rightarrow> u64 \<Rightarrow> inflights \<Rightarrow> inflights" where
  "inflights_add i b f = f\<lparr>inflight := inflight f @ [(i, b)], infl_bytes := infl_bytes f + b\<rparr>"

fun free_le_loop :: "index \<Rightarrow> (index \<times> u64) list \<Rightarrow> u64 \<Rightarrow> (index \<times> u64) list \<times> u64" where
  "free_le_loop upper [] tot = ([], tot)"
| "free_le_loop upper ((i, b) # q) tot =
     (if i > upper then ((i, b) # q, tot) else free_le_loop upper q (tot - b))"

definition inflights_free_le :: "index \<Rightarrow> inflights \<Rightarrow> inflights" where
  "inflights_free_le upper f =
     (let (q, tot) = free_le_loop upper (inflight f) (infl_bytes f)
      in f\<lparr>inflight := q, infl_bytes := tot\<rparr>)"

definition inflights_free_first_one :: "inflights \<Rightarrow> inflights" where
  "inflights_free_first_one f =
     (case inflight f of
        [] \<Rightarrow> f
      | (_, b) # q \<Rightarrow> f\<lparr>inflight := q, infl_bytes := infl_bytes f - b\<rparr>)"

definition inflights_reset :: "inflights \<Rightarrow> inflights" where
  "inflights_reset f = f\<lparr>inflight := [], infl_bytes := 0\<rparr>"

definition inflights_ok :: "inflights \<Rightarrow> bool" where
  "inflights_ok f \<longleftrightarrow> infl_bytes f = sum_list (map snd (inflight f))"

lemma free_le_loop_eq:
  "free_le_loop upper q tot =
     (dropWhile (\<lambda>(i, b). i \<le> upper) q,
      tot - sum_list (map snd (takeWhile (\<lambda>(i, b). i \<le> upper) q)))"
  by (induction upper q tot rule: free_le_loop.induct) (auto simp: algebra_simps)

lemma sum_list_takeWhile_dropWhile:
  "sum_list (map f xs) - sum_list (map f (takeWhile P xs)) =
     (sum_list (map f (dropWhile P xs)) :: 'a::ab_group_add)"
  by (induction xs) (auto simp: algebra_simps)

lemma inflight_free_le [simp]:
  "inflight (inflights_free_le upper f) = dropWhile (\<lambda>(i, b). i \<le> upper) (inflight f)"
  by (simp add: inflights_free_le_def free_le_loop_eq)

lemma inflights_ok_ops [simp]:
  "inflights_ok (inflights_new m b)"
  "inflights_ok f \<Longrightarrow> inflights_ok (inflights_add i b f)"
  "inflights_ok f \<Longrightarrow> inflights_ok (inflights_free_le upper f)"
  "inflights_ok f \<Longrightarrow> inflights_ok (inflights_free_first_one f)"
  "inflights_ok (inflights_reset f)"
  by (auto simp: inflights_ok_def inflights_new_def inflights_add_def inflights_free_le_def
      free_le_loop_eq sum_list_takeWhile_dropWhile inflights_free_first_one_def inflights_reset_def
      split: list.splits)

lemma inflights_caps [simp]:
  "max_msgs (inflights_add i b f) = max_msgs f" "max_bytes (inflights_add i b f) = max_bytes f"
  "max_msgs (inflights_free_le n f) = max_msgs f" "max_bytes (inflights_free_le n f) = max_bytes f"
  "max_msgs (inflights_free_first_one f) = max_msgs f"
  "max_bytes (inflights_free_first_one f) = max_bytes f"
  "max_msgs (inflights_reset f) = max_msgs f" "max_bytes (inflights_reset f) = max_bytes f"
  by (auto simp: inflights_add_def inflights_free_le_def free_le_loop_eq
      inflights_free_first_one_def inflights_reset_def split: list.splits)

lemma inflight_ops [simp]:
  "inflight (inflights_new m b) = []"
  "inflight (inflights_add i b f) = inflight f @ [(i, b)]"
  "inflight (inflights_free_first_one f) = tl (inflight f)"
  "inflight (inflights_reset f) = []"
  by (auto simp: inflights_new_def inflights_add_def inflights_free_first_one_def
      inflights_reset_def split: list.splits)

text \<open>A window whose true byte sum fits the counter's width is counted exactly.\<close>

lemma unat_sum_list_exact:
  fixes xs :: "'a::len word list"
  assumes "sum_list (map unat xs) < 2 ^ LENGTH('a)"
  shows "unat (sum_list xs) = sum_list (map unat xs)"
  using assms
proof (induction xs)
  case (Cons x xs)
  then have "unat (sum_list xs) = sum_list (map unat xs)" by simp
  with Cons.prems show ?case by (simp add: unat_word_ariths)
qed simp

lemma inflights_bytes_exact:
  assumes "inflights_ok f" and "(\<Sum>(i, b) \<leftarrow> inflight f. unat b) < 2 ^ 64"
  shows "unat (infl_bytes f) = (\<Sum>(i, b) \<leftarrow> inflight f. unat b)"
proof -
  have "map unat (map snd (inflight f)) = map (\<lambda>(i, b). unat b) (inflight f)"
    by auto
  with assms show ?thesis
    using unat_sum_list_exact [of "map snd (inflight f)"]
    by (simp add: inflights_ok_def del: map_map)
qed

section \<open>Progress\<close>

datatype ProgressState =
    Probe
  | Replicate
  | Snapshot (pending: index) (acked_through: u64) (snap_total: u64)

record progress =
  match_index :: index
  next_index :: index
  pr_state :: ProgressState
  pr_inflight :: inflights
  msg_app_flow_paused :: bool
  recent_active :: bool

definition progress_new :: "index \<Rightarrow> nat \<Rightarrow> u64 \<Rightarrow> progress" where
  "progress_new next msgs cap =
     \<lparr>match_index = 0, next_index = next, pr_state = Probe,
      pr_inflight = inflights_new msgs cap,
      msg_app_flow_paused = False, recent_active = False\<rparr>"

definition is_paused :: "progress \<Rightarrow> bool" where
  "is_paused p =
     (case pr_state p of
        Probe \<Rightarrow> msg_app_flow_paused p
      | Replicate \<Rightarrow> inflights_full (pr_inflight p)
      | Snapshot _ _ _ \<Rightarrow> True)"

definition sent_entries :: "index \<Rightarrow> u64 \<Rightarrow> progress \<Rightarrow> progress" where
  "sent_entries last_i b p =
     (case pr_state p of
        Probe \<Rightarrow> p\<lparr>msg_app_flow_paused := True\<rparr>
      | Replicate \<Rightarrow>
          let p = p\<lparr>pr_inflight := inflights_add last_i b (pr_inflight p)\<rparr>
          in if last_i \<ge> next_index p then p\<lparr>next_index := counter_next last_i\<rparr> else p
      | Snapshot _ _ _ \<Rightarrow> p)"

definition become_probe :: "progress \<Rightarrow> progress" where
  "become_probe p =
     p\<lparr>pr_state := Probe, next_index := counter_next (match_index p),
       pr_inflight := inflights_reset (pr_inflight p), msg_app_flow_paused := False\<rparr>"

definition become_snapshot :: "index \<Rightarrow> u64 \<Rightarrow> progress \<Rightarrow> progress" where
  "become_snapshot pending_snapshot tot p =
     (if match_index p \<ge> pending_snapshot then become_probe p
      else p\<lparr>pr_state := Snapshot pending_snapshot 0 tot,
             pr_inflight := inflights_reset (pr_inflight p), msg_app_flow_paused := False\<rparr>)"

definition snapshot_acked :: "u64 \<Rightarrow> progress \<Rightarrow> progress" where
  "snapshot_acked offset p =
     (case pr_state p of
        Snapshot n acked tot \<Rightarrow>
          if offset \<le> tot then p\<lparr>pr_state := Snapshot n offset tot\<rparr> else p
      | _ \<Rightarrow> p)"

definition become_replicate :: "progress \<Rightarrow> progress" where
  "become_replicate p =
     p\<lparr>pr_state := Replicate, next_index := counter_next (match_index p),
       msg_app_flow_paused := False, pr_inflight := inflights_reset (pr_inflight p)\<rparr>"

definition maybe_update :: "index \<Rightarrow> progress \<Rightarrow> bool \<times> progress" where
  "maybe_update n p =
     (let updated = n > match_index p;
          p = (if updated then p\<lparr>match_index := n\<rparr> else p);
          p = (if next_index p \<le> n then p\<lparr>next_index := counter_next n\<rparr> else p);
          p = p\<lparr>pr_inflight := inflights_free_le n (pr_inflight p)\<rparr>;
          p = p\<lparr>msg_app_flow_paused := False\<rparr>;
          p = (case pr_state p of
                 Snapshot pend _ _ \<Rightarrow> if n \<ge> pend then become_probe p else p
               | _ \<Rightarrow> p)
      in (updated, p))"

definition clear_probe_pause :: "progress \<Rightarrow> progress" where
  "clear_probe_pause p = p\<lparr>msg_app_flow_paused := False\<rparr>"

definition set_recent_active :: "bool \<Rightarrow> progress \<Rightarrow> progress" where
  "set_recent_active v p = p\<lparr>recent_active := v\<rparr>"

definition free_inflight_on_heartbeat :: "progress \<Rightarrow> progress" where
  "free_inflight_on_heartbeat p =
     (if pr_state p = Replicate \<and> inflights_full (pr_inflight p)
      then p\<lparr>pr_inflight := inflights_free_first_one (pr_inflight p)\<rparr>
      else p)"

definition progress_decrement :: "progress \<Rightarrow> progress" where
  "progress_decrement p =
     p\<lparr>next_index := max (saturating_sub (next_index p) 1) 1, pr_state := Probe,
       pr_inflight := inflights_reset (pr_inflight p), msg_app_flow_paused := False\<rparr>"

definition set_next_index :: "index \<Rightarrow> progress \<Rightarrow> progress" where
  "set_next_index n p = p\<lparr>next_index := n\<rparr>"

lemmas progress_op_defs =
  sent_entries_def become_probe_def become_snapshot_def snapshot_acked_def become_replicate_def
  maybe_update_def clear_probe_pause_def set_recent_active_def free_inflight_on_heartbeat_def
  progress_decrement_def set_next_index_def

text \<open>The mutating operations of the type, and a run of them.\<close>

datatype progress_op =
    SentEntries index u64
  | BecomeSnapshot index u64
  | SnapshotAcked u64
  | BecomeReplicate
  | BecomeProbe
  | MaybeUpdate index
  | ClearProbePause
  | SetRecentActive bool
  | FreeInflightOnHeartbeat
  | Decrement
  | SetNextIndex index

fun progress_step :: "progress_op \<Rightarrow> progress \<Rightarrow> progress" where
  "progress_step (SentEntries n b) p = sent_entries n b p"
| "progress_step (BecomeSnapshot n t) p = become_snapshot n t p"
| "progress_step (SnapshotAcked n) p = snapshot_acked n p"
| "progress_step BecomeReplicate p = become_replicate p"
| "progress_step BecomeProbe p = become_probe p"
| "progress_step (MaybeUpdate n) p = snd (maybe_update n p)"
| "progress_step ClearProbePause p = clear_probe_pause p"
| "progress_step (SetRecentActive v) p = set_recent_active v p"
| "progress_step FreeInflightOnHeartbeat p = free_inflight_on_heartbeat p"
| "progress_step Decrement p = progress_decrement p"
| "progress_step (SetNextIndex n) p = set_next_index n p"

definition progress_run :: "progress_op list \<Rightarrow> progress \<Rightarrow> progress" where
  "progress_run ops p = fold progress_step ops p"

section \<open>The progress invariant\<close>

text \<open>
  A peer in the snapshot state is strictly behind the snapshot and its resume cursor lies
  within the blob; only a replicating peer has appends in flight.
\<close>

definition progress_ok :: "progress \<Rightarrow> bool" where
  "progress_ok p \<longleftrightarrow>
     inflights_ok (pr_inflight p) \<and>
     (case pr_state p of
        Replicate \<Rightarrow> True
      | Probe \<Rightarrow> inflight (pr_inflight p) = []
      | Snapshot n acked tot \<Rightarrow>
          match_index p < n \<and> acked \<le> tot \<and> inflight (pr_inflight p) = [])"

lemma progress_new_ok: "progress_ok (progress_new n m b)"
  by (simp add: progress_ok_def progress_new_def)

lemma progress_step_ok: "progress_ok p \<Longrightarrow> progress_ok (progress_step op p)"
  by (cases op; cases "pr_state p")
    (auto simp: progress_ok_def progress_op_defs Let_def not_le)

lemma progress_run_ok: "progress_ok p \<Longrightarrow> progress_ok (progress_run ops p)"
  unfolding progress_run_def
  by (induction ops arbitrary: p) (auto dest: progress_step_ok)

section \<open>The match index\<close>

lemma match_index_maybe_update:
  "match_index (snd (maybe_update n p)) = max (match_index p) n"
  by (auto simp: maybe_update_def Let_def become_probe_def max_def
      split: ProgressState.splits)

lemma maybe_update_updated: "fst (maybe_update n p) \<longleftrightarrow> match_index p < n"
  by (simp add: maybe_update_def Let_def)

fun acked_by_op :: "progress_op \<Rightarrow> index" where
  "acked_by_op (MaybeUpdate n) = n"
| "acked_by_op _ = 0"

lemma match_index_step: "match_index (progress_step op p) = max (match_index p) (acked_by_op op)"
  by (cases op)
    (auto simp: match_index_maybe_update progress_op_defs Let_def split: ProgressState.splits)

lemma match_index_run:
  "match_index (progress_run ops p) = fold (\<lambda>op m. max m (acked_by_op op)) ops (match_index p)"
  unfolding progress_run_def
  by (induction ops arbitrary: p) (auto simp: match_index_step)

section \<open>The next index\<close>

text \<open>
  The leader sends from above what the peer holds. At the ceiling of the counter the
  saturated next index is the ceiling itself.
\<close>

definition next_ok :: "progress \<Rightarrow> bool" where
  "next_ok p \<longleftrightarrow> match_index p < next_index p \<or> match_index p = u64_max \<and> next_index p = u64_max"

fun raw_next_op :: "progress_op \<Rightarrow> bool" where
  "raw_next_op Decrement = True"
| "raw_next_op (SetNextIndex _) = True"
| "raw_next_op _ = False"

lemma next_ok_after_counter_next:
  "next_index p = counter_next (match_index p) \<Longrightarrow> next_ok p"
  by (cases "match_index p = u64_max") (auto simp: next_ok_def counter_simps)

lemma next_index_maybe_update:
  "next_index (snd (maybe_update n p)) =
     (case pr_state p of
        Snapshot pend _ _ \<Rightarrow>
          if pend \<le> n then counter_next (max (match_index p) n)
          else if next_index p \<le> n then counter_next n else next_index p
      | _ \<Rightarrow> if next_index p \<le> n then counter_next n else next_index p)"
  by (cases "pr_state p") (auto simp: maybe_update_def Let_def become_probe_def max_def)

lemma next_ok_maybe_update:
  assumes "match_index p \<le> n \<or> next_ok p"
  shows "next_ok (snd (maybe_update n p))"
proof -
  let ?q = "snd (maybe_update n p)"
  have "next_index ?q = counter_next (match_index ?q) \<or>
      next_index p \<le> n \<and> next_index ?q = counter_next n \<or>
      n < next_index p \<and> next_index ?q = next_index p"
    by (cases "pr_state p") (auto simp: next_index_maybe_update match_index_maybe_update)
  then consider (probe) "next_index ?q = counter_next (match_index ?q)"
    | (bump) "next_index p \<le> n" "next_index ?q = counter_next n"
    | (keep) "n < next_index p" "next_index ?q = next_index p"
    by blast
  then show ?thesis
  proof cases
    case probe
    then show ?thesis by (rule next_ok_after_counter_next)
  next
    case bump
    with assms have "match_index p \<le> n" by (auto simp: next_ok_def)
    with bump show ?thesis
      by (intro next_ok_after_counter_next) (simp add: match_index_maybe_update max_absorb2)
  next
    case keep
    with assms show ?thesis
      by (auto simp: next_ok_def match_index_maybe_update)
  qed
qed

lemma next_ok_sent_entries: "next_ok p \<Longrightarrow> next_ok (sent_entries n b p)"
proof (cases "pr_state p = Replicate \<and> next_index p \<le> n")
  case True
  assume "next_ok p"
  moreover have "next_index p \<le> counter_next n"
    using True counter_next_ge [of n] by (auto intro: order_trans)
  ultimately show ?thesis
    using True by (auto simp: next_ok_def sent_entries_def Let_def word_order.extremum_unique)
next
  case False
  assume "next_ok p"
  with False show ?thesis
    by (cases "pr_state p") (auto simp: next_ok_def sent_entries_def Let_def)
qed

lemma next_ok_step:
  assumes "next_ok p" and "\<not> raw_next_op op"
  shows "next_ok (progress_step op p)"
proof (cases op)
  case (MaybeUpdate n)
  with assms show ?thesis by (simp add: next_ok_maybe_update)
next
  case (SentEntries n b)
  with assms show ?thesis by (simp add: next_ok_sent_entries)
next
  case (BecomeSnapshot n t)
  with assms show ?thesis
    by (auto simp: become_snapshot_def become_probe_def next_ok_after_counter_next)
      (simp add: next_ok_def)
next
  case (SnapshotAcked n)
  with assms show ?thesis
    by (cases "pr_state p") (auto simp: snapshot_acked_def next_ok_def)
next
  case BecomeReplicate
  then show ?thesis by (simp add: become_replicate_def next_ok_after_counter_next)
next
  case BecomeProbe
  then show ?thesis by (simp add: become_probe_def next_ok_after_counter_next)
qed (use assms in \<open>auto simp: clear_probe_pause_def set_recent_active_def
      free_inflight_on_heartbeat_def next_ok_def\<close>)

lemma next_ok_run:
  "next_ok p \<Longrightarrow> list_all (\<lambda>op. \<not> raw_next_op op) ops \<Longrightarrow> next_ok (progress_run ops p)"
  unfolding progress_run_def
  by (induction ops arbitrary: p) (auto simp: next_ok_step)

section \<open>Flow control\<close>

text \<open>
  The leader sends only to a peer that is not paused. Under that discipline the window
  never holds more than its message cap, and all but its newest message fit the byte cap.
  The byte counter is compared after it may have wrapped, so the bound on bytes holds for
  messages whose size leaves the cap room in the counter's width.
\<close>

fun gated_step :: "progress_op \<Rightarrow> progress \<Rightarrow> progress" where
  "gated_step (SentEntries n b) p = (if is_paused p then p else sent_entries n b p)"
| "gated_step op p = progress_step op p"

definition sizes :: "(index \<times> u64) list \<Rightarrow> nat" where
  "sizes q = (\<Sum>(i, b) \<leftarrow> q. unat b)"

definition window_ok :: "u64 \<Rightarrow> (index \<times> u64) list \<Rightarrow> bool" where
  "window_ok cap q \<longleftrightarrow>
     cap \<noteq> 0 \<longrightarrow> sizes q < 2 ^ 64 \<and> (q \<noteq> [] \<longrightarrow> sizes (butlast q) < unat cap)"

definition gated_ok :: "nat \<Rightarrow> u64 \<Rightarrow> progress \<Rightarrow> bool" where
  "gated_ok msgs cap p \<longleftrightarrow>
     max_msgs (pr_inflight p) = msgs \<and> max_bytes (pr_inflight p) = cap \<and> progress_ok p \<and>
     length (inflight (pr_inflight p)) \<le> msgs \<and> window_ok cap (inflight (pr_inflight p))"

fun fits_cap :: "u64 \<Rightarrow> progress_op \<Rightarrow> bool" where
  "fits_cap cap (SentEntries n b) \<longleftrightarrow> unat cap + unat b < 2 ^ 64"
| "fits_cap cap _ \<longleftrightarrow> True"

lemma sizes_simps [simp]:
  "sizes [] = 0" "sizes (x # q) = unat (snd x) + sizes q" "sizes (q @ r) = sizes q + sizes r"
  by (auto simp: sizes_def split: prod.splits)

lemma window_ok_suffix: "window_ok cap (r @ q) \<Longrightarrow> window_ok cap q"
  by (auto simp: window_ok_def butlast_append)

lemma window_ok_trivial [simp]: "window_ok cap []" "window_ok 0 q"
  by (simp_all add: window_ok_def)

lemma window_ok_dropWhile: "window_ok cap q \<Longrightarrow> window_ok cap (dropWhile P q)"
  using window_ok_suffix [of cap "takeWhile P q" "dropWhile P q"] by simp

lemma window_ok_tl: "window_ok cap q \<Longrightarrow> window_ok cap (tl q)"
  using window_ok_suffix [of cap "take 1 q" "tl q"] by (cases q) auto

lemma window_ok_add:
  assumes "inflights_ok f" and "\<not> inflights_full f" and "window_ok (max_bytes f) (inflight f)"
    and "unat (max_bytes f) + unat b < 2 ^ 64"
  shows "window_ok (max_bytes f) (inflight f @ [(i, b)])"
proof (cases "max_bytes f = 0")
  case False
  with assms(3) have "sizes (inflight f) < 2 ^ 64" by (simp add: window_ok_def)
  with assms(1) have "unat (infl_bytes f) = sizes (inflight f)"
    by (simp add: inflights_bytes_exact sizes_def)
  moreover have "infl_bytes f < max_bytes f" using assms(2) False by (auto simp: inflights_full_def)
  ultimately have "sizes (inflight f) < unat (max_bytes f)" by (simp add: word_less_nat_alt)
  with assms(4) show ?thesis by (simp add: window_ok_def)
qed (simp add: window_ok_def)

lemma gated_step_inflight:
  assumes "fits_cap cap op" and "gated_ok msgs cap p"
  shows "length (inflight (pr_inflight (gated_step op p))) \<le> msgs \<and>
    window_ok cap (inflight (pr_inflight (gated_step op p)))"
proof (cases op)
  case (SentEntries n b)
  with assms show ?thesis
    by (cases "pr_state p")
      (auto simp: gated_ok_def sent_entries_def is_paused_def Let_def progress_ok_def
        window_ok_add inflights_full_def)
next
  case (MaybeUpdate n)
  have "length (dropWhile P (inflight (pr_inflight p))) \<le> msgs" for P
    using assms length_dropWhile_le [of P "inflight (pr_inflight p)"] by (simp add: gated_ok_def)
  with assms MaybeUpdate show ?thesis
    by (cases "pr_state p")
      (auto simp: gated_ok_def maybe_update_def become_probe_def Let_def window_ok_dropWhile)
qed (use assms in \<open>cases "pr_state p"; auto simp: gated_ok_def progress_op_defs window_ok_tl\<close>)+

lemma gated_step_caps:
  "max_msgs (pr_inflight (gated_step op p)) = max_msgs (pr_inflight p) \<and>
   max_bytes (pr_inflight (gated_step op p)) = max_bytes (pr_inflight p)"
  by (cases op; cases "pr_state p") (auto simp: progress_op_defs Let_def)

lemma gated_step_ok:
  assumes "fits_cap cap op" and "gated_ok msgs cap p"
  shows "gated_ok msgs cap (gated_step op p)"
proof -
  have "gated_step op p = p \<or> gated_step op p = progress_step op p" by (cases op) auto
  then have "progress_ok (gated_step op p)"
    using assms(2) progress_step_ok [of p op] by (auto simp: gated_ok_def)
  with assms show ?thesis
    using gated_step_inflight [OF assms] gated_step_caps [of op p] by (auto simp: gated_ok_def)
qed

lemma gated_run_ok:
  "list_all (fits_cap cap) ops \<Longrightarrow> gated_ok msgs cap p \<Longrightarrow> gated_ok msgs cap (fold gated_step ops p)"
  by (induction ops arbitrary: p) (auto simp: gated_step_ok)

section \<open>Properties\<close>

text \<open>
  C17: after any sequence of the mutating operations, a peer that is in the snapshot state is
  strictly behind the snapshot it waits for and its resume cursor lies within the blob, the
  in-flight byte counter is the sum of the sizes in flight, and a peer that is not
  replicating has nothing in flight. The stall in which a caught-up peer stays paused for a
  snapshot it does not need cannot arise.
\<close>

theorem progress_invariant: "progress_ok (progress_run ops (progress_new n msgs cap))"
  by (intro progress_run_ok progress_new_ok)

text \<open>
  C18: the match index never depends on anything but the acknowledgements: after any sequence
  of operations it is the greatest index ever acknowledged, so it never decreases.
\<close>

theorem match_index_is_greatest_ack:
  "match_index (progress_run ops (progress_new n msgs cap)) = Max (insert 0 (acked_by_op ` set ops))"
proof -
  have "fold (\<lambda>op m. max m (acked_by_op op)) ops m0 = Max (insert m0 (acked_by_op ` set ops))" for m0
  proof (induction ops arbitrary: m0)
    case (Cons op ops)
    have "Max (insert m0 (acked_by_op ` set (op # ops))) =
        Max (insert m0 (insert (acked_by_op op) (acked_by_op ` set ops)))" by simp
    also have "\<dots> = max m0 (Max (insert (acked_by_op op) (acked_by_op ` set ops)))"
      by (rule Max_insert) simp_all
    also have "\<dots> = Max (insert (max m0 (acked_by_op op)) (acked_by_op ` set ops))"
      by (cases "acked_by_op ` set ops = {}") (simp_all add: max.assoc)
    finally show ?case using Cons by simp
  qed simp
  then show ?thesis by (simp add: match_index_run progress_new_def)
qed

text \<open>
  C19: as long as the raw next-index setters are not used, the leader sends from strictly above
  what the peer holds (or both counters are saturated at their ceiling); and whatever the
  setters left behind, one acknowledgement at or above the match index re-establishes this.
\<close>

theorem next_index_above_match:
  assumes "next_ok p" and "list_all (\<lambda>op. \<not> raw_next_op op) ops" and "match_index q \<le> n"
  shows "next_ok (progress_run ops p) \<and> next_ok (snd (maybe_update n q))"
  using assms by (simp add: next_ok_run next_ok_maybe_update)

theorem next_index_above_match_witness:
  "next_ok (progress_run [BecomeReplicate, SentEntries 4 10, MaybeUpdate 4] (progress_new 1 8 0)) \<and>
   next_ok (snd (maybe_update 5 (progress_run [MaybeUpdate 5, SetNextIndex 2] (progress_new 1 8 0))))"
  using next_index_above_match [of "progress_new 1 8 0"
      "[BecomeReplicate, SentEntries 4 10, MaybeUpdate 4]"
      "progress_run [MaybeUpdate 5, SetNextIndex 2] (progress_new 1 8 0)" 5]
  by (simp add: next_ok_def progress_new_def match_index_run)

text \<open>
  C20: flow control. Where the leader sends only to a peer that is not paused, the number of
  unacknowledged messages in flight never exceeds the configured cap, and with a byte cap
  the bytes in flight exceed it by at most the newest message, whatever sequence of
  acknowledgements, heartbeats, rejections and snapshots is interleaved.
\<close>

theorem window_never_exceeds_cap:
  assumes "list_all (fits_cap cap) ops"
    and "q = inflight (pr_inflight (fold gated_step ops (progress_new n msgs cap)))"
  shows "length q \<le> msgs \<and> (cap = 0 \<or> q = [] \<or> sizes (butlast q) < unat cap)"
proof -
  have "gated_ok msgs cap (progress_new n msgs cap)"
    by (simp add: gated_ok_def progress_new_ok) (simp add: progress_new_def inflights_new_def)
  from gated_run_ok [OF assms(1) this] show ?thesis
    by (auto simp: assms(2) gated_ok_def window_ok_def)
qed

theorem window_never_exceeds_cap_witness:
  "let q = inflight (pr_inflight (fold gated_step
       [BecomeReplicate, SentEntries 1 10, SentEntries 2 10, SentEntries 3 10] (progress_new 1 8 15)))
   in q = [(1, 10), (2, 10)] \<and> length q \<le> 8 \<and> sizes (butlast q) < 15"
proof -
  define q where "q = inflight (pr_inflight (fold gated_step
       [BecomeReplicate, SentEntries 1 10, SentEntries 2 10, SentEntries 3 10] (progress_new 1 8 15)))"
  have "q = [(1, 10), (2, 10)]" 
    by (simp add: q_def progress_new_def inflights_new_def is_paused_def inflights_full_def
        inflights_add_def inflights_reset_def sent_entries_def become_replicate_def Let_def
        counter_next_def saturating_add_def)
  moreover have "length q \<le> 8 \<and> (15 = (0 :: u64) \<or> q = [] \<or> sizes (butlast q) < unat (15 :: u64))"
    by (rule window_never_exceeds_cap [OF _ q_def]) simp
  ultimately show ?thesis unfolding q_def [symmetric] Let_def by simp
qed

end
