(* ===== verification/Progress_Map.thy ===== *)
theory Progress_Map
  imports Sailing_Prelude
begin

text \<open>
  The association list the tracker keeps its peers in, \<open>ProgressMap\<close> of
  \<^verbatim>\<open>sailing-proto/src/tracker/mod.rs\<close>: a vector in strictly ascending key order searched by
  bisection. The locale \<open>ordered_map\<close> is what the tracker relies on, a finite map with
  its keys in order; the interpretation \<open>pm\<close> discharges the laws for the bisecting
  operations.
\<close>

section \<open>Bisection\<close>

text \<open>
  \<^verbatim>\<open>slice::binary_search_by\<close>: a position holding the key, or the position to insert it at.
\<close>

function bisect :: "('k::linorder \<times> 'v) list \<Rightarrow> 'k \<Rightarrow> nat \<Rightarrow> nat \<Rightarrow> nat" where
  "bisect es k lo sz =
     (if sz > 1 then
        let half = sz div 2; mid = lo + half
        in bisect es k (if fst (es ! mid) > k then lo else mid) (sz - half)
      else lo)"
  by auto
termination by (relation "measure (\<lambda>(es, k, lo, sz). sz)") auto

declare bisect.simps [simp del]

definition binary_search :: "('k::linorder \<times> 'v) list \<Rightarrow> 'k \<Rightarrow> (nat, nat) result" where
  "binary_search es k =
     (if es = [] then Err 0
      else
        let b = bisect es k 0 (length es) in
        if fst (es ! b) = k then Ok b
        else Err (b + (if fst (es ! b) < k then 1 else 0)))"

section \<open>The map\<close>

type_synonym ('k, 'v) pmap = "('k \<times> 'v) list"

definition pm_new :: "('k, 'v) pmap" where
  "pm_new = []"

definition pm_keys :: "('k, 'v) pmap \<Rightarrow> 'k list" where
  "pm_keys m = map fst m"

definition pm_values_mut :: "('v \<Rightarrow> 'v) \<Rightarrow> ('k, 'v) pmap \<Rightarrow> ('k, 'v) pmap" where
  "pm_values_mut f m = map (\<lambda>(k, v). (k, f v)) m"

definition pm_clear :: "('k, 'v) pmap \<Rightarrow> ('k, 'v) pmap" where
  "pm_clear m = []"

definition pm_get :: "('k::linorder, 'v) pmap \<Rightarrow> 'k \<Rightarrow> 'v option" where
  "pm_get m k = (case binary_search m k of Ok i \<Rightarrow> Some (snd (m ! i)) | Err _ \<Rightarrow> None)"

text \<open>Updating through the exclusive reference \<open>get_mut\<close> returns; nothing where it is absent.\<close>

definition pm_get_mut :: "'k::linorder \<Rightarrow> ('v \<Rightarrow> 'v) \<Rightarrow> ('k, 'v) pmap \<Rightarrow> ('k, 'v) pmap" where
  "pm_get_mut k f m =
     (case binary_search m k of
        Ok i \<Rightarrow> m[i := (fst (m ! i), f (snd (m ! i)))]
      | Err _ \<Rightarrow> m)"

definition pm_contains_key :: "('k::linorder, 'v) pmap \<Rightarrow> 'k \<Rightarrow> bool" where
  "pm_contains_key m k = is_ok (binary_search m k)"

definition pm_insert :: "'k::linorder \<Rightarrow> 'v \<Rightarrow> ('k, 'v) pmap \<Rightarrow> ('k, 'v) pmap" where
  "pm_insert k v m =
     (case binary_search m k of
        Ok i \<Rightarrow> m[i := (fst (m ! i), v)]
      | Err i \<Rightarrow> take i m @ (k, v) # drop i m)"

definition pm_remove :: "'k::linorder \<Rightarrow> ('k, 'v) pmap \<Rightarrow> ('k, 'v) pmap" where
  "pm_remove k m =
     (case binary_search m k of
        Ok i \<Rightarrow> take i m @ drop (Suc i) m
      | Err _ \<Rightarrow> m)"

section \<open>Correctness of the search\<close>

definition pm_wf :: "('k::linorder, 'v) pmap \<Rightarrow> bool" where
  "pm_wf m \<longleftrightarrow> sorted_wrt (<) (map fst m)"

lemma bisect_spec:
  assumes "pm_wf m" and "0 < sz" and "lo + sz \<le> length m"
    and "lo = 0 \<or> fst (m ! lo) \<le> k"
    and "\<forall>j. lo + sz \<le> j \<and> j < length m \<longrightarrow> k < fst (m ! j)"
  shows "bisect m k lo sz < length m \<and>
    (bisect m k lo sz = 0 \<or> fst (m ! bisect m k lo sz) \<le> k) \<and>
    (\<forall>j. bisect m k lo sz < j \<and> j < length m \<longrightarrow> k < fst (m ! j))"
  using assms
proof (induction m k lo sz rule: bisect.induct)
  case (1 m k lo sz)
  show ?case
  proof (cases "sz > 1")
    case True
    let ?mid = "lo + sz div 2"
    let ?lo = "if fst (m ! ?mid) > k then lo else ?mid"
    have mid: "?mid < length m" using 1(4) True by linarith
    have above: "k < fst (m ! j)" if "fst (m ! ?mid) > k" "?mid \<le> j" "j < length m" for j
      using sorted_wrt_nth_less [of "(<)" "map fst m" ?mid j] that 1(2) mid
      by (cases "j = ?mid") (auto simp: pm_wf_def)
    have rest: "k < fst (m ! j)" if "?lo + (sz - sz div 2) \<le> j" "j < length m" for j
    proof (cases "fst (m ! ?mid) > k")
      case True
      with that have "?mid \<le> j" by simp
      with True that show ?thesis by (simp add: above)
    next
      case False
      with that have "lo + sz \<le> j" by simp
      with that 1(6) show ?thesis by blast
    qed
    have step: "bisect m k lo sz = bisect m k ?lo (sz - sz div 2)"
      using True by (subst bisect.simps) (simp only: Let_def if_True)
    have lo: "?lo = 0 \<or> fst (m ! ?lo) \<le> k" using 1(5) by auto
    have sz: "0 < sz - sz div 2" "?lo + (sz - sz div 2) \<le> length m"
      using True 1(4) by auto
    show ?thesis
      unfolding step by (rule 1(1) [OF True refl refl 1(2) sz lo]) (use rest in blast)
  next
    case False
    then have "bisect m k lo sz = lo" by (simp add: bisect.simps)
    with False 1 show ?thesis by auto
  qed
qed

lemma binary_search_spec:
  assumes "pm_wf m"
  shows "(\<forall>i. binary_search m k = Ok i \<longrightarrow> i < length m \<and> fst (m ! i) = k) \<and>
    (\<forall>i. binary_search m k = Err i \<longrightarrow> i \<le> length m \<and>
       (\<forall>j < i. fst (m ! j) < k) \<and> (\<forall>j. i \<le> j \<and> j < length m \<longrightarrow> k < fst (m ! j)))"
proof (cases "m = []")
  case False
  let ?b = "bisect m k 0 (length m)"
  have none: "\<forall>j. 0 + length m \<le> j \<and> j < length m \<longrightarrow> k < fst (m ! j)" by auto
  have b: "?b < length m" "?b = 0 \<or> fst (m ! ?b) \<le> k"
    "\<And>j. ?b < j \<Longrightarrow> j < length m \<Longrightarrow> k < fst (m ! j)"
    using bisect_spec [OF assms _ _ _ none] False by simp_all
  have low: "fst (m ! j) < fst (m ! ?b)" if "j < ?b" for j
    using sorted_wrt_nth_less [of "(<)" "map fst m" j ?b] that b(1) assms by (simp add: pm_wf_def)
  consider "fst (m ! ?b) = k" | "fst (m ! ?b) < k" | "?b = 0" "k < fst (m ! ?b)"
    using b(2) by fastforce
  then show ?thesis
  proof cases
    case 2
    then have "fst (m ! j) < k" if "j \<le> ?b" for j
      using low [of j] that by (cases "j = ?b") auto
    with 2 b False show ?thesis by (auto simp: binary_search_def Let_def less_Suc_eq_le)
  next
    case 3
    then have "k < fst (m ! j)" if "j < length m" for j
      using b(3) [of j] that by (cases "j = 0") auto
    moreover from 3 have "\<not> fst (m ! ?b) < k" "fst (m ! ?b) \<noteq> k" by auto
    ultimately show ?thesis using 3(1) False by (auto simp: binary_search_def Let_def)
  qed (use b False in \<open>auto simp: binary_search_def Let_def\<close>)
qed (simp add: binary_search_def)

lemma binary_search_cases:
  assumes "pm_wf m"
  obtains (found) a v b where "m = a @ (k, v) # b" "binary_search m k = Ok (length a)"
      "\<forall>x \<in> set a. fst x < k" "\<forall>x \<in> set b. k < fst x"
    | (missing) a b where "m = a @ b" "binary_search m k = Err (length a)"
      "\<forall>x \<in> set a. fst x < k" "\<forall>x \<in> set b. k < fst x"
proof (cases "binary_search m k")
  case (Ok i)
  with binary_search_spec [OF assms] have i: "i < length m" "fst (m ! i) = k" by auto
  then have m: "m = take i m @ (k, snd (m ! i)) # drop (Suc i) m"
    by (metis id_take_nth_drop prod.collapse)
  have w: "sorted_wrt (<) (map fst (take i m) @ k # map fst (drop (Suc i) m))"
    using assms m by (metis (no_types, lifting) fst_conv list.simps(9) map_append pm_wf_def)
  show ?thesis
    by (rule found [OF m]) (use i Ok w in \<open>auto simp: sorted_wrt_append\<close>)
next
  case (Err i)
  with binary_search_spec [OF assms] have i: "i \<le> length m" "\<forall>j < i. fst (m ! j) < k"
    "\<forall>j. i \<le> j \<and> j < length m \<longrightarrow> k < fst (m ! j)" by auto
  show ?thesis
    by (rule missing [of "take i m" "drop i m"])
      (use i Err in \<open>simp_all add: list_all_iff [symmetric] list_all_length\<close>)
qed

section \<open>The interface of the tracker\<close>

text \<open>A finite map with its keys in ascending order, and what follows for a fold of insertions.\<close>

locale ordered_map =
  fixes inv :: "'m \<Rightarrow> bool"
    and lookup :: "'m \<Rightarrow> 'k::linorder \<Rightarrow> 'v option"
    and ins :: "'k \<Rightarrow> 'v \<Rightarrow> 'm \<Rightarrow> 'm"
    and del :: "'k \<Rightarrow> 'm \<Rightarrow> 'm"
    and ks :: "'m \<Rightarrow> 'k list"
  assumes inv_ins: "inv m \<Longrightarrow> inv (ins k v m)"
    and inv_del: "inv m \<Longrightarrow> inv (del k m)"
    and lookup_ins: "inv m \<Longrightarrow> lookup (ins k v m) = (lookup m)(k \<mapsto> v)"
    and lookup_del: "inv m \<Longrightarrow> lookup (del k m) = (lookup m)(k := None)"
    and ascending: "inv m \<Longrightarrow> sorted_wrt (<) (ks m)"
    and set_ks: "inv m \<Longrightarrow> set (ks m) = dom (lookup m)"
begin

lemma inv_fold: "inv m \<Longrightarrow> inv (fold (\<lambda>k. ins k v) xs m)"
  by (induction xs arbitrary: m) (auto simp: inv_ins)

lemma lookup_fold:
  "inv m \<Longrightarrow> lookup (fold (\<lambda>k. ins k v) xs m) = (\<lambda>k. if k \<in> set xs then Some v else lookup m k)"
  by (induction xs arbitrary: m) (auto simp: inv_ins lookup_ins)

lemma keys_unique:
  "inv m \<Longrightarrow> inv m' \<Longrightarrow> dom (lookup m) = dom (lookup m') \<Longrightarrow> ks m = ks m'"
  by (rule strict_sorted_equal) (simp_all add: ascending set_ks)

text \<open>Inserting only where the key is absent gives the same map as inserting every distinct key.\<close>

lemma fold_guarded:
  "inv m \<Longrightarrow> lookup m = (\<lambda>k. if k \<in> K then Some v else None) \<Longrightarrow>
   m' = fold (\<lambda>k m. if lookup m k = None then ins k v m else m) xs m \<Longrightarrow>
   inv m' \<and> lookup m' = (\<lambda>k. if k \<in> K \<union> set xs then Some v else None)"
proof (induction xs arbitrary: m K)
  case (Cons x xs)
  let ?m = "if lookup m x = None then ins x v m else m"
  have "inv ?m" using Cons.prems(1) by (simp add: inv_ins)
  moreover have "lookup ?m = (\<lambda>k. if k \<in> insert x K then Some v else None)"
    using Cons.prems(1,2) by (auto simp: lookup_ins)
  ultimately show ?case using Cons.IH [of ?m "insert x K"] Cons.prems(3) by simp
qed simp

end

lemma pm_get_eq: "pm_wf m \<Longrightarrow> pm_get m = map_of m"
proof
  fix k assume wf: "pm_wf m"
  from wf show "pm_get m k = map_of m k"
  proof (cases rule: binary_search_cases [where k = k])
    case (found a v b)
    then have "map_of a k = None" by (fastforce simp: map_of_eq_None_iff)
    with found(1,2) show ?thesis by (simp add: pm_get_def map_add_def)
  next
    case (missing a b)
    then have "map_of m k = None" by (fastforce simp: map_of_eq_None_iff)
    with missing(2) show ?thesis by (simp add: pm_get_def del: map_of_append)
  qed
qed

lemma pm_wf_append:
  "pm_wf (a @ b) \<longleftrightarrow> pm_wf a \<and> pm_wf b \<and> (\<forall>x \<in> set a. \<forall>y \<in> set b. fst x < fst y)"
  by (auto simp: pm_wf_def sorted_wrt_append)

lemma pm_wf_Cons: "pm_wf ((k, v) # b) \<longleftrightarrow> pm_wf b \<and> (\<forall>y \<in> set b. k < fst y)"
  by (auto simp: pm_wf_def)

lemma pm_wf_Nil [simp]: "pm_wf []"
  by (simp add: pm_wf_def)

lemma map_of_less [simp]: "\<forall>x \<in> set a. fst x < (k :: _ :: order) \<Longrightarrow> map_of a k = None"
  by (force simp: map_of_eq_None_iff)

lemma map_of_greater [simp]: "\<forall>x \<in> set a. (k :: _ :: order) < fst x \<Longrightarrow> map_of a k = None"
  by (force simp: map_of_eq_None_iff)

text \<open>What each operation does to the list, by where the key lies.\<close>

lemma pm_ops_found:
  assumes "binary_search (a @ (k, v) # b) k = Ok (length a)"
  shows "pm_insert k w (a @ (k, v) # b) = a @ (k, w) # b"
    and "pm_remove k (a @ (k, v) # b) = a @ b"
    and "pm_get_mut k f (a @ (k, v) # b) = a @ (k, f v) # b"
  using assms by (simp_all add: pm_insert_def pm_remove_def pm_get_mut_def)

lemma pm_ops_missing:
  assumes "binary_search (a @ b) k = Err (length a)"
  shows "pm_insert k w (a @ b) = a @ (k, w) # b"
    and "pm_remove k (a @ b) = a @ b"
    and "pm_get_mut k f (a @ b) = a @ b"
  using assms by (simp_all add: pm_insert_def pm_remove_def pm_get_mut_def)

lemma pm_insert_laws:
  assumes "pm_wf m"
  shows "pm_wf (pm_insert k w m) \<and> map_of (pm_insert k w m) = (map_of m)(k \<mapsto> w)"
  using assms
proof (cases rule: binary_search_cases [where k = k])
  case (found a v b)
  with assms show ?thesis
    by (simp add: pm_ops_found pm_wf_append pm_wf_Cons) (auto simp: map_add_def fun_eq_iff split: option.splits)
next
  case (missing a b)
  with assms show ?thesis
    by (simp add: pm_ops_missing pm_wf_append pm_wf_Cons)
      (auto simp: map_add_def fun_eq_iff split: option.splits)
qed

lemma pm_remove_laws:
  assumes "pm_wf m"
  shows "pm_wf (pm_remove k m) \<and> map_of (pm_remove k m) = (map_of m)(k := None)"
  using assms
proof (cases rule: binary_search_cases [where k = k])
  case (found a v b)
  with assms show ?thesis
    by (simp add: pm_ops_found pm_wf_append pm_wf_Cons) (auto simp: map_add_def fun_eq_iff split: option.splits)
next
  case (missing a b)
  with assms show ?thesis
    by (simp add: pm_ops_missing) (auto simp: map_add_def fun_eq_iff split: option.splits)
qed

lemma pm_get_mut_laws:
  assumes "pm_wf m"
  shows "pm_wf (pm_get_mut k f m) \<and>
    map_of (pm_get_mut k f m) = (map_of m)(k := map_option f (map_of m k))"
  using assms
proof (cases rule: binary_search_cases [where k = k])
  case (found a v b)
  with assms show ?thesis
    by (simp add: pm_ops_found pm_wf_append pm_wf_Cons) (auto simp: map_add_def fun_eq_iff split: option.splits)
next
  case (missing a b)
  with assms show ?thesis
    by (simp add: pm_ops_missing) (auto simp: map_add_def fun_eq_iff split: option.splits)
qed

lemma set_pm_keys: "pm_wf m \<Longrightarrow> set (pm_keys m) = dom (pm_get m)"
  by (simp add: pm_keys_def pm_get_eq dom_map_of_conv_image_fst)

interpretation pm: ordered_map pm_wf pm_get pm_insert pm_remove pm_keys
proof unfold_locales
  show "sorted_wrt (<) (pm_keys m)" if "pm_wf m" for m :: "('a, 'b) pmap"
    using that by (simp add: pm_wf_def pm_keys_def)
qed (simp_all add: pm_insert_laws pm_remove_laws pm_get_eq set_pm_keys)

lemma pm_wf_ops [simp]:
  "pm_wf pm_new" "pm_wf (pm_clear m)" "pm_wf m \<Longrightarrow> pm_wf (pm_insert k v m)"
  "pm_wf m \<Longrightarrow> pm_wf (pm_remove k m)" "pm_wf m \<Longrightarrow> pm_wf (pm_get_mut k f m)"
  "pm_wf m \<Longrightarrow> pm_wf (pm_values_mut g m)"
  by (simp_all add: pm_new_def pm_clear_def pm_get_mut_laws pm.inv_ins pm.inv_del)
    (simp add: pm_wf_def pm_values_mut_def comp_def case_prod_unfold)

lemma pm_get_ops [simp]:
  "pm_get pm_new k = None" "pm_get (pm_clear m) k = None"
  "pm_wf m \<Longrightarrow> pm_get (pm_insert j v m) k = (if k = j then Some v else pm_get m k)"
  "pm_wf m \<Longrightarrow> pm_get (pm_remove j m) k = (if k = j then None else pm_get m k)"
  "pm_wf m \<Longrightarrow> pm_get (pm_get_mut j f m) k =
     (if k = j then map_option f (pm_get m k) else pm_get m k)"
  "pm_wf m \<Longrightarrow> pm_get (pm_values_mut g m) k = map_option g (pm_get m k)"
proof -
  show "pm_get pm_new k = None" "pm_get (pm_clear m) k = None"
    by (simp_all add: pm_new_def pm_clear_def pm_get_eq)
  assume wf: "pm_wf m"
  then show "pm_get (pm_insert j v m) k = (if k = j then Some v else pm_get m k)"
    "pm_get (pm_remove j m) k = (if k = j then None else pm_get m k)"
    by (simp_all add: pm.lookup_ins pm.lookup_del)
  from wf show "pm_get (pm_get_mut j f m) k =
      (if k = j then map_option f (pm_get m k) else pm_get m k)"
    by (simp add: pm_get_eq pm_get_mut_laws)
  from wf show "pm_get (pm_values_mut g m) k = map_option g (pm_get m k)"
    by (simp add: pm_get_eq) (simp add: pm_values_mut_def map_of_map)
qed

lemma pm_get_Nil [simp]: "pm_get [] k = None"
  by (simp add: pm_get_eq)

lemma pm_contains_key_iff: "pm_contains_key m k \<longleftrightarrow> pm_get m k \<noteq> None"
  by (cases "binary_search m k") (simp_all add: pm_contains_key_def pm_get_def)

lemma pm_remove_absent: "pm_get m k = None \<Longrightarrow> pm_remove k m = m"
  by (cases "binary_search m k") (simp_all add: pm_get_def pm_remove_def)

section \<open>Property\<close>

text \<open>
  C21: the bisected vector refines a finite map. On a vector in ascending key order the
  bisecting lookup, insertion, removal and update through a reference are the operations of
  the map it stands for, whatever the key, and keep the order, so that the peers are visited in
  ascending order of their identifiers.
\<close>

theorem progress_map_refines_map:
  assumes "pm_wf m"
  shows "pm_get m = map_of m \<and>
    pm_get (pm_insert k v m) = (map_of m)(k \<mapsto> v) \<and>
    pm_get (pm_remove k m) = (map_of m)(k := None) \<and>
    pm_get (pm_get_mut k f m) = (map_of m)(k := map_option f (map_of m k)) \<and>
    pm_contains_key m k = (k \<in> dom (map_of m)) \<and>
    sorted_wrt (<) (pm_keys (pm_insert k v m)) \<and> sorted_wrt (<) (pm_keys (pm_remove k m))"
proof (intro conjI)
  show "pm_get (pm_get_mut k f m) = (map_of m)(k := map_option f (map_of m k))"
    using assms by (auto simp: pm_get_eq [symmetric] fun_eq_iff)
qed (use assms in \<open>auto simp: pm_get_eq pm_insert_laws pm_remove_laws pm_contains_key_iff
      intro: pm.ascending\<close>)

theorem progress_map_refines_map_witness:
  "let m = [(1 :: nat, ''a''), (4, ''b''), (9, ''c'')] in
     pm_get m 4 = Some ''b'' \<and> pm_get (pm_insert 5 ''d'' m) = (map_of m)(5 \<mapsto> ''d'') \<and>
     pm_get (pm_remove 9 m) = (map_of m)(9 := None)"
  using progress_map_refines_map [of "[(1 :: nat, ''a''), (4, ''b''), (9, ''c'')]" 5 "''d''"]
    progress_map_refines_map [of "[(1 :: nat, ''a''), (4, ''b''), (9, ''c'')]" 9]
  by (simp add: pm_wf_def)

end
