(* ===== verification/Conf.thy ===== *)
theory Conf
  imports Sailing_Prelude
begin

text \<open>
  Cluster configurations and the membership changes that transform them,
  \<^verbatim>\<open>sailing-proto/src/conf/mod.rs\<close>. A configuration has the incoming voters, the learners,
  the outgoing voters of a joint transition, the demotions staged until that transition ends,
  and the flag that asks the leader to end it. \<open>cs_is_valid\<close> is the check at the
  boundary where a configuration comes from a snapshot or from disk.
\<close>

section \<open>Configuration states\<close>

record 'i conf_state =
  cs_voters :: "'i btree_set"
  cs_learners :: "'i btree_set"
  cs_voters_outgoing :: "'i btree_set"
  cs_learners_next :: "'i btree_set"
  cs_auto_leave :: bool

definition cs_default :: "'i conf_state" where
  "cs_default =
     \<lparr>cs_voters = {||}, cs_learners = {||}, cs_voters_outgoing = {||}, cs_learners_next = {||},
      cs_auto_leave = False\<rparr>"

definition cs_new :: "'i list \<Rightarrow> 'i list \<Rightarrow> 'i list \<Rightarrow> 'i list \<Rightarrow> bool \<Rightarrow> 'i conf_state" where
  "cs_new voters learners voters_outgoing learners_next auto_leave =
     \<lparr>cs_voters = fset_of_list voters, cs_learners = fset_of_list learners,
      cs_voters_outgoing = fset_of_list voters_outgoing,
      cs_learners_next = fset_of_list learners_next, cs_auto_leave = auto_leave\<rparr>"

definition cs_from_voters :: "'i list \<Rightarrow> 'i conf_state" where
  "cs_from_voters voters = cs_default\<lparr>cs_voters := fset_of_list voters\<rparr>"

definition cs_is_joint :: "'i conf_state \<Rightarrow> bool" where
  "cs_is_joint cs \<longleftrightarrow> cs_voters_outgoing cs \<noteq> {||}"

definition cs_len :: "'i conf_state \<Rightarrow> nat" where
  "cs_len cs = fcard (cs_voters cs)"

definition cs_is_empty :: "'i conf_state \<Rightarrow> bool" where
  "cs_is_empty cs \<longleftrightarrow> cs_voters cs = {||}"

definition cs_is_voter :: "'i conf_state \<Rightarrow> 'i \<Rightarrow> bool" where
  "cs_is_voter cs i \<longleftrightarrow> i |\<in>| cs_voters cs"

definition cs_is_learner :: "'i conf_state \<Rightarrow> 'i \<Rightarrow> bool" where
  "cs_is_learner cs i \<longleftrightarrow> i |\<in>| cs_learners cs"

definition cs_is_valid :: "'i::linorder conf_state \<Rightarrow> bool" where
  "cs_is_valid cs =
     (if cs_voters cs = {||} then False
      else if list_ex (\<lambda>i. i |\<in>| cs_voters cs \<or> i |\<in>| cs_voters_outgoing cs)
                (btree_iter (cs_learners cs)) then False
      else if list_ex (\<lambda>i. i |\<notin>| cs_voters_outgoing cs \<or> i |\<in>| cs_voters cs)
                (btree_iter (cs_learners_next cs)) then False
      else if \<not> cs_is_joint cs \<and> (cs_learners_next cs \<noteq> {||} \<or> cs_auto_leave cs) then False
      else True)"

section \<open>Membership changes\<close>

datatype ConfChangeType = AddNode | RemoveNode | AddLearnerNode

fun cct_as_str :: "ConfChangeType \<Rightarrow> string" where
  "cct_as_str AddNode = ''add_node''"
| "cct_as_str RemoveNode = ''remove_node''"
| "cct_as_str AddLearnerNode = ''add_learner_node''"

datatype ConfChangeTransition = Auto | Implicit | Explicit

definition transition_default :: ConfChangeTransition where
  "transition_default = Auto"

fun transition_as_str :: "ConfChangeTransition \<Rightarrow> string" where
  "transition_as_str Auto = ''auto''"
| "transition_as_str Implicit = ''implicit''"
| "transition_as_str Explicit = ''explicit''"

record 'i conf_change_single =
  ccs_ty :: ConfChangeType
  ccs_node :: 'i

record 'i conf_change =
  cc_ty :: ConfChangeType
  cc_node :: 'i
  cc_context :: bytes

record 'i conf_change_v2 =
  v2_transition :: ConfChangeTransition
  v2_changes :: "'i conf_change_single list"
  v2_context :: bytes

definition into_v2 :: "'i conf_change \<Rightarrow> 'i conf_change_v2" where
  "into_v2 c =
     \<lparr>v2_transition = Auto, v2_changes = [\<lparr>ccs_ty = cc_ty c, ccs_node = cc_node c\<rparr>],
      v2_context = cc_context c\<rparr>"

definition v2_leave_joint :: "'i conf_change_v2" where
  "v2_leave_joint = \<lparr>v2_transition = Auto, v2_changes = [], v2_context = []\<rparr>"

section \<open>What a valid configuration is\<close>

lemma cs_is_valid_iff:
  "cs_is_valid cs \<longleftrightarrow>
     cs_voters cs \<noteq> {||} \<and>
     (\<forall>i. i |\<in>| cs_learners cs \<longrightarrow> i |\<notin>| cs_voters cs \<and> i |\<notin>| cs_voters_outgoing cs) \<and>
     (\<forall>i. i |\<in>| cs_learners_next cs \<longrightarrow> i |\<in>| cs_voters_outgoing cs \<and> i |\<notin>| cs_voters cs) \<and>
     (cs_is_joint cs \<or> cs_learners_next cs = {||} \<and> \<not> cs_auto_leave cs)"
proof -
  have "\<not> list_ex (\<lambda>i. i |\<in>| cs_voters cs \<or> i |\<in>| cs_voters_outgoing cs) (btree_iter (cs_learners cs)) \<longleftrightarrow>
      (\<forall>i. i |\<in>| cs_learners cs \<longrightarrow> i |\<notin>| cs_voters cs \<and> i |\<notin>| cs_voters_outgoing cs)"
    by (auto simp: list_ex_iff)
  moreover have "\<not> list_ex (\<lambda>i. i |\<notin>| cs_voters_outgoing cs \<or> i |\<in>| cs_voters cs) (btree_iter (cs_learners_next cs)) \<longleftrightarrow>
      (\<forall>i. i |\<in>| cs_learners_next cs \<longrightarrow> i |\<in>| cs_voters_outgoing cs \<and> i |\<notin>| cs_voters cs)"
    by (auto simp: list_ex_iff)
  ultimately show ?thesis unfolding cs_is_valid_def by argo
qed

end
