(* ===== verification/Tracker.thy ===== *)
theory Tracker
  imports Quorum Progress Progress_Map Conf
begin

text \<open>
  The membership a node runs with, \<open>Tracker\<close> of \<^verbatim>\<open>sailing-proto/src/tracker/mod.rs\<close>: the
  joint voter configuration, the learners, the staged demotions, and a \<open>Progress\<close> per
  member. The well-formedness invariant \<open>tracker_ok\<close> has the documented invariants of the
  type, and that exactly the members have a progress entry.
\<close>

section \<open>Model\<close>

record 'i tracker =
  tr_voters :: "'i joint_config"
  tr_learners :: "'i btree_set"
  tr_learners_next :: "'i btree_set"
  tr_auto_leave :: bool
  tr_progress :: "('i, progress) pmap"

definition tracker_new :: "'i tracker" where
  "tracker_new =
     \<lparr>tr_voters = jc_from_voters {||}, tr_learners = {||}, tr_learners_next = {||},
      tr_auto_leave = False, tr_progress = pm_new\<rparr>"

definition tr_is_joint :: "'i tracker \<Rightarrow> bool" where
  "tr_is_joint tr \<longleftrightarrow> \<not> mc_is_empty (jc_outgoing (tr_voters tr))"

definition reset_recent_active :: "'i::linorder \<Rightarrow> 'i tracker \<Rightarrow> 'i tracker" where
  "reset_recent_active leader_id tr =
     (let tr = tr\<lparr>tr_progress := pm_values_mut (set_recent_active False) (tr_progress tr)\<rparr>
      in tr\<lparr>tr_progress := pm_get_mut leader_id (set_recent_active True) (tr_progress tr)\<rparr>)"

definition tr_is_voter :: "'i tracker \<Rightarrow> 'i \<Rightarrow> bool" where
  "tr_is_voter tr i \<longleftrightarrow>
     mc_contains (jc_incoming (tr_voters tr)) i \<or> mc_contains (jc_outgoing (tr_voters tr)) i"

definition tr_is_learner :: "'i tracker \<Rightarrow> 'i \<Rightarrow> bool" where
  "tr_is_learner tr i \<longleftrightarrow> i |\<in>| tr_learners tr"

definition tr_is_learner_next :: "'i tracker \<Rightarrow> 'i \<Rightarrow> bool" where
  "tr_is_learner_next tr i \<longleftrightarrow> i |\<in>| tr_learners_next tr"

definition progress_of :: "'i::linorder tracker \<Rightarrow> 'i \<Rightarrow> progress option" where
  "progress_of tr i = pm_get (tr_progress tr) i"

definition progress_mut :: "'i::linorder \<Rightarrow> (progress \<Rightarrow> progress) \<Rightarrow> 'i tracker \<Rightarrow> 'i tracker" where
  "progress_mut i f tr = tr\<lparr>tr_progress := pm_get_mut i f (tr_progress tr)\<rparr>"

definition insert_progress :: "'i::linorder \<Rightarrow> progress \<Rightarrow> 'i tracker \<Rightarrow> 'i tracker" where
  "insert_progress i p tr = tr\<lparr>tr_progress := pm_insert i p (tr_progress tr)\<rparr>"

definition remove_progress :: "'i::linorder \<Rightarrow> 'i tracker \<Rightarrow> 'i tracker" where
  "remove_progress i tr = tr\<lparr>tr_progress := pm_remove i (tr_progress tr)\<rparr>"

definition from_conf_state :: "'i::linorder conf_state \<Rightarrow> index \<Rightarrow> nat \<Rightarrow> u64 \<Rightarrow> 'i tracker" where
  "from_conf_state cs last_index max_inflight_msgs max_inflight_bytes =
     (let nxt = counter_next last_index;
          p = fold (\<lambda>i p. if \<not> pm_contains_key p i
                          then pm_insert i (progress_new nxt max_inflight_msgs max_inflight_bytes) p
                          else p)
                (btree_iter (cs_voters cs) @ btree_iter (cs_voters_outgoing cs) @
                 btree_iter (cs_learners cs) @ btree_iter (cs_learners_next cs))
                pm_new
      in \<lparr>tr_voters = jc_new (mc_new (cs_voters cs)) (mc_new (cs_voters_outgoing cs)),
          tr_learners = cs_learners cs, tr_learners_next = cs_learners_next cs,
          tr_auto_leave = cs_auto_leave cs, tr_progress = p\<rparr>)"

definition acked_index :: "'i::linorder tracker \<Rightarrow> 'i \<Rightarrow> index" where
  "acked_index tr i = (case pm_get (tr_progress tr) i of None \<Rightarrow> 0 | Some p \<Rightarrow> match_index p)"

definition quorum_committed :: "'i::linorder tracker \<Rightarrow> index" where
  "quorum_committed tr = jc_committed_index (tr_voters tr) (acked_index tr)"

definition tr_vote_result :: "'i::linorder tracker \<Rightarrow> ('i \<rightharpoonup> bool) \<Rightarrow> VoteResult" where
  "tr_vote_result tr votes = jc_vote_result (tr_voters tr) (\<lambda>i. votes i)"

definition vote_result_by :: "'i::linorder tracker \<Rightarrow> ('i \<Rightarrow> bool) \<Rightarrow> VoteResult" where
  "vote_result_by tr grant = jc_vote_result (tr_voters tr) (\<lambda>i. Some (grant i))"

definition heard_from :: "'i::linorder tracker \<Rightarrow> 'i \<Rightarrow> bool" where
  "heard_from tr i = (case pm_get (tr_progress tr) i of None \<Rightarrow> False | Some p \<Rightarrow> recent_active p)"

definition quorum_active :: "'i::linorder tracker \<Rightarrow> bool" where
  "quorum_active tr \<longleftrightarrow> jc_vote_result (tr_voters tr) (\<lambda>i. Some (heard_from tr i)) = Won"

definition tr_ids :: "'i tracker \<Rightarrow> 'i btree_set" where
  "tr_ids tr = jc_ids (tr_voters tr) |\<union>| tr_learners tr |\<union>| tr_learners_next tr"

definition tr_conf_state :: "'i::linorder tracker \<Rightarrow> 'i conf_state" where
  "tr_conf_state tr =
     cs_new (btree_iter (mc_ids (jc_incoming (tr_voters tr)))) (btree_iter (tr_learners tr))
       (btree_iter (mc_ids (jc_outgoing (tr_voters tr)))) (btree_iter (tr_learners_next tr))
       (tr_auto_leave tr)"

definition reset_progress :: "index \<Rightarrow> nat \<Rightarrow> u64 \<Rightarrow> 'i::linorder tracker \<Rightarrow> 'i tracker" where
  "reset_progress nxt max_inflight_msgs max_inflight_bytes tr =
     (let tr = tr\<lparr>tr_progress := pm_clear (tr_progress tr)\<rparr>
      in fold (\<lambda>i tr. tr\<lparr>tr_progress := pm_insert i (progress_new nxt max_inflight_msgs max_inflight_bytes)
                           (tr_progress tr)\<rparr>)
           (btree_iter (tr_ids tr)) tr)"

section \<open>The invariant\<close>

abbreviation incoming :: "'i tracker \<Rightarrow> 'i fset" where
  "incoming tr \<equiv> mc_ids (jc_incoming (tr_voters tr))"

abbreviation outgoing :: "'i tracker \<Rightarrow> 'i fset" where
  "outgoing tr \<equiv> mc_ids (jc_outgoing (tr_voters tr))"

definition sets_ok :: "'i fset \<Rightarrow> 'i fset \<Rightarrow> 'i fset \<Rightarrow> 'i fset \<Rightarrow> bool" where
  "sets_ok inc out l ln \<longleftrightarrow>
     fset l \<inter> (fset inc \<union> fset out) = {} \<and> fset ln \<subseteq> fset out - fset inc"

definition progress_exact :: "'i::linorder tracker \<Rightarrow> bool" where
  "progress_exact tr \<longleftrightarrow> pm_wf (tr_progress tr) \<and> dom (pm_get (tr_progress tr)) = fset (tr_ids tr)"

definition tracker_ok :: "'i::linorder tracker \<Rightarrow> bool" where
  "tracker_ok tr \<longleftrightarrow>
     sets_ok (incoming tr) (outgoing tr) (tr_learners tr) (tr_learners_next tr) \<and>
     progress_exact tr \<and> (tr_is_joint tr \<or> \<not> tr_auto_leave tr)"

lemma fset_tr_ids:
  "fset (tr_ids tr) =
     fset (incoming tr) \<union> fset (outgoing tr) \<union> fset (tr_learners tr) \<union> fset (tr_learners_next tr)"
  by (simp add: tr_ids_def jc_ids_def)

lemma progress_exact_None:
  "progress_exact tr \<Longrightarrow> pm_get (tr_progress tr) i = None \<longleftrightarrow> i |\<notin>| tr_ids tr"
  unfolding progress_exact_def by (metis domIff)

lemma tr_is_joint_iff: "tr_is_joint tr \<longleftrightarrow> outgoing tr \<noteq> {||}"
  by (simp add: tr_is_joint_def mc_is_empty_def)

lemma cs_is_valid_sets:
  "cs_is_valid cs \<longleftrightarrow>
     cs_voters cs \<noteq> {||} \<and>
     sets_ok (cs_voters cs) (cs_voters_outgoing cs) (cs_learners cs) (cs_learners_next cs) \<and>
     (cs_is_joint cs \<or> \<not> cs_auto_leave cs)"
  unfolding cs_is_valid_iff sets_ok_def cs_is_joint_def fset_empty_iff [symmetric]
  by blast

lemma tracker_new_ok: "tracker_ok tracker_new"
  by (auto simp: tracker_ok_def tracker_new_def sets_ok_def progress_exact_def jc_from_voters_def
      mc_new_def tr_ids_def jc_ids_def)

section \<open>Restoring and resetting\<close>

lemma conf_state_from_conf_state [simp]: "tr_conf_state (from_conf_state cs last_i msgs cap) = cs"
  by (cases cs) (simp add: tr_conf_state_def from_conf_state_def Let_def cs_new_def jc_new_def mc_new_def)

lemma from_conf_state_sets [simp]:
  "incoming (from_conf_state cs last_i msgs cap) = cs_voters cs"
  "outgoing (from_conf_state cs last_i msgs cap) = cs_voters_outgoing cs"
  "tr_learners (from_conf_state cs last_i msgs cap) = cs_learners cs"
  "tr_learners_next (from_conf_state cs last_i msgs cap) = cs_learners_next cs"
  "tr_auto_leave (from_conf_state cs last_i msgs cap) = cs_auto_leave cs"
  by (simp_all add: from_conf_state_def Let_def jc_new_def mc_new_def)

lemma from_conf_state_progress:
  assumes tr_def: "tr = from_conf_state cs last_i msgs cap"
  shows "pm_wf (tr_progress tr) \<and>
    pm_get (tr_progress tr) =
      (\<lambda>i. if i \<in> fset (tr_ids tr) then Some (progress_new (counter_next last_i) msgs cap) else None)"
proof -
  let ?p = "progress_new (counter_next last_i) msgs cap"
  let ?xs = "btree_iter (cs_voters cs) @ btree_iter (cs_voters_outgoing cs) @
    btree_iter (cs_learners cs) @ btree_iter (cs_learners_next cs)"
  have "tr_progress tr =
      fold (\<lambda>k m. if pm_get m k = None then pm_insert k ?p m else m) ?xs pm_new"
    by (simp add: tr_def from_conf_state_def Let_def pm_contains_key_iff)
  from pm.fold_guarded [OF _ _ this, of "{}"] show ?thesis
    by (simp add: fset_tr_ids) (simp add: tr_def fun_eq_iff)
qed

lemma from_conf_state_ok:
  "cs_is_valid cs \<Longrightarrow> tracker_ok (from_conf_state cs last_i msgs cap)"
  using from_conf_state_progress [OF refl, of cs last_i msgs cap]
  by (auto simp: tracker_ok_def progress_exact_def cs_is_valid_sets tr_is_joint_iff cs_is_joint_def
      dom_def)

lemma tr_ids_update_progress [simp]: "tr_ids (tr\<lparr>tr_progress := p\<rparr>) = tr_ids tr"
  by (simp add: tr_ids_def)

lemma fold_update_progress:
  "fold (\<lambda>i tr. tr\<lparr>tr_progress := f i (tr_progress tr)\<rparr>) xs tr =
     tr\<lparr>tr_progress := fold f xs (tr_progress tr)\<rparr>"
  by (induction xs arbitrary: tr) simp_all

lemma reset_progress_eq:
  "reset_progress nxt msgs cap tr =
     tr\<lparr>tr_progress := fold (\<lambda>i. pm_insert i (progress_new nxt msgs cap)) (btree_iter (tr_ids tr)) []\<rparr>"
  using fold_update_progress [of "\<lambda>i. pm_insert i (progress_new nxt msgs cap)"
      "btree_iter (tr_ids tr)" "tr\<lparr>tr_progress := []\<rparr>"]
  by (simp add: reset_progress_def Let_def pm_clear_def)

lemma reset_progress_progress:
  "pm_wf (tr_progress (reset_progress nxt msgs cap tr)) \<and>
   pm_get (tr_progress (reset_progress nxt msgs cap tr)) =
     (\<lambda>i. if i |\<in>| tr_ids tr then Some (progress_new nxt msgs cap) else None)"
  using pm.inv_fold [of "[]" "progress_new nxt msgs cap" "btree_iter (tr_ids tr)"]
    pm.lookup_fold [of "[]" "progress_new nxt msgs cap" "btree_iter (tr_ids tr)"]
  by (simp add: reset_progress_eq cong: if_cong)

section \<open>Operations that only touch progress\<close>

definition same_members :: "'i tracker \<Rightarrow> 'i tracker \<Rightarrow> bool" where
  "same_members tr tr' \<longleftrightarrow>
     tr_voters tr' = tr_voters tr \<and> tr_learners tr' = tr_learners tr \<and>
     tr_learners_next tr' = tr_learners_next tr \<and> tr_auto_leave tr' = tr_auto_leave tr"

lemma tracker_ok_same_members:
  "same_members tr tr' \<Longrightarrow> tracker_ok tr \<Longrightarrow> progress_exact tr' \<Longrightarrow> tracker_ok tr'"
  by (simp add: tracker_ok_def same_members_def tr_is_joint_def)

lemma progress_mut_ok: "tracker_ok tr \<Longrightarrow> tracker_ok (progress_mut i f tr)"
  by (rule tracker_ok_same_members [of tr])
    (auto simp: same_members_def progress_mut_def tracker_ok_def progress_exact_def dom_def)

lemma reset_recent_active_ok: "tracker_ok tr \<Longrightarrow> tracker_ok (reset_recent_active i tr)"
  by (rule tracker_ok_same_members [of tr])
    (auto simp: same_members_def reset_recent_active_def Let_def tracker_ok_def progress_exact_def dom_def)

lemma reset_progress_ok:
  assumes "tracker_ok tr"
  shows "tracker_ok (reset_progress nxt msgs cap tr)"
proof (rule tracker_ok_same_members [OF _ assms])
  show "same_members tr (reset_progress nxt msgs cap tr)"
    by (simp add: same_members_def reset_progress_eq)
  show "progress_exact (reset_progress nxt msgs cap tr)"
    using reset_progress_progress [of nxt msgs cap tr]
    by (simp add: progress_exact_def dom_def) (simp add: reset_progress_eq)
qed

section \<open>Commitment and activity\<close>

lemma acked_index_progress_mut:
  assumes "pm_wf (tr_progress tr)" and "\<And>p. match_index p \<le> match_index (f p)"
  shows "acked_index tr j \<le> acked_index (progress_mut i f tr) j"
  using assms by (cases "pm_get (tr_progress tr) j") (auto simp: acked_index_def progress_mut_def)

lemma jc_committed_index_mono:
  assumes "\<And>i. acked i \<le> acked' i"
  shows "jc_committed_index c acked \<le> jc_committed_index c acked'"
proof -
  have "joint_majority c {i. jc_committed_index c acked \<le> acked i}"
    using le_jc_committed_index_iff by blast
  then have "joint_majority c {i. jc_committed_index c acked \<le> acked' i}"
    by (rule joint_majority_mono) (use assms in \<open>auto intro: order_trans\<close>)
  then show ?thesis by (simp add: le_jc_committed_index_iff)
qed

lemma quorum_active_iff: "quorum_active tr \<longleftrightarrow> joint_majority (tr_voters tr) {i. heard_from tr i}"
  by (simp add: quorum_active_def jc_vote_result_eq granted_def)

text \<open>The leader hears from a sequence of peers.\<close>

definition hear :: "'i::linorder list \<Rightarrow> 'i tracker \<Rightarrow> 'i tracker" where
  "hear = fold (\<lambda>i. progress_mut i (set_recent_active True))"

lemma hear_progress:
  assumes "pm_wf (tr_progress tr)"
  shows "pm_wf (tr_progress (hear hs tr)) \<and> tr_voters (hear hs tr) = tr_voters tr \<and>
    pm_get (tr_progress (hear hs tr)) =
      (\<lambda>i. if i \<in> set hs then map_option (set_recent_active True) (pm_get (tr_progress tr) i)
           else pm_get (tr_progress tr) i)"
  using assms
proof (induction hs arbitrary: tr)
  case (Cons h hs)
  have "set_recent_active True (set_recent_active True p) = set_recent_active True p" for p
    by (simp add: set_recent_active_def)
  then have [simp]: "set_recent_active True \<circ> set_recent_active True = set_recent_active True"
    by (simp add: fun_eq_iff)
  show ?case
    using Cons.IH [of "progress_mut h (set_recent_active True) tr"] Cons.prems
    by (auto simp: hear_def progress_mut_def fun_eq_iff option.map_comp)
qed (simp add: hear_def)

lemma heard_from_window:
  assumes "tracker_ok tr"
  shows "heard_from (hear hs (reset_recent_active leader tr)) i \<longleftrightarrow>
    i |\<in>| tr_ids tr \<and> i \<in> insert leader (set hs)"
proof -
  let ?tr = "reset_recent_active leader tr"
  have wf: "pm_wf (tr_progress tr)" and dom: "pm_get (tr_progress tr) i = None \<longleftrightarrow> i |\<notin>| tr_ids tr"
    using assms progress_exact_None [of tr i] by (simp_all add: tracker_ok_def progress_exact_def)
  have "pm_get (tr_progress ?tr) i = map_option (set_recent_active (i = leader)) (pm_get (tr_progress tr) i)"
    using wf by (cases "pm_get (tr_progress tr) i")
      (auto simp: reset_recent_active_def Let_def set_recent_active_def)
  moreover have "pm_wf (tr_progress ?tr)"
    using wf by (simp add: reset_recent_active_def Let_def)
  ultimately show ?thesis
    using hear_progress [of ?tr hs] dom
    by (cases "pm_get (tr_progress tr) i") (auto simp: heard_from_def set_recent_active_def)
qed

section \<open>Properties\<close>

text \<open>
  C22: restoring a tracker from a configuration and reading the configuration back is the
  identity; a valid configuration gives a well-formed tracker in which exactly the members have
  a progress entry, each fresh and probing from just after the last index.
\<close>

theorem conf_state_round_trip:
  assumes "tr = from_conf_state cs last_i msgs cap"
  shows "tr_conf_state tr = cs \<and> (cs_is_valid cs \<longrightarrow> tracker_ok tr) \<and>
    progress_of tr i =
      (if i |\<in>| tr_ids tr then Some (progress_new (counter_next last_i) msgs cap) else None)"
  using from_conf_state_progress [OF assms] assms
  by (auto simp: from_conf_state_ok progress_of_def)

theorem conf_state_round_trip_witness:
  "let tr = from_conf_state (cs_new [1, 2, 3 :: nat] [4] [] [] False) 7 256 0 in
     cs_voters (tr_conf_state tr) = {|1, 2, 3|} \<and> tracker_ok tr \<and>
     progress_of tr 4 = Some (progress_new 8 256 0)"
  using conf_state_round_trip [OF refl, of "cs_new [1, 2, 3 :: nat] [4] [] [] False" 7 256 0 4]
  by (simp add: cs_new_def cs_is_valid_iff cs_is_joint_def Let_def fset_tr_ids counter_next_eq
      finsert_commute)

text \<open>
  C23: the committed index of a tracker is the greatest index that a majority of each voter
  half acknowledged, and no operation on any peer's progress can make it go down.
\<close>

theorem quorum_committed_correct_and_monotone:
  assumes "tracker_ok tr"
  shows "(n \<le> quorum_committed tr \<longleftrightarrow> joint_majority (tr_voters tr) {i. n \<le> acked_index tr i}) \<and>
    quorum_committed tr \<le> quorum_committed (progress_mut i (progress_step op) tr)"
proof
  show "n \<le> quorum_committed tr \<longleftrightarrow> joint_majority (tr_voters tr) {i. n \<le> acked_index tr i}"
    by (simp add: quorum_committed_def le_jc_committed_index_iff)
  have "pm_wf (tr_progress tr)" using assms by (simp add: tracker_ok_def progress_exact_def)
  then have "jc_committed_index (tr_voters tr) (acked_index tr) \<le>
      jc_committed_index (tr_voters tr) (acked_index (progress_mut i (progress_step op) tr))"
    by (intro jc_committed_index_mono acked_index_progress_mut) (simp_all add: match_index_step)
  then show "quorum_committed tr \<le> quorum_committed (progress_mut i (progress_step op) tr)"
    by (simp add: quorum_committed_def) (simp add: progress_mut_def)
qed

theorem quorum_committed_correct_and_monotone_witness:
  "let tr = from_conf_state (cs_from_voters [1, 2, 3 :: nat]) 0 256 0
   in quorum_committed tr \<le> quorum_committed (progress_mut 2 (progress_step (MaybeUpdate 5)) tr)"
  using quorum_committed_correct_and_monotone
    [OF from_conf_state_ok [of "cs_from_voters [1, 2, 3 :: nat]"], of 0 0 256 0 2 "MaybeUpdate 5"]
  by (simp add: cs_is_valid_iff cs_from_voters_def cs_default_def cs_is_joint_def Let_def)

text \<open>
  the check-quorum window. After the window is reset and the leader has heard from a
  sequence of peers, a quorum is active exactly when the leader and those peers contain a
  majority of each voter half. Peers heard from in an earlier window do not count.
\<close>

theorem quorum_active_window:
  assumes "tracker_ok tr"
  shows "quorum_active (hear hs (reset_recent_active leader tr)) \<longleftrightarrow>
    joint_majority (tr_voters tr) (insert leader (set hs))"
proof -
  have "tr_voters (hear hs (reset_recent_active leader tr)) = tr_voters tr"
    using hear_progress [of "reset_recent_active leader tr" hs] assms
    by (simp add: tracker_ok_def progress_exact_def reset_recent_active_def Let_def)
  moreover have "joint_majority (tr_voters tr) {i. i |\<in>| tr_ids tr \<and> i \<in> insert leader (set hs)} =
      joint_majority (tr_voters tr) (insert leader (set hs))"
  proof -
    let ?H = "{i. i |\<in>| tr_ids tr \<and> i \<in> insert leader (set hs)}"
    have "fset (incoming tr) \<inter> ?H = fset (incoming tr) \<inter> insert leader (set hs)"
      "fset (outgoing tr) \<inter> ?H = fset (outgoing tr) \<inter> insert leader (set hs)"
      by (auto simp: fset_tr_ids)
    then show ?thesis by (simp only: joint_majority_def majority_def)
  qed
  ultimately show ?thesis by (simp add: quorum_active_iff heard_from_window [OF assms])
qed

theorem quorum_active_window_witness:
  "quorum_active (hear [3] (reset_recent_active 1 (from_conf_state (cs_from_voters [1, 2, 3 :: nat]) 0 256 0)))"
  using quorum_active_window
    [OF from_conf_state_ok [of "cs_from_voters [1, 2, 3 :: nat]"], of "[3]" 1 0 256 0]
  by (simp add: cs_is_valid_iff cs_from_voters_def cs_default_def cs_is_joint_def
      joint_majority_def majority_def from_conf_state_def Let_def jc_new_def mc_new_def fcard_finsert_if)

end
