(* ===== verification/Confchange.thy ===== *)
theory Confchange
  imports Tracker
begin

text \<open>
  Membership changes, the \<open>confchange\<close> module of \<^verbatim>\<open>sailing-proto/src/tracker/mod.rs\<close>: the
  \<open>Changer\<close> applies a list of single changes to a copy of the tracker, as a simple change,
  as the entry into a joint configuration, or as the exit from one. The refinement says what
  the changes do to the four membership sets with no reference to progress entries; the
  invariant says that the checks at the end of each change never fail and that no progress
  entry is orphaned or lost; the safety property says that quorums of consecutive
  configurations intersect.

  The text of \<open>InvariantViolation\<close> names the violated invariant and, for most, a node; the
  model has a constructor per text. The debug assertion against orphaned entries compiles to
  nothing in a release build; the invariant covers what it asserts.
\<close>

section \<open>Model\<close>

datatype 'i invariant_violation =
    NoProgressForVoter 'i
  | NoProgressForOutgoingVoter 'i
  | NoProgressForLearner 'i
  | NoProgressForLearnersNext 'i
  | LearnersNextNotOutgoing 'i
  | LearnerAndOutgoing 'i
  | LearnerAndIncoming 'i
  | LearnersNextNotJoint
  | AutoLeaveNotJoint

datatype 'i ConfChangeError =
    AlreadyJoint
  | NotJoint
  | SimpleInJoint
  | MultipleVoterChanges
  | EmptyVoterSet
  | LearnersNextInSimple
  | EmptyIncomingForJoint
  | InvariantViolation "'i invariant_violation"

record changer =
  ch_last_index :: index
  ch_max_inflight_msgs :: nat
  ch_max_inflight_bytes :: u64

definition init_progress :: "changer \<Rightarrow> 'i::linorder \<Rightarrow> bool \<Rightarrow> 'i tracker \<Rightarrow> 'i tracker" where
  "init_progress c i is_learner tr =
     (let nxt = max (ch_last_index c) 1;
          pr = progress_new nxt (ch_max_inflight_msgs c) (ch_max_inflight_bytes c);
          tr = tr\<lparr>tr_progress := pm_insert i pr (tr_progress tr)\<rparr>
      in if is_learner then tr\<lparr>tr_learners := finsert i (tr_learners tr)\<rparr>
         else tr\<lparr>tr_voters := jc_new (mc_new (finsert i (mc_ids (jc_incoming (tr_voters tr)))))
                               (jc_outgoing (tr_voters tr))\<rparr>)"

definition make_voter :: "changer \<Rightarrow> 'i::linorder \<Rightarrow> 'i tracker \<Rightarrow> 'i tracker" where
  "make_voter c i tr =
     (if \<not> pm_contains_key (tr_progress tr) i then init_progress c i False tr
      else
        let tr = tr\<lparr>tr_learners := btree_remove i (tr_learners tr)\<rparr>;
            tr = tr\<lparr>tr_learners_next := btree_remove i (tr_learners_next tr)\<rparr>
        in tr\<lparr>tr_voters := jc_new (mc_new (finsert i (mc_ids (jc_incoming (tr_voters tr)))))
                             (jc_outgoing (tr_voters tr))\<rparr>)"

definition cc_remove :: "changer \<Rightarrow> 'i::linorder \<Rightarrow> 'i tracker \<Rightarrow> 'i tracker" where
  "cc_remove c i tr =
     (if \<not> pm_contains_key (tr_progress tr) i then tr
      else
        let tr = tr\<lparr>tr_voters := jc_new (mc_new (btree_remove i (mc_ids (jc_incoming (tr_voters tr)))))
                                  (jc_outgoing (tr_voters tr))\<rparr>;
            tr = tr\<lparr>tr_learners := btree_remove i (tr_learners tr)\<rparr>;
            tr = tr\<lparr>tr_learners_next := btree_remove i (tr_learners_next tr)\<rparr>
        in if \<not> mc_contains (jc_outgoing (tr_voters tr)) i
           then tr\<lparr>tr_progress := pm_remove i (tr_progress tr)\<rparr>
           else tr)"

definition make_learner :: "changer \<Rightarrow> 'i::linorder \<Rightarrow> 'i tracker \<Rightarrow> 'i tracker" where
  "make_learner c i tr =
     (if \<not> pm_contains_key (tr_progress tr) i then init_progress c i True tr
      else if i |\<in>| tr_learners tr \<and> \<not> mc_contains (jc_incoming (tr_voters tr)) i then tr
      else
        let saved_pr = pm_get (tr_progress tr) i;
            tr = cc_remove c i tr;
            tr = (case saved_pr of
                    Some pr \<Rightarrow>
                      if \<not> pm_contains_key (tr_progress tr) i
                      then tr\<lparr>tr_progress := pm_insert i pr (tr_progress tr)\<rparr> else tr
                  | None \<Rightarrow> tr)
        in if mc_contains (jc_outgoing (tr_voters tr)) i
           then tr\<lparr>tr_learners_next := finsert i (tr_learners_next tr)\<rparr>
           else tr\<lparr>tr_learners := finsert i (tr_learners tr)\<rparr>)"

definition apply_single :: "changer \<Rightarrow> 'i::linorder conf_change_single \<Rightarrow> 'i tracker \<Rightarrow> 'i tracker" where
  "apply_single c cc tr =
     (case ccs_ty cc of
        AddNode \<Rightarrow> make_voter c (ccs_node cc) tr
      | AddLearnerNode \<Rightarrow> make_learner c (ccs_node cc) tr
      | RemoveNode \<Rightarrow> cc_remove c (ccs_node cc) tr)"

definition cc_apply :: "changer \<Rightarrow> 'i::linorder tracker \<Rightarrow> 'i conf_change_single list \<Rightarrow>
    ('i tracker, 'i ConfChangeError) result" where
  "cc_apply c tr changes =
     (let tr = fold (apply_single c) changes tr
      in if mc_is_empty (jc_incoming (tr_voters tr)) then Err EmptyVoterSet else Ok tr)"

text \<open>A loop over a set that returns the error of the first element that has one.\<close>

fun check_each :: "('i \<Rightarrow> 'e option) \<Rightarrow> 'i list \<Rightarrow> (unit, 'e) result" where
  "check_each f [] = Ok ()"
| "check_each f (x # xs) = (case f x of Some e \<Rightarrow> Err e | None \<Rightarrow> check_each f xs)"

definition check_invariants :: "'i::linorder tracker \<Rightarrow> (unit, 'i ConfChangeError) result" where
  "check_invariants tr =
     (let has = pm_contains_key (tr_progress tr);
          inc = jc_incoming (tr_voters tr);
          out = jc_outgoing (tr_voters tr);
          absent = (\<lambda>e i. if \<not> has i then Some (InvariantViolation (e i)) else None)
      in and_then (check_each (absent NoProgressForVoter) (btree_iter (mc_ids inc))) (\<lambda>_.
         and_then (check_each (absent NoProgressForOutgoingVoter) (btree_iter (mc_ids out))) (\<lambda>_.
         and_then (check_each (absent NoProgressForLearner) (btree_iter (tr_learners tr))) (\<lambda>_.
         and_then (check_each (absent NoProgressForLearnersNext) (btree_iter (tr_learners_next tr))) (\<lambda>_.
         and_then (check_each (\<lambda>i. if \<not> mc_contains out i
                       then Some (InvariantViolation (LearnersNextNotOutgoing i)) else None)
                     (btree_iter (tr_learners_next tr))) (\<lambda>_.
         and_then (check_each (\<lambda>i. if mc_contains out i
                       then Some (InvariantViolation (LearnerAndOutgoing i))
                       else if mc_contains inc i
                       then Some (InvariantViolation (LearnerAndIncoming i)) else None)
                     (btree_iter (tr_learners tr))) (\<lambda>_.
         if \<not> tr_is_joint tr \<and> tr_learners_next tr \<noteq> {||}
         then Err (InvariantViolation LearnersNextNotJoint)
         else if \<not> tr_is_joint tr \<and> tr_auto_leave tr
         then Err (InvariantViolation AutoLeaveNotJoint)
         else Ok ())))))))"

definition cc_sym_diff :: "'i::linorder btree_set \<Rightarrow> 'i btree_set \<Rightarrow> nat" where
  "cc_sym_diff a b =
     length (filter (\<lambda>i. i |\<notin>| b) (btree_iter a)) + length (filter (\<lambda>i. i |\<notin>| a) (btree_iter b))"

definition simple :: "changer \<Rightarrow> 'i::linorder tracker \<Rightarrow> 'i conf_change_single list \<Rightarrow>
    ('i tracker, 'i ConfChangeError) result" where
  "simple c tr changes =
     (if tr_is_joint tr then Err SimpleInJoint
      else
        let incoming_before = mc_ids (jc_incoming (tr_voters tr))
        in and_then (cc_apply c tr changes) (\<lambda>nxt.
             if cc_sym_diff incoming_before (mc_ids (jc_incoming (tr_voters nxt))) > 1
             then Err MultipleVoterChanges
             else if tr_learners_next nxt \<noteq> {||} then Err LearnersNextInSimple
             else and_then (check_invariants nxt) (\<lambda>_. Ok nxt)))"

definition enter_joint :: "changer \<Rightarrow> 'i::linorder tracker \<Rightarrow> bool \<Rightarrow> 'i conf_change_single list \<Rightarrow>
    ('i tracker, 'i ConfChangeError) result" where
  "enter_joint c tr auto_leave changes =
     (if tr_is_joint tr then Err AlreadyJoint
      else if mc_is_empty (jc_incoming (tr_voters tr)) then Err EmptyIncomingForJoint
      else
        let nxt = tr\<lparr>tr_voters := jc_new (jc_incoming (tr_voters tr))
                                   (mc_new (mc_ids (jc_incoming (tr_voters tr))))\<rparr>
        in and_then (cc_apply c nxt changes) (\<lambda>nxt.
             let nxt = nxt\<lparr>tr_auto_leave := auto_leave\<rparr>
             in and_then (check_invariants nxt) (\<lambda>_. Ok nxt)))"

definition leave_joint :: "changer \<Rightarrow> 'i::linorder tracker \<Rightarrow> ('i tracker, 'i ConfChangeError) result" where
  "leave_joint c tr =
     (if \<not> tr_is_joint tr then Err NotJoint
      else
        let nxt = tr\<lparr>tr_learners := fold finsert (btree_iter (tr_learners_next tr)) (tr_learners tr)\<rparr>;
            nxt = nxt\<lparr>tr_learners_next := {||}\<rparr>;
            outgoing_ids = mc_ids (jc_outgoing (tr_voters nxt));
            nxt = nxt\<lparr>tr_voters := jc_new (jc_incoming (tr_voters nxt)) (mc_new {||})\<rparr>;
            nxt = nxt\<lparr>tr_auto_leave := False\<rparr>;
            still_needed = tr_ids nxt;
            nxt = fold (\<lambda>i nxt. if i |\<notin>| still_needed
                               then nxt\<lparr>tr_progress := pm_remove i (tr_progress nxt)\<rparr> else nxt)
                    (btree_iter outgoing_ids) nxt
        in and_then (check_invariants nxt) (\<lambda>_. Ok nxt))"

section \<open>What a change does to the membership\<close>

text \<open>The four sets, and the effect of a single change on them.\<close>

type_synonym 'i members = "'i fset \<times> 'i fset \<times> 'i fset \<times> 'i fset"

definition members :: "'i tracker \<Rightarrow> 'i members" where
  "members tr = (incoming tr, outgoing tr, tr_learners tr, tr_learners_next tr)"

fun change_members :: "ConfChangeType \<Rightarrow> 'i \<Rightarrow> 'i members \<Rightarrow> 'i members" where
  "change_members AddNode i (inc, out, l, ln) = (finsert i inc, out, l |-| {|i|}, ln |-| {|i|})"
| "change_members RemoveNode i (inc, out, l, ln) = (inc |-| {|i|}, out, l |-| {|i|}, ln |-| {|i|})"
| "change_members AddLearnerNode i (inc, out, l, ln) =
     (if i |\<in>| out then (inc |-| {|i|}, out, l, finsert i ln)
      else (inc |-| {|i|}, out, finsert i l, ln |-| {|i|}))"

definition change_all :: "'i conf_change_single list \<Rightarrow> 'i members \<Rightarrow> 'i members" where
  "change_all = fold (\<lambda>cc. change_members (ccs_ty cc) (ccs_node cc))"

text \<open>
  The effect of an operation on one node: the sets change as specified, the flag stays, and
  only that node's progress can change, and not even that if it is an outgoing voter.
\<close>

definition effect :: "ConfChangeType \<Rightarrow> 'i::linorder \<Rightarrow> 'i tracker \<Rightarrow> 'i tracker \<Rightarrow> bool" where
  "effect ty i tr tr' \<longleftrightarrow>
     members tr' = change_members ty i (members tr) \<and>
     tr_auto_leave tr' = tr_auto_leave tr \<and>
     pm_wf (tr_progress tr') \<and>
     (\<forall>j. j \<noteq> i \<or> j |\<in>| outgoing tr \<longrightarrow>
        pm_get (tr_progress tr') j = pm_get (tr_progress tr) j) \<and>
     (pm_get (tr_progress tr') i = None \<longleftrightarrow> ty = RemoveNode \<and> i |\<notin>| outgoing tr) \<or>
     tr' = tr \<and> members tr = change_members ty i (members tr)"

lemma jc_simps [simp]:
  "jc_incoming (jc_new a b) = a" "jc_outgoing (jc_new a b) = b" "mc_ids (mc_new s) = s"
  by (simp_all add: jc_new_def mc_new_def)

lemma fminus_absent: "i |\<notin>| s \<Longrightarrow> s |-| {|i|} = s"
  by auto

lemma tracker_ok_progress:
  assumes "tracker_ok tr"
  shows "pm_wf (tr_progress tr)" "pm_contains_key (tr_progress tr) i \<longleftrightarrow> i |\<in>| tr_ids tr"
    "pm_get (tr_progress tr) i = None \<longleftrightarrow> i |\<notin>| tr_ids tr"
  using assms progress_exact_None [of tr i]
  by (simp_all add: tracker_ok_def progress_exact_def pm_contains_key_iff)

lemma member_tr_ids:
  "i |\<in>| tr_ids tr \<longleftrightarrow>
     i |\<in>| incoming tr \<or> i |\<in>| outgoing tr \<or> i |\<in>| tr_learners tr \<or> i |\<in>| tr_learners_next tr"
  using fset_tr_ids [of tr] by blast

lemma tracker_ok_sets:
  assumes "tracker_ok tr"
  shows "i |\<in>| tr_learners tr \<Longrightarrow> i |\<notin>| incoming tr \<and> i |\<notin>| outgoing tr"
    "i |\<in>| tr_learners_next tr \<Longrightarrow> i |\<in>| outgoing tr \<and> i |\<notin>| incoming tr"
  using assms unfolding tracker_ok_def sets_ok_def by blast+

lemma make_voter_effect:
  assumes "tracker_ok tr"
  shows "effect AddNode i tr (make_voter c i tr)"
  by (auto simp: tracker_ok_progress [OF assms] effect_def make_voter_def init_progress_def Let_def members_def member_tr_ids
      fminus_absent)

lemma cc_remove_effect:
  assumes "tracker_ok tr"
  shows "effect RemoveNode i tr (cc_remove c i tr)"
  by (auto simp: tracker_ok_progress [OF assms] effect_def cc_remove_def Let_def members_def member_tr_ids fminus_absent mc_contains_def)

lemma make_learner_effect:
  assumes "tracker_ok tr"
  shows "effect AddLearnerNode i tr (make_learner c i tr)"
proof -
  note p = tracker_ok_progress [OF assms] and l = tracker_ok_sets [OF assms, of i]
  consider (fresh) "i |\<notin>| tr_ids tr" | (learner) "i |\<in>| tr_learners tr"
    | (old) "i |\<in>| outgoing tr" | (voter) "i |\<in>| incoming tr" "i |\<notin>| outgoing tr"
    using l by (auto simp: member_tr_ids)
  then show ?thesis
  proof cases
    case fresh
    then show ?thesis
      by (auto simp: p effect_def make_learner_def init_progress_def Let_def members_def member_tr_ids
          fminus_absent)
  next
    case learner
    with l have "make_learner c i tr = tr"
      by (auto simp: p make_learner_def mc_contains_def member_tr_ids)
    with l learner show ?thesis by (auto simp: effect_def members_def)
  next
    case old
    with l have "i |\<notin>| tr_learners tr" by blast
    with old show ?thesis
      by (auto simp: p effect_def make_learner_def cc_remove_def Let_def members_def member_tr_ids
          mc_contains_def fminus_absent split: option.splits)
  next
    case voter
    with l have "i |\<notin>| tr_learners tr" "i |\<notin>| tr_learners_next tr" by blast+
    with voter show ?thesis
      by (auto simp: p effect_def make_learner_def cc_remove_def Let_def members_def member_tr_ids
          mc_contains_def fminus_absent pm_contains_key_iff split: option.splits)
  qed
qed

lemma apply_single_effect:
  "tracker_ok tr \<Longrightarrow> effect (ccs_ty cc) (ccs_node cc) tr (apply_single c cc tr)"
  by (cases "ccs_ty cc")
    (simp_all add: apply_single_def make_voter_effect make_learner_effect cc_remove_effect)

section \<open>The invariant is kept\<close>

lemma change_members_sets:
  assumes "sets_ok inc out l ln" and "change_members ty i (inc, out, l, ln) = (inc', out', l', ln')"
  shows "out' = out" "sets_ok inc' out' l' ln'"
    "j |\<in>| inc' \<or> j |\<in>| out' \<or> j |\<in>| l' \<or> j |\<in>| ln' \<longleftrightarrow>
       (if j = i then ty \<noteq> RemoveNode \<or> i |\<in>| out
        else j |\<in>| inc \<or> j |\<in>| out \<or> j |\<in>| l \<or> j |\<in>| ln)"
  using assms by (cases ty; auto simp: sets_ok_def split: if_splits)+

lemma effect_outgoing: "tracker_ok tr \<Longrightarrow> effect ty i tr tr' \<Longrightarrow> outgoing tr' = outgoing tr"
  by (cases ty) (auto simp: effect_def members_def split: if_splits)

lemma effect_outgoing_progress:
  "effect ty i tr tr' \<Longrightarrow> j |\<in>| outgoing tr \<Longrightarrow> pm_get (tr_progress tr') j = pm_get (tr_progress tr) j"
  unfolding effect_def by blast

lemma effect_ok:
  assumes ok: "tracker_ok tr" and eff: "effect ty i tr tr'"
  shows "tracker_ok tr'"
proof (cases "tr' = tr")
  case False
  with eff have m: "change_members ty i (incoming tr, outgoing tr, tr_learners tr, tr_learners_next tr) =
      (incoming tr', outgoing tr', tr_learners tr', tr_learners_next tr')"
    and wf: "pm_wf (tr_progress tr')" and flag: "tr_auto_leave tr' = tr_auto_leave tr"
    and others: "\<And>j. j \<noteq> i \<Longrightarrow> pm_get (tr_progress tr') j = pm_get (tr_progress tr) j"
    and own: "pm_get (tr_progress tr') i = None \<longleftrightarrow> ty = RemoveNode \<and> i |\<notin>| outgoing tr"
    by (auto simp: effect_def members_def)
  have s: "sets_ok (incoming tr) (outgoing tr) (tr_learners tr) (tr_learners_next tr)"
    using ok by (simp add: tracker_ok_def)
  note sets = change_members_sets [OF s m]
  have "pm_get (tr_progress tr') j = None \<longleftrightarrow> j |\<notin>| tr_ids tr'" for j
    using sets(3) [of j] own others [of j] tracker_ok_progress(3) [OF ok, of j]
    by (cases "j = i") (auto simp: member_tr_ids)
  then have "dom (pm_get (tr_progress tr')) = fset (tr_ids tr')"
    by (simp add: set_eq_iff domIff)
  with sets wf flag ok show ?thesis
    by (simp add: tracker_ok_def progress_exact_def tr_is_joint_iff)
qed (use ok in simp)

lemma apply_all:
  assumes "tracker_ok tr"
  shows "tracker_ok (fold (apply_single c) ccs tr)"
    "members (fold (apply_single c) ccs tr) = change_all ccs (members tr)"
    "outgoing (fold (apply_single c) ccs tr) = outgoing tr"
    "tr_auto_leave (fold (apply_single c) ccs tr) = tr_auto_leave tr"
    "j |\<in>| outgoing tr \<Longrightarrow>
       pm_get (tr_progress (fold (apply_single c) ccs tr)) j = pm_get (tr_progress tr) j"
  using assms
proof (induction ccs arbitrary: tr)
  case (Cons cc ccs)
  {
    case 1
    with Cons(1) show ?case using effect_ok [OF 1 apply_single_effect [OF 1]] by simp
  next
    case 2
    with Cons(2) show ?case
      using effect_ok [OF 2 apply_single_effect [OF 2]] apply_single_effect [OF 2, of cc c]
      by (auto simp: change_all_def effect_def)
  next
    case 3
    with Cons(3) show ?case
      using effect_ok [OF 3 apply_single_effect [OF 3]] effect_outgoing [OF 3 apply_single_effect [OF 3]]
      by simp
  next
    case 4
    with Cons(4) show ?case
      using effect_ok [OF 4 apply_single_effect [OF 4]] apply_single_effect [OF 4, of cc c]
      by (auto simp: effect_def)
  next
    case 5
    then have ok: "tracker_ok tr" by simp
    with Cons(5) 5 show ?case
      using effect_ok [OF ok apply_single_effect [OF ok]]
        effect_outgoing [OF ok apply_single_effect [OF ok]]
        effect_outgoing_progress [OF apply_single_effect [OF ok]]
      by simp
  }
qed (simp_all add: change_all_def)

section \<open>The checks\<close>

lemma check_each_Ok: "check_each f xs = Ok u \<longleftrightarrow> (\<forall>x \<in> set xs. f x = None)"
  by (induction xs) (auto split: option.splits)

text \<open>The conjunction the checks compute: the invariant but for orphans and for a staged incoming voter.\<close>

lemma check_invariants_Ok:
  "check_invariants tr = Ok u \<longleftrightarrow>
     (\<forall>i. i |\<in>| tr_ids tr \<longrightarrow> pm_contains_key (tr_progress tr) i) \<and>
     (\<forall>i. i |\<in>| tr_learners_next tr \<longrightarrow> i |\<in>| outgoing tr) \<and>
     (\<forall>i. i |\<in>| tr_learners tr \<longrightarrow> i |\<notin>| incoming tr \<and> i |\<notin>| outgoing tr) \<and>
     (tr_is_joint tr \<or> tr_learners_next tr = {||} \<and> \<not> tr_auto_leave tr)"
  unfolding check_invariants_def Let_def and_then_eq_Ok check_each_Ok
  by (auto simp: member_tr_ids mc_contains_def split: if_splits)

lemma tracker_ok_check:
  assumes "tracker_ok tr"
  shows "check_invariants tr = Ok ()"
proof -
  have "tr_learners_next tr = {||}" if "\<not> tr_is_joint tr"
    using that assms by (auto simp: tracker_ok_def sets_ok_def tr_is_joint_iff)
  with assms show ?thesis
    unfolding check_invariants_Ok
    using tracker_ok_progress(2) [OF assms] tracker_ok_sets [OF assms]
    by (auto simp: tracker_ok_def)
qed

section \<open>The three transitions\<close>

primrec map_ok :: "('a \<Rightarrow> 'b) \<Rightarrow> ('a, 'e) result \<Rightarrow> ('b, 'e) result" where
  "map_ok f (Ok x) = Ok (f x)"
| "map_ok f (Err e) = Err e"

text \<open>What the transitions do to the membership sets, with no reference to progress.\<close>

fun simple_members :: "'i conf_change_single list \<Rightarrow> 'i members \<Rightarrow> ('i members, 'i ConfChangeError) result" where
  "simple_members ccs (inc, out, l, ln) =
     (if out \<noteq> {||} then Err SimpleInJoint
      else
        let (inc', out', l', ln') = change_all ccs (inc, out, l, ln)
        in if inc' = {||} then Err EmptyVoterSet
           else if card (fset inc - fset inc') + card (fset inc' - fset inc) > 1
           then Err MultipleVoterChanges
           else Ok (inc', out', l', ln'))"

fun enter_members :: "'i conf_change_single list \<Rightarrow> 'i members \<Rightarrow> ('i members, 'i ConfChangeError) result" where
  "enter_members ccs (inc, out, l, ln) =
     (if out \<noteq> {||} then Err AlreadyJoint
      else if inc = {||} then Err EmptyIncomingForJoint
      else
        let (inc', out', l', ln') = change_all ccs (inc, inc, l, ln)
        in if inc' = {||} then Err EmptyVoterSet else Ok (inc', out', l', ln'))"

fun leave_members :: "'i members \<Rightarrow> ('i members, 'i ConfChangeError) result" where
  "leave_members (inc, out, l, ln) =
     (if out = {||} then Err NotJoint else Ok (inc, {||}, l |\<union>| ln, {||}))"

lemma sym_diff_card: "cc_sym_diff a b = card (fset a - fset b) + card (fset b - fset a)"
proof -
  have "length (filter (\<lambda>i. i |\<notin>| b) (btree_iter a)) = card (fset a - fset b)" for a b :: "'a fset"
  proof -
    have "length (filter (\<lambda>i. i |\<notin>| b) (btree_iter a)) = card (set (filter (\<lambda>i. i |\<notin>| b) (btree_iter a)))"
      by (rule distinct_card [symmetric]) simp
    also have "set (filter (\<lambda>i. i |\<notin>| b) (btree_iter a)) = fset a - fset b" by auto
    finally show ?thesis .
  qed
  then show ?thesis by (simp add: cc_sym_diff_def)
qed

lemma members_eq: "members tr = (inc, out, l, ln) \<longleftrightarrow>
    incoming tr = inc \<and> outgoing tr = out \<and> tr_learners tr = l \<and> tr_learners_next tr = ln"
  by (auto simp: members_def)

lemma simple_eq:
  assumes ok: "tracker_ok tr" and nxt: "nxt = fold (apply_single c) ccs tr"
  shows "simple c tr ccs =
    (if tr_is_joint tr then Err SimpleInJoint
     else if incoming nxt = {||} then Err EmptyVoterSet
     else if cc_sym_diff (incoming tr) (incoming nxt) > 1 then Err MultipleVoterChanges
     else Ok nxt)"
proof (cases "tr_is_joint tr")
  case False
  have "tr_learners_next nxt = {||}"
    using False apply_all(1,3) [OF ok, of c ccs]
    by (auto simp: nxt tracker_ok_def sets_ok_def tr_is_joint_iff)
  moreover have "check_invariants nxt = Ok ()"
    using apply_all(1) [OF ok] by (simp add: nxt tracker_ok_check)
  ultimately show ?thesis
    using False unfolding simple_def cc_apply_def Let_def nxt [symmetric]
    by (simp add: mc_is_empty_def)
qed (simp add: simple_def)

text \<open>The tracker a joint transition starts the changes from.\<close>

definition doubled :: "'i tracker \<Rightarrow> 'i tracker" where
  "doubled tr = tr\<lparr>tr_voters := jc_new (jc_incoming (tr_voters tr)) (mc_new (incoming tr))\<rparr>"

lemma doubled_simps [simp]:
  "incoming (doubled tr) = incoming tr" "outgoing (doubled tr) = incoming tr"
  "tr_learners (doubled tr) = tr_learners tr" "tr_learners_next (doubled tr) = tr_learners_next tr"
  "tr_auto_leave (doubled tr) = tr_auto_leave tr" "tr_progress (doubled tr) = tr_progress tr"
  by (simp_all add: doubled_def)

lemma doubled_ok:
  assumes "tracker_ok tr" and "\<not> tr_is_joint tr"
  shows "tracker_ok (doubled tr)"
proof -
  have "fset (tr_ids (doubled tr)) = fset (tr_ids tr)"
    using assms(2) by (auto simp: fset_tr_ids tr_is_joint_iff)
  with assms show ?thesis
    by (auto simp: tracker_ok_def sets_ok_def progress_exact_def tr_is_joint_iff)
qed

lemma enter_joint_eq:
  assumes ok: "tracker_ok tr"
    and nxt: "nxt = (fold (apply_single c) ccs (doubled tr))\<lparr>tr_auto_leave := a\<rparr>"
  shows "enter_joint c tr a ccs =
    (if tr_is_joint tr then Err AlreadyJoint
     else if incoming tr = {||} then Err EmptyIncomingForJoint
     else if incoming nxt = {||} then Err EmptyVoterSet
     else Ok nxt)"
    and "\<not> tr_is_joint tr \<Longrightarrow> incoming tr \<noteq> {||} \<Longrightarrow> tracker_ok nxt"
proof -
  show nxt_ok: "tracker_ok nxt" if "\<not> tr_is_joint tr" "incoming tr \<noteq> {||}"
  proof -
    have d: "tracker_ok (doubled tr)" using ok that by (simp add: doubled_ok)
    from apply_all(1,3) [OF d, of c ccs] that show ?thesis
      by (simp add: nxt tracker_ok_def progress_exact_def tr_is_joint_iff tr_ids_def)
  qed
  show "enter_joint c tr a ccs =
    (if tr_is_joint tr then Err AlreadyJoint
     else if incoming tr = {||} then Err EmptyIncomingForJoint
     else if incoming nxt = {||} then Err EmptyVoterSet
     else Ok nxt)"
  proof (cases "tr_is_joint tr \<or> incoming tr = {||}")
    case False
    then have "check_invariants nxt = Ok ()" by (intro tracker_ok_check nxt_ok) auto
    with False show ?thesis
      unfolding enter_joint_def cc_apply_def Let_def doubled_def [symmetric]
      by (simp add: mc_is_empty_def nxt)
  qed (auto simp: enter_joint_def mc_is_empty_def)
qed

text \<open>The tracker a joint transition ends in, before the departed peers are dropped.\<close>

definition collapsed :: "'i tracker \<Rightarrow> 'i tracker" where
  "collapsed tr =
     tr\<lparr>tr_learners := tr_learners tr |\<union>| tr_learners_next tr, tr_learners_next := {||},
        tr_voters := jc_new (jc_incoming (tr_voters tr)) (mc_new {||}), tr_auto_leave := False\<rparr>"

lemma collapsed_simps [simp]:
  "incoming (collapsed tr) = incoming tr" "outgoing (collapsed tr) = {||}"
  "tr_learners (collapsed tr) = tr_learners tr |\<union>| tr_learners_next tr"
  "tr_learners_next (collapsed tr) = {||}" "\<not> tr_auto_leave (collapsed tr)"
  "tr_progress (collapsed tr) = tr_progress tr"
  by (simp_all add: collapsed_def)

lemma fold_finsert: "fold finsert xs s = s |\<union>| fset_of_list xs"
  by (induction xs arbitrary: s) auto

definition drop_departed :: "'i fset \<Rightarrow> 'i::linorder list \<Rightarrow> ('i, progress) pmap \<Rightarrow> ('i, progress) pmap" where
  "drop_departed needed = fold (\<lambda>i m. if i |\<notin>| needed then pm_remove i m else m)"

lemma fold_drop_departed:
  "fold (\<lambda>i tr. if i |\<notin>| needed then tr\<lparr>tr_progress := pm_remove i (tr_progress tr)\<rparr> else tr) xs tr =
     tr\<lparr>tr_progress := drop_departed needed xs (tr_progress tr)\<rparr>"
  by (induction xs arbitrary: tr) (simp_all add: drop_departed_def)

lemma drop_departed_laws:
  assumes "pm_wf m"
  shows "pm_wf (drop_departed needed xs m) \<and>
    pm_get (drop_departed needed xs m) j =
      (if j \<in> set xs \<and> j |\<notin>| needed then None else pm_get m j)"
  using assms by (induction xs arbitrary: m) (auto simp: drop_departed_def)

definition left :: "'i::linorder tracker \<Rightarrow> 'i tracker" where
  "left tr = (collapsed tr)\<lparr>tr_progress :=
     drop_departed (tr_ids (collapsed tr)) (btree_iter (outgoing tr)) (tr_progress tr)\<rparr>"

lemma left_simps [simp]:
  "incoming (left tr) = incoming tr" "outgoing (left tr) = {||}"
  "tr_learners (left tr) = tr_learners tr |\<union>| tr_learners_next tr"
  "tr_learners_next (left tr) = {||}" "\<not> tr_auto_leave (left tr)"
  "tr_ids (left tr) = tr_ids (collapsed tr)"
  by (simp_all add: left_def)

lemma left_progress:
  assumes "tracker_ok tr"
  shows "pm_get (tr_progress (left tr)) j =
    (if j |\<in>| tr_ids (collapsed tr) then pm_get (tr_progress tr) j else None)"
  using drop_departed_laws [OF tracker_ok_progress(1) [OF assms]] tracker_ok_progress(3) [OF assms, of j]
  by (auto simp: left_def member_tr_ids)

lemma left_ok:
  assumes "tracker_ok tr"
  shows "tracker_ok (left tr)"
proof -
  have "pm_get (tr_progress (left tr)) j = None \<longleftrightarrow> j |\<notin>| tr_ids (left tr)" for j
    using tracker_ok_progress(3) [OF assms, of j]
    by (auto simp: left_progress [OF assms] member_tr_ids)
  then have "dom (pm_get (tr_progress (left tr))) = fset (tr_ids (left tr))"
    by (simp add: set_eq_iff domIff)
  moreover have "pm_wf (tr_progress (left tr))"
    using drop_departed_laws [OF tracker_ok_progress(1) [OF assms]] by (simp add: left_def)
  moreover have "sets_ok (incoming tr) {||} (tr_learners tr |\<union>| tr_learners_next tr) {||}"
    using assms by (auto simp: tracker_ok_def sets_ok_def)
  ultimately show ?thesis by (simp add: tracker_ok_def progress_exact_def)
qed

lemma leave_joint_eq:
  assumes "tracker_ok tr"
  shows "leave_joint c tr = (if tr_is_joint tr then Ok (left tr) else Err NotJoint)"
proof -
  have "leave_joint c tr =
      (if \<not> tr_is_joint tr then Err NotJoint else and_then (check_invariants (left tr)) (\<lambda>_. Ok (left tr)))"
    unfolding leave_joint_def Let_def fold_drop_departed left_def
    by (simp add: fold_finsert collapsed_def)
  then show ?thesis using tracker_ok_check [OF left_ok [OF assms]] by simp
qed

lemma simple_OkD:
  assumes "tracker_ok tr" and "simple c tr ccs = Ok tr'"
  shows "\<not> tr_is_joint tr" "tr' = fold (apply_single c) ccs tr" "incoming tr' \<noteq> {||}"
    "cc_sym_diff (incoming tr) (incoming tr') \<le> 1" "tracker_ok tr'"
  using assms(2) apply_all(1) [OF assms(1), of c ccs] unfolding simple_eq [OF assms(1) refl]
  by (simp_all split: if_splits)

lemma enter_joint_OkD:
  assumes "tracker_ok tr" and "enter_joint c tr a ccs = Ok tr'"
  shows "\<not> tr_is_joint tr" "tr' = (fold (apply_single c) ccs (doubled tr))\<lparr>tr_auto_leave := a\<rparr>"
    "incoming tr' \<noteq> {||}" "outgoing tr' = incoming tr" "tracker_ok tr'" "tracker_ok (doubled tr)"
proof -
  let ?nxt = "(fold (apply_single c) ccs (doubled tr))\<lparr>tr_auto_leave := a\<rparr>"
  show nj: "\<not> tr_is_joint tr" and tr': "tr' = ?nxt"
    using assms(2) unfolding enter_joint_eq(1) [OF assms(1) refl] by (simp_all split: if_splits)
  show "incoming tr' \<noteq> {||}"
    using assms(2) unfolding enter_joint_eq(1) [OF assms(1) refl] tr' by (simp split: if_splits)
  show d: "tracker_ok (doubled tr)" using assms(1) nj by (rule doubled_ok)
  show "outgoing tr' = incoming tr" using apply_all(3) [OF d, of c ccs] by (simp add: tr')
  have "incoming tr \<noteq> {||}"
    using assms(2) unfolding enter_joint_eq(1) [OF assms(1) refl] by (simp split: if_splits)
  then show "tracker_ok tr'" unfolding tr' by (rule enter_joint_eq(2) [OF assms(1) refl nj])
qed

lemma leave_joint_OkD:
  assumes "tracker_ok tr" and "leave_joint c tr = Ok tr'"
  shows "tr_is_joint tr" "tr' = left tr" "tracker_ok tr'"
  using assms(2) left_ok [OF assms(1)] unfolding leave_joint_eq [OF assms(1)]
  by (simp_all split: if_splits)

section \<open>Quorums of consecutive configurations\<close>

lemma card_Un_bound:
  assumes "finite A" "finite B" and "card (A - B) + card (B - A) \<le> 1"
  shows "card (A \<union> B) < card A div 2 + 1 + (card B div 2 + 1)"
proof -
  have "card (A \<union> B) = card A + card (B - A)" "card (A \<union> B) = card B + card (A - B)"
    using assms(1,2) by (metis card_Un_disjoint Diff_disjoint Un_Diff_cancel finite_Diff)
      (metis assms(1,2) card_Un_disjoint Diff_disjoint Un_Diff_cancel finite_Diff Un_commute)
  with assms(3) show ?thesis by linarith
qed

lemma majorities_of_neighbours_intersect:
  assumes "majority (mc_new A) Q" "majority (mc_new B) R" "A \<noteq> {||}" "B \<noteq> {||}"
    and "cc_sym_diff A B \<le> 1"
  shows "Q \<inter> R \<noteq> {}"
proof
  assume "Q \<inter> R = {}"
  then have "card (fset A \<inter> Q) + card (fset B \<inter> R) = card ((fset A \<inter> Q) \<union> (fset B \<inter> R))"
    by (intro card_Un_disjoint [symmetric]) auto
  also have "\<dots> \<le> card (fset A \<union> fset B)" by (rule card_mono) auto
  finally show False
    using assms card_Un_bound [of "fset A" "fset B"]
    by (auto simp: majority_def sym_diff_card fcard.rep_eq)
qed

section \<open>Reachable trackers\<close>

text \<open>
  One change of the tracker: a configuration change that succeeds, or one of the operations
  that only touch progress. A tracker is reachable when it was restored from a valid
  configuration and changed so.
\<close>

inductive conf_step :: "'i::linorder tracker \<Rightarrow> 'i tracker \<Rightarrow> bool" where
  step_simple: "simple c tr ccs = Ok tr' \<Longrightarrow> conf_step tr tr'"
| step_enter: "enter_joint c tr a ccs = Ok tr' \<Longrightarrow> conf_step tr tr'"
| step_leave: "leave_joint c tr = Ok tr' \<Longrightarrow> conf_step tr tr'"
| step_progress: "conf_step tr (progress_mut i f tr)"
| step_reset: "conf_step tr (reset_progress nxt msgs cap tr)"
| step_window: "conf_step tr (reset_recent_active i tr)"

inductive reachable :: "'i::linorder tracker \<Rightarrow> bool" where
  restored: "cs_is_valid cs \<Longrightarrow> reachable (from_conf_state cs last_i msgs cap)"
| stepped: "reachable tr \<Longrightarrow> conf_step tr tr' \<Longrightarrow> reachable tr'"

lemma same_voters [simp]:
  "tr_voters (progress_mut i f tr) = tr_voters tr"
  "tr_voters (reset_progress nxt msgs cap tr) = tr_voters tr"
  "tr_voters (reset_recent_active i tr) = tr_voters tr"
  by (simp_all add: progress_mut_def reset_progress_eq reset_recent_active_def Let_def)

lemma conf_step_ok:
  assumes "conf_step tr tr'" and "tracker_ok tr \<and> incoming tr \<noteq> {||}"
  shows "tracker_ok tr' \<and> incoming tr' \<noteq> {||}"
  using assms
proof cases
  case (step_simple c ccs)
  with assms show ?thesis using simple_OkD(3,5) by blast
next
  case (step_enter c a ccs)
  with assms show ?thesis using enter_joint_OkD(3,5) by blast
next
  case (step_leave c)
  with assms show ?thesis using leave_joint_OkD(2,3) by (metis left_simps(1))
qed (use assms in \<open>simp_all add: progress_mut_ok reset_progress_ok reset_recent_active_ok\<close>)

lemma reachable_ok: "reachable tr \<Longrightarrow> tracker_ok tr \<and> incoming tr \<noteq> {||}"
proof (induction rule: reachable.induct)
  case (restored cs last_i msgs cap)
  then show ?case by (simp add: from_conf_state_ok cs_is_valid_iff)
next
  case (stepped tr tr')
  then show ?case using conf_step_ok by blast
qed

lemma tr_conf_state_simps [simp]:
  "cs_voters (tr_conf_state tr) = incoming tr" "cs_voters_outgoing (tr_conf_state tr) = outgoing tr"
  "cs_learners (tr_conf_state tr) = tr_learners tr"
  "cs_learners_next (tr_conf_state tr) = tr_learners_next tr"
  "cs_auto_leave (tr_conf_state tr) = tr_auto_leave tr"
  by (simp_all add: tr_conf_state_def cs_new_def)

lemma tracker_ok_valid:
  "tracker_ok tr \<Longrightarrow> incoming tr \<noteq> {||} \<Longrightarrow> cs_is_valid (tr_conf_state tr)"
  by (simp add: cs_is_valid_sets tracker_ok_def cs_is_joint_def tr_is_joint_iff)

lemma joint_quorum_jc:
  "joint_quorum (tr_voters tr) Q \<longleftrightarrow>
     incoming tr \<noteq> {||} \<and> majority (mc_new (incoming tr)) Q \<and> majority (mc_new (outgoing tr)) Q"
  by (simp add: joint_quorum_def jc_live_def joint_majority_def majority_def)

lemma doubled_quorum:
  fixes tr :: "'i::linorder tracker"
  shows "outgoing tr' = incoming tr \<Longrightarrow> joint_quorum (tr_voters tr) Q \<Longrightarrow> joint_quorum (tr_voters tr') R \<Longrightarrow>
   Q \<inter> R \<noteq> {}"
  by (rule majorities_of_neighbours_intersect [of "incoming tr" Q "incoming tr" R])
    (auto simp: joint_quorum_jc sym_diff_card)

lemma conf_step_quorums_intersect:
  assumes "conf_step tr tr'" and ok: "tracker_ok tr"
    and Q: "joint_quorum (tr_voters tr) Q" and R: "joint_quorum (tr_voters tr') R"
  shows "Q \<inter> R \<noteq> {}"
  using assms(1)
proof cases
  case (step_simple c ccs)
  with ok have "cc_sym_diff (incoming tr) (incoming tr') \<le> 1" by (rule simple_OkD(4))
  with Q R show ?thesis
    by (intro majorities_of_neighbours_intersect [of "incoming tr" Q "incoming tr'" R])
      (simp_all add: joint_quorum_jc)
next
  case (step_enter c a ccs)
  with ok have "outgoing tr' = incoming tr" by (rule enter_joint_OkD(4))
  then show ?thesis by (rule doubled_quorum [OF _ Q R])
next
  case (step_leave c)
  with ok have "tr' = left tr" by (rule leave_joint_OkD(2))
  with Q R show ?thesis
    by (intro majorities_of_neighbours_intersect [of "incoming tr" Q "incoming tr" R])
      (simp_all add: joint_quorum_jc sym_diff_card)
qed (use Q R jq.quorum_intersect in auto)

section \<open>Refinement of the membership specification\<close>

lemma changes_members:
  assumes ok: "tracker_ok tr"
  shows "map_ok members (simple c tr ccs) = simple_members ccs (members tr)"
    and "map_ok members (enter_joint c tr a ccs) = enter_members ccs (members tr)"
    and "map_ok members (leave_joint c tr) = leave_members (members tr)"
proof -
  let ?nxt = "fold (apply_single c) ccs tr" and ?dbl = "fold (apply_single c) ccs (doubled tr)"
  have nxt: "change_all ccs (incoming tr, {||}, tr_learners tr, tr_learners_next tr) = members ?nxt"
    if "outgoing tr = {||}"
    using apply_all(2) [OF ok, of c ccs] that by (simp add: members_def)
  show "map_ok members (simple c tr ccs) = simple_members ccs (members tr)"
    unfolding simple_eq [OF ok refl]
    by (cases "outgoing tr = {||}")
      (simp_all add: members_def [of tr] nxt, simp_all add: members_def tr_is_joint_iff sym_diff_card)
  have dbl: "change_all ccs (incoming tr, incoming tr, tr_learners tr, tr_learners_next tr) = members ?dbl"
    if "outgoing tr = {||}"
    using apply_all(2) [OF doubled_ok [OF ok], of c ccs] that by (simp add: members_def tr_is_joint_iff)
  show "map_ok members (enter_joint c tr a ccs) = enter_members ccs (members tr)"
    unfolding enter_joint_eq(1) [OF ok refl]
    by (cases "outgoing tr = {||}")
      (simp_all add: members_def [of tr] dbl, simp_all add: members_def tr_is_joint_iff)
  show "map_ok members (leave_joint c tr) = leave_members (members tr)"
    unfolding leave_joint_eq [OF ok] by (simp add: members_def tr_is_joint_iff)
qed

lemma map_ok_eq_Ok: "map_ok f r = Ok y \<longleftrightarrow> (\<exists>x. r = Ok x \<and> f x = y)"
  by (cases r) auto

text \<open>A tracker of three voters and two changes of it, for concrete instances.\<close>

definition three :: "nat tracker" where
  "three = from_conf_state (cs_from_voters [1, 2, 3]) 5 8 0"

definition sample_changer :: changer where
  "sample_changer = \<lparr>ch_last_index = 5, ch_max_inflight_msgs = 8, ch_max_inflight_bytes = 0\<rparr>"

lemma three_valid: "cs_is_valid (cs_from_voters [1, 2, 3 :: nat])"
  by (simp add: cs_is_valid_iff cs_from_voters_def cs_default_def cs_is_joint_def)

lemma three_ok: "tracker_ok three" "reachable three" "members three = ({|1, 2, 3|}, {||}, {||}, {||})"
  "progress_of three 1 = Some (progress_new 6 8 0)"
  using from_conf_state_ok [OF three_valid, of 5 8 0] restored [OF three_valid, of 5 8 0]
    from_conf_state_progress [OF refl, of "cs_from_voters [1, 2, 3 :: nat]" 5 8 0]
  by (simp_all add: three_def members_def progress_of_def member_tr_ids counter_next_eq)
    (simp_all add: cs_from_voters_def cs_default_def)

section \<open>Properties\<close>

text \<open>
  C24: the changes refine a specification on the four membership sets alone. Whatever list of
  single changes is applied to a well-formed tracker, as a simple change, on entering or on
  leaving a joint configuration, the outcome (the resulting sets, or which error is returned)
  is the specified one; in particular none of the internal invariant checks ever fails.
\<close>

theorem changes_refine_membership:
  assumes "tracker_ok tr"
  shows "map_ok members (simple c tr ccs) = simple_members ccs (members tr) \<and>
    map_ok members (enter_joint c tr a ccs) = enter_members ccs (members tr) \<and>
    map_ok members (leave_joint c tr) = leave_members (members tr)"
  using changes_members [OF assms] by blast

theorem changes_refine_membership_witness:
  "map_ok members (enter_joint sample_changer three True
       [\<lparr>ccs_ty = AddNode, ccs_node = 4\<rparr>, \<lparr>ccs_ty = AddLearnerNode, ccs_node = 1\<rparr>]) =
     Ok ({|4, 2, 3|}, {|1, 2, 3|}, {||}, {|1|})"
proof -
  have "enter_members [\<lparr>ccs_ty = AddNode, ccs_node = 4\<rparr>, \<lparr>ccs_ty = AddLearnerNode, ccs_node = 1\<rparr>]
      ({|1, 2, 3 :: nat|}, {||}, {||}, {||}) = Ok ({|4, 2, 3|}, {|1, 2, 3|}, {||}, {|1|})"
    by code_simp
  then show ?thesis
    using changes_refine_membership [OF three_ok(1), of sample_changer
        "[\<lparr>ccs_ty = AddNode, ccs_node = 4\<rparr>, \<lparr>ccs_ty = AddLearnerNode, ccs_node = 1\<rparr>]" True]
    by (simp only: three_ok(3))
qed

text \<open>
  C25: quorums of consecutive configurations intersect. Whatever change a reachable tracker
  takes, every quorum of the configuration before it and every quorum of the configuration
  after it have a node in common, so no two disjoint groups can decide on the two sides of a
  change.
\<close>

theorem consecutive_quorums_intersect:
  assumes "reachable tr" and "conf_step tr tr'"
    and "joint_quorum (tr_voters tr) Q" and "joint_quorum (tr_voters tr') R"
  shows "Q \<inter> R \<noteq> {}"
  using conf_step_quorums_intersect [OF assms(2) _ assms(3,4)] reachable_ok [OF assms(1)] by simp

theorem consecutive_quorums_intersect_witness:
  "\<exists>tr' Q R. simple sample_changer three [\<lparr>ccs_ty = AddNode, ccs_node = 4\<rparr>] = Ok tr' \<and>
     joint_quorum (tr_voters three) Q \<and> joint_quorum (tr_voters tr') R \<and> Q \<inter> R \<noteq> {}"
proof -
  let ?ccs = "[\<lparr>ccs_ty = AddNode, ccs_node = 4 :: nat\<rparr>]"
  have "simple_members ?ccs ({|1, 2, 3 :: nat|}, {||}, {||}, {||}) = Ok ({|4, 1, 2, 3|}, {||}, {||}, {||})"
    by code_simp
  then have "map_ok members (simple sample_changer three ?ccs) = Ok ({|4, 1, 2, 3|}, {||}, {||}, {||})"
    by (simp only: changes_members(1) [OF three_ok(1)] three_ok(3))
  then obtain tr' where tr': "simple sample_changer three ?ccs = Ok tr'"
    and m: "members tr' = ({|4, 1, 2, 3|}, {||}, {||}, {||})"
    by (auto simp: map_ok_eq_Ok)
  have Q: "joint_quorum (tr_voters three) {1, 2}"
    using three_ok(3) by (simp add: members_eq joint_quorum_jc majority_def fcard_finsert_if)
  have R: "joint_quorum (tr_voters tr') {2, 3, 4}"
    using m by (simp add: members_eq joint_quorum_jc majority_def fcard_finsert_if fcard_fempty)
  show ?thesis
    using consecutive_quorums_intersect [OF three_ok(2) step_simple [OF tr'] Q R] tr' Q R by blast
qed

text \<open>
  C26: every reachable tracker is well formed, and the configuration it would write into a
  snapshot passes the validity check made when a snapshot is installed; so a node never
  persists or sends a membership that another node would refuse.
\<close>

theorem reachable_membership_valid:
  "reachable tr \<Longrightarrow> tracker_ok tr \<and> cs_is_valid (tr_conf_state tr)"
  by (simp add: reachable_ok tracker_ok_valid)

theorem reachable_membership_valid_witness: "cs_is_valid (tr_conf_state (reset_progress 6 8 0 three))"
  using reachable_membership_valid [OF stepped [OF three_ok(2) step_reset]] by blast

text \<open>
  C27: replication state survives a joint transition. Every voter of the old configuration
  keeps its progress through the entry, even one that the change removes or demotes, and every
  node that remains a member keeps it through the exit; a node that leaves has none.
\<close>

theorem joint_transition_keeps_progress:
  assumes "tracker_ok tr"
  shows "(enter_joint c tr a ccs = Ok tr' \<and> i |\<in>| incoming tr \<longrightarrow> progress_of tr' i = progress_of tr i) \<and>
    (leave_joint c tr = Ok tr'' \<longrightarrow>
       progress_of tr'' i = (if i |\<in>| tr_ids tr'' then progress_of tr i else None))"
proof (intro conjI impI)
  assume e: "enter_joint c tr a ccs = Ok tr' \<and> i |\<in>| incoming tr"
  then have "enter_joint c tr a ccs = Ok tr'" by simp
  note e' = enter_joint_OkD [OF assms this]
  show "progress_of tr' i = progress_of tr i"
    using apply_all(5) [OF e'(6), of i c ccs] e by (simp add: e'(2) progress_of_def)
next
  assume "leave_joint c tr = Ok tr''"
  then have "tr'' = left tr" by (rule leave_joint_OkD(2) [OF assms])
  then show "progress_of tr'' i = (if i |\<in>| tr_ids tr'' then progress_of tr i else None)"
    by (simp add: progress_of_def left_progress [OF assms])
qed

theorem joint_transition_keeps_progress_witness:
  "\<exists>tr'. enter_joint sample_changer three True [\<lparr>ccs_ty = RemoveNode, ccs_node = 1\<rparr>] = Ok tr' \<and>
     progress_of tr' 1 = Some (progress_new 6 8 0)"
proof -
  let ?ccs = "[\<lparr>ccs_ty = RemoveNode, ccs_node = 1 :: nat\<rparr>]"
  have "enter_members ?ccs ({|1, 2, 3 :: nat|}, {||}, {||}, {||}) = Ok ({|2, 3|}, {|1, 2, 3|}, {||}, {||})"
    by code_simp
  then have "map_ok members (enter_joint sample_changer three True ?ccs) = Ok ({|2, 3|}, {|1, 2, 3|}, {||}, {||})"
    by (simp only: changes_members(2) [OF three_ok(1)] three_ok(3))
  then obtain tr' where tr': "enter_joint sample_changer three True ?ccs = Ok tr'"
    by (auto simp: map_ok_eq_Ok)
  moreover have "1 |\<in>| incoming three" using three_ok(3) by (simp add: members_eq)
  ultimately have "progress_of tr' 1 = progress_of three 1"
    using joint_transition_keeps_progress [OF three_ok(1)] by blast
  with tr' show ?thesis using three_ok(4) by metis
qed

end
