(* ===== verification/Read_Only.thy ===== *)
theory Read_Only
  imports Counters "HOL-Library.AList"
begin

text \<open>
  Linearizable reads in flight: the leader's \<open>ReadOnly\<close> manager of
  \<^verbatim>\<open>sailing-proto/src/read_only/mod.rs\<close> and the follower's \<open>ForwardedReads\<close> of
  \<^verbatim>\<open>sailing-proto/src/endpoint/mod.rs\<close>. Both correlate a read with its confirmation by a
  token drawn from a counter that refuses to wrap. The locale \<open>token_source\<close> has what the
  two share: tokens that are never minted twice. A \<^verbatim>\<open>BTreeMap\<close> is an association list with
  distinct keys.
\<close>

section \<open>The leader's pending reads\<close>

datatype ReadOnlyOption = Safe | LeaseBased | LeaseGuard

record 'i read_index_status =
  ris_context :: bytes
  ris_req_from :: "'i option"
  ris_index :: index
  ris_acks :: "'i btree_set"

definition into_parts :: "'i read_index_status \<Rightarrow> bytes \<times> 'i option \<times> index" where
  "into_parts st = (ris_context st, ris_req_from st, ris_index st)"

definition ris_new :: "bytes \<Rightarrow> 'i option \<Rightarrow> index \<Rightarrow> 'i \<Rightarrow> 'i read_index_status" where
  "ris_new context req_from index leader =
     \<lparr>ris_context = context, ris_req_from = req_from, ris_index = index, ris_acks = {|leader|}\<rparr>"

record 'i read_only =
  ro_option :: ReadOnlyOption
  ro_pending :: "(bytes \<times> 'i read_index_status) list"
  ro_queue :: "bytes list"
  ro_next_round :: u64

definition ro_new :: "ReadOnlyOption \<Rightarrow> 'i read_only" where
  "ro_new opt = \<lparr>ro_option = opt, ro_pending = [], ro_queue = [], ro_next_round = 0\<rparr>"

definition ro_reset :: "ReadOnlyOption \<Rightarrow> 'i read_only \<Rightarrow> 'i read_only" where
  "ro_reset opt ro = ro\<lparr>ro_option := opt, ro_pending := [], ro_queue := []\<rparr>"

definition ro_set_option :: "ReadOnlyOption \<Rightarrow> 'i read_only \<Rightarrow> 'i read_only" where
  "ro_set_option opt ro = ro\<lparr>ro_option := opt\<rparr>"

definition context_in_flight :: "bytes \<Rightarrow> 'i read_only \<Rightarrow> bool" where
  "context_in_flight context ro \<longleftrightarrow>
     list_ex (\<lambda>(_, s). ris_req_from s = None \<and> ris_context s = context) (ro_pending ro)"

fun take_confirmed :: "bytes list \<Rightarrow> (bytes \<times> 'i read_index_status) list \<Rightarrow>
    'i read_index_status list \<times> (bytes \<times> 'i read_index_status) list" where
  "take_confirmed [] pend = ([], pend)"
| "take_confirmed (ctx # confirmed) pend =
     (case map_of pend ctx of
        Some status \<Rightarrow>
          let (out, pend) = take_confirmed confirmed (AList.delete ctx pend) in (status # out, pend)
      | None \<Rightarrow> take_confirmed confirmed pend)"

definition ro_advance :: "bytes \<Rightarrow> 'i read_only \<Rightarrow> 'i read_index_status list \<times> 'i read_only" where
  "ro_advance token ro =
     (case position (\<lambda>c. c = token) (ro_queue ro) of
        None \<Rightarrow> ([], ro)
      | Some pos \<Rightarrow>
          let confirmed = take (Suc pos) (ro_queue ro);
              ro = ro\<lparr>ro_queue := drop (Suc pos) (ro_queue ro)\<rparr>;
              (out, pend) = take_confirmed confirmed (ro_pending ro)
          in (out, ro\<lparr>ro_pending := pend\<rparr>))"

definition last_pending_request_ctx :: "'i read_only \<Rightarrow> bytes option" where
  "last_pending_request_ctx ro = (if ro_queue ro = [] then None else Some (last (ro_queue ro)))"

definition ro_len :: "'i read_only \<Rightarrow> nat" where
  "ro_len ro = length (ro_queue ro)"

definition acks_for :: "bytes \<Rightarrow> 'i read_only \<Rightarrow> 'i btree_set option" where
  "acks_for token ro = map_option ris_acks (map_of (ro_pending ro) token)"

definition add_request ::
    "index \<Rightarrow> bytes \<Rightarrow> 'i option \<Rightarrow> 'i \<Rightarrow> 'i read_only \<Rightarrow> bytes option \<times> 'i read_only" where
  "add_request index context from leader ro =
     (let token = to_be_bytes 8 (ro_next_round ro) in
      case checked_add (ro_next_round ro) 1 of
        None \<Rightarrow> (None, ro)
      | Some nxt \<Rightarrow>
          let ro = ro\<lparr>ro_next_round := nxt\<rparr>;
              status = ris_new context from index leader;
              ro = ro\<lparr>ro_pending := AList.update token status (ro_pending ro)\<rparr>;
              ro = ro\<lparr>ro_queue := ro_queue ro @ [token]\<rparr>
          in (Some token, ro))"

definition recv_ack :: "'i \<Rightarrow> bytes \<Rightarrow> 'i read_only \<Rightarrow> nat \<times> 'i read_only" where
  "recv_ack from token ro =
     (case map_of (ro_pending ro) token of
        None \<Rightarrow> (0, ro)
      | Some status \<Rightarrow>
          let status = status\<lparr>ris_acks := finsert from (ris_acks status)\<rparr>
          in (fcard (ris_acks status), ro\<lparr>ro_pending := AList.update token status (ro_pending ro)\<rparr>))"

section \<open>The follower's forwarded reads\<close>

definition MAX_FORWARDED_READS :: nat where
  "MAX_FORWARDED_READS = 256"

record forwarded_reads =
  fr_order :: "(bytes \<times> bytes) list"
  fr_boot_epoch :: u64
  fr_next_token :: u64

definition fr_new :: "u64 \<Rightarrow> forwarded_reads" where
  "fr_new boot_epoch = \<lparr>fr_order = [], fr_boot_epoch = boot_epoch, fr_next_token = 0\<rparr>"

definition contains_context :: "bytes \<Rightarrow> forwarded_reads \<Rightarrow> bool" where
  "contains_context context fr \<longleftrightarrow> list_ex (\<lambda>(_, c). c = context) (fr_order fr)"

definition fr_is_full :: "forwarded_reads \<Rightarrow> bool" where
  "fr_is_full fr \<longleftrightarrow> length (fr_order fr) \<ge> MAX_FORWARDED_READS"

definition fr_push :: "bytes \<Rightarrow> forwarded_reads \<Rightarrow> bytes option \<times> forwarded_reads" where
  "fr_push context fr =
     (let buf = to_be_bytes 8 (fr_boot_epoch fr) @ to_be_bytes 8 (fr_next_token fr) in
      case checked_add (fr_next_token fr) 1 of
        None \<Rightarrow> (None, fr)
      | Some nxt \<Rightarrow>
          (Some buf, fr\<lparr>fr_next_token := nxt, fr_order := fr_order fr @ [(buf, context)]\<rparr>))"

definition remove_by_token :: "bytes \<Rightarrow> forwarded_reads \<Rightarrow> bytes option \<times> forwarded_reads" where
  "remove_by_token token fr =
     (case position (\<lambda>(t, _). t = token) (fr_order fr) of
        None \<Rightarrow> (None, fr)
      | Some pos \<Rightarrow>
          (Some (snd (fr_order fr ! pos)),
           fr\<lparr>fr_order := take pos (fr_order fr) @ drop (Suc pos) (fr_order fr)\<rparr>))"

definition fr_clear :: "forwarded_reads \<Rightarrow> forwarded_reads" where
  "fr_clear fr = fr\<lparr>fr_order := []\<rparr>"

section \<open>Sources of fresh tokens\<close>

text \<open>The tokens a sequence of steps mints, where a step mints at most one.\<close>

fun minted :: "('op \<Rightarrow> 's \<Rightarrow> 't option \<times> 's) \<Rightarrow> 'op list \<Rightarrow> 's \<Rightarrow> 't list" where
  "minted step [] s = []"
| "minted step (op # ops) s =
     (case step op s of
        (Some t, s') \<Rightarrow> t # minted step ops s'
      | (None, s') \<Rightarrow> minted step ops s')"

text \<open>
  A state draws its tokens from a counter that only grows; the token has the counter's value
  and the epoch of the state, which no step changes.
\<close>

locale token_source =
  fixes epoch :: "'s \<Rightarrow> 'e"
    and counter :: "'s \<Rightarrow> u64"
    and token :: "'e \<Rightarrow> u64 \<Rightarrow> 't"
    and step :: "'op \<Rightarrow> 's \<Rightarrow> 't option \<times> 's"
  assumes epoch_step: "step op s = (r, s') \<Longrightarrow> epoch s' = epoch s"
    and mint: "step op s = (Some t, s') \<Longrightarrow> t = token (epoch s) (counter s) \<and> counter s < counter s'"
    and keep: "step op s = (None, s') \<Longrightarrow> counter s' = counter s"
    and token_inj: "token e n = token e' n' \<Longrightarrow> e = e' \<and> n = n'"
begin

lemma minted_tokens:
  "t \<in> set (minted step ops s) \<Longrightarrow> \<exists>n \<ge> counter s. t = token (epoch s) n"
proof (induction ops arbitrary: s)
  case (Cons op ops)
  obtain r s' where st: "step op s = (r, s')" by fastforce
  then have "counter s \<le> counter s'"
    by (cases r) (use keep mint in \<open>fastforce+\<close>)
  then show ?case
    using Cons.prems Cons.IH [of s'] st epoch_step [OF st] mint [of op s _ s']
    by (cases r) (auto intro: order_trans)
qed simp

lemma minted_distinct: "distinct (minted step ops s)"
proof (induction ops arbitrary: s)
  case (Cons op ops)
  obtain r s' where st: "step op s = (r, s')" by fastforce
  show ?case
  proof (cases r)
    case (Some t)
    have "t \<notin> set (minted step ops s')"
    proof
      assume "t \<in> set (minted step ops s')"
      then obtain n where "counter s' \<le> n" and "t = token (epoch s') n"
        using minted_tokens by blast
      with mint [of op s t s'] st Some token_inj show False by fastforce
    qed
    with Cons.IH st Some show ?thesis by simp
  qed (use Cons.IH st in simp)
qed simp

text \<open>Incarnations with distinct epochs never mint a token in common.\<close>

lemma minted_disjoint:
  assumes "epoch s \<noteq> epoch s'"
  shows "set (minted step ops s) \<inter> set (minted step ops' s') = {}"
  using minted_tokens [of _ ops s] minted_tokens [of _ ops' s'] token_inj assms by blast

lemma minted_incarnations_distinct:
  "distinct (map (\<lambda>(s, ops). epoch s) incs) \<Longrightarrow>
   distinct (concat (map (\<lambda>(s, ops). minted step ops s) incs))"
proof (induction incs)
  case (Cons i incs)
  obtain s ops where i: "i = (s, ops)" by fastforce
  have "set (minted step ops s) \<inter> set (minted step ops' s') = {}" if "(s', ops') \<in> set incs" for s' ops'
    using Cons.prems that i by (intro minted_disjoint) force
  then have "set (minted step ops s) \<inter> (\<Union>(s', ops') \<in> set incs. set (minted step ops' s')) = {}"
    by blast
  with Cons i show ?case by (simp add: minted_distinct case_prod_unfold)
qed simp

end

lemma checked_add_1_gt: "checked_add n 1 = Some (m :: u64) \<Longrightarrow> n < m"
  by (auto simp: checked_add_1 split: if_splits intro: inc_gt)

datatype 'i ro_op =
    AddRequest index bytes "'i option" 'i
  | RecvAck 'i bytes
  | Advance bytes
  | Reset ReadOnlyOption
  | SetOption ReadOnlyOption

fun ro_step :: "'i ro_op \<Rightarrow> 'i read_only \<Rightarrow> bytes option \<times> 'i read_only" where
  "ro_step (AddRequest i ctx from leader) ro = add_request i ctx from leader ro"
| "ro_step (RecvAck from token) ro = (None, snd (recv_ack from token ro))"
| "ro_step (Advance token) ro = (None, snd (ro_advance token ro))"
| "ro_step (Reset opt) ro = (None, ro_reset opt ro)"
| "ro_step (SetOption opt) ro = (None, ro_set_option opt ro)"

lemma ro_next_round_ops [simp]:
  "ro_next_round (snd (recv_ack from token ro)) = ro_next_round ro"
  "ro_next_round (snd (ro_advance token ro)) = ro_next_round ro"
  "ro_next_round (ro_reset opt ro) = ro_next_round ro"
  "ro_next_round (ro_set_option opt ro) = ro_next_round ro"
  by (auto simp: recv_ack_def ro_advance_def ro_reset_def ro_set_option_def Let_def
      split: option.splits prod.splits)

interpretation ro_tokens: token_source "\<lambda>_. ()" ro_next_round "\<lambda>_. to_be_bytes 8" ro_step
proof
  fix op and s s' :: "'a read_only" and t
  show "t = to_be_bytes 8 (ro_next_round s) \<and> ro_next_round s < ro_next_round s'"
    if "ro_step op s = (Some t, s')"
    using that by (cases op)
      (auto simp: add_request_def Let_def checked_add_1_gt split: option.splits)
  show "ro_next_round s' = ro_next_round s" if "ro_step op s = (None, s')"
    using that by (cases op) (auto simp: add_request_def Let_def split: option.splits)
qed (simp_all add: to_be_bytes_inject)

datatype fr_op = Push bytes | RemoveByToken bytes | Clear

fun fr_step :: "fr_op \<Rightarrow> forwarded_reads \<Rightarrow> bytes option \<times> forwarded_reads" where
  "fr_step (Push ctx) fr = fr_push ctx fr"
| "fr_step (RemoveByToken token) fr = (None, snd (remove_by_token token fr))"
| "fr_step Clear fr = (None, fr_clear fr)"

lemma fr_fields [simp]:
  "fr_next_token (snd (remove_by_token token fr)) = fr_next_token fr"
  "fr_boot_epoch (snd (remove_by_token token fr)) = fr_boot_epoch fr"
  "fr_next_token (fr_clear fr) = fr_next_token fr" "fr_boot_epoch (fr_clear fr) = fr_boot_epoch fr"
  by (auto simp: remove_by_token_def fr_clear_def split: option.splits)

interpretation fr_tokens: token_source fr_boot_epoch fr_next_token
  "\<lambda>e n. to_be_bytes 8 e @ to_be_bytes 8 n" fr_step
proof
  fix op s s' t
  show "t = to_be_bytes 8 (fr_boot_epoch s) @ to_be_bytes 8 (fr_next_token s) \<and>
      fr_next_token s < fr_next_token s'" if "fr_step op s = (Some t, s')"
    using that by (cases op) (auto simp: fr_push_def Let_def checked_add_1_gt split: option.splits)
  show "fr_next_token s' = fr_next_token s" if "fr_step op s = (None, s')"
    using that by (cases op) (auto simp: fr_push_def Let_def split: option.splits)
  show "fr_boot_epoch s' = fr_boot_epoch s" if "fr_step op s = (r, s')" for r
    using that by (cases op) (auto simp: fr_push_def Let_def split: option.splits)
qed (simp add: to_be_bytes_inject)

section \<open>The invariant of the pending reads\<close>

definition ro_ok :: "'i read_only \<Rightarrow> bool" where
  "ro_ok ro \<longleftrightarrow>
     distinct (map fst (ro_pending ro)) \<and> set (ro_queue ro) = fst ` set (ro_pending ro) \<and>
     distinct (ro_queue ro) \<and>
     (\<forall>t \<in> set (ro_queue ro). \<exists>n < ro_next_round ro. t = to_be_bytes 8 n)"

lemma map_of_filter_key: "P t \<Longrightarrow> map_of (filter (\<lambda>(k, _). P k) al) t = map_of al t"
  by (induction al) auto

lemma take_confirmed_eq:
  assumes "distinct cs" and "set cs \<subseteq> fst ` set pend"
  shows "take_confirmed cs pend =
    (map (\<lambda>t. the (map_of pend t)) cs, filter (\<lambda>(t, _). t \<notin> set cs) pend)"
  using assms
proof (induction cs arbitrary: pend)
  case (Cons c cs)
  then obtain st where st: "map_of pend c = Some st" by (auto simp: dom_map_of_conv_image_fst [symmetric])
  have "set cs \<subseteq> fst ` set (AList.delete c pend)"
    using Cons.prems by (auto simp: AList.delete_eq image_iff) force
  then have "take_confirmed cs (AList.delete c pend) =
      (map (\<lambda>t. the (map_of (AList.delete c pend) t)) cs, filter (\<lambda>(t, _). t \<notin> set cs) (AList.delete c pend))"
    using Cons by simp
  moreover have "map_of (AList.delete c pend) t = map_of pend t" if "t \<in> set cs" for t
    using that Cons.prems(1) by (auto simp: AList.delete_conv')
  ultimately show ?case
    using st by (auto simp: AList.delete_eq intro!: filter_cong)
qed simp

lemma ro_advance_found:
  assumes ok: "ro_ok ro" and q: "ro_queue ro = xs @ token # ys"
  shows "ro_advance token ro =
    (map (\<lambda>t. the (map_of (ro_pending ro) t)) (xs @ [token]),
     ro\<lparr>ro_queue := ys, ro_pending := filter (\<lambda>(t, _). t \<notin> set (xs @ [token])) (ro_pending ro)\<rparr>)"
proof -
  have "position (\<lambda>c. c = token) (xs @ token # ys) = Some (length xs)"
    using ok q by (intro position_append) (auto simp: ro_ok_def)
  moreover have "take_confirmed (xs @ [token]) (ro_pending ro) =
      (map (\<lambda>t. the (map_of (ro_pending ro) t)) (xs @ [token]),
       filter (\<lambda>(t, _). t \<notin> set (xs @ [token])) (ro_pending ro))"
    by (rule take_confirmed_eq) (use ok q in \<open>auto simp: ro_ok_def\<close>)
  ultimately show ?thesis by (simp add: ro_advance_def q)
qed

lemma ro_advance_missing: "token \<notin> set (ro_queue ro) \<Longrightarrow> ro_advance token ro = ([], ro)"
  by (auto simp: ro_advance_def split: option.splits dest!: position_SomeD)

lemma ro_advance_ok:
  assumes "ro_ok ro"
  shows "ro_ok (snd (ro_advance token ro))"
proof (cases "token \<in> set (ro_queue ro)")
  case True
  then obtain xs ys where q: "ro_queue ro = xs @ token # ys" by (auto dest: split_list)
  have "distinct (map fst (filter P (ro_pending ro)))" for P
    using assms by (simp add: ro_ok_def distinct_map_filter)
  moreover have "fst ` set (filter (\<lambda>(t, _). t \<notin> set (xs @ [token])) (ro_pending ro)) =
      fst ` set (ro_pending ro) - set (xs @ [token])" by force
  moreover have "fst ` set (ro_pending ro) - set (xs @ [token]) = set ys"
    using assms q by (auto simp: ro_ok_def)
  ultimately show ?thesis
    using assms q by (simp add: ro_advance_found) (auto simp: ro_ok_def)
qed (use assms in \<open>simp add: ro_advance_missing\<close>)

lemma ro_token_bound: "ro_ok ro \<Longrightarrow> to_be_bytes 8 n \<in> fst ` set (ro_pending ro) \<Longrightarrow> n < ro_next_round ro"
  unfolding ro_ok_def by (metis to_be_bytes_inject [of 8 n, simplified])

lemma add_request_fresh: "ro_ok ro \<Longrightarrow> to_be_bytes 8 (ro_next_round ro) \<notin> fst ` set (ro_pending ro)"
  using ro_token_bound by blast

lemma add_request_ok:
  assumes ok: "ro_ok ro"
  shows "ro_ok (snd (add_request i ctx from leader ro))"
proof (cases "checked_add (ro_next_round ro) 1")
  case (Some m)
  let ?t = "to_be_bytes 8 (ro_next_round ro)" and ?ro = "snd (add_request i ctx from leader ro)"
  from Some have m: "ro_next_round ro < m" by (rule checked_add_1_gt)
  have ro: "ro_queue ?ro = ro_queue ro @ [?t]" "ro_next_round ?ro = m"
    "ro_pending ?ro = AList.update ?t (ris_new ctx from i leader) (ro_pending ro)"
    using Some by (simp_all add: add_request_def Let_def)
  have "\<exists>n < ro_next_round ro. t = to_be_bytes 8 n" if "t \<in> set (ro_queue ro)" for t
    using that ok unfolding ro_ok_def by blast
  then have "\<exists>n < m. t = to_be_bytes 8 n" if "t \<in> set (ro_queue ?ro)" for t
    using that m unfolding ro by (fastforce dest: order_less_trans)
  then show ?thesis
    using ok add_request_fresh [OF ok] unfolding ro_ok_def ro
    by (simp add: AList.distinct_update AList.dom_update)
qed (use ok in \<open>simp add: add_request_def Let_def\<close>)

lemma recv_ack_ok:
  assumes ok: "ro_ok ro"
  shows "ro_ok (snd (recv_ack from token ro))"
proof (cases "map_of (ro_pending ro) token")
  case (Some st)
  then have "token \<in> fst ` set (ro_pending ro)" by (force dest: map_of_SomeD)
  with Some ok show ?thesis
    by (simp add: recv_ack_def Let_def ro_ok_def AList.distinct_update AList.dom_update insert_absorb)
qed (use ok in \<open>simp add: recv_ack_def\<close>)

lemma ro_step_ok: "ro_ok ro \<Longrightarrow> ro_ok (snd (ro_step op ro))"
  by (cases op) (auto simp: add_request_ok recv_ack_ok ro_advance_ok,
      auto simp: ro_ok_def ro_reset_def ro_set_option_def)

section \<open>Order of confirmation\<close>

definition pending_reads :: "'i read_only \<Rightarrow> (bytes \<times> 'i option \<times> index) list" where
  "pending_reads ro = map (\<lambda>t. into_parts (the (map_of (ro_pending ro) t))) (ro_queue ro)"

text \<open>The reads a sequence of operations confirms, the reads it accepts, and the final state.\<close>

fun ro_trace :: "'i ro_op list \<Rightarrow> 'i read_only \<Rightarrow>
    (bytes \<times> 'i option \<times> index) list \<times> (bytes \<times> 'i option \<times> index) list \<times> 'i read_only" where
  "ro_trace [] ro = ([], [], ro)"
| "ro_trace (op # ops) ro =
     (let (conf, acc, ro') = ro_trace ops (snd (ro_step op ro)) in
      case op of
        AddRequest i ctx from leader \<Rightarrow>
          (conf, (if fst (ro_step op ro) = None then acc else (ctx, from, i) # acc), ro')
      | Advance token \<Rightarrow> (map into_parts (fst (ro_advance token ro)) @ conf, acc, ro')
      | _ \<Rightarrow> (conf, acc, ro'))"

fun is_reset :: "'i ro_op \<Rightarrow> bool" where
  "is_reset (Reset _) = True"
| "is_reset _ = False"

lemma pending_reads_add:
  assumes ok: "ro_ok ro"
  shows "pending_reads (snd (add_request i ctx from leader ro)) =
    pending_reads ro @ (if fst (add_request i ctx from leader ro) = None then [] else [(ctx, from, i)])"
proof (cases "checked_add (ro_next_round ro) 1")
  case (Some m)
  let ?t = "to_be_bytes 8 (ro_next_round ro)"
  have "?t \<notin> set (ro_queue ro)" using add_request_fresh [OF ok] ok by (simp add: ro_ok_def)
  with Some show ?thesis
    by (auto simp: pending_reads_def add_request_def Let_def AList.update_conv' into_parts_def ris_new_def)
qed (simp add: add_request_def Let_def pending_reads_def)

lemma pending_reads_ack: "pending_reads (snd (recv_ack from token ro)) = pending_reads ro"
  by (auto simp: pending_reads_def recv_ack_def Let_def AList.update_conv' into_parts_def
      split: option.splits)

lemma pending_reads_advance:
  assumes ok: "ro_ok ro"
  shows "map into_parts (fst (ro_advance token ro)) @ pending_reads (snd (ro_advance token ro)) =
    pending_reads ro"
proof (cases "token \<in> set (ro_queue ro)")
  case True
  then obtain xs ys where q: "ro_queue ro = xs @ token # ys" by (auto dest: split_list)
  have "map_of (filter (\<lambda>(t, _). t \<notin> set (xs @ [token])) (ro_pending ro)) t = map_of (ro_pending ro) t"
    if "t \<in> set ys" for t
    using that ok q by (intro map_of_filter_key) (auto simp: ro_ok_def)
  with ok q show ?thesis by (simp add: ro_advance_found pending_reads_def)
qed (simp add: ro_advance_missing)

lemma ro_trace_fifo:
  assumes "ro_ok ro" and "list_all (\<lambda>op. \<not> is_reset op) ops" and "ro_trace ops ro = (conf, acc, ro')"
  shows "conf @ pending_reads ro' = pending_reads ro @ acc"
  using assms
proof (induction ops arbitrary: ro conf acc)
  case (Cons op ops)
  obtain c a where t: "ro_trace ops (snd (ro_step op ro)) = (c, a, ro')"
    using Cons.prems(3) by (cases "ro_trace ops (snd (ro_step op ro))") (auto split: ro_op.splits)
  have IH: "c @ pending_reads ro' = pending_reads (snd (ro_step op ro)) @ a"
    using Cons.IH [OF ro_step_ok [OF Cons.prems(1)] _ t] Cons.prems(2) by simp
  show ?case
  proof (cases op)
    case (Advance token)
    with Cons.prems(3) t have "conf = map into_parts (fst (ro_advance token ro)) @ c" "acc = a"
      by simp_all
    with IH Advance show ?thesis
      using pending_reads_advance [OF Cons.prems(1), of token] by (metis append_assoc ro_step.simps(3) snd_conv)
  next
    case (SetOption opt)
    with IH Cons.prems t show ?thesis by (auto simp: pending_reads_def ro_set_option_def)
  qed (use IH Cons.prems t in \<open>auto simp: pending_reads_add pending_reads_ack\<close>)
qed simp

section \<open>Who acknowledged a read\<close>

fun ackers :: "bytes \<Rightarrow> 'i ro_op list \<Rightarrow> 'i list" where
  "ackers token [] = []"
| "ackers token (RecvAck from t # ops) = (if t = token then from # ackers token ops else ackers token ops)"
| "ackers token (_ # ops) = ackers token ops"

definition ro_run :: "'i ro_op list \<Rightarrow> 'i read_only \<Rightarrow> 'i read_only" where
  "ro_run ops ro = fold (\<lambda>op ro. snd (ro_step op ro)) ops ro"

lemma ro_run_ok: "ro_ok ro \<Longrightarrow> ro_ok (ro_run ops ro)"
  unfolding ro_run_def by (induction ops arbitrary: ro) (auto simp: ro_step_ok)

lemma acks_recv_ack:
  "acks_for t (snd (recv_ack f t' ro)) =
     (if t = t' then map_option (finsert f) (acks_for t ro) else acks_for t ro)"
  by (auto simp: acks_for_def recv_ack_def Let_def AList.update_conv' split: option.splits)

lemma acks_step:
  assumes ok: "ro_ok ro" and "n < ro_next_round ro" and t: "t = to_be_bytes 8 n"
  shows "acks_for t (snd (ro_step op ro)) = None \<or>
    (\<exists>a. acks_for t ro = Some a \<and>
      acks_for t (snd (ro_step op ro)) = Some (a |\<union>| fset_of_list (ackers t [op])))"
proof (cases op)
  case (AddRequest i ctx f leader)
  have "t \<noteq> to_be_bytes 8 (ro_next_round ro)" using assms(2) by (auto simp: t to_be_bytes_inject)
  with AddRequest show ?thesis
    by (auto simp: acks_for_def add_request_def Let_def AList.update_conv' split: option.splits)
next
  case (Advance token)
  show ?thesis
  proof (cases "token \<in> set (ro_queue ro)")
    case True
    then obtain xs ys where q: "ro_queue ro = xs @ token # ys" by (auto dest: split_list)
    show ?thesis
    proof (cases "t \<in> set (xs @ [token])")
      case True
      then have "map_of (filter (\<lambda>(t, _). t \<notin> set (xs @ [token])) (ro_pending ro)) t = None"
        by (auto simp: map_of_eq_None_iff)
      then show ?thesis by (simp add: Advance ro_advance_found [OF ok q] acks_for_def)
    next
      case False
      then show ?thesis
        by (cases "map_of (ro_pending ro) t")
          (simp_all add: Advance ro_advance_found [OF ok q] acks_for_def map_of_filter_key)
    qed
  qed (auto simp: Advance ro_advance_missing)
qed (auto simp: acks_for_def recv_ack_def Let_def AList.update_conv' ro_reset_def ro_set_option_def
      split: option.splits)

lemma ackers_Cons: "ackers t (op # ops) = ackers t [op] @ ackers t ops"
  by (cases op) auto

lemma ro_next_round_step: "ro_next_round ro \<le> ro_next_round (snd (ro_step op ro))"
  using ro_tokens.mint [of op ro] ro_tokens.keep [of op ro]
  by (cases "ro_step op ro"; cases "fst (ro_step op ro)") auto

lemma acks_run:
  assumes "ro_ok ro" and "n < ro_next_round ro" and "t = to_be_bytes 8 n"
  shows "acks_for t (ro_run ops ro) = None \<or>
    (\<exists>a. acks_for t ro = Some a \<and>
      acks_for t (ro_run ops ro) = Some (a |\<union>| fset_of_list (ackers t ops)))"
  using assms(1,2)
proof (induction ops arbitrary: ro)
  case (Cons op ops)
  have "n < ro_next_round (snd (ro_step op ro))"
    using Cons.prems(2) ro_next_round_step by (rule order_less_le_trans)
  from Cons.IH [OF ro_step_ok [OF Cons.prems(1)] this] acks_step [OF Cons.prems(1,2) assms(3), of op]
  show ?case
    by (subst ackers_Cons) (auto simp: ro_run_def funion_assoc)
qed (auto simp: ro_run_def)

lemma add_request_result:
  assumes "add_request i ctx from leader ro = (Some t, ro')"
  shows "t = to_be_bytes 8 (ro_next_round ro)" "ro_next_round ro < ro_next_round ro'"
    "acks_for t ro' = Some {|leader|}"
  using assms by (auto simp: add_request_def Let_def acks_for_def AList.update_conv' ris_new_def
      checked_add_1_gt split: option.splits)

lemma ro_new_ok: "ro_ok (ro_new opt)"
  by (simp add: ro_ok_def ro_new_def)

section \<open>Properties\<close>

text \<open>
  C28: a round token is never minted twice. In any sequence of operations on the leader's
  manager the tokens handed out are pairwise distinct, resets included, so a stale or
  duplicated heartbeat response can never be credited to a later read.
\<close>

theorem round_tokens_never_reused: "distinct (minted ro_step ops ro)"
  by (rule ro_tokens.minted_distinct)

text \<open>
  C29: the tokens of forwarded reads are unique across restarts. Over any number of
  incarnations whose boot epochs are pairwise distinct, no two forwards ever carry the same
  token, so a response to a read of an earlier incarnation cannot complete a later one.
\<close>

theorem forward_tokens_unique_across_restarts:
  assumes "distinct (map fst incs)"
  shows "distinct (concat (map (\<lambda>(e, ops). minted fr_step ops (fr_new e)) incs))"
proof -
  let ?incs = "map (\<lambda>(e, ops). (fr_new e, ops)) incs"
  have epochs: "map (\<lambda>(s, ops). fr_boot_epoch s) ?incs = map fst incs"
    by (simp add: fr_new_def case_prod_unfold)
  have "distinct (concat (map (\<lambda>(s, ops). minted fr_step ops s) ?incs))"
    by (rule fr_tokens.minted_incarnations_distinct) (simp only: epochs assms)
  then show ?thesis by (simp add: case_prod_unfold comp_def)
qed

theorem forward_tokens_unique_across_restarts_witness:
  "distinct (concat (map (\<lambda>(e, ops). minted fr_step ops (fr_new e))
     [(1, [Push [7], Push [8]]), (2, [Push [7], Clear, Push [7]])]))"
  by (rule forward_tokens_unique_across_restarts) simp

text \<open>
  C30: reads are confirmed in the order they were accepted, each at most once and none lost:
  without a reset, what was confirmed followed by what is still pending is exactly what was
  accepted, with its context, its originator and its commit index.
\<close>

theorem reads_confirmed_in_order:
  assumes "list_all (\<lambda>op. \<not> is_reset op) ops" and "ro_trace ops (ro_new opt) = (conf, acc, ro')"
  shows "conf @ pending_reads ro' = acc"
  using ro_trace_fifo [OF ro_new_ok assms] by (simp add: pending_reads_def ro_new_def)

theorem reads_confirmed_in_order_witness:
  "let (conf, acc, ro') = ro_trace
       [AddRequest 3 [1] None 1, AddRequest 4 [2] (Some 9) 1, RecvAck 2 [0,0,0,0,0,0,0,0], Advance [0,0,0,0,0,0,0,0]]
       (ro_new Safe :: nat read_only)
   in conf @ pending_reads ro' = acc"
proof -
  obtain conf acc ro' where t: "ro_trace
      [AddRequest 3 [1] None 1, AddRequest 4 [2] (Some 9) 1, RecvAck 2 [0,0,0,0,0,0,0,0], Advance [0,0,0,0,0,0,0,0]]
      (ro_new Safe :: nat read_only) = (conf, acc, ro')"
    using prod_cases3 by blast
  show ?thesis unfolding t using reads_confirmed_in_order [OF _ t] by simp
qed

text \<open>
  C31: a read is only ever acknowledged for its own round. From the moment a read is accepted,
  whatever happens afterwards, as long as it is pending the nodes counted for it are exactly
  the leader and the nodes whose acknowledgement carried its token since then.
\<close>

theorem acks_exactly_own_round:
  assumes "add_request i ctx from leader (ro_run before (ro_new opt)) = (Some t, ro)"
    and "acks_for t (ro_run ops ro) = Some a"
  shows "a = finsert leader (fset_of_list (ackers t ops))"
proof -
  let ?ro = "ro_run before (ro_new opt)"
  note r = add_request_result [OF assms(1)]
  have "ro_ok ro"
    using add_request_ok [OF ro_run_ok [OF ro_new_ok], of i ctx "from" leader before opt] assms(1) by simp
  from acks_run [OF this r(2,1), of ops] assms(2) r(3) show ?thesis by auto
qed

theorem acks_exactly_own_round_witness:
  "let (t, ro) = add_request 5 [1] None (1 :: nat) (ro_run [] (ro_new Safe))
   in acks_for (the t) (ro_run [RecvAck 2 (the t), RecvAck 3 [9]] ro) = Some {|1, 2|}"
proof -
  obtain t ro where add: "add_request 5 [1] None (1 :: nat) (ro_run [] (ro_new Safe)) = (Some t, ro)"
    by (simp add: ro_run_def ro_new_def add_request_def checked_add_1 Let_def)
  note r = add_request_result [OF add]
  have "length t = 8" using r(1) by simp
  then have "t \<noteq> [9]" by auto
  then obtain a where a: "acks_for t (ro_run [RecvAck 2 t, RecvAck 3 [9]] ro) = Some a"
    using r(3) by (simp add: ro_run_def acks_recv_ack)
  from acks_exactly_own_round [OF add a] \<open>t \<noteq> [9]\<close> have "a = {|1, 2|}" by auto
  with add a show ?thesis by simp
qed

end
