(* ===== verification/Varint.thy ===== *)
theory Varint
  imports Sailing_Prelude
begin

text \<open>
  The unsigned LEB128 variable-length integers of \<^verbatim>\<open>sailing-proto/src/transport/frame/mod.rs\<close>:
  seven bits to a byte, least significant first, the top bit set on all but the last. The reader
  accepts at most ten bytes and refuses bits above the width.
\<close>

section \<open>Model\<close>

definition MAX_GENERATION_VARINT_LEN :: nat where
  "MAX_GENERATION_VARINT_LEN = 10"

lemma unat_drop_7: "unat (drop_bit 7 v) = unat (v :: u64) div 128"
  by (simp add: unat_drop_bit_eq) (simp add: drop_bit_eq_div)

lemma varint_decreases: "(v :: u64) \<noteq> 0 \<Longrightarrow> unat (drop_bit 7 v) < unat v"
  by (simp add: unat_drop_7 unat_gt_0)

function write_varint :: "u64 \<Rightarrow> bytes \<Rightarrow> bytes" where
  "write_varint v out =
     (if v \<ge> 0x80 then write_varint (drop_bit 7 v) (out @ [ucast v OR 0x80])
      else out @ [ucast v])"
  by auto
termination
proof (relation "measure (\<lambda>(v, out). unat v)")
  fix v :: u64 and out :: bytes
  assume "0x80 \<le> v"
  then have "v \<noteq> 0" by (auto simp: word_le_nat_alt)
  then show "((drop_bit 7 v, out @ [ucast v OR 0x80]), v, out) \<in> measure (\<lambda>(v, out). unat v)"
    by (simp add: varint_decreases)
qed simp

declare write_varint.simps [simp del]

fun read_varint_loop :: "nat \<Rightarrow> u64 \<Rightarrow> bytes \<Rightarrow> (u64 \<times> nat) option" where
  "read_varint_loop i v [] = None"
| "read_varint_loop i v (b # bs) =
     (let payload = ucast (b AND 0x7F) :: u64 in
      if i = MAX_GENERATION_VARINT_LEN - 1 \<and> payload > 1 then None
      else
        let v = v OR push_bit (7 * i) payload in
        if b AND 0x80 = 0 then Some (v, i + 1) else read_varint_loop (i + 1) v bs)"

definition read_varint :: "bytes \<Rightarrow> (u64 \<times> nat) option" where
  "read_varint buf = read_varint_loop 0 0 (take MAX_GENERATION_VARINT_LEN buf)"

function varint_len_loop :: "nat \<Rightarrow> u64 \<Rightarrow> nat" where
  "varint_len_loop n v = (if v \<noteq> 0 then varint_len_loop (n + 1) (drop_bit 7 v) else n)"
  by auto
termination
  by (relation "measure (\<lambda>(n, v). unat v)") (auto simp: varint_decreases)

declare varint_len_loop.simps [simp del]

definition varint_len :: "u64 \<Rightarrow> nat" where
  "varint_len v = varint_len_loop 1 (drop_bit 7 v)"

section \<open>Writing\<close>

text \<open>What the writer appends.\<close>

definition varint :: "u64 \<Rightarrow> bytes" where
  "varint v = write_varint v []"

lemma write_varint_append: "write_varint v (out @ xs) = out @ write_varint v xs"
proof (induction v xs rule: write_varint.induct)
  case (1 v xs)
  then show ?case
    by (subst (1 2) write_varint.simps) simp
qed

lemma write_varint_eq: "write_varint v out = out @ varint v"
  using write_varint_append [of v out "[]"] by (simp add: varint_def)

lemma varint_rec:
  "varint v = (if 0x80 \<le> v then (ucast v OR 0x80) # varint (drop_bit 7 v) else [ucast v])"
  unfolding varint_def by (subst write_varint.simps) (simp add: write_varint_eq)

lemma varint_len_loop_eq:
  "varint_len_loop n (drop_bit 7 v) = n + (if 0x80 \<le> v then length (varint (drop_bit 7 v)) else 0)"
proof (induction "unat v" arbitrary: v n rule: less_induct)
  case less
  have z: "drop_bit 7 v = 0 \<longleftrightarrow> \<not> 0x80 \<le> v"
    using unat_eq_zero [of "drop_bit 7 v"] by (auto simp: word_le_nat_alt unat_drop_7 not_le)
  show ?case
  proof (cases "0x80 \<le> v")
    case True
    then have nz: "v \<noteq> 0" by (auto simp: word_le_nat_alt)
    from True have "varint_len_loop n (drop_bit 7 v) = varint_len_loop (n + 1) (drop_bit 7 (drop_bit 7 v))"
      using z by (subst varint_len_loop.simps) simp
    also have "\<dots> = n + length (varint (drop_bit 7 v))"
      using less [OF varint_decreases [OF nz], of "n + 1"]
      by (subst varint_rec) simp
    finally show ?thesis using True by simp
  next
    case False
    then show ?thesis using z by (subst varint_len_loop.simps) simp
  qed
qed

lemma varint_len_eq: "varint_len v = length (varint v)"
  unfolding varint_len_def varint_len_loop_eq by (subst (2) varint_rec) simp

section \<open>Reading back\<close>

lemma bit_int_consts: "bit (128 :: int) n \<longleftrightarrow> n = 7" "bit (127 :: int) n \<longleftrightarrow> n < 7"
proof -
  have "(128 :: int) = push_bit 7 1" "(127 :: int) = mask 7"
    by (simp_all add: mask_eq_exp_minus_1)
  then show "bit (128 :: int) n \<longleftrightarrow> n = 7" "bit (127 :: int) n \<longleftrightarrow> n < 7"
    by (simp_all only: bit_push_bit_iff bit_mask_iff bit_1_iff possible_bit_int) auto
qed

lemma continued_byte:
  "ucast ((ucast v OR 0x80 :: u8) AND 0x7F) = (v AND 0x7F :: u64)"
  "(ucast v OR 0x80 :: u8) AND 0x80 \<noteq> 0"
proof -
  show "ucast ((ucast v OR 0x80 :: u8) AND 0x7F) = (v AND 0x7F :: u64)"
    by (rule bit_word_eqI) (auto simp: bit_int_consts bit_and_iff bit_or_iff bit_unsigned_iff)
  have "bit ((ucast v OR 0x80 :: u8) AND 0x80) 7"
    by (simp add: bit_int_consts bit_and_iff bit_or_iff)
  then show "(ucast v OR 0x80 :: u8) AND 0x80 \<noteq> 0" by fastforce
qed

lemma last_byte:
  assumes "v < 0x80"
  shows "ucast ((ucast v :: u8) AND 0x7F) = (v :: u64)" "(ucast v :: u8) AND 0x80 = 0"
proof -
  have small: "\<not> bit v n" if "7 \<le> n" for n
  proof -
    have "take_bit 7 v = v"
      using assms by (simp add: word_less_nat_alt take_bit_eq_mod unat_arith_simps word_unat_eq_iff unat_mod)
    then show ?thesis using that by (metis bit_take_bit_iff not_less)
  qed
  show "ucast ((ucast v :: u8) AND 0x7F) = v"
  proof (rule bit_word_eqI)
    fix n
    show "bit (ucast ((ucast v :: u8) AND 0x7F) :: u64) n = bit v n"
      using small [of n] by (cases "n < 7") (simp_all add: bit_int_consts bit_and_iff bit_unsigned_iff)
  qed
  show "(ucast v :: u8) AND 0x80 = 0"
    by (rule bit_word_eqI) (use small [of 7] in \<open>auto simp: bit_int_consts bit_and_iff bit_unsigned_iff\<close>)
qed

lemma split_low_bits: "push_bit k (w AND 0x7F) OR push_bit (7 + k) (drop_bit 7 w) = push_bit k (w :: u64)"
proof (rule bit_word_eqI)
  fix n
  show "bit (push_bit k (w AND 0x7F) OR push_bit (7 + k) (drop_bit 7 w)) n = bit (push_bit k w) n"
    by (cases "n < 7 + k")
      (auto simp: bit_or_iff bit_push_bit_iff bit_and_iff bit_drop_bit_eq bit_int_consts)
qed

lemma varint_width_step:
  assumes "i \<le> 9" and "unat w < 2 ^ (64 - 7 * i)" and "0x80 \<le> (w :: u64)"
  shows "i < 9" "unat (drop_bit 7 w) < 2 ^ (64 - 7 * (i + 1))"
proof -
  have w: "128 \<le> unat w" using assms(3) by (simp add: word_le_nat_alt)
  have "i \<noteq> 9"
  proof
    assume "i = 9"
    with assms(2) have "unat w < 2" by simp
    with w show False by simp
  qed
  with assms(1) show "i < 9" by simp
  then have "64 - 7 * i = (64 - 7 * (i + 1)) + 7" by simp
  with assms(2) have "unat w < 2 ^ (64 - 7 * (i + 1)) * 2 ^ 7" by (simp only: power_add)
  then have "unat w < 2 ^ (64 - 7 * (i + 1)) * 128" by simp
  then show "unat (drop_bit 7 w) < 2 ^ (64 - 7 * (i + 1))"
    unfolding unat_drop_7 by (rule less_mult_imp_div_less)
qed

lemma read_loop_varint:
  assumes "i \<le> 9" and "unat w < 2 ^ (64 - 7 * i)"
  shows "read_varint_loop i acc (take (10 - i) (varint w @ rest)) =
      Some (acc OR push_bit (7 * i) w, i + length (varint w)) \<and> i + length (varint w) \<le> 10"
  using assms
proof (induction "unat w" arbitrary: w i acc rule: less_induct)
  case less
  obtain k where k: "10 - i = Suc k" "k = 10 - (i + 1)" using less.prems(1) by (cases "10 - i") auto
  show ?case
  proof (cases "0x80 \<le> w")
    case True
    note st = varint_width_step [OF less.prems True]
    define lo where "lo = w AND 0x7F"
    have "unat (drop_bit 7 w) < unat w" using True by (intro varint_decreases) (auto simp: word_le_nat_alt)
    from less.hyps [OF this _ st(2), of "acc OR push_bit (7 * i) lo"] st(1)
    have IH: "read_varint_loop (i + 1) (acc OR push_bit (7 * i) lo) (take k (varint (drop_bit 7 w) @ rest)) =
        Some ((acc OR push_bit (7 * i) lo) OR push_bit (7 * (i + 1)) (drop_bit 7 w),
          i + 1 + length (varint (drop_bit 7 w)))" "i + 1 + length (varint (drop_bit 7 w)) \<le> 10"
      by (simp_all add: k)
    have len: "length (varint w) = 1 + length (varint (drop_bit 7 w))"
      using True by (subst varint_rec) simp
    have step: "read_varint_loop i acc (take (10 - i) (varint w @ rest)) =
        read_varint_loop (i + 1) (acc OR push_bit (7 * i) lo) (take k (varint (drop_bit 7 w) @ rest))"
      using True st(1)
      by (subst varint_rec)
        (simp add: k(1) continued_byte lo_def [symmetric] MAX_GENERATION_VARINT_LEN_def Let_def)
    have idx: "7 * (i + 1) = 7 + 7 * i" by simp
    have "(acc OR push_bit (7 * i) lo) OR push_bit (7 * (i + 1)) (drop_bit 7 w) = acc OR push_bit (7 * i) w"
      unfolding lo_def idx or.assoc by (simp only: split_low_bits)
    then have "read_varint_loop i acc (take (10 - i) (varint w @ rest)) =
        Some (acc OR push_bit (7 * i) w, i + length (varint w))"
      unfolding step IH(1) len by (simp only: add.assoc)
    then show ?thesis using IH(2) len by linarith
  next
    case False
    have "\<not> (i = 9 \<and> 1 < w)"
      using less.prems by (auto simp: word_less_nat_alt)
    moreover have "varint w = [ucast w]" using False by (subst varint_rec) simp
    ultimately show ?thesis
      using False less.prems(1)
      by (simp add: k(1) last_byte not_le MAX_GENERATION_VARINT_LEN_def Let_def)
  qed
qed

lemma read_varint_varint [simp, codec_simps]: "read_varint (varint v @ rest) = Some (v, length (varint v))"
  using read_loop_varint [of 0 v 0 rest] unsigned_less [of v, where ?'a = nat]
  by (simp add: read_varint_def MAX_GENERATION_VARINT_LEN_def del: take_append)

lemma length_varint_le: "length (varint v) \<le> 10"
  using read_loop_varint [of 0 v 0 "[]"] unsigned_less [of v, where ?'a = nat] by simp

lemma varint_nonempty: "varint v \<noteq> []"
  by (subst varint_rec) simp

lemma read_varint_loop_bound: "read_varint_loop i v bs = Some (w, n) \<Longrightarrow> i < n \<and> n \<le> i + length bs"
proof (induction bs arbitrary: i v)
  case (Cons b bs)
  then show ?case
    by (cases "b AND 0x80 = 0") (auto simp: Let_def split: if_splits dest: Cons.IH)
qed simp

lemma read_varint_bound: "read_varint bs = Some (w, n) \<Longrightarrow> 0 < n \<and> n \<le> length bs"
  by (auto simp: read_varint_def dest!: read_varint_loop_bound)

end
