(* ===== verification/Frame.thy ===== *)
theory Frame
  imports Varint
begin

text \<open>
  The framing of the byte-stream transports, \<^verbatim>\<open>sailing-proto/src/transport/frame/mod.rs\<close>:
  length-prefixed frames with a decoder that takes its input in arbitrary chunks, the group
  header that carries a group id and an incarnation stamp, and the coalesced control frame that
  carries the heartbeats of many groups. The decoder's \<open>push\<close> is a loop that the model keeps as a
  partial function; that it returns on every state a decoder can be in is a lemma, from which
  the independence of the chunking follows.
\<close>

section \<open>Constants and errors\<close>

definition MAX_ID_LEN :: nat where
  "MAX_ID_LEN = 1024"

definition MAX_GROUP_ID_LEN :: nat where
  "MAX_GROUP_ID_LEN = MAX_ID_LEN"

definition MAX_FRAME_BYTES :: nat where
  "MAX_FRAME_BYTES = 64 * 1024 * 1024"

definition MAX_FRAME_LEN :: nat where
  "MAX_FRAME_LEN = MAX_FRAME_BYTES"

definition COALESCED_MARKER :: u16 where
  "COALESCED_MARKER = 0xFFFF"

definition COALESCED_FLAG_QUIESCE :: u8 where
  "COALESCED_FLAG_QUIESCE = 1"

definition COALESCED_FRAME_BUDGET :: nat where
  "COALESCED_FRAME_BUDGET = 64 * 1024"

lemmas frame_consts = MAX_ID_LEN_def MAX_GROUP_ID_LEN_def MAX_FRAME_BYTES_def MAX_FRAME_LEN_def
  COALESCED_FRAME_BUDGET_def

datatype TransportError =
    FrameTooLarge
  | Decode
  | Record
  | NotValidated
  | DuplicateConnId
  | IdleTimeout
  | SelfIdentity
  | UnexpectedPeer
  | InvalidLocalId

section \<open>Encoders\<close>

definition encode_frame :: "bytes \<Rightarrow> bytes \<Rightarrow> bytes" where
  "encode_frame payload out = out @ to_be_bytes 4 (of_nat (length payload) :: u32) @ payload"

definition write_group_header :: "bytes \<Rightarrow> u64 \<Rightarrow> bytes \<Rightarrow> bytes" where
  "write_group_header grp generation out =
     write_varint generation (out @ to_be_bytes 2 (of_nat (length grp) :: u16) @ grp)"

definition write_coalesced_marker :: "bytes \<Rightarrow> bytes" where
  "write_coalesced_marker out = out @ to_be_bytes 2 COALESCED_MARKER"

definition write_coalesced_entry :: "u8 \<Rightarrow> bytes \<Rightarrow> u64 \<Rightarrow> bytes \<Rightarrow> bytes \<Rightarrow> bytes" where
  "write_coalesced_entry flags grp generation msg_bytes out =
     (let out = out @ [flags];
          out = out @ to_be_bytes 2 (of_nat (length grp) :: u16);
          out = out @ grp;
          out = write_varint generation out;
          out = out @ to_be_bytes 4 (of_nat (length msg_bytes) :: u32)
      in out @ msg_bytes)"

definition coalesced_entry_len :: "nat \<Rightarrow> u64 \<Rightarrow> nat \<Rightarrow> nat" where
  "coalesced_entry_len group_len generation msg_len =
     1 + 2 + group_len + varint_len generation + 4 + msg_len"

section \<open>Splitting a payload\<close>

definition split_group_header :: "bytes \<Rightarrow> (bytes \<times> u64 \<times> bytes, TransportError) result" where
  "split_group_header frame =
     (if length frame < 2 then Err Decode
      else
        let group_len = unat (from_be_bytes [frame ! 0, frame ! 1] :: u16) in
        if group_len > MAX_GROUP_ID_LEN \<or> length frame < 2 + group_len then Err Decode
        else
          let at = 2 + group_len in
          case read_varint (drop at frame) of
            None \<Rightarrow> Err Decode
          | Some (generation, n) \<Rightarrow>
              Ok (take group_len (drop 2 frame), generation, drop (at + n) frame))"

definition is_coalesced_frame :: "bytes \<Rightarrow> bool" where
  "is_coalesced_frame frame \<longleftrightarrow>
     length frame \<ge> 2 \<and> take 2 frame = to_be_bytes 2 COALESCED_MARKER"

function split_entries :: "bytes \<Rightarrow> nat \<Rightarrow> (u8 \<times> bytes \<times> u64 \<times> bytes) list \<Rightarrow>
    ((u8 \<times> bytes \<times> u64 \<times> bytes) list, TransportError) result" where
  "split_entries frame at entries =
     (if at < length frame then
        if length frame - at < 3 then Err Decode
        else
          let flags = frame ! at;
              group_len = unat (from_be_bytes [frame ! (at + 1), frame ! (at + 2)] :: u16)
          in if group_len = 0 \<or> group_len > MAX_GROUP_ID_LEN then Err Decode
          else if length frame - (at + 3) < group_len then Err Decode
          else
            let grp = take group_len (drop (at + 3) frame);
                at2 = at + 3 + group_len
            in case read_varint (drop at2 frame) of
                 None \<Rightarrow> Err Decode
               | Some (generation, n) \<Rightarrow>
                   if length frame - (at2 + n) < 4 then Err Decode
                   else
                     let at3 = at2 + n;
                         msg_len = unat (from_be_bytes
                           [frame ! at3, frame ! (at3 + 1), frame ! (at3 + 2), frame ! (at3 + 3)] :: u32)
                     in if length frame - (at3 + 4) < msg_len then Err Decode
                        else
                          let msg = take msg_len (drop (at3 + 4) frame)
                          in split_entries frame (at3 + 4 + msg_len)
                               (entries @ [(flags, grp, generation, msg)])
      else Ok entries)"
  by pat_completeness auto
termination by (relation "measure (\<lambda>(frame, at, _). length frame - at)") auto

declare split_entries.simps [simp del]

definition split_coalesced :: "bytes \<Rightarrow> ((u8 \<times> bytes \<times> u64 \<times> bytes) list, TransportError) result" where
  "split_coalesced frame =
     (if \<not> is_coalesced_frame frame then Err Decode
      else if length frame > 2 + COALESCED_FRAME_BUDGET then Err Decode
      else split_entries frame 2 [])"

section \<open>The decoder\<close>

record frame_decoder =
  fd_buf :: bytes
  fd_fill :: nat
  fd_expect :: "nat option"
  fd_failed :: bool

definition fd_new :: frame_decoder where
  "fd_new = \<lparr>fd_buf = [], fd_fill = 0, fd_expect = None, fd_failed = False\<rparr>"

partial_function (option) push_loop :: "frame_decoder \<Rightarrow> bytes \<Rightarrow> frame_decoder option" where
  "push_loop d input =
     (if input = [] then Some d
      else
        case fd_expect d of
          None \<Rightarrow>
            let need = 4 - fd_fill d;
                k = min need (length input);
                d = d\<lparr>fd_buf := fd_buf d @ take k input, fd_fill := fd_fill d + k\<rparr>;
                input = drop k input
            in if fd_fill d < 4 then Some d
               else
                 let h = drop (length (fd_buf d) - 4) (fd_buf d);
                     len = unat (from_be_bytes [h ! 0, h ! 1, h ! 2, h ! 3] :: u32)
                 in if len > MAX_FRAME_LEN
                    then Some (d\<lparr>fd_failed := True, fd_buf := [], fd_fill := 0, fd_expect := None\<rparr>)
                    else if len = 0 then push_loop (d\<lparr>fd_fill := 0\<rparr>) input
                    else push_loop (d\<lparr>fd_expect := Some (4 + len)\<rparr>) input
        | Some tot \<Rightarrow>
            let need = tot - fd_fill d;
                k = min need (length input);
                d = d\<lparr>fd_buf := fd_buf d @ take k input, fd_fill := fd_fill d + k\<rparr>;
                input = drop k input
            in if fd_fill d = tot then push_loop (d\<lparr>fd_fill := 0, fd_expect := None\<rparr>) input
               else push_loop d input)"

definition fd_push :: "frame_decoder \<Rightarrow> bytes \<Rightarrow> frame_decoder option" where
  "fd_push d input = (if fd_failed d then Some d else push_loop d input)"

definition fd_poll :: "frame_decoder \<Rightarrow> (bytes option, TransportError) result \<times> frame_decoder" where
  "fd_poll d =
     (if fd_failed d then (Err FrameTooLarge, d)
      else
        let complete = length (fd_buf d) - fd_fill d in
        if complete < 4 then (Ok None, d)
        else
          let len = unat (from_be_bytes [fd_buf d ! 0, fd_buf d ! 1, fd_buf d ! 2, fd_buf d ! 3] :: u32);
              stop = 4 + len
          in if complete < stop then (Ok None, d)
             else (Ok (Some (drop 4 (take stop (fd_buf d)))), d\<lparr>fd_buf := drop stop (fd_buf d)\<rparr>))"

section \<open>Headers round trip\<close>

lemma unat_of_nat_small: "n < 2 ^ LENGTH('a) \<Longrightarrow> unat (of_nat n :: 'a::len word) = n"
  by (simp add: unsigned_of_nat take_bit_nat_eq_self)

lemma drop_at: "frame = a @ b \<Longrightarrow> n = length a \<Longrightarrow> drop n frame = b"
  by simp

lemma nth2_append:
  assumes "length xs = 2"
  shows "[(pre @ xs @ ys) ! length pre, (pre @ xs @ ys) ! (length pre + 1)] = xs"
  using assms by (auto simp: length_Suc_conv numeral_2_eq_2 nth_append)

lemma nth4_append:
  assumes "length xs = 4"
  shows "[(pre @ xs @ ys) ! length pre, (pre @ xs @ ys) ! (length pre + 1),
    (pre @ xs @ ys) ! (length pre + 2), (pre @ xs @ ys) ! (length pre + 3)] = xs"
  using assms by (auto simp: length_Suc_conv eval_nat_numeral nth_append)

lemma read_u16:
  fixes w :: u16
  assumes "frame = pre @ to_be_bytes 2 w @ ys" and "at = length pre"
  shows "unat (from_be_bytes [frame ! at, frame ! (at + 1)] :: u16) = unat w"
  using nth2_append [of "to_be_bytes 2 w" pre ys] assms by simp

lemma read_u32:
  fixes w :: u32
  assumes "frame = pre @ to_be_bytes 4 w @ ys" and "at = length pre"
  shows "unat (from_be_bytes [frame ! at, frame ! (at + 1), frame ! (at + 2), frame ! (at + 3)] :: u32) = unat w"
  using nth4_append [of "to_be_bytes 4 w" pre ys] assms by simp

definition group_header :: "bytes \<Rightarrow> u64 \<Rightarrow> bytes" where
  "group_header grp generation = to_be_bytes 2 (of_nat (length grp) :: u16) @ grp @ varint generation"

lemma write_group_header_eq: "write_group_header grp generation out = out @ group_header grp generation"
  by (simp add: write_group_header_def group_header_def write_varint_eq)

lemma split_group_header_header:
  assumes "length grp \<le> MAX_GROUP_ID_LEN" and "frame = group_header grp generation @ msg"
  shows "split_group_header frame = Ok (grp, generation, msg)"
proof -
  have f: "frame = [] @ to_be_bytes 2 (of_nat (length grp) :: u16) @ grp @ varint generation @ msg"
    using assms(2) by (simp add: group_header_def)
  have g: "unat (from_be_bytes [frame ! 0, frame ! 1] :: u16) = length grp"
    using read_u16 [OF f, of 0] assms(1) by (simp add: unat_of_nat_small frame_consts)
  have d: "drop (2 + length grp) frame = varint generation @ msg" "take (length grp) (drop 2 frame) = grp"
    "length frame = 2 + length grp + length (varint generation) + length msg"
    "drop (2 + length grp + length (varint generation)) frame = msg"
    by (simp_all add: f)
  show ?thesis
    using assms(1) d(4) unfolding split_group_header_def Let_def g d(1-3) by simp
qed

text \<open>The two payload forms are disjoint at their first two bytes.\<close>

lemma group_header_not_coalesced:
  assumes "length grp \<le> MAX_GROUP_ID_LEN"
  shows "\<not> is_coalesced_frame (group_header grp generation @ msg)"
proof
  assume "is_coalesced_frame (group_header grp generation @ msg)"
  then have "to_be_bytes 2 (of_nat (length grp) :: u16) = to_be_bytes 2 COALESCED_MARKER"
    by (simp add: is_coalesced_frame_def group_header_def)
  then have "(of_nat (length grp) :: u16) = COALESCED_MARKER" by (simp add: to_be_bytes_inject)
  then have "unat (of_nat (length grp) :: u16) = unat COALESCED_MARKER" by simp
  with assms show False by (simp add: unat_of_nat_small frame_consts COALESCED_MARKER_def)
qed

lemma coalesced_not_group_header:
  assumes "is_coalesced_frame frame"
  shows "split_group_header frame = Err Decode"
proof -
  from assms have "2 \<le> length frame" "take 2 frame = to_be_bytes 2 COALESCED_MARKER"
    by (simp_all add: is_coalesced_frame_def)
  then obtain rest where "frame = to_be_bytes 2 COALESCED_MARKER @ rest"
    by (metis append_take_drop_id)
  then have "unat (from_be_bytes [frame ! 0, frame ! 1] :: u16) = unat COALESCED_MARKER"
    using read_u16 [of frame "[]" COALESCED_MARKER rest 0] by simp
  then show ?thesis
    by (simp add: split_group_header_def Let_def COALESCED_MARKER_def frame_consts)
qed

section \<open>Coalesced frames round trip\<close>

type_synonym coalesced = "u8 \<times> bytes \<times> u64 \<times> bytes"

fun coalesced_entry :: "coalesced \<Rightarrow> bytes" where
  "coalesced_entry (flags, grp, generation, msg) =
     [flags] @ to_be_bytes 2 (of_nat (length grp) :: u16) @ grp @ varint generation @
     to_be_bytes 4 (of_nat (length msg) :: u32) @ msg"

fun entry_ok :: "coalesced \<Rightarrow> bool" where
  "entry_ok (flags, grp, generation, msg) \<longleftrightarrow>
     grp \<noteq> [] \<and> length grp \<le> MAX_GROUP_ID_LEN \<and> length msg < 2 ^ 32"

lemma write_coalesced_entry_eq:
  "write_coalesced_entry flags grp generation msg out =
     out @ coalesced_entry (flags, grp, generation, msg)"
  by (simp add: write_coalesced_entry_def Let_def write_varint_eq)

lemma length_coalesced_entry:
  "length (coalesced_entry (flags, grp, generation, msg)) =
     coalesced_entry_len (length grp) generation (length msg)"
  by (simp add: coalesced_entry_len_def varint_len_eq)

lemma split_entries_step:
  assumes "entry_ok (flags, grp, generation, msg)"
    and f: "frame = pre @ coalesced_entry (flags, grp, generation, msg) @ rest"
  shows "split_entries frame (length pre) acc =
    split_entries frame (length (pre @ coalesced_entry (flags, grp, generation, msg)))
      (acc @ [(flags, grp, generation, msg)])"
proof -
  let ?g = "to_be_bytes 2 (of_nat (length grp) :: u16)" and ?m = "to_be_bytes 4 (of_nat (length msg) :: u32)"
  have f1: "frame = (pre @ [flags]) @ ?g @ grp @ varint generation @ ?m @ msg @ rest"
    and f2: "frame = (pre @ [flags] @ ?g @ grp @ varint generation) @ ?m @ msg @ rest"
    by (simp_all add: f)
  have glen: "unat (from_be_bytes [frame ! (length pre + 1), frame ! (length pre + 2)] :: u16) = length grp"
    using read_u16 [OF f1 refl] assms(1) by (simp add: unat_of_nat_small frame_consts)
  let ?at = "length pre + 3 + length grp + length (varint generation)"
  have mlen: "unat (from_be_bytes [frame ! ?at, frame ! (?at + 1), frame ! (?at + 2), frame ! (?at + 3)] :: u32) =
      length msg"
    using read_u32 [OF f2, of ?at] assms(1) by (simp add: unat_of_nat_small)
  have fl: "frame ! length pre = flags" "drop (length pre + 3 + length grp) frame = varint generation @ ?m @ msg @ rest"
    "take (length grp) (drop (length pre + 3) frame) = grp" "take (length msg) (drop (?at + 4) frame) = msg"
    "length frame = ?at + 4 + length msg + length rest"
  proof -
    show "drop (length pre + 3 + length grp) frame = varint generation @ ?m @ msg @ rest"
      by (rule drop_at [of _ "pre @ [flags] @ ?g @ grp"]) (simp_all add: f)
    have "drop (?at + 4) frame = msg @ rest"
      by (rule drop_at [of _ "pre @ [flags] @ ?g @ grp @ varint generation @ ?m"]) (simp_all add: f)
    then show "take (length msg) (drop (?at + 4) frame) = msg" by simp
  qed (simp_all add: f nth_append)
  have "length (pre @ coalesced_entry (flags, grp, generation, msg)) = ?at + 4 + length msg"
    by simp
  then show ?thesis
    using assms(1) fl(5) unfolding split_entries.simps [of frame "length pre" acc]
      Let_def glen fl(1-4) read_varint_varint option.case prod.case mlen
    by (simp add: ac_simps)
qed

lemma split_entries_all:
  assumes "list_all entry_ok es" and "frame = pre @ concat (map coalesced_entry es)"
  shows "split_entries frame (length pre) acc = Ok (acc @ es)"
  using assms
proof (induction es arbitrary: pre acc)
  case Nil
  then show ?case by (subst split_entries.simps) simp
next
  case (Cons e es)
  obtain flags grp generation msg where e: "e = (flags, grp, generation, msg)" by (cases e)
  have "split_entries frame (length pre) acc = split_entries frame (length (pre @ coalesced_entry e)) (acc @ [e])"
    unfolding e by (rule split_entries_step) (use Cons.prems e in simp_all)
  also have "\<dots> = Ok ((acc @ [e]) @ es)" by (rule Cons.IH) (use Cons.prems in simp_all)
  finally show ?case by simp
qed

definition coalesced_frame :: "coalesced list \<Rightarrow> bytes" where
  "coalesced_frame es =
     fold (\<lambda>(flags, grp, generation, msg). write_coalesced_entry flags grp generation msg) es
       (write_coalesced_marker [])"

lemma coalesced_frame_eq:
  "coalesced_frame es = to_be_bytes 2 COALESCED_MARKER @ concat (map coalesced_entry es)"
proof -
  have "fold (\<lambda>(flags, grp, generation, msg). write_coalesced_entry flags grp generation msg) es out =
      out @ concat (map coalesced_entry es)" for out
    by (induction es arbitrary: out) (auto simp: write_coalesced_entry_eq)
  then show ?thesis by (simp add: coalesced_frame_def write_coalesced_marker_def)
qed

lemma split_coalesced_frame:
  assumes "list_all entry_ok es"
    and "(\<Sum>(flags, grp, generation, msg) \<leftarrow> es. coalesced_entry_len (length grp) generation (length msg))
      \<le> COALESCED_FRAME_BUDGET"
  shows "split_coalesced (coalesced_frame es) = Ok es"
proof -
  have "length (concat (map coalesced_entry es)) =
      (\<Sum>(flags, grp, generation, msg) \<leftarrow> es. coalesced_entry_len (length grp) generation (length msg))"
    by (induction es) (auto simp: length_coalesced_entry simp del: coalesced_entry.simps)
  moreover have "split_entries (coalesced_frame es) (length (to_be_bytes 2 COALESCED_MARKER)) [] = Ok ([] @ es)"
    using assms(1) by (rule split_entries_all) (simp add: coalesced_frame_eq)
  ultimately show ?thesis
    using assms(2) by (simp add: split_coalesced_def is_coalesced_frame_def coalesced_frame_eq)
qed

section \<open>The decoder, byte by byte\<close>

text \<open>What one byte does to the decoder; the loop over a chunk is a fold of it.\<close>

definition check_header :: "frame_decoder \<Rightarrow> frame_decoder" where
  "check_header d =
     (let h = drop (length (fd_buf d) - 4) (fd_buf d);
          len = unat (from_be_bytes [h ! 0, h ! 1, h ! 2, h ! 3] :: u32)
      in if len > MAX_FRAME_LEN
         then d\<lparr>fd_failed := True, fd_buf := [], fd_fill := 0, fd_expect := None\<rparr>
         else if len = 0 then d\<lparr>fd_fill := 0\<rparr>
         else d\<lparr>fd_expect := Some (4 + len)\<rparr>)"

definition append_bytes :: "bytes \<Rightarrow> frame_decoder \<Rightarrow> frame_decoder" where
  "append_bytes bs d = d\<lparr>fd_buf := fd_buf d @ bs, fd_fill := fd_fill d + length bs\<rparr>"

definition accept :: "u8 \<Rightarrow> frame_decoder \<Rightarrow> frame_decoder" where
  "accept b d =
     (if fd_failed d then d
      else
        let d' = append_bytes [b] d in
        case fd_expect d of
          None \<Rightarrow> if fd_fill d' < 4 then d' else check_header d'
        | Some tot \<Rightarrow> if fd_fill d' = tot then d'\<lparr>fd_fill := 0, fd_expect := None\<rparr> else d')"

definition fd_ok :: "frame_decoder \<Rightarrow> bool" where
  "fd_ok d \<longleftrightarrow>
     (case fd_expect d of
        None \<Rightarrow> fd_fill d < 4
      | Some tot \<Rightarrow> fd_fill d < tot \<and> tot \<le> 4 + MAX_FRAME_LEN) \<and>
     fd_fill d \<le> length (fd_buf d)"

lemma fd_new_ok: "fd_ok fd_new"
  by (simp add: fd_ok_def fd_new_def)

lemma append_bytes_simps [simp]:
  "fd_buf (append_bytes bs d) = fd_buf d @ bs" "fd_fill (append_bytes bs d) = fd_fill d + length bs"
  "fd_expect (append_bytes bs d) = fd_expect d" "fd_failed (append_bytes bs d) = fd_failed d"
  "append_bytes [] d = d" "append_bytes cs (append_bytes bs d) = append_bytes (bs @ cs) d"
  by (simp_all add: append_bytes_def)

lemma check_header_ok: "fd_expect d = None \<Longrightarrow> fd_fill d = 4 \<Longrightarrow> 4 \<le> length (fd_buf d) \<Longrightarrow> fd_ok (check_header d)"
  by (auto simp: check_header_def Let_def fd_ok_def)

lemma accept_ok: "fd_ok d \<Longrightarrow> fd_ok (accept b d)"
  by (cases "fd_expect d")
    (auto simp: accept_def Let_def fd_ok_def [of d] intro!: check_header_ok, auto simp: fd_ok_def)

lemma fold_accept_failed: "fd_failed d \<Longrightarrow> fold accept bs d = d"
  by (induction bs) (auto simp: accept_def)

lemma fold_accept_ok: "fd_ok d \<Longrightarrow> fd_ok (fold accept bs d)"
  by (induction bs arbitrary: d) (auto simp: accept_ok)

lemma fold_accept_partial:
  assumes "\<not> fd_failed d"
    and "fd_fill d + length bs < (case fd_expect d of None \<Rightarrow> 4 | Some tot \<Rightarrow> tot)"
  shows "fold accept bs d = append_bytes bs d"
  using assms
proof (induction bs arbitrary: d)
  case (Cons b bs)
  then have "accept b d = append_bytes [b] d"
    by (cases "fd_expect d") (auto simp: accept_def Let_def)
  with Cons show ?case by simp
qed simp

lemma fold_accept_whole:
  assumes "\<not> fd_failed d" and "bs \<noteq> []"
    and "fd_fill d + length bs = (case fd_expect d of None \<Rightarrow> 4 | Some tot \<Rightarrow> tot)"
  shows "fold accept bs d =
    (case fd_expect d of
       None \<Rightarrow> check_header (append_bytes bs d)
     | Some tot \<Rightarrow> (append_bytes bs d)\<lparr>fd_fill := 0, fd_expect := None\<rparr>)"
proof -
  obtain as b where bs: "bs = as @ [b]" using assms(2) by (cases bs rule: rev_cases) auto
  have "fold accept as d = append_bytes as d"
    using assms by (intro fold_accept_partial) (auto simp: bs)
  then show ?thesis
    using assms by (cases "fd_expect d") (auto simp: bs accept_def Let_def)
qed

lemma push_loop_Nil: "push_loop d [] = Some d"
  by (subst push_loop.simps) simp

lemma push_loop_partial:
  assumes "\<not> fd_failed d" and "input \<noteq> []"
    and "fd_fill d + length input < (case fd_expect d of None \<Rightarrow> 4 | Some tot \<Rightarrow> tot)"
  shows "push_loop d input = Some (append_bytes input d)"
  using assms
  by (cases "fd_expect d")
    (subst push_loop.simps, simp add: Let_def append_bytes_def push_loop_Nil)+

lemma push_loop_header:
  assumes "\<not> fd_failed d" and "fd_expect d = None" and "fd_fill d < 4"
    and "bs \<noteq> []" and "fd_fill d + length bs = 4"
  shows "push_loop d (bs @ rest) =
    (let d' = check_header (append_bytes bs d) in if fd_failed d' then Some d' else push_loop d' rest)"
proof -
  have k: "min (4 - fd_fill d) (length (bs @ rest)) = length bs" using assms by simp
  show ?thesis
    using assms by (subst push_loop.simps) (simp add: k Let_def check_header_def append_bytes_def)
qed

lemma push_loop_payload:
  assumes "\<not> fd_failed d" and "fd_expect d = Some tot" and "fd_fill d < tot"
    and "bs \<noteq> []" and "fd_fill d + length bs = tot"
  shows "push_loop d (bs @ rest) = push_loop ((append_bytes bs d)\<lparr>fd_fill := 0, fd_expect := None\<rparr>) rest"
proof -
  have k: "min (tot - fd_fill d) (length (bs @ rest)) = length bs" using assms by auto
  show ?thesis
    using assms by (subst push_loop.simps) (simp add: k Let_def append_bytes_def)
qed

lemma push_loop_eq:
  assumes "fd_ok d" and "\<not> fd_failed d"
  shows "push_loop d input = Some (fold accept input d)"
  using assms
proof (induction "length input" arbitrary: d input rule: less_induct)
  case less
  let ?goal = "case fd_expect d of None \<Rightarrow> 4 | Some tot \<Rightarrow> tot"
  have fill: "fd_fill d < ?goal" using less.prems(1) by (auto simp: fd_ok_def split: option.splits)
  consider "input = []" | (short) "input \<noteq> []" "fd_fill d + length input < ?goal"
    | (long) "?goal \<le> fd_fill d + length input" by fastforce
  then show ?case
  proof cases
    case short
    then show ?thesis using less.prems by (simp add: push_loop_partial fold_accept_partial)
  next
    case long
    define bs where "bs = take (?goal - fd_fill d) input"
    define rest where "rest = drop (?goal - fd_fill d) input"
    have split: "input = bs @ rest" and len: "fd_fill d + length bs = ?goal" and ne: "bs \<noteq> []"
      using long fill by (auto simp: bs_def rest_def)
    note whole = fold_accept_whole [OF less.prems(2) ne len]
    have shorter: "length rest < length input" using ne by (simp add: split)
    have ok: "fd_ok (fold accept bs d)" using less.prems(1) by (rule fold_accept_ok)
    show ?thesis
    proof (cases "fd_expect d")
      case None
      with len fill have "push_loop d input =
          (let d' = fold accept bs d in if fd_failed d' then Some d' else push_loop d' rest)"
        unfolding split whole by (simp add: push_loop_header less.prems(2) ne)
      then show ?thesis
        using less.hyps [OF shorter ok] by (simp add: Let_def split fold_accept_failed)
    next
      case (Some tot)
      with len fill have "push_loop d input = push_loop (fold accept bs d) rest"
        unfolding split whole by (simp add: push_loop_payload less.prems(2) ne)
      moreover have "\<not> fd_failed (fold accept bs d)" using Some less.prems(2) by (simp add: whole)
      ultimately show ?thesis using less.hyps [OF shorter ok] by (simp add: split)
    qed
  qed (simp add: push_loop_Nil)
qed

lemma fd_push_eq: "fd_ok d \<Longrightarrow> fd_push d input = Some (fold accept input d)"
  by (simp add: fd_push_def push_loop_eq fold_accept_failed)

text \<open>Feeding a sequence of chunks.\<close>

fun push_all :: "frame_decoder \<Rightarrow> bytes list \<Rightarrow> frame_decoder option" where
  "push_all d [] = Some d"
| "push_all d (c # cs) = (case fd_push d c of None \<Rightarrow> None | Some d' \<Rightarrow> push_all d' cs)"

lemma push_all_eq: "fd_ok d \<Longrightarrow> push_all d cs = Some (fold accept (concat cs) d)"
  by (induction cs arbitrary: d) (simp_all add: fd_push_eq fold_accept_ok)

section \<open>Frames through the decoder\<close>

definition at_boundary :: "frame_decoder \<Rightarrow> bool" where
  "at_boundary d \<longleftrightarrow> \<not> fd_failed d \<and> fd_expect d = None \<and> fd_fill d = 0"

definition frame_bytes :: "bytes \<Rightarrow> bytes" where
  "frame_bytes p = encode_frame p []"

lemma header_value:
  fixes w :: u32
  shows "from_be_bytes [to_be_bytes 4 w ! 0, to_be_bytes 4 w ! 1, to_be_bytes 4 w ! 2, to_be_bytes 4 w ! 3] = w"
proof -
  have "[xs ! 0, xs ! 1, xs ! 2, xs ! 3] = xs" if "length xs = 4" for xs :: bytes
    using that by (auto simp: length_Suc_conv eval_nat_numeral)
  from this [of "to_be_bytes 4 w"] show ?thesis by (simp only: length_to_be_bytes) simp
qed

lemma check_header_word:
  fixes w :: u32
  assumes "fd_buf d = buf @ to_be_bytes 4 w"
  shows "check_header d =
    (if unat w > MAX_FRAME_LEN then d\<lparr>fd_failed := True, fd_buf := [], fd_fill := 0, fd_expect := None\<rparr>
     else if unat w = 0 then d\<lparr>fd_fill := 0\<rparr> else d\<lparr>fd_expect := Some (4 + unat w)\<rparr>)"
proof -
  have e: "drop (length (fd_buf d) - 4) (fd_buf d) = to_be_bytes 4 w" by (simp add: assms)
  show ?thesis unfolding check_header_def Let_def e header_value by (rule refl)
qed

lemma accept_header:
  assumes "at_boundary d"
  shows "fold accept (to_be_bytes 4 w) d = check_header (append_bytes (to_be_bytes 4 (w :: u32)) d)"
  using fold_accept_whole [of d "to_be_bytes 4 w"] assms
  by (simp add: at_boundary_def flip: length_0_conv)

lemma accept_frame:
  assumes b: "at_boundary d" and len: "length p \<le> MAX_FRAME_LEN"
  shows "fold accept (frame_bytes p) d = d\<lparr>fd_buf := fd_buf d @ frame_bytes p\<rparr>"
proof -
  let ?w = "of_nat (length p) :: u32"
  have w: "unat ?w = length p" using len by (simp add: unat_of_nat_small frame_consts)
  have fb: "frame_bytes p = to_be_bytes 4 ?w @ p" by (simp add: frame_bytes_def encode_frame_def)
  have h: "fold accept (to_be_bytes 4 ?w) d =
      (if p = [] then (append_bytes (to_be_bytes 4 ?w) d)\<lparr>fd_fill := 0\<rparr>
       else (append_bytes (to_be_bytes 4 ?w) d)\<lparr>fd_expect := Some (4 + length p)\<rparr>)"
    unfolding accept_header [OF b]
      check_header_word [of "append_bytes (to_be_bytes 4 ?w) d" "fd_buf d" ?w, OF append_bytes_simps(1)] w
    using len by simp
  show ?thesis
  proof (cases "p = []")
    case True
    with h b show ?thesis
      by (cases d) (simp add: frame_bytes_def encode_frame_def append_bytes_def at_boundary_def)
  next
    case False
    let ?d = "(append_bytes (to_be_bytes 4 ?w) d)\<lparr>fd_expect := Some (4 + length p)\<rparr>"
    have "fold accept p ?d = (append_bytes p ?d)\<lparr>fd_fill := 0, fd_expect := None\<rparr>"
      using fold_accept_whole [of ?d p] False b by (simp add: at_boundary_def)
    with h False b show ?thesis by (simp add: fb append_bytes_def at_boundary_def)
  qed
qed

lemma accept_frames:
  "at_boundary d \<Longrightarrow> list_all (\<lambda>p. length p \<le> MAX_FRAME_LEN) ps \<Longrightarrow>
   fold accept (concat (map frame_bytes ps)) d = d\<lparr>fd_buf := fd_buf d @ concat (map frame_bytes ps)\<rparr>"
proof (induction ps arbitrary: d)
  case (Cons p ps)
  have "at_boundary (d\<lparr>fd_buf := fd_buf d @ frame_bytes p\<rparr>)" using Cons.prems(1) by (simp add: at_boundary_def)
  from Cons.IH [OF this] Cons.prems show ?case by (simp add: accept_frame)
qed simp

text \<open>A proper prefix of a frame.\<close>

definition partial_frame :: "bytes \<Rightarrow> bool" where
  "partial_frame t \<longleftrightarrow>
     (\<exists>p u. length p \<le> MAX_FRAME_LEN \<and> frame_bytes p = t @ u \<and> u \<noteq> [])"

lemma accept_partial_frame:
  assumes b: "at_boundary d" and "partial_frame t"
  shows "fd_buf (fold accept t d) = fd_buf d @ t \<and> fd_fill (fold accept t d) = length t \<and>
    \<not> fd_failed (fold accept t d)"
proof -
  from assms(2) obtain p u where len: "length p \<le> MAX_FRAME_LEN" and f: "frame_bytes p = t @ u" and u: "u \<noteq> []"
    by (auto simp: partial_frame_def)
  let ?w = "of_nat (length p) :: u32"
  have w: "unat ?w = length p" using len by (simp add: unat_of_nat_small frame_consts)
  have fb: "to_be_bytes 4 ?w @ p = t @ u" using f by (simp add: frame_bytes_def encode_frame_def)
  show ?thesis
  proof (cases "length t < 4")
    case True
    then show ?thesis using b fold_accept_partial [of d t] by (simp add: at_boundary_def)
  next
    case False
    define q where "q = drop 4 t"
    have "take 4 (to_be_bytes 4 ?w @ p) = take 4 (t @ u)" "drop 4 (to_be_bytes 4 ?w @ p) = drop 4 (t @ u)"
      by (simp_all only: fb)
    with False have t: "t = to_be_bytes 4 ?w @ q" and p: "p = q @ u"
      by (simp_all add: q_def)
    let ?d = "(append_bytes (to_be_bytes 4 ?w) d)\<lparr>fd_expect := Some (4 + length p)\<rparr>"
    have "fold accept (to_be_bytes 4 ?w) d = ?d"
      unfolding accept_header [OF b]
        check_header_word [of "append_bytes (to_be_bytes 4 ?w) d" "fd_buf d" ?w, OF append_bytes_simps(1)] w
      using len p u by simp
    moreover have "fold accept q ?d = append_bytes q ?d"
      using b p u by (intro fold_accept_partial) (auto simp: at_boundary_def)
    ultimately show ?thesis using b by (simp add: t at_boundary_def)
  qed
qed

fun poll_seq :: "nat \<Rightarrow> frame_decoder \<Rightarrow> (bytes option, TransportError) result list" where
  "poll_seq 0 d = []"
| "poll_seq (Suc n) d = (let (r, d') = fd_poll d in r # poll_seq n d')"

lemma fd_poll_frame:
  assumes "\<not> fd_failed d" and "fd_buf d = frame_bytes p @ rest" and "fd_fill d \<le> length rest"
    and "length p \<le> MAX_FRAME_LEN"
  shows "fd_poll d = (Ok (Some p), d\<lparr>fd_buf := rest\<rparr>)"
proof -
  let ?w = "of_nat (length p) :: u32"
  have w: "unat ?w = length p" using assms(4) by (simp add: unat_of_nat_small frame_consts)
  have f: "fd_buf d = [] @ to_be_bytes 4 ?w @ p @ rest"
    using assms(2) by (simp add: frame_bytes_def encode_frame_def)
  have len: "unat (from_be_bytes [fd_buf d ! 0, fd_buf d ! 1, fd_buf d ! 2, fd_buf d ! 3] :: u32) = length p"
    using read_u32 [OF f, of 0] w by (simp add: numeral_2_eq_2)
  have "length (fd_buf d) = 4 + length p + length rest" "drop 4 (take (4 + length p) (fd_buf d)) = p"
    "drop (4 + length p) (fd_buf d) = rest"
    by (simp_all add: f)
  then show ?thesis
    using assms(1,3) unfolding fd_poll_def Let_def len by simp
qed

lemma fd_poll_empty: "\<not> fd_failed d \<Longrightarrow> fd_fill d = length (fd_buf d) \<Longrightarrow> fd_poll d = (Ok None, d)"
  by (simp add: fd_poll_def)

lemma poll_seq_frames:
  assumes "\<not> fd_failed d" and "fd_buf d = concat (map frame_bytes ps) @ rest" and "fd_fill d = length rest"
    and "list_all (\<lambda>p. length p \<le> MAX_FRAME_LEN) ps"
  shows "poll_seq (length ps + k) d = map (\<lambda>p. Ok (Some p)) ps @ replicate k (Ok None)"
  using assms
proof (induction ps arbitrary: d)
  case Nil
  then have "fd_poll d = (Ok None, d)" by (simp add: fd_poll_empty)
  then show ?case by (induction k) simp_all
next
  case (Cons p ps)
  have "fd_poll d = (Ok (Some p), d\<lparr>fd_buf := concat (map frame_bytes ps) @ rest\<rparr>)"
    using Cons.prems by (intro fd_poll_frame) simp_all
  with Cons.IH [of "d\<lparr>fd_buf := concat (map frame_bytes ps) @ rest\<rparr>"] Cons.prems show ?case by simp
qed

section \<open>Properties\<close>

text \<open>
  C33: the incarnation stamp round trips: every 64-bit value written as a variable-length
  integer is read back with the number of bytes it took, whatever follows it, and it never
  takes more than ten bytes.
\<close>

theorem varint_round_trip:
  "read_varint (write_varint v [] @ rest) = Some (v, varint_len v) \<and>
   varint_len v = length (write_varint v []) \<and> varint_len v \<le> MAX_GENERATION_VARINT_LEN"
  using length_varint_le [of v]
  by (simp add: varint_len_eq varint_def [symmetric] MAX_GENERATION_VARINT_LEN_def)

text \<open>
  C34: the group header round trips, and no payload with a group header can be taken for a
  coalesced frame nor the other way round.
\<close>

theorem group_header_round_trip_and_disjoint:
  assumes "length grp \<le> MAX_GROUP_ID_LEN"
  shows "split_group_header (write_group_header grp generation [] @ msg) = Ok (grp, generation, msg) \<and>
    \<not> is_coalesced_frame (write_group_header grp generation [] @ msg) \<and>
    split_group_header (write_coalesced_marker [] @ es) = Err Decode"
proof (intro conjI)
  show "split_group_header (write_coalesced_marker [] @ es) = Err Decode"
    by (rule coalesced_not_group_header) (simp add: is_coalesced_frame_def write_coalesced_marker_def)
qed (simp_all add: write_group_header_eq split_group_header_header group_header_not_coalesced assms)

theorem group_header_round_trip_and_disjoint_witness:
  "split_group_header (write_group_header [1, 2, 3] 300 [] @ [9]) = Ok ([1, 2, 3], 300, [9])"
  using group_header_round_trip_and_disjoint [of "[1, 2, 3]" 300 "[9]"] by (simp add: frame_consts)

text \<open>
  C35: a coalesced frame round trips: entries with a non-empty group within the bound, whose
  sizes by the senders' sizer stay within the budget, are split back exactly, in order.
\<close>

theorem coalesced_round_trip:
  assumes "list_all entry_ok es"
    and "(\<Sum>(flags, grp, generation, msg) \<leftarrow> es. coalesced_entry_len (length grp) generation (length msg))
      \<le> COALESCED_FRAME_BUDGET"
  shows "split_coalesced (coalesced_frame es) = Ok es"
  using assms by (rule split_coalesced_frame)

theorem coalesced_round_trip_witness:
  "split_coalesced (coalesced_frame [(1, [7], 0, [5, 6]), (0, [8, 8], 0, [])]) =
     Ok [(1, [7], 0, [5, 6]), (0, [8, 8], 0, [])]"
proof (rule coalesced_round_trip)
  have "varint_len 0 = 1" by (simp add: varint_len_def varint_len_loop.simps)
  then show "(\<Sum>(flags, grp, generation, msg) \<leftarrow> [(1 :: u8, [7 :: u8], 0, [5 :: u8, 6]), (0, [8, 8], 0, [])].
      coalesced_entry_len (length grp) generation (length msg)) \<le> COALESCED_FRAME_BUDGET"
    by (simp add: coalesced_entry_len_def frame_consts)
qed (simp add: frame_consts)

text \<open>
  C36: the decoder does not depend on how the stream was cut. Whatever chunks the bytes of a
  sequence of frames and a prefix of a further one arrive in, pushing returns, and polling
  yields the payloads in order and then asks for more.
\<close>

theorem decoder_chunking_independent:
  assumes "concat chunks = concat (map frame_bytes ps) @ t"
    and "list_all (\<lambda>p. length p \<le> MAX_FRAME_LEN) ps" and "t = [] \<or> partial_frame t"
  shows "\<exists>d. push_all fd_new chunks = Some d \<and>
    poll_seq (length ps + k) d = map (\<lambda>p. Ok (Some p)) ps @ replicate k (Ok None)"
proof -
  let ?d = "fd_new\<lparr>fd_buf := concat (map frame_bytes ps)\<rparr>"
  have new: "at_boundary fd_new" and b: "at_boundary ?d" by (simp_all add: at_boundary_def fd_new_def)
  have "fold accept (concat chunks) fd_new = fold accept t ?d"
    using accept_frames [OF new assms(2)] by (simp add: assms(1) fd_new_def)
  moreover have "fd_buf (fold accept t ?d) = concat (map frame_bytes ps) @ t \<and>
      fd_fill (fold accept t ?d) = length t \<and> \<not> fd_failed (fold accept t ?d)"
    using accept_partial_frame [OF b, of t] assms(3) b by (auto simp: at_boundary_def)
  ultimately show ?thesis
    using poll_seq_frames [of "fold accept t ?d" ps t k] assms(2) push_all_eq [OF fd_new_ok, of chunks]
    by simp
qed

theorem decoder_chunking_independent_witness:
  "\<exists>d. push_all fd_new [[0, 0], [0, 2, 7], [8, 0, 0, 0, 0], [0]] = Some d \<and>
     poll_seq 3 d = [Ok (Some [7, 8]), Ok (Some []), Ok None]"
proof -
  let ?chunks = "[[0, 0], [0, 2, 7], [8, 0, 0, 0, 0], [0]] :: bytes list" and ?ps = "[[7, 8], []] :: bytes list"
  have fb: "frame_bytes [7, 8] = [0, 0, 0, 2, 7, 8]" "frame_bytes [] = [0, 0, 0, 0]"
    by (simp_all add: frame_bytes_def encode_frame_def to_be_bytes_def to_le_bytes_def upt_rec)
  then have "partial_frame [0]"
    unfolding partial_frame_def by (intro exI [of _ "[]"] exI [of _ "[0, 0, 0]"]) simp
  moreover have "concat ?chunks = concat (map frame_bytes ?ps) @ [0]" by (simp add: fb)
  ultimately have "\<exists>d. push_all fd_new ?chunks = Some d \<and>
      poll_seq (length ?ps + 1) d = map (\<lambda>p. Ok (Some p)) ?ps @ replicate 1 (Ok None)"
    by (intro decoder_chunking_independent [where t = "[0]"]) (simp_all add: frame_consts)
  then show ?thesis by (simp add: numeral_3_eq_3)
qed

text \<open>
  C37: an oversized frame is refused at its header. However the stream is cut, once the four
  bytes of a length above the maximum have arrived the decoder has dropped all it held, keeps
  nothing of what follows, and reports the failure at every poll from then on.
\<close>

theorem oversized_frame_latches:
  assumes "concat chunks = concat (map frame_bytes ps) @ to_be_bytes 4 (w :: u32) @ after"
    and "list_all (\<lambda>p. length p \<le> MAX_FRAME_LEN) ps" and "MAX_FRAME_LEN < unat w"
  shows "\<exists>d. push_all fd_new chunks = Some d \<and> fd_buf d = [] \<and>
    poll_seq n d = replicate n (Err FrameTooLarge)"
proof -
  let ?d = "fd_new\<lparr>fd_buf := concat (map frame_bytes ps)\<rparr>"
  have new: "at_boundary fd_new" and b: "at_boundary ?d" by (simp_all add: at_boundary_def fd_new_def)
  define f where "f = fold accept (to_be_bytes 4 w) ?d"
  have f: "fd_failed f" "fd_buf f = []"
    unfolding f_def accept_header [OF b]
      check_header_word [of "append_bytes (to_be_bytes 4 w) ?d" "fd_buf ?d" w, OF append_bytes_simps(1)]
    using assms(3) by simp_all
  have "fold accept (concat chunks) fd_new = fold accept after f"
    using accept_frames [OF new assms(2)] by (simp add: assms(1) fd_new_def f_def)
  also have "\<dots> = f" by (rule fold_accept_failed [OF f(1)])
  finally have "push_all fd_new chunks = Some f" using push_all_eq [OF fd_new_ok, of chunks] by simp
  moreover have "poll_seq n f = replicate n (Err FrameTooLarge)"
    by (induction n) (simp_all add: fd_poll_def f(1))
  ultimately show ?thesis using f(2) by blast
qed

theorem oversized_frame_latches_witness:
  "\<exists>d. push_all fd_new [[255, 255], [255, 255, 1, 2]] = Some d \<and> fd_buf d = [] \<and>
     poll_seq 2 d = replicate 2 (Err FrameTooLarge)"
proof -
  have "to_be_bytes 4 (0xFFFFFFFF :: u32) = [255, 255, 255, 255]" by code_simp
  then show ?thesis
    by (intro oversized_frame_latches [where ps = "[]" and w = "0xFFFFFFFF" and after = "[1, 2]"])
      (simp_all add: frame_consts)
qed

end
