(* ===== verification/Config.thy ===== *)
theory Config
  imports Read_Only Complex_Main
begin

text \<open>
  The endpoint configuration of \<^verbatim>\<open>sailing-proto/src/config/mod.rs\<close>: its knobs and defaults, the
  constructors, the setters, the validation both parse paths go through, the exact LeaseGuard
  commit-wait window, the command-line update, and the randomized election timeout of
  \<^verbatim>\<open>sailing-proto/src/prng.rs\<close> that a configured timeout feeds.

  A \<open>Duration\<close> is its nanoseconds; the 128-bit intermediate products are natural numbers whose
  checked operations are written out. \<^verbatim>\<open>clap\<close> is not part of the sources: what the code reads of
  its parse result is the record of arguments below, one per flag, each with the source of its
  value and the parsed value.
\<close>

section \<open>Read modes and refresh modes\<close>

definition read_only_as_u8 :: "ReadOnlyOption \<Rightarrow> u8" where
  "read_only_as_u8 m = (case m of Safe \<Rightarrow> 0 | LeaseBased \<Rightarrow> 1 | LeaseGuard \<Rightarrow> 2)"

definition read_only_from_u8 :: "u8 \<Rightarrow> ReadOnlyOption option" where
  "read_only_from_u8 b =
     (if b = 0 then Some Safe else if b = 1 then Some LeaseBased
      else if b = 2 then Some LeaseGuard else None)"

definition read_only_as_str :: "ReadOnlyOption \<Rightarrow> string" where
  "read_only_as_str m =
     (case m of Safe \<Rightarrow> ''safe'' | LeaseBased \<Rightarrow> ''lease_based'' | LeaseGuard \<Rightarrow> ''lease_guard'')"

datatype LeaseRefresh = Off | OnExpiry | Continuous

definition lease_refresh_as_str :: "LeaseRefresh \<Rightarrow> string" where
  "lease_refresh_as_str m =
     (case m of Off \<Rightarrow> ''off'' | OnExpiry \<Rightarrow> ''on_expiry'' | Continuous \<Rightarrow> ''continuous'')"

section \<open>Defaults\<close>

definition from_millis :: "nat \<Rightarrow> duration" where
  "from_millis ms = ms * 10 ^ 6"

definition from_secs :: "nat \<Rightarrow> duration" where
  "from_secs s = s * 10 ^ 9"

definition DEFAULT_MAX_SIZE_PER_MSG :: u64 where
  "DEFAULT_MAX_SIZE_PER_MSG = 1024 * 1024"

definition DEFAULT_MAX_INFLIGHT_MSGS :: nat where
  "DEFAULT_MAX_INFLIGHT_MSGS = 256"

definition DEFAULT_MAX_INFLIGHT_BYTES :: u64 where
  "DEFAULT_MAX_INFLIGHT_BYTES = 0"

definition DEFAULT_SNAPSHOT_THRESHOLD :: nat where
  "DEFAULT_SNAPSHOT_THRESHOLD = 10000"

definition DEFAULT_SNAPSHOT_CHUNK_BYTES :: u64 where
  "DEFAULT_SNAPSHOT_CHUNK_BYTES = push_bit 20 1"

definition MAX_SNAPSHOT_CHUNK_BYTES :: u64 where
  "MAX_SNAPSHOT_CHUNK_BYTES = push_bit 20 60"

definition DEFAULT_ASSUMED_CLOCK_RATE_BOUND_PPM :: u32 where
  "DEFAULT_ASSUMED_CLOCK_RATE_BOUND_PPM = 1000"

definition DEFAULT_ELECTION_TIMEOUT :: duration where
  "DEFAULT_ELECTION_TIMEOUT = from_secs 1"

definition DEFAULT_HEARTBEAT_INTERVAL :: duration where
  "DEFAULT_HEARTBEAT_INTERVAL = from_millis 100"

definition MAX_ELECTION_TIMEOUT :: duration where
  "MAX_ELECTION_TIMEOUT = from_millis (2 ^ 32 - 1)"

section \<open>The configuration\<close>

record 'i config =
  cfg_id :: 'i
  cfg_voters :: "'i list"
  cfg_election_timeout :: duration
  cfg_heartbeat_interval :: duration
  cfg_max_size_per_msg :: u64
  cfg_max_inflight_msgs :: nat
  cfg_max_inflight_bytes :: u64
  cfg_snapshot_threshold :: nat
  cfg_snapshot_chunk_bytes :: u64
  cfg_step_down_on_removal :: bool
  cfg_pre_vote :: bool
  cfg_check_quorum :: bool
  cfg_disable_proposal_forwarding :: bool
  cfg_read_only :: ReadOnlyOption
  cfg_lease_refresh :: LeaseRefresh
  cfg_lease_duration :: "duration option"
  cfg_clock_drift_bound :: "duration option"
  cfg_bounded_clock_uncertainty :: "duration option"
  cfg_assumed_clock_rate_bound_ppm :: u32

datatype ConfigError =
    ElectionNotGreaterThanHeartbeat (cfe_election: duration) (cfe_heartbeat: duration)
  | ZeroHeartbeat
  | IdNotAVoter
  | LeaseGuardRequiresLeaseDuration
  | LeaseGuardRequiresDriftBound
  | LeaseTimingTooLong (cfe_lease: duration) (cfe_drift: duration) (cfe_timeout: duration)
  | ZeroInflight
  | ZeroMaxSizePerMsg
  | ZeroSnapshotThreshold
  | SnapshotChunkBytesOutOfRange u64 u64
  | EmptyVoters
  | LeaseRequiresCheckQuorum
  | BoundedUncertaintyInvalid duration "duration option"
  | LeaseRefreshRequiresLeaseGuard
  | ElectionTimeoutTooLarge duration duration

definition config_defaults :: "'i \<Rightarrow> 'i list \<Rightarrow> duration \<Rightarrow> duration \<Rightarrow> 'i config" where
  "config_defaults me voters election_timeout heartbeat_interval =
     \<lparr>cfg_id = me, cfg_voters = voters, cfg_election_timeout = election_timeout,
      cfg_heartbeat_interval = heartbeat_interval,
      cfg_max_size_per_msg = DEFAULT_MAX_SIZE_PER_MSG,
      cfg_max_inflight_msgs = DEFAULT_MAX_INFLIGHT_MSGS,
      cfg_max_inflight_bytes = DEFAULT_MAX_INFLIGHT_BYTES,
      cfg_snapshot_threshold = DEFAULT_SNAPSHOT_THRESHOLD,
      cfg_snapshot_chunk_bytes = DEFAULT_SNAPSHOT_CHUNK_BYTES,
      cfg_step_down_on_removal = True, cfg_pre_vote = False, cfg_check_quorum = False,
      cfg_disable_proposal_forwarding = False, cfg_read_only = Safe, cfg_lease_refresh = Off,
      cfg_lease_duration = None, cfg_clock_drift_bound = None,
      cfg_bounded_clock_uncertainty = None,
      cfg_assumed_clock_rate_bound_ppm = DEFAULT_ASSUMED_CLOCK_RATE_BOUND_PPM\<rparr>"

definition try_new ::
  "'i \<Rightarrow> 'i list \<Rightarrow> duration \<Rightarrow> duration \<Rightarrow> ('i config, ConfigError) result" where
  "try_new me voters election_timeout heartbeat_interval =
     (if heartbeat_interval = 0 then Err ZeroHeartbeat
      else if election_timeout \<le> heartbeat_interval
        then Err (ElectionNotGreaterThanHeartbeat election_timeout heartbeat_interval)
      else if election_timeout > MAX_ELECTION_TIMEOUT
        then Err (ElectionTimeoutTooLarge election_timeout MAX_ELECTION_TIMEOUT)
      else if me \<notin> set voters then Err IdNotAVoter
      else Ok (config_defaults me voters election_timeout heartbeat_interval))"

definition try_new_observer ::
  "'i \<Rightarrow> 'i list \<Rightarrow> duration \<Rightarrow> duration \<Rightarrow> ('i config, ConfigError) result" where
  "try_new_observer me current_voters election_timeout heartbeat_interval =
     (if heartbeat_interval = 0 then Err ZeroHeartbeat
      else if election_timeout \<le> heartbeat_interval
        then Err (ElectionNotGreaterThanHeartbeat election_timeout heartbeat_interval)
      else if election_timeout > MAX_ELECTION_TIMEOUT
        then Err (ElectionTimeoutTooLarge election_timeout MAX_ELECTION_TIMEOUT)
      else Ok (config_defaults me current_voters election_timeout heartbeat_interval))"

definition cfg_is_voter :: "'i \<Rightarrow> 'i config \<Rightarrow> bool" where
  "cfg_is_voter me c \<longleftrightarrow> me \<in> set (cfg_voters c)"

definition with_voter_set :: "'i list \<Rightarrow> 'i config \<Rightarrow> ('i config, ConfigError) result" where
  "with_voter_set voters c =
     (if voters = [] then Err EmptyVoters
      else if cfg_id c \<notin> set voters then Err IdNotAVoter
      else Ok (c\<lparr>cfg_voters := voters\<rparr>))"

definition cfg_quorum :: "'i config \<Rightarrow> nat" where
  "cfg_quorum c = length (cfg_voters c) div 2 + 1"

section \<open>Setters\<close>

definition set_max_size_per_msg :: "u64 \<Rightarrow> 'i config \<Rightarrow> 'i config" where
  "set_max_size_per_msg v c = c\<lparr>cfg_max_size_per_msg := v\<rparr>"

definition set_max_inflight_msgs :: "nat \<Rightarrow> 'i config \<Rightarrow> ('i config, ConfigError) result" where
  "set_max_inflight_msgs v c =
     (if v = 0 then Err ZeroInflight else Ok (c\<lparr>cfg_max_inflight_msgs := v\<rparr>))"

definition set_max_inflight_bytes :: "u64 \<Rightarrow> 'i config \<Rightarrow> 'i config" where
  "set_max_inflight_bytes v c = c\<lparr>cfg_max_inflight_bytes := v\<rparr>"

definition set_snapshot_threshold :: "nat \<Rightarrow> 'i config \<Rightarrow> 'i config" where
  "set_snapshot_threshold v c = c\<lparr>cfg_snapshot_threshold := v\<rparr>"

definition set_snapshot_chunk_bytes :: "u64 \<Rightarrow> 'i config \<Rightarrow> 'i config" where
  "set_snapshot_chunk_bytes v c = c\<lparr>cfg_snapshot_chunk_bytes := v\<rparr>"

definition set_step_down_on_removal :: "bool \<Rightarrow> 'i config \<Rightarrow> 'i config" where
  "set_step_down_on_removal v c = c\<lparr>cfg_step_down_on_removal := v\<rparr>"

definition set_pre_vote :: "bool \<Rightarrow> 'i config \<Rightarrow> 'i config" where
  "set_pre_vote v c = c\<lparr>cfg_pre_vote := v\<rparr>"

definition set_check_quorum :: "bool \<Rightarrow> 'i config \<Rightarrow> 'i config" where
  "set_check_quorum v c = c\<lparr>cfg_check_quorum := v\<rparr>"

definition set_disable_proposal_forwarding :: "bool \<Rightarrow> 'i config \<Rightarrow> 'i config" where
  "set_disable_proposal_forwarding v c = c\<lparr>cfg_disable_proposal_forwarding := v\<rparr>"

definition set_read_only :: "ReadOnlyOption \<Rightarrow> 'i config \<Rightarrow> 'i config" where
  "set_read_only v c = c\<lparr>cfg_read_only := v\<rparr>"

definition set_lease_refresh :: "LeaseRefresh \<Rightarrow> 'i config \<Rightarrow> 'i config" where
  "set_lease_refresh v c = c\<lparr>cfg_lease_refresh := v\<rparr>"

definition set_lease_duration :: "duration \<Rightarrow> 'i config \<Rightarrow> 'i config" where
  "set_lease_duration v c = c\<lparr>cfg_lease_duration := Some v\<rparr>"

definition set_clock_drift_bound :: "duration \<Rightarrow> 'i config \<Rightarrow> 'i config" where
  "set_clock_drift_bound v c = c\<lparr>cfg_clock_drift_bound := Some v\<rparr>"

definition set_bounded_clock_uncertainty :: "duration \<Rightarrow> 'i config \<Rightarrow> 'i config" where
  "set_bounded_clock_uncertainty v c = c\<lparr>cfg_bounded_clock_uncertainty := Some v\<rparr>"

definition set_assumed_clock_rate_bound_ppm :: "u32 \<Rightarrow> 'i config \<Rightarrow> 'i config" where
  "set_assumed_clock_rate_bound_ppm ppm c = c\<lparr>cfg_assumed_clock_rate_bound_ppm := ppm\<rparr>"

section \<open>The LeaseGuard window and the validation\<close>

definition div_ceil :: "nat \<Rightarrow> nat \<Rightarrow> nat" where
  "div_ceil a b = (if a mod b > 0 then a div b + 1 else a div b)"

definition leaseguard_window_result :: "'i config \<Rightarrow> (u64, ConfigError) result" where
  "leaseguard_window_result c =
     (case cfg_lease_duration c of
        None \<Rightarrow> Err LeaseGuardRequiresLeaseDuration
      | Some d \<Rightarrow>
     (case cfg_clock_drift_bound c of
        None \<Rightarrow> Err LeaseGuardRequiresDriftBound
      | Some e \<Rightarrow>
        let too_long = LeaseTimingTooLong d e (cfg_election_timeout c) in
        if \<not> (e \<le> d \<and> d - e > 0) then Err too_long
        else if \<not> d * (d + e) < 2 ^ 128 then Err too_long
        else let w = div_ceil (d * (d + e)) (d - e) in
          if w > 2 ^ 64 - 1 \<or> w \<ge> cfg_election_timeout c then Err too_long
          else Ok (of_nat w)))"

definition leaseguard_commit_wait_ns :: "ReadOnlyOption \<Rightarrow> 'i config \<Rightarrow> u64 option" where
  "leaseguard_commit_wait_ns mode c =
     (if mode \<noteq> LeaseGuard then None
      else case leaseguard_window_result c of Ok w \<Rightarrow> Some w | Err _ \<Rightarrow> None)"

definition failover_tier_valid :: "ReadOnlyOption \<Rightarrow> 'i config \<Rightarrow> bool" where
  "failover_tier_valid mode c \<longleftrightarrow>
     mode = LeaseGuard \<and> leaseguard_commit_wait_ns mode c \<noteq> None \<and>
     (case (cfg_bounded_clock_uncertainty c, cfg_lease_duration c) of
        (Some unc, Some d) \<Rightarrow> unc < d | _ \<Rightarrow> False)"

definition read_mode_change_valid :: "ReadOnlyOption \<Rightarrow> 'i config \<Rightarrow> bool" where
  "read_mode_change_valid mode c =
     (case mode of
        Safe \<Rightarrow> True
      | LeaseBased \<Rightarrow> cfg_check_quorum c
      | LeaseGuard \<Rightarrow> is_ok (leaseguard_window_result c))"

definition validate :: "'i config \<Rightarrow> (unit, ConfigError) result" where
  "validate c =
     (if cfg_heartbeat_interval c = 0 then Err ZeroHeartbeat
      else if cfg_election_timeout c \<le> cfg_heartbeat_interval c
        then Err (ElectionNotGreaterThanHeartbeat (cfg_election_timeout c) (cfg_heartbeat_interval c))
      else if cfg_election_timeout c > MAX_ELECTION_TIMEOUT
        then Err (ElectionTimeoutTooLarge (cfg_election_timeout c) MAX_ELECTION_TIMEOUT)
      else if cfg_max_inflight_msgs c = 0 then Err ZeroInflight
      else if cfg_max_size_per_msg c = 0 then Err ZeroMaxSizePerMsg
      else if cfg_voters c = [] then Err EmptyVoters
      else if cfg_snapshot_threshold c = 0 then Err ZeroSnapshotThreshold
      else if cfg_snapshot_chunk_bytes c = 0 \<or> cfg_snapshot_chunk_bytes c > MAX_SNAPSHOT_CHUNK_BYTES
        then Err (SnapshotChunkBytesOutOfRange (cfg_snapshot_chunk_bytes c) MAX_SNAPSHOT_CHUNK_BYTES)
      else if cfg_read_only c = LeaseBased \<and> \<not> cfg_check_quorum c then Err LeaseRequiresCheckQuorum
      else if cfg_lease_refresh c \<noteq> Off \<and> cfg_read_only c \<noteq> LeaseGuard
        then Err LeaseRefreshRequiresLeaseGuard
      else and_then
        (if cfg_read_only c = LeaseGuard
         then and_then (leaseguard_window_result c) (\<lambda>_. Ok ()) else Ok ())
        (\<lambda>_. case cfg_bounded_clock_uncertainty c of
           Some unc \<Rightarrow>
             if \<not> failover_tier_valid (cfg_read_only c) c
             then Err (BoundedUncertaintyInvalid unc (cfg_lease_duration c)) else Ok ()
         | None \<Rightarrow> Ok ()))"

section \<open>The parse paths\<close>

definition from_parts_validated ::
  "'i \<Rightarrow> ('i list) \<Rightarrow> duration \<Rightarrow> duration \<Rightarrow>
   u64 \<Rightarrow> nat \<Rightarrow> u64 \<Rightarrow> nat \<Rightarrow> u64 \<Rightarrow>
   bool \<Rightarrow> bool \<Rightarrow> bool \<Rightarrow> bool \<Rightarrow>
   ReadOnlyOption \<Rightarrow> LeaseRefresh \<Rightarrow> (duration option) \<Rightarrow>
   (duration option) \<Rightarrow> (duration option) \<Rightarrow> u32 \<Rightarrow>
   ('i config, ConfigError) result" where
  "from_parts_validated me voters election_timeout heartbeat_interval max_size_per_msg max_inflight_msgs
     max_inflight_bytes snapshot_threshold snapshot_chunk_bytes step_down_on_removal pre_vote
     check_quorum disable_proposal_forwarding read_only lease_refresh lease_duration
     clock_drift_bound bounded_clock_uncertainty assumed_clock_rate_bound_ppm =
     (let cfg = \<lparr>cfg_id = me, cfg_voters = voters, cfg_election_timeout = election_timeout,
      cfg_heartbeat_interval = heartbeat_interval, cfg_max_size_per_msg = max_size_per_msg,
      cfg_max_inflight_msgs = max_inflight_msgs, cfg_max_inflight_bytes = max_inflight_bytes,
      cfg_snapshot_threshold = snapshot_threshold, cfg_snapshot_chunk_bytes = snapshot_chunk_bytes,
      cfg_step_down_on_removal = step_down_on_removal, cfg_pre_vote = pre_vote,
      cfg_check_quorum = check_quorum, cfg_disable_proposal_forwarding = disable_proposal_forwarding,
      cfg_read_only = read_only, cfg_lease_refresh = lease_refresh,
      cfg_lease_duration = lease_duration, cfg_clock_drift_bound = clock_drift_bound,
      cfg_bounded_clock_uncertainty = bounded_clock_uncertainty,
      cfg_assumed_clock_rate_bound_ppm = assumed_clock_rate_bound_ppm\<rparr>
      in and_then (validate cfg) (\<lambda>_. Ok cfg))"

text \<open>
  The parse mirrors \<^verbatim>\<open>ConfigSerde\<close> and \<^verbatim>\<open>ConfigCli\<close> have the fields of the configuration;
  \<open>config_serde_of_required\<close> is the mirror of an input that gives only the two required fields.
\<close>

type_synonym 'i config_mirror = "'i config"

definition try_from_mirror :: "'i config_mirror \<Rightarrow> ('i config, ConfigError) result" where
  "try_from_mirror c =
     from_parts_validated
       (cfg_id c) (cfg_voters c) (cfg_election_timeout c) (cfg_heartbeat_interval c)
       (cfg_max_size_per_msg c) (cfg_max_inflight_msgs c) (cfg_max_inflight_bytes c)
       (cfg_snapshot_threshold c) (cfg_snapshot_chunk_bytes c) (cfg_step_down_on_removal c)
       (cfg_pre_vote c) (cfg_check_quorum c) (cfg_disable_proposal_forwarding c) (cfg_read_only c)
       (cfg_lease_refresh c) (cfg_lease_duration c) (cfg_clock_drift_bound c)
       (cfg_bounded_clock_uncertainty c) (cfg_assumed_clock_rate_bound_ppm c)"

definition config_serde_of_required :: "'i \<Rightarrow> 'i list \<Rightarrow> 'i config_mirror" where
  "config_serde_of_required me voters =
     config_defaults me voters DEFAULT_ELECTION_TIMEOUT DEFAULT_HEARTBEAT_INTERVAL"

datatype ValueSource = DefaultValue | EnvVariable | CommandLine

record 'a arg =
  value_source :: "ValueSource option"
  arg_value :: "'a option"

record 'i arg_matches =
  am_id :: "'i arg"
  am_voters :: "('i list) arg"
  am_election_timeout :: "duration arg"
  am_heartbeat_interval :: "duration arg"
  am_max_size_per_msg :: "u64 arg"
  am_max_inflight_msgs :: "nat arg"
  am_max_inflight_bytes :: "u64 arg"
  am_snapshot_threshold :: "nat arg"
  am_snapshot_chunk_bytes :: "u64 arg"
  am_step_down_on_removal :: "bool arg"
  am_pre_vote :: "bool arg"
  am_check_quorum :: "bool arg"
  am_disable_proposal_forwarding :: "bool arg"
  am_read_only :: "ReadOnlyOption arg"
  am_lease_refresh :: "LeaseRefresh arg"
  am_lease_duration :: "duration arg"
  am_clock_drift_bound :: "duration arg"
  am_bounded_clock_uncertainty :: "duration arg"
  am_assumed_clock_rate_bound_ppm :: "u32 arg"

definition operator_supplied :: "'a arg \<Rightarrow> bool" where
  "operator_supplied a \<longleftrightarrow> value_source a = Some CommandLine \<or> value_source a = Some EnvVariable"

definition take_arg :: "'a arg \<Rightarrow> ('a \<Rightarrow> 'c \<Rightarrow> 'c) \<Rightarrow> 'c \<Rightarrow> 'c" where
  "take_arg a upd candidate =
     (if operator_supplied a
      then case arg_value a of Some v \<Rightarrow> upd v candidate | None \<Rightarrow> candidate
      else candidate)"

definition take_opt :: "'a arg \<Rightarrow> ('a option \<Rightarrow> 'c \<Rightarrow> 'c) \<Rightarrow> 'c \<Rightarrow> 'c" where
  "take_opt a upd candidate = (if operator_supplied a then upd (arg_value a) candidate else candidate)"

definition apply_overrides :: "'i arg_matches \<Rightarrow> 'i config \<Rightarrow> 'i config" where
  "apply_overrides m self =
     (let candidate = self;
          candidate = take_arg (am_id m) (\<lambda>v. cfg_id_update (\<lambda>_. v)) candidate;
          candidate = take_arg (am_voters m) (\<lambda>v. cfg_voters_update (\<lambda>_. v)) candidate;
          candidate = take_arg (am_election_timeout m) (\<lambda>v. cfg_election_timeout_update (\<lambda>_. v)) candidate;
          candidate = take_arg (am_heartbeat_interval m) (\<lambda>v. cfg_heartbeat_interval_update (\<lambda>_. v)) candidate;
          candidate = take_arg (am_max_size_per_msg m) (\<lambda>v. cfg_max_size_per_msg_update (\<lambda>_. v)) candidate;
          candidate = take_arg (am_max_inflight_msgs m) (\<lambda>v. cfg_max_inflight_msgs_update (\<lambda>_. v)) candidate;
          candidate = take_arg (am_max_inflight_bytes m) (\<lambda>v. cfg_max_inflight_bytes_update (\<lambda>_. v)) candidate;
          candidate = take_arg (am_snapshot_threshold m) (\<lambda>v. cfg_snapshot_threshold_update (\<lambda>_. v)) candidate;
          candidate = take_arg (am_snapshot_chunk_bytes m) (\<lambda>v. cfg_snapshot_chunk_bytes_update (\<lambda>_. v)) candidate;
          candidate = take_arg (am_step_down_on_removal m) (\<lambda>v. cfg_step_down_on_removal_update (\<lambda>_. v)) candidate;
          candidate = take_arg (am_pre_vote m) (\<lambda>v. cfg_pre_vote_update (\<lambda>_. v)) candidate;
          candidate = take_arg (am_check_quorum m) (\<lambda>v. cfg_check_quorum_update (\<lambda>_. v)) candidate;
          candidate = take_arg (am_disable_proposal_forwarding m) (\<lambda>v. cfg_disable_proposal_forwarding_update (\<lambda>_. v)) candidate;
          candidate = take_arg (am_read_only m) (\<lambda>v. cfg_read_only_update (\<lambda>_. v)) candidate;
          candidate = take_arg (am_lease_refresh m) (\<lambda>v. cfg_lease_refresh_update (\<lambda>_. v)) candidate;
          candidate = take_opt (am_lease_duration m) (\<lambda>v. cfg_lease_duration_update (\<lambda>_. v)) candidate;
          candidate = take_opt (am_clock_drift_bound m) (\<lambda>v. cfg_clock_drift_bound_update (\<lambda>_. v)) candidate;
          candidate = take_opt (am_bounded_clock_uncertainty m) (\<lambda>v. cfg_bounded_clock_uncertainty_update (\<lambda>_. v)) candidate
      in candidate)"

definition update_from_arg_matches :: "'i arg_matches \<Rightarrow> 'i config \<Rightarrow> (unit, ConfigError) result \<times> 'i config" where
  "update_from_arg_matches m self =
     (let candidate = apply_overrides m self in
      case validate candidate of
        Err e \<Rightarrow> (Err e, self)
      | Ok _ \<Rightarrow> (Ok (), candidate))"

section \<open>The generator and the randomized election timeout\<close>

type_synonym prng = u64

definition prng_new :: "u64 \<Rightarrow> prng" where
  "prng_new seed = seed"

definition try_next_u64 :: "prng \<Rightarrow> u64 \<times> prng" where
  "try_next_u64 s =
     (let s = s + 0x9E3779B97F4A7C15;
          z = s;
          z = (z XOR drop_bit 30 z) * 0xBF58476D1CE4E5B9;
          z = (z XOR drop_bit 27 z) * 0x94D049BB133111EB
      in (z XOR drop_bit 31 z, s))"

definition try_next_u32 :: "prng \<Rightarrow> u32 \<times> prng" where
  "try_next_u32 s = (let (x, s) = try_next_u64 s in (ucast x, s))"

fun fill_chunks :: "nat \<Rightarrow> prng \<Rightarrow> bytes \<times> prng" where
  "fill_chunks 0 s = ([], s)"
| "fill_chunks (Suc n) s =
     (let (x, s) = try_next_u64 s; (bs, s) = fill_chunks n s in (to_le_bytes 8 x @ bs, s))"

definition try_fill_bytes :: "nat \<Rightarrow> prng \<Rightarrow> bytes \<times> prng" where
  "try_fill_bytes n s =
     (let (bs, s) = fill_chunks (n div 8) s; rem = n mod 8 in
      if rem \<noteq> 0 then let (x, s) = try_next_u64 s in (bs @ take rem (to_le_bytes 8 x), s)
      else (bs, s))"

text \<open>The addition of two durations panics above the type's ceiling; the panic is \<^const>\<open>None\<close>.\<close>

definition duration_add :: "duration \<Rightarrow> duration \<Rightarrow> duration option" where
  "duration_add a b = (if a + b \<le> DURATION_MAX then Some (a + b) else None)"

text \<open>
  The generator is any implementation of \<^verbatim>\<open>rand::Rng\<close>: the argument \<open>next_u64\<close> is its one method
  the code calls.
\<close>

definition election_timeout :: "('r \<Rightarrow> u64 \<times> 'r) \<Rightarrow> 'r \<Rightarrow> duration \<Rightarrow> (duration \<times> 'r) option" where
  "election_timeout next_u64 rng base =
     (let base_ms = (of_nat (base div 10 ^ 6) :: u64) in
      if base_ms \<ge> 2
      then let (x, rng) = next_u64 rng in
        map_option (\<lambda>t. (t, rng)) (duration_add base (from_millis (unat (x mod base_ms))))
      else let base_ns = base in
        if base_ns = 0 then Some (base, rng)
        else let (x, rng) = next_u64 rng in
          map_option (\<lambda>t. (t, rng)) (duration_add base (unat (of_nat (unat x mod base_ns) :: u64))))"

section \<open>Ceiling division and the window\<close>

lemma div_ceil_le_iff: "0 < b \<Longrightarrow> div_ceil a b \<le> k \<longleftrightarrow> a \<le> k * b"
proof -
  assume b: "0 < b"
  have eq: "a = b * (a div b) + a mod b" by simp
  show ?thesis
  proof (cases "a mod b = 0")
    case True
    then have "a = a div b * b" by auto
    then show ?thesis using b True by (simp add: div_ceil_def) (metis mult_le_cancel2)
  next
    case False
    have "a \<le> k * b \<longleftrightarrow> a div b < k"
    proof
      assume "a \<le> k * b"
      then have "a div b \<le> k" using b by (metis div_le_mono div_mult_self_is_m)
      moreover have "a div b \<noteq> k"
        using \<open>a \<le> k * b\<close> False eq by (metis add_is_0 add_le_same_cancel1 le_zero_eq mult.commute)
      ultimately show "a div b < k" by simp
    next
      assume "a div b < k"
      then show "a \<le> k * b" using b div_less_iff_less_mult [of b a k] by simp
    qed
    then show ?thesis using False by (simp add: div_ceil_def Suc_le_eq)
  qed
qed

lemma div_ceil_mult_ge: "0 < b \<Longrightarrow> a \<le> div_ceil a b * b"
  using div_ceil_le_iff [of b a "div_ceil a b"] by simp

text \<open>A window, when there is one, is the exact quotient rounded up, and is below the election timeout.\<close>

lemma leaseguard_window_okE:
  assumes "leaseguard_window_result c = Ok w"
  obtains d e where "cfg_lease_duration c = Some d" "cfg_clock_drift_bound c = Some e" "e < d"
    "unat w = div_ceil (d * (d + e)) (d - e)" "unat w < cfg_election_timeout c"
proof -
  obtain d e where de: "cfg_lease_duration c = Some d" "cfg_clock_drift_bound c = Some e"
    using assms by (auto simp: leaseguard_window_result_def split: option.splits)
  let ?w = "div_ceil (d * (d + e)) (d - e)"
  have lt: "e < d" and w: "w = of_nat ?w" and fits: "?w < 2 ^ 64" and el: "?w < cfg_election_timeout c"
    using assms de by (auto simp: leaseguard_window_result_def Let_def split: if_splits)
  have "unat w = ?w" using fits unfolding w by (simp add: unsigned_of_nat take_bit_eq_mod)
  with de lt el show ?thesis by (auto intro: that)
qed

lemma leaseguard_commit_wait_iff:
  "leaseguard_commit_wait_ns mode c = Some w \<longleftrightarrow> mode = LeaseGuard \<and> leaseguard_window_result c = Ok w"
  by (auto simp: leaseguard_commit_wait_ns_def split: result.splits)

text \<open>
  The window as a bound between the two clocks. A clock drifts by at most the fraction
  \<open>e / d\<close>. Then, as real durations, a lease of \<open>d\<close> ends before the wait of \<open>w\<close> does.
\<close>

lemma window_scaled:
  fixes d e w :: nat
  assumes "e < d"
  shows "div_ceil (d * (d + e)) (d - e) \<le> w \<longleftrightarrow>
    real d / (1 - real e / real d) \<le> real w / (1 + real e / real d)"
proof -
  have pos: "0 < real d" "0 < real d - real e" "0 < real d + real e" using assms by auto
  have "div_ceil (d * (d + e)) (d - e) \<le> w \<longleftrightarrow> d * (d + e) \<le> w * (d - e)"
    using assms by (simp add: div_ceil_le_iff)
  also have "\<dots> \<longleftrightarrow> real d * (real d + real e) \<le> real w * (real d - real e)"
  proof -
    have "real (d * (d + e)) \<le> real (w * (d - e)) \<longleftrightarrow> d * (d + e) \<le> w * (d - e)"
      by (rule of_nat_le_iff)
    then show ?thesis using assms by (simp add: of_nat_diff)
  qed
  also have "\<dots> \<longleftrightarrow> real d / (1 - real e / real d) \<le> real w / (1 + real e / real d)"
  proof -
    have "real d / (1 - real e / real d) = real d * (real d / (real d - real e))"
      using pos by (simp add: field_simps)
    moreover have "real w / (1 + real e / real d) = real d * (real w / (real d + real e))"
      using pos by (simp add: field_simps)
    moreover have "real d / (real d - real e) \<le> real w / (real d + real e) \<longleftrightarrow>
        real d * (real d + real e) \<le> real w * (real d - real e)"
      using pos by (simp add: pos_divide_le_eq pos_le_divide_eq)
    ultimately show ?thesis by (simp only: mult_le_cancel_left_pos [OF pos(1)])
  qed
  finally show ?thesis .
qed

text \<open>
  What a commit wait has to do, over real durations. A deposed leader whose clock runs at a rate of
  at least \<open>1 - r\<close> believes in its lease of \<open>d\<close> nanoseconds for a real duration \<open>lease\<close>; a successor
  whose clock runs at a rate of at most \<open>1 + s\<close> waits \<open>w\<close> nanoseconds on it, a real duration \<open>wait\<close>.
  The wait covers the lease when it is always the longer one.
\<close>

definition wait_covers_lease :: "nat \<Rightarrow> nat \<Rightarrow> real \<Rightarrow> real \<Rightarrow> bool" where
  "wait_covers_lease w d r s \<longleftrightarrow>
     (\<forall>lease wait :: real. (1 - r) * lease < real d \<longrightarrow> real w \<le> (1 + s) * wait \<longrightarrow> lease < wait)"

lemma wait_covers_iff:
  assumes "r < 1" and "- 1 < s"
  shows "wait_covers_lease w d r s \<longleftrightarrow> real d / (1 - r) \<le> real w / (1 + s)"
proof
  assume cov: "wait_covers_lease w d r s"
  show "real d / (1 - r) \<le> real w / (1 + s)"
  proof (rule ccontr)
    let ?t = "real w / (1 + s)"
    assume "\<not> real d / (1 - r) \<le> ?t"
    then have "?t < real d / (1 - r)" by (simp only: not_le)
    moreover have "?t < real d / (1 - r) \<longleftrightarrow> ?t * (1 - r) < real d"
      by (rule pos_less_divide_eq) (use assms in simp)
    ultimately have "(1 - r) * ?t < real d" by (simp only: mult.commute [of "1 - r"])
    moreover have "real w \<le> (1 + s) * ?t" using assms by simp
    ultimately have "?t < ?t" using cov unfolding wait_covers_lease_def by blast
    then show False by simp
  qed
next
  assume le: "real d / (1 - r) \<le> real w / (1 + s)"
  show "wait_covers_lease w d r s"
    unfolding wait_covers_lease_def
  proof (intro allI impI)
    fix lease wait :: real
    assume "(1 - r) * lease < real d" and "real w \<le> (1 + s) * wait"
    then have "lease < real d / (1 - r)" and "real w / (1 + s) \<le> wait"
      using assms by (simp_all add: pos_less_divide_eq pos_divide_le_eq mult.commute)
    with le show "lease < wait" by linarith
  qed
qed

lemma leaseguard_window_covers:
  assumes "leaseguard_window_result c = Ok w" "cfg_lease_duration c = Some d"
    "cfg_clock_drift_bound c = Some e"
  shows "wait_covers_lease w' d (real e / real d) (real e / real d) \<longleftrightarrow> unat w \<le> w'"
proof -
  from assms have lt: "e < d" and w: "unat w = div_ceil (d * (d + e)) (d - e)"
    by (auto elim: leaseguard_window_okE)
  then have "real e / real d < 1" and "- 1 < real e / real d"
    by (simp_all add: less_le_trans [of "-1" 0])
  then show ?thesis by (simp add: wait_covers_iff w window_scaled [OF lt])
qed

section \<open>Which configurations can be built\<close>

text \<open>A knob a builder chain can set.\<close>

datatype knob =
    MaxSizePerMsg u64 | MaxInflightMsgs nat | MaxInflightBytes u64 | SnapshotThreshold nat
  | SnapshotChunkBytes u64 | StepDownOnRemoval bool | PreVote bool | CheckQuorum bool
  | DisableProposalForwarding bool | ReadOnly ReadOnlyOption | Refresh LeaseRefresh
  | LeaseDuration duration | ClockDriftBound duration | BoundedClockUncertainty duration
  | AssumedClockRateBoundPpm u32

fun set_knob :: "knob \<Rightarrow> 'i config \<Rightarrow> ('i config, ConfigError) result" where
  "set_knob (MaxSizePerMsg v) c = Ok (set_max_size_per_msg v c)"
| "set_knob (MaxInflightMsgs v) c = set_max_inflight_msgs v c"
| "set_knob (MaxInflightBytes v) c = Ok (set_max_inflight_bytes v c)"
| "set_knob (SnapshotThreshold v) c = Ok (set_snapshot_threshold v c)"
| "set_knob (SnapshotChunkBytes v) c = Ok (set_snapshot_chunk_bytes v c)"
| "set_knob (StepDownOnRemoval v) c = Ok (set_step_down_on_removal v c)"
| "set_knob (PreVote v) c = Ok (set_pre_vote v c)"
| "set_knob (CheckQuorum v) c = Ok (set_check_quorum v c)"
| "set_knob (DisableProposalForwarding v) c = Ok (set_disable_proposal_forwarding v c)"
| "set_knob (ReadOnly v) c = Ok (set_read_only v c)"
| "set_knob (Refresh v) c = Ok (set_lease_refresh v c)"
| "set_knob (LeaseDuration v) c = Ok (set_lease_duration v c)"
| "set_knob (ClockDriftBound v) c = Ok (set_clock_drift_bound v c)"
| "set_knob (BoundedClockUncertainty v) c = Ok (set_bounded_clock_uncertainty v c)"
| "set_knob (AssumedClockRateBoundPpm v) c = Ok (set_assumed_clock_rate_bound_ppm v c)"

inductive built :: "'i config \<Rightarrow> bool" where
  built_voter: "try_new me vs el hb = Ok c \<Longrightarrow> built c"
| built_observer: "try_new_observer me vs el hb = Ok c \<Longrightarrow> built c"
| built_parsed: "try_from_mirror m = Ok c \<Longrightarrow> built c"
| built_voters: "built c \<Longrightarrow> with_voter_set vs c = Ok c' \<Longrightarrow> built c'"
| built_knob: "built c \<Longrightarrow> set_knob k c = Ok c' \<Longrightarrow> built c'"
| built_update: "built c \<Longrightarrow> update_from_arg_matches m c = (r, c') \<Longrightarrow> built c'"

definition timing_ok :: "'i config \<Rightarrow> bool" where
  "timing_ok c \<longleftrightarrow>
     0 < cfg_heartbeat_interval c \<and> cfg_heartbeat_interval c < cfg_election_timeout c \<and>
     cfg_election_timeout c \<le> MAX_ELECTION_TIMEOUT \<and> 0 < cfg_max_inflight_msgs c"

lemmas setter_defs =
  set_max_size_per_msg_def set_max_inflight_msgs_def set_max_inflight_bytes_def
  set_snapshot_threshold_def set_snapshot_chunk_bytes_def set_step_down_on_removal_def
  set_pre_vote_def set_check_quorum_def set_disable_proposal_forwarding_def set_read_only_def
  set_lease_refresh_def set_lease_duration_def set_clock_drift_bound_def
  set_bounded_clock_uncertainty_def set_assumed_clock_rate_bound_ppm_def

lemma timing_ok_set_knob: "set_knob k c = Ok c' \<Longrightarrow> timing_ok c \<Longrightarrow> timing_ok c'"
  by (cases k) (auto simp: timing_ok_def setter_defs split: if_splits)

lemma timing_ok_defaults [simp]:
  "timing_ok (config_defaults me vs el hb) \<longleftrightarrow> 0 < hb \<and> hb < el \<and> el \<le> MAX_ELECTION_TIMEOUT"
  by (simp add: timing_ok_def config_defaults_def DEFAULT_MAX_INFLIGHT_MSGS_def)

lemma validate_timing_ok: "validate c = Ok u \<Longrightarrow> timing_ok c"
  by (auto simp: validate_def timing_ok_def split: if_splits)

lemma try_from_mirror_eq: "try_from_mirror m = and_then (validate m) (\<lambda>_. Ok m)"
  by (cases m) (simp add: try_from_mirror_def from_parts_validated_def Let_def)

lemma timing_ok_voters [simp]: "timing_ok (c\<lparr>cfg_voters := vs\<rparr>) \<longleftrightarrow> timing_ok c"
  by (simp add: timing_ok_def)

lemma update_OkE:
  assumes "update_from_arg_matches m c = (r, c')"
  obtains "c' = c" "r \<noteq> Ok ()" | "c' = apply_overrides m c" "r = Ok ()" "validate c' = Ok ()"
proof (cases "validate (apply_overrides m c)")
  case (Ok u)
  with assms show ?thesis by (auto simp: update_from_arg_matches_def Let_def intro: that(2))
next
  case (Err e)
  with assms show ?thesis by (auto simp: update_from_arg_matches_def Let_def intro: that(1))
qed

lemma built_timing_ok: "built c \<Longrightarrow> timing_ok c"
proof (induction rule: built.induct)
  case (built_update c m r c')
  then show ?case by (auto elim!: update_OkE dest: validate_timing_ok)
qed (auto simp: try_new_def try_new_observer_def with_voter_set_def try_from_mirror_eq timing_ok_set_knob
      dest: validate_timing_ok split: if_splits)

lemma DURATION_MAX_ge: "2 * MAX_ELECTION_TIMEOUT \<le> DURATION_MAX"
  by (simp add: MAX_ELECTION_TIMEOUT_def DURATION_MAX_def from_millis_def)

lemma duration_add_Some: "a + b \<le> DURATION_MAX \<Longrightarrow> duration_add a b = Some (a + b)"
  by (simp add: duration_add_def)

lemma millis_jitter_less:
  fixes x :: u64
  assumes "2 \<le> (of_nat (base div 10 ^ 6) :: u64)"
  shows "from_millis (unat (x mod of_nat (base div 10 ^ 6))) < base"
proof -
  let ?ms = "of_nat (base div 10 ^ 6) :: u64"
  have "?ms \<noteq> 0" using assms by auto
  then have "unat (x mod ?ms) < unat ?ms"
    by (simp add: unat_mod_distrib unat_gt_0)
  also have "unat ?ms \<le> base div 10 ^ 6" by (simp add: unsigned_of_nat)
  finally have "unat (x mod ?ms) < base div 10 ^ 6" .
  then have "unat (x mod ?ms) * 10 ^ 6 < base div 10 ^ 6 * 10 ^ 6" by simp
  also have "\<dots> \<le> base" by (rule div_times_less_eq_dividend)
  finally show ?thesis by (simp add: from_millis_def)
qed

lemma election_timeout_in_range:
  assumes "0 < base" and "2 * base \<le> DURATION_MAX"
  shows "\<exists>t. election_timeout next_u64 rng base = Some (t, snd (next_u64 rng)) \<and> base \<le> t \<and> t < 2 * base"
proof -
  obtain x rng' where x: "next_u64 rng = (x, rng')" by fastforce
  have "\<exists>j < base. election_timeout next_u64 rng base = map_option (\<lambda>t. (t, rng')) (duration_add base j)"
  proof (cases "2 \<le> (of_nat (base div 10 ^ 6) :: u64)")
    case True
    then show ?thesis
      using millis_jitter_less [OF True, of x] by (auto simp: election_timeout_def Let_def x)
  next
    case False
    have "unat (of_nat (unat x mod base) :: u64) < base"
    proof -
      have "unat (of_nat (unat x mod base) :: u64) \<le> unat x mod base" by (simp add: unsigned_of_nat)
      also have "\<dots> < base" using assms by simp
      finally show ?thesis .
    qed
    then show ?thesis using False assms by (auto simp: election_timeout_def Let_def x)
  qed
  then obtain j where "j < base"
    and "election_timeout next_u64 rng base = map_option (\<lambda>t. (t, rng')) (duration_add base j)" by blast
  then show ?thesis using assms by (auto simp: duration_add_Some x)
qed

section \<open>Agreement of the validation with the gates read at run time\<close>

lemma validate_lease_okD:
  assumes "validate c = Ok u"
  shows "cfg_read_only c = LeaseGuard \<Longrightarrow> is_ok (leaseguard_window_result c)"
    and "cfg_read_only c = LeaseBased \<Longrightarrow> cfg_check_quorum c"
    and "cfg_bounded_clock_uncertainty c \<noteq> None \<Longrightarrow> failover_tier_valid (cfg_read_only c) c"
  using assms by (auto simp: validate_def is_ok_iff split: if_splits)

lemma read_only_u8_round_trip [simp]: "read_only_from_u8 (read_only_as_u8 m) = Some m"
  by (cases m) (simp_all add: read_only_from_u8_def read_only_as_u8_def)

lemma read_only_from_u8_Some: "read_only_from_u8 b = Some m \<longleftrightarrow> b = read_only_as_u8 m"
  by (cases m) (auto simp: read_only_from_u8_def read_only_as_u8_def split: if_splits)

section \<open>Properties\<close>

text \<open>
  C38: the LeaseGuard commit-wait window is the smallest wait that outlasts a deposed leader's lease
  whatever the drift of both clocks within the configured bound, and it is below the election timeout.
\<close>

theorem leaseguard_window_is_least_cover:
  assumes "leaseguard_commit_wait_ns mode c = Some w"
    and "cfg_lease_duration c = Some d" and "cfg_clock_drift_bound c = Some e"
  shows "(\<forall>w'. wait_covers_lease w' d (real e / real d) (real e / real d) \<longleftrightarrow> unat w \<le> w') \<and>
    unat w < cfg_election_timeout c"
  using assms leaseguard_window_covers [of c w d e]
  by (auto simp: leaseguard_commit_wait_iff elim: leaseguard_window_okE)

definition sample_lease_config :: "nat config" where
  "sample_lease_config =
     set_clock_drift_bound 1 (set_lease_duration 3 (set_read_only LeaseGuard (config_defaults 1 [1, 2, 3] 10 1)))"

theorem leaseguard_window_is_least_cover_witness:
  "leaseguard_commit_wait_ns LeaseGuard sample_lease_config = Some 6 \<and>
   wait_covers_lease 6 3 (1 / 3) (1 / 3) \<and> \<not> wait_covers_lease 5 3 (1 / 3) (1 / 3)"
proof -
  have w: "leaseguard_commit_wait_ns LeaseGuard sample_lease_config = Some 6"
    by (simp add: leaseguard_commit_wait_ns_def leaseguard_window_result_def sample_lease_config_def
        setter_defs config_defaults_def Let_def div_ceil_def)
  have d: "cfg_lease_duration sample_lease_config = Some 3"
    and e: "cfg_clock_drift_bound sample_lease_config = Some 1"
    by (simp_all add: sample_lease_config_def setter_defs config_defaults_def)
  from leaseguard_window_is_least_cover [OF w d e] show ?thesis using w by simp
qed

text \<open>
  C39: for every configuration that the constructors, the parsers, the setters and the updates can
  produce, the randomized election timeout does not overflow, lies in the half-open interval from the
  base to twice the base, and costs one draw of the generator.
\<close>

theorem election_draw_in_range:
  assumes "built c"
  shows "\<exists>t. election_timeout next_u64 rng (cfg_election_timeout c) = Some (t, snd (next_u64 rng)) \<and>
    cfg_election_timeout c \<le> t \<and> t < 2 * cfg_election_timeout c"
  using built_timing_ok [OF assms] DURATION_MAX_ge
  by (intro election_timeout_in_range) (auto simp: timing_ok_def)

theorem election_draw_in_range_witness:
  "\<exists>t. election_timeout try_next_u64 (prng_new 7) (from_secs 1) =
     Some (t, snd (try_next_u64 (prng_new 7))) \<and> from_secs 1 \<le> t \<and> t < 2 * from_secs 1"
proof -
  have "try_new (1 :: nat) [1, 2, 3] (from_secs 1) (from_millis 100) =
      Ok (config_defaults 1 [1, 2, 3] (from_secs 1) (from_millis 100))"
    by (simp add: try_new_def from_secs_def from_millis_def MAX_ELECTION_TIMEOUT_def)
  then have "built (config_defaults (1 :: nat) [1, 2, 3] (from_secs 1) (from_millis 100))"
    by (rule built_voter)
  from election_draw_in_range [OF this] show ?thesis by (simp add: config_defaults_def)
qed

text \<open>
  An accepted configuration meets the requirements its own read mode checks at run time: the mode
  may be proposed, a commit-wait window exists exactly in the LeaseGuard mode, and the failover tier
  is active exactly when a clock uncertainty is configured.
\<close>

theorem validated_config_activates_its_modes:
  assumes "validate c = Ok ()"
  shows "read_mode_change_valid (cfg_read_only c) c \<and>
    (leaseguard_commit_wait_ns (cfg_read_only c) c \<noteq> None \<longleftrightarrow> cfg_read_only c = LeaseGuard) \<and>
    (failover_tier_valid (cfg_read_only c) c \<longleftrightarrow> cfg_bounded_clock_uncertainty c \<noteq> None)"
proof -
  note ok = validate_lease_okD [OF assms]
  have "read_mode_change_valid (cfg_read_only c) c"
    using ok by (cases "cfg_read_only c") (auto simp: read_mode_change_valid_def)
  moreover have "leaseguard_commit_wait_ns (cfg_read_only c) c \<noteq> None \<longleftrightarrow> cfg_read_only c = LeaseGuard"
    using ok(1) by (auto simp: leaseguard_commit_wait_ns_def is_ok_iff split: result.splits)
  moreover have "failover_tier_valid (cfg_read_only c) c \<Longrightarrow> cfg_bounded_clock_uncertainty c \<noteq> None"
    by (auto simp: failover_tier_valid_def split: option.splits)
  ultimately show ?thesis using ok(3) by blast
qed

theorem validated_config_activates_its_modes_witness:
  "read_mode_change_valid LeaseGuard sample_lease_config \<and>
   \<not> failover_tier_valid LeaseGuard sample_lease_config"
proof -
  have "validate sample_lease_config = Ok ()"
    by (simp add: validate_def leaseguard_window_result_def sample_lease_config_def
        setter_defs config_defaults_def Let_def div_ceil_def MAX_ELECTION_TIMEOUT_def from_millis_def
        DEFAULT_MAX_INFLIGHT_MSGS_def DEFAULT_MAX_SIZE_PER_MSG_def DEFAULT_SNAPSHOT_THRESHOLD_def
        DEFAULT_SNAPSHOT_CHUNK_BYTES_def MAX_SNAPSHOT_CHUNK_BYTES_def)
  from validated_config_activates_its_modes [OF this] show ?thesis
    by (simp add: sample_lease_config_def setter_defs config_defaults_def)
qed

end
