(* ===== verification/Storage.thy ===== *)
theory Storage
  imports Counters
begin

text \<open>
  The storage seam of \<^verbatim>\<open>sailing-proto/src/storage.rs\<close>: the correlation ids and completions
  the stores exchange with the core, the bounded chunk read a resident store delegates to, and
  \<^verbatim>\<open>SnapshotStaging\<close>, the accumulator a store keeps the chunks of an incoming snapshot in.
  The lemmas show that the run list always describes exactly the bytes written, and that a
  transfer whose chunks are read from one blob reassembles that blob.
\<close>

section \<open>Operation ids and completions\<close>

text \<open>The derived order of \<^verbatim>\<open>OpId\<close> compares the boot epoch first.\<close>

datatype OpId = OpId (op_epoch: u64) (op_seq: u64)

instantiation OpId :: linorder
begin

definition less_eq_OpId :: "OpId \<Rightarrow> OpId \<Rightarrow> bool" where
  "less_eq_OpId a b \<longleftrightarrow> op_epoch a < op_epoch b \<or> op_epoch a = op_epoch b \<and> op_seq a \<le> op_seq b"

definition less_OpId :: "OpId \<Rightarrow> OpId \<Rightarrow> bool" where
  "less_OpId a b \<longleftrightarrow> op_epoch a < op_epoch b \<or> op_epoch a = op_epoch b \<and> op_seq a < op_seq b"

instance
proof
  fix x y z :: OpId
  show "x < y \<longleftrightarrow> x \<le> y \<and> \<not> y \<le> x"
    by (auto simp: less_eq_OpId_def less_OpId_def)
  show "x \<le> x"
    by (simp add: less_eq_OpId_def)
  show "x \<le> y \<Longrightarrow> y \<le> z \<Longrightarrow> x \<le> z"
    by (auto simp: less_eq_OpId_def)
  show "x \<le> y \<Longrightarrow> y \<le> x \<Longrightarrow> x = y"
    by (auto simp: less_eq_OpId_def intro: OpId.expand)
  show "x \<le> y \<or> y \<le> x"
    by (auto simp: less_eq_OpId_def)
qed

end

definition opid_ZERO :: OpId where
  "opid_ZERO = OpId 0 0"

definition first_of_epoch :: "u64 \<Rightarrow> OpId" where
  "first_of_epoch epoch = OpId epoch 0"

definition opid_next :: "OpId \<Rightarrow> OpId" where
  "opid_next o1 = OpId (op_epoch o1) (saturating_add (op_seq o1) 1)"

datatype LogDone = Appended OpId | Compacted index

datatype StableDone = Wrote OpId | SnapshotWritten OpId

datatype StorageProgress = Drained | MorePending

datatype 'e EntriesRead = EntriesReady "'e list" | EntriesPending

datatype SnapshotChunkRead = ChunkReady bytes | ChunkPending

text \<open>An id of an earlier boot epoch is below every id of a later one, whatever the counters.\<close>

lemma opid_epoch_less: "op_epoch a < op_epoch b \<Longrightarrow> a < b"
  by (simp add: less_OpId_def)

lemma opid_next_less: "op_seq a \<noteq> u64_max \<Longrightarrow> a < opid_next a"
  by (simp add: less_OpId_def opid_next_def saturating_add_1 inc_gt)

lemma opid_next_le [simp]: "a \<le> opid_next a"
  using inc_gt [of "op_seq a"]
  by (auto simp: less_eq_OpId_def opid_next_def saturating_add_1 intro: less_imp_le)

lemma opid_next_epoch [simp]: "op_epoch (opid_next a) = op_epoch a"
  by (simp add: opid_next_def)

lemma opid_ZERO_least [simp]: "opid_ZERO \<le> a"
  by (simp add: less_eq_OpId_def opid_ZERO_def word_gt_0 flip: word_neq_0_conv)

section \<open>Bounded reads of a resident snapshot\<close>

text \<open>\<^verbatim>\<open>StableStore::resident_snapshot_chunk\<close>, over the store's \<^verbatim>\<open>snapshot()\<close>.\<close>

definition resident_snapshot_chunk ::
    "('m \<times> bytes) option \<Rightarrow> u64 \<Rightarrow> u64 \<Rightarrow> ('m \<times> u64 \<times> SnapshotChunkRead, 'e) result option" where
  "resident_snapshot_chunk snapshot offset len =
     map_option (\<lambda>(meta, blob).
       let tot = (of_nat (length blob) :: u64);
           start = unat (min offset tot);
           stop = unat (min (saturating_add offset len) tot)
       in Ok (meta, tot, ChunkReady (drop start (take stop blob)))) snapshot"

section \<open>Staging of an incoming snapshot\<close>

definition MAX_STAGING_RUNS :: nat where
  "MAX_STAGING_RUNS = 1024"

record snapshot_staging =
  stg_boundary :: index
  stg_buf :: bytes
  stg_runs :: "(u64 \<times> u64) list"

text \<open>
  \<^verbatim>\<open>usize\<close> is 64 bits wide, so \<^verbatim>\<open>usize::try_from\<close> of a \<open>u64\<close> never fails. Whether the
  allocator grants a reservation (\<^verbatim>\<open>try_reserve_exact\<close>) is a parameter.
\<close>

definition staging_new ::
    "(nat \<Rightarrow> bool) \<Rightarrow> index \<Rightarrow> u64 \<Rightarrow> nat \<Rightarrow> snapshot_staging option" where
  "staging_new can_reserve boundary total_len max_bytes =
     (let len = unat total_len in
      if len > max_bytes then None
      else if \<not> can_reserve len then None
      else Some \<lparr>stg_boundary = boundary, stg_buf = replicate len 0, stg_runs = []\<rparr>)"

definition staging_total_len :: "snapshot_staging \<Rightarrow> u64" where
  "staging_total_len s = of_nat (length (stg_buf s))"

definition contiguous :: "snapshot_staging \<Rightarrow> u64" where
  "contiguous s =
     (case stg_runs s of
        (a, b) # _ \<Rightarrow> if a = 0 then b else 0
      | [] \<Rightarrow> 0)"

definition is_complete :: "snapshot_staging \<Rightarrow> bool" where
  "is_complete s \<longleftrightarrow> contiguous s = of_nat (length (stg_buf s))"

definition merge_run :: "(u64 \<times> u64) list \<Rightarrow> u64 \<times> u64 \<Rightarrow> (u64 \<times> u64) list" where
  "merge_run merged r =
     (if merged \<noteq> [] \<and> fst r \<le> snd (last merged)
      then butlast merged @ [(fst (last merged), max (snd (last merged)) (snd r))]
      else merged @ [r])"

text \<open>
  On the error the run list stays pushed and sorted, as the code leaves it. The sort is by start
  offset; \<open>merge_runs_sort_irrelevant\<close> below shows that it does not matter how an unstable sort
  orders runs of equal start.
\<close>

definition insert_run :: "u64 \<Rightarrow> u64 \<Rightarrow> snapshot_staging \<Rightarrow> unit option \<times> snapshot_staging" where
  "insert_run start stop s =
     (if start \<ge> stop then (Some (), s)
      else
        let s = s\<lparr>stg_runs := stg_runs s @ [(start, stop)]\<rparr>;
            s = s\<lparr>stg_runs := sort_key fst (stg_runs s)\<rparr>;
            merged = foldl merge_run [] (stg_runs s)
        in if length merged > MAX_STAGING_RUNS then (None, s)
           else (Some (), s\<lparr>stg_runs := merged\<rparr>))"

definition staging_accept :: "u64 \<Rightarrow> bytes \<Rightarrow> snapshot_staging \<Rightarrow> u64 option \<times> snapshot_staging" where
  "staging_accept offset data s =
     (let start = min (unat offset) (length (stg_buf s));
          stop = min (min (start + length data) (2 ^ 64 - 1)) (length (stg_buf s));
          s = s\<lparr>stg_buf := take start (stg_buf s) @ take (stop - start) data @ drop stop (stg_buf s)\<rparr>
      in case insert_run (of_nat start) (of_nat stop) s of
           (None, s) \<Rightarrow> (None, s)
         | (Some _, s) \<Rightarrow> (Some (contiguous s), s))"

section \<open>The run list describes the bytes written\<close>

text \<open>
  \<open>covered\<close> is the set of offsets a run list covers. A run list is canonical when its runs are
  non-empty, ascending, and separated by gaps.
\<close>

definition covered :: "(u64 \<times> u64) list \<Rightarrow> u64 set" where
  "covered rs = (\<Union>(a, b) \<in> set rs. {a..<b})"

definition canonical :: "(u64 \<times> u64) list \<Rightarrow> bool" where
  "canonical rs \<longleftrightarrow> sorted_wrt (\<lambda>x y. snd x < fst y) rs \<and> (\<forall>r \<in> set rs. fst r < snd r)"

lemma covered_simps [simp]:
  "covered [] = {}" "covered ((a, b) # rs) = {a..<b} \<union> covered rs"
  "covered (xs @ ys) = covered xs \<union> covered ys"
  by (auto simp: covered_def)

lemma covered_cong: "set xs = set ys \<Longrightarrow> covered xs = covered ys"
  by (simp add: covered_def)

lemma canonical_Nil [simp]: "canonical []"
  by (simp add: canonical_def)

lemma canonical_snoc:
  "canonical (xs @ [(a, b)]) \<longleftrightarrow> canonical xs \<and> a < b \<and> (\<forall>r \<in> set xs. snd r < a)"
  by (auto simp: canonical_def sorted_wrt_append)

lemma merge_run_snoc:
  "merge_run (xs @ [(a, b)]) (c, d) =
     (if c \<le> b then xs @ [(a, max b d)] else xs @ [(a, b), (c, d)])"
  by (simp add: merge_run_def)

lemma merge_run_canonical:
  assumes "canonical m" "c < d" "\<forall>r \<in> set m. fst r \<le> c"
  shows "canonical (merge_run m (c, d))" "covered (merge_run m (c, d)) = covered m \<union> {c..<d}"
    "\<forall>r \<in> set (merge_run m (c, d)). fst r \<le> c"
proof -
  have "canonical (merge_run m (c, d)) \<and> covered (merge_run m (c, d)) = covered m \<union> {c..<d} \<and>
    (\<forall>r \<in> set (merge_run m (c, d)). fst r \<le> c)"
  proof (cases m rule: rev_cases)
    case Nil
    then show ?thesis using assms by (simp add: merge_run_def canonical_def)
  next
    case (snoc xs ab)
    obtain a b where ab: "ab = (a, b)" by (cases ab)
    have *: "canonical xs" "a < b" "\<forall>r \<in> set xs. snd r < a" "a \<le> c"
      using assms snoc ab by (auto simp: canonical_snoc)
    have mid: "\<forall>r \<in> set xs. snd r < c" using *(3,4) by auto
    have grow: "{a..<max b d} = {a..<b} \<union> {c..<d}" if "c \<le> b"
      using *(2,4) that by (auto simp: max_def)
    have two: "canonical (xs @ [(a, b), (c, d)])" if "\<not> c \<le> b"
      using canonical_snoc [of "xs @ [(a, b)]" c d] * that mid assms(2)
      by (simp add: canonical_snoc)
    show ?thesis
      using * grow two assms(2,3) snoc ab mid
      by (cases "c \<le> b") (auto simp: merge_run_snoc canonical_snoc less_max_iff_disj)
  qed
  then show "canonical (merge_run m (c, d))" "covered (merge_run m (c, d)) = covered m \<union> {c..<d}"
    "\<forall>r \<in> set (merge_run m (c, d)). fst r \<le> c" by auto
qed

lemma merge_runs_canonical:
  assumes "canonical m" "sorted (map fst rs)" "\<forall>r \<in> set rs. fst r < snd r"
    "\<forall>r \<in> set m. \<forall>q \<in> set rs. fst r \<le> fst q"
  shows "canonical (foldl merge_run m rs) \<and> covered (foldl merge_run m rs) = covered m \<union> covered rs"
  using assms
proof (induction rs arbitrary: m)
  case (Cons r rs)
  obtain c d where r: "r = (c, d)" by (cases r)
  have *: "c < d" "\<forall>r \<in> set m. fst r \<le> c" using Cons.prems r by auto
  note step = merge_run_canonical [OF Cons.prems(1) *]
  have "\<forall>r \<in> set (merge_run m (c, d)). \<forall>q \<in> set rs. fst r \<le> fst q"
    using step(3) Cons.prems(2) r by (fastforce intro: order_trans)
  then show ?case
    using Cons.IH [OF step(1)] Cons.prems r step(2) by auto
qed simp

text \<open>Two canonical lists that cover the same offsets are equal.\<close>

lemma canonical_Cons:
  "canonical ((a, b) # rs) \<longleftrightarrow> a < b \<and> canonical rs \<and> (\<forall>r \<in> set rs. b < fst r)"
  by (auto simp: canonical_def)

lemma canonical_above: "canonical rs \<Longrightarrow> (\<forall>r \<in> set rs. b < fst r) \<Longrightarrow> x \<in> covered rs \<Longrightarrow> b < x"
  by (fastforce simp: covered_def)

lemma canonical_head:
  assumes "canonical ((a, b) # rs)"
  shows "a \<in> covered ((a, b) # rs)" "x \<in> covered ((a, b) # rs) \<Longrightarrow> a \<le> x"
    "b \<notin> covered ((a, b) # rs)" "x \<in> covered rs \<Longrightarrow> b < x"
  using assms canonical_above [of rs b] by (force simp: canonical_Cons)+

lemma canonical_unique: "canonical xs \<Longrightarrow> canonical ys \<Longrightarrow> covered xs = covered ys \<Longrightarrow> xs = ys"
proof (induction xs arbitrary: ys)
  case Nil
  then show ?case by (cases ys) (auto dest: canonical_head(1))
next
  case (Cons x xs)
  obtain a b where x: "x = (a, b)" by (cases x)
  note hx = canonical_head [OF Cons.prems(1) [unfolded x]]
  have "ys \<noteq> []" using Cons.prems(3) hx(1) x by (metis covered_simps(1) empty_iff)
  then obtain c d zs where ys: "ys = (c, d) # zs" by (metis list.exhaust surj_pair)
  note hy = canonical_head [OF Cons.prems(2) [unfolded ys]]
  note cov = Cons.prems(3) [unfolded x ys]
  have ac: "a = c" using hx(1,2) hy(1,2) unfolding cov by (metis antisym)
  have lt: "a < b" "c < d" using Cons.prems(1,2) x ys by (auto simp: canonical_Cons)
  have bd: "b = d"
  proof (rule ccontr)
    assume "b \<noteq> d"
    then consider "b < d" | "d < b" by fastforce
    then show False
    proof cases
      case 1
      then have "b \<in> covered ((c, d) # zs)" using lt ac by auto
      with hx(3) show False unfolding cov by simp
    next
      case 2
      then have "d \<in> covered ((a, b) # xs)" using lt ac by auto
      with hy(3) show False unfolding cov by simp
    qed
  qed
  have "covered xs = covered ((a, b) # xs) - {..b}" using hx(4) lt by (force dest: leD)
  moreover have "covered zs = covered ((c, d) # zs) - {..d}" using hy(4) lt by (force dest: leD)
  ultimately have "covered xs = covered zs" using cov bd by metis
  then show ?case
    using Cons.IH [of zs] Cons.prems x ys ac bd by (simp add: canonical_Cons)
qed

lemma merge_runs_sort_irrelevant:
  assumes "sorted (map fst xs)" "sorted (map fst ys)" "set xs = set ys" "\<forall>r \<in> set xs. fst r < snd r"
  shows "foldl merge_run [] xs = foldl merge_run [] ys"
proof (rule canonical_unique)
  show "canonical (foldl merge_run [] xs)" "canonical (foldl merge_run [] ys)"
    using merge_runs_canonical [of "[]" xs] merge_runs_canonical [of "[]" ys] assms by auto
  show "covered (foldl merge_run [] xs) = covered (foldl merge_run [] ys)"
    using merge_runs_canonical [of "[]" xs] merge_runs_canonical [of "[]" ys] assms
      covered_cong [OF assms(3)] by auto
qed

section \<open>Accepting chunks\<close>

lemma insert_run_ok:
  assumes "insert_run a b s = (Some u, s')" "canonical (stg_runs s)" "length (stg_runs s) \<le> MAX_STAGING_RUNS"
  shows "canonical (stg_runs s')" "covered (stg_runs s') = covered (stg_runs s) \<union> {a..<b}"
    "length (stg_runs s') \<le> MAX_STAGING_RUNS" "stg_buf s' = stg_buf s" "stg_boundary s' = stg_boundary s"
proof -
  let ?rs = "sort_key fst (stg_runs s @ [(a, b)])"
  have m: "canonical (foldl merge_run [] ?rs) \<and> covered (foldl merge_run [] ?rs) = covered ?rs" if "a < b"
    using merge_runs_canonical [of "[]" ?rs] assms(2) that by (auto simp: canonical_def)
  have c: "covered ?rs = covered (stg_runs s) \<union> {a..<b}"
    using covered_cong [of ?rs "stg_runs s @ [(a, b)]"] by simp
  have "canonical (stg_runs s') \<and> covered (stg_runs s') = covered (stg_runs s) \<union> {a..<b} \<and>
    length (stg_runs s') \<le> MAX_STAGING_RUNS \<and> stg_buf s' = stg_buf s \<and> stg_boundary s' = stg_boundary s"
  proof (cases "a < b")
    case True
    then have "length (foldl merge_run [] ?rs) \<le> MAX_STAGING_RUNS"
      and "s' = s\<lparr>stg_runs := foldl merge_run [] ?rs\<rparr>"
      using assms(1) by (auto simp: insert_run_def Let_def split: if_splits)
    then show ?thesis using m [OF True] c by simp
  next
    case False
    then have "b \<le> a" by simp
    with assms False show ?thesis by (simp add: insert_run_def)
  qed
  then show "canonical (stg_runs s')" "covered (stg_runs s') = covered (stg_runs s) \<union> {a..<b}"
    "length (stg_runs s') \<le> MAX_STAGING_RUNS" "stg_buf s' = stg_buf s" "stg_boundary s' = stg_boundary s"
    by auto
qed

text \<open>
  \<open>staged blob W s\<close>: the staging \<open>s\<close> of a blob of that length holds the blob's bytes at exactly
  the offsets in \<open>W\<close>, and its run list is the canonical description of \<open>W\<close>.
\<close>

definition staged :: "bytes \<Rightarrow> nat set \<Rightarrow> snapshot_staging \<Rightarrow> bool" where
  "staged blob W s \<longleftrightarrow>
     length (stg_buf s) = length blob \<and> W \<subseteq> {..<length blob} \<and>
     canonical (stg_runs s) \<and> length (stg_runs s) \<le> MAX_STAGING_RUNS \<and>
     unat ` covered (stg_runs s) = W \<and> (\<forall>i \<in> W. stg_buf s ! i = blob ! i)"

lemma unat_of_nat_u64: "n < 2 ^ 64 \<Longrightarrow> unat (of_nat n :: u64) = n"
  by (simp add: unsigned_of_nat take_bit_eq_mod)

lemma unat_image_interval:
  assumes "a < 2 ^ 64" "b < 2 ^ 64"
  shows "unat ` {of_nat a..<of_nat b :: u64} = {a..<b}"
proof -
  have "x \<in> unat ` {of_nat a..<of_nat b :: u64}" if "x \<in> {a..<b}" for x
  proof (rule image_eqI)
    have x: "x < 2 ^ 64" using that assms by auto
    then show "x = unat (of_nat x :: u64)" by (simp add: unat_of_nat_u64)
    show "(of_nat x :: u64) \<in> {of_nat a..<of_nat b}"
      using that x assms by (simp add: word_le_nat_alt word_less_nat_alt unat_of_nat_u64)
  qed
  then show ?thesis
    using assms by (auto simp: word_le_nat_alt word_less_nat_alt unat_of_nat_u64)
qed

lemma staging_accept_staged:
  assumes st: "staged blob W s" and len: "length blob < 2 ^ 64"
    and acc: "staging_accept off data s = (Some c, s')"
    and data: "\<And>k. k < length data \<Longrightarrow> unat off + k < length blob \<Longrightarrow> data ! k = blob ! (unat off + k)"
  shows "staged blob (W \<union> ({unat off..<unat off + length data} \<inter> {..<length blob})) s'"
    "stg_boundary s' = stg_boundary s" "c = contiguous s'"
proof -
  define start where "start = min (unat off) (length blob)"
  define stop where "stop = min (min (start + length data) (2 ^ 64 - 1)) (length blob)"
  define s1 where "s1 = s\<lparr>stg_buf := take start (stg_buf s) @ take (stop - start) data @ drop stop (stg_buf s)\<rparr>"
  have lb: "length (stg_buf s) = length blob" using st by (simp add: staged_def)
  obtain u where ins: "insert_run (of_nat start) (of_nat stop) s1 = (Some u, s')" and c: "c = contiguous s'"
    using acc unfolding staging_accept_def Let_def lb start_def [symmetric] stop_def [symmetric]
      s1_def [symmetric] by (auto split: prod.splits option.splits)
  have bounds: "start \<le> stop" "stop \<le> length blob" "stop - start \<le> length data" "start \<le> length blob"
    using len by (auto simp: start_def stop_def)
  have "canonical (stg_runs s1)" "length (stg_runs s1) \<le> MAX_STAGING_RUNS"
    using st by (simp_all add: s1_def staged_def)
  note r = insert_run_ok [OF ins this]
  have W': "W \<union> ({unat off..<unat off + length data} \<inter> {..<length blob}) = W \<union> {start..<stop}"
    using len by (auto simp: start_def stop_def)
  have l1: "length (stg_buf s1) = length blob" using bounds lb by (simp add: s1_def)
  have buf: "stg_buf s1 ! i = (if start \<le> i \<and> i < stop then data ! (i - start) else stg_buf s ! i)"
    if "i < length blob" for i
    using that bounds lb by (auto simp: s1_def nth_append min_def)
  have "unat ` covered (stg_runs s') = W \<union> {start..<stop}"
    using r(2) st bounds len unat_image_interval [of start stop] by (simp add: staged_def image_Un s1_def)
  moreover have "stg_buf s1 ! i = blob ! i" if "i \<in> W \<union> {start..<stop}" for i
  proof (cases "start \<le> i \<and> i < stop")
    case True
    then have "data ! (i - start) = blob ! (unat off + (i - start))" and "start = unat off"
      using data [of "i - start"] bounds by (auto simp: start_def)
    then show ?thesis using buf [of i] True bounds by simp
  next
    case False
    then show ?thesis using that buf [of i] st by (auto simp: staged_def)
  qed
  ultimately show "staged blob (W \<union> ({unat off..<unat off + length data} \<inter> {..<length blob})) s'"
    using r l1 st bounds unfolding W' by (auto simp: staged_def)
  show "stg_boundary s' = stg_boundary s" "c = contiguous s'" using r(5) c by (simp_all add: s1_def)
qed

text \<open>Successful transfers: every chunk is accepted.\<close>

fun accept_all :: "(u64 \<times> bytes) list \<Rightarrow> snapshot_staging \<Rightarrow> snapshot_staging option" where
  "accept_all [] s = Some s"
| "accept_all ((off, data) # cs) s =
     (case staging_accept off data s of
        (None, _) \<Rightarrow> None
      | (Some _, s) \<Rightarrow> accept_all cs s)"

text \<open>The bytes a resident store serves for a chunk request.\<close>

definition served :: "bytes \<Rightarrow> u64 \<times> u64 \<Rightarrow> u64 \<times> bytes" where
  "served blob req =
     (case resident_snapshot_chunk (Some ((), blob)) (fst req) (snd req)
          :: (unit \<times> u64 \<times> SnapshotChunkRead, unit) result option of
        Some (Ok (_, _, ChunkReady b)) \<Rightarrow> (fst req, b)
      | _ \<Rightarrow> (fst req, []))"

lemma unat_saturating_add: "unat (saturating_add a b :: u64) = min (unat a + unat b) (2 ^ 64 - 1)"
proof (cases "unat a + unat b < 2 ^ 64")
  case True
  then show ?thesis by (simp add: saturating_add_def unat_word_ariths)
next
  case False
  then show ?thesis by (simp add: saturating_add_def unsigned_minus_1_eq_mask mask_eq_exp_minus_1)
qed

lemma unat_min: "unat (min a b) = min (unat a) (unat b)"
  by (simp add: min_def word_le_nat_alt)

lemma served_eq:
  assumes "length blob < 2 ^ 64"
  shows "served blob (off, len) = (off, take (unat len) (drop (unat off) blob))"
proof -
  have l: "unat (of_nat (length blob) :: u64) = length blob"
    using assms by (simp add: unat_of_nat_u64)
  have "drop (min (unat off) (length blob))
      (take (min (min (unat off + unat len) (2 ^ 64 - 1)) (length blob)) blob) =
    take (unat len) (drop (unat off) blob)"
  proof (cases "unat off \<le> length blob")
    case True
    have "min (min (unat off + unat len) (2 ^ 64 - 1)) (length blob) = min (unat off + unat len) (length blob)"
      using assms by auto
    with True show ?thesis by (simp add: take_drop min_def add.commute)
  qed (simp add: min_def)
  then show ?thesis
    by (simp add: served_def resident_snapshot_chunk_def Let_def unat_min unat_saturating_add l)
qed

lemma served_staged:
  assumes "staged blob W s" "length blob < 2 ^ 64" "staging_accept (fst (served blob r)) (snd (served blob r)) s = (Some c, s')"
  shows "staged blob (W \<union> ({unat (fst r)..<unat (fst r) + unat (snd r)} \<inter> {..<length blob})) s'"
proof -
  obtain off len where r: "r = (off, len)" by (cases r)
  let ?d = "take (unat len) (drop (unat off) blob)"
  have "?d ! k = blob ! (unat off + k)" if "k < length ?d" for k
    using that by (cases "unat off \<le> length blob") auto
  then have "staged blob (W \<union> ({unat off..<unat off + length ?d} \<inter> {..<length blob})) s'"
    using staging_accept_staged(1) [OF assms(1,2), of off ?d c s'] assms(3)
    by (simp add: r served_eq [OF assms(2)])
  moreover have "{unat off..<unat off + length ?d} \<inter> {..<length blob} =
      {unat off..<unat off + unat len} \<inter> {..<length blob}" by auto
  ultimately show ?thesis by (simp add: r)
qed

lemma accept_all_staged:
  assumes "staged blob W s" "length blob < 2 ^ 64" "accept_all (map (served blob) reqs) s = Some s'"
  shows "staged blob (W \<union> (\<Union>r \<in> set reqs. {unat (fst r)..<unat (fst r) + unat (snd r)} \<inter> {..<length blob})) s'"
  using assms
proof (induction reqs arbitrary: W s)
  case (Cons r reqs)
  obtain c s1 where a: "staging_accept (fst (served blob r)) (snd (served blob r)) s = (Some c, s1)"
    and rest: "accept_all (map (served blob) reqs) s1 = Some s'"
    using Cons.prems(3) by (cases "served blob r") (auto split: prod.splits option.splits)
  have "staged blob (W \<union> ({unat (fst r)..<unat (fst r) + unat (snd r)} \<inter> {..<length blob})) s1"
    using served_staged [OF Cons.prems(1,2) a] .
  from Cons.IH [OF this Cons.prems(2) rest] show ?case by (simp add: Un_assoc)
qed simp

lemma staging_new_staged:
  "staging_new can_reserve b tot cap = Some s \<Longrightarrow> unat tot = length blob \<Longrightarrow> staged blob {} s"
  by (auto simp: staging_new_def Let_def staged_def covered_def split: if_splits)

text \<open>The contiguous offset is the largest prefix that has been written in full.\<close>

lemma canonical_prefix:
  assumes "canonical rs"
  shows "n \<le> unat (case rs of [] \<Rightarrow> 0 | (a, b) # _ \<Rightarrow> if a = 0 then b else 0) \<longleftrightarrow> {..<n} \<subseteq> unat ` covered rs"
proof -
  have zero: "n = 0" if "{..<n} \<subseteq> unat ` covered rs" "0 \<notin> covered rs"
  proof (rule ccontr)
    assume "n \<noteq> 0"
    then have "0 \<in> unat ` covered rs" using that(1) by (auto simp: subset_iff)
    then show False using that(2) by (auto simp: unat_eq_0)
  qed
  show ?thesis
  proof (cases rs)
    case Nil
    then show ?thesis using zero by auto
  next
    case (Cons r rs')
    obtain a b where r: "r = (a, b)" by (cases r)
    note h = canonical_head [OF assms [unfolded Cons r]]
    show ?thesis
    proof (cases "a = 0")
      case False
      then have "0 \<notin> covered rs" using h(2) [of 0] Cons r by (auto simp del: covered_simps)
      then show ?thesis using zero False Cons r by auto
    next
      case True
      have "{..<n} \<subseteq> unat ` covered rs" if "n \<le> unat b"
      proof -
        have "unat b < 2 ^ 64" using unsigned_less [of b] by simp
        then have "{..<unat b} = unat ` {0..<b}"
          using unat_image_interval [of 0 "unat b"] by (simp add: lessThan_atLeast0)
        then show ?thesis using that Cons r True by (auto simp: image_Un)
      qed
      moreover have "n \<le> unat b" if "{..<n} \<subseteq> unat ` covered rs"
      proof (rule ccontr)
        assume "\<not> n \<le> unat b"
        then have "unat b \<in> unat ` covered rs" using that by auto
        then have "b \<in> covered rs" by (metis (no_types) imageE word_unat_eq_iff)
        then show False using h(3) Cons r by (simp del: covered_simps)
      qed
      ultimately show ?thesis using Cons r True by auto
    qed
  qed
qed

lemma staged_contiguous: "staged blob W s \<Longrightarrow> n \<le> unat (contiguous s) \<longleftrightarrow> {..<n} \<subseteq> W"
  using canonical_prefix [of "stg_runs s" n] by (simp add: staged_def contiguous_def)

text \<open>
  C40: A snapshot transfer whose chunks are read from one blob by a resident store, in any order,
  with any overlaps and repetitions, reassembles that blob: the offset the receiver acknowledges
  is exactly the longest prefix every byte of which some chunk carried, the staged bytes up to it
  are the blob's, a complete staging holds the blob, and the run list never exceeds its cap.
\<close>

theorem staged_transfer_reassembles_blob:
  assumes "length blob < 2 ^ 64"
    and "staging_new can_reserve boundary (of_nat (length blob)) cap = Some s0"
    and "accept_all (map (served blob) reqs) s0 = Some s"
  shows "(\<forall>n. n \<le> unat (contiguous s) \<longleftrightarrow> n \<le> length blob \<and>
            (\<forall>i < n. \<exists>r \<in> set reqs. unat (fst r) \<le> i \<and> i < unat (fst r) + unat (snd r))) \<and>
         take (unat (contiguous s)) (stg_buf s) = take (unat (contiguous s)) blob \<and>
         (is_complete s \<longrightarrow> stg_buf s = blob) \<and> length (stg_runs s) \<le> MAX_STAGING_RUNS"
proof -
  let ?W = "\<Union>r \<in> set reqs. {unat (fst r)..<unat (fst r) + unat (snd r)} \<inter> {..<length blob}"
  have st: "staged blob ?W s"
    using accept_all_staged [OF staging_new_staged [OF assms(2)] assms(1,3)] assms(1)
    by (simp add: unat_of_nat_u64)
  note c = staged_contiguous [OF st]
  have sub: "{..<unat (contiguous s)} \<subseteq> ?W" using c [of "unat (contiguous s)"] by simp
  have "{..<n} \<subseteq> ?W \<longleftrightarrow> n \<le> length blob \<and>
      (\<forall>i < n. \<exists>r \<in> set reqs. unat (fst r) \<le> i \<and> i < unat (fst r) + unat (snd r))" for n
    by (fastforce simp: subset_iff intro: leI)
  moreover have "take (unat (contiguous s)) (stg_buf s) = take (unat (contiguous s)) blob"
    using st sub by (intro nth_equalityI) (auto simp: staged_def)
  moreover from this have "is_complete s \<longrightarrow> stg_buf s = blob"
    using st assms(1) by (auto simp: is_complete_def unat_of_nat_u64 staged_def)
  ultimately show ?thesis using c st by (simp add: staged_def)
qed

theorem staged_transfer_reassembles_blob_witness:
  "\<exists>s. accept_all (map (served [10, 20, 30, 40, 50]) [(3, 9), (0, 2), (2, 2)])
         \<lparr>stg_boundary = 7, stg_buf = [0, 0, 0, 0, 0], stg_runs = []\<rparr> = Some s \<and>
     contiguous s = 5 \<and> stg_buf s = [10, 20, 30, 40, 50]"
proof -
  let ?init = "\<lparr>stg_boundary = 7, stg_buf = [0, 0, 0, 0, 0], stg_runs = []\<rparr>"
  let ?s = "\<lparr>stg_boundary = 7, stg_buf = [10, 20, 30, 40, 50], stg_runs = [(0, 5)]\<rparr>"
  let ?blob = "[10, 20, 30, 40, 50] :: bytes"
  have new: "staging_new (\<lambda>_. True) 7 (of_nat (length ?blob)) 16 = Some ?init"
    by code_simp
  have acc: "accept_all (map (served ?blob) [(3, 9), (0, 2), (2, 2)]) ?init = Some ?s"
    by (simp add: Let_def min_def served_eq staging_accept_def insert_run_def merge_run_def
        contiguous_def MAX_STAGING_RUNS_def)
  have "is_complete ?s \<longrightarrow> stg_buf ?s = ?blob"
    using staged_transfer_reassembles_blob [OF _ new acc] by simp
  then show ?thesis using acc by (auto simp: contiguous_def is_complete_def)
qed

end
