(* ===== verification/Message.thy ===== *)
theory Message
  imports Conf Config Storage
begin

text \<open>
  The values that travel between nodes and to the stores: log entries
  (\<^verbatim>\<open>sailing-proto/src/entry.rs\<close>), the durable metadata (\<^verbatim>\<open>hard_state.rs\<close>), the messages and
  the snapshot header (\<^verbatim>\<open>message/mod.rs\<close>), and the application events (\<^verbatim>\<open>event.rs\<close>).
\<close>

section \<open>Log entries\<close>

datatype EntryKind =
    EK_Normal | EK_ConfChange | EK_Empty | EK_SetReadMode | EK_Split
  | EK_PrepareMerge | EK_CommitMerge | EK_RollbackMerge | EK_ThawDischarged

record entry =
  en_term :: raft_term
  en_index :: index
  en_kind :: EntryKind
  en_data :: bytes
  en_timestamp :: u64
  en_lease_window :: u64
  en_wall_timestamp :: u64

definition entry_new :: "raft_term \<Rightarrow> index \<Rightarrow> EntryKind \<Rightarrow> bytes \<Rightarrow> entry" where
  "entry_new term index kind data =
     \<lparr>en_term = term, en_index = index, en_kind = kind, en_data = data,
      en_timestamp = 0, en_lease_window = 0, en_wall_timestamp = 0\<rparr>"

record split_payload =
  sp_child_bytes :: bytes
  sp_child_gen :: u64
  sp_parent_gen_after :: u64
  sp_instruction :: bytes

record prepare_merge_payload =
  pm_target_bytes :: bytes
  pm_source_gen_after :: u64

record commit_merge_payload =
  cm_source_bytes :: bytes
  cm_freeze_index :: index
  cm_freeze_term :: raft_term
  cm_source_gen_after :: u64
  cm_target_gen_after :: u64

record rollback_merge_payload =
  rb_source_bytes :: bytes
  rb_source_gen_after :: u64
  rb_target_gen_after :: u64

definition rb_unfreeze :: "u64 \<Rightarrow> rollback_merge_payload" where
  "rb_unfreeze source_gen_after =
     \<lparr>rb_source_bytes = [], rb_source_gen_after = source_gen_after, rb_target_gen_after = 0\<rparr>"

definition rb_abort :: "bytes \<Rightarrow> u64 \<Rightarrow> u64 \<Rightarrow> rollback_merge_payload" where
  "rb_abort source_bytes source_gen_after target_gen_after =
     \<lparr>rb_source_bytes = source_bytes, rb_source_gen_after = source_gen_after,
      rb_target_gen_after = target_gen_after\<rparr>"

definition rb_is_unfreeze :: "rollback_merge_payload \<Rightarrow> bool" where
  "rb_is_unfreeze p \<longleftrightarrow> rb_source_bytes p = []"

record thaw_discharged_payload =
  td_source_bytes :: bytes
  td_generation :: u64

section \<open>Durable metadata\<close>

datatype LeaseSupport = Unrecorded | Recorded "duration option"

definition lease_support_default :: LeaseSupport where
  "lease_support_default = Recorded None"

definition promised :: "LeaseSupport \<Rightarrow> duration option" where
  "promised ls = (case ls of Recorded d \<Rightarrow> d | Unrecorded \<Rightarrow> None)"

definition is_unrecorded :: "LeaseSupport \<Rightarrow> bool" where
  "is_unrecorded ls \<longleftrightarrow> ls = Unrecorded"

text \<open>The derived order of \<^verbatim>\<open>Option\<close>: \<^verbatim>\<open>None\<close> is below every \<^verbatim>\<open>Some\<close>.\<close>

definition option_max :: "'a::linorder option \<Rightarrow> 'a option \<Rightarrow> 'a option" where
  "option_max a b =
     (case (a, b) of
        (None, _) \<Rightarrow> b
      | (_, None) \<Rightarrow> a
      | (Some x, Some y) \<Rightarrow> Some (max x y))"

definition option_ge :: "'a::linorder option \<Rightarrow> 'a option \<Rightarrow> bool" where
  "option_ge a b =
     (case b of None \<Rightarrow> True | Some y \<Rightarrow> (case a of None \<Rightarrow> False | Some x \<Rightarrow> y \<le> x))"

definition lease_support_raise :: "duration option \<Rightarrow> LeaseSupport \<Rightarrow> LeaseSupport" where
  "lease_support_raise flr ls = Recorded (option_max (promised ls) flr)"

record fork_id =
  fk_parent :: bytes
  fk_parent_incarnation :: u64
  fk_split_index :: index
  fk_split_term :: raft_term
  fk_child :: bytes
  fk_child_gen :: u64

record 'i hard_state =
  hs_term :: raft_term
  hs_vote :: "'i option"
  hs_commit :: index
  hs_lease_support :: LeaseSupport
  hs_lineage :: "fork_id option"
  hs_founding_gen :: u64

definition hs_initial :: "'i hard_state" where
  "hs_initial = \<lparr>hs_term = 0, hs_vote = None, hs_commit = 0, hs_lease_support = Recorded None,
     hs_lineage = None, hs_founding_gen = 0\<rparr>"

section \<open>Snapshot headers\<close>

record 'i snapshot_meta =
  sm_last_index :: index
  sm_last_term :: raft_term
  sm_conf :: "'i conf_state"
  sm_max_lease_window :: u64
  sm_max_wall_plus_window :: u64
  sm_max_unwalled_lease_window :: u64
  sm_read_only :: "ReadOnlyOption option"
  sm_shape_gen :: u64
  sm_fork_id :: "fork_id option"

definition snapshot_meta_new :: "index \<Rightarrow> raft_term \<Rightarrow> 'i conf_state \<Rightarrow> 'i snapshot_meta" where
  "snapshot_meta_new last_index last_term conf =
     \<lparr>sm_last_index = last_index, sm_last_term = last_term, sm_conf = conf,
      sm_max_lease_window = 0, sm_max_wall_plus_window = 0, sm_max_unwalled_lease_window = 0,
      sm_read_only = None, sm_shape_gen = 0, sm_fork_id = None\<rparr>"

definition identity_eq :: "'i snapshot_meta \<Rightarrow> 'i snapshot_meta \<Rightarrow> bool" where
  "identity_eq a b \<longleftrightarrow>
     sm_last_index a = sm_last_index b \<and> sm_last_term a = sm_last_term b \<and>
     sm_conf a = sm_conf b \<and> sm_fork_id a = sm_fork_id b"

section \<open>Messages\<close>

record 'i append_entries =
  ae_term :: raft_term
  ae_leader :: 'i
  ae_prev_log_index :: index
  ae_prev_log_term :: raft_term
  ae_entries :: "entry list"
  ae_leader_commit :: index

record 'i append_response =
  ar_term :: raft_term
  ar_from :: 'i
  ar_reject :: bool
  ar_reject_hint_index :: index
  ar_reject_hint_term :: raft_term
  ar_match_index :: index
  ar_rejected_index :: index

definition append_response_new ::
    "raft_term \<Rightarrow> 'i \<Rightarrow> bool \<Rightarrow> index \<Rightarrow> raft_term \<Rightarrow> index \<Rightarrow> 'i append_response" where
  "append_response_new term from reject reject_hint_index reject_hint_term match_index =
     \<lparr>ar_term = term, ar_from = from, ar_reject = reject, ar_reject_hint_index = reject_hint_index,
      ar_reject_hint_term = reject_hint_term, ar_match_index = match_index, ar_rejected_index = 0\<rparr>"

record 'i request_vote =
  rv_term :: raft_term
  rv_candidate :: 'i
  rv_last_log_index :: index
  rv_last_log_term :: raft_term
  rv_pre_vote :: bool
  rv_leader_transfer :: bool

record 'i vote_response =
  vr_term :: raft_term
  vr_from :: 'i
  vr_pre_vote :: bool
  vr_reject :: bool

record 'i heartbeat =
  hb_term :: raft_term
  hb_leader :: 'i
  hb_commit :: index
  hb_context :: bytes
  hb_lease_round :: u64

definition heartbeat_new :: "raft_term \<Rightarrow> 'i \<Rightarrow> index \<Rightarrow> bytes \<Rightarrow> 'i heartbeat" where
  "heartbeat_new term leader commit context =
     \<lparr>hb_term = term, hb_leader = leader, hb_commit = commit, hb_context = context,
      hb_lease_round = 0\<rparr>"

record 'i heartbeat_response =
  hr_term :: raft_term
  hr_from :: 'i
  hr_context :: bytes
  hr_lease_round :: u64
  hr_lease_support :: duration
  hr_stuck_boundary :: index

definition heartbeat_response_new :: "raft_term \<Rightarrow> 'i \<Rightarrow> bytes \<Rightarrow> 'i heartbeat_response" where
  "heartbeat_response_new term from context =
     \<lparr>hr_term = term, hr_from = from, hr_context = context, hr_lease_round = 0,
      hr_lease_support = 0, hr_stuck_boundary = 0\<rparr>"

record 'i install_snapshot =
  ins_term :: raft_term
  ins_leader :: 'i
  ins_snapshot :: "'i snapshot_meta"
  ins_data :: bytes
  ins_offset :: u64
  ins_total_len :: u64

definition ins_is_last :: "'i install_snapshot \<Rightarrow> bool" where
  "ins_is_last m \<longleftrightarrow>
     ins_total_len m \<noteq> 0 \<and>
     saturating_add (ins_offset m) (of_nat (length (ins_data m))) = ins_total_len m"

record 'i snapshot_response =
  sr_term :: raft_term
  sr_from :: 'i
  sr_reject :: bool
  sr_match_index :: index
  sr_acked_through :: u64
  sr_progress :: bool

definition snapshot_response_new :: "raft_term \<Rightarrow> 'i \<Rightarrow> bool \<Rightarrow> index \<Rightarrow> 'i snapshot_response" where
  "snapshot_response_new term from reject match_index =
     \<lparr>sr_term = term, sr_from = from, sr_reject = reject, sr_match_index = match_index,
      sr_acked_through = 0, sr_progress = False\<rparr>"

record 'i timeout_now =
  tn_term :: raft_term
  tn_leader :: 'i

record 'i read_index_msg =
  ri_term :: raft_term
  ri_from :: 'i
  ri_context :: bytes

record 'i read_index_response =
  rir_term :: raft_term
  rir_from :: 'i
  rir_index :: index
  rir_context :: bytes
  rir_reject :: bool

datatype 'i message =
    MAppendEntries "'i append_entries"
  | MAppendResponse "'i append_response"
  | MRequestVote "'i request_vote"
  | MVoteResponse "'i vote_response"
  | MHeartbeat "'i heartbeat"
  | MHeartbeatResponse "'i heartbeat_response"
  | MInstallSnapshot "'i install_snapshot"
  | MSnapshotResponse "'i snapshot_response"
  | MTimeoutNow "'i timeout_now"
  | MReadIndex "'i read_index_msg"
  | MReadIndexResponse "'i read_index_response"

type_synonym 'i outgoing = "'i \<times> 'i message"

primrec msg_term :: "'i message \<Rightarrow> raft_term" where
  "msg_term (MAppendEntries m) = ae_term m"
| "msg_term (MAppendResponse m) = ar_term m"
| "msg_term (MRequestVote m) = rv_term m"
| "msg_term (MVoteResponse m) = vr_term m"
| "msg_term (MHeartbeat m) = hb_term m"
| "msg_term (MHeartbeatResponse m) = hr_term m"
| "msg_term (MInstallSnapshot m) = ins_term m"
| "msg_term (MSnapshotResponse m) = sr_term m"
| "msg_term (MTimeoutNow m) = tn_term m"
| "msg_term (MReadIndex m) = ri_term m"
| "msg_term (MReadIndexResponse m) = rir_term m"

primrec msg_from :: "'i message \<Rightarrow> 'i" where
  "msg_from (MAppendEntries m) = ae_leader m"
| "msg_from (MRequestVote m) = rv_candidate m"
| "msg_from (MHeartbeat m) = hb_leader m"
| "msg_from (MInstallSnapshot m) = ins_leader m"
| "msg_from (MTimeoutNow m) = tn_leader m"
| "msg_from (MAppendResponse m) = ar_from m"
| "msg_from (MVoteResponse m) = vr_from m"
| "msg_from (MHeartbeatResponse m) = hr_from m"
| "msg_from (MSnapshotResponse m) = sr_from m"
| "msg_from (MReadIndex m) = ri_from m"
| "msg_from (MReadIndexResponse m) = rir_from m"

section \<open>Events\<close>

record merged =
  mg_index :: index
  mg_source :: bytes
  mg_gen_after :: u64

datatype ('i, 'p) event =
    EvApplied index 'p
  | EvLeaderChanged raft_term "'i option"
  | EvSnapshotInstalled "'i snapshot_meta"
  | EvMergeCureUndeliverable 'i index
  | EvConfChanged index "'i conf_state"
  | EvReadModeChanged index ReadOnlyOption
  | EvSplitApplied index bytes
  | EvSplitStale index bytes u64 u64
  | EvMergeFrozen index u64
  | EvMergeRolledBack index u64
  | EvMerged merged
  | EvMergeAborted index bytes u64
  | EvReadState index bytes

section \<open>Laws of the lease record\<close>

lemma option_max_ge: "option_ge (option_max a b) a" "option_ge (option_max a b) b"
  by (auto simp: option_max_def option_ge_def split: option.splits)

lemma option_ge_trans: "option_ge a b \<Longrightarrow> option_ge b c \<Longrightarrow> option_ge a c"
  by (auto simp: option_ge_def split: option.splits)

lemma option_ge_refl [simp]: "option_ge a a"
  by (auto simp: option_ge_def split: option.splits)

lemma option_max_assoc: "option_max (option_max a b) c = option_max a (option_max b c)"
  by (auto simp: option_max_def max.assoc split: option.splits)

lemma option_max_idem [simp]: "option_max a a = a"
  by (auto simp: option_max_def split: option.splits)

text \<open>A write at the choke-point never lowers a promise, and makes the record a current one.\<close>

lemma raise_monotone:
  "option_ge (promised (lease_support_raise flr ls)) (promised ls)"
  "option_ge (promised (lease_support_raise flr ls)) flr"
  "\<not> is_unrecorded (lease_support_raise flr ls)"
  by (simp_all add: lease_support_raise_def is_unrecorded_def promised_def option_max_ge)

lemma identity_eq_equiv:
  "identity_eq a a" "identity_eq a b \<Longrightarrow> identity_eq b a"
  "identity_eq a b \<Longrightarrow> identity_eq b c \<Longrightarrow> identity_eq a c"
  by (auto simp: identity_eq_def)

end
