(* ===== verification/Btree.thy ===== *)
theory Btree
  imports Sailing_Prelude "HOL-Library.AList"
begin

text \<open>
  \<^verbatim>\<open>std::collections::BTreeMap\<close> as an association list in strictly ascending key order, so that
  iterating the list is iterating the map. A lookup is \<^const>\<open>map_of\<close>, a removal is
  \<^const>\<open>AList.delete\<close> and \<^verbatim>\<open>retain\<close> is \<^const>\<open>filter\<close>; insertion keeps the order.
\<close>

type_synonym ('k, 'v) btree_map = "('k \<times> 'v) list"

fun bm_insert :: "'k::linorder \<Rightarrow> 'v \<Rightarrow> ('k, 'v) btree_map \<Rightarrow> ('k, 'v) btree_map" where
  "bm_insert k v [] = [(k, v)]"
| "bm_insert k v ((k', v') # m) =
     (if k < k' then (k, v) # (k', v') # m
      else if k = k' then (k, v) # m
      else (k', v') # bm_insert k v m)"

definition bm_contains :: "('k, 'v) btree_map \<Rightarrow> 'k \<Rightarrow> bool" where
  "bm_contains m k \<longleftrightarrow> map_of m k \<noteq> None"

definition bm_update :: "'k \<Rightarrow> ('v \<Rightarrow> 'v) \<Rightarrow> ('k, 'v) btree_map \<Rightarrow> ('k, 'v) btree_map" where
  "bm_update k f m = map (\<lambda>(k', v). if k' = k then (k', f v) else (k', v)) m"

definition bm_ok :: "('k::linorder, 'v) btree_map \<Rightarrow> bool" where
  "bm_ok m \<longleftrightarrow> sorted_wrt (<) (map fst m)"

named_theorems bm_simps \<open>lookups and order of the ordered maps\<close>

lemma bm_ok_Nil [simp, bm_simps]: "bm_ok []"
  by (simp add: bm_ok_def)

lemma bm_ok_distinct: "bm_ok m \<Longrightarrow> distinct (map fst m)"
  unfolding bm_ok_def using strict_sorted_iff by blast

lemma map_of_bm_insert [simp, bm_simps]:
  "bm_ok m \<Longrightarrow> map_of (bm_insert k v m) = (map_of m)(k \<mapsto> v)"
proof (induction m)
  case (Cons a m)
  obtain k' v' where a: "a = (k', v')" by (cases a)
  have ok: "bm_ok m" using Cons.prems by (simp add: bm_ok_def)
  have none: "map_of m k = None" if "k < k'"
    using Cons.prems that a by (auto simp: bm_ok_def map_of_eq_None_iff)
  show ?case
    using Cons.IH [OF ok] none a by (auto simp: fun_upd_twist)
qed simp

lemma set_bm_insert: "set (map fst (bm_insert k v m)) = insert k (set (map fst m))"
  by (induction k v m rule: bm_insert.induct) auto

lemma bm_ok_insert [simp, bm_simps]: "bm_ok m \<Longrightarrow> bm_ok (bm_insert k v m)"
proof (induction m)
  case (Cons a m)
  obtain k' v' where a: "a = (k', v')" by (cases a)
  then show ?case
    using Cons set_bm_insert [of k v m] by (auto simp: bm_ok_def)
qed (simp add: bm_ok_def)

lemma bm_ok_filter [simp, bm_simps]: "bm_ok m \<Longrightarrow> bm_ok (filter P m)"
  by (induction m) (auto simp: bm_ok_def)

lemma bm_ok_delete [simp, bm_simps]: "bm_ok m \<Longrightarrow> bm_ok (AList.delete k m)"
  by (simp add: AList.delete_eq bm_ok_filter)

lemma map_of_bm_update [simp, bm_simps]:
  "map_of (bm_update k f m) x = (if x = k then map_option f (map_of m x) else map_of m x)"
  by (induction m) (auto simp: bm_update_def)

lemma map_fst_bm_update [simp, bm_simps]: "map fst (bm_update k f m) = map fst m"
  by (auto simp: bm_update_def)

lemma bm_ok_update [simp, bm_simps]: "bm_ok (bm_update k f m) = bm_ok m"
  by (simp add: bm_ok_def)

lemma map_of_bm_filter [simp, bm_simps]:
  "map_of (filter (\<lambda>(k, _). P k) m) x = (if P x then map_of m x else None)"
  by (induction m) auto

text \<open>\<^verbatim>\<open>Iterator::min_by_key\<close> keeps the first minimum, \<^verbatim>\<open>max_by_key\<close> the last maximum.\<close>

fun min_by_key :: "('a \<Rightarrow> 'b::linorder) \<Rightarrow> 'a list \<Rightarrow> 'a option" where
  "min_by_key f [] = None"
| "min_by_key f (x # xs) =
     (case min_by_key f xs of
        None \<Rightarrow> Some x
      | Some y \<Rightarrow> if f y < f x then Some y else Some x)"

fun max_by_key :: "('a \<Rightarrow> 'b::linorder) \<Rightarrow> 'a list \<Rightarrow> 'a option" where
  "max_by_key f [] = None"
| "max_by_key f (x # xs) =
     (case max_by_key f xs of
        None \<Rightarrow> Some x
      | Some y \<Rightarrow> if f x \<le> f y then Some y else Some x)"

lemma min_by_key_None [simp]: "min_by_key f xs = None \<longleftrightarrow> xs = []"
  by (cases xs) (auto split: option.splits)

lemma max_by_key_None [simp]: "max_by_key f xs = None \<longleftrightarrow> xs = []"
  by (cases xs) (auto split: option.splits)

lemma min_by_key_Some: "min_by_key f xs = Some x \<Longrightarrow> x \<in> set xs \<and> (\<forall>y \<in> set xs. f x \<le> f y)"
proof (induction xs arbitrary: x)
  case (Cons a xs)
  show ?case
  proof (cases "min_by_key f xs")
    case (Some y)
    with Cons.IH [OF Some] Cons.prems show ?thesis by (fastforce split: if_splits)
  qed (use Cons.prems in auto)
qed simp

lemma max_by_key_Some: "max_by_key f xs = Some x \<Longrightarrow> x \<in> set xs \<and> (\<forall>y \<in> set xs. f y \<le> f x)"
proof (induction xs arbitrary: x)
  case (Cons a xs)
  show ?case
  proof (cases "max_by_key f xs")
    case (Some y)
    with Cons.IH [OF Some] Cons.prems show ?thesis by (fastforce split: if_splits)
  qed (use Cons.prems in auto)
qed simp

end
