(* ===== verification/Endpoint_State.thy ===== *)
theory Endpoint_State
  imports Message Btree Tracker "HOL-Library.List_Lexorder" "HOL-Library.Product_Lexorder"
begin

text \<open>
  The state of one node, \<^verbatim>\<open>struct Endpoint\<close> of \<^verbatim>\<open>sailing-proto/src/endpoint/mod.rs\<close> with the
  sub-structures it groups its fields in, the two seams it is generic in (the stores of
  \<^verbatim>\<open>storage.rs\<close> and the state machine of \<^verbatim>\<open>state_machine.rs\<close>).

  A field of the Rust struct is the field of the same name with a two-letter prefix. A store, the
  state machine, the wire codec and the random generator are values of type parameters, and the
  calls the core makes on them are the fields of one record \<open>env\<close>.
\<close>

section \<open>Constants and small enumerations\<close>

definition MAX_READ_BATCH_ENTRIES :: u64 where
  "MAX_READ_BATCH_ENTRIES = 8192"

definition CROSSING_SCAN_CHUNKS_PER_CRANK :: nat where
  "CROSSING_SCAN_CHUNKS_PER_CRANK = 4"

definition APPLY_BUDGET_ENTRIES :: u64 where
  "APPLY_BUDGET_ENTRIES = MAX_READ_BATCH_ENTRIES"

definition CONFLICT_WALK_BUDGET :: u32 where
  "CONFLICT_WALK_BUDGET = 1024"

definition MAX_LEADER_READS :: nat where
  "MAX_LEADER_READS = 256"

definition FAREWELL_RETRY_SHOTS :: u8 where
  "FAREWELL_RETRY_SHOTS = 2"

definition COURTESY_COOLDOWN_TIMEOUTS :: nat where
  "COURTESY_COOLDOWN_TIMEOUTS = 3"

definition COURTESY_DEBT_CAP :: nat where
  "COURTESY_DEBT_CAP = 64"

definition CURE_EXPIRY_TIMEOUTS :: nat where
  "CURE_EXPIRY_TIMEOUTS = 3"

definition apply_read_span :: "index \<Rightarrow> index \<Rightarrow> u64 \<Rightarrow> index" where
  "apply_read_span applied commit applied_this_call =
     (let allowance = saturating_sub APPLY_BUDGET_ENTRIES applied_this_call;
          width = min MAX_READ_BATCH_ENTRIES allowance
      in min (counter_next commit) (saturating_add (saturating_add applied width) 1))"

datatype ApplyDrain = AD_Drained | AD_BudgetCut | AD_Waiting

datatype Role = Follower | PreCandidate | Candidate | Leader

definition role_as_str :: "Role \<Rightarrow> string" where
  "role_as_str r =
     (case r of Follower \<Rightarrow> ''follower'' | PreCandidate \<Rightarrow> ''pre_candidate''
      | Candidate \<Rightarrow> ''candidate'' | Leader \<Rightarrow> ''leader'')"

record peer_progress =
  pp_match_index :: index
  pp_next_index :: index
  pp_state :: ProgressState
  pp_paused :: bool

datatype TimerKind = TK_Election | TK_Heartbeat | TK_Transfer | TK_CommitWait

definition timer_kind_ALL :: "TimerKind list" where
  "timer_kind_ALL = [TK_Election, TK_Heartbeat, TK_Transfer, TK_CommitWait]"

definition timer_kind_as_str :: "TimerKind \<Rightarrow> string" where
  "timer_kind_as_str k =
     (case k of TK_Election \<Rightarrow> ''election'' | TK_Heartbeat \<Rightarrow> ''heartbeat''
      | TK_Transfer \<Rightarrow> ''transfer'' | TK_CommitWait \<Rightarrow> ''commit_wait'')"

datatype PoisonReason =
    PR_LogRead | PR_SnapshotRead | PR_LogPoll | PR_StablePoll | PR_LogTerm | PR_NormalEntryDecode
  | PR_Apply | PR_SnapshotCapture | PR_ConfChangeDecode | PR_SetReadModeDecode | PR_SplitDecode
  | PR_SplitUnsupported | PR_MergeDecode | PR_MergeUnsupported | PR_ConfChangeApply
  | PR_SnapshotDecode | PR_SnapshotRestore | PR_CommittedTruncation | PR_NonContiguousAppend
  | PR_InvalidConfState | PR_ReservedShapeGen | PR_SnapshotRebaseline | PR_OrphanedLog
  | PR_LineageMismatch | PR_InconsistentLeaseFloor | PR_WallHorizonUnrepresentable
  | PR_CommitWaitUnrepresentable | PR_LogExhausted | PR_LegacyLeaseUnrecoverable
  | PR_OpIdExhausted | PR_ReadRoundExhausted | PR_LeaseRoundExhausted | PR_QueryPanicked

section \<open>The seams\<close>

text \<open>
  The operations of \<^verbatim>\<open>LogStore\<close>, \<^verbatim>\<open>StableStore\<close>, \<^verbatim>\<open>StateMachine\<close>, of the payload codecs of
  \<^verbatim>\<open>wire/mod.rs\<close> (which the protobuf library implements) and of \<^verbatim>\<open>rand::Rng\<close>. A failing read is
  \<^const>\<open>Err\<close>; which error it is does not matter to the core.
\<close>

type_synonym 'a fallible = "('a, unit) result"

record ('i, 'f, 'c, 'n, 'p, 'r, 'l, 's) env =
  next_u64 :: "'r \<Rightarrow> u64 \<times> 'r"
  log_first_index :: "'l \<Rightarrow> index"
  log_last_index :: "'l \<Rightarrow> index"
  log_durable_index :: "'l \<Rightarrow> index option"
  log_read_term :: "'l \<Rightarrow> index \<Rightarrow> raft_term fallible"
  log_entries :: "'l \<Rightarrow> index \<Rightarrow> index \<Rightarrow> u64 \<Rightarrow> entry EntriesRead fallible"
  log_submit_append :: "OpId \<Rightarrow> entry list \<Rightarrow> 'l \<Rightarrow> 'l"
  log_compact :: "index \<Rightarrow> 'l \<Rightarrow> 'l"
  log_restore :: "index \<Rightarrow> raft_term \<Rightarrow> 'l \<Rightarrow> 'l"
  log_poll :: "'l \<Rightarrow> LogDone fallible option \<times> 'l"
  log_has_pending :: "'l \<Rightarrow> bool"
  st_hard_state :: "'s \<Rightarrow> 'i hard_state"
  st_durable_hard_state :: "'s \<Rightarrow> 'i hard_state option"
  st_submit_write :: "OpId \<Rightarrow> 'i hard_state \<Rightarrow> 's \<Rightarrow> 's"
  st_submit_snapshot :: "OpId \<Rightarrow> 'i snapshot_meta \<Rightarrow> bytes \<Rightarrow> 's \<Rightarrow> 's"
  st_snapshot :: "'s \<Rightarrow> ('i snapshot_meta \<times> bytes) option"
  st_durable_snapshot :: "'s \<Rightarrow> 'i snapshot_meta option"
  st_snapshot_chunk :: "'s \<Rightarrow> u64 \<Rightarrow> u64 \<Rightarrow> ('i snapshot_meta \<times> u64 \<times> SnapshotChunkRead) fallible option"
  st_accept_snapshot_chunk :: "'i snapshot_meta \<Rightarrow> u64 \<Rightarrow> u64 \<Rightarrow> bytes \<Rightarrow> 's \<Rightarrow> u64 fallible \<times> 's"
  st_take_staged_snapshot :: "'i snapshot_meta \<Rightarrow> 's \<Rightarrow> bytes option \<times> 's"
  st_discard_snapshot_staging :: "'s \<Rightarrow> 's"
  st_poll :: "'s \<Rightarrow> StableDone fallible option \<times> 's"
  st_has_pending :: "'s \<Rightarrow> bool"
  fsm_apply :: "index \<Rightarrow> 'c \<Rightarrow> 'f \<Rightarrow> 'p fallible \<times> 'f"
  fsm_snapshot :: "'f \<Rightarrow> 'n fallible"
  fsm_restore :: "'n \<Rightarrow> 'f \<Rightarrow> unit fallible \<times> 'f"
  fsm_split :: "bytes \<Rightarrow> 'f \<Rightarrow> 'f option \<times> 'f"
  fsm_absorb :: "'f \<Rightarrow> 'f \<Rightarrow> bool \<times> 'f"
  decode_command :: "bytes \<Rightarrow> 'c fallible"
  encode_command :: "'c \<Rightarrow> bytes"
  encode_snapshot_data :: "'n \<Rightarrow> bytes"
  decode_snapshot_data :: "bytes \<Rightarrow> 'n fallible"
  decode_conf_change_v2 :: "bytes \<Rightarrow> 'i conf_change_v2 fallible"
  encode_conf_change_v2 :: "'i conf_change_v2 \<Rightarrow> bytes"
  decode_split_payload :: "bytes \<Rightarrow> split_payload fallible"
  decode_prepare_merge_payload :: "bytes \<Rightarrow> prepare_merge_payload fallible"
  decode_commit_merge_payload :: "bytes \<Rightarrow> commit_merge_payload fallible"
  decode_rollback_merge_payload :: "bytes \<Rightarrow> rollback_merge_payload fallible"
  decode_thaw_discharged_payload :: "bytes \<Rightarrow> thaw_discharged_payload fallible"
  encode_node_id :: "'i \<Rightarrow> bytes"
  buffa_varint_len :: "u64 \<Rightarrow> nat"
  buffa_uint64_encoded_len :: "u64 \<Rightarrow> nat"
  buffa_bytes_encoded_len :: "bytes \<Rightarrow> nat"
  buffa_bool_encoded_len :: nat

section \<open>The parts of the state\<close>

text \<open>What the core owes once a storage write completes.\<close>

datatype 'i Pending =
    CastVote 'i raft_term
  | FollowerAck 'i index
  | LeaderAppend index
  | Campaign raft_term

record 'i durability =
  du_durable_term :: raft_term
  du_last_submitted_term :: raft_term
  du_term_persist_opid :: OpId
  du_durable_commit_index :: index
  du_last_submitted_commit :: index
  du_commit_persist_opid :: OpId
  du_shortcut_gated_snapshot_ack :: "('i \<times> raft_term \<times> index) option"
  du_lease_support_floor :: "duration option"
  du_last_submitted_lease_support :: "duration option"
  du_last_submitted_vote :: "'i option"
  du_durable_lease_support :: "duration option"
  du_lease_support_persist_opid :: OpId
  du_committed_persisted :: index
  du_durable_index :: index
  du_durable_snapshot_index :: index
  du_inflight_append_upto :: "(OpId \<times> index) list"
  du_term_gated_append_ack :: "('i \<times> raft_term \<times> index) option"
  du_term_gated_snapshot_ack :: "('i \<times> raft_term \<times> index) option"
  du_lease_vote_fence_until :: "instant option"

record 'i check_quorum_lease =
  cq_lease_round :: u64
  cq_lease_round_start :: instant
  cq_lease_acks :: "'i btree_set"
  cq_lease_min_support :: duration
  cq_lease_valid_until :: "instant option"

record lease_guard_state =
  lg_commit_wait_until :: "instant option"
  lg_max_lease_window :: u64
  lg_max_wall_plus_window :: u64
  lg_max_unwalled_lease_window :: u64
  lg_inherited_release_deadline :: u64
  lg_unwalled_commit_wait_until :: "instant option"
  lg_precise_releases :: u64
  lg_unprovable_floor_holds :: u64
  lg_unprovable_floor_campaigns :: u64
  lg_limbo_upper :: index
  lg_committed_anchor_wall :: u64
  lg_committed_anchor_window :: u64
  lg_inherited_serve_armed :: bool
  lg_commit_wait_inflated :: bool
  lg_lease_refresh_wanted :: bool
  lg_read_since_anchor :: bool

record poison_state =
  po_poisoned :: bool
  po_poison_reason :: "PoisonReason option"

record 'i transfer_state =
  tf_forced_handoff_this_term :: bool
  tf_forced_handoff_target :: "'i option"
  tf_lead_transferee :: "'i option"
  tf_transfer_deadline :: "instant option"

record 'i snapshot_recv =
  sv_meta :: "'i snapshot_meta"
  sv_total_len :: u64
  sv_contiguous_staged :: u64
  sv_sender_term :: raft_term

record ('i, 'n) snapshot_state =
  ss_snapshot_recv :: "'i snapshot_recv option"
  ss_pending_install :: "(OpId \<times> 'i snapshot_meta \<times> 'n \<times> 'i) option"
  ss_pending_compact :: "(OpId \<times> 'i snapshot_meta) option"
  ss_snapshot_resend_after :: "('i, instant) btree_map"
  ss_unsendable_meta_frames :: u64
  ss_refused_cross_lineage_installs :: u64
  ss_refused_stale_removal_installs :: u64

record ('i, 'p) outputs =
  ou_outgoing :: "'i outgoing list"
  ou_events :: "('i, 'p) event list"

record 'i reads =
  rd_read_only :: "'i read_only"
  rd_active_read_mode :: ReadOnlyOption
  rd_read_mode_migrated :: bool
  rd_pending_reads :: "(bytes \<times> 'i option) list"
  rd_forwarded_reads :: forwarded_reads
  rd_pending_read_mode_index :: index

record cure_debt =
  cd_boundary :: index
  cd_next_at :: "instant option"
  cd_refreshed_at :: instant

record courtesy_debt =
  co_removal_index :: index
  co_offered_index :: "index option"
  co_next_at :: "instant option"
  co_last_seen_term :: "raft_term option"

record farewell_retry =
  fw_matched :: index
  fw_idx :: index
  fw_shots_left :: u8
  fw_next_at :: "instant option"

record 'i pending_fork =
  pf_child_bytes :: bytes
  pf_child_gen :: u64
  pf_parent_gen_after :: u64
  pf_blob :: bytes
  pf_voters :: "'i list"
  pf_read_only :: "ReadOnlyOption option"
  pf_index :: index
  pf_split_term :: raft_term

record ('i, 'f) split_state =
  sl_pending_forks :: "'i pending_fork list"
  sl_forked_fsms :: "'f list"
  sl_outstanding :: "index btree_set"
  sl_abandoned :: "index btree_set"
  sl_shape_gen :: u64
  sl_restored_lineage :: u64
  sl_founding_gen :: u64
  sl_pending_split_index :: index
  sl_pending_split_child :: bytes
  sl_fork_id :: "fork_id option"

definition split_state_new :: "u64 \<Rightarrow> u64 \<Rightarrow> fork_id option \<Rightarrow> ('i, 'f) split_state" where
  "split_state_new lineage founding_gen fork_id =
     \<lparr>sl_pending_forks = [], sl_forked_fsms = [], sl_outstanding = {||}, sl_abandoned = {||},
      sl_shape_gen = lineage, sl_restored_lineage = lineage, sl_founding_gen = founding_gen,
      sl_pending_split_index = 0, sl_pending_split_child = [], sl_fork_id = fork_id\<rparr>"

record pending_merge_apply =
  pa_source_bytes :: bytes
  pa_freeze_index :: index
  pa_freeze_term :: raft_term
  pa_source_gen_after :: u64
  pa_target_gen_after :: u64
  pa_at :: index
  pa_window_closed :: bool

definition pending_merge_new_parked ::
    "bytes \<Rightarrow> index \<Rightarrow> raft_term \<Rightarrow> u64 \<Rightarrow> u64 \<Rightarrow> index \<Rightarrow> pending_merge_apply" where
  "pending_merge_new_parked source_bytes freeze_index freeze_term source_gen_after target_gen_after at_i =
     \<lparr>pa_source_bytes = source_bytes, pa_freeze_index = freeze_index, pa_freeze_term = freeze_term,
      pa_source_gen_after = source_gen_after, pa_target_gen_after = target_gen_after, pa_at = at_i,
      pa_window_closed = False\<rparr>"

datatype AbsorbCaptureBlock = ACB_Clear | ACB_Hold | ACB_Defer

datatype CaptureFence = CF_Frozen | CF_Fork | CF_Abort

datatype ClaimRead = Claim bytes | RefusedCommitted | RefusedAbove index

datatype Cover = Cover_None | Cover_Adopt | Cover_Install

definition cover_rank :: "Cover \<Rightarrow> nat" where
  "cover_rank c = (case c of Cover_None \<Rightarrow> 0 | Cover_Adopt \<Rightarrow> 1 | Cover_Install \<Rightarrow> 2)"

definition cover_max :: "Cover \<Rightarrow> Cover \<Rightarrow> Cover" where
  "cover_max a b = (if cover_rank a > cover_rank b then a else b)"

record abandoned_merge =
  ab_generation :: u64
  ab_abort_index :: index
  ab_cover :: Cover
  ab_discharged :: bool

datatype MergeWindow = MW_Open | MW_Abort | MW_Closed | MW_Stall

record merge_state =
  me_freeze_queue :: "index list"
  me_claim_cache :: "(index, ClaimRead) btree_map"
  me_frozen :: bool
  me_freeze_index :: "index option"
  me_freeze_term :: "raft_term option"
  me_frozen_for :: "bytes option"
  me_pending_apply :: "pending_merge_apply option"
  me_park_unresolvable :: bool
  me_stuck_advert_next_at :: "instant option"
  me_crossings :: "(bytes \<times> index) list"
  me_crossing_scan_upto :: index
  me_crossing_scan_current :: bool
  me_crossing_witnesses :: "((bytes \<times> u64) \<times> index) list"
  me_adopt_capture_owed :: "(bytes \<times> index) option"
  me_capture_debt :: "merged option"
  me_pending_commit_index :: index
  me_pending_rollback_index :: index
  me_thaw_pending_index :: index
  me_witness_pending_index :: index
  me_absorb_index :: "index option"
  me_inherited_debts :: "merged list"
  me_recovery_pins :: "bytes list"
  me_abandoned :: "(bytes, abandoned_merge) btree_map"

definition merge_state_default :: merge_state where
  "merge_state_default =
     \<lparr>me_freeze_queue = [], me_claim_cache = [], me_frozen = False, me_freeze_index = None,
      me_freeze_term = None, me_frozen_for = None, me_pending_apply = None,
      me_park_unresolvable = False, me_stuck_advert_next_at = None, me_crossings = [],
      me_crossing_scan_upto = 0, me_crossing_scan_current = False, me_crossing_witnesses = [],
      me_adopt_capture_owed = None, me_capture_debt = None, me_pending_commit_index = 0,
      me_pending_rollback_index = 0, me_thaw_pending_index = 0, me_witness_pending_index = 0,
      me_absorb_index = None, me_inherited_debts = [], me_recovery_pins = [], me_abandoned = []\<rparr>"

section \<open>The endpoint\<close>

record ('i, 'f, 'n, 'p, 'r) endpoint =
  ep_config :: "'i config"
  ep_fsm :: 'f
  ep_role :: Role
  ep_term :: raft_term
  ep_voted_for :: "'i option"
  ep_leader :: "'i option"
  ep_commit :: index
  ep_applied :: index
  ep_snapshot :: "('i, 'n) snapshot_state"
  ep_rng :: 'r
  ep_votes :: "('i, bool) btree_map"
  ep_election_deadline :: "instant option"
  ep_heartbeat_deadline :: "instant option"
  ep_lease_guard :: lease_guard_state
  ep_cold_read_defers :: u64
  ep_lease_refreshes :: u64
  ep_wall_stamp_degradations :: u64
  ep_outputs :: "('i, 'p) outputs"
  ep_tracker :: "'i tracker"
  ep_next_op_id :: OpId
  ep_pending_log :: "(OpId \<times> 'i Pending) list"
  ep_pending_stable :: "(OpId \<times> 'i Pending) list"
  ep_poison :: poison_state
  ep_durable :: "'i durability"
  ep_pending_conf_index :: index
  ep_reads :: "'i reads"
  ep_split :: "('i, 'f) split_state"
  ep_merge :: merge_state
  ep_check_quorum_lease :: "'i check_quorum_lease"
  ep_transfer :: "'i transfer_state"
  ep_peers_scratch :: "('i \<times> index) list"
  ep_replication_pending :: bool
  ep_term_start_index :: index
  ep_pending_farewells :: "('i, farewell_retry) btree_map"
  ep_courtesy_owed :: "('i, courtesy_debt) btree_map"
  ep_cure_owed :: "('i, cure_debt) btree_map"
  ep_cure_send_gate :: "instant option"
  ep_cure_cursor :: "'i option"
  ep_cure_served :: "('i, instant) btree_map"

end
