(* ===== verification/Lineage.thy ===== *)
theory Lineage
  imports Endpoint_State
begin

text \<open>
  The lineage counter of a group: the reserved band of generations and the admission rules of
  \<^verbatim>\<open>sailing-proto/src/multi/mod.rs\<close>, and the lineage move a log entry names
  (\<^verbatim>\<open>multi/engine/mod.rs\<close>). Every shape move of the log mints its generation with
  \<open>next_lineage\<close> and every admission gate reads the same band.
\<close>

definition MERGED_FLOOR :: u64 where
  "MERGED_FLOOR = u64_max"

definition HIGHEST_WORKING_GENERATION :: u64 where
  "HIGHEST_WORKING_GENERATION = MERGED_FLOOR - 1"

definition generation_is_working :: "u64 \<Rightarrow> bool" where
  "generation_is_working g \<longleftrightarrow> g < HIGHEST_WORKING_GENERATION"

definition floor_admits :: "u64 \<Rightarrow> u64 \<Rightarrow> bool" where
  "floor_admits flr g \<longleftrightarrow> generation_is_working g \<and> g \<ge> flr"

datatype CreateGroupError =
    GroupExists
  | StoredStateBelowFloor u64 u64
  | IncarnationUnrecoverable u64
  | FoundingNeedsStore
  | NodeIdMismatch
  | InvalidGroupId
  | GroupRetired
  | AbsorbPending
  | BelowFloor u64
  | ReservedGeneration
  | SplitReserved
  | InvalidBootEpoch
  | BelowLineageRecord u64
  | NoStoredState
  | StorageInUse

definition validate_working_generation :: "u64 \<Rightarrow> (unit, CreateGroupError) result" where
  "validate_working_generation g = (if generation_is_working g then Ok () else Err ReservedGeneration)"

definition validate_floor :: "u64 \<Rightarrow> u64 \<Rightarrow> (unit, CreateGroupError) result" where
  "validate_floor flr g =
     (if floor_admits flr g then Ok ()
      else if g \<ge> HIGHEST_WORKING_GENERATION \<and> flr \<le> HIGHEST_WORKING_GENERATION
      then Err ReservedGeneration
      else Err (BelowFloor flr))"

definition next_lineage :: "u64 \<Rightarrow> u64 option" where
  "next_lineage g =
     (case checked_add g 1 of
        Some n \<Rightarrow> if n < HIGHEST_WORKING_GENERATION then Some n else None
      | None \<Rightarrow> None)"

datatype ShapeFault = SF_Decode | SF_ReservedGeneration

datatype ShapeMove = NotShape | ValidMove u64 | InvalidMove ShapeFault

definition judged :: "u64 \<Rightarrow> u64 list \<Rightarrow> ShapeMove" where
  "judged own named =
     (if list_all generation_is_working named then ValidMove own
      else InvalidMove SF_ReservedGeneration)"

text \<open>\<^const>\<open>SF_Decode\<close> is what every undecodable payload of a shape kind folds to.\<close>

definition or_decode_fault :: "ShapeMove fallible \<Rightarrow> ShapeMove" where
  "or_decode_fault r = (case r of Ok m \<Rightarrow> m | Err _ \<Rightarrow> InvalidMove SF_Decode)"

definition shape_entry_move :: "('i, 'f, 'c, 'n, 'p, 'r, 'l, 's) env \<Rightarrow> entry \<Rightarrow> ShapeMove" where
  "shape_entry_move E e =
     (case en_kind e of
        EK_Split \<Rightarrow> or_decode_fault (and_then (decode_split_payload E (en_data e))
          (\<lambda>p. Ok (judged (sp_parent_gen_after p) [sp_parent_gen_after p, sp_child_gen p])))
      | EK_PrepareMerge \<Rightarrow> or_decode_fault (and_then (decode_prepare_merge_payload E (en_data e))
          (\<lambda>p. Ok (judged (pm_source_gen_after p) [pm_source_gen_after p])))
      | EK_CommitMerge \<Rightarrow> or_decode_fault (and_then (decode_commit_merge_payload E (en_data e))
          (\<lambda>p. Ok (judged (cm_target_gen_after p) [cm_source_gen_after p, cm_target_gen_after p])))
      | EK_RollbackMerge \<Rightarrow> or_decode_fault (and_then (decode_rollback_merge_payload E (en_data e))
          (\<lambda>p. Ok (judged (if rb_is_unfreeze p then rb_source_gen_after p else rb_target_gen_after p)
                     [rb_source_gen_after p, rb_target_gen_after p])))
      | _ \<Rightarrow> NotShape)"

lemma next_lineage_Some: "next_lineage g = Some n \<longleftrightarrow> n = g + 1 \<and> g < n \<and> generation_is_working n"
  by (auto simp: next_lineage_def checked_add_1 generation_is_working_def inc_gt split: if_splits)

text \<open>A minted generation is admissible at every floor at or below its predecessor's successor, never the fence.\<close>

lemma next_lineage_admitted: "next_lineage g = Some n \<Longrightarrow> flr \<le> n \<Longrightarrow> floor_admits flr n"
  by (auto simp: next_lineage_Some floor_admits_def)

lemma merged_floor_admits_nothing: "\<not> floor_admits MERGED_FLOOR g"
proof -
  have "g < HIGHEST_WORKING_GENERATION \<Longrightarrow> \<not> MERGED_FLOOR \<le> g"
    unfolding HIGHEST_WORKING_GENERATION_def MERGED_FLOOR_def
    using word_order.extremum_unique [of g] by auto
  then show ?thesis by (auto simp: floor_admits_def generation_is_working_def)
qed

text \<open>The reserved verdict covers the top two generations.\<close>

lemma validate_working_generation_Err:
  "validate_working_generation g = Err ReservedGeneration \<longleftrightarrow> g = u64_max - 1 \<or> g = u64_max"
proof -
  have "g < u64_max - 1 \<longleftrightarrow> \<not> (g = u64_max - 1 \<or> g = u64_max)"
  proof -
    have m: "unat u64_max = 18446744073709551615"
      by (simp add: unsigned_minus_1_eq_mask mask_eq_exp_minus_1)
    have b: "unat g < 18446744073709551616" using unsigned_less [of g, where ?'a = nat] by simp
    show ?thesis
      by (simp add: word_less_nat_alt word_unat_eq_iff m) (use b in linarith)
  qed
  then show ?thesis
    by (auto simp: validate_working_generation_def generation_is_working_def
        HIGHEST_WORKING_GENERATION_def MERGED_FLOOR_def)
qed

lemma validate_floor_Ok: "validate_floor flr g = Ok () \<longleftrightarrow> floor_admits flr g"
  by (simp add: validate_floor_def)

end
