(* ===== verification/Endpoint.thy ===== *)
theory Endpoint
  imports Lineage
begin

text \<open>
  The choke-points every handler of the endpoint goes through
  (\<^verbatim>\<open>sailing-proto/src/endpoint/mod.rs\<close>, and the election timer of \<^verbatim>\<open>endpoint/election.rs\<close>):
  construction, sending, polling, poisoning, minting operation ids, reading terms, the stamps of a
  new entry, the leader hint and the timers' deadlines.

  A method of \<^verbatim>\<open>&mut self\<close> is a function that ends with the endpoint and returns the endpoint it
  leaves (paired with its result when it has one). A store a method only reads is an argument; one
  it writes is threaded with the endpoint. Log lines and debug assertions have no counterpart.
\<close>

section \<open>Poison\<close>

definition poison :: "PoisonReason \<Rightarrow> ('i, 'f, 'n, 'p, 'r) endpoint \<Rightarrow> ('i, 'f, 'n, 'p, 'r) endpoint" where
  "poison reason ep =
     ep\<lparr>ep_poison := \<lparr>po_poisoned = True,
          po_poison_reason = (case po_poison_reason (ep_poison ep) of
                                Some r \<Rightarrow> Some r | None \<Rightarrow> Some reason)\<rparr>,
        ep_split := (ep_split ep)\<lparr>sl_fork_id := None\<rparr>\<rparr>"

definition is_poisoned :: "('i, 'f, 'n, 'p, 'r) endpoint \<Rightarrow> bool" where
  "is_poisoned ep = po_poisoned (ep_poison ep)"

definition fail_stop_query_panicked ::
    "('i, 'f, 'n, 'p, 'r) endpoint \<Rightarrow> ('i, 'f, 'n, 'p, 'r) endpoint" where
  "fail_stop_query_panicked ep = poison PR_QueryPanicked ep"

section \<open>Operation ids and log terms\<close>

definition seed_boot_epoch :: "u64 \<Rightarrow> ('i, 'f, 'n, 'p, 'r) endpoint \<Rightarrow> ('i, 'f, 'n, 'p, 'r) endpoint" where
  "seed_boot_epoch boot_epoch ep = ep\<lparr>ep_next_op_id := first_of_epoch boot_epoch\<rparr>"

definition shape_payload_reserves :: "u64 list \<Rightarrow> bool" where
  "shape_payload_reserves gens = list_ex (\<lambda>g. \<not> generation_is_working g) gens"

definition mint_op_id ::
    "('i, 'f, 'n, 'p, 'r) endpoint \<Rightarrow> OpId \<times> ('i, 'f, 'n, 'p, 'r) endpoint" where
  "mint_op_id ep =
     (let opid = ep_next_op_id ep;
          next = opid_next opid;
          ep = (if next = opid then poison PR_OpIdExhausted ep else ep)
      in (opid, ep\<lparr>ep_next_op_id := next\<rparr>))"

definition log_term ::
    "('i, 'f, 'c, 'n, 'p, 'r, 'l, 's) env \<Rightarrow> 'l \<Rightarrow> index \<Rightarrow> ('i, 'f, 'n, 'p, 'r) endpoint \<Rightarrow>
     raft_term option \<times> ('i, 'f, 'n, 'p, 'r) endpoint" where
  "log_term E logs idx ep =
     (case log_read_term E logs idx of
        Ok t \<Rightarrow> (Some t, ep)
      | Err _ \<Rightarrow> (None, poison PR_LogTerm ep))"

definition last_log ::
    "('i, 'f, 'c, 'n, 'p, 'r, 'l, 's) env \<Rightarrow> 'l \<Rightarrow> ('i, 'f, 'n, 'p, 'r) endpoint \<Rightarrow>
     (index \<times> raft_term) option \<times> ('i, 'f, 'n, 'p, 'r) endpoint" where
  "last_log E logs ep =
     (let li = log_last_index E logs
      in if li = 0 then (Some (0, 0), ep)
         else case log_term E logs li ep of
                (Some lt, ep) \<Rightarrow> (Some (li, lt), ep)
              | (None, ep) \<Rightarrow> (None, ep))"

definition next_log_index :: "index \<Rightarrow> index option" where
  "next_log_index last_i =
     (case checked_next last_i of
        Some i \<Rightarrow> if i \<noteq> u64_max then Some i else None
      | None \<Rightarrow> None)"

section \<open>Outputs\<close>

definition send ::
    "'i \<Rightarrow> 'i message \<Rightarrow> ('i, 'f, 'n, 'p, 'r) endpoint \<Rightarrow> ('i, 'f, 'n, 'p, 'r) endpoint" where
  "send to msg ep =
     (if is_poisoned ep then ep
      else ep\<lparr>ep_outputs := (ep_outputs ep)\<lparr>ou_outgoing := ou_outgoing (ep_outputs ep) @ [(to, msg)]\<rparr>\<rparr>)"

definition push_event ::
    "('i, 'p) event \<Rightarrow> ('i, 'f, 'n, 'p, 'r) endpoint \<Rightarrow> ('i, 'f, 'n, 'p, 'r) endpoint" where
  "push_event ev ep =
     ep\<lparr>ep_outputs := (ep_outputs ep)\<lparr>ou_events := ou_events (ep_outputs ep) @ [ev]\<rparr>\<rparr>"

definition poll_message ::
    "('i, 'f, 'n, 'p, 'r) endpoint \<Rightarrow> 'i outgoing option \<times> ('i, 'f, 'n, 'p, 'r) endpoint" where
  "poll_message ep =
     (if is_poisoned ep then (None, ep)
      else case ou_outgoing (ep_outputs ep) of
             [] \<Rightarrow> (None, ep)
           | m # ms \<Rightarrow> (Some m, ep\<lparr>ep_outputs := (ep_outputs ep)\<lparr>ou_outgoing := ms\<rparr>\<rparr>))"

definition poll_event ::
    "('i, 'f, 'n, 'p, 'r) endpoint \<Rightarrow> ('i, 'p) event option \<times> ('i, 'f, 'n, 'p, 'r) endpoint" where
  "poll_event ep =
     (if is_poisoned ep then (None, ep)
      else case ou_events (ep_outputs ep) of
             [] \<Rightarrow> (None, ep)
           | e # es \<Rightarrow> (Some e, ep\<lparr>ep_outputs := (ep_outputs ep)\<lparr>ou_events := es\<rparr>\<rparr>))"

definition set_leader ::
    "'i option \<Rightarrow> ('i, 'f, 'n, 'p, 'r) endpoint \<Rightarrow> ('i, 'f, 'n, 'p, 'r) endpoint" where
  "set_leader leader ep =
     (if ep_leader ep = leader then ep
      else push_event (EvLeaderChanged (ep_term ep) leader)
             (ep\<lparr>ep_leader := leader,
                 ep_reads := (ep_reads ep)\<lparr>rd_forwarded_reads := fr_clear (rd_forwarded_reads (ep_reads ep))\<rparr>\<rparr>))"

section \<open>Timers\<close>

definition deadline_of :: "TimerKind \<Rightarrow> ('i, 'f, 'n, 'p, 'r) endpoint \<Rightarrow> instant option" where
  "deadline_of k ep =
     (case k of
        TK_Election \<Rightarrow> ep_election_deadline ep
      | TK_Heartbeat \<Rightarrow> ep_heartbeat_deadline ep
      | TK_Transfer \<Rightarrow> tf_transfer_deadline (ep_transfer ep)
      | TK_CommitWait \<Rightarrow> lg_commit_wait_until (ep_lease_guard ep))"

definition serviceable_now :: "TimerKind \<Rightarrow> ('i, 'f, 'n, 'p, 'r) endpoint \<Rightarrow> bool" where
  "serviceable_now k ep =
     (if is_poisoned ep then False
      else case k of
        TK_Heartbeat \<Rightarrow> ep_role ep = Leader
      | TK_Election \<Rightarrow>
          if ep_role ep = Leader then cfg_check_quorum (ep_config ep)
          else tr_is_voter (ep_tracker ep) (cfg_id (ep_config ep))
      | TK_Transfer \<Rightarrow> ep_role ep = Leader \<and> tf_lead_transferee (ep_transfer ep) \<noteq> None
      | TK_CommitWait \<Rightarrow> ep_role ep = Leader \<and> lg_commit_wait_until (ep_lease_guard ep) \<noteq> None)"

definition poll_timeout :: "('i, 'f, 'n, 'p, 'r) endpoint \<Rightarrow> instant option" where
  "poll_timeout ep =
     (if is_poisoned ep then None
      else min_by_key (\<lambda>d. d)
             (List.map_filter (\<lambda>k. deadline_of k ep)
                (filter (\<lambda>k. serviceable_now k ep) timer_kind_ALL)))"

text \<open>
  \<^const>\<open>election_timeout\<close> is \<^const>\<open>None\<close> where the Rust duration addition panics; the ceiling that
  configuration validation puts on the election timeout excludes it, and the timer is then left as
  it was.
\<close>

definition arm_election_timer ::
    "('i, 'f, 'c, 'n, 'p, 'r, 'l, 's) env \<Rightarrow> now \<Rightarrow> ('i, 'f, 'n, 'p, 'r) endpoint \<Rightarrow>
     ('i, 'f, 'n, 'p, 'r) endpoint" where
  "arm_election_timer E now ep =
     (case election_timeout (next_u64 E) (ep_rng ep) (cfg_election_timeout (ep_config ep)) of
        Some (t, rng) \<Rightarrow>
          ep\<lparr>ep_rng := rng, ep_election_deadline := Some (instant_add (mono now) t),
             ep_heartbeat_deadline := None\<rparr>
      | None \<Rightarrow> ep)"

definition reconcile_election_timer ::
    "('i, 'f, 'c, 'n, 'p, 'r, 'l, 's) env \<Rightarrow> now \<Rightarrow> ('i, 'f, 'n, 'p, 'r) endpoint \<Rightarrow>
     ('i, 'f, 'n, 'p, 'r) endpoint" where
  "reconcile_election_timer E now ep =
     (if ep_role ep \<noteq> Leader \<and> ep_election_deadline ep = None \<and>
         tr_is_voter (ep_tracker ep) (cfg_id (ep_config ep))
      then arm_election_timer E now ep else ep)"

section \<open>Construction\<close>

definition endpoint_fresh ::
    "'i::linorder config \<Rightarrow> instant \<Rightarrow> 'r \<Rightarrow> 'f \<Rightarrow> ('i, 'f, 'n, 'p, 'r) endpoint" where
  "endpoint_fresh config now_mono rng fsm =
     \<lparr>ep_config = config, ep_fsm = fsm, ep_role = Follower, ep_term = 0, ep_voted_for = None,
      ep_leader = None, ep_commit = 0, ep_applied = 0,
      ep_snapshot =
        \<lparr>ss_snapshot_recv = None, ss_pending_install = None, ss_pending_compact = None,
         ss_snapshot_resend_after = [], ss_unsendable_meta_frames = 0,
         ss_refused_cross_lineage_installs = 0, ss_refused_stale_removal_installs = 0\<rparr>,
      ep_rng = rng, ep_votes = [], ep_election_deadline = None, ep_heartbeat_deadline = None,
      ep_lease_guard =
        \<lparr>lg_commit_wait_until = None, lg_max_lease_window = 0, lg_max_wall_plus_window = 0,
         lg_max_unwalled_lease_window = 0, lg_inherited_release_deadline = 0,
         lg_unwalled_commit_wait_until = None, lg_precise_releases = 0,
         lg_unprovable_floor_holds = 0, lg_unprovable_floor_campaigns = 0, lg_limbo_upper = 0,
         lg_committed_anchor_wall = 0, lg_committed_anchor_window = 0,
         lg_inherited_serve_armed = False, lg_commit_wait_inflated = False,
         lg_lease_refresh_wanted = False, lg_read_since_anchor = False\<rparr>,
      ep_cold_read_defers = 0, ep_lease_refreshes = 0, ep_wall_stamp_degradations = 0,
      ep_outputs = \<lparr>ou_outgoing = [], ou_events = []\<rparr>,
      ep_tracker =
        from_conf_state (cs_from_voters (cfg_voters config)) 0
          (cfg_max_inflight_msgs config) (cfg_max_inflight_bytes config),
      ep_next_op_id = opid_ZERO, ep_pending_log = [], ep_pending_stable = [],
      ep_poison = \<lparr>po_poisoned = False, po_poison_reason = None\<rparr>,
      ep_durable =
        \<lparr>du_durable_term = 0, du_last_submitted_term = 0, du_term_persist_opid = opid_ZERO,
         du_durable_commit_index = 0, du_last_submitted_commit = 0,
         du_commit_persist_opid = opid_ZERO, du_shortcut_gated_snapshot_ack = None,
         du_lease_support_floor = None, du_last_submitted_lease_support = None,
         du_last_submitted_vote = None, du_durable_lease_support = None,
         du_lease_support_persist_opid = opid_ZERO, du_committed_persisted = 0,
         du_durable_index = 0, du_durable_snapshot_index = 0, du_inflight_append_upto = [],
         du_term_gated_append_ack = None, du_term_gated_snapshot_ack = None,
         du_lease_vote_fence_until = None\<rparr>,
      ep_pending_conf_index = 0,
      ep_reads =
        \<lparr>rd_read_only = ro_new (cfg_read_only config),
         rd_active_read_mode = cfg_read_only config, rd_read_mode_migrated = False,
         rd_pending_reads = [], rd_forwarded_reads = fr_new 0, rd_pending_read_mode_index = 0\<rparr>,
      ep_split = split_state_new 0 0 None, ep_merge = merge_state_default,
      ep_check_quorum_lease =
        \<lparr>cq_lease_round = 0, cq_lease_round_start = now_mono, cq_lease_acks = {||},
         cq_lease_min_support = 0, cq_lease_valid_until = None\<rparr>,
      ep_transfer =
        \<lparr>tf_forced_handoff_this_term = False, tf_forced_handoff_target = None,
         tf_lead_transferee = None, tf_transfer_deadline = None\<rparr>,
      ep_peers_scratch = [], ep_replication_pending = False, ep_term_start_index = 0,
      ep_pending_farewells = [], ep_courtesy_owed = [], ep_cure_owed = [],
      ep_cure_send_gate = None, ep_cure_cursor = None, ep_cure_served = []\<rparr>"

definition new_with_rng ::
    "('i::linorder, 'f, 'c, 'n, 'p, 'r, 'l, 's) env \<Rightarrow> 'i config \<Rightarrow> now \<Rightarrow> 'r \<Rightarrow> 'f \<Rightarrow>
     ('i, 'f, 'n, 'p, 'r) endpoint" where
  "new_with_rng E config now rng fsm = arm_election_timer E now (endpoint_fresh config (mono now) rng fsm)"

section \<open>Entry stamps and membership views\<close>

definition lease_stamp :: "instant \<Rightarrow> ('i, 'f, 'n, 'p, 'r) endpoint \<Rightarrow> u64" where
  "lease_stamp now ep =
     (if rd_active_read_mode (ep_reads ep) = LeaseGuard
      then if now < 2 ^ 64 then of_nat now else 0
      else 0)"

definition lease_window_stamp :: "('i, 'f, 'n, 'p, 'r) endpoint \<Rightarrow> u64" where
  "lease_window_stamp ep =
     (case leaseguard_commit_wait_ns (rd_active_read_mode (ep_reads ep)) (ep_config ep) of
        Some w \<Rightarrow> w | None \<Rightarrow> 0)"

definition lease_wall_stamp ::
    "now \<Rightarrow> ('i, 'f, 'n, 'p, 'r) endpoint \<Rightarrow> u64 \<times> ('i, 'f, 'n, 'p, 'r) endpoint" where
  "lease_wall_stamp now ep =
     (if failover_tier_valid (rd_active_read_mode (ep_reads ep)) (ep_config ep)
      then if wall_is_absent (wall now)
           then (0, ep\<lparr>ep_wall_stamp_degradations := saturating_add (ep_wall_stamp_degradations ep) 1\<rparr>)
           else (wall now, ep)
      else (0, ep))"

definition leaseguard_timing ::
    "('i, 'f, 'n, 'p, 'r) endpoint \<Rightarrow> (duration \<times> duration) option" where
  "leaseguard_timing ep =
     (case leaseguard_commit_wait_ns (rd_active_read_mode (ep_reads ep)) (ep_config ep) of
        None \<Rightarrow> None
      | Some _ \<Rightarrow>
          (case (cfg_lease_duration (ep_config ep), cfg_clock_drift_bound (ep_config ep)) of
             (Some delta, Some drift) \<Rightarrow> Some (delta, drift)
           | _ \<Rightarrow> None))"

definition peers :: "('i::linorder, 'f, 'n, 'p, 'r) endpoint \<Rightarrow> 'i list" where
  "peers ep = filter (\<lambda>p. p \<noteq> cfg_id (ep_config ep)) (btree_iter (tr_ids (ep_tracker ep)))"

definition ep_peer_progress ::
    "'i::linorder \<Rightarrow> ('i, 'f, 'n, 'p, 'r) endpoint \<Rightarrow> peer_progress option" where
  "ep_peer_progress peer ep =
     map_option (\<lambda>p. \<lparr>pp_match_index = match_index p, pp_next_index = next_index p,
                     pp_state = pr_state p, pp_paused = is_paused p\<rparr>)
       (progress_of (ep_tracker ep) peer)"

definition has_lagging_peer :: "('i::linorder, 'f, 'n, 'p, 'r) endpoint \<Rightarrow> bool" where
  "has_lagging_peer ep =
     (if ep_role ep \<noteq> Leader then False
      else let me = cfg_id (ep_config ep)
           in case progress_of (ep_tracker ep) me of
                None \<Rightarrow> True
              | Some own \<Rightarrow>
                  list_ex (\<lambda>(peer, p). peer \<noteq> me \<and>
                             (pr_state p \<noteq> Replicate \<or> match_index p < match_index own))
                    (tr_progress (ep_tracker ep)))"

definition has_pending_farewells :: "('i, 'f, 'n, 'p, 'r) endpoint \<Rightarrow> bool" where
  "has_pending_farewells ep \<longleftrightarrow> ep_role ep = Leader \<and> ep_pending_farewells ep \<noteq> []"

definition has_courtesy_debts :: "('i, 'f, 'n, 'p, 'r) endpoint \<Rightarrow> bool" where
  "has_courtesy_debts ep \<longleftrightarrow> ep_role ep = Leader \<and> ep_courtesy_owed ep \<noteq> []"

end
