(* ===== verification/Split.thy ===== *)
theory Split
  imports Endpoint
begin

text \<open>
  The fork side of an endpoint, \<^verbatim>\<open>sailing-proto/src/endpoint/split.rs\<close>: the queue of staged forks
  with their state-machine halves, the barrier of forks whose child is not yet durable, and the
  lineage a group is seeded with.
\<close>

definition peek_pending_fork :: "('i, 'f, 'n, 'p, 'r) endpoint \<Rightarrow> 'i pending_fork option" where
  "peek_pending_fork ep = (case sl_pending_forks (ep_split ep) of [] \<Rightarrow> None | f # _ \<Rightarrow> Some f)"

text \<open>The \<^verbatim>\<open>expect\<close> on the second queue is the \<open>None\<close> of the inner pair.\<close>

definition pop_pending_fork ::
    "('i, 'f, 'n, 'p, 'r) endpoint \<Rightarrow>
     ('i pending_fork \<times> 'f option) option \<times> ('i, 'f, 'n, 'p, 'r) endpoint" where
  "pop_pending_fork ep =
     (case sl_pending_forks (ep_split ep) of
        [] \<Rightarrow> (None, ep)
      | fork # forks \<Rightarrow>
          let ep = ep\<lparr>ep_split := (ep_split ep)\<lparr>sl_pending_forks := forks,
                        sl_abandoned := btree_remove (pf_index fork) (sl_abandoned (ep_split ep))\<rparr>\<rparr>
          in case sl_forked_fsms (ep_split ep) of
               [] \<Rightarrow> (Some (fork, None), ep)
             | fsm # fsms \<Rightarrow>
                 (Some (fork, Some fsm), ep\<lparr>ep_split := (ep_split ep)\<lparr>sl_forked_fsms := fsms\<rparr>\<rparr>))"

definition resolve_fork :: "index \<Rightarrow> ('i, 'f, 'n, 'p, 'r) endpoint \<Rightarrow> ('i, 'f, 'n, 'p, 'r) endpoint" where
  "resolve_fork idx ep =
     ep\<lparr>ep_split := (ep_split ep)\<lparr>sl_outstanding := btree_remove idx (sl_outstanding (ep_split ep))\<rparr>\<rparr>"

definition mark_fork_abandoned ::
    "index \<Rightarrow> ('i, 'f, 'n, 'p, 'r) endpoint \<Rightarrow> ('i, 'f, 'n, 'p, 'r) endpoint" where
  "mark_fork_abandoned idx ep =
     ep\<lparr>ep_split := (ep_split ep)\<lparr>sl_abandoned := finsert idx (sl_abandoned (ep_split ep))\<rparr>\<rparr>"

definition head_fork_is_abandoned :: "('i, 'f, 'n, 'p, 'r) endpoint \<Rightarrow> bool" where
  "head_fork_is_abandoned ep =
     (case sl_pending_forks (ep_split ep) of
        [] \<Rightarrow> False | f # _ \<Rightarrow> pf_index f |\<in>| sl_abandoned (ep_split ep))"

definition fork_barrier_standing :: "('i, 'f, 'n, 'p, 'r) endpoint \<Rightarrow> bool" where
  "fork_barrier_standing ep \<longleftrightarrow> sl_outstanding (ep_split ep) \<noteq> {||}"

definition fork_obligations_standing :: "('i, 'f, 'n, 'p, 'r) endpoint \<Rightarrow> bool" where
  "fork_obligations_standing ep \<longleftrightarrow>
     sl_outstanding (ep_split ep) \<noteq> {||} \<or> sl_pending_forks (ep_split ep) \<noteq> []"

definition note_fork_barrier_rebaselined ::
    "index \<Rightarrow> ('i, 'f, 'n, 'p, 'r) endpoint \<Rightarrow> ('i, 'f, 'n, 'p, 'r) endpoint" where
  "note_fork_barrier_rebaselined boundary ep =
     (let queued = map pf_index (sl_pending_forks (ep_split ep))
      in ep\<lparr>ep_split := (ep_split ep)\<lparr>sl_outstanding :=
               ffilter (\<lambda>i. i > boundary \<or> i \<notin> set queued) (sl_outstanding (ep_split ep))\<rparr>\<rparr>)"

definition seed_lineage :: "u64 \<Rightarrow> ('i, 'f, 'n, 'p, 'r) endpoint \<Rightarrow> ('i, 'f, 'n, 'p, 'r) endpoint" where
  "seed_lineage g ep =
     ep\<lparr>ep_split := (ep_split ep)\<lparr>sl_shape_gen := g, sl_restored_lineage := g, sl_founding_gen := g\<rparr>\<rparr>"

definition split_in_flight :: "('i, 'f, 'n, 'p, 'r) endpoint \<Rightarrow> bool" where
  "split_in_flight ep \<longleftrightarrow> sl_pending_split_index (ep_split ep) > ep_applied ep"

definition split_reserves :: "bytes \<Rightarrow> ('i, 'f, 'n, 'p, 'r) endpoint \<Rightarrow> bool" where
  "split_reserves child_bytes ep \<longleftrightarrow>
     (split_in_flight ep \<and> sl_pending_split_child (ep_split ep) \<noteq> [] \<and>
      sl_pending_split_child (ep_split ep) = child_bytes) \<or>
     list_ex (\<lambda>f. pf_child_bytes f = child_bytes) (sl_pending_forks (ep_split ep))"

text \<open>The smallest outstanding barrier, \<^verbatim>\<open>outstanding.first()\<close>.\<close>

definition fork_barrier_first :: "('i, 'f, 'n, 'p, 'r) endpoint \<Rightarrow> index option" where
  "fork_barrier_first ep =
     (case btree_iter (sl_outstanding (ep_split ep)) of [] \<Rightarrow> None | i # _ \<Rightarrow> Some i)"

section \<open>The two queues advance together\<close>

definition fork_queues_ok :: "('i, 'f, 'n, 'p, 'r) endpoint \<Rightarrow> bool" where
  "fork_queues_ok ep \<longleftrightarrow>
     length (sl_forked_fsms (ep_split ep)) = length (sl_pending_forks (ep_split ep))"

lemma pop_pending_fork_never_panics:
  assumes "fork_queues_ok ep" and "pop_pending_fork ep = (r, ep')"
  shows "fork_queues_ok ep'" and "r = Some (fork, half) \<Longrightarrow> half \<noteq> None"
  using assms
  by (auto simp: pop_pending_fork_def fork_queues_ok_def Let_def split: list.splits)

lemma fork_barrier_first_least:
  "fork_barrier_first ep = Some i \<longleftrightarrow>
     i |\<in>| sl_outstanding (ep_split ep) \<and> (\<forall>j. j |\<in>| sl_outstanding (ep_split ep) \<longrightarrow> i \<le> j)"
proof (cases "btree_iter (sl_outstanding (ep_split ep))")
  case Nil
  then have "sl_outstanding (ep_split ep) = {||}" by (simp add: sorted_list_of_fset.rep_eq bot_fset.rep_eq)
  with Nil show ?thesis by (simp add: fork_barrier_first_def)
next
  case (Cons a as)
  then have "set (a # as) = fset (sl_outstanding (ep_split ep))"
    using set_btree_iter [of "sl_outstanding (ep_split ep)"] by simp
  then have mem: "x |\<in>| sl_outstanding (ep_split ep) \<longleftrightarrow> x = a \<or> x \<in> set as" for x
    by auto
  have "sorted (a # as)"
    using Cons sorted_btree_iter [of "sl_outstanding (ep_split ep)"] by simp
  then show ?thesis
    using Cons by (auto simp: fork_barrier_first_def mem intro: antisym)
qed

end
