(* ===== verification/Merge.thy ===== *)
theory Merge
  imports Split
begin

text \<open>
  The merge side of an endpoint, \<^verbatim>\<open>sailing-proto/src/endpoint/merge.rs\<close>: the queue of appended
  freezes and the claims they carry, the parked absorb and its abort window, the abandoned merges
  a target still owes a thaw, the fences a snapshot capture meets, and the walk of the log above a
  park. The operations that append entries are in the theory of the leader's log.
\<close>

section \<open>Reading one entry\<close>

text \<open>One entry read with a one-megabyte cap, as the coordinate probes of the merge code do.\<close>

definition probe_entry :: "('i, 'f, 'c, 'n, 'p, 'r, 'l, 's) env \<Rightarrow> 'l \<Rightarrow> index \<Rightarrow> entry option" where
  "probe_entry E logs coord =
     (case log_entries E logs coord (counter_next coord) (2 ^ 20) of
        Ok (EntriesReady (e # _)) \<Rightarrow> Some e
      | _ \<Rightarrow> None)"

definition merge_abort_window ::
    "('i, 'f, 'c, 'n, 'p, 'r, 'l, 's) env \<Rightarrow> 'l \<Rightarrow> ('i, 'f, 'n, 'p, 'r) endpoint \<Rightarrow> MergeWindow" where
  "merge_abort_window E logs ep =
     (case me_pending_apply (ep_merge ep) of
        None \<Rightarrow> MW_Stall
      | Some pend \<Rightarrow>
          let coord = counter_next (pa_at pend)
          in if ep_commit ep < coord then MW_Open
             else case probe_entry E logs coord of
                    None \<Rightarrow> MW_Stall
                  | Some e \<Rightarrow>
                      if en_kind e \<noteq> EK_RollbackMerge then MW_Closed
                      else case decode_rollback_merge_payload E (en_data e) of
                             Ok p \<Rightarrow>
                               if \<not> rb_is_unfreeze p \<and> rb_source_bytes p = pa_source_bytes pend \<and>
                                  rb_source_gen_after p = pa_source_gen_after pend
                               then MW_Abort else MW_Closed
                           | Err _ \<Rightarrow> MW_Closed)"

definition pending_commit_source ::
    "('i, 'f, 'c, 'n, 'p, 'r, 'l, 's) env \<Rightarrow> 'l \<Rightarrow> ('i, 'f, 'n, 'p, 'r) endpoint \<Rightarrow>
     (bytes \<times> u64) option" where
  "pending_commit_source E logs ep =
     (case probe_entry E logs (me_pending_commit_index (ep_merge ep)) of
        None \<Rightarrow> None
      | Some e \<Rightarrow>
          if en_kind e \<noteq> EK_CommitMerge then None
          else case decode_commit_merge_payload E (en_data e) of
                 Ok p \<Rightarrow> Some (cm_source_bytes p, cm_source_gen_after p)
               | Err _ \<Rightarrow> None)"

section \<open>Freezes\<close>

definition latch_merge_window_closed ::
    "('i, 'f, 'n, 'p, 'r) endpoint \<Rightarrow> ('i, 'f, 'n, 'p, 'r) endpoint" where
  "latch_merge_window_closed ep =
     ep\<lparr>ep_merge := (ep_merge ep)\<lparr>me_pending_apply :=
          map_option (\<lambda>p. p\<lparr>pa_window_closed := True\<rparr>) (me_pending_apply (ep_merge ep))\<rparr>\<rparr>"

definition freeze_pending :: "('i, 'f, 'n, 'p, 'r) endpoint \<Rightarrow> index option" where
  "freeze_pending ep = (case me_freeze_queue (ep_merge ep) of [] \<Rightarrow> None | i # _ \<Rightarrow> Some i)"

fun pop_freezes :: "index \<Rightarrow> index list \<Rightarrow> (index, ClaimRead) btree_map \<Rightarrow>
    index list \<times> (index, ClaimRead) btree_map" where
  "pop_freezes idx [] cache = ([], cache)"
| "pop_freezes idx (popped # q) cache =
     (if popped > idx then (popped # q, cache) else pop_freezes idx q (AList.delete popped cache))"

definition pop_applied_freeze ::
    "index \<Rightarrow> ('i, 'f, 'n, 'p, 'r) endpoint \<Rightarrow> ('i, 'f, 'n, 'p, 'r) endpoint" where
  "pop_applied_freeze idx ep =
     (let (q, cache) = pop_freezes idx (me_freeze_queue (ep_merge ep)) (me_claim_cache (ep_merge ep))
      in ep\<lparr>ep_merge := (ep_merge ep)\<lparr>me_freeze_queue := q, me_claim_cache := cache\<rparr>\<rparr>)"

definition clear_freeze_queue ::
    "('i, 'f, 'n, 'p, 'r) endpoint \<Rightarrow> ('i, 'f, 'n, 'p, 'r) endpoint" where
  "clear_freeze_queue ep =
     ep\<lparr>ep_merge := (ep_merge ep)\<lparr>me_freeze_queue := [], me_claim_cache := []\<rparr>\<rparr>"

definition merge_freeze_active :: "('i, 'f, 'n, 'p, 'r) endpoint \<Rightarrow> bool" where
  "merge_freeze_active ep \<longleftrightarrow> me_freeze_queue (ep_merge ep) \<noteq> [] \<or> me_frozen (ep_merge ep)"

definition note_freeze_appended ::
    "index \<Rightarrow> ('i, 'f, 'n, 'p, 'r) endpoint \<Rightarrow> ('i, 'f, 'n, 'p, 'r) endpoint" where
  "note_freeze_appended idx ep =
     (let q = me_freeze_queue (ep_merge ep);
          q = (if q = [] \<or> List.last q < idx then q @ [idx] else q)
      in ep\<lparr>ep_merge := (ep_merge ep)\<lparr>me_freeze_queue := q,
               me_claim_cache := AList.delete idx (me_claim_cache (ep_merge ep))\<rparr>\<rparr>)"

definition note_freeze_truncated ::
    "index \<Rightarrow> ('i, 'f, 'n, 'p, 'r) endpoint \<Rightarrow> ('i, 'f, 'n, 'p, 'r) endpoint" where
  "note_freeze_truncated truncate_from ep =
     ep\<lparr>ep_merge := (ep_merge ep)\<lparr>
          me_freeze_queue := rev (dropWhile (\<lambda>b. b \<ge> truncate_from) (rev (me_freeze_queue (ep_merge ep)))),
          me_claim_cache := filter (\<lambda>(i, _). i < truncate_from) (me_claim_cache (ep_merge ep))\<rparr>\<rparr>"

definition note_freeze_rebaselined ::
    "('i, 'f, 'n, 'p, 'r) endpoint \<Rightarrow> ('i, 'f, 'n, 'p, 'r) endpoint" where
  "note_freeze_rebaselined ep =
     ep\<lparr>ep_merge := (ep_merge ep)\<lparr>me_freeze_queue := [], me_claim_cache := []\<rparr>\<rparr>"

section \<open>Abandoned merges\<close>

definition ab_is_covered :: "abandoned_merge \<Rightarrow> bool" where
  "ab_is_covered m \<longleftrightarrow> ab_cover m \<noteq> Cover_None"

definition owes_live_thaw :: "('i, 'f, 'n, 'p, 'r) endpoint \<Rightarrow> bool" where
  "owes_live_thaw ep = list_ex (\<lambda>(_, m). \<not> ab_discharged m) (me_abandoned (ep_merge ep))"

definition holds_witness_debt :: "('i, 'f, 'n, 'p, 'r) endpoint \<Rightarrow> bool" where
  "holds_witness_debt ep = list_ex (\<lambda>(_, m). ab_discharged m) (me_abandoned (ep_merge ep))"

definition live_obligations :: "('i, 'f, 'n, 'p, 'r) endpoint \<Rightarrow> (bytes \<times> abandoned_merge) list" where
  "live_obligations ep = filter (\<lambda>(_, m). \<not> ab_discharged m) (me_abandoned (ep_merge ep))"

definition abandoned_matches :: "bytes \<Rightarrow> u64 \<Rightarrow> ('i, 'f, 'n, 'p, 'r) endpoint \<Rightarrow> bool" where
  "abandoned_matches source g ep =
     (case map_of (me_abandoned (ep_merge ep)) source of
        Some m \<Rightarrow> ab_generation m = g | None \<Rightarrow> False)"

definition note_abandoned ::
    "bytes \<Rightarrow> u64 \<Rightarrow> index \<Rightarrow> ('i, 'f, 'n, 'p, 'r) endpoint \<Rightarrow> ('i, 'f, 'n, 'p, 'r) endpoint" where
  "note_abandoned source_bytes source_gen_after at_i ep =
     ep\<lparr>ep_merge := (ep_merge ep)\<lparr>me_abandoned :=
          bm_insert source_bytes
            \<lparr>ab_generation = source_gen_after, ab_abort_index = at_i, ab_cover = Cover_None,
             ab_discharged = False\<rparr> (me_abandoned (ep_merge ep))\<rparr>\<rparr>"

definition note_discharged ::
    "bytes \<Rightarrow> ('i, 'f, 'n, 'p, 'r) endpoint \<Rightarrow> ('i, 'f, 'n, 'p, 'r) endpoint" where
  "note_discharged source ep =
     ep\<lparr>ep_merge := (ep_merge ep)\<lparr>me_abandoned :=
          bm_update source (\<lambda>m. m\<lparr>ab_discharged := True\<rparr>) (me_abandoned (ep_merge ep))\<rparr>\<rparr>"

definition clear_abandoned ::
    "bytes \<Rightarrow> ('i, 'f, 'n, 'p, 'r) endpoint \<Rightarrow> ('i, 'f, 'n, 'p, 'r) endpoint" where
  "clear_abandoned source ep =
     ep\<lparr>ep_merge := (ep_merge ep)\<lparr>me_abandoned := AList.delete source (me_abandoned (ep_merge ep))\<rparr>\<rparr>"

definition owes_live_thaw_for :: "bytes \<Rightarrow> ('i, 'f, 'n, 'p, 'r) endpoint \<Rightarrow> u64 option" where
  "owes_live_thaw_for source ep =
     (case map_of (me_abandoned (ep_merge ep)) source of
        Some m \<Rightarrow> if ab_discharged m then None else Some (ab_generation m)
      | None \<Rightarrow> None)"

definition note_abort_covered ::
    "index \<Rightarrow> Cover \<Rightarrow> ('i, 'f, 'n, 'p, 'r) endpoint \<Rightarrow> ('i, 'f, 'n, 'p, 'r) endpoint" where
  "note_abort_covered boundary cover ep =
     ep\<lparr>ep_merge := (ep_merge ep)\<lparr>me_abandoned :=
          map (\<lambda>(s, m). (s, if ab_abort_index m \<le> boundary
                            then m\<lparr>ab_cover := cover_max (ab_cover m) cover\<rparr> else m))
            (me_abandoned (ep_merge ep))\<rparr>\<rparr>"

section \<open>Scanning the log for freezes and their claims\<close>

text \<open>
  The restart scan reads batch after batch until it passes the end of the log. The recursion is on
  a bound of the batches still to read; \<open>None\<close> is that bound exhausted, which
  \<open>scan_freeze_loop_returns\<close> of the theory of the log stores excludes for a store whose batches
  start where they are asked to.
\<close>

fun scan_freeze_loop ::
    "('i, 'f, 'c, 'n, 'p, 'r, 'l, 's) env \<Rightarrow> 'l \<Rightarrow> index \<Rightarrow> nat \<Rightarrow> index \<Rightarrow> index list \<Rightarrow>
     (index list, PoisonReason) result option" where
  "scan_freeze_loop E logs last_i 0 idx queue = (if idx \<le> last_i then None else Some (Ok queue))"
| "scan_freeze_loop E logs last_i (Suc fuel) idx queue =
     (if idx \<le> last_i
      then let read_end = min (counter_next last_i) (saturating_add idx MAX_READ_BATCH_ENTRIES)
           in case log_entries E logs idx read_end (2 ^ 20) of
                Ok (EntriesReady (e # es)) \<Rightarrow>
                  scan_freeze_loop E logs last_i fuel (counter_next (en_index (List.last (e # es))))
                    (queue @ map en_index (filter (\<lambda>e. en_kind e = EK_PrepareMerge) (e # es)))
              | _ \<Rightarrow> Some (Err PR_LogRead)
      else Some (Ok queue))"

definition scan_freeze_pending ::
    "('i, 'f, 'c, 'n, 'p, 'r, 'l, 's) env \<Rightarrow> 'l \<Rightarrow> index \<Rightarrow> (index list, PoisonReason) result option" where
  "scan_freeze_pending E logs applied =
     (let last_i = log_last_index E logs; idx = counter_next applied
      in scan_freeze_loop E logs last_i (Suc (unat last_i) - unat idx) idx [])"

definition read_claim ::
    "('i, 'f, 'c, 'n, 'p, 'r, 'l, 's) env \<Rightarrow> 'l \<Rightarrow> index \<Rightarrow> index \<Rightarrow> (ClaimRead, PoisonReason) result" where
  "read_claim E logs idx commit =
     (case log_entries E logs idx (counter_next idx) (2 ^ 20) of
        Ok (EntriesReady (c # cs)) \<Rightarrow>
          (case List.find (\<lambda>e. en_index e = idx \<and> en_kind e = EK_PrepareMerge) (c # cs) of
             None \<Rightarrow> Err PR_LogRead
           | Some e \<Rightarrow>
               (case shape_entry_move E e of
                  ValidMove _ \<Rightarrow>
                    (case decode_prepare_merge_payload E (en_data e) of
                       Ok p \<Rightarrow> Ok (Claim (pm_target_bytes p))
                     | Err _ \<Rightarrow> Err PR_LogRead)
                | _ \<Rightarrow> if idx \<le> commit then Ok RefusedCommitted else Ok (RefusedAbove commit)))
      | _ \<Rightarrow> Err PR_LogRead)"

definition cached_claim :: "index \<Rightarrow> index \<Rightarrow> (index, ClaimRead) btree_map \<Rightarrow> ClaimRead option" where
  "cached_claim commit idx cache =
     (case map_of cache idx of
        Some (RefusedAbove judged_at) \<Rightarrow> if commit \<ge> idx then None else Some (RefusedAbove judged_at)
      | cached \<Rightarrow> cached)"

fun scan_claims_loop ::
    "('i, 'f, 'c, 'n, 'p, 'r, 'l, 's) env \<Rightarrow> 'l \<Rightarrow> index \<Rightarrow> index list \<Rightarrow> bytes list \<Rightarrow>
     (index, ClaimRead) btree_map \<Rightarrow> (bytes list, PoisonReason) result \<times> (index, ClaimRead) btree_map" where
  "scan_claims_loop E logs commit [] claims cache = (Ok claims, cache)"
| "scan_claims_loop E logs commit (idx # queued) claims cache =
     (case (case cached_claim commit idx cache of
              Some verdict \<Rightarrow> (Ok verdict, cache)
            | None \<Rightarrow>
                (case read_claim E logs idx commit of
                   Ok verdict \<Rightarrow> (Ok verdict, bm_insert idx verdict cache)
                 | Err r \<Rightarrow> (Err r, cache))) of
        (Err r, cache) \<Rightarrow> (Err r, cache)
      | (Ok (Claim claim), cache) \<Rightarrow> scan_claims_loop E logs commit queued (claims @ [claim]) cache
      | (Ok RefusedCommitted, cache) \<Rightarrow> (Ok claims, cache)
      | (Ok (RefusedAbove _), cache) \<Rightarrow> (Err PR_MergeDecode, cache))"

definition scan_freeze_claims ::
    "('i, 'f, 'c, 'n, 'p, 'r, 'l, 's) env \<Rightarrow> 'l \<Rightarrow> ('i, 'f, 'n, 'p, 'r) endpoint \<Rightarrow>
     (bytes list, PoisonReason) result \<times> ('i, 'f, 'n, 'p, 'r) endpoint" where
  "scan_freeze_claims E logs ep =
     (let (r, cache) = scan_claims_loop E logs (ep_commit ep) (me_freeze_queue (ep_merge ep)) []
                         (me_claim_cache (ep_merge ep))
      in (r, ep\<lparr>ep_merge := (ep_merge ep)\<lparr>me_claim_cache := cache\<rparr>\<rparr>))"

section \<open>Fences of a snapshot capture\<close>

definition abort_fence_source_at :: "index \<Rightarrow> ('i, 'f, 'n, 'p, 'r) endpoint \<Rightarrow> bytes option" where
  "abort_fence_source_at boundary ep =
     map_option fst
       (List.find (\<lambda>(_, m). ab_cover m \<noteq> Cover_Install \<and> ab_abort_index m \<le> boundary)
          (me_abandoned (ep_merge ep)))"

definition abort_relay_fences :: "index \<Rightarrow> ('i, 'f, 'n, 'p, 'r) endpoint \<Rightarrow> bool" where
  "abort_relay_fences boundary ep \<longleftrightarrow> abort_fence_source_at boundary ep \<noteq> None"

definition reached :: "index option \<Rightarrow> index \<Rightarrow> bool" where
  "reached c boundary \<longleftrightarrow> (case c of Some i \<Rightarrow> i \<le> boundary | None \<Rightarrow> False)"

definition capture_blocked_at :: "index \<Rightarrow> ('i, 'f, 'n, 'p, 'r) endpoint \<Rightarrow> bool" where
  "capture_blocked_at boundary ep \<longleftrightarrow>
     ss_pending_compact (ep_snapshot ep) \<noteq> None \<or>
     ss_pending_install (ep_snapshot ep) \<noteq> None \<or>
     reached (fork_barrier_first ep) boundary \<or>
     abort_relay_fences boundary ep \<or>
     me_frozen (ep_merge ep) \<or>
     reached (freeze_pending ep) boundary"

definition capture_fence_at :: "index \<Rightarrow> ('i, 'f, 'n, 'p, 'r) endpoint \<Rightarrow> CaptureFence option" where
  "capture_fence_at boundary ep =
     (if me_frozen (ep_merge ep) \<or> reached (freeze_pending ep) boundary then Some CF_Frozen
      else if reached (fork_barrier_first ep) boundary then Some CF_Fork
      else if abort_relay_fences boundary ep then Some CF_Abort
      else None)"

definition absorb_capture_block :: "('i, 'f, 'n, 'p, 'r) endpoint \<Rightarrow> AbsorbCaptureBlock" where
  "absorb_capture_block ep =
     (case me_pending_apply (ep_merge ep) of
        None \<Rightarrow> ACB_Clear
      | Some pend \<Rightarrow>
          if me_capture_debt (ep_merge ep) \<noteq> None then ACB_Hold
          else if ss_pending_compact (ep_snapshot ep) \<noteq> None \<or>
                  ss_pending_install (ep_snapshot ep) \<noteq> None \<or>
                  me_frozen (ep_merge ep) \<or> reached (freeze_pending ep) (pa_at pend)
          then ACB_Hold
          else if reached (fork_barrier_first ep) (pa_at pend) \<or> abort_relay_fences (pa_at pend) ep
          then ACB_Defer
          else ACB_Clear)"

definition absorb_capture_blocked :: "('i, 'f, 'n, 'p, 'r) endpoint \<Rightarrow> bool" where
  "absorb_capture_blocked ep \<longleftrightarrow> absorb_capture_block ep \<noteq> ACB_Clear"

text \<open>The agreement the source asserts between the two verdicts at a park that owes no capture.\<close>

lemma absorb_capture_block_agrees:
  assumes "me_pending_apply (ep_merge ep) = Some pend" and "me_capture_debt (ep_merge ep) = None"
  shows "absorb_capture_block ep = ACB_Clear \<longleftrightarrow> \<not> capture_blocked_at (pa_at pend) ep"
  using assms by (auto simp: absorb_capture_block_def capture_blocked_at_def)

section \<open>Capture debts\<close>

definition clear_adopt_capture_owed ::
    "('i, 'f, 'n, 'p, 'r) endpoint \<Rightarrow> ('i, 'f, 'n, 'p, 'r) endpoint" where
  "clear_adopt_capture_owed ep = ep\<lparr>ep_merge := (ep_merge ep)\<lparr>me_adopt_capture_owed := None\<rparr>\<rparr>"

definition has_cure_debts :: "('i, 'f, 'n, 'p, 'r) endpoint \<Rightarrow> bool" where
  "has_cure_debts ep \<longleftrightarrow> ep_cure_owed ep \<noteq> []"

definition capture_debt_chain :: "('i, 'f, 'n, 'p, 'r) endpoint \<Rightarrow> merged list" where
  "capture_debt_chain ep =
     (case me_capture_debt (ep_merge ep) of Some m \<Rightarrow> [m] | None \<Rightarrow> []) @ me_inherited_debts (ep_merge ep)"

definition debt_names_source :: "bytes \<Rightarrow> ('i, 'f, 'n, 'p, 'r) endpoint \<Rightarrow> bool" where
  "debt_names_source key ep \<longleftrightarrow>
     list_ex (\<lambda>m. mg_source m = key) (capture_debt_chain ep) \<or>
     list_ex (\<lambda>p. p = key) (me_recovery_pins (ep_merge ep))"

definition pin_failed_capture ::
    "bytes list \<Rightarrow> ('i, 'f, 'n, 'p, 'r) endpoint \<Rightarrow> ('i, 'f, 'n, 'p, 'r) endpoint" where
  "pin_failed_capture sources ep =
     ep\<lparr>ep_merge := (ep_merge ep)\<lparr>me_recovery_pins := me_recovery_pins (ep_merge ep) @ sources\<rparr>\<rparr>"

definition take_capture_debts ::
    "('i, 'f, 'n, 'p, 'r) endpoint \<Rightarrow> merged list \<times> ('i, 'f, 'n, 'p, 'r) endpoint" where
  "take_capture_debts ep =
     (capture_debt_chain ep,
      ep\<lparr>ep_merge := (ep_merge ep)\<lparr>me_capture_debt := None, me_inherited_debts := []\<rparr>\<rparr>)"

definition adopt_inherited_debts ::
    "merged list \<Rightarrow> ('i, 'f, 'n, 'p, 'r) endpoint \<Rightarrow> ('i, 'f, 'n, 'p, 'r) endpoint" where
  "adopt_inherited_debts debts ep =
     ep\<lparr>ep_merge := (ep_merge ep)\<lparr>me_inherited_debts := me_inherited_debts (ep_merge ep) @ debts\<rparr>\<rparr>"

definition take_inherited_debts ::
    "('i, 'f, 'n, 'p, 'r) endpoint \<Rightarrow> merged list \<times> ('i, 'f, 'n, 'p, 'r) endpoint" where
  "take_inherited_debts ep =
     (me_inherited_debts (ep_merge ep), ep\<lparr>ep_merge := (ep_merge ep)\<lparr>me_inherited_debts := []\<rparr>\<rparr>)"

definition note_debts_rebaselined ::
    "('i, 'f, 'n, 'p, 'r) endpoint \<Rightarrow> ('i, 'f, 'n, 'p, 'r) endpoint" where
  "note_debts_rebaselined ep =
     ep\<lparr>ep_merge := (ep_merge ep)\<lparr>me_capture_debt := None, me_inherited_debts := []\<rparr>\<rparr>"

definition durable_snapshot_covers :: "index \<Rightarrow> ('i, 'f, 'n, 'p, 'r) endpoint \<Rightarrow> bool" where
  "durable_snapshot_covers boundary ep \<longleftrightarrow> du_durable_snapshot_index (ep_durable ep) \<ge> boundary"

definition pending_compact_boundary :: "('i, 'f, 'n, 'p, 'r) endpoint \<Rightarrow> index option" where
  "pending_compact_boundary ep =
     map_option (\<lambda>(_, meta). sm_last_index meta) (ss_pending_compact (ep_snapshot ep))"

definition mint_capture_debt ::
    "merged \<Rightarrow> ('i, 'f, 'n, 'p, 'r) endpoint \<Rightarrow> ('i, 'f, 'n, 'p, 'r) endpoint" where
  "mint_capture_debt m ep = ep\<lparr>ep_merge := (ep_merge ep)\<lparr>me_capture_debt := Some m\<rparr>\<rparr>"

definition discharge_capture_debt ::
    "('i, 'f, 'n, 'p, 'r) endpoint \<Rightarrow> merged option \<times> ('i, 'f, 'n, 'p, 'r) endpoint" where
  "discharge_capture_debt ep =
     (me_capture_debt (ep_merge ep), ep\<lparr>ep_merge := (ep_merge ep)\<lparr>me_capture_debt := None\<rparr>\<rparr>)"

section \<open>The walk above a park\<close>

definition set_crossing_current ::
    "bool \<Rightarrow> ('i, 'f, 'n, 'p, 'r) endpoint \<Rightarrow> ('i, 'f, 'n, 'p, 'r) endpoint" where
  "set_crossing_current b ep = ep\<lparr>ep_merge := (ep_merge ep)\<lparr>me_crossing_scan_current := b\<rparr>\<rparr>"

fun crossing_entries ::
    "('i, 'f, 'c, 'n, 'p, 'r, 'l, 's) env \<Rightarrow> entry list \<Rightarrow> ('i, 'f, 'n, 'p, 'r) endpoint \<Rightarrow>
     bool \<times> ('i, 'f, 'n, 'p, 'r) endpoint" where
  "crossing_entries E [] ep = (True, ep)"
| "crossing_entries E (e # es) ep =
     (case en_kind e of
        EK_CommitMerge \<Rightarrow>
          (case decode_commit_merge_payload E (en_data e) of
             Ok p \<Rightarrow>
               crossing_entries E es
                 (ep\<lparr>ep_merge := (ep_merge ep)\<lparr>me_crossings :=
                      me_crossings (ep_merge ep) @ [(cm_source_bytes p, en_index e)]\<rparr>\<rparr>)
           | Err _ \<Rightarrow> (False, poison PR_MergeDecode (set_crossing_current False ep)))
      | EK_ThawDischarged \<Rightarrow>
          (case decode_thaw_discharged_payload E (en_data e) of
             Ok p \<Rightarrow>
               let key = (td_source_bytes p, td_generation p); ws = me_crossing_witnesses (ep_merge ep)
               in crossing_entries E es
                    (if abandoned_matches (td_source_bytes p) (td_generation p) ep \<and> \<not> bm_contains ws key
                     then ep\<lparr>ep_merge := (ep_merge ep)\<lparr>me_crossing_witnesses := bm_insert key (en_index e) ws\<rparr>\<rparr>
                     else ep)
           | Err _ \<Rightarrow> (False, poison PR_MergeDecode (set_crossing_current False ep)))
      | _ \<Rightarrow> crossing_entries E es ep)"

text \<open>The budget of chunks per call bounds the loop.\<close>

fun crossing_scan ::
    "('i, 'f, 'c, 'n, 'p, 'r, 'l, 's) env \<Rightarrow> 'l \<Rightarrow> index \<Rightarrow> nat \<Rightarrow> index \<Rightarrow>
     ('i, 'f, 'n, 'p, 'r) endpoint \<Rightarrow> ('i, 'f, 'n, 'p, 'r) endpoint" where
  "crossing_scan E logs last_i 0 idx ep = set_crossing_current (\<not> idx \<le> last_i) ep"
| "crossing_scan E logs last_i (Suc chunks) idx ep =
     (if idx \<le> last_i
      then let read_end = min (counter_next last_i) (saturating_add idx MAX_READ_BATCH_ENTRIES)
           in case log_entries E logs idx read_end (2 ^ 20) of
                Ok (EntriesReady (e # es)) \<Rightarrow>
                  (case crossing_entries E (e # es) ep of
                     (False, ep) \<Rightarrow> ep
                   | (True, ep) \<Rightarrow>
                       let upto_i = en_index (List.last (e # es))
                       in crossing_scan E logs last_i chunks (counter_next upto_i)
                            (ep\<lparr>ep_merge := (ep_merge ep)\<lparr>me_crossing_scan_upto := upto_i\<rparr>\<rparr>))
              | Ok _ \<Rightarrow> set_crossing_current False ep
              | Err _ \<Rightarrow> poison PR_LogRead (set_crossing_current False ep)
      else set_crossing_current True ep)"

definition advance_crossing_scan ::
    "('i, 'f, 'c, 'n, 'p, 'r, 'l, 's) env \<Rightarrow> 'l \<Rightarrow> ('i, 'f, 'n, 'p, 'r) endpoint \<Rightarrow>
     ('i, 'f, 'n, 'p, 'r) endpoint" where
  "advance_crossing_scan E logs ep =
     (case me_pending_apply (ep_merge ep) of
        None \<Rightarrow> ep
      | Some pend \<Rightarrow>
          crossing_scan E logs (min (log_last_index E logs) (ep_commit ep))
            CROSSING_SCAN_CHUNKS_PER_CRANK
            (counter_next (max (me_crossing_scan_upto (ep_merge ep)) (pa_at pend))) ep)"

definition crossing_walk_covers :: "index \<Rightarrow> ('i, 'f, 'n, 'p, 'r) endpoint \<Rightarrow> bool" where
  "crossing_walk_covers boundary ep \<longleftrightarrow>
     me_crossing_scan_current (ep_merge ep) \<and>
     boundary \<le> max (me_crossing_scan_upto (ep_merge ep))
                  (case me_pending_apply (ep_merge ep) of Some p \<Rightarrow> pa_at p | None \<Rightarrow> 0)"

text \<open>
  \<^verbatim>\<open>partition_point\<close> is a binary search on a list sorted by the absorb index, which the walk keeps:
  the prefix it cuts off is the longest one that satisfies the predicate.
\<close>

definition crossing_absorb_at :: "index \<Rightarrow> ('i, 'f, 'n, 'p, 'r) endpoint \<Rightarrow> index option" where
  "crossing_absorb_at boundary ep =
     (if \<not> crossing_walk_covers boundary ep then None
      else case takeWhile (\<lambda>(_, absorb). absorb \<le> boundary) (me_crossings (ep_merge ep)) of
             [] \<Rightarrow> None
           | c # cs \<Rightarrow> Some (snd (List.last (c # cs))))"

definition merge_park_unresolvable :: "('i, 'f, 'n, 'p, 'r) endpoint \<Rightarrow> index option" where
  "merge_park_unresolvable ep =
     (if me_park_unresolvable (ep_merge ep)
      then map_option pa_at (me_pending_apply (ep_merge ep)) else None)"

definition note_merge_park_unresolvable ::
    "bool \<Rightarrow> ('i, 'f, 'n, 'p, 'r) endpoint \<Rightarrow> ('i, 'f, 'n, 'p, 'r) endpoint" where
  "note_merge_park_unresolvable unresolvable ep =
     ep\<lparr>ep_merge := (ep_merge ep)\<lparr>me_park_unresolvable := unresolvable\<rparr>\<rparr>"

section \<open>Resolving a parked absorb\<close>

definition clear_crossings :: "merge_state \<Rightarrow> merge_state" where
  "clear_crossings m =
     m\<lparr>me_crossings := [], me_crossing_scan_upto := 0, me_crossing_scan_current := False,
       me_crossing_witnesses := []\<rparr>"

definition resolve_pending_merge ::
    "('i, 'f, 'c, 'n, 'p, 'r, 'l, 's) env \<Rightarrow> 'f \<Rightarrow> ('i, 'f, 'n, 'p, 'r) endpoint \<Rightarrow>
     merged option \<times> ('i, 'f, 'n, 'p, 'r) endpoint" where
  "resolve_pending_merge E source_fsm ep =
     (case me_pending_apply (ep_merge ep) of
        None \<Rightarrow> (None, ep)
      | Some pend \<Rightarrow>
          let ep = ep\<lparr>ep_merge := clear_crossings ((ep_merge ep)\<lparr>me_pending_apply := None\<rparr>)\<rparr>;
              (absorbed, fsm) = fsm_absorb E source_fsm (ep_fsm ep);
              ep = ep\<lparr>ep_fsm := fsm\<rparr>
          in if \<not> absorbed then (None, poison PR_MergeUnsupported ep)
             else let ep = ep\<lparr>ep_applied := pa_at pend,
                              ep_split := (ep_split ep)\<lparr>sl_shape_gen :=
                                 max (sl_shape_gen (ep_split ep)) (pa_target_gen_after pend)\<rparr>,
                              ep_merge := (ep_merge ep)\<lparr>me_absorb_index := Some (pa_at pend)\<rparr>\<rparr>
                  in (Some \<lparr>mg_index = pa_at pend, mg_source = pa_source_bytes pend,
                            mg_gen_after = sl_shape_gen (ep_split ep)\<rparr>, ep))"

definition emit_merged ::
    "merged \<Rightarrow> ('i, 'f, 'n, 'p, 'r) endpoint \<Rightarrow> ('i, 'f, 'n, 'p, 'r) endpoint" where
  "emit_merged m ep = push_event (EvMerged m) ep"

definition resolve_pending_merge_aborted ::
    "('i, 'f, 'n, 'p, 'r) endpoint \<Rightarrow> ('i, 'f, 'n, 'p, 'r) endpoint" where
  "resolve_pending_merge_aborted ep =
     (case me_pending_apply (ep_merge ep) of
        None \<Rightarrow> ep
      | Some pend \<Rightarrow>
          push_event (EvMergeAborted (pa_at pend) (pa_source_bytes pend) (sl_shape_gen (ep_split ep)))
            (ep\<lparr>ep_merge := clear_crossings ((ep_merge ep)\<lparr>me_pending_apply := None\<rparr>),
                ep_applied := pa_at pend\<rparr>))"

section \<open>In-flight gates\<close>

definition conf_change_in_flight :: "('i, 'f, 'n, 'p, 'r) endpoint \<Rightarrow> bool" where
  "conf_change_in_flight ep \<longleftrightarrow> ep_pending_conf_index ep > ep_applied ep"

definition commit_merge_in_flight :: "('i, 'f, 'n, 'p, 'r) endpoint \<Rightarrow> bool" where
  "commit_merge_in_flight ep \<longleftrightarrow> me_pending_commit_index (ep_merge ep) > ep_applied ep"

definition rollback_in_flight :: "('i, 'f, 'n, 'p, 'r) endpoint \<Rightarrow> bool" where
  "rollback_in_flight ep \<longleftrightarrow> me_pending_rollback_index (ep_merge ep) > ep_applied ep"

definition thaw_in_flight :: "('i, 'f, 'n, 'p, 'r) endpoint \<Rightarrow> index option" where
  "thaw_in_flight ep =
     (let i = me_thaw_pending_index (ep_merge ep) in if i > ep_applied ep then Some i else None)"

definition note_thaw_appended ::
    "index \<Rightarrow> ('i, 'f, 'n, 'p, 'r) endpoint \<Rightarrow> ('i, 'f, 'n, 'p, 'r) endpoint" where
  "note_thaw_appended idx ep = ep\<lparr>ep_merge := (ep_merge ep)\<lparr>me_thaw_pending_index := idx\<rparr>\<rparr>"

definition witness_in_flight :: "('i, 'f, 'n, 'p, 'r) endpoint \<Rightarrow> index option" where
  "witness_in_flight ep =
     (let i = me_witness_pending_index (ep_merge ep) in if i > ep_applied ep then Some i else None)"

definition note_witness_appended ::
    "index \<Rightarrow> ('i, 'f, 'n, 'p, 'r) endpoint \<Rightarrow> ('i, 'f, 'n, 'p, 'r) endpoint" where
  "note_witness_appended idx ep = ep\<lparr>ep_merge := (ep_merge ep)\<lparr>me_witness_pending_index := idx\<rparr>\<rparr>"

definition merge_conf_fence ::
    "('i, 'f, 'c, 'n, 'p, 'r, 'l, 's) env \<Rightarrow> 'l \<Rightarrow> ('i, 'f, 'n, 'p, 'r) endpoint \<Rightarrow> bool" where
  "merge_conf_fence E logs ep \<longleftrightarrow>
     me_pending_commit_index (ep_merge ep) > ep_applied ep \<or>
     me_pending_apply (ep_merge ep) \<noteq> None \<or>
     (case me_absorb_index (ep_merge ep) of
        Some k \<Rightarrow> log_first_index E logs \<le> k | None \<Rightarrow> False)"

text \<open>
  The walk a candidate makes over the committed entries above a park; as for the freeze scan, the
  recursion is on a bound of the batches, whose exhaustion is the refusing verdict that an
  unreadable batch has.
\<close>

fun superseded_loop ::
    "('i, 'f, 'c, 'n, 'p, 'r, 'l, 's) env \<Rightarrow> 'l \<Rightarrow> index \<Rightarrow> nat \<Rightarrow> index \<Rightarrow> bool option" where
  "superseded_loop E logs end_i 0 cursor = (if cursor < end_i then None else Some False)"
| "superseded_loop E logs end_i (Suc fuel) cursor =
     (if cursor < end_i
      then case log_entries E logs cursor end_i (2 ^ 20) of
             Ok (EntriesReady (e # es)) \<Rightarrow>
               if list_ex (\<lambda>e. en_kind e = EK_ConfChange) (e # es) then Some True
               else superseded_loop E logs end_i fuel (counter_next (en_index (List.last (e # es))))
           | _ \<Rightarrow> Some True
      else Some False)"

definition merge_park_membership_superseded ::
    "('i, 'f, 'c, 'n, 'p, 'r, 'l, 's) env \<Rightarrow> 'l \<Rightarrow> ('i, 'f, 'n, 'p, 'r) endpoint \<Rightarrow> bool" where
  "merge_park_membership_superseded E logs ep =
     (if me_pending_apply (ep_merge ep) = None then False
      else let end_i = counter_next (ep_commit ep); cursor = counter_next (ep_applied ep)
           in superseded_loop E logs end_i (unat end_i - unat cursor) cursor \<noteq> Some False)"

definition peers_matched_through :: "index \<Rightarrow> ('i, 'f, 'n, 'p, 'r) endpoint \<Rightarrow> bool" where
  "peers_matched_through boundary ep =
     list_all (\<lambda>(peer, pr). peer = cfg_id (ep_config ep) \<or> match_index pr \<ge> boundary)
       (tr_progress (ep_tracker ep))"

end
