(* ===== verification/Persistence.thy ===== *)
theory Persistence
  imports Merge
begin

text \<open>
  The persist-before-send layer, \<^verbatim>\<open>sailing-proto/src/endpoint/persistence.rs\<close> up to its storage
  drain: the queues of effects owed to a completion, the submission choke-points of the two stores,
  the durable watermarks, and the acknowledgements held back until the term they carry is durable.
\<close>

section \<open>Effects owed to a completion\<close>

definition push_pending ::
    "OpId \<Rightarrow> 'i Pending \<Rightarrow> ('i, 'f, 'n, 'p, 'r) endpoint \<Rightarrow> ('i, 'f, 'n, 'p, 'r) endpoint" where
  "push_pending opid action ep =
     (case action of
        FollowerAck _ _ \<Rightarrow> ep\<lparr>ep_pending_log := ep_pending_log ep @ [(opid, action)]\<rparr>
      | LeaderAppend _ \<Rightarrow> ep\<lparr>ep_pending_log := ep_pending_log ep @ [(opid, action)]\<rparr>
      | CastVote _ _ \<Rightarrow> ep\<lparr>ep_pending_stable := ep_pending_stable ep @ [(opid, action)]\<rparr>
      | Campaign _ \<Rightarrow> ep\<lparr>ep_pending_stable := ep_pending_stable ep @ [(opid, action)]\<rparr>)"

text \<open>
  A queue keyed by operation id is taken from at its front, or else at the first position that has
  the id: the front is the first position when it has it.
\<close>

definition take_by_id :: "OpId \<Rightarrow> (OpId \<times> 'a) list \<Rightarrow> 'a option \<times> (OpId \<times> 'a) list" where
  "take_by_id opid q =
     (case q of
        [] \<Rightarrow> (None, q)
      | (front, p) # rest \<Rightarrow>
          if front = opid then (Some p, rest)
          else case position (\<lambda>(k, _). k = opid) q of
                 None \<Rightarrow> (None, q)
               | Some i \<Rightarrow> (Some (snd (q ! i)), take i q @ drop (Suc i) q))"

definition take_log_pending ::
    "OpId \<Rightarrow> ('i, 'f, 'n, 'p, 'r) endpoint \<Rightarrow> 'i Pending option \<times> ('i, 'f, 'n, 'p, 'r) endpoint" where
  "take_log_pending opid ep =
     (let (r, q) = take_by_id opid (ep_pending_log ep) in (r, ep\<lparr>ep_pending_log := q\<rparr>))"

definition take_stable_pending ::
    "OpId \<Rightarrow> ('i, 'f, 'n, 'p, 'r) endpoint \<Rightarrow> 'i Pending option \<times> ('i, 'f, 'n, 'p, 'r) endpoint" where
  "take_stable_pending opid ep =
     (let (r, q) = take_by_id opid (ep_pending_stable ep) in (r, ep\<lparr>ep_pending_stable := q\<rparr>))"

definition pending_len :: "('i, 'f, 'n, 'p, 'r) endpoint \<Rightarrow> nat" where
  "pending_len ep = length (ep_pending_log ep) + length (ep_pending_stable ep)"

definition pending_is_empty :: "('i, 'f, 'n, 'p, 'r) endpoint \<Rightarrow> bool" where
  "pending_is_empty ep \<longleftrightarrow> ep_pending_log ep = [] \<and> ep_pending_stable ep = []"

section \<open>Watermarks\<close>

definition ack_watermark :: "('i, 'f, 'n, 'p, 'r) endpoint \<Rightarrow> index" where
  "ack_watermark ep = max (du_durable_index (ep_durable ep)) (du_durable_snapshot_index (ep_durable ep))"

definition durable_commit :: "('i, 'f, 'n, 'p, 'r) endpoint \<Rightarrow> index" where
  "durable_commit ep = min (ep_commit ep) (du_durable_index (ep_durable ep))"

section \<open>Submission choke-points\<close>

definition note_lease_floors :: "entry \<Rightarrow> lease_guard_state \<Rightarrow> lease_guard_state" where
  "note_lease_floors e g =
     (let g = g\<lparr>lg_max_lease_window := max (lg_max_lease_window g) (en_lease_window e)\<rparr>;
          g = (if en_wall_timestamp e \<noteq> 0 \<and> en_lease_window e > 0
               then g\<lparr>lg_max_wall_plus_window :=
                       max (lg_max_wall_plus_window g)
                         (saturating_add (en_wall_timestamp e) (en_lease_window e))\<rparr>
               else g)
      in if en_lease_window e > 0 \<and> en_wall_timestamp e = 0
         then g\<lparr>lg_max_unwalled_lease_window := max (lg_max_unwalled_lease_window g) (en_lease_window e)\<rparr>
         else g)"

definition submit_append ::
    "('i, 'f, 'c, 'n, 'p, 'r, 'l, 's) env \<Rightarrow> OpId \<Rightarrow> entry list \<Rightarrow>
     ('i, 'f, 'n, 'p, 'r) endpoint \<Rightarrow> 'l \<Rightarrow> ('i, 'f, 'n, 'p, 'r) endpoint \<times> 'l" where
  "submit_append E opid es ep logs =
     (if is_poisoned ep then (ep, logs)
      else let logs = log_submit_append E opid es logs;
               ep = ep\<lparr>ep_lease_guard := fold note_lease_floors es (ep_lease_guard ep)\<rparr>;
               ep = (case es of
                       [] \<Rightarrow> ep
                     | _ \<Rightarrow> ep\<lparr>ep_durable := (ep_durable ep)\<lparr>du_inflight_append_upto :=
                              du_inflight_append_upto (ep_durable ep) @ [(opid, en_index (List.last es))]\<rparr>\<rparr>)
           in (ep, logs))"

text \<open>A success acknowledgement above the boundary, queued or owed.\<close>

definition acks_above :: "index \<Rightarrow> 'i outgoing \<Rightarrow> bool" where
  "acks_above boundary out =
     (case out of (_, MAppendResponse a) \<Rightarrow> \<not> ar_reject a \<and> ar_match_index a > boundary | _ \<Rightarrow> False)"

definition cap_gated :: "index \<Rightarrow> ('i \<times> raft_term \<times> index) option \<Rightarrow> ('i \<times> raft_term \<times> index) option" where
  "cap_gated boundary g =
     (case g of
        Some (to, term, proven) \<Rightarrow> if proven > boundary then Some (to, term, boundary) else g
      | None \<Rightarrow> None)"

definition scrub_acks_above ::
    "index \<Rightarrow> ('i, 'f, 'n, 'p, 'r) endpoint \<Rightarrow> ('i, 'f, 'n, 'p, 'r) endpoint" where
  "scrub_acks_above boundary ep =
     ep\<lparr>ep_outputs := (ep_outputs ep)\<lparr>ou_outgoing :=
          filter (\<lambda>out. \<not> acks_above boundary out) (ou_outgoing (ep_outputs ep))\<rparr>,
        ep_pending_log :=
          filter (\<lambda>(_, p). case p of FollowerAck _ m \<Rightarrow> m \<le> boundary | _ \<Rightarrow> True) (ep_pending_log ep),
        ep_durable := (ep_durable ep)\<lparr>
          du_term_gated_append_ack := cap_gated boundary (du_term_gated_append_ack (ep_durable ep)),
          du_term_gated_snapshot_ack := cap_gated boundary (du_term_gated_snapshot_ack (ep_durable ep))\<rparr>\<rparr>"

definition stamp_floors :: "('i, 'f, 'n, 'p, 'r) endpoint \<Rightarrow> 'i hard_state \<Rightarrow> 'i hard_state" where
  "stamp_floors ep hs =
     hs\<lparr>hs_lease_support := lease_support_raise (du_lease_support_floor (ep_durable ep)) (hs_lease_support hs),
        hs_lineage := sl_fork_id (ep_split ep),
        hs_founding_gen := max (hs_founding_gen hs) (sl_founding_gen (ep_split ep))\<rparr>"

definition option_gt :: "'a::linorder option \<Rightarrow> 'a option \<Rightarrow> bool" where
  "option_gt a b \<longleftrightarrow> \<not> option_ge b a"

definition note_submitted :: "OpId \<Rightarrow> 'i hard_state \<Rightarrow> 'i durability \<Rightarrow> 'i durability" where
  "note_submitted opid hs du =
     (let du = (if hs_term hs > du_last_submitted_term du
                then du\<lparr>du_last_submitted_term := hs_term hs, du_term_persist_opid := opid\<rparr> else du);
          sup = promised (hs_lease_support hs);
          du = (if option_gt sup (du_last_submitted_lease_support du)
                then du\<lparr>du_last_submitted_lease_support := sup, du_lease_support_persist_opid := opid\<rparr> else du);
          du = (if hs_commit hs > du_last_submitted_commit du
                then du\<lparr>du_last_submitted_commit := hs_commit hs, du_commit_persist_opid := opid\<rparr> else du)
      in du\<lparr>du_last_submitted_vote := hs_vote hs\<rparr>)"

definition submit_write ::
    "('i, 'f, 'c, 'n, 'p, 'r, 'l, 's) env \<Rightarrow> OpId \<Rightarrow> 'i hard_state \<Rightarrow>
     ('i, 'f, 'n, 'p, 'r) endpoint \<Rightarrow> 's \<Rightarrow> ('i, 'f, 'n, 'p, 'r) endpoint \<times> 's" where
  "submit_write E opid hs ep stab =
     (if is_poisoned ep then (ep, stab)
      else let hs = stamp_floors ep hs
           in (ep\<lparr>ep_durable := note_submitted opid hs (ep_durable ep)\<rparr>, st_submit_write E opid hs stab))"

definition submit_founding_stamp ::
    "('i, 'f, 'c, 'n, 'p, 'r, 'l, 's) env \<Rightarrow> ('i, 'f, 'n, 'p, 'r) endpoint \<Rightarrow> 's \<Rightarrow>
     ('i, 'f, 'n, 'p, 'r) endpoint \<times> 's" where
  "submit_founding_stamp E ep stab =
     (let (opid, ep) = mint_op_id ep in submit_write E opid hs_initial ep stab)"

text \<open>
  The write every persister of the term makes: the store's own record with the term, the vote and
  the durable commit of this node, after which the commit counts as submitted.
\<close>

definition persist_own_state ::
    "('i, 'f, 'c, 'n, 'p, 'r, 'l, 's) env \<Rightarrow> ('i, 'f, 'n, 'p, 'r) endpoint \<Rightarrow> 's \<Rightarrow>
     OpId \<times> ('i, 'f, 'n, 'p, 'r) endpoint \<times> 's" where
  "persist_own_state E ep stab =
     (let (opid, ep) = mint_op_id ep;
          hs = (st_hard_state E stab)\<lparr>hs_term := ep_term ep, hs_vote := ep_voted_for ep,
                                       hs_commit := durable_commit ep\<rparr>;
          (ep, stab) = submit_write E opid hs ep stab
      in (opid, ep\<lparr>ep_durable := (ep_durable ep)\<lparr>du_committed_persisted := durable_commit ep\<rparr>\<rparr>, stab))"

section \<open>Acknowledgements gated on the durable term\<close>

definition term_is_durable :: "('i, 'f, 'n, 'p, 'r) endpoint \<Rightarrow> bool" where
  "term_is_durable ep \<longleftrightarrow> du_durable_term (ep_durable ep) \<ge> ep_term ep"

definition append_ack :: "('i, 'f, 'n, 'p, 'r) endpoint \<Rightarrow> index \<Rightarrow> 'i message" where
  "append_ack ep proven =
     MAppendResponse (append_response_new (ep_term ep) (cfg_id (ep_config ep)) False 0 0
       (min proven (ack_watermark ep)))"

definition snapshot_ack :: "('i, 'f, 'n, 'p, 'r) endpoint \<Rightarrow> index \<Rightarrow> 'i message" where
  "snapshot_ack ep proven =
     MSnapshotResponse (snapshot_response_new (ep_term ep) (cfg_id (ep_config ep)) False
       (min proven (ack_watermark ep)))"

text \<open>A gated value merges with an earlier one to the same node in the same term.\<close>

definition gate_merge ::
    "'i \<Rightarrow> raft_term \<Rightarrow> index \<Rightarrow> ('i \<times> raft_term \<times> index) option \<Rightarrow> ('i \<times> raft_term \<times> index) option" where
  "gate_merge to term proven g =
     (case g of
        Some (prev_to, prev_term, prev) \<Rightarrow>
          if prev_to = to \<and> prev_term = term then Some (to, term, max prev proven)
          else Some (to, term, proven)
      | None \<Rightarrow> Some (to, term, proven))"

definition send_or_gate_append_ack ::
    "'i \<Rightarrow> index \<Rightarrow> ('i, 'f, 'n, 'p, 'r) endpoint \<Rightarrow> ('i, 'f, 'n, 'p, 'r) endpoint" where
  "send_or_gate_append_ack to proven ep =
     (if term_is_durable ep then send to (append_ack ep proven) ep
      else ep\<lparr>ep_durable := (ep_durable ep)\<lparr>du_term_gated_append_ack :=
               gate_merge to (ep_term ep) proven (du_term_gated_append_ack (ep_durable ep))\<rparr>\<rparr>)"

definition send_or_gate_snapshot_ack ::
    "'i \<Rightarrow> index \<Rightarrow> ('i, 'f, 'n, 'p, 'r) endpoint \<Rightarrow> ('i, 'f, 'n, 'p, 'r) endpoint" where
  "send_or_gate_snapshot_ack to proven ep =
     (if term_is_durable ep then send to (snapshot_ack ep proven) ep
      else ep\<lparr>ep_durable := (ep_durable ep)\<lparr>du_term_gated_snapshot_ack :=
               gate_merge to (ep_term ep) proven (du_term_gated_snapshot_ack (ep_durable ep))\<rparr>\<rparr>)"

definition persist_commit_floor ::
    "('i, 'f, 'c, 'n, 'p, 'r, 'l, 's) env \<Rightarrow> ('i, 'f, 'n, 'p, 'r) endpoint \<Rightarrow> 's \<Rightarrow>
     ('i, 'f, 'n, 'p, 'r) endpoint \<times> 's" where
  "persist_commit_floor E ep stab =
     (if is_poisoned ep \<or> durable_commit ep \<le> du_committed_persisted (ep_durable ep) then (ep, stab)
      else let (_, ep, stab) = persist_own_state E ep stab in (ep, stab))"

definition shortcut_ack_ready :: "index \<Rightarrow> ('i, 'f, 'n, 'p, 'r) endpoint \<Rightarrow> bool" where
  "shortcut_ack_ready boundary ep \<longleftrightarrow>
     term_is_durable ep \<and>
     (du_durable_commit_index (ep_durable ep) \<ge> boundary \<or>
      du_durable_snapshot_index (ep_durable ep) \<ge> boundary) \<and>
     ep_applied ep \<ge> boundary"

definition send_or_gate_shortcut_snapshot_ack ::
    "'i \<Rightarrow> index \<Rightarrow> ('i, 'f, 'n, 'p, 'r) endpoint \<Rightarrow> ('i, 'f, 'n, 'p, 'r) endpoint" where
  "send_or_gate_shortcut_snapshot_ack to boundary ep =
     (if shortcut_ack_ready boundary ep then send to (snapshot_ack ep (max (ep_commit ep) boundary)) ep
      else ep\<lparr>ep_durable := (ep_durable ep)\<lparr>du_shortcut_gated_snapshot_ack :=
               gate_merge to (ep_term ep) boundary (du_shortcut_gated_snapshot_ack (ep_durable ep))\<rparr>\<rparr>)"

definition flush_shortcut_gated_ack ::
    "('i, 'f, 'n, 'p, 'r) endpoint \<Rightarrow> ('i, 'f, 'n, 'p, 'r) endpoint" where
  "flush_shortcut_gated_ack ep =
     (case du_shortcut_gated_snapshot_ack (ep_durable ep) of
        None \<Rightarrow> ep
      | Some (to, t, boundary) \<Rightarrow>
          let dropped = ep\<lparr>ep_durable := (ep_durable ep)\<lparr>du_shortcut_gated_snapshot_ack := None\<rparr>\<rparr>
          in if t \<noteq> ep_term ep then dropped
             else if \<not> shortcut_ack_ready boundary ep then ep
             else send to (snapshot_ack dropped (max (ep_commit dropped) boundary)) dropped)"

text \<open>A gated acknowledgement of another term is dropped; the one of this term is sent.\<close>

definition stale_gate :: "raft_term \<Rightarrow> ('i \<times> raft_term \<times> index) option \<Rightarrow> ('i \<times> raft_term \<times> index) option" where
  "stale_gate term g = (case g of Some (_, t, _) \<Rightarrow> if t \<noteq> term then None else g | None \<Rightarrow> None)"

definition flush_term_gated_acks ::
    "('i, 'f, 'n, 'p, 'r) endpoint \<Rightarrow> ('i, 'f, 'n, 'p, 'r) endpoint" where
  "flush_term_gated_acks ep =
     (let ep = flush_shortcut_gated_ack ep;
          ep = ep\<lparr>ep_durable := (ep_durable ep)\<lparr>
                   du_term_gated_snapshot_ack := stale_gate (ep_term ep) (du_term_gated_snapshot_ack (ep_durable ep)),
                   du_term_gated_append_ack := stale_gate (ep_term ep) (du_term_gated_append_ack (ep_durable ep))\<rparr>\<rparr>
      in if \<not> term_is_durable ep then ep
         else let ep = (case du_term_gated_snapshot_ack (ep_durable ep) of
                          None \<Rightarrow> ep
                        | Some (to, _, proven) \<Rightarrow>
                            let ep = ep\<lparr>ep_durable := (ep_durable ep)\<lparr>du_term_gated_snapshot_ack := None\<rparr>\<rparr>
                            in send to (snapshot_ack ep proven) ep)
              in case du_term_gated_append_ack (ep_durable ep) of
                   None \<Rightarrow> ep
                 | Some (to, _, proven) \<Rightarrow>
                     let ep = ep\<lparr>ep_durable := (ep_durable ep)\<lparr>du_term_gated_append_ack := None\<rparr>\<rparr>
                     in send to (append_ack ep proven) ep)"

definition ensure_term_durable ::
    "('i, 'f, 'c, 'n, 'p, 'r, 'l, 's) env \<Rightarrow> ('i, 'f, 'n, 'p, 'r) endpoint \<Rightarrow> 's \<Rightarrow>
     ('i, 'f, 'n, 'p, 'r) endpoint \<times> 's" where
  "ensure_term_durable E ep stab =
     (if is_poisoned ep then (ep, stab)
      else let durable = st_hard_state E stab;
               matches_state = (\<lambda>term vote flr. term = ep_term ep \<and> vote = ep_voted_for ep \<and>
                                  flr = du_lease_support_floor (ep_durable ep))
           in if matches_state (hs_term durable) (hs_vote durable) (promised (hs_lease_support durable)) \<or>
                 matches_state (du_last_submitted_term (ep_durable ep))
                   (du_last_submitted_vote (ep_durable ep)) (du_last_submitted_lease_support (ep_durable ep))
              then (ep, stab)
              else let (_, ep, stab) = persist_own_state E ep stab in (ep, stab))"

section \<open>Which durability is outstanding\<close>

definition log_durability_outstanding :: "('i, 'f, 'n, 'p, 'r) endpoint \<Rightarrow> bool" where
  "log_durability_outstanding ep \<longleftrightarrow>
     du_inflight_append_upto (ep_durable ep) \<noteq> [] \<or>
     du_term_gated_append_ack (ep_durable ep) \<noteq> None \<or>
     du_term_gated_snapshot_ack (ep_durable ep) \<noteq> None \<or>
     du_shortcut_gated_snapshot_ack (ep_durable ep) \<noteq> None"

definition stable_durability_outstanding :: "('i, 'f, 'n, 'p, 'r) endpoint \<Rightarrow> bool" where
  "stable_durability_outstanding ep \<longleftrightarrow>
     ep_pending_stable ep \<noteq> [] \<or>
     du_term_gated_append_ack (ep_durable ep) \<noteq> None \<or>
     du_term_gated_snapshot_ack (ep_durable ep) \<noteq> None \<or>
     du_shortcut_gated_snapshot_ack (ep_durable ep) \<noteq> None \<or>
     du_last_submitted_term (ep_durable ep) > du_durable_term (ep_durable ep) \<or>
     du_last_submitted_commit (ep_durable ep) > du_durable_commit_index (ep_durable ep) \<or>
     option_gt (du_last_submitted_lease_support (ep_durable ep)) (du_durable_lease_support (ep_durable ep))"

end
