(* ===== verification/Lease.thy ===== *)
theory Lease
  imports Persistence
begin

text \<open>
  The time gates of leases: the inherited commit wait a new leader serves and its releases
  (\<^verbatim>\<open>sailing-proto/src/endpoint/replication.rs\<close>), the inflation of that wait by the clock-rate bound
  (\<^verbatim>\<open>endpoint/election.rs\<close>), the reads a lease admits (\<^verbatim>\<open>endpoint/read_index.rs\<close>), and the vote fence.
  128-bit sums of 64-bit values cannot overflow and are sums of naturals.
\<close>

section \<open>The vote fence\<close>

definition lease_vote_fenced :: "now \<Rightarrow> bool \<Rightarrow> ('i, 'f, 'n, 'p, 'r) endpoint \<Rightarrow> bool" where
  "lease_vote_fenced now force ep \<longleftrightarrow>
     \<not> force \<and> (case du_lease_vote_fence_until (ep_durable ep) of Some d \<Rightarrow> mono now < d | None \<Rightarrow> False)"

section \<open>Inflating an inherited wait\<close>

definition u128_checked :: "nat \<Rightarrow> nat option" where
  "u128_checked n = (if n < 2 ^ 128 then Some n else None)"

definition u64_try_from :: "nat \<Rightarrow> u64 option" where
  "u64_try_from n = (if n < 2 ^ 64 then Some (of_nat n) else None)"

definition inflate_by_rational :: "u64 \<Rightarrow> nat \<Rightarrow> nat \<Rightarrow> u64 option" where
  "inflate_by_rational window num denom =
     (if denom = 0 then None
      else case u128_checked (unat window * num) of
             None \<Rightarrow> None
           | Some m \<Rightarrow> u64_try_from (div_ceil m denom))"

definition failover_inflated_commit_wait :: "('i, 'f, 'n, 'p, 'r) endpoint \<Rightarrow> u64 option" where
  "failover_inflated_commit_wait ep =
     (case leaseguard_timing ep of
        None \<Rightarrow> None
      | Some (delta, drift) \<Rightarrow>
          (case u128_checked (delta + drift) of
             None \<Rightarrow> None
           | Some num \<Rightarrow> inflate_by_rational (lg_max_lease_window (ep_lease_guard ep)) num delta))"

definition inflate_inherited_wait :: "u64 \<Rightarrow> ('i, 'f, 'n, 'p, 'r) endpoint \<Rightarrow> u64 option" where
  "inflate_inherited_wait window ep =
     (case leaseguard_timing ep of
        None \<Rightarrow>
          inflate_by_rational window
            (1000000 + unat (cfg_assumed_clock_rate_bound_ppm (ep_config ep))) 1000000
      | Some (delta, drift) \<Rightarrow>
          (case u128_checked (delta + drift) of
             None \<Rightarrow> None
           | Some num \<Rightarrow> inflate_by_rational window num delta))"

section \<open>Releasing an inherited wait\<close>

definition nanos_or_max :: "duration \<Rightarrow> u64" where
  "nanos_or_max d = (case u64_try_from d of Some n \<Rightarrow> n | None \<Rightarrow> u64_max)"

definition walled_wall_released :: "u64 \<Rightarrow> u64 \<Rightarrow> u64 \<Rightarrow> bool" where
  "walled_wall_released now_wall deadline eps_ns \<longleftrightarrow>
     deadline = 0 \<or> unat now_wall > unat deadline + 2 * unat eps_ns"

definition failover_horizon_passable :: "u64 \<Rightarrow> u64 \<Rightarrow> bool" where
  "failover_horizon_passable deadline eps_ns \<longleftrightarrow> unat deadline + 2 * unat eps_ns < unat u64_max"

definition precise_release_ready :: "now \<Rightarrow> ('i, 'f, 'n, 'p, 'r) endpoint \<Rightarrow> bool" where
  "precise_release_ready now ep =
     (case cfg_bounded_clock_uncertainty (ep_config ep) of
        None \<Rightarrow> False
      | Some eps \<Rightarrow>
          let g = ep_lease_guard ep
          in if wall_is_absent (wall now) then False
             else if lg_inherited_release_deadline g = 0 \<and> lg_unwalled_commit_wait_until g = None
             then False
             else walled_wall_released (wall now) (lg_inherited_release_deadline g) (nanos_or_max eps) \<and>
                  (case lg_unwalled_commit_wait_until g of None \<Rightarrow> True | Some t \<Rightarrow> mono now \<ge> t))"

definition wall_capability_absent :: "('i, 'f, 'n, 'p, 'r) endpoint \<Rightarrow> bool" where
  "wall_capability_absent ep \<longleftrightarrow> cfg_bounded_clock_uncertainty (ep_config ep) = None"

definition campaign_holds_unprovable_floor :: "('i, 'f, 'n, 'p, 'r) endpoint \<Rightarrow> bool" where
  "campaign_holds_unprovable_floor ep \<longleftrightarrow>
     lg_max_wall_plus_window (ep_lease_guard ep) \<noteq> 0 \<and> wall_capability_absent ep"

definition note_campaign_floor_provability ::
    "('i, 'f, 'n, 'p, 'r) endpoint \<Rightarrow> ('i, 'f, 'n, 'p, 'r) endpoint" where
  "note_campaign_floor_provability ep =
     (if \<not> campaign_holds_unprovable_floor ep then ep
      else ep\<lparr>ep_lease_guard := (ep_lease_guard ep)\<lparr>lg_unprovable_floor_campaigns :=
               saturating_add (lg_unprovable_floor_campaigns (ep_lease_guard ep)) 1\<rparr>\<rparr>)"

definition walled_lease_vetoes_conservative :: "now \<Rightarrow> ('i, 'f, 'n, 'p, 'r) endpoint \<Rightarrow> bool" where
  "walled_lease_vetoes_conservative now ep =
     (let g = ep_lease_guard ep
      in if lg_inherited_release_deadline g = 0 then False
         else if lg_commit_wait_inflated g then False
         else case cfg_bounded_clock_uncertainty (ep_config ep) of
                None \<Rightarrow> True
              | Some eps \<Rightarrow>
                  if wall_is_absent (wall now) then True
                  else \<not> walled_wall_released (wall now) (lg_inherited_release_deadline g) (nanos_or_max eps))"

section \<open>Reads under a lease\<close>

definition lease_read_available :: "now \<Rightarrow> ('i, 'f, 'n, 'p, 'r) endpoint \<Rightarrow> bool" where
  "lease_read_available now ep \<longleftrightarrow>
     cfg_check_quorum (ep_config ep) \<and> \<not> merge_freeze_active ep \<and>
     tf_lead_transferee (ep_transfer ep) = None \<and> \<not> tf_forced_handoff_this_term (ep_transfer ep) \<and>
     (case cq_lease_valid_until (ep_check_quorum_lease ep) of Some d \<Rightarrow> d > mono now | None \<Rightarrow> False)"

text \<open>The entry at the commit index, as the lease checks read it.\<close>

definition commit_entry ::
    "('i, 'f, 'c, 'n, 'p, 'r, 'l, 's) env \<Rightarrow> 'l \<Rightarrow> ('i, 'f, 'n, 'p, 'r) endpoint \<Rightarrow>
     entry option \<times> ('i, 'f, 'n, 'p, 'r) endpoint" where
  "commit_entry E logs ep =
     (case log_entries E logs (ep_commit ep) (counter_next (ep_commit ep)) u64_max of
        Ok (EntriesReady (e # _)) \<Rightarrow> (Some e, ep)
      | Ok _ \<Rightarrow> (None, ep)
      | Err _ \<Rightarrow> (None, poison PR_LogRead ep))"

definition lease_guard_read_live ::
    "('i, 'f, 'c, 'n, 'p, 'r, 'l, 's) env \<Rightarrow> now \<Rightarrow> 'l \<Rightarrow> ('i, 'f, 'n, 'p, 'r) endpoint \<Rightarrow>
     bool \<times> ('i, 'f, 'n, 'p, 'r) endpoint" where
  "lease_guard_read_live E now logs ep =
     (if merge_freeze_active ep then (False, ep)
      else case leaseguard_timing ep of
             None \<Rightarrow> (False, ep)
           | Some (delta, _) \<Rightarrow>
               (case commit_entry E logs ep of
                  (None, ep) \<Rightarrow> (False, ep)
                | (Some e, ep) \<Rightarrow>
                    (en_term e = ep_term ep \<and> en_lease_window e \<noteq> 0 \<and>
                     mono now - unat (en_timestamp e) < delta, ep)))"

definition lease_near_expiry ::
    "('i, 'f, 'c, 'n, 'p, 'r, 'l, 's) env \<Rightarrow> now \<Rightarrow> 'l \<Rightarrow> ('i, 'f, 'n, 'p, 'r) endpoint \<Rightarrow>
     bool \<times> ('i, 'f, 'n, 'p, 'r) endpoint" where
  "lease_near_expiry E now logs ep =
     (case leaseguard_timing ep of
        None \<Rightarrow> (False, ep)
      | Some (delta, _) \<Rightarrow>
          (case commit_entry E logs ep of
             (None, ep) \<Rightarrow> (False, ep)
           | (Some e, ep) \<Rightarrow>
               if en_term e \<noteq> ep_term ep then (False, ep)
               else if en_lease_window e = 0 then (True, ep)
               else let margin = min (2 * cfg_heartbeat_interval (ep_config ep)) DURATION_MAX
                    in (min (mono now - unat (en_timestamp e) + margin) DURATION_MAX \<ge> delta, ep)))"

definition failover_tier_active :: "('i, 'f, 'n, 'p, 'r) endpoint \<Rightarrow> bool" where
  "failover_tier_active ep = failover_tier_valid (rd_active_read_mode (ep_reads ep)) (ep_config ep)"

definition inherited_lease_live :: "now \<Rightarrow> ('i, 'f, 'n, 'p, 'r) endpoint \<Rightarrow> bool" where
  "inherited_lease_live now ep =
     (let g = ep_lease_guard ep
      in if \<not> failover_tier_active ep \<or> wall_is_absent (wall now) \<or>
            lg_committed_anchor_wall g = 0 \<or> lg_committed_anchor_window g = 0
         then False
         else case cfg_bounded_clock_uncertainty (ep_config ep) of
                None \<Rightarrow> False
              | Some eps \<Rightarrow>
                  unat (wall now) + 2 * eps <
                  unat (lg_committed_anchor_wall g) + unat (lg_committed_anchor_window g))"

definition failover_read_window ::
    "now \<Rightarrow> ('i, 'f, 'n, 'p, 'r) endpoint \<Rightarrow> (index \<times> index) option" where
  "failover_read_window now ep =
     (if is_poisoned ep \<or> ep_role ep \<noteq> Leader \<or>
         lg_commit_wait_until (ep_lease_guard ep) = None \<or> \<not> lg_inherited_serve_armed (ep_lease_guard ep)
      then None
      else if \<not> inherited_lease_live now ep then None
      else Some (ep_commit ep, lg_limbo_upper (ep_lease_guard ep)))"

end
