(* ===== verification/Wire.thy ===== *)
theory Wire
  imports Endpoint Frame
begin

text \<open>
  The frame sizers of \<^verbatim>\<open>sailing-proto/src/wire/mod.rs\<close>: the budget an append frame has for entries,
  the upper bound of an entry's cost in it, and the length of an encoded snapshot frame, computed
  field by field. The sizes of a varint and of a length-delimited field are the protobuf library's.
\<close>

definition ENTRY_WIRE_OVERHEAD_MAX :: nat where
  "ENTRY_WIRE_OVERHEAD_MAX = 128"

definition GROUP_HEADER_RESERVE :: nat where
  "GROUP_HEADER_RESERVE = 2 + MAX_GROUP_ID_LEN + MAX_GENERATION_VARINT_LEN"

definition APPEND_ENTRIES_HEADER_RESERVE :: nat where
  "APPEND_ENTRIES_HEADER_RESERVE = MAX_ID_LEN + 256 + GROUP_HEADER_RESERVE"

definition APPEND_FRAME_ENTRY_BUDGET :: nat where
  "APPEND_FRAME_ENTRY_BUDGET = MAX_FRAME_BYTES - APPEND_ENTRIES_HEADER_RESERVE"

text \<open>Saturating addition of two 64-bit \<^verbatim>\<open>usize\<close> values.\<close>

definition usize_saturating_add :: "nat \<Rightarrow> nat \<Rightarrow> nat" where
  "usize_saturating_add a b = min (a + b) (2 ^ 64 - 1)"

definition entry_frame_cost :: "entry \<Rightarrow> nat" where
  "entry_frame_cost e = usize_saturating_add (length (en_data e)) ENTRY_WIRE_OVERHEAD_MAX"

definition present_uint64 :: "('i, 'f, 'c, 'n, 'p, 'r, 'l, 's) env \<Rightarrow> u64 \<Rightarrow> nat" where
  "present_uint64 E v = (if v = 0 then 0 else 1 + buffa_uint64_encoded_len E v)"

definition present_bytes :: "('i, 'f, 'c, 'n, 'p, 'r, 'l, 's) env \<Rightarrow> bytes \<Rightarrow> nat" where
  "present_bytes E v = (if v = [] then 0 else 1 + buffa_bytes_encoded_len E v)"

definition id_bytes_field :: "('i, 'f, 'c, 'n, 'p, 'r, 'l, 's) env \<Rightarrow> 'i \<Rightarrow> nat" where
  "id_bytes_field E i = 1 + buffa_bytes_encoded_len E (encode_node_id E i)"

definition nested :: "('i, 'f, 'c, 'n, 'p, 'r, 'l, 's) env \<Rightarrow> nat \<Rightarrow> nat" where
  "nested E inner = 1 + buffa_varint_len E (of_nat inner) + inner"

definition conf_encoded_len :: "('i::linorder, 'f, 'c, 'n, 'p, 'r, 'l, 's) env \<Rightarrow> 'i conf_state \<Rightarrow> nat" where
  "conf_encoded_len E conf =
     (\<Sum>i\<leftarrow>btree_iter (cs_voters conf) @ btree_iter (cs_learners conf) @
           btree_iter (cs_voters_outgoing conf) @ btree_iter (cs_learners_next conf).
        id_bytes_field E i) +
     (if cs_auto_leave conf then 1 + buffa_bool_encoded_len E else 0)"

definition fork_encoded_len :: "('i, 'f, 'c, 'n, 'p, 'r, 'l, 's) env \<Rightarrow> fork_id \<Rightarrow> nat" where
  "fork_encoded_len E f =
     present_bytes E (fk_parent f) + present_uint64 E (fk_parent_incarnation f) +
     present_uint64 E (fk_split_index f) + present_uint64 E (fk_split_term f) +
     present_bytes E (fk_child f) + present_uint64 E (fk_child_gen f)"

definition meta_encoded_len ::
    "('i::linorder, 'f, 'c, 'n, 'p, 'r, 'l, 's) env \<Rightarrow> 'i snapshot_meta \<Rightarrow> nat" where
  "meta_encoded_len E meta =
     nested E (conf_encoded_len E (sm_conf meta)) +
     present_uint64 E (sm_last_index meta) + present_uint64 E (sm_last_term meta) +
     present_uint64 E (sm_max_lease_window meta) + present_uint64 E (sm_max_wall_plus_window meta) +
     present_uint64 E (sm_max_unwalled_lease_window meta) +
     present_uint64 E (case sm_read_only meta of None \<Rightarrow> 0 | Some r \<Rightarrow> ucast (read_only_as_u8 r) + 1) +
     present_uint64 E (sm_shape_gen meta) +
     (case sm_fork_id meta of None \<Rightarrow> 0 | Some f \<Rightarrow> nested E (fork_encoded_len E f))"

definition install_snapshot_encoded_len ::
    "('i::linorder, 'f, 'c, 'n, 'p, 'r, 'l, 's) env \<Rightarrow> raft_term \<Rightarrow> 'i \<Rightarrow> 'i snapshot_meta \<Rightarrow>
     u64 \<Rightarrow> u64 \<Rightarrow> u64 \<Rightarrow> nat" where
  "install_snapshot_encoded_len E term leader meta offset total_len data_len =
     nested E
       (present_uint64 E term + id_bytes_field E leader + nested E (meta_encoded_len E meta) +
        (if data_len \<noteq> 0 then nested E (unat data_len) else 0) +
        present_uint64 E offset + present_uint64 E total_len)"

definition id_within_wire_bound :: "('i, 'f, 'c, 'n, 'p, 'r, 'l, 's) env \<Rightarrow> 'i \<Rightarrow> bool" where
  "id_within_wire_bound E i \<longleftrightarrow> encode_node_id E i \<noteq> [] \<and> length (encode_node_id E i) \<le> MAX_ID_LEN"

lemma entry_budget_value: "APPEND_FRAME_ENTRY_BUDGET = 67106548"
  by (simp add: APPEND_FRAME_ENTRY_BUDGET_def APPEND_ENTRIES_HEADER_RESERVE_def GROUP_HEADER_RESERVE_def
      MAX_GENERATION_VARINT_LEN_def frame_consts)

end
