(* ===== verification/Sending.thy ===== *)
theory Sending
  imports Lease Wire
begin

text \<open>
  What a leader sends: heartbeats and appends (\<^verbatim>\<open>sailing-proto/src/endpoint/replication.rs\<close>),
  snapshot chunks, the cure and courtesy snapshots (\<^verbatim>\<open>endpoint/snapshot.rs\<close>), the farewells to removed
  members and the ledgers of who is owed one (\<^verbatim>\<open>endpoint/mod.rs\<close>).
\<close>

section \<open>Heartbeats\<close>

definition arm_heartbeat_timer ::
    "now \<Rightarrow> ('i, 'f, 'n, 'p, 'r) endpoint \<Rightarrow> ('i, 'f, 'n, 'p, 'r) endpoint" where
  "arm_heartbeat_timer now ep =
     ep\<lparr>ep_heartbeat_deadline := Some (instant_add (mono now) (cfg_heartbeat_interval (ep_config ep)))\<rparr>"

text \<open>One heartbeat to every peer of the progress map, with the commit index capped at its match.\<close>

definition heartbeats :: "bytes \<Rightarrow> ('i, 'f, 'n, 'p, 'r) endpoint \<Rightarrow> ('i \<times> 'i message) list" where
  "heartbeats ctx ep =
     (let me = cfg_id (ep_config ep)
      in map (\<lambda>(peer, pr). (peer, MHeartbeat
                ((heartbeat_new (ep_term ep) me (min (ep_commit ep) (match_index pr)) ctx)
                   \<lparr>hb_lease_round := cq_lease_round (ep_check_quorum_lease ep)\<rparr>)))
           (filter (\<lambda>(peer, _). peer \<noteq> me) (tr_progress (ep_tracker ep))))"

definition send_all ::
    "('i \<times> 'i message) list \<Rightarrow> ('i, 'f, 'n, 'p, 'r) endpoint \<Rightarrow> ('i, 'f, 'n, 'p, 'r) endpoint" where
  "send_all msgs ep = fold (\<lambda>(to, m). send to m) msgs ep"

definition broadcast_heartbeat ::
    "now \<Rightarrow> ('i, 'f, 'n, 'p, 'r) endpoint \<Rightarrow> ('i, 'f, 'n, 'p, 'r) endpoint" where
  "broadcast_heartbeat now ep =
     (case checked_add (cq_lease_round (ep_check_quorum_lease ep)) 1 of
        None \<Rightarrow> poison PR_LeaseRoundExhausted ep
      | Some next_round \<Rightarrow>
          let ep = ep\<lparr>ep_check_quorum_lease := (ep_check_quorum_lease ep)\<lparr>
                       cq_lease_round := next_round, cq_lease_round_start := mono now,
                       cq_lease_acks := {||},
                       cq_lease_min_support := cfg_election_timeout (ep_config ep)\<rparr>\<rparr>;
              ctx = (case last_pending_request_ctx (rd_read_only (ep_reads ep)) of
                       Some c \<Rightarrow> c | None \<Rightarrow> [])
          in (send_all (heartbeats ctx ep) ep)\<lparr>ep_peers_scratch := []\<rparr>)"

definition broadcast_heartbeat_with_ctx ::
    "now \<Rightarrow> bytes \<Rightarrow> ('i, 'f, 'n, 'p, 'r) endpoint \<Rightarrow> ('i, 'f, 'n, 'p, 'r) endpoint" where
  "broadcast_heartbeat_with_ctx now ctx ep =
     (send_all (heartbeats ctx ep) ep)\<lparr>ep_peers_scratch := []\<rparr>"

section \<open>Snapshot chunks\<close>

datatype ChunkSend = CS_Sent | CS_Deferred | CS_Unsendable | CS_Poisoned

definition conf_names :: "'i conf_state \<Rightarrow> 'i \<Rightarrow> bool" where
  "conf_names conf i \<longleftrightarrow>
     i |\<in>| cs_voters conf \<or> i |\<in>| cs_voters_outgoing conf \<or> i |\<in>| cs_learners conf \<or>
     i |\<in>| cs_learners_next conf"

definition conf_names_self :: "'i conf_state \<Rightarrow> ('i, 'f, 'n, 'p, 'r) endpoint \<Rightarrow> bool" where
  "conf_names_self conf ep = conf_names conf (cfg_id (ep_config ep))"

definition conf_members :: "'i conf_state \<Rightarrow> 'i btree_set" where
  "conf_members conf =
     cs_voters conf |\<union>| cs_voters_outgoing conf |\<union>| cs_learners conf |\<union>| cs_learners_next conf"

definition install_removed_members ::
    "'i::linorder conf_state \<Rightarrow> ('i, 'f, 'n, 'p, 'r) endpoint \<Rightarrow> 'i btree_set" where
  "install_removed_members installed ep =
     ffilter (\<lambda>i. i |\<notin>| conf_members installed) (conf_members (tr_conf_state (ep_tracker ep)))"

text \<open>\<^verbatim>\<open>clamp\<close>, and the frame budget a chunk of data has left beside the header of its message.\<close>

definition clamp :: "u64 \<Rightarrow> u64 \<Rightarrow> u64 \<Rightarrow> u64" where
  "clamp lo hi v = (if v < lo then lo else if v > hi then hi else v)"

definition chunk_frame_budget ::
    "('i::linorder, 'f, 'c, 'n, 'p, 'r, 'l, 's) env \<Rightarrow> raft_term \<Rightarrow> 'i \<Rightarrow> 'i snapshot_meta \<Rightarrow>
     u64 \<Rightarrow> u64 \<Rightarrow> u64" where
  "chunk_frame_budget E term me meta start tot =
     (let overhead = install_snapshot_encoded_len E term me meta start tot 0;
          self_cost = 1 + buffa_varint_len E MAX_SNAPSHOT_CHUNK_BYTES
      in of_nat (MAX_FRAME_BYTES - (overhead + self_cost + GROUP_HEADER_RESERVE)))"

text \<open>The bytes of a read chunk that go on the wire.\<close>

definition chunk_payload :: "u64 \<Rightarrow> u64 \<Rightarrow> bytes \<Rightarrow> bytes" where
  "chunk_payload chunk_len remaining b =
     take (unat (min (min (of_nat (length b)) chunk_len) remaining)) b"

definition send_chunk_data ::
    "'i \<Rightarrow> 'i snapshot_meta \<Rightarrow> u64 \<Rightarrow> u64 \<Rightarrow> u64 \<Rightarrow> SnapshotChunkRead \<Rightarrow>
     ('i, 'f, 'n, 'p, 'r) endpoint \<Rightarrow> ChunkSend \<times> ('i, 'f, 'n, 'p, 'r) endpoint" where
  "send_chunk_data peer meta start tot chunk_len chunk_read ep =
     (case chunk_read of
        ChunkPending \<Rightarrow> (CS_Deferred, ep)
      | ChunkReady b \<Rightarrow>
          let remaining = tot - start
          in if remaining > 0 \<and> b = [] then (CS_Poisoned, poison PR_SnapshotRead ep)
             else (CS_Sent,
                   send peer (MInstallSnapshot
                     \<lparr>ins_term = ep_term ep, ins_leader = cfg_id (ep_config ep), ins_snapshot = meta,
                      ins_data = chunk_payload chunk_len remaining b, ins_offset = start,
                      ins_total_len = tot\<rparr>) ep))"

definition in_snapshot_of :: "index \<Rightarrow> u64 \<Rightarrow> progress option \<Rightarrow> bool" where
  "in_snapshot_of boundary tot p =
     (case map_option pr_state p of
        Some (Snapshot pend _ t) \<Rightarrow> pend = boundary \<and> t = tot | _ \<Rightarrow> False)"

definition send_snapshot_chunk ::
    "('i::linorder, 'f, 'c, 'n, 'p, 'r, 'l, 's) env \<Rightarrow> 'i \<Rightarrow> 's \<Rightarrow> u64 \<Rightarrow>
     ('i, 'f, 'n, 'p, 'r) endpoint \<Rightarrow> ChunkSend \<times> ('i, 'f, 'n, 'p, 'r) endpoint" where
  "send_snapshot_chunk E peer stab from_offset ep =
     (let config_chunk = clamp 1 MAX_SNAPSHOT_CHUNK_BYTES (cfg_snapshot_chunk_bytes (ep_config ep))
      in case st_snapshot_chunk E stab from_offset config_chunk of
           None \<Rightarrow> (CS_Deferred, ep)
         | Some (Err _) \<Rightarrow> (CS_Poisoned, poison PR_SnapshotRead ep)
         | Some (Ok (meta, tot, chunk_at_from)) \<Rightarrow>
             let boundary = sm_last_index meta;
                 same = in_snapshot_of boundary tot (progress_of (ep_tracker ep) peer);
                 ep = (if same then ep
                       else ep\<lparr>ep_tracker := progress_mut peer (become_snapshot boundary tot) (ep_tracker ep)\<rparr>);
                 start = min (if same then from_offset else 0) tot;
                 frame_budget = chunk_frame_budget E (ep_term ep) (cfg_id (ep_config ep)) meta start tot
             in if frame_budget = 0
                then (CS_Unsendable,
                      ep\<lparr>ep_snapshot := (ep_snapshot ep)\<lparr>ss_unsendable_meta_frames :=
                           saturating_add (ss_unsendable_meta_frames (ep_snapshot ep)) 1\<rparr>\<rparr>)
                else let chunk_len = min config_chunk frame_budget
                     in if start = from_offset then send_chunk_data peer meta start tot chunk_len chunk_at_from ep
                        else case st_snapshot_chunk E stab start chunk_len of
                               None \<Rightarrow> (CS_Deferred, ep)
                             | Some (Err _) \<Rightarrow> (CS_Poisoned, poison PR_SnapshotRead ep)
                             | Some (Ok (meta2, total2, read)) \<Rightarrow>
                                 if total2 \<noteq> tot \<or> \<not> identity_eq meta2 meta
                                 then (CS_Poisoned, poison PR_SnapshotRead ep)
                                 else send_chunk_data peer meta start tot chunk_len read ep)"

definition resend_snapshot ::
    "('i::linorder, 'f, 'c, 'n, 'p, 'r, 'l, 's) env \<Rightarrow> 'i \<Rightarrow> 's \<Rightarrow> ('i, 'f, 'n, 'p, 'r) endpoint \<Rightarrow>
     ChunkSend \<times> ('i, 'f, 'n, 'p, 'r) endpoint" where
  "resend_snapshot E peer stab ep =
     (let from_o = (case map_option pr_state (progress_of (ep_tracker ep) peer) of
                      Some (Snapshot _ acked _) \<Rightarrow> acked | _ \<Rightarrow> 0)
      in send_snapshot_chunk E peer stab from_o ep)"

section \<open>Appends\<close>

definition entry_size :: "entry \<Rightarrow> u64" where
  "entry_size e = 17 + of_nat (length (en_data e))"

record shared_entries =
  sh_next :: index
  sh_end :: index
  sh_entries :: "entry list"
  sh_last_sent :: index
  sh_bytes_sent :: u64

fun cap_tail :: "u64 \<Rightarrow> u64 \<Rightarrow> nat \<Rightarrow> entry list \<Rightarrow> entry list" where
  "cap_tail max_b budget frame_used [] = []"
| "cap_tail max_b budget frame_used (e # es) =
     (if (max_b = u64_max \<or> entry_size e \<le> budget) \<and>
         usize_saturating_add frame_used (entry_frame_cost e) \<le> APPEND_FRAME_ENTRY_BUDGET
      then e # cap_tail max_b (saturating_sub budget (entry_size e)) (frame_used + entry_frame_cost e) es
      else [])"

definition cap_entries :: "u64 \<Rightarrow> entry list \<Rightarrow> entry list" where
  "cap_entries max_b es =
     (case es of
        [] \<Rightarrow> []
      | e # rest \<Rightarrow>
          e # cap_tail max_b (saturating_sub max_b (entry_size e)) (entry_frame_cost e) rest)"

definition fresh_entries ::
    "('i, 'f, 'c, 'n, 'p, 'r, 'l, 's) env \<Rightarrow> 'l \<Rightarrow> u64 \<Rightarrow> index \<Rightarrow> index \<Rightarrow> index \<Rightarrow>
     (shared_entries, PoisonReason option) result" where
  "fresh_entries E logs max_b next_i end_i prev_index =
     (case (if next_i < end_i
            then log_entries E logs next_i
                   (min end_i (saturating_add next_i MAX_READ_BATCH_ENTRIES)) max_b
            else Ok (EntriesReady [])) of
        Ok EntriesPending \<Rightarrow> Err None
      | Err _ \<Rightarrow> Err (Some PR_LogRead)
      | Ok (EntriesReady batch) \<Rightarrow>
          let es = cap_entries max_b batch
          in Ok \<lparr>sh_next = next_i, sh_end = end_i, sh_entries = es,
                 sh_last_sent = (if es = [] then prev_index else en_index (List.last es)),
                 sh_bytes_sent = sum_list (map entry_size es)\<rparr>)"

text \<open>
  The entries for a peer at \<open>next\<close>: those already read for another peer at the same position, or a
  fresh capped read. An error ends the send: \<open>None\<close> for a read still pending, else the poison.
\<close>

definition entries_for ::
    "('i, 'f, 'c, 'n, 'p, 'r, 'l, 's) env \<Rightarrow> 'l \<Rightarrow> u64 \<Rightarrow> index \<Rightarrow> index \<Rightarrow> index \<Rightarrow>
     shared_entries option \<Rightarrow> (shared_entries, PoisonReason option) result" where
  "entries_for E logs max_b next_i end_i prev_index shared =
     (case shared of
        Some s \<Rightarrow>
          if sh_next s = next_i \<and> sh_end s = end_i then Ok s
          else fresh_entries E logs max_b next_i end_i prev_index
      | None \<Rightarrow> fresh_entries E logs max_b next_i end_i prev_index)"

definition send_entries ::
    "('i::linorder, 'f, 'c, 'n, 'p, 'r, 'l, 's) env \<Rightarrow> 'i \<Rightarrow> 'l \<Rightarrow> index \<Rightarrow> raft_term \<Rightarrow> shared_entries \<Rightarrow>
     ('i, 'f, 'n, 'p, 'r) endpoint \<Rightarrow> ('i, 'f, 'n, 'p, 'r) endpoint" where
  "send_entries E peer logs prev_index prev_term s ep =
     (let sent_partial = sh_last_sent s < log_last_index E logs;
          ep = send peer (MAppendEntries
                 \<lparr>ae_term = ep_term ep, ae_leader = cfg_id (ep_config ep), ae_prev_log_index = prev_index,
                  ae_prev_log_term = prev_term, ae_entries = sh_entries s,
                  ae_leader_commit = ep_commit ep\<rparr>) ep;
          empty = (sh_bytes_sent s = 0 \<and> sh_entries s = [])
      in case progress_of (ep_tracker ep) peer of
           None \<Rightarrow> ep
         | Some p \<Rightarrow>
             if (\<not> empty \<and> pr_state p = Replicate) \<or> sent_partial
             then ep\<lparr>ep_tracker :=
                     progress_mut peer (sent_entries (sh_last_sent s) (sh_bytes_sent s)) (ep_tracker ep)\<rparr>
             else ep)"

text \<open>A peer below the log's first index is handed to the snapshot path.\<close>

definition send_snapshot_instead ::
    "('i::linorder, 'f, 'c, 'n, 'p, 'r, 'l, 's) env \<Rightarrow> now \<Rightarrow> 'i \<Rightarrow> 's \<Rightarrow>
     ('i, 'f, 'n, 'p, 'r) endpoint \<Rightarrow> ('i, 'f, 'n, 'p, 'r) endpoint" where
  "send_snapshot_instead E now peer stab ep =
     (let (sent, ep) = send_snapshot_chunk E peer stab 0 ep; ss = ep_snapshot ep
      in case sent of
           CS_Sent \<Rightarrow>
             ep\<lparr>ep_snapshot := ss\<lparr>ss_snapshot_resend_after :=
                  bm_insert peer (instant_add (mono now) (cfg_election_timeout (ep_config ep)))
                    (ss_snapshot_resend_after ss)\<rparr>\<rparr>
         | CS_Poisoned \<Rightarrow> ep
         | _ \<Rightarrow> ep\<lparr>ep_snapshot := ss\<lparr>ss_snapshot_resend_after :=
                  AList.delete peer (ss_snapshot_resend_after ss)\<rparr>\<rparr>)"

definition maybe_send_append_shared ::
    "('i::linorder, 'f, 'c, 'n, 'p, 'r, 'l, 's) env \<Rightarrow> now \<Rightarrow> 'i \<Rightarrow> 'l \<Rightarrow> 's \<Rightarrow> shared_entries option \<Rightarrow>
     ('i, 'f, 'n, 'p, 'r) endpoint \<Rightarrow> ('i, 'f, 'n, 'p, 'r) endpoint \<times> shared_entries option" where
  "maybe_send_append_shared E now peer logs stab shared ep =
     (if is_poisoned ep then (ep, shared)
      else case progress_of (ep_tracker ep) peer of
             None \<Rightarrow> (ep, shared)
           | Some pr \<Rightarrow>
               let next_i = next_index pr
               in if is_paused pr then (ep, shared)
                  else if next_i < log_first_index E logs
                  then (send_snapshot_instead E now peer stab ep, shared)
                  else let prev_index = saturating_sub next_i 1;
                           (prev_term, ep) = (if prev_index = 0 then (Some 0, ep)
                                              else log_term E logs prev_index ep)
                       in case prev_term of
                            None \<Rightarrow> (ep, shared)
                          | Some prev_term \<Rightarrow>
                              (case entries_for E logs (cfg_max_size_per_msg (ep_config ep)) next_i
                                      (counter_next (log_last_index E logs)) prev_index shared of
                                 Err None \<Rightarrow> (ep, shared)
                               | Err (Some reason) \<Rightarrow> (poison reason ep, shared)
                               | Ok s \<Rightarrow> (send_entries E peer logs prev_index prev_term s ep, Some s)))"

definition maybe_send_append ::
    "('i::linorder, 'f, 'c, 'n, 'p, 'r, 'l, 's) env \<Rightarrow> now \<Rightarrow> 'i \<Rightarrow> 'l \<Rightarrow> 's \<Rightarrow>
     ('i, 'f, 'n, 'p, 'r) endpoint \<Rightarrow> ('i, 'f, 'n, 'p, 'r) endpoint" where
  "maybe_send_append E now peer logs stab ep = fst (maybe_send_append_shared E now peer logs stab None ep)"

text \<open>
  The pump sends while each message moves the peer's next index. The recursion is on a bound of the
  messages, one more than the log has indices and the two a peer handed to the snapshot path takes.
\<close>

fun pump_loop ::
    "('i::linorder, 'f, 'c, 'n, 'p, 'r, 'l, 's) env \<Rightarrow> now \<Rightarrow> 'i \<Rightarrow> 'l \<Rightarrow> 's \<Rightarrow> nat \<Rightarrow>
     ('i, 'f, 'n, 'p, 'r) endpoint \<Rightarrow> ('i, 'f, 'n, 'p, 'r) endpoint" where
  "pump_loop E now peer logs stab 0 ep = ep"
| "pump_loop E now peer logs stab (Suc fuel) ep =
     (case progress_of (ep_tracker ep) peer of
        None \<Rightarrow> ep
      | Some pr \<Rightarrow>
          if is_paused pr then ep
          else let ep = maybe_send_append E now peer logs stab ep
               in if is_poisoned ep then ep
                  else case progress_of (ep_tracker ep) peer of
                         None \<Rightarrow> ep
                       | Some pr' \<Rightarrow>
                           if next_index pr' = next_index pr then ep
                           else pump_loop E now peer logs stab fuel ep)"

definition pump_appends ::
    "('i::linorder, 'f, 'c, 'n, 'p, 'r, 'l, 's) env \<Rightarrow> now \<Rightarrow> 'i \<Rightarrow> 'l \<Rightarrow> 's \<Rightarrow>
     ('i, 'f, 'n, 'p, 'r) endpoint \<Rightarrow> ('i, 'f, 'n, 'p, 'r) endpoint" where
  "pump_appends E now peer logs stab ep =
     (if is_poisoned ep then ep
      else pump_loop E now peer logs stab (unat (log_last_index E logs) + 3) ep)"

fun flush_loop ::
    "('i::linorder, 'f, 'c, 'n, 'p, 'r, 'l, 's) env \<Rightarrow> now \<Rightarrow> 'l \<Rightarrow> 's \<Rightarrow> 'i list \<Rightarrow> shared_entries option \<Rightarrow>
     ('i, 'f, 'n, 'p, 'r) endpoint \<Rightarrow> ('i, 'f, 'n, 'p, 'r) endpoint" where
  "flush_loop E now logs stab [] shared ep = ep"
| "flush_loop E now logs stab (peer # ps) shared ep =
     (let (ep, shared) =
            (case progress_of (ep_tracker ep) peer of
               Some pr \<Rightarrow>
                 if next_index pr \<le> log_last_index E logs
                 then maybe_send_append_shared E now peer logs stab shared ep
                 else (ep, shared)
             | None \<Rightarrow> (ep, shared))
      in flush_loop E now logs stab ps shared ep)"

definition flush_appends ::
    "('i::linorder, 'f, 'c, 'n, 'p, 'r, 'l, 's) env \<Rightarrow> now \<Rightarrow> 'l \<Rightarrow> 's \<Rightarrow>
     ('i, 'f, 'n, 'p, 'r) endpoint \<Rightarrow> ('i, 'f, 'n, 'p, 'r) endpoint" where
  "flush_appends E now logs stab ep =
     (if is_poisoned ep then ep
      else if ep_role ep \<noteq> Leader then ep
      else if \<not> ep_replication_pending ep then ep
      else let ps = filter (\<lambda>p. p \<noteq> cfg_id (ep_config ep)) (map fst (tr_progress (ep_tracker ep)))
           in (flush_loop E now logs stab ps None ep)\<lparr>ep_peers_scratch := [], ep_replication_pending := False\<rparr>)"

end
