(* ===== verification/Ledgers.thy ===== *)
theory Ledgers
  imports Sending
begin

text \<open>
  What a leader owes to nodes outside normal replication: farewells to removed members, courtesy
  snapshots to members removed while unreachable, and cure snapshots to peers stuck behind a merge
  (\<^verbatim>\<open>sailing-proto/src/endpoint/mod.rs\<close>, \<^verbatim>\<open>endpoint/snapshot.rs\<close>). Each ledger is a bounded map keyed by
  the peer. Products of a small constant and the election timeout cannot overflow under the ceiling
  of the configuration.
\<close>

section \<open>Farewells\<close>

definition send_farewell_append ::
    "('i, 'f, 'c, 'n, 'p, 'r, 'l, 's) env \<Rightarrow> 'l \<Rightarrow> 'i \<Rightarrow> index \<Rightarrow> index \<Rightarrow>
     ('i, 'f, 'n, 'p, 'r) endpoint \<Rightarrow> bool \<times> ('i, 'f, 'n, 'p, 'r) endpoint" where
  "send_farewell_append E logs peer matched removal ep =
     (let next_i = counter_next matched
      in if next_i < log_first_index E logs then (False, ep)
         else let (prev_term, ep) = (if matched = 0 then (Some 0, ep) else log_term E logs matched ep)
              in case prev_term of
                   None \<Rightarrow> (False, ep)
                 | Some prev_term \<Rightarrow>
                     (case log_entries E logs next_i
                             (min (counter_next removal) (saturating_add next_i MAX_READ_BATCH_ENTRIES))
                             (of_nat APPEND_FRAME_ENTRY_BUDGET) of
                        Ok EntriesPending \<Rightarrow> (False, ep)
                      | Err _ \<Rightarrow> (False, poison PR_LogRead ep)
                      | Ok (EntriesReady suffix) \<Rightarrow>
                          if suffix = [] \<or> en_index (List.last suffix) \<noteq> removal then (False, ep)
                          else if fold (\<lambda>e used. usize_saturating_add used (entry_frame_cost e)) suffix 0
                                  > APPEND_FRAME_ENTRY_BUDGET
                          then (False, ep)
                          else (True,
                                send peer (MAppendEntries
                                  \<lparr>ae_term = ep_term ep, ae_leader = cfg_id (ep_config ep),
                                   ae_prev_log_index = matched, ae_prev_log_term = prev_term,
                                   ae_entries = suffix, ae_leader_commit = removal\<rparr>) ep)))"

definition send_farewell ::
    "('i, 'f, 'c, 'n, 'p, 'r, 'l, 's) env \<Rightarrow> 'l \<Rightarrow> 'i \<Rightarrow> index \<Rightarrow> index \<Rightarrow>
     ('i, 'f, 'n, 'p, 'r) endpoint \<Rightarrow> ('i, 'f, 'n, 'p, 'r) endpoint" where
  "send_farewell E logs peer matched idx ep =
     (let (sent, ep) = (if matched < idx then send_farewell_append E logs peer matched idx ep
                        else (False, ep))
      in if sent then ep
         else if is_poisoned ep then ep
         else send peer (MHeartbeat (heartbeat_new (ep_term ep) (cfg_id (ep_config ep))
                (min (ep_commit ep) matched) [])) ep)"

text \<open>
  The sweep takes the map, sends every farewell that is due and drops those out of shots; the
  endpoint holds the kept map again at the end.
\<close>

fun sweep_farewells ::
    "('i, 'f, 'c, 'n, 'p, 'r, 'l, 's) env \<Rightarrow> 'l \<Rightarrow> instant \<Rightarrow> duration \<Rightarrow> ('i, farewell_retry) btree_map \<Rightarrow>
     ('i, 'f, 'n, 'p, 'r) endpoint \<Rightarrow> ('i, farewell_retry) btree_map \<times> ('i, 'f, 'n, 'p, 'r) endpoint" where
  "sweep_farewells E logs now_mono interval [] ep = ([], ep)"
| "sweep_farewells E logs now_mono interval ((peer, retry) # rest) ep =
     (let due = (case fw_next_at retry of None \<Rightarrow> True | Some t \<Rightarrow> t \<le> now_mono)
      in if \<not> due
         then let (kept, ep) = sweep_farewells E logs now_mono interval rest ep
              in ((peer, retry) # kept, ep)
         else let ep = (if \<not> is_poisoned ep
                        then send_farewell E logs peer (fw_matched retry) (fw_idx retry) ep else ep);
                  shots = fw_shots_left retry - 1;
                  (kept, ep) = sweep_farewells E logs now_mono interval rest ep
              in (if shots = 0 then kept
                  else (peer, retry\<lparr>fw_shots_left := shots,
                                    fw_next_at := Some (instant_add now_mono interval)\<rparr>) # kept, ep))"

definition drive_pending_farewells ::
    "('i, 'f, 'c, 'n, 'p, 'r, 'l, 's) env \<Rightarrow> now \<Rightarrow> 'l \<Rightarrow> ('i, 'f, 'n, 'p, 'r) endpoint \<Rightarrow>
     ('i, 'f, 'n, 'p, 'r) endpoint" where
  "drive_pending_farewells E now logs ep =
     (if ep_applied ep < ep_term_start_index ep then ep
      else if ep_role ep \<noteq> Leader then ep
      else if ep_pending_farewells ep = [] then ep
      else let (kept, ep) = sweep_farewells E logs (mono now) (cfg_election_timeout (ep_config ep))
                              (ep_pending_farewells ep) (ep\<lparr>ep_pending_farewells := []\<rparr>)
           in ep\<lparr>ep_pending_farewells := kept\<rparr>)"

section \<open>Courtesy snapshots\<close>

definition note_courtesy_debt ::
    "'i::linorder \<Rightarrow> index \<Rightarrow> ('i, 'f, 'n, 'p, 'r) endpoint \<Rightarrow> ('i, 'f, 'n, 'p, 'r) endpoint" where
  "note_courtesy_debt peer removal_index ep =
     (let owed = ep_courtesy_owed ep;
          owed = (if \<not> bm_contains owed peer \<and> length owed \<ge> COURTESY_DEBT_CAP
                  then case min_by_key (\<lambda>(_, d). co_removal_index d) owed of
                         Some (oldest, _) \<Rightarrow> AList.delete oldest owed
                       | None \<Rightarrow> owed
                  else owed)
      in ep\<lparr>ep_courtesy_owed :=
             bm_insert peer \<lparr>co_removal_index = removal_index, co_offered_index = None,
                             co_next_at = None, co_last_seen_term = None\<rparr> owed\<rparr>)"

definition note_courtesy_debt_at_boundary ::
    "'i::linorder \<Rightarrow> index \<Rightarrow> ('i, 'f, 'n, 'p, 'r) endpoint \<Rightarrow> ('i, 'f, 'n, 'p, 'r) endpoint" where
  "note_courtesy_debt_at_boundary peer boundary ep =
     (case map_of (ep_courtesy_owed ep) peer of
        Some d \<Rightarrow> if co_removal_index d \<ge> boundary then ep else note_courtesy_debt peer boundary ep
      | None \<Rightarrow> note_courtesy_debt peer boundary ep)"

definition before_next :: "now \<Rightarrow> instant option \<Rightarrow> bool" where
  "before_next now t = (case t of Some d \<Rightarrow> mono now < d | None \<Rightarrow> False)"

definition maybe_send_courtesy_snapshot ::
    "('i::linorder, 'f, 'c, 'n, 'p, 'r, 'l, 's) env \<Rightarrow> now \<Rightarrow> 'i \<Rightarrow> 's \<Rightarrow>
     ('i, 'f, 'n, 'p, 'r) endpoint \<Rightarrow> ('i, 'f, 'n, 'p, 'r) endpoint" where
  "maybe_send_courtesy_snapshot E now peer stab ep =
     (case map_of (ep_courtesy_owed ep) peer of
        None \<Rightarrow> ep
      | Some debt \<Rightarrow>
          if ep_applied ep < ep_term_start_index ep then ep
          else if bm_contains (ep_pending_farewells ep) peer then ep
          else if before_next now (co_next_at debt) then ep
          else if (case co_last_seen_term debt of Some seen \<Rightarrow> ep_term ep < seen | None \<Rightarrow> False) then ep
          else case st_snapshot_chunk E stab 0 MAX_SNAPSHOT_CHUNK_BYTES of
                 Some (Ok (meta, tot, ChunkReady blob)) \<Rightarrow>
                   if sm_last_index meta < co_removal_index debt \<or> conf_names (sm_conf meta) peer then ep
                   else if of_nat (length blob) \<noteq> tot then ep
                   else if usize_saturating_add
                             (install_snapshot_encoded_len E (ep_term ep) (cfg_id (ep_config ep)) meta 0 0
                                (of_nat (length blob))) GROUP_HEADER_RESERVE > MAX_FRAME_BYTES
                   then ep
                   else let interval = COURTESY_COOLDOWN_TIMEOUTS * cfg_election_timeout (ep_config ep);
                            ep = ep\<lparr>ep_courtesy_owed :=
                                   bm_update peer
                                     (\<lambda>d. d\<lparr>co_offered_index :=
                                              Some (case co_offered_index d of Some i \<Rightarrow> i
                                                    | None \<Rightarrow> sm_last_index meta),
                                            co_next_at := Some (instant_add (mono now) interval)\<rparr>)
                                     (ep_courtesy_owed ep)\<rparr>
                        in send peer (MInstallSnapshot
                             \<lparr>ins_term = ep_term ep, ins_leader = cfg_id (ep_config ep),
                              ins_snapshot = meta, ins_data = blob, ins_offset = 0, ins_total_len = 0\<rparr>) ep
               | _ \<Rightarrow> ep)"

definition drive_courtesy_offers ::
    "('i::linorder, 'f, 'c, 'n, 'p, 'r, 'l, 's) env \<Rightarrow> now \<Rightarrow> 's \<Rightarrow>
     ('i, 'f, 'n, 'p, 'r) endpoint \<Rightarrow> ('i, 'f, 'n, 'p, 'r) endpoint" where
  "drive_courtesy_offers E now stab ep =
     (if ep_role ep \<noteq> Leader \<or> ep_courtesy_owed ep = [] then ep
      else if ep_applied ep < ep_term_start_index ep then ep
      else let due = map fst (filter (\<lambda>(_, d). case co_next_at d of None \<Rightarrow> True | Some t \<Rightarrow> t \<le> mono now)
                                (ep_courtesy_owed ep))
           in fold (\<lambda>peer. maybe_send_courtesy_snapshot E now peer stab) due ep)"

section \<open>Cure snapshots\<close>

definition cure_due_key :: "cure_debt \<Rightarrow> instant" where
  "cure_due_key d = (case cd_next_at d of Some t \<Rightarrow> t | None \<Rightarrow> 0)"

definition note_cure_debt ::
    "now \<Rightarrow> 'i::linorder \<Rightarrow> index \<Rightarrow> ('i, 'f, 'n, 'p, 'r) endpoint \<Rightarrow> ('i, 'f, 'n, 'p, 'r) endpoint" where
  "note_cure_debt now peer boundary ep =
     (let room = (if \<not> bm_contains (ep_cure_owed ep) peer \<and> length (ep_cure_owed ep) \<ge> COURTESY_DEBT_CAP
                  then map_option (\<lambda>(victim, _). AList.delete victim (ep_cure_owed ep))
                         (max_by_key (\<lambda>(_, d). cure_due_key d)
                            (filter (\<lambda>(_, d). cd_next_at d \<noteq> None) (ep_cure_owed ep)))
                  else Some (ep_cure_owed ep))
      in case room of
           None \<Rightarrow> ep
         | Some owed \<Rightarrow>
             let inherited = (case map_of (ep_cure_served ep) peer of
                                Some t \<Rightarrow> if mono now < t then Some t else None | None \<Rightarrow> None);
                 d = (case map_of owed peer of
                        Some d \<Rightarrow> d
                      | None \<Rightarrow> \<lparr>cd_boundary = boundary, cd_next_at = inherited, cd_refreshed_at = mono now\<rparr>)
             in ep\<lparr>ep_cure_owed :=
                    bm_insert peer (d\<lparr>cd_boundary := max (cd_boundary d) boundary,
                                      cd_refreshed_at := mono now\<rparr>) owed\<rparr>)"

text \<open>The map of served cures keeps at most the cap, evicting the one served the longest ago.\<close>

definition note_cure_served ::
    "'i::linorder \<Rightarrow> instant \<Rightarrow> ('i, instant) btree_map \<Rightarrow> ('i, instant) btree_map" where
  "note_cure_served peer t srv =
     bm_insert peer t
       (if \<not> bm_contains srv peer \<and> length srv \<ge> COURTESY_DEBT_CAP
        then case min_by_key snd srv of
               Some (oldest, _) \<Rightarrow> AList.delete oldest srv | None \<Rightarrow> srv
        else srv)"

definition deliver_cure ::
    "('i::linorder, 'f, 'c, 'n, 'p, 'r, 'l, 's) env \<Rightarrow> now \<Rightarrow> 'i \<Rightarrow> index \<Rightarrow> 'i snapshot_meta \<Rightarrow> u64 \<Rightarrow>
     bytes \<Rightarrow> ('i, 'f, 'n, 'p, 'r) endpoint \<Rightarrow> ('i, 'f, 'n, 'p, 'r) endpoint" where
  "deliver_cure E now peer boundary meta tot blob ep =
     (if of_nat (length blob) \<noteq> tot \<or>
         usize_saturating_add
           (install_snapshot_encoded_len E (ep_term ep) (cfg_id (ep_config ep)) meta 0 0 tot)
           GROUP_HEADER_RESERVE > MAX_FRAME_BYTES
      then push_event (EvMergeCureUndeliverable peer boundary) ep
      else let interval = COURTESY_COOLDOWN_TIMEOUTS * cfg_election_timeout (ep_config ep);
               t = instant_add (mono now) interval;
               ep = ep\<lparr>ep_cure_owed := bm_update peer (\<lambda>d. d\<lparr>cd_next_at := Some t\<rparr>) (ep_cure_owed ep),
                       ep_cure_served := note_cure_served peer t (ep_cure_served ep),
                       ep_cure_send_gate :=
                         Some (instant_add (mono now) (cfg_election_timeout (ep_config ep) div 2))\<rparr>
           in ep\<lparr>ep_outputs := (ep_outputs ep)\<lparr>ou_outgoing := ou_outgoing (ep_outputs ep) @
                   [(peer, MInstallSnapshot
                      \<lparr>ins_term = ep_term ep, ins_leader = cfg_id (ep_config ep), ins_snapshot = meta,
                       ins_data = blob, ins_offset = 0, ins_total_len = 0\<rparr>)]\<rparr>\<rparr>)"

definition maybe_send_cure_snapshot ::
    "('i::linorder, 'f, 'c, 'n, 'p, 'r, 'l, 's) env \<Rightarrow> now \<Rightarrow> 'i \<Rightarrow> 's \<Rightarrow>
     ('i, 'f, 'n, 'p, 'r) endpoint \<Rightarrow> ('i, 'f, 'n, 'p, 'r) endpoint" where
  "maybe_send_cure_snapshot E now peer stab ep =
     (if ep_role ep \<noteq> Leader then ep
      else case map_of (ep_cure_owed ep) peer of
             None \<Rightarrow> ep
           | Some debt \<Rightarrow>
               if progress_of (ep_tracker ep) peer = None
               then ep\<lparr>ep_cure_owed := AList.delete peer (ep_cure_owed ep)\<rparr>
               else if before_next now (cd_next_at debt) then ep
               else if before_next now (ep_cure_send_gate ep) then ep
               else case st_snapshot_chunk E stab 0 MAX_SNAPSHOT_CHUNK_BYTES of
                      None \<Rightarrow> ep
                    | Some (Err _) \<Rightarrow> poison PR_SnapshotRead ep
                    | Some (Ok (meta, tot, chunk)) \<Rightarrow>
                        if sm_last_index meta < cd_boundary debt then ep
                        else case chunk of
                               ChunkPending \<Rightarrow> ep
                             | ChunkReady blob \<Rightarrow> deliver_cure E now peer (cd_boundary debt) meta tot blob ep)"

definition drive_cure_sweep ::
    "('i::linorder, 'f, 'c, 'n, 'p, 'r, 'l, 's) env \<Rightarrow> now \<Rightarrow> 's \<Rightarrow>
     ('i, 'f, 'n, 'p, 'r) endpoint \<Rightarrow> ('i, 'f, 'n, 'p, 'r) endpoint" where
  "drive_cure_sweep E now stab ep =
     (if ep_cure_owed ep = [] then ep
      else let expiry = cfg_election_timeout (ep_config ep) * CURE_EXPIRY_TIMEOUTS;
               ep = ep\<lparr>ep_cure_owed :=
                      filter (\<lambda>(_, d). duration_since (mono now) (cd_refreshed_at d) \<le> expiry) (ep_cure_owed ep)\<rparr>
           in if ep_role ep \<noteq> Leader then ep
              else let cold = map fst (filter (\<lambda>(_, d). cd_next_at d = None) (ep_cure_owed ep));
                       due = (if cold = []
                              then map fst (filter (\<lambda>(_, d). case cd_next_at d of
                                                      Some t \<Rightarrow> t \<le> mono now | None \<Rightarrow> False) (ep_cure_owed ep))
                              else cold);
                       due = (case ep_cure_cursor ep of
                                Some cursor \<Rightarrow> rotate (length (takeWhile (\<lambda>p. p \<le> cursor) due)) due
                              | None \<Rightarrow> due);
                       ep = (case due of first # _ \<Rightarrow> ep\<lparr>ep_cure_cursor := Some first\<rparr> | [] \<Rightarrow> ep)
                   in fold (\<lambda>peer. maybe_send_cure_snapshot E now peer stab) due ep)"

definition sender_real_term :: "'i message \<Rightarrow> raft_term" where
  "sender_real_term msg =
     (case msg of
        MRequestVote rv \<Rightarrow> if rv_pre_vote rv then saturating_sub (rv_term rv) 1 else rv_term rv
      | other \<Rightarrow> msg_term other)"

end
