(* ===== verification/Leader_Log.thy ===== *)
theory Leader_Log
  imports Ledgers Confchange
begin

text \<open>
  How a leader extends its log and its commit index: proposals of commands, configuration changes,
  read modes, splits and merges (\<^verbatim>\<open>sailing-proto/src/endpoint/replication.rs\<close>, \<^verbatim>\<open>membership.rs\<close>,
  \<^verbatim>\<open>read_mode.rs\<close>, \<^verbatim>\<open>split.rs\<close>, \<^verbatim>\<open>merge.rs\<close>), the no-op of a new term (\<^verbatim>\<open>election.rs\<close>), and the advance of
  the commit index past the inherited commit wait (\<^verbatim>\<open>replication.rs\<close>).
\<close>

datatype 'i ProposeError =
    PE_NotLeader "'i option"
  | PE_ConfChangeInFlight
  | PE_ReadModeChangeInFlight
  | PE_InvalidReadMode
  | PE_LeaderTransferInProgress
  | PE_InvalidConfChange
  | PE_Poisoned
  | PE_LogIndexExhausted
  | PE_MergeInFlight
  | PE_Frozen
  | PE_EntryTooLarge nat nat
  | PE_BelowFloor u64
  | PE_MembershipTooLargeToSnapshot nat nat

section \<open>Appending one entry\<close>

text \<open>An entry of this term with the three lease stamps.\<close>

definition stamped_entry ::
    "now \<Rightarrow> index \<Rightarrow> EntryKind \<Rightarrow> bytes \<Rightarrow> ('i, 'f, 'n, 'p, 'r) endpoint \<Rightarrow>
     entry \<times> ('i, 'f, 'n, 'p, 'r) endpoint" where
  "stamped_entry now idx kind data ep =
     (let e = entry_new (ep_term ep) idx kind data; (w, ep') = lease_wall_stamp now ep
      in (e\<lparr>en_timestamp := lease_stamp (mono now) ep, en_lease_window := lease_window_stamp ep,
            en_wall_timestamp := w\<rparr>, ep'))"

definition append_own ::
    "('i, 'f, 'c, 'n, 'p, 'r, 'l, 's) env \<Rightarrow> entry \<Rightarrow> ('i, 'f, 'n, 'p, 'r) endpoint \<Rightarrow> 'l \<Rightarrow>
     ('i, 'f, 'n, 'p, 'r) endpoint \<times> 'l" where
  "append_own E e ep logs =
     (let (opid, ep) = mint_op_id ep;
          (ep, logs) = submit_append E opid [e] ep logs;
          ep = push_pending opid (LeaderAppend (en_index e)) ep
      in (ep\<lparr>ep_replication_pending := True\<rparr>, logs))"

definition append_leader_noop ::
    "('i, 'f, 'c, 'n, 'p, 'r, 'l, 's) env \<Rightarrow> now \<Rightarrow> index \<Rightarrow> ('i, 'f, 'n, 'p, 'r) endpoint \<Rightarrow> 'l \<Rightarrow>
     index option \<times> ('i, 'f, 'n, 'p, 'r) endpoint \<times> 'l" where
  "append_leader_noop E now last_i ep logs =
     (if is_poisoned ep then (None, ep, logs)
      else case next_log_index last_i of
             None \<Rightarrow> (None, poison PR_LogExhausted ep, logs)
           | Some noop_index \<Rightarrow>
               let (noop, ep) = stamped_entry now noop_index EK_Empty [] ep;
                   (ep, logs) = append_own E noop ep logs
               in (Some noop_index, ep, logs))"

text \<open>The refusals every proposal shares, in their order.\<close>

definition propose_gate :: "('i, 'f, 'n, 'p, 'r) endpoint \<Rightarrow> 'i ProposeError option" where
  "propose_gate ep =
     (if is_poisoned ep then Some PE_Poisoned
      else if ep_role ep \<noteq> Leader then Some (PE_NotLeader (ep_leader ep))
      else if tf_lead_transferee (ep_transfer ep) \<noteq> None then Some PE_LeaderTransferInProgress
      else None)"

definition propose ::
    "('i, 'f, 'c, 'n, 'p, 'r, 'l, 's) env \<Rightarrow> now \<Rightarrow> 'c \<Rightarrow> ('i, 'f, 'n, 'p, 'r) endpoint \<Rightarrow> 'l \<Rightarrow>
     (index, 'i ProposeError) result \<times> ('i, 'f, 'n, 'p, 'r) endpoint \<times> 'l" where
  "propose E now cmd ep logs =
     (case propose_gate ep of
        Some err \<Rightarrow> (Err err, ep, logs)
      | None \<Rightarrow>
          if merge_freeze_active ep then (Err PE_Frozen, ep, logs)
          else case next_log_index (log_last_index E logs) of
                 None \<Rightarrow> (Err PE_LogIndexExhausted, ep, logs)
               | Some idx \<Rightarrow>
                   let (e, ep) = stamped_entry now idx EK_Normal (encode_command E cmd) ep; cost = entry_frame_cost e
                   in if cost > APPEND_FRAME_ENTRY_BUDGET
                      then (Err (PE_EntryTooLarge cost APPEND_FRAME_ENTRY_BUDGET), ep, logs)
                      else let (ep, logs) = append_own E e ep logs in (Ok idx, ep, logs))"

definition propose_split_entry ::
    "('i, 'f, 'c, 'n, 'p, 'r, 'l, 's) env \<Rightarrow> now \<Rightarrow> bytes \<Rightarrow> bytes \<Rightarrow>
     ('i, 'f, 'n, 'p, 'r) endpoint \<Rightarrow> 'l \<Rightarrow>
     (index, 'i ProposeError) result \<times> ('i, 'f, 'n, 'p, 'r) endpoint \<times> 'l" where
  "propose_split_entry E now child_bytes payload ep logs =
     (case propose_gate ep of
        Some err \<Rightarrow> (Err err, ep, logs)
      | None \<Rightarrow>
          (case next_log_index (log_last_index E logs) of
             None \<Rightarrow> (Err PE_LogIndexExhausted, ep, logs)
           | Some idx \<Rightarrow>
               let (e, ep) = stamped_entry now idx EK_Split payload ep; cost = entry_frame_cost e
               in if cost > APPEND_FRAME_ENTRY_BUDGET
                  then (Err (PE_EntryTooLarge cost APPEND_FRAME_ENTRY_BUDGET), ep, logs)
                  else let (ep, logs) = append_own E e ep logs
                       in (Ok idx,
                           ep\<lparr>ep_split := (ep_split ep)\<lparr>sl_pending_split_index := idx,
                                sl_pending_split_child := child_bytes\<rparr>\<rparr>, logs)))"

definition propose_merge_entry ::
    "('i, 'f, 'c, 'n, 'p, 'r, 'l, 's) env \<Rightarrow> now \<Rightarrow> EntryKind \<Rightarrow> bytes \<Rightarrow>
     ('i, 'f, 'n, 'p, 'r) endpoint \<Rightarrow> 'l \<Rightarrow>
     (index, 'i ProposeError) result \<times> ('i, 'f, 'n, 'p, 'r) endpoint \<times> 'l" where
  "propose_merge_entry E now kind payload ep logs =
     (case propose_gate ep of
        Some err \<Rightarrow> (Err err, ep, logs)
      | None \<Rightarrow>
          (case next_log_index (log_last_index E logs) of
             None \<Rightarrow> (Err PE_LogIndexExhausted, ep, logs)
           | Some idx \<Rightarrow>
               let (e, ep) = stamped_entry now idx kind payload ep; cost = entry_frame_cost e
               in if cost > APPEND_FRAME_ENTRY_BUDGET
                  then (Err (PE_EntryTooLarge cost APPEND_FRAME_ENTRY_BUDGET), ep, logs)
                  else let (ep, logs) = append_own E e ep logs;
                           ep = (if kind = EK_PrepareMerge then note_freeze_appended idx ep else ep);
                           ep = (if kind = EK_CommitMerge
                                 then ep\<lparr>ep_merge := (ep_merge ep)\<lparr>me_pending_commit_index := idx\<rparr>\<rparr> else ep);
                           ep = (if kind = EK_RollbackMerge
                                 then ep\<lparr>ep_merge := (ep_merge ep)\<lparr>me_pending_rollback_index := idx\<rparr>\<rparr> else ep)
                       in (Ok idx, ep, logs)))"

definition ensure_merge_seal ::
    "('i, 'f, 'c, 'n, 'p, 'r, 'l, 's) env \<Rightarrow> now \<Rightarrow> ('i, 'f, 'n, 'p, 'r) endpoint \<Rightarrow> 'l \<Rightarrow>
     bool \<times> ('i, 'f, 'n, 'p, 'r) endpoint \<times> 'l" where
  "ensure_merge_seal E now ep logs =
     (if ep_role ep \<noteq> Leader then (False, ep, logs)
      else case me_pending_apply (ep_merge ep) of
             None \<Rightarrow> (False, ep, logs)
           | Some pend \<Rightarrow>
               if log_last_index E logs \<noteq> pa_at pend then (False, ep, logs)
               else let (r, ep, logs) = append_leader_noop E now (pa_at pend) ep logs
                    in (r \<noteq> None, ep, logs))"

section \<open>Configuration changes and read modes\<close>

definition MAX_SNAPSHOT_META_FRAME_BYTES :: nat where
  "MAX_SNAPSHOT_META_FRAME_BYTES = MAX_FRAME_BYTES div 2"

definition ep_conf_state :: "('i::linorder, 'f, 'n, 'p, 'r) endpoint \<Rightarrow> 'i conf_state" where
  "ep_conf_state ep = tr_conf_state (ep_tracker ep)"

definition append_conf_change ::
    "('i, 'f, 'c, 'n, 'p, 'r, 'l, 's) env \<Rightarrow> now \<Rightarrow> 'i conf_change_v2 \<Rightarrow>
     ('i, 'f, 'n, 'p, 'r) endpoint \<Rightarrow> 'l \<Rightarrow>
     index option \<times> ('i, 'f, 'n, 'p, 'r) endpoint \<times> 'l" where
  "append_conf_change E now cc ep logs =
     (if is_poisoned ep then (None, ep, logs)
      else case next_log_index (log_last_index E logs) of
             None \<Rightarrow> (None, ep, logs)
           | Some idx \<Rightarrow>
               let (e, ep) = stamped_entry now idx EK_ConfChange (encode_conf_change_v2 E cc) ep;
                   (ep, logs) = append_own E e ep logs
               in (Some idx, ep\<lparr>ep_pending_conf_index := idx\<rparr>, logs))"

text \<open>The tracker a change leads to, as the proposal and the apply path both compute it.\<close>

definition changed_tracker ::
    "changer \<Rightarrow> 'i::linorder conf_change_v2 \<Rightarrow> 'i tracker \<Rightarrow> ('i tracker, 'i ConfChangeError) result" where
  "changed_tracker c cc tr =
     (if v2_changes cc = [] \<and> v2_transition cc = Auto then leave_joint c tr
      else if v2_transition cc \<noteq> Auto \<or> length (v2_changes cc) > 1
      then enter_joint c tr (v2_transition cc \<noteq> Explicit) (v2_changes cc)
      else simple c tr (v2_changes cc))"

definition propose_conf_change_v2 ::
    "('i::linorder, 'f, 'c, 'n, 'p, 'r, 'l, 's) env \<Rightarrow> now \<Rightarrow> 'i conf_change_v2 \<Rightarrow>
     ('i, 'f, 'n, 'p, 'r) endpoint \<Rightarrow> 'l \<Rightarrow>
     (index, 'i ProposeError) result \<times> ('i, 'f, 'n, 'p, 'r) endpoint \<times> 'l" where
  "propose_conf_change_v2 E now cc ep logs =
     (case propose_gate ep of
        Some err \<Rightarrow> (Err err, ep, logs)
      | None \<Rightarrow>
          if merge_freeze_active ep then (Err PE_Frozen, ep, logs)
          else if ep_pending_conf_index ep > ep_applied ep then (Err PE_ConfChangeInFlight, ep, logs)
          else if merge_conf_fence E logs ep then (Err PE_MergeInFlight, ep, logs)
          else if \<not> list_all (\<lambda>c. id_within_wire_bound E (ccs_node c)) (v2_changes cc)
          then (Err PE_InvalidConfChange, ep, logs)
          else case changed_tracker
                      \<lparr>ch_last_index = log_last_index E logs,
                       ch_max_inflight_msgs = cfg_max_inflight_msgs (ep_config ep),
                       ch_max_inflight_bytes = cfg_max_inflight_bytes (ep_config ep)\<rparr> cc (ep_tracker ep) of
                 Err _ \<Rightarrow> (Err PE_InvalidConfChange, ep, logs)
               | Ok resulting \<Rightarrow>
                   let meta_frame = install_snapshot_encoded_len E (ep_term ep) (cfg_id (ep_config ep))
                         (snapshot_meta_new (ep_applied ep) 0 (tr_conf_state resulting)) 0 u64_max 0;
                       cost = usize_saturating_add (length (encode_conf_change_v2 E cc)) ENTRY_WIRE_OVERHEAD_MAX
                   in if meta_frame > MAX_SNAPSHOT_META_FRAME_BYTES
                      then (Err (PE_MembershipTooLargeToSnapshot meta_frame MAX_SNAPSHOT_META_FRAME_BYTES), ep, logs)
                      else if cost > APPEND_FRAME_ENTRY_BUDGET
                      then (Err (PE_EntryTooLarge cost APPEND_FRAME_ENTRY_BUDGET), ep, logs)
                      else case append_conf_change E now cc ep logs of
                             (Some idx, ep, logs) \<Rightarrow> (Ok idx, ep, logs)
                           | (None, ep, logs) \<Rightarrow> (Err PE_LogIndexExhausted, ep, logs))"

definition propose_conf_change ::
    "('i::linorder, 'f, 'c, 'n, 'p, 'r, 'l, 's) env \<Rightarrow> now \<Rightarrow> 'i conf_change \<Rightarrow>
     ('i, 'f, 'n, 'p, 'r) endpoint \<Rightarrow> 'l \<Rightarrow>
     (index, 'i ProposeError) result \<times> ('i, 'f, 'n, 'p, 'r) endpoint \<times> 'l" where
  "propose_conf_change E now cc ep logs = propose_conf_change_v2 E now (into_v2 cc) ep logs"

definition propose_read_mode_change ::
    "('i, 'f, 'c, 'n, 'p, 'r, 'l, 's) env \<Rightarrow> now \<Rightarrow> ReadOnlyOption \<Rightarrow>
     ('i, 'f, 'n, 'p, 'r) endpoint \<Rightarrow> 'l \<Rightarrow>
     (index, 'i ProposeError) result \<times> ('i, 'f, 'n, 'p, 'r) endpoint \<times> 'l" where
  "propose_read_mode_change E now mode ep logs =
     (case propose_gate ep of
        Some err \<Rightarrow> (Err err, ep, logs)
      | None \<Rightarrow>
          if merge_freeze_active ep then (Err PE_Frozen, ep, logs)
          else if rd_pending_read_mode_index (ep_reads ep) > ep_applied ep
          then (Err PE_ReadModeChangeInFlight, ep, logs)
          else if \<not> read_mode_change_valid mode (ep_config ep) then (Err PE_InvalidReadMode, ep, logs)
          else case next_log_index (log_last_index E logs) of
                 None \<Rightarrow> (Err PE_LogIndexExhausted, ep, logs)
               | Some idx \<Rightarrow>
                   let (e, ep) = stamped_entry now idx EK_SetReadMode [read_only_as_u8 mode] ep;
                       (ep, logs) = append_own E e ep logs
                   in (Ok idx, ep\<lparr>ep_reads := (ep_reads ep)\<lparr>rd_pending_read_mode_index := idx\<rparr>\<rparr>, logs))"

section \<open>Advancing the commit index\<close>

text \<open>
  The commit-wait gate of a leader that inherited a lease: cleared once the conservative or the
  precise release is due, pushed on by a heartbeat while a walled lease vetoes it. \<open>False\<close> ends the
  advance.
\<close>

definition commit_wait_gate ::
    "now \<Rightarrow> ('i, 'f, 'n, 'p, 'r) endpoint \<Rightarrow> bool \<times> ('i, 'f, 'n, 'p, 'r) endpoint" where
  "commit_wait_gate now ep =
     (case lg_commit_wait_until (ep_lease_guard ep) of
        None \<Rightarrow> (True, ep)
      | Some t \<Rightarrow>
          let conservative_mono = (mono now \<ge> t);
              walled_vetoes = (conservative_mono \<and> walled_lease_vetoes_conservative now ep);
              conservative = (conservative_mono \<and> \<not> walled_vetoes);
              precise = (\<not> conservative \<and> precise_release_ready now ep);
              g = ep_lease_guard ep
          in if conservative \<or> precise
             then (True, ep\<lparr>ep_lease_guard := g\<lparr>lg_commit_wait_until := None,
                              lg_precise_releases := (if precise then lg_precise_releases g + 1
                                                      else lg_precise_releases g)\<rparr>\<rparr>)
             else if walled_vetoes
             then let g = (if wall_is_absent (wall now) \<or> cfg_bounded_clock_uncertainty (ep_config ep) = None
                           then g\<lparr>lg_unprovable_floor_holds := saturating_add (lg_unprovable_floor_holds g) 1\<rparr>
                           else g);
                      heartbeat = cfg_heartbeat_interval (ep_config ep)
                  in if duration_add (mono now) heartbeat \<noteq> None
                     then (True, ep\<lparr>ep_lease_guard := g\<lparr>lg_commit_wait_until :=
                                      Some (instant_add (mono now) heartbeat)\<rparr>\<rparr>)
                     else (False, poison PR_CommitWaitUnrepresentable
                             (ep\<lparr>ep_lease_guard := g\<lparr>lg_commit_wait_until := None\<rparr>\<rparr>))
             else (True, ep))"

definition maybe_advance_commit ::
    "('i::linorder, 'f, 'c, 'n, 'p, 'r, 'l, 's) env \<Rightarrow> now \<Rightarrow> 'l \<Rightarrow> ('i, 'f, 'n, 'p, 'r) endpoint \<Rightarrow>
     ('i, 'f, 'n, 'p, 'r) endpoint" where
  "maybe_advance_commit E now logs ep =
     (if is_poisoned ep then ep
      else case commit_wait_gate now ep of
             (False, ep) \<Rightarrow> ep
           | (True, ep) \<Rightarrow>
               let candidate = quorum_committed (ep_tracker ep);
                   (t, ep) = log_term E logs candidate ep;
                   current_term = (t = Some (ep_term ep))
               in if candidate > ep_commit ep \<and> current_term
                  then if lg_commit_wait_until (ep_lease_guard ep) \<noteq> None then ep
                       else ep\<lparr>ep_commit := candidate,
                               ep_lease_guard := (ep_lease_guard ep)\<lparr>lg_read_since_anchor := False\<rparr>\<rparr>
                  else ep)"

end
