(* ===== verification/Apply.thy ===== *)
theory Apply
  imports Leader_Log
begin

text \<open>
  The apply loop, \<^verbatim>\<open>apply_committed\<close> of \<^verbatim>\<open>sailing-proto/src/endpoint/mod.rs\<close>: committed entries are read
  in bounded batches and applied in order, one function per entry kind, until the commit index is
  reached, the budget of the call is spent, a read has to wait, a merge parks the loop, or an entry
  poisons the node.
\<close>

section \<open>One entry\<close>

text \<open>An entry is applied, or it breaks the batch (the node is poisoned), or it parks the loop.\<close>

datatype ApplyOutcome = AE_Applied | AE_Break | AE_Parked

definition apply_normal ::
    "('i, 'f, 'c, 'n, 'p, 'r, 'l, 's) env \<Rightarrow> entry \<Rightarrow> ('i, 'f, 'n, 'p, 'r) endpoint \<Rightarrow>
     ApplyOutcome \<times> ('i, 'f, 'n, 'p, 'r) endpoint" where
  "apply_normal E e ep =
     (case decode_command E (en_data e) of
        Err _ \<Rightarrow> (AE_Break, poison PR_NormalEntryDecode ep)
      | Ok cmd \<Rightarrow>
          let (r, fsm) = fsm_apply E (en_index e) cmd (ep_fsm ep); ep = ep\<lparr>ep_fsm := fsm\<rparr>
          in case r of
               Ok response \<Rightarrow> (AE_Applied, push_event (EvApplied (en_index e) response) ep)
             | Err _ \<Rightarrow> (AE_Break, poison PR_Apply ep))"

definition raise_shape_gen ::
    "u64 \<Rightarrow> ('i, 'f, 'n, 'p, 'r) endpoint \<Rightarrow> ('i, 'f, 'n, 'p, 'r) endpoint" where
  "raise_shape_gen g ep =
     ep\<lparr>ep_split := (ep_split ep)\<lparr>sl_shape_gen := max (sl_shape_gen (ep_split ep)) g\<rparr>\<rparr>"

definition stage_fork ::
    "('i::linorder, 'f, 'c, 'n, 'p, 'r, 'l, 's) env \<Rightarrow> entry \<Rightarrow> split_payload \<Rightarrow> 'f \<Rightarrow> bytes \<Rightarrow>
     ('i, 'f, 'n, 'p, 'r) endpoint \<Rightarrow> ('i, 'f, 'n, 'p, 'r) endpoint" where
  "stage_fork E e p child blob ep =
     (let idx = en_index e;
          fork = \<lparr>pf_child_bytes = sp_child_bytes p, pf_child_gen = sp_child_gen p,
                  pf_parent_gen_after = sp_parent_gen_after p, pf_blob = blob,
                  pf_voters = btree_iter (cs_voters (tr_conf_state (ep_tracker ep))),
                  pf_read_only = (if rd_read_mode_migrated (ep_reads ep)
                                  then Some (rd_active_read_mode (ep_reads ep)) else None),
                  pf_index = idx, pf_split_term = en_term e\<rparr>;
          ep = raise_shape_gen (sp_parent_gen_after p) ep;
          ep = ep\<lparr>ep_split := (ep_split ep)\<lparr>sl_outstanding := finsert idx (sl_outstanding (ep_split ep))\<rparr>\<rparr>;
          ep = push_event (EvSplitApplied idx (sp_child_bytes p)) ep
      in ep\<lparr>ep_split := (ep_split ep)\<lparr>sl_forked_fsms := sl_forked_fsms (ep_split ep) @ [child],
              sl_pending_forks := sl_pending_forks (ep_split ep) @ [fork]\<rparr>\<rparr>)"

definition apply_split ::
    "('i::linorder, 'f, 'c, 'n, 'p, 'r, 'l, 's) env \<Rightarrow> entry \<Rightarrow> ('i, 'f, 'n, 'p, 'r) endpoint \<Rightarrow>
     ApplyOutcome \<times> ('i, 'f, 'n, 'p, 'r) endpoint" where
  "apply_split E e ep =
     (case decode_split_payload E (en_data e) of
        Err _ \<Rightarrow> (AE_Break, poison PR_SplitDecode ep)
      | Ok p \<Rightarrow>
          if shape_payload_reserves [sp_parent_gen_after p, sp_child_gen p]
          then (AE_Break, poison PR_ReservedShapeGen ep)
          else if Some (sp_parent_gen_after p) \<noteq> next_lineage (sl_shape_gen (ep_split ep))
          then (AE_Applied, push_event (EvSplitStale (en_index e) (sp_child_bytes p)
                  (sp_parent_gen_after p) (sl_shape_gen (ep_split ep))) ep)
          else let (half, fsm) = fsm_split E (sp_instruction p) (ep_fsm ep); ep = ep\<lparr>ep_fsm := fsm\<rparr>
               in case half of
                    None \<Rightarrow> (AE_Break, poison PR_SplitUnsupported ep)
                  | Some child \<Rightarrow>
                      (case fsm_snapshot E child of
                         Err _ \<Rightarrow> (AE_Break, poison PR_SnapshotCapture ep)
                       | Ok snap \<Rightarrow> (AE_Applied, stage_fork E e p child (encode_snapshot_data E snap) ep)))"

definition apply_prepare_merge ::
    "('i, 'f, 'c, 'n, 'p, 'r, 'l, 's) env \<Rightarrow> entry \<Rightarrow> ('i, 'f, 'n, 'p, 'r) endpoint \<Rightarrow>
     ApplyOutcome \<times> ('i, 'f, 'n, 'p, 'r) endpoint" where
  "apply_prepare_merge E e ep =
     (case decode_prepare_merge_payload E (en_data e) of
        Err _ \<Rightarrow> (AE_Break, poison PR_MergeDecode (clear_freeze_queue ep))
      | Ok p \<Rightarrow>
          if shape_payload_reserves [pm_source_gen_after p]
          then (AE_Break, poison PR_ReservedShapeGen (clear_freeze_queue ep))
          else let ep = pop_applied_freeze (en_index e) ep;
                   ep = ep\<lparr>ep_merge := (ep_merge ep)\<lparr>me_frozen := True,
                            me_freeze_index := Some (en_index e), me_freeze_term := Some (en_term e),
                            me_frozen_for := Some (pm_target_bytes p)\<rparr>\<rparr>;
                   ep = raise_shape_gen (pm_source_gen_after p) ep
               in (AE_Applied, push_event (EvMergeFrozen (en_index e) (sl_shape_gen (ep_split ep))) ep))"

definition apply_commit_merge ::
    "('i, 'f, 'c, 'n, 'p, 'r, 'l, 's) env \<Rightarrow> entry \<Rightarrow> ('i, 'f, 'n, 'p, 'r) endpoint \<Rightarrow>
     ApplyOutcome \<times> ('i, 'f, 'n, 'p, 'r) endpoint" where
  "apply_commit_merge E e ep =
     (case decode_commit_merge_payload E (en_data e) of
        Err _ \<Rightarrow> (AE_Break, poison PR_MergeDecode ep)
      | Ok p \<Rightarrow>
          let aborted = push_event (EvMergeAborted (en_index e) (cm_source_bytes p)
                          (sl_shape_gen (ep_split ep))) ep
          in if shape_payload_reserves [cm_source_gen_after p, cm_target_gen_after p]
             then (AE_Break, poison PR_ReservedShapeGen ep)
             else if Some (cm_target_gen_after p) \<noteq> next_lineage (sl_shape_gen (ep_split ep))
             then (AE_Applied, aborted)
             else if abandoned_matches (cm_source_bytes p) (cm_source_gen_after p) ep
             then (AE_Applied, aborted)
             else (AE_Parked,
                   ep\<lparr>ep_merge := (ep_merge ep)\<lparr>me_pending_apply :=
                        Some (pending_merge_new_parked (cm_source_bytes p) (cm_freeze_index p)
                          (cm_freeze_term p) (cm_source_gen_after p) (cm_target_gen_after p)
                          (en_index e))\<rparr>\<rparr>))"

definition apply_rollback_merge ::
    "('i, 'f, 'c, 'n, 'p, 'r, 'l, 's) env \<Rightarrow> entry \<Rightarrow> ('i, 'f, 'n, 'p, 'r) endpoint \<Rightarrow>
     ApplyOutcome \<times> ('i, 'f, 'n, 'p, 'r) endpoint" where
  "apply_rollback_merge E e ep =
     (case decode_rollback_merge_payload E (en_data e) of
        Err _ \<Rightarrow> (AE_Break, poison PR_MergeDecode ep)
      | Ok p \<Rightarrow>
          if shape_payload_reserves [rb_source_gen_after p, rb_target_gen_after p]
          then (AE_Break, poison PR_ReservedShapeGen ep)
          else if rb_is_unfreeze p
          then if me_frozen (ep_merge ep) \<and>
                  Some (rb_source_gen_after p) = next_lineage (sl_shape_gen (ep_split ep))
               then let ep = ep\<lparr>ep_merge := (ep_merge ep)\<lparr>me_frozen := False, me_freeze_index := None,
                               me_freeze_term := None, me_frozen_for := None\<rparr>\<rparr>;
                        ep = raise_shape_gen (rb_source_gen_after p) ep
                    in (AE_Applied, push_event (EvMergeRolledBack (en_index e) (sl_shape_gen (ep_split ep))) ep)
               else (AE_Applied, ep)
          else if Some (rb_target_gen_after p) = next_lineage (sl_shape_gen (ep_split ep))
          then let ep = raise_shape_gen (rb_target_gen_after p) ep;
                   ep = note_abandoned (rb_source_bytes p) (rb_source_gen_after p) (en_index e) ep
               in (AE_Applied, push_event (EvMergeAborted (en_index e) (rb_source_bytes p)
                     (sl_shape_gen (ep_split ep))) ep)
          else (AE_Applied, ep))"

definition apply_thaw_discharged ::
    "('i, 'f, 'c, 'n, 'p, 'r, 'l, 's) env \<Rightarrow> entry \<Rightarrow> ('i, 'f, 'n, 'p, 'r) endpoint \<Rightarrow>
     ApplyOutcome \<times> ('i, 'f, 'n, 'p, 'r) endpoint" where
  "apply_thaw_discharged E e ep =
     (case decode_thaw_discharged_payload E (en_data e) of
        Err _ \<Rightarrow> (AE_Break, poison PR_MergeDecode ep)
      | Ok p \<Rightarrow>
          (AE_Applied,
           if abandoned_matches (td_source_bytes p) (td_generation p) ep
           then clear_abandoned (td_source_bytes p) ep else ep))"

definition drop_lease :: "('i, 'f, 'n, 'p, 'r) endpoint \<Rightarrow> ('i, 'f, 'n, 'p, 'r) endpoint" where
  "drop_lease ep =
     ep\<lparr>ep_check_quorum_lease :=
          (ep_check_quorum_lease ep)\<lparr>cq_lease_valid_until := None, cq_lease_acks := {||}\<rparr>\<rparr>"

definition apply_set_read_mode ::
    "entry \<Rightarrow> ('i, 'f, 'n, 'p, 'r) endpoint \<Rightarrow> ApplyOutcome \<times> ('i, 'f, 'n, 'p, 'r) endpoint" where
  "apply_set_read_mode e ep =
     (case (case en_data e of [b] \<Rightarrow> read_only_from_u8 b | _ \<Rightarrow> None) of
        None \<Rightarrow> (AE_Break, poison PR_SetReadModeDecode ep)
      | Some mode \<Rightarrow>
          let ep = ep\<lparr>ep_reads := (ep_reads ep)\<lparr>rd_active_read_mode := mode, rd_read_mode_migrated := True,
                        rd_read_only := ro_set_option mode (rd_read_only (ep_reads ep))\<rparr>\<rparr>
          in (AE_Applied, push_event (EvReadModeChanged (en_index e) mode) (drop_lease ep)))"

section \<open>Configuration changes\<close>

fun farewell_removed ::
    "('i::linorder, 'f, 'c, 'n, 'p, 'r, 'l, 's) env \<Rightarrow> 'l \<Rightarrow> index \<Rightarrow> bool \<Rightarrow> ('i \<times> index) list \<Rightarrow>
     ('i, 'f, 'n, 'p, 'r) endpoint \<Rightarrow> ('i, 'f, 'n, 'p, 'r) endpoint" where
  "farewell_removed E logs idx gated [] ep = ep"
| "farewell_removed E logs idx gated ((peer, matched) # ps) ep =
     (if is_poisoned ep then ep
      else let ep = (if \<not> gated then send_farewell E logs peer matched idx ep else ep)
           in if is_poisoned ep then ep
              else farewell_removed E logs idx gated ps
                     (ep\<lparr>ep_pending_farewells :=
                          bm_insert peer
                            \<lparr>fw_matched = matched, fw_idx = idx,
                             fw_shots_left = (if gated then FAREWELL_RETRY_SHOTS + 1 else FAREWELL_RETRY_SHOTS),
                             fw_next_at = None\<rparr> (ep_pending_farewells ep)\<rparr>))"

definition removed_peers :: "'i::linorder tracker \<Rightarrow> ('i, 'f, 'n, 'p, 'r) endpoint \<Rightarrow> ('i \<times> index) list" where
  "removed_peers new_tracker ep =
     map (\<lambda>(peer, pr). (peer, match_index pr))
       (filter (\<lambda>(peer, _). peer \<noteq> cfg_id (ep_config ep) \<and> progress_of new_tracker peer = None)
          (tr_progress (ep_tracker ep)))"

text \<open>Debts and farewells to the members the change removes, before the tracker is replaced.\<close>

definition part_with ::
    "('i::linorder, 'f, 'c, 'n, 'p, 'r, 'l, 's) env \<Rightarrow> 'l \<Rightarrow> index \<Rightarrow> 'i tracker \<Rightarrow>
     ('i, 'f, 'n, 'p, 'r) endpoint \<Rightarrow> ('i, 'f, 'n, 'p, 'r) endpoint" where
  "part_with E logs idx new_tracker ep =
     (let ps = removed_peers new_tracker ep;
          ep = fold (\<lambda>(peer, _). note_courtesy_debt peer idx) ps ep;
          ep = (if ep_role ep = Leader
                then farewell_removed E logs idx (ep_applied ep < ep_term_start_index ep) ps ep else ep)
      in ep\<lparr>ep_peers_scratch := []\<rparr>)"

definition install_tracker ::
    "'i::linorder tracker \<Rightarrow> ('i, 'f, 'n, 'p, 'r) endpoint \<Rightarrow> ('i, 'f, 'n, 'p, 'r) endpoint" where
  "install_tracker tr ep =
     (let ep = drop_lease (ep\<lparr>ep_tracker := tr\<rparr>)
      in ep\<lparr>ep_snapshot := (ep_snapshot ep)\<lparr>ss_snapshot_resend_after :=
               filter (\<lambda>(i, _). progress_of tr i \<noteq> None) (ss_snapshot_resend_after (ep_snapshot ep))\<rparr>,
             ep_pending_farewells := filter (\<lambda>(i, _). progress_of tr i = None) (ep_pending_farewells ep),
             ep_courtesy_owed := filter (\<lambda>(i, _). progress_of tr i = None) (ep_courtesy_owed ep)\<rparr>)"

definition clear_transfer :: "('i, 'f, 'n, 'p, 'r) endpoint \<Rightarrow> ('i, 'f, 'n, 'p, 'r) endpoint" where
  "clear_transfer ep =
     ep\<lparr>ep_transfer := (ep_transfer ep)\<lparr>tf_lead_transferee := None, tf_transfer_deadline := None\<rparr>\<rparr>"

text \<open>A node the change removed from the voters steps down; a transfer to a non-voter ends.\<close>

definition step_down_if_removed :: "('i, 'f, 'n, 'p, 'r) endpoint \<Rightarrow> ('i, 'f, 'n, 'p, 'r) endpoint" where
  "step_down_if_removed ep =
     (let ep = (if ep_role ep \<noteq> Follower \<and> cfg_step_down_on_removal (ep_config ep) \<and>
                   \<not> tr_is_voter (ep_tracker ep) (cfg_id (ep_config ep))
                then let ep = set_leader None (ep\<lparr>ep_role := Follower\<rparr>)
                     in (clear_transfer (ep\<lparr>ep_heartbeat_deadline := None, ep_election_deadline := None\<rparr>))
                          \<lparr>ep_pending_farewells := [], ep_courtesy_owed := []\<rparr>
                else ep)
      in case tf_lead_transferee (ep_transfer ep) of
           Some t \<Rightarrow> if \<not> tr_is_voter (ep_tracker ep) t then clear_transfer ep else ep
         | None \<Rightarrow> ep)"

definition apply_conf_change ::
    "('i::linorder, 'f, 'c, 'n, 'p, 'r, 'l, 's) env \<Rightarrow> 'l \<Rightarrow> entry \<Rightarrow> ('i, 'f, 'n, 'p, 'r) endpoint \<Rightarrow>
     ApplyOutcome \<times> ('i, 'f, 'n, 'p, 'r) endpoint" where
  "apply_conf_change E logs e ep =
     (case decode_conf_change_v2 E (en_data e) of
        Err _ \<Rightarrow> (AE_Break, poison PR_ConfChangeDecode ep)
      | Ok cc \<Rightarrow>
          (case changed_tracker
                  \<lparr>ch_last_index = log_last_index E logs,
                   ch_max_inflight_msgs = cfg_max_inflight_msgs (ep_config ep),
                   ch_max_inflight_bytes = cfg_max_inflight_bytes (ep_config ep)\<rparr> cc (ep_tracker ep) of
             Err _ \<Rightarrow> (AE_Break, poison PR_ConfChangeApply ep)
           | Ok new_tracker \<Rightarrow>
               let ep = part_with E logs (en_index e) new_tracker ep
               in if is_poisoned ep then (AE_Break, ep)
                  else let ep = install_tracker new_tracker ep;
                           ep = push_event (EvConfChanged (en_index e) (tr_conf_state (ep_tracker ep))) ep
                       in (AE_Applied, step_down_if_removed ep)))"

section \<open>The loop\<close>

definition apply_entry ::
    "('i::linorder, 'f, 'c, 'n, 'p, 'r, 'l, 's) env \<Rightarrow> 'l \<Rightarrow> entry \<Rightarrow> ('i, 'f, 'n, 'p, 'r) endpoint \<Rightarrow>
     ApplyOutcome \<times> ('i, 'f, 'n, 'p, 'r) endpoint" where
  "apply_entry E logs e ep =
     (case en_kind e of
        EK_Normal \<Rightarrow> apply_normal E e ep
      | EK_Empty \<Rightarrow> (AE_Applied, ep)
      | EK_Split \<Rightarrow> apply_split E e ep
      | EK_PrepareMerge \<Rightarrow> apply_prepare_merge E e ep
      | EK_CommitMerge \<Rightarrow> apply_commit_merge E e ep
      | EK_RollbackMerge \<Rightarrow> apply_rollback_merge E e ep
      | EK_ThawDischarged \<Rightarrow> apply_thaw_discharged E e ep
      | EK_SetReadMode \<Rightarrow> apply_set_read_mode e ep
      | EK_ConfChange \<Rightarrow> apply_conf_change E logs e ep)"

text \<open>The batch: whether a merge parked the loop, and how many entries the call has applied.\<close>

fun apply_batch ::
    "('i::linorder, 'f, 'c, 'n, 'p, 'r, 'l, 's) env \<Rightarrow> 'l \<Rightarrow> entry list \<Rightarrow> u64 \<Rightarrow>
     ('i, 'f, 'n, 'p, 'r) endpoint \<Rightarrow> bool \<times> u64 \<times> ('i, 'f, 'n, 'p, 'r) endpoint" where
  "apply_batch E logs [] k ep = (False, k, ep)"
| "apply_batch E logs (e # es) k ep =
     (if en_index e \<noteq> counter_next (ep_applied ep) \<or> en_index e > ep_commit ep
      then (False, k, poison PR_NonContiguousAppend ep)
      else case apply_entry E logs e ep of
             (AE_Break, ep) \<Rightarrow> (False, k, ep)
           | (AE_Parked, ep) \<Rightarrow> (True, k, ep)
           | (AE_Applied, ep) \<Rightarrow> apply_batch E logs es (k + 1) (ep\<lparr>ep_applied := en_index e\<rparr>))"

definition APPLY_READ_MAX_BYTES :: u64 where
  "APPLY_READ_MAX_BYTES = 2 ^ 20"

text \<open>
  The recursion is on a bound of the batches; \<open>None\<close> is the bound exhausted, which
  \<open>apply_loop_returns\<close> excludes for every store.
\<close>

fun apply_loop ::
    "('i::linorder, 'f, 'c, 'n, 'p, 'r, 'l, 's) env \<Rightarrow> 'l \<Rightarrow> nat \<Rightarrow> u64 \<Rightarrow>
     ('i, 'f, 'n, 'p, 'r) endpoint \<Rightarrow> (ApplyDrain \<times> ('i, 'f, 'n, 'p, 'r) endpoint) option" where
  "apply_loop E logs 0 k ep = (if ep_applied ep < ep_commit ep then None else Some (AD_Drained, ep))"
| "apply_loop E logs (Suc fuel) k ep =
     (if ep_applied ep < ep_commit ep
      then if is_poisoned ep then Some (AD_Drained, ep)
           else case log_entries E logs (counter_next (ep_applied ep))
                       (apply_read_span (ep_applied ep) (ep_commit ep) k) APPLY_READ_MAX_BYTES of
                  Ok (EntriesReady []) \<Rightarrow> Some (AD_Waiting, ep)
                | Ok EntriesPending \<Rightarrow>
                    Some (AD_Waiting, ep\<lparr>ep_cold_read_defers := saturating_add (ep_cold_read_defers ep) 1\<rparr>)
                | Err _ \<Rightarrow> Some (AD_Drained, poison PR_LogRead ep)
                | Ok (EntriesReady (e # es)) \<Rightarrow>
                    (case apply_batch E logs (e # es) k ep of
                       (True, _, ep) \<Rightarrow> Some (AD_Waiting, ep)
                     | (False, k, ep) \<Rightarrow>
                         if \<not> is_poisoned ep \<and> k \<ge> APPLY_BUDGET_ENTRIES \<and> ep_applied ep < ep_commit ep
                         then Some (AD_BudgetCut, ep)
                         else apply_loop E logs fuel k ep)
      else Some (AD_Drained, ep))"

definition apply_committed ::
    "('i::linorder, 'f, 'c, 'n, 'p, 'r, 'l, 's) env \<Rightarrow> 'l \<Rightarrow> ('i, 'f, 'n, 'p, 'r) endpoint \<Rightarrow>
     ApplyDrain \<times> ('i, 'f, 'n, 'p, 'r) endpoint" where
  "apply_committed E logs ep =
     (if is_poisoned ep then (AD_Drained, ep)
      else if me_pending_apply (ep_merge ep) \<noteq> None then (AD_Waiting, ep)
      else case apply_loop E logs (Suc (unat (ep_commit ep) - unat (ep_applied ep))) 0 ep of
             Some r \<Rightarrow> r
           | None \<Rightarrow> (AD_Drained, ep))"

end
