(* ===== verification/Reads.thy ===== *)
theory Reads
  imports Apply
begin

text \<open>
  Linearizable reads, \<^verbatim>\<open>sailing-proto/src/endpoint/read_index.rs\<close>: a leader serves a read from its
  lease, or opens a heartbeat round and answers when a quorum has acknowledged it; a follower
  forwards. A read before the first commit of the term is deferred.
\<close>

datatype ReadIndexError =
    RI_NoLeader
  | RI_ForwardingDisabled
  | RI_DuplicateContext
  | RI_TooManyInFlight
  | RI_Poisoned
  | RI_Frozen

definition has_current_term_commit ::
    "('i, 'f, 'c, 'n, 'p, 'r, 'l, 's) env \<Rightarrow> 'l \<Rightarrow> ('i, 'f, 'n, 'p, 'r) endpoint \<Rightarrow>
     bool \<times> ('i, 'f, 'n, 'p, 'r) endpoint" where
  "has_current_term_commit E logs ep =
     (let (t, ep) = log_term E logs (ep_commit ep) ep in (t = Some (ep_term ep), ep))"

definition emit_read_state ::
    "index \<Rightarrow> bytes \<Rightarrow> ('i, 'f, 'n, 'p, 'r) endpoint \<Rightarrow> ('i, 'f, 'n, 'p, 'r) endpoint" where
  "emit_read_state idx context ep =
     (if is_poisoned ep then ep else push_event (EvReadState idx context) ep)"

definition read_response ::
    "index \<Rightarrow> bytes \<Rightarrow> bool \<Rightarrow> ('i, 'f, 'n, 'p, 'r) endpoint \<Rightarrow> 'i message" where
  "read_response idx context reject ep =
     MReadIndexResponse \<lparr>rir_term = ep_term ep, rir_from = cfg_id (ep_config ep), rir_index = idx,
       rir_context = context, rir_reject = reject\<rparr>"

definition emit_or_reply_read ::
    "index \<Rightarrow> bytes \<Rightarrow> 'i option \<Rightarrow> ('i, 'f, 'n, 'p, 'r) endpoint \<Rightarrow> ('i, 'f, 'n, 'p, 'r) endpoint" where
  "emit_or_reply_read idx context from ep =
     (case from of
        None \<Rightarrow> emit_read_state idx context ep
      | Some follower \<Rightarrow> send follower (read_response idx context False ep) ep)"

text \<open>Answering the reads a round confirms.\<close>

definition answer_confirmed ::
    "'i read_index_status list \<Rightarrow> ('i, 'f, 'n, 'p, 'r) endpoint \<Rightarrow> ('i, 'f, 'n, 'p, 'r) endpoint" where
  "answer_confirmed confirmed ep =
     fold (\<lambda>st. case into_parts st of (context, from, idx) \<Rightarrow> emit_or_reply_read idx context from)
       confirmed ep"

definition do_safe_read ::
    "now \<Rightarrow> bytes \<Rightarrow> 'i option \<Rightarrow> ('i::linorder, 'f, 'n, 'p, 'r) endpoint \<Rightarrow>
     ('i, 'f, 'n, 'p, 'r) endpoint" where
  "do_safe_read now context from ep =
     (case add_request (ep_commit ep) context from (cfg_id (ep_config ep)) (rd_read_only (ep_reads ep)) of
        (None, ro) \<Rightarrow>
          poison PR_ReadRoundExhausted (ep\<lparr>ep_reads := (ep_reads ep)\<lparr>rd_read_only := ro\<rparr>\<rparr>)
      | (Some token, ro) \<Rightarrow>
          let ep = ep\<lparr>ep_reads := (ep_reads ep)\<lparr>rd_read_only := ro\<rparr>\<rparr>
          in if (case acks_for token ro of
                   Some acks \<Rightarrow> vote_result_by (ep_tracker ep) (\<lambda>i. i |\<in>| acks) = Won
                 | None \<Rightarrow> False)
             then let (confirmed, ro) = ro_advance token ro
                  in answer_confirmed confirmed (ep\<lparr>ep_reads := (ep_reads ep)\<lparr>rd_read_only := ro\<rparr>\<rparr>)
             else broadcast_heartbeat_with_ctx now token ep)"

definition do_leader_read ::
    "('i::linorder, 'f, 'c, 'n, 'p, 'r, 'l, 's) env \<Rightarrow> now \<Rightarrow> 'l \<Rightarrow> bytes \<Rightarrow> 'i option \<Rightarrow>
     ('i, 'f, 'n, 'p, 'r) endpoint \<Rightarrow> ('i, 'f, 'n, 'p, 'r) endpoint" where
  "do_leader_read E now logs context from ep =
     (if is_poisoned ep then ep
      else case rd_active_read_mode (ep_reads ep) of
             Safe \<Rightarrow> do_safe_read now context from ep
           | LeaseBased \<Rightarrow>
               if lease_read_available now ep then emit_or_reply_read (ep_commit ep) context from ep
               else do_safe_read now context from ep
           | LeaseGuard \<Rightarrow>
               let ep = ep\<lparr>ep_lease_guard := (ep_lease_guard ep)\<lparr>lg_read_since_anchor := True\<rparr>\<rparr>;
                   (live, ep) = lease_guard_read_live E now logs ep
               in if live then emit_or_reply_read (ep_commit ep) context from ep
                  else if is_poisoned ep then ep
                  else let ep = (if leaseguard_timing ep \<noteq> None
                                 then ep\<lparr>ep_lease_guard := (ep_lease_guard ep)\<lparr>lg_lease_refresh_wanted := True\<rparr>\<rparr>
                                 else ep)
                       in do_safe_read now context from ep)"

fun serve_deferred ::
    "('i::linorder, 'f, 'c, 'n, 'p, 'r, 'l, 's) env \<Rightarrow> now \<Rightarrow> 'l \<Rightarrow> (bytes \<times> 'i option) list \<Rightarrow>
     ('i, 'f, 'n, 'p, 'r) endpoint \<Rightarrow> ('i, 'f, 'n, 'p, 'r) endpoint" where
  "serve_deferred E now logs [] ep = ep"
| "serve_deferred E now logs ((ctx, from) # rest) ep =
     (let ep = do_leader_read E now logs ctx from ep
      in if is_poisoned ep then ep else serve_deferred E now logs rest ep)"

definition flush_deferred_reads ::
    "('i::linorder, 'f, 'c, 'n, 'p, 'r, 'l, 's) env \<Rightarrow> now \<Rightarrow> 'l \<Rightarrow>
     ('i, 'f, 'n, 'p, 'r) endpoint \<Rightarrow> ('i, 'f, 'n, 'p, 'r) endpoint" where
  "flush_deferred_reads E now logs ep =
     (if rd_pending_reads (ep_reads ep) = [] then ep
      else serve_deferred E now logs (rd_pending_reads (ep_reads ep))
             (ep\<lparr>ep_reads := (ep_reads ep)\<lparr>rd_pending_reads := []\<rparr>\<rparr>))"

definition maybe_flush_deferred_reads ::
    "('i::linorder, 'f, 'c, 'n, 'p, 'r, 'l, 's) env \<Rightarrow> now \<Rightarrow> 'l \<Rightarrow>
     ('i, 'f, 'n, 'p, 'r) endpoint \<Rightarrow> ('i, 'f, 'n, 'p, 'r) endpoint" where
  "maybe_flush_deferred_reads E now logs ep =
     (if is_poisoned ep then ep
      else if rd_pending_reads (ep_reads ep) = [] then ep
      else if ep_role ep \<noteq> Leader then ep
      else let (current, ep) = has_current_term_commit E logs ep
           in if \<not> current then ep else flush_deferred_reads E now logs ep)"

definition read_context_in_flight :: "bytes \<Rightarrow> ('i, 'f, 'n, 'p, 'r) endpoint \<Rightarrow> bool" where
  "read_context_in_flight context ep \<longleftrightarrow>
     list_ex (\<lambda>(ctx, from). from = None \<and> ctx = context) (rd_pending_reads (ep_reads ep)) \<or>
     context_in_flight context (rd_read_only (ep_reads ep))"

definition leader_reads_at_capacity :: "('i, 'f, 'n, 'p, 'r) endpoint \<Rightarrow> bool" where
  "leader_reads_at_capacity ep \<longleftrightarrow>
     length (rd_pending_reads (ep_reads ep)) + ro_len (rd_read_only (ep_reads ep)) \<ge> MAX_LEADER_READS"

definition defer_read ::
    "bytes \<Rightarrow> 'i option \<Rightarrow> ('i, 'f, 'n, 'p, 'r) endpoint \<Rightarrow> ('i, 'f, 'n, 'p, 'r) endpoint" where
  "defer_read context from ep =
     ep\<lparr>ep_reads := (ep_reads ep)\<lparr>rd_pending_reads := rd_pending_reads (ep_reads ep) @ [(context, from)]\<rparr>\<rparr>"

definition read_index ::
    "('i::linorder, 'f, 'c, 'n, 'p, 'r, 'l, 's) env \<Rightarrow> now \<Rightarrow> 'l \<Rightarrow> bytes \<Rightarrow>
     ('i, 'f, 'n, 'p, 'r) endpoint \<Rightarrow>
     (unit, ReadIndexError) result \<times> ('i, 'f, 'n, 'p, 'r) endpoint" where
  "read_index E now logs context ep =
     (if is_poisoned ep then (Err RI_Poisoned, ep)
      else if me_frozen (ep_merge ep) then (Err RI_Frozen, ep)
      else case ep_role ep of
             Leader \<Rightarrow>
               if read_context_in_flight context ep then (Err RI_DuplicateContext, ep)
               else if leader_reads_at_capacity ep then (Err RI_TooManyInFlight, ep)
               else let (current, ep) = has_current_term_commit E logs ep
                    in if \<not> current
                       then if is_poisoned ep then (Err RI_Poisoned, ep)
                            else (Ok (), defer_read context None ep)
                       else let ep = do_leader_read E now logs context None ep
                            in if is_poisoned ep then (Err RI_Poisoned, ep) else (Ok (), ep)
           | Follower \<Rightarrow>
               if cfg_disable_proposal_forwarding (ep_config ep) then (Err RI_ForwardingDisabled, ep)
               else case ep_leader ep of
                      None \<Rightarrow> (Err RI_NoLeader, ep)
                    | Some leader \<Rightarrow>
                        if contains_context context (rd_forwarded_reads (ep_reads ep))
                        then (Err RI_DuplicateContext, ep)
                        else if fr_is_full (rd_forwarded_reads (ep_reads ep))
                        then (Err RI_TooManyInFlight, ep)
                        else let (token, fr) = fr_push context (rd_forwarded_reads (ep_reads ep));
                                 ep = ep\<lparr>ep_reads := (ep_reads ep)\<lparr>rd_forwarded_reads := fr\<rparr>\<rparr>
                             in case token of
                                  None \<Rightarrow> (Err RI_Poisoned, poison PR_ReadRoundExhausted ep)
                                | Some token \<Rightarrow>
                                    (Ok (), send leader (MReadIndex \<lparr>ri_term = ep_term ep,
                                       ri_from = cfg_id (ep_config ep), ri_context = token\<rparr>) ep)
           | _ \<Rightarrow> (Err RI_NoLeader, ep))"

definition on_read_index ::
    "('i::linorder, 'f, 'c, 'n, 'p, 'r, 'l, 's) env \<Rightarrow> now \<Rightarrow> 'l \<Rightarrow> 'i read_index_msg \<Rightarrow>
     ('i, 'f, 'n, 'p, 'r) endpoint \<Rightarrow> ('i, 'f, 'n, 'p, 'r) endpoint" where
  "on_read_index E now logs ri ep =
     (if ep_role ep \<noteq> Leader then ep
      else if me_frozen (ep_merge ep) then send (ri_from ri) (read_response 0 (ri_context ri) True ep) ep
      else if leader_reads_at_capacity ep
      then send (ri_from ri) (read_response 0 (ri_context ri) True ep) ep
      else let (current, ep) = has_current_term_commit E logs ep
           in if \<not> current
              then if is_poisoned ep then ep else defer_read (ri_context ri) (Some (ri_from ri)) ep
              else do_leader_read E now logs (ri_context ri) (Some (ri_from ri)) ep)"

definition on_read_index_response ::
    "'i \<Rightarrow> 'i read_index_response \<Rightarrow> ('i, 'f, 'n, 'p, 'r) endpoint \<Rightarrow> ('i, 'f, 'n, 'p, 'r) endpoint" where
  "on_read_index_response from response ep =
     (if ep_role ep \<noteq> Follower \<or> ep_leader ep \<noteq> Some from \<or> rir_from response \<noteq> from then ep
      else let (context, fr) = remove_by_token (rir_context response) (rd_forwarded_reads (ep_reads ep));
               ep = ep\<lparr>ep_reads := (ep_reads ep)\<lparr>rd_forwarded_reads := fr\<rparr>\<rparr>
           in case context of
                None \<Rightarrow> ep
              | Some context \<Rightarrow>
                  if rir_reject response then ep else emit_read_state (rir_index response) context ep)"

end
