(* ===== verification/Forwarded_Reads.thy ===== *)
theory Forwarded_Reads
  imports Reads
begin

text \<open>
  The reads a follower has forwarded to its leader and not yet seen answered. The table is written
  by four operations of the endpoint: \<^verbatim>\<open>read_index\<close> records a forward, \<^verbatim>\<open>on_read_index_response\<close>
  takes one out, \<^verbatim>\<open>set_leader\<close> empties it and a restart starts a new one. Its invariant is proved
  through those operations as they are, with their own guards, and through \<^verbatim>\<open>on_read_index\<close>, the
  leader's side, which leaves the table alone.
\<close>

section \<open>The table\<close>

definition forwarded :: "('i, 'f, 'n, 'p, 'r) endpoint \<Rightarrow> forwarded_reads" where
  "forwarded ep = rd_forwarded_reads (ep_reads ep)"

text \<open>The token of the \<open>n\<close>th forward of an incarnation.\<close>

definition forward_token :: "u64 \<Rightarrow> u64 \<Rightarrow> bytes" where
  "forward_token e n = to_be_bytes 8 e @ to_be_bytes 8 n"

lemma forward_token_inject [simp]: "forward_token e n = forward_token e n' \<longleftrightarrow> n = n'"
  by (simp add: forward_token_def to_be_bytes_inject)

definition fr_ok :: "forwarded_reads \<Rightarrow> bool" where
  "fr_ok fr \<longleftrightarrow>
     length (fr_order fr) \<le> MAX_FORWARDED_READS \<and> distinct (map snd (fr_order fr)) \<and>
     distinct (map fst (fr_order fr)) \<and>
     fst ` set (fr_order fr) \<subseteq> forward_token (fr_boot_epoch fr) ` {..<fr_next_token fr}"

lemma fr_new_ok: "fr_ok (fr_new e)"
  by (simp add: fr_ok_def fr_new_def)

lemma fr_clear_ok: "fr_ok (fr_clear fr)"
  by (simp add: fr_ok_def fr_clear_def)

lemma fr_push_ok:
  assumes "fr_ok fr" "\<not> contains_context ctx fr" "\<not> fr_is_full fr"
  shows "fr_ok (snd (fr_push ctx fr))"
proof (cases "checked_add (fr_next_token fr) 1")
  case (Some nxt)
  then have gt: "fr_next_token fr < nxt" by (rule checked_add_1_gt)
  then have "forward_token (fr_boot_epoch fr) ` {..<fr_next_token fr} \<subseteq> forward_token (fr_boot_epoch fr) ` {..<nxt}"
    by (intro image_mono) (auto intro: less_trans)
  moreover have "forward_token (fr_boot_epoch fr) (fr_next_token fr) \<notin> fst ` set (fr_order fr)"
    using assms(1) by (fastforce simp: fr_ok_def)
  ultimately show ?thesis
    using assms gt by (auto simp: fr_push_def fr_ok_def Some contains_context_def list_ex_iff fr_is_full_def Let_def
        forward_token_def [symmetric])
qed (use assms in \<open>simp add: fr_push_def\<close>)

text \<open>Removing a token removes the one entry that has it.\<close>

lemma remove_by_token_ok:
  assumes "fr_ok fr"
  shows "fr_ok (snd (remove_by_token t fr))"
proof (cases "position (\<lambda>(t', _). t' = t) (fr_order fr)")
  case (Some pos)
  let ?xs = "take pos (fr_order fr)" and ?ys = "drop (Suc pos) (fr_order fr)"
  from position_SomeD [OF Some] have split: "fr_order fr = ?xs @ fr_order fr ! pos # ?ys" by blast
  have "distinct (map f (?xs @ ?ys))" if "distinct (map f (?xs @ fr_order fr ! pos # ?ys))"
    for f :: "bytes \<times> bytes \<Rightarrow> bytes"
    using that by auto
  from this [of fst] this [of snd] have "distinct (map fst (?xs @ ?ys))" "distinct (map snd (?xs @ ?ys))"
    using assms unfolding split [symmetric] fr_ok_def by auto
  moreover have "set (?xs @ ?ys) \<subseteq> set (fr_order fr)" by (auto dest: in_set_takeD in_set_dropD)
  then have "fst ` set (?xs @ ?ys) \<subseteq> forward_token (fr_boot_epoch fr) ` {..<fr_next_token fr}"
    using assms unfolding fr_ok_def by blast
  moreover have "length (?xs @ ?ys) \<le> length (fr_order fr)" by simp
  ultimately show ?thesis
    using assms Some unfolding fr_ok_def remove_by_token_def by (simp del: position_None map_append set_append length_append)
qed (use assms in \<open>simp add: remove_by_token_def del: position_None\<close>)

lemma remove_by_token_of_entry:
  assumes "fr_ok fr" "(t, ctx) \<in> set (fr_order fr)"
  shows "fst (remove_by_token t fr) = Some ctx"
proof (cases "position (\<lambda>(t', _). t' = t) (fr_order fr)")
  case (Some pos)
  from position_SomeD [OF Some] have "fr_order fr ! pos \<in> set (fr_order fr)" "fst (fr_order fr ! pos) = t"
    by (auto simp: case_prod_beta)
  with assms have "fr_order fr ! pos = (t, ctx)"
    unfolding fr_ok_def by (metis eq_key_imp_eq_value prod.collapse)
  with Some show ?thesis by (simp add: remove_by_token_def)
qed (use assms in auto)

section \<open>What leaves the table alone\<close>

named_theorems forwarded_frame \<open>operations that do not write the table\<close>

lemma basic_forwarded [forwarded_frame]:
  "forwarded (poison r ep) = forwarded ep"
  "forwarded (push_event ev ep) = forwarded ep"
  "forwarded (send to m ep) = forwarded ep"
  "forwarded (defer_read ctx from ep) = forwarded ep"
  "forwarded (emit_read_state i ctx ep) = forwarded ep"
  by (simp_all add: forwarded_def poison_def push_event_def send_def defer_read_def emit_read_state_def)

lemma fold_forwarded:
  "(\<And>x ep. forwarded (f x ep) = forwarded ep) \<Longrightarrow> forwarded (fold f xs ep) = forwarded ep"
  by (induction xs arbitrary: ep) simp_all

lemma log_forwarded [forwarded_frame]:
  "forwarded (snd (log_term E logs i ep)) = forwarded ep"
  "forwarded (snd (commit_entry E logs ep)) = forwarded ep"
  by (auto simp: log_term_def commit_entry_def forwarded_frame split: result.split option.split list.split EntriesRead.split)

lemma lease_guard_read_live_forwarded [forwarded_frame]:
  "forwarded (snd (lease_guard_read_live E now logs ep)) = forwarded ep"
  using log_forwarded(2) [of E logs ep]
  by (auto simp: lease_guard_read_live_def split: option.split prod.split)

lemma reply_forwarded [forwarded_frame]:
  "forwarded (emit_or_reply_read i ctx from ep) = forwarded ep"
  "forwarded (answer_confirmed confirmed ep) = forwarded ep"
  "forwarded (broadcast_heartbeat_with_ctx now ctx ep) = forwarded ep"
proof -
  show reply: "forwarded (emit_or_reply_read i ctx from ep) = forwarded ep" for i ctx "from" and ep :: "('a, 'b, 'c, 'd, 'e) endpoint"
    by (simp add: emit_or_reply_read_def forwarded_frame split: option.split)
  show "forwarded (answer_confirmed confirmed ep) = forwarded ep"
    unfolding answer_confirmed_def by (rule fold_forwarded) (simp add: reply split: prod.split)
  have "forwarded (send_all msgs ep) = forwarded ep" for msgs
    unfolding send_all_def by (rule fold_forwarded) (simp add: forwarded_frame split: prod.split)
  then show "forwarded (broadcast_heartbeat_with_ctx now ctx ep) = forwarded ep"
    by (simp add: broadcast_heartbeat_with_ctx_def forwarded_def)
qed

lemma other_reads_forwarded [simp]:
  "forwarded (ep\<lparr>ep_reads := (ep_reads ep)\<lparr>rd_read_only := ro\<rparr>\<rparr>) = forwarded ep"
  "forwarded (ep\<lparr>ep_lease_guard := lg\<rparr>) = forwarded ep"
  by (simp_all add: forwarded_def)

lemma do_safe_read_forwarded [forwarded_frame]: "forwarded (do_safe_read now ctx from ep) = forwarded ep"
  by (simp add: do_safe_read_def forwarded_frame Let_def split: option.split prod.split)

lemma do_leader_read_forwarded [forwarded_frame]: "forwarded (do_leader_read E now logs ctx from ep) = forwarded ep"
proof -
  have "forwarded (snd (lease_guard_read_live E now logs (ep\<lparr>ep_lease_guard := lg\<rparr>))) = forwarded ep" for lg
    by (simp add: forwarded_frame)
  then show ?thesis
    by (simp add: do_leader_read_def forwarded_frame Let_def case_prod_beta split: ReadOnlyOption.split)
qed

lemma on_read_index_forwarded [forwarded_frame]: "forwarded (on_read_index E now logs ri ep) = forwarded ep"
  by (simp add: on_read_index_def has_current_term_commit_def forwarded_frame Let_def case_prod_beta)

section \<open>The operations that write it\<close>

lemma set_leader_forwarded: "forwarded (set_leader l ep) = (if ep_leader ep = l then forwarded ep else fr_clear (forwarded ep))"
  by (simp add: set_leader_def forwarded_frame) (simp add: forwarded_def)

lemma read_index_forwarded:
  "forwarded (snd (read_index E now logs ctx ep)) = forwarded ep \<or>
   \<not> contains_context ctx (forwarded ep) \<and> \<not> fr_is_full (forwarded ep) \<and>
   forwarded (snd (read_index E now logs ctx ep)) = snd (fr_push ctx (forwarded ep))"
proof (cases "ep_role ep")
  case Follower
  then show ?thesis
    by (auto simp: read_index_def Let_def case_prod_beta forwarded_frame forwarded_def [of "ep_reads_update _ _"]
        forwarded_def [of ep] split: option.split)
qed (simp_all add: read_index_def has_current_term_commit_def Let_def case_prod_beta forwarded_frame)

lemma response_forwarded:
  "forwarded (on_read_index_response from response ep) = forwarded ep \<or>
   forwarded (on_read_index_response from response ep) = snd (remove_by_token (rir_context response) (forwarded ep))"
  by (auto simp: on_read_index_response_def Let_def case_prod_beta forwarded_frame forwarded_def [of "ep_reads_update _ _"]
      forwarded_def [of ep] split: option.split)

text \<open>A call of the read path, with the instant and the log it is made with.\<close>

datatype ('i, 'l) read_call =
    RC_Read now 'l bytes
  | RC_Request now 'l "'i read_index_msg"
  | RC_Response 'i "'i read_index_response"
  | RC_Leader "'i option"

fun read_step ::
    "('i::linorder, 'f, 'c, 'n, 'p, 'r, 'l, 's) env \<Rightarrow> ('i, 'l) read_call \<Rightarrow>
     ('i, 'f, 'n, 'p, 'r) endpoint \<Rightarrow> ('i, 'f, 'n, 'p, 'r) endpoint" where
  "read_step E (RC_Read now logs ctx) ep = snd (read_index E now logs ctx ep)"
| "read_step E (RC_Request now logs ri) ep = on_read_index E now logs ri ep"
| "read_step E (RC_Response from response) ep = on_read_index_response from response ep"
| "read_step E (RC_Leader leader) ep = set_leader leader ep"

lemma read_step_ok: "fr_ok (forwarded ep) \<Longrightarrow> fr_ok (forwarded (read_step E call ep))"
proof (cases call)
  case (RC_Read now logs ctx)
  assume "fr_ok (forwarded ep)"
  then show ?thesis using read_index_forwarded [of E now logs ctx ep] by (auto simp: RC_Read fr_push_ok)
next
  case (RC_Response "from" response)
  assume "fr_ok (forwarded ep)"
  then show ?thesis using response_forwarded [of "from" response ep] by (auto simp: RC_Response remove_by_token_ok)
qed (simp_all add: forwarded_frame set_leader_forwarded fr_clear_ok)

section \<open>Properties\<close>

text \<open>
  C32: the reads a node has forwarded are bounded and told apart. Along any sequence of reads of its
  application, requests and responses of its peers and changes of leader, on an endpoint that starts
  with an empty table, the table never holds more than the cap and never two reads with one context,
  and a response that carries the token of an entry completes the read of that entry and no other.
\<close>

theorem forwarded_reads_bounded:
  assumes "rd_forwarded_reads (ep_reads ep) = fr_new e"
  shows "let fr = rd_forwarded_reads (ep_reads (fold (read_step E) calls ep))
    in length (fr_order fr) \<le> MAX_FORWARDED_READS \<and> distinct (map snd (fr_order fr)) \<and>
       list_all (\<lambda>(token, ctx). fst (remove_by_token token fr) = Some ctx) (fr_order fr)"
proof -
  have "fr_ok (forwarded (fold (read_step E) calls ep))" if "fr_ok (forwarded ep)" for ep
    using that by (induction calls arbitrary: ep) (simp_all add: read_step_ok)
  from this [of ep] have "fr_ok (forwarded (fold (read_step E) calls ep))"
    using assms by (simp add: forwarded_def fr_new_ok)
  then show ?thesis
    using remove_by_token_of_entry by (auto simp: forwarded_def fr_ok_def list_all_iff Let_def)
qed

theorem forwarded_reads_bounded_witness:
  "\<forall>E config now rng fsm logs. let fr = rd_forwarded_reads (ep_reads (fold (read_step E)
       [RC_Leader (Some (2 :: nat)), RC_Read now logs [7], RC_Read now logs [7], RC_Read now logs [8]]
       (new_with_rng E config now rng fsm)))
     in length (fr_order fr) \<le> MAX_FORWARDED_READS \<and> distinct (map snd (fr_order fr)) \<and>
        list_all (\<lambda>(token, ctx). fst (remove_by_token token fr) = Some ctx) (fr_order fr)"
  by (intro allI forwarded_reads_bounded [where e = 0])
    (simp add: new_with_rng_def arm_election_timer_def endpoint_fresh_def split: option.split)

end
