(* ===== verification/Replication.thy ===== *)
theory Replication
  imports Reads
begin

text \<open>
  The replication handlers of \<^verbatim>\<open>sailing-proto/src/endpoint/replication.rs\<close>: what a follower does with
  an append or a heartbeat, what a leader does with their responses, and the walk back to the
  conflict both of them use.
\<close>

section \<open>Finding the conflict\<close>

text \<open>The walk is bounded by its budget of term reads.\<close>

fun conflict_walk ::
    "('i, 'f, 'c, 'n, 'p, 'r, 'l, 's) env \<Rightarrow> 'l \<Rightarrow> raft_term \<Rightarrow> nat \<Rightarrow> index \<Rightarrow>
     ('i, 'f, 'n, 'p, 'r) endpoint \<Rightarrow> index option \<times> ('i, 'f, 'n, 'p, 'r) endpoint" where
  "conflict_walk E logs term 0 idx ep = (Some idx, ep)"
| "conflict_walk E logs term (Suc budget) idx ep =
     (if idx \<ge> log_first_index E logs
      then case log_term E logs idx ep of
             (None, ep) \<Rightarrow> (None, ep)
           | (Some t, ep) \<Rightarrow>
               if t \<le> term then (Some idx, ep) else conflict_walk E logs term budget (idx - 1) ep
      else (Some idx, ep))"

definition find_conflict_by_term ::
    "('i, 'f, 'c, 'n, 'p, 'r, 'l, 's) env \<Rightarrow> 'l \<Rightarrow> index \<Rightarrow> raft_term \<Rightarrow>
     ('i, 'f, 'n, 'p, 'r) endpoint \<Rightarrow> index option \<times> ('i, 'f, 'n, 'p, 'r) endpoint" where
  "find_conflict_by_term E logs idx term ep =
     conflict_walk E logs term (unat CONFLICT_WALK_BUDGET) idx ep"

definition match_within_log :: "('i, 'f, 'c, 'n, 'p, 'r, 'l, 's) env \<Rightarrow> 'l \<Rightarrow> index \<Rightarrow> bool" where
  "match_within_log E logs m \<longleftrightarrow> m \<le> log_last_index E logs"

section \<open>The follower\<close>

definition note_stuck_advertised ::
    "now \<Rightarrow> ('i, 'f, 'n, 'p, 'r) endpoint \<Rightarrow> ('i, 'f, 'n, 'p, 'r) endpoint" where
  "note_stuck_advertised now ep =
     ep\<lparr>ep_merge := (ep_merge ep)\<lparr>me_stuck_advert_next_at :=
          Some (instant_add (mono now) (cfg_election_timeout (ep_config ep)))\<rparr>\<rparr>"

definition drive_stuck_advertisement ::
    "now \<Rightarrow> ('i, 'f, 'n, 'p, 'r) endpoint \<Rightarrow> ('i, 'f, 'n, 'p, 'r) endpoint" where
  "drive_stuck_advertisement now ep =
     (case merge_park_unresolvable ep of
        None \<Rightarrow> ep\<lparr>ep_merge := (ep_merge ep)\<lparr>me_stuck_advert_next_at := None\<rparr>\<rparr>
      | Some boundary \<Rightarrow>
          if ep_role ep = Leader then ep
          else case ep_leader ep of
                 None \<Rightarrow> ep
               | Some leader \<Rightarrow>
                   if (case me_stuck_advert_next_at (ep_merge ep) of Some t \<Rightarrow> t > mono now | None \<Rightarrow> False)
                   then ep
                   else let ep = note_stuck_advertised now ep
                        in send leader (MHeartbeatResponse
                             ((heartbeat_response_new (ep_term ep) (cfg_id (ep_config ep)) [])
                                \<lparr>hr_stuck_boundary := boundary\<rparr>)) ep)"

text \<open>The support a follower advertises: its election timeout once the promise is durable.\<close>

definition advertise_support ::
    "('i, 'f, 'n, 'p, 'r) endpoint \<Rightarrow> duration \<times> ('i, 'f, 'n, 'p, 'r) endpoint" where
  "advertise_support ep =
     (if cfg_check_quorum (ep_config ep) \<or> cfg_pre_vote (ep_config ep)
      then let this_run = cfg_election_timeout (ep_config ep);
               ep = (if option_gt (Some this_run) (du_lease_support_floor (ep_durable ep))
                     then ep\<lparr>ep_durable := (ep_durable ep)\<lparr>du_lease_support_floor := Some this_run\<rparr>\<rparr>
                     else ep)
           in (if option_ge (du_durable_lease_support (ep_durable ep)) (Some this_run) then this_run else 0, ep)
      else (0, ep))"

definition on_heartbeat ::
    "('i::linorder, 'f, 'c, 'n, 'p, 'r, 'l, 's) env \<Rightarrow> now \<Rightarrow> 'l \<Rightarrow> 'i heartbeat \<Rightarrow>
     ('i, 'f, 'n, 'p, 'r) endpoint \<Rightarrow> ('i, 'f, 'n, 'p, 'r) endpoint" where
  "on_heartbeat E now logs hb ep =
     (let ep = arm_election_timer E now (set_leader (Some (hb_leader hb)) (ep\<lparr>ep_role := Follower\<rparr>));
          new_commit = min (hb_commit hb) (log_last_index E logs);
          ep = (if new_commit > ep_commit ep then ep\<lparr>ep_commit := new_commit\<rparr> else ep);
          ep = (if ep_applied ep < ep_commit ep then snd (apply_committed E logs ep) else ep)
      in if is_poisoned ep then ep
         else let (support, ep) = advertise_support ep;
                  stuck = (case merge_park_unresolvable ep of Some b \<Rightarrow> b | None \<Rightarrow> 0);
                  ep = send (hb_leader hb) (MHeartbeatResponse
                         ((heartbeat_response_new (ep_term ep) (cfg_id (ep_config ep)) (hb_context hb))
                            \<lparr>hr_lease_round := hb_lease_round hb, hr_lease_support := support,
                             hr_stuck_boundary := stuck\<rparr>)) ep
              in if stuck \<noteq> 0 then note_stuck_advertised now ep else ep)"

text \<open>Whether the entry before the append is the one this log has; an unreadable term poisons.\<close>

definition append_consistent ::
    "('i, 'f, 'c, 'n, 'p, 'r, 'l, 's) env \<Rightarrow> 'l \<Rightarrow> 'i append_entries \<Rightarrow>
     ('i, 'f, 'n, 'p, 'r) endpoint \<Rightarrow> bool \<times> ('i, 'f, 'n, 'p, 'r) endpoint" where
  "append_consistent E logs ae ep =
     (if ae_prev_log_index ae = 0 \<or> ae_prev_log_index ae < log_first_index E logs then (True, ep)
      else if ae_prev_log_index ae \<le> log_last_index E logs
      then let (t, ep) = log_term E logs (ae_prev_log_index ae) ep in (t = Some (ae_prev_log_term ae), ep)
      else (False, ep))"

definition reject_append ::
    "('i, 'f, 'c, 'n, 'p, 'r, 'l, 's) env \<Rightarrow> 'l \<Rightarrow> 'i append_entries \<Rightarrow>
     ('i, 'f, 'n, 'p, 'r) endpoint \<Rightarrow> ('i, 'f, 'n, 'p, 'r) endpoint" where
  "reject_append E logs ae ep =
     (case find_conflict_by_term E logs (min (ae_prev_log_index ae) (log_last_index E logs))
             (ae_prev_log_term ae) ep of
        (None, ep) \<Rightarrow> ep
      | (Some hint_index, ep) \<Rightarrow>
          (case log_term E logs hint_index ep of
             (None, ep) \<Rightarrow> ep
           | (Some hint_term, ep) \<Rightarrow>
               send (ae_leader ae) (MAppendResponse
                 ((append_response_new (ep_term ep) (cfg_id (ep_config ep)) True hint_index hint_term 0)
                    \<lparr>ar_rejected_index := ae_prev_log_index ae\<rparr>)) ep))"

text \<open>The index of the last entry if the entries follow the previous index one by one.\<close>

fun contiguous_from :: "index \<Rightarrow> entry list \<Rightarrow> index option" where
  "contiguous_from last_new [] = Some last_new"
| "contiguous_from last_new (e # es) =
     (case next_log_index last_new of
        None \<Rightarrow> None
      | Some expected \<Rightarrow> if en_index e \<noteq> expected then None else contiguous_from expected es)"

text \<open>
  The suffix that starts at the first entry the log does not have; the empty suffix is no conflict.
  An unreadable term poisons the node and ends the handler.
\<close>

fun first_conflict ::
    "('i, 'f, 'c, 'n, 'p, 'r, 'l, 's) env \<Rightarrow> 'l \<Rightarrow> entry list \<Rightarrow>
     ('i, 'f, 'n, 'p, 'r) endpoint \<Rightarrow> entry list option \<times> ('i, 'f, 'n, 'p, 'r) endpoint" where
  "first_conflict E logs [] ep = (Some [], ep)"
| "first_conflict E logs (e # es) ep =
     (if en_index e < log_first_index E logs then first_conflict E logs es ep
      else if en_index e \<le> log_last_index E logs
      then case log_term E logs (en_index e) ep of
             (None, ep) \<Rightarrow> (None, ep)
           | (Some t, ep) \<Rightarrow> if t = en_term e then first_conflict E logs es ep else (Some (e # es), ep)
      else (Some (e # es), ep))"

definition pop_inflight_from :: "index \<Rightarrow> (OpId \<times> index) list \<Rightarrow> (OpId \<times> index) list" where
  "pop_inflight_from truncate_from q = rev (dropWhile (\<lambda>(_, u). u \<ge> truncate_from) (rev q))"

text \<open>
  Writing a conflicting suffix: the term is made durable first, everything that acknowledges what
  the truncation removes is scrubbed, the durable index is cut below it, and the suffix is appended.
\<close>

definition write_suffix ::
    "('i, 'f, 'c, 'n, 'p, 'r, 'l, 's) env \<Rightarrow> index \<Rightarrow> entry list \<Rightarrow>
     ('i, 'f, 'n, 'p, 'r) endpoint \<Rightarrow> 'l \<Rightarrow> 's \<Rightarrow>
     OpId \<times> ('i, 'f, 'n, 'p, 'r) endpoint \<times> 'l \<times> 's" where
  "write_suffix E truncate_from suffix ep logs stab =
     (let (ep, stab) = ensure_term_durable E ep stab;
          ep = note_freeze_truncated truncate_from ep;
          ep = scrub_acks_above (truncate_from - 1) ep;
          ep = ep\<lparr>ep_durable := (ep_durable ep)\<lparr>
                   du_durable_index := min (du_durable_index (ep_durable ep)) (truncate_from - 1),
                   du_inflight_append_upto :=
                     pop_inflight_from truncate_from (du_inflight_append_upto (ep_durable ep))\<rparr>\<rparr>;
          (opid, ep) = mint_op_id ep;
          (ep, logs) = submit_append E opid suffix ep logs;
          ep = fold (\<lambda>e. if en_kind e = EK_PrepareMerge then note_freeze_appended (en_index e) else (\<lambda>ep. ep))
                 suffix ep
      in (opid, ep, logs, stab))"

definition raise_lease_window ::
    "entry list \<Rightarrow> ('i, 'f, 'n, 'p, 'r) endpoint \<Rightarrow> ('i, 'f, 'n, 'p, 'r) endpoint" where
  "raise_lease_window es ep =
     ep\<lparr>ep_lease_guard := fold (\<lambda>e g. g\<lparr>lg_max_lease_window := max (lg_max_lease_window g) (en_lease_window e)\<rparr>)
          es (ep_lease_guard ep)\<rparr>"

text \<open>Committing, applying and acknowledging after the entries are in the log.\<close>

definition finish_append ::
    "('i::linorder, 'f, 'c, 'n, 'p, 'r, 'l, 's) env \<Rightarrow> 'l \<Rightarrow> 'i append_entries \<Rightarrow> index \<Rightarrow> OpId option \<Rightarrow>
     ('i, 'f, 'n, 'p, 'r) endpoint \<Rightarrow> ('i, 'f, 'n, 'p, 'r) endpoint" where
  "finish_append E logs ae last_new appended ep =
     (let new_commit = min (ae_leader_commit ae) last_new;
          ep = (if new_commit > ep_commit ep then ep\<lparr>ep_commit := new_commit\<rparr> else ep);
          ep = (if ep_applied ep < ep_commit ep then snd (apply_committed E logs ep) else ep)
      in if is_poisoned ep then ep
         else case appended of
                Some opid \<Rightarrow> push_pending opid (FollowerAck (ae_leader ae) last_new) ep
              | None \<Rightarrow> send_or_gate_append_ack (ae_leader ae) last_new ep)"

definition on_append_entries ::
    "('i::linorder, 'f, 'c, 'n, 'p, 'r, 'l, 's) env \<Rightarrow> now \<Rightarrow> 'i append_entries \<Rightarrow>
     ('i, 'f, 'n, 'p, 'r) endpoint \<Rightarrow> 'l \<Rightarrow> 's \<Rightarrow> ('i, 'f, 'n, 'p, 'r) endpoint \<times> 'l \<times> 's" where
  "on_append_entries E now ae ep logs stab =
     (let ep = arm_election_timer E now (set_leader (Some (ae_leader ae)) (ep\<lparr>ep_role := Follower\<rparr>));
          (consistent, ep) = append_consistent E logs ae ep
      in if is_poisoned ep then (ep, logs, stab)
         else if \<not> consistent then (reject_append E logs ae ep, logs, stab)
         else case contiguous_from (ae_prev_log_index ae) (ae_entries ae) of
                None \<Rightarrow> (poison PR_NonContiguousAppend ep, logs, stab)
              | Some last_new \<Rightarrow>
                  (case first_conflict E logs (ae_entries ae) ep of
                     (None, ep) \<Rightarrow> (ep, logs, stab)
                   | (Some [], ep) \<Rightarrow>
                       (finish_append E logs ae last_new None (raise_lease_window (ae_entries ae) ep), logs, stab)
                   | (Some (e # es), ep) \<Rightarrow>
                       if en_index e \<le> ep_commit ep then (poison PR_CommittedTruncation ep, logs, stab)
                       else let (opid, ep, logs, stab) = write_suffix E (en_index e) (e # es) ep logs stab
                            in (finish_append E logs ae last_new (Some opid)
                                  (raise_lease_window (ae_entries ae) ep), logs, stab)))"

section \<open>The leader\<close>

text \<open>Counting a lease acknowledgement of the current round, and renewing the lease at a quorum.\<close>

definition count_lease_ack ::
    "'i \<Rightarrow> 'i heartbeat_response \<Rightarrow> ('i::linorder, 'f, 'n, 'p, 'r) endpoint \<Rightarrow>
     ('i, 'f, 'n, 'p, 'r) endpoint" where
  "count_lease_ack from response ep =
     (let q = ep_check_quorum_lease ep
      in if hr_lease_round response = cq_lease_round q \<and> hr_lease_support response > 0 \<and>
            \<not> merge_freeze_active ep
         then let q = q\<lparr>cq_lease_acks := finsert from (cq_lease_acks q),
                        cq_lease_min_support := min (cq_lease_min_support q) (hr_lease_support response)\<rparr>;
                  q = (if vote_result_by (ep_tracker ep)
                            (\<lambda>i. i = cfg_id (ep_config ep) \<or> i |\<in>| cq_lease_acks q) = Won
                       then q\<lparr>cq_lease_valid_until :=
                                Some (instant_add (cq_lease_round_start q) (cq_lease_min_support q))\<rparr>
                       else q)
              in ep\<lparr>ep_check_quorum_lease := q\<rparr>
         else ep)"

definition snapshot_behind :: "progress option \<Rightarrow> bool" where
  "snapshot_behind p =
     (case p of
        Some pr \<Rightarrow> (case pr_state pr of Snapshot pend _ _ \<Rightarrow> match_index pr < pend | _ \<Rightarrow> False)
      | None \<Rightarrow> False)"

text \<open>The paced resend to a peer behind a pending snapshot; \<open>False\<close> ends the handler.\<close>

definition resend_if_due ::
    "('i::linorder, 'f, 'c, 'n, 'p, 'r, 'l, 's) env \<Rightarrow> now \<Rightarrow> 'i \<Rightarrow> 's \<Rightarrow>
     ('i, 'f, 'n, 'p, 'r) endpoint \<Rightarrow> bool \<times> ('i, 'f, 'n, 'p, 'r) endpoint" where
  "resend_if_due E now from stab ep =
     (if snapshot_behind (progress_of (ep_tracker ep) from)
      then if (case map_of (ss_snapshot_resend_after (ep_snapshot ep)) from of
                 Some after \<Rightarrow> mono now \<ge> after | None \<Rightarrow> True)
           then case resend_snapshot E from stab ep of
                  (CS_Sent, ep) \<Rightarrow>
                    (True, ep\<lparr>ep_snapshot := (ep_snapshot ep)\<lparr>ss_snapshot_resend_after :=
                       bm_insert from (instant_add (mono now) (cfg_election_timeout (ep_config ep)))
                         (ss_snapshot_resend_after (ep_snapshot ep))\<rparr>\<rparr>)
                | (CS_Poisoned, ep) \<Rightarrow> (False, ep)
                | (_, ep) \<Rightarrow> (True, ep)
           else (True, ep)
      else (True, ep\<lparr>ep_snapshot := (ep_snapshot ep)\<lparr>ss_snapshot_resend_after :=
                      AList.delete from (ss_snapshot_resend_after (ep_snapshot ep))\<rparr>\<rparr>))"

definition acknowledge_read ::
    "'i \<Rightarrow> bytes \<Rightarrow> ('i::linorder, 'f, 'n, 'p, 'r) endpoint \<Rightarrow> ('i, 'f, 'n, 'p, 'r) endpoint" where
  "acknowledge_read from ctx ep =
     (if ctx = [] then ep
      else let (_, ro) = recv_ack from ctx (rd_read_only (ep_reads ep));
               ep = ep\<lparr>ep_reads := (ep_reads ep)\<lparr>rd_read_only := ro\<rparr>\<rparr>
           in if (case acks_for ctx ro of
                    Some acks \<Rightarrow> vote_result_by (ep_tracker ep) (\<lambda>i. i |\<in>| acks) = Won
                  | None \<Rightarrow> False)
              then let (confirmed, ro) = ro_advance ctx ro
                   in answer_confirmed confirmed (ep\<lparr>ep_reads := (ep_reads ep)\<lparr>rd_read_only := ro\<rparr>\<rparr>)
              else ep)"

definition on_heartbeat_response ::
    "('i::linorder, 'f, 'c, 'n, 'p, 'r, 'l, 's) env \<Rightarrow> now \<Rightarrow> 'i \<Rightarrow> 'l \<Rightarrow> 's \<Rightarrow> 'i heartbeat_response \<Rightarrow>
     ('i, 'f, 'n, 'p, 'r) endpoint \<Rightarrow> ('i, 'f, 'n, 'p, 'r) endpoint" where
  "on_heartbeat_response E now from logs stab response ep =
     (if ep_role ep \<noteq> Leader then ep
      else let ep = count_lease_ack from response ep;
               stuck = hr_stuck_boundary response;
               ep = (if stuck \<noteq> 0 \<and> stuck \<le> ep_commit ep \<and> progress_of (ep_tracker ep) from \<noteq> None
                     then note_cure_debt now from stuck ep else ep);
               ep = ep\<lparr>ep_tracker :=
                      progress_mut from (\<lambda>p. free_inflight_on_heartbeat (clear_probe_pause p)) (ep_tracker ep)\<rparr>;
               ep = (case progress_of (ep_tracker ep) from of
                       Some pr \<Rightarrow>
                         if match_index pr < log_last_index E logs \<or> pr_state pr = Probe
                         then pump_appends E now from logs stab ep else ep
                     | None \<Rightarrow> ep)
           in if is_poisoned ep then ep
              else case resend_if_due E now from stab ep of
                     (False, ep) \<Rightarrow> ep
                   | (True, ep) \<Rightarrow> acknowledge_read from (hr_context response) ep)"

definition maybe_hand_off_to_transferee ::
    "('i::linorder, 'f, 'c, 'n, 'p, 'r, 'l, 's) env \<Rightarrow> 'i \<Rightarrow> 'l \<Rightarrow>
     ('i, 'f, 'n, 'p, 'r) endpoint \<Rightarrow> ('i, 'f, 'n, 'p, 'r) endpoint" where
  "maybe_hand_off_to_transferee E from logs ep =
     (if tf_lead_transferee (ep_transfer ep) = Some from \<and>
         acked_index (ep_tracker ep) from = log_last_index E logs
      then let ep = ep\<lparr>ep_transfer := (ep_transfer ep)\<lparr>tf_forced_handoff_target := Some from\<rparr>\<rparr>;
               ep = send from (MTimeoutNow \<lparr>tn_term = ep_term ep, tn_leader = cfg_id (ep_config ep)\<rparr>) ep
           in ep\<lparr>ep_transfer := (ep_transfer ep)\<lparr>tf_forced_handoff_this_term := True\<rparr>\<rparr>
      else ep)"

text \<open>A rejection moves the peer back to probe below the conflict, never to or below its match.\<close>

definition on_append_rejected ::
    "('i::linorder, 'f, 'c, 'n, 'p, 'r, 'l, 's) env \<Rightarrow> now \<Rightarrow> 'i \<Rightarrow> 'l \<Rightarrow> 's \<Rightarrow> 'i append_response \<Rightarrow>
     progress \<Rightarrow> ('i, 'f, 'n, 'p, 'r) endpoint \<Rightarrow> ('i, 'f, 'n, 'p, 'r) endpoint" where
  "on_append_rejected E now from logs stab response pr ep =
     (case pr_state pr of
        Snapshot _ _ _ \<Rightarrow> ep
      | _ \<Rightarrow>
          let rejected = ar_rejected_index response
          in if rejected \<noteq> 0 \<and> rejected \<le> match_index pr then ep
             else case find_conflict_by_term E logs
                         (min (ar_reject_hint_index response) (log_last_index E logs))
                         (ar_reject_hint_term response) ep of
                    (None, ep) \<Rightarrow> ep
                  | (Some conflict, ep) \<Rightarrow>
                      let rejected_prev = saturating_sub (next_index pr) 1;
                          flr = (if rejected \<noteq> 0 then saturating_add (match_index pr) 1 else 1);
                          safe_next = max (min rejected_prev (saturating_add conflict 1)) flr;
                          ep = ep\<lparr>ep_tracker :=
                                 progress_mut from (\<lambda>p. set_next_index safe_next (become_probe p)) (ep_tracker ep)\<rparr>
                      in maybe_send_append E now from logs stab ep)"

definition on_append_accepted ::
    "('i::linorder, 'f, 'c, 'n, 'p, 'r, 'l, 's) env \<Rightarrow> now \<Rightarrow> 'i \<Rightarrow> 'l \<Rightarrow> 's \<Rightarrow> 'i append_response \<Rightarrow>
     progress \<Rightarrow> ('i, 'f, 'n, 'p, 'r) endpoint \<Rightarrow> ('i, 'f, 'n, 'p, 'r) endpoint" where
  "on_append_accepted E now from logs stab response pr ep =
     (if \<not> match_within_log E logs (ar_match_index response) then ep
      else let (updated, pr') = maybe_update (ar_match_index response) pr;
               ep = ep\<lparr>ep_tracker := progress_mut from (\<lambda>_. pr') (ep_tracker ep)\<rparr>
           in if \<not> updated then ep
              else let ep = (if pr_state pr = Probe
                             then ep\<lparr>ep_tracker := progress_mut from become_replicate (ep_tracker ep)\<rparr>
                             else ep);
                       ep = maybe_advance_commit E now logs ep;
                       ep = snd (apply_committed E logs ep)
                   in if is_poisoned ep then ep
                      else let ep = maybe_flush_deferred_reads E now logs ep;
                               ep = pump_appends E now from logs stab ep
                           in if is_poisoned ep then ep
                              else maybe_hand_off_to_transferee E from logs ep)"

definition on_append_response ::
    "('i::linorder, 'f, 'c, 'n, 'p, 'r, 'l, 's) env \<Rightarrow> now \<Rightarrow> 'l \<Rightarrow> 's \<Rightarrow> 'i \<Rightarrow> 'i append_response \<Rightarrow>
     ('i, 'f, 'n, 'p, 'r) endpoint \<Rightarrow> ('i, 'f, 'n, 'p, 'r) endpoint" where
  "on_append_response E now logs stab from response ep =
     (if is_poisoned ep then ep
      else if ep_role ep \<noteq> Leader then ep
      else case progress_of (ep_tracker ep) from of
             None \<Rightarrow> ep
           | Some pr \<Rightarrow>
               if ar_reject response then on_append_rejected E now from logs stab response pr ep
               else on_append_accepted E now from logs stab response pr ep)"

end
