(* ===== verification/Election.thy ===== *)
theory Election
  imports Replication
begin

text \<open>
  Elections, \<^verbatim>\<open>sailing-proto/src/endpoint/election.rs\<close>, and leadership transfer, \<^verbatim>\<open>transfer.rs\<close> with the
  hand-off of a stuck leader (\<^verbatim>\<open>mod.rs\<close>): votes, the campaigns with and without a pre-vote round, and
  what a node resets and arms when it becomes leader.
\<close>

section \<open>Stepping down and voting\<close>

definition step_down_to_follower ::
    "('i, 'f, 'c, 'n, 'p, 'r, 'l, 's) env \<Rightarrow> now \<Rightarrow> ('i, 'f, 'n, 'p, 'r) endpoint \<Rightarrow>
     ('i, 'f, 'n, 'p, 'r) endpoint" where
  "step_down_to_follower E now ep =
     (let ep = set_leader None (ep\<lparr>ep_role := Follower\<rparr>);
          ep = ep\<lparr>ep_heartbeat_deadline := None,
                  ep_reads := (ep_reads ep)\<lparr>
                    rd_read_only := ro_reset (rd_active_read_mode (ep_reads ep)) (rd_read_only (ep_reads ep)),
                    rd_pending_reads := []\<rparr>,
                  ep_lease_guard := (ep_lease_guard ep)\<lparr>lg_lease_refresh_wanted := False,
                    lg_read_since_anchor := False\<rparr>\<rparr>
      in arm_election_timer E now (clear_transfer ep))"

definition self_vote_durable :: "('i, 'f, 'n, 'p, 'r) endpoint \<Rightarrow> bool" where
  "self_vote_durable ep \<longleftrightarrow>
     \<not> list_ex (\<lambda>(_, p). p = Campaign (ep_term ep)) (ep_pending_stable ep)"

text \<open>
  The position a candidate's log is held against: the last entry, or the boundary of a snapshot
  being installed or received when that is ahead of it. Pairs are compared term first.
\<close>

definition ahead_of :: "'i snapshot_meta option \<Rightarrow> index \<times> raft_term \<Rightarrow> index \<times> raft_term" where
  "ahead_of meta pos =
     (case meta of
        Some m \<Rightarrow> if (sm_last_term m, sm_last_index m) > (snd pos, fst pos)
                  then (sm_last_index m, sm_last_term m) else pos
      | None \<Rightarrow> pos)"

definition vote_position :: "index \<times> raft_term \<Rightarrow> ('i, 'f, 'n, 'p, 'r) endpoint \<Rightarrow> index \<times> raft_term" where
  "vote_position pos ep =
     ahead_of (map_option sv_meta (ss_snapshot_recv (ep_snapshot ep)))
       (ahead_of (map_option (\<lambda>(_, m, _, _). m) (ss_pending_install (ep_snapshot ep))) pos)"

definition vote_reply ::
    "raft_term \<Rightarrow> bool \<Rightarrow> bool \<Rightarrow> ('i, 'f, 'n, 'p, 'r) endpoint \<Rightarrow> 'i message" where
  "vote_reply term pre_vote reject ep =
     MVoteResponse \<lparr>vr_term = term, vr_from = cfg_id (ep_config ep), vr_pre_vote = pre_vote,
       vr_reject = reject\<rparr>"

definition pre_vote_granted ::
    "now \<Rightarrow> 'i request_vote \<Rightarrow> bool \<Rightarrow> ('i, 'f, 'n, 'p, 'r) endpoint \<Rightarrow> bool" where
  "pre_vote_granted now rv log_ok ep \<longleftrightarrow>
     log_ok \<and>
     (rv_term rv \<ge> ep_term ep \<and>
      (rv_term rv > ep_term ep \<or> ep_voted_for ep = None \<or> ep_voted_for ep = Some (rv_candidate rv))) \<and>
     \<not> (ep_leader ep \<noteq> None \<and>
         (case ep_election_deadline ep of Some d \<Rightarrow> d > mono now | None \<Rightarrow> False)) \<and>
     \<not> lease_vote_fenced now (rv_leader_transfer rv) ep"

definition on_request_vote ::
    "('i::linorder, 'f, 'c, 'n, 'p, 'r, 'l, 's) env \<Rightarrow> now \<Rightarrow> 'l \<Rightarrow> 'i request_vote \<Rightarrow>
     ('i, 'f, 'n, 'p, 'r) endpoint \<Rightarrow> 's \<Rightarrow> ('i, 'f, 'n, 'p, 'r) endpoint \<times> 's" where
  "on_request_vote E now logs rv ep stab =
     (case last_log E logs ep of
        (None, ep) \<Rightarrow> (poison PR_LogTerm ep, stab)
      | (Some pos, ep) \<Rightarrow>
          let (my_index, my_term) = vote_position pos ep;
              log_ok = ((rv_last_log_term rv, rv_last_log_index rv) \<ge> (my_term, my_index))
          in if rv_pre_vote rv
             then let grant = pre_vote_granted now rv log_ok ep;
                      response_term = (if grant then rv_term rv else ep_term ep)
                  in (send (rv_candidate rv) (vote_reply response_term True (\<not> grant) ep) ep, stab)
             else if (ep_voted_for ep = None \<or> ep_voted_for ep = Some (rv_candidate rv)) \<and> log_ok \<and>
                     \<not> lease_vote_fenced now (rv_leader_transfer rv) ep
             then let ep = arm_election_timer E now (ep\<lparr>ep_voted_for := Some (rv_candidate rv)\<rparr>);
                      (opid, ep, stab) = persist_own_state E ep stab
                  in (push_pending opid (CastVote (rv_candidate rv) (ep_term ep)) ep, stab)
             else (send (rv_candidate rv) (vote_reply (ep_term ep) False True ep) ep, stab))"

section \<open>Campaigns\<close>

definition request_votes ::
    "raft_term \<Rightarrow> index \<Rightarrow> raft_term \<Rightarrow> bool \<Rightarrow> bool \<Rightarrow> ('i::linorder, 'f, 'n, 'p, 'r) endpoint \<Rightarrow>
     ('i, 'f, 'n, 'p, 'r) endpoint" where
  "request_votes term last_index last_term pre_vote transfer ep =
     send_all
       (map (\<lambda>peer. (peer, MRequestVote \<lparr>rv_term = term, rv_candidate = cfg_id (ep_config ep),
                             rv_last_log_index = last_index, rv_last_log_term = last_term,
                             rv_pre_vote = pre_vote, rv_leader_transfer = transfer\<rparr>))
          (filter (tr_is_voter (ep_tracker ep)) (peers ep))) ep"

definition become_candidate ::
    "('i::linorder, 'f, 'c, 'n, 'p, 'r, 'l, 's) env \<Rightarrow> now \<Rightarrow> 'l \<Rightarrow> bool \<Rightarrow>
     ('i, 'f, 'n, 'p, 'r) endpoint \<Rightarrow> 's \<Rightarrow> ('i, 'f, 'n, 'p, 'r) endpoint \<times> 's" where
  "become_candidate E now logs transfer ep stab =
     (let me = cfg_id (ep_config ep)
      in if \<not> tr_is_voter (ep_tracker ep) me then (ep, stab)
         else if merge_park_membership_superseded E logs ep then (ep, stab)
         else if counter_next (ep_term ep) = ep_term ep then (ep, stab)
         else case last_log E logs ep of
                (None, ep) \<Rightarrow> (poison PR_LogTerm ep, stab)
              | (Some (last_index, last_term), ep) \<Rightarrow>
                  let ep = note_campaign_floor_provability ep;
                      ep = ep\<lparr>ep_term := counter_next (ep_term ep), ep_pending_log := [],
                              ep_pending_stable := [], ep_role := Candidate\<rparr>;
                      ep = set_leader None ep;
                      ep = ep\<lparr>ep_voted_for := Some me, ep_votes := [(me, True)]\<rparr>;
                      (opid, ep, stab) = persist_own_state E ep stab;
                      ep = push_pending opid (Campaign (ep_term ep)) ep;
                      ep = arm_election_timer E now ep
                  in (request_votes (ep_term ep) last_index last_term False transfer ep, stab))"

definition become_pre_candidate ::
    "('i::linorder, 'f, 'c, 'n, 'p, 'r, 'l, 's) env \<Rightarrow> now \<Rightarrow> 'l \<Rightarrow>
     ('i, 'f, 'n, 'p, 'r) endpoint \<Rightarrow> bool \<times> ('i, 'f, 'n, 'p, 'r) endpoint" where
  "become_pre_candidate E now logs ep =
     (let me = cfg_id (ep_config ep)
      in if \<not> tr_is_voter (ep_tracker ep) me then (False, ep)
         else if merge_park_membership_superseded E logs ep then (False, ep)
         else if counter_next (ep_term ep) = ep_term ep then (False, ep)
         else let ep = set_leader None (ep\<lparr>ep_role := PreCandidate\<rparr>);
                  ep = arm_election_timer E now (ep\<lparr>ep_votes := [(me, True)]\<rparr>)
              in case last_log E logs ep of
                   (None, ep) \<Rightarrow> (False, poison PR_LogTerm ep)
                 | (Some (last_index, last_term), ep) \<Rightarrow>
                     let ep = note_campaign_floor_provability ep;
                         ep = request_votes (counter_next (ep_term ep)) last_index last_term True False ep
                     in (tr_vote_result (ep_tracker ep) (map_of (ep_votes ep)) = Won, ep))"

section \<open>Becoming leader\<close>

definition committed_anchor_at_election ::
    "('i, 'f, 'c, 'n, 'p, 'r, 'l, 's) env \<Rightarrow> 'l \<Rightarrow> ('i, 'f, 'n, 'p, 'r) endpoint \<Rightarrow>
     (u64 \<times> u64) \<times> ('i, 'f, 'n, 'p, 'r) endpoint" where
  "committed_anchor_at_election E logs ep =
     (if ep_commit ep < log_first_index E logs then ((0, 0), ep)
      else case commit_entry E logs ep of
             (Some e, ep) \<Rightarrow> ((en_wall_timestamp e, en_lease_window e), ep)
           | (None, ep) \<Rightarrow> ((0, 0), ep))"

text \<open>What a new leader clears of its predecessors' and its own earlier leadership.\<close>

definition reset_leader_state ::
    "now \<Rightarrow> index \<Rightarrow> ('i::linorder, 'f, 'n, 'p, 'r) endpoint \<Rightarrow> ('i, 'f, 'n, 'p, 'r) endpoint" where
  "reset_leader_state now last_i ep =
     (let me = cfg_id (ep_config ep); tr = ep_tracker ep;
          ep = ep\<lparr>ep_replication_pending := False,
                  ep_lease_guard := (ep_lease_guard ep)\<lparr>lg_lease_refresh_wanted := False,
                    lg_read_since_anchor := False\<rparr>,
                  ep_role := Leader\<rparr>;
          ep = set_leader (Some me) ep;
          ep = ep\<lparr>ep_reads := (ep_reads ep)\<lparr>
                    rd_read_only := ro_reset (rd_active_read_mode (ep_reads ep)) (rd_read_only (ep_reads ep)),
                    rd_pending_reads := []\<rparr>,
                  ep_check_quorum_lease := (ep_check_quorum_lease ep)\<lparr>cq_lease_round := 0,
                    cq_lease_acks := {||}, cq_lease_valid_until := None\<rparr>,
                  ep_snapshot := (ep_snapshot ep)\<lparr>ss_snapshot_resend_after := []\<rparr>,
                  ep_pending_farewells :=
                    map (\<lambda>(i, r). (i, r\<lparr>fw_next_at := None\<rparr>))
                      (filter (\<lambda>(i, _). progress_of tr i = None) (ep_pending_farewells ep)),
                  ep_courtesy_owed :=
                    map (\<lambda>(i, d). (i, d\<lparr>co_next_at := None\<rparr>))
                      (filter (\<lambda>(i, _). progress_of tr i = None) (ep_courtesy_owed ep)),
                  ep_transfer := \<lparr>tf_forced_handoff_this_term = False, tf_forced_handoff_target = None,
                    tf_lead_transferee = None, tf_transfer_deadline = None\<rparr>,
                  ep_election_deadline := None\<rparr>;
          ep = arm_heartbeat_timer now ep;
          ep = ep\<lparr>ep_pending_conf_index := last_i,
                  ep_reads := (ep_reads ep)\<lparr>rd_pending_read_mode_index := last_i\<rparr>,
                  ep_split := (ep_split ep)\<lparr>sl_pending_split_index := last_i, sl_pending_split_child := []\<rparr>,
                  ep_merge := (ep_merge ep)\<lparr>me_pending_commit_index := last_i,
                    me_pending_rollback_index := last_i, me_thaw_pending_index := 0,
                    me_witness_pending_index := 0\<rparr>,
                  ep_tracker :=
                    progress_mut me (\<lambda>p. snd (maybe_update last_i p))
                      (reset_progress (counter_next last_i) (cfg_max_inflight_msgs (ep_config ep))
                         (cfg_max_inflight_bytes (ep_config ep)) (ep_tracker ep))\<rparr>
      in if cfg_check_quorum (ep_config ep)
         then ep\<lparr>ep_tracker := progress_mut me (set_recent_active True) (ep_tracker ep),
                 ep_election_deadline := Some (instant_add (mono now) (cfg_election_timeout (ep_config ep)))\<rparr>
         else ep)"

text \<open>
  The inherited commit wait: how long this leader must not commit because a predecessor may still
  serve reads from a lease, whether the wait is inflated to cover the wall-clock floor, whether the
  inherited lease may be served, and the states that poison instead.
\<close>

definition inconsistent_floors :: "lease_guard_state \<Rightarrow> bool" where
  "inconsistent_floors g \<longleftrightarrow>
     (lg_max_wall_plus_window g \<noteq> 0 \<and> lg_max_lease_window g = 0) \<or>
     lg_max_unwalled_lease_window g > lg_max_lease_window g \<or>
     (lg_max_lease_window g > 0 \<and> lg_max_wall_plus_window g = 0 \<and> lg_max_unwalled_lease_window g = 0)"

definition wait_until :: "now \<Rightarrow> u64 \<Rightarrow> u64 option \<Rightarrow> instant option" where
  "wait_until now floor_window wait =
     (case wait of
        Some w \<Rightarrow> if floor_window > 0 then Some (instant_add (mono now) (unat w)) else None
      | None \<Rightarrow> None)"

definition arm_inherited_wait ::
    "now \<Rightarrow> ('i, 'f, 'n, 'p, 'r) endpoint \<Rightarrow> ('i, 'f, 'n, 'p, 'r) endpoint" where
  "arm_inherited_wait now ep =
     (let g = ep_lease_guard ep;
          inflated = failover_inflated_commit_wait ep;
          eps = map_option nanos_or_max (cfg_bounded_clock_uncertainty (ep_config ep));
          horizon_passable = (case eps of
              Some eps_ns \<Rightarrow> failover_horizon_passable (lg_max_wall_plus_window g) eps_ns | None \<Rightarrow> False);
          e_prime_fits = (case inflated of
              Some w \<Rightarrow> unat w < cfg_election_timeout (ep_config ep) | None \<Rightarrow> False);
          wall_proves_floor = (case eps of
              Some eps_ns \<Rightarrow>
                \<not> wall_is_absent (wall now) \<and>
                unat (wall now) + unat (lg_max_lease_window g) \<ge>
                  unat (lg_max_wall_plus_window g) + 2 * unat eps_ns
            | None \<Rightarrow> False);
          inflated_candidate = (e_prime_fits \<and> lg_max_wall_plus_window g \<noteq> 0 \<and>
              lg_max_lease_window g > 0 \<and> wall_proves_floor);
          armed_candidate = (failover_tier_active ep \<and> lg_max_lease_window g > 0 \<and>
              horizon_passable \<and> e_prime_fits);
          commit_wait_window = inflate_inherited_wait (lg_max_lease_window g) ep;
          unwalled_wait_window = inflate_inherited_wait (lg_max_unwalled_lease_window g) ep;
          deadline_exact = (case commit_wait_window of
              Some w \<Rightarrow> duration_add (mono now) (unat w) \<noteq> None | None \<Rightarrow> False);
          ep = ep\<lparr>ep_lease_guard := g\<lparr>lg_commit_wait_inflated := inflated_candidate \<and> deadline_exact,
                    lg_inherited_serve_armed := armed_candidate \<and> deadline_exact\<rparr>\<rparr>;
          ep = (if lg_max_lease_window g > 0 \<and> \<not> deadline_exact
                then poison PR_CommitWaitUnrepresentable ep else ep);
          ep = (if lg_max_unwalled_lease_window g > 0 \<and> unwalled_wait_window = None
                then poison PR_CommitWaitUnrepresentable ep else ep);
          ep = (if cfg_bounded_clock_uncertainty (ep_config ep) \<noteq> None \<and>
                   \<not> lg_commit_wait_inflated (ep_lease_guard ep) \<and>
                   lg_max_wall_plus_window g \<noteq> 0 \<and> \<not> horizon_passable
                then poison PR_WallHorizonUnrepresentable ep else ep);
          ep = (if inconsistent_floors g then poison PR_InconsistentLeaseFloor ep else ep)
      in ep\<lparr>ep_lease_guard := (ep_lease_guard ep)\<lparr>
              lg_commit_wait_until := wait_until now (lg_max_lease_window g) commit_wait_window,
              lg_inherited_release_deadline := lg_max_wall_plus_window g,
              lg_unwalled_commit_wait_until :=
                wait_until now (lg_max_unwalled_lease_window g) unwalled_wait_window\<rparr>\<rparr>)"

definition anchor_trustworthy :: "now \<Rightarrow> u64 \<Rightarrow> u64 \<Rightarrow> ('i, 'f, 'n, 'p, 'r) endpoint \<Rightarrow> bool" where
  "anchor_trustworthy now anchor_wall anchor_window ep =
     (case cfg_bounded_clock_uncertainty (ep_config ep) of
        Some eps \<Rightarrow>
          \<not> wall_is_absent (wall now) \<and>
          unat anchor_wall \<le> unat (wall now) + unat (nanos_or_max eps) \<and>
          unat anchor_wall + unat anchor_window \<le> unat (lg_max_wall_plus_window (ep_lease_guard ep))
      | None \<Rightarrow> False)"

definition anchor_inherited_lease ::
    "('i, 'f, 'c, 'n, 'p, 'r, 'l, 's) env \<Rightarrow> now \<Rightarrow> index \<Rightarrow> 'l \<Rightarrow>
     ('i, 'f, 'n, 'p, 'r) endpoint \<Rightarrow> ('i, 'f, 'n, 'p, 'r) endpoint" where
  "anchor_inherited_lease E now last_i logs ep =
     (let ep = ep\<lparr>ep_lease_guard := (ep_lease_guard ep)\<lparr>lg_limbo_upper := last_i\<rparr>\<rparr>;
          ((aw, an), ep) = committed_anchor_at_election E logs ep;
          (aw, an) = (if anchor_trustworthy now aw an ep then (aw, an) else (0, 0))
      in ep\<lparr>ep_lease_guard := (ep_lease_guard ep)\<lparr>lg_committed_anchor_wall := aw,
              lg_committed_anchor_window := an\<rparr>\<rparr>)"

definition become_leader ::
    "('i::linorder, 'f, 'c, 'n, 'p, 'r, 'l, 's) env \<Rightarrow> now \<Rightarrow> 's \<Rightarrow>
     ('i, 'f, 'n, 'p, 'r) endpoint \<Rightarrow> 'l \<Rightarrow> ('i, 'f, 'n, 'p, 'r) endpoint \<times> 'l" where
  "become_leader E now stab ep logs =
     (if cfg_step_down_on_removal (ep_config ep) \<and> \<not> tr_is_voter (ep_tracker ep) (cfg_id (ep_config ep))
      then ((set_leader None (ep\<lparr>ep_role := Follower\<rparr>))
              \<lparr>ep_heartbeat_deadline := None, ep_election_deadline := None\<rparr>, logs)
      else let last_i = log_last_index E logs;
               ep = reset_leader_state now last_i ep;
               ep = arm_inherited_wait now ep;
               ep = anchor_inherited_lease E now last_i logs ep
           in case append_leader_noop E now last_i ep logs of
                (None, ep, logs) \<Rightarrow> (ep, logs)
              | (Some noop_index, ep, logs) \<Rightarrow>
                  let ep = broadcast_heartbeat now (ep\<lparr>ep_term_start_index := noop_index\<rparr>)
                  in (fold (\<lambda>peer. maybe_send_append E now peer logs stab) (peers ep) ep, logs))"

definition on_vote_response ::
    "('i::linorder, 'f, 'c, 'n, 'p, 'r, 'l, 's) env \<Rightarrow> now \<Rightarrow> 'i vote_response \<Rightarrow>
     ('i, 'f, 'n, 'p, 'r) endpoint \<Rightarrow> 'l \<Rightarrow> 's \<Rightarrow> ('i, 'f, 'n, 'p, 'r) endpoint \<times> 'l \<times> 's" where
  "on_vote_response E now vr ep logs stab =
     (if vr_pre_vote vr
      then if ep_role ep \<noteq> PreCandidate then (ep, logs, stab)
           else let ep = ep\<lparr>ep_votes := bm_insert (vr_from vr) (\<not> vr_reject vr) (ep_votes ep)\<rparr>
                in if tr_vote_result (ep_tracker ep) (map_of (ep_votes ep)) = Won
                   then let (ep, stab) = become_candidate E now logs False ep stab in (ep, logs, stab)
                   else (ep, logs, stab)
      else if ep_role ep \<noteq> Candidate \<or> vr_term vr \<noteq> ep_term ep then (ep, logs, stab)
      else let ep = ep\<lparr>ep_votes := bm_insert (vr_from vr) (\<not> vr_reject vr) (ep_votes ep)\<rparr>
           in if tr_vote_result (ep_tracker ep) (map_of (ep_votes ep)) = Won \<and> self_vote_durable ep
              then let (ep, logs) = become_leader E now stab ep logs in (ep, logs, stab)
              else (ep, logs, stab))"

section \<open>Leadership transfer\<close>

datatype 'i TransferError =
    TE_NotLeader "'i option" | TE_NotAVoter | TE_AlreadyLeader | TE_Frozen | TE_HandoffPending | TE_Poisoned

definition transfer_leader ::
    "('i::linorder, 'f, 'c, 'n, 'p, 'r, 'l, 's) env \<Rightarrow> now \<Rightarrow> 'l \<Rightarrow> 's \<Rightarrow> 'i \<Rightarrow>
     ('i, 'f, 'n, 'p, 'r) endpoint \<Rightarrow>
     (unit, 'i TransferError) result \<times> ('i, 'f, 'n, 'p, 'r) endpoint" where
  "transfer_leader E now logs stab to ep =
     (if is_poisoned ep then (Err TE_Poisoned, ep)
      else if ep_role ep \<noteq> Leader then (Err (TE_NotLeader (ep_leader ep)), ep)
      else if me_frozen (ep_merge ep) then (Err TE_Frozen, ep)
      else if to = cfg_id (ep_config ep) then (Err TE_AlreadyLeader, ep)
      else if \<not> tr_is_voter (ep_tracker ep) to then (Err TE_NotAVoter, ep)
      else if tf_lead_transferee (ep_transfer ep) = Some to then (Ok (), ep)
      else if tf_forced_handoff_this_term (ep_transfer ep) \<and>
              tf_forced_handoff_target (ep_transfer ep) \<noteq> Some to
      then (Err TE_HandoffPending, ep)
      else let ep = drop_lease (ep\<lparr>ep_transfer := (ep_transfer ep)\<lparr>tf_lead_transferee := Some to,
                      tf_transfer_deadline :=
                        Some (instant_add (mono now) (cfg_election_timeout (ep_config ep)))\<rparr>\<rparr>);
               ep = (if acked_index (ep_tracker ep) to = log_last_index E logs
                     then let ep = ep\<lparr>ep_transfer := (ep_transfer ep)\<lparr>tf_forced_handoff_target := Some to\<rparr>\<rparr>;
                              ep = send to (MTimeoutNow \<lparr>tn_term = ep_term ep,
                                     tn_leader = cfg_id (ep_config ep)\<rparr>) ep
                          in ep\<lparr>ep_transfer := (ep_transfer ep)\<lparr>tf_forced_handoff_this_term := True\<rparr>\<rparr>
                     else maybe_send_append E now to logs stab ep)
           in if is_poisoned ep then (Err TE_Poisoned, ep) else (Ok (), ep))"

definition on_timeout_now ::
    "('i::linorder, 'f, 'c, 'n, 'p, 'r, 'l, 's) env \<Rightarrow> now \<Rightarrow> 'l \<Rightarrow> 'i timeout_now \<Rightarrow>
     ('i, 'f, 'n, 'p, 'r) endpoint \<Rightarrow> 's \<Rightarrow> ('i, 'f, 'n, 'p, 'r) endpoint \<times> 's" where
  "on_timeout_now E now logs tn ep stab =
     (if ep_leader ep \<noteq> Some (tn_leader tn) then (ep, stab)
      else if \<not> tr_is_voter (ep_tracker ep) (cfg_id (ep_config ep)) then (ep, stab)
      else become_candidate E now logs True ep stab)"

definition drive_parked_leader_handoff ::
    "('i::linorder, 'f, 'c, 'n, 'p, 'r, 'l, 's) env \<Rightarrow> now \<Rightarrow> 'l \<Rightarrow> 's \<Rightarrow>
     ('i, 'f, 'n, 'p, 'r) endpoint \<Rightarrow> ('i, 'f, 'n, 'p, 'r) endpoint" where
  "drive_parked_leader_handoff E now logs stab ep =
     (if ep_role ep \<noteq> Leader \<or> merge_park_unresolvable ep = None \<or>
         tf_lead_transferee (ep_transfer ep) \<noteq> None
      then ep
      else let me = cfg_id (ep_config ep);
               to = (if tf_forced_handoff_this_term (ep_transfer ep)
                     then tf_forced_handoff_target (ep_transfer ep)
                     else map_option fst
                            (max_by_key (\<lambda>(_, pr). match_index pr)
                               (filter (\<lambda>(i, _). i \<noteq> me \<and> tr_is_voter (ep_tracker ep) i \<and>
                                          \<not> bm_contains (ep_cure_owed ep) i)
                                  (tr_progress (ep_tracker ep)))))
           in case to of None \<Rightarrow> ep | Some to \<Rightarrow> snd (transfer_leader E now logs stab to ep))"

end
