(* ===== verification/Snapshots.thy ===== *)
theory Snapshots
  imports Election
begin

text \<open>
  Snapshots, \<^verbatim>\<open>sailing-proto/src/endpoint/snapshot.rs\<close> with the captures of \<^verbatim>\<open>merge.rs\<close>: capturing the
  state machine, receiving a snapshot whole or in chunks, the shortcut for a snapshot the local
  history already covers, installing one once it is durable, and the leader's side of the transfer.
\<close>

section \<open>Capturing\<close>

definition submit_snapshot ::
    "('i, 'f, 'c, 'n, 'p, 'r, 'l, 's) env \<Rightarrow> OpId \<Rightarrow> 'i snapshot_meta \<Rightarrow> bytes \<Rightarrow>
     ('i, 'f, 'n, 'p, 'r) endpoint \<Rightarrow> 's \<Rightarrow> 's" where
  "submit_snapshot E opid meta data ep stab =
     (if is_poisoned ep then stab else st_submit_snapshot E opid meta data stab)"

definition capture_meta ::
    "raft_term \<Rightarrow> ('i::linorder, 'f, 'n, 'p, 'r) endpoint \<Rightarrow> 'i snapshot_meta" where
  "capture_meta last_term ep =
     (snapshot_meta_new (ep_applied ep) last_term (ep_conf_state ep))
       \<lparr>sm_max_lease_window := lg_max_lease_window (ep_lease_guard ep),
        sm_max_wall_plus_window := lg_max_wall_plus_window (ep_lease_guard ep),
        sm_max_unwalled_lease_window := lg_max_unwalled_lease_window (ep_lease_guard ep),
        sm_shape_gen := sl_shape_gen (ep_split ep),
        sm_read_only := (if rd_read_mode_migrated (ep_reads ep)
                         then Some (rd_active_read_mode (ep_reads ep)) else None),
        sm_fork_id := sl_fork_id (ep_split ep)\<rparr>"

definition submit_capture ::
    "('i::linorder, 'f, 'c, 'n, 'p, 'r, 'l, 's) env \<Rightarrow> raft_term \<Rightarrow> bytes \<Rightarrow>
     ('i, 'f, 'n, 'p, 'r) endpoint \<Rightarrow> 's \<Rightarrow> ('i, 'f, 'n, 'p, 'r) endpoint \<times> 's" where
  "submit_capture E last_term data ep stab =
     (let meta = capture_meta last_term ep;
          (opid, ep) = mint_op_id ep;
          stab = submit_snapshot E opid meta data ep stab
      in (ep\<lparr>ep_snapshot := (ep_snapshot ep)\<lparr>ss_pending_compact := Some (opid, meta)\<rparr>\<rparr>, stab))"

definition maybe_snapshot ::
    "('i::linorder, 'f, 'c, 'n, 'p, 'r, 'l, 's) env \<Rightarrow> 'l \<Rightarrow> ('i, 'f, 'n, 'p, 'r) endpoint \<Rightarrow> 's \<Rightarrow>
     ('i, 'f, 'n, 'p, 'r) endpoint \<times> 's" where
  "maybe_snapshot E logs ep stab =
     (if is_poisoned ep then (ep, stab)
      else if capture_blocked_at (ep_applied ep) ep then (ep, stab)
      else if ep_applied ep = 0 then (ep, stab)
      else if saturating_sub (ep_applied ep) (log_first_index E logs)
              < max (of_nat (cfg_snapshot_threshold (ep_config ep))) 1
      then (ep, stab)
      else case fsm_snapshot E (ep_fsm ep) of
             Err _ \<Rightarrow> (poison PR_SnapshotCapture ep, stab)
           | Ok snap \<Rightarrow>
               (case log_term E logs (ep_applied ep) ep of
                  (None, ep) \<Rightarrow> (ep, stab)
                | (Some last_term, ep) \<Rightarrow> submit_capture E last_term (encode_snapshot_data E snap) ep stab))"

definition capture_absorb_snapshot ::
    "('i::linorder, 'f, 'c, 'n, 'p, 'r, 'l, 's) env \<Rightarrow> 'l \<Rightarrow> ('i, 'f, 'n, 'p, 'r) endpoint \<Rightarrow> 's \<Rightarrow>
     bool \<times> ('i, 'f, 'n, 'p, 'r) endpoint \<times> 's" where
  "capture_absorb_snapshot E logs ep stab =
     (if is_poisoned ep then (False, ep, stab)
      else case fsm_snapshot E (ep_fsm ep) of
             Err _ \<Rightarrow> (False, poison PR_SnapshotCapture ep, stab)
           | Ok snap \<Rightarrow>
               (case log_term E logs (ep_applied ep) ep of
                  (None, ep) \<Rightarrow> (False, poison PR_LogRead ep, stab)
                | (Some last_term, ep) \<Rightarrow>
                    let (ep, stab) = submit_capture E last_term (encode_snapshot_data E snap) ep stab
                    in (True, ep, stab)))"

definition advance_commit_on_freeze_identity ::
    "('i::linorder, 'f, 'c, 'n, 'p, 'r, 'l, 's) env \<Rightarrow> 'l \<Rightarrow> index \<Rightarrow> raft_term \<Rightarrow>
     ('i, 'f, 'n, 'p, 'r) endpoint \<Rightarrow> bool \<times> ('i, 'f, 'n, 'p, 'r) endpoint" where
  "advance_commit_on_freeze_identity E logs boundary freeze_term ep =
     (if is_poisoned ep \<or> freeze_term = 0 then (False, ep)
      else if log_last_index E logs < boundary then (False, ep)
      else case log_term E logs boundary ep of
             (None, ep) \<Rightarrow> (False, ep)
           | (Some t, ep) \<Rightarrow>
               if t \<noteq> freeze_term then (False, ep)
               else let ep = (if ep_commit ep < boundary then ep\<lparr>ep_commit := boundary\<rparr> else ep)
                    in (True, if ep_applied ep < ep_commit ep then snd (apply_committed E logs ep) else ep))"

section \<open>Receiving\<close>

text \<open>\<open>None\<close> is the poison of an unreadable term.\<close>

definition covered_by_local_history ::
    "('i, 'f, 'c, 'n, 'p, 'r, 'l, 's) env \<Rightarrow> 'l \<Rightarrow> 'i snapshot_meta \<Rightarrow> index \<Rightarrow>
     ('i, 'f, 'n, 'p, 'r) endpoint \<Rightarrow> bool option \<times> ('i, 'f, 'n, 'p, 'r) endpoint" where
  "covered_by_local_history E logs meta committed_bound ep =
     (if sm_fork_id meta \<noteq> sl_fork_id (ep_split ep) then (Some False, ep)
      else if sm_last_index meta \<le> committed_bound then (Some True, ep)
      else if sm_last_index meta \<le> du_durable_index (ep_durable ep)
      then case log_term E logs (sm_last_index meta) ep of
             (Some t, ep) \<Rightarrow> (Some (t = sm_last_term meta), ep)
           | (None, ep) \<Rightarrow> (None, ep)
      else (Some False, ep))"

definition set_snapshot_recv ::
    "'i snapshot_recv option \<Rightarrow> ('i, 'f, 'n, 'p, 'r) endpoint \<Rightarrow> ('i, 'f, 'n, 'p, 'r) endpoint" where
  "set_snapshot_recv r ep = ep\<lparr>ep_snapshot := (ep_snapshot ep)\<lparr>ss_snapshot_recv := r\<rparr>\<rparr>"

definition reclaim_stale_snapshot_recv ::
    "('i, 'f, 'c, 'n, 'p, 'r, 'l, 's) env \<Rightarrow> 'l \<Rightarrow> ('i, 'f, 'n, 'p, 'r) endpoint \<Rightarrow> 's \<Rightarrow>
     bool \<times> ('i, 'f, 'n, 'p, 'r) endpoint \<times> 's" where
  "reclaim_stale_snapshot_recv E logs ep stab =
     (case ss_snapshot_recv (ep_snapshot ep) of
        None \<Rightarrow> (True, ep, stab)
      | Some r \<Rightarrow>
          (case covered_by_local_history E logs (sv_meta r) (min (ep_commit ep) (ack_watermark ep))
                  (set_snapshot_recv None ep) of
             (None, ep) \<Rightarrow> (False, set_snapshot_recv (Some r) ep, stab)
           | (Some True, ep) \<Rightarrow> (True, ep, st_discard_snapshot_staging E stab)
           | (Some False, ep) \<Rightarrow> (True, set_snapshot_recv (Some r) ep, stab)))"

definition raise_meta_floors ::
    "'i snapshot_meta \<Rightarrow> ('i, 'f, 'n, 'p, 'r) endpoint \<Rightarrow> ('i, 'f, 'n, 'p, 'r) endpoint" where
  "raise_meta_floors meta ep =
     ep\<lparr>ep_lease_guard := (ep_lease_guard ep)\<lparr>
          lg_max_lease_window := max (lg_max_lease_window (ep_lease_guard ep)) (sm_max_lease_window meta),
          lg_max_wall_plus_window :=
            max (lg_max_wall_plus_window (ep_lease_guard ep)) (sm_max_wall_plus_window meta),
          lg_max_unwalled_lease_window :=
            max (lg_max_unwalled_lease_window (ep_lease_guard ep)) (sm_max_unwalled_lease_window meta)\<rparr>\<rparr>"

definition refuse_cross_lineage ::
    "('i, 'f, 'n, 'p, 'r) endpoint \<Rightarrow> ('i, 'f, 'n, 'p, 'r) endpoint" where
  "refuse_cross_lineage ep =
     ep\<lparr>ep_snapshot := (ep_snapshot ep)\<lparr>ss_refused_cross_lineage_installs :=
          saturating_add (ss_refused_cross_lineage_installs (ep_snapshot ep)) 1\<rparr>\<rparr>"

definition send_snapshot_progress_ack ::
    "'i \<Rightarrow> u64 \<Rightarrow> index \<Rightarrow> ('i, 'f, 'n, 'p, 'r) endpoint \<Rightarrow> ('i, 'f, 'n, 'p, 'r) endpoint" where
  "send_snapshot_progress_ack to acked boundary ep =
     send to (MSnapshotResponse
       ((snapshot_response_new (ep_term ep) (cfg_id (ep_config ep)) False
           (min (min (ep_commit ep) (ack_watermark ep)) (saturating_sub boundary 1)))
          \<lparr>sr_acked_through := acked, sr_progress := True\<rparr>)) ep"

section \<open>Adopting the union a park waits for\<close>

definition adopt_read_mode ::
    "'i snapshot_meta \<Rightarrow> ('i, 'f, 'n, 'p, 'r) endpoint \<Rightarrow> ('i, 'f, 'n, 'p, 'r) endpoint" where
  "adopt_read_mode meta ep =
     ep\<lparr>ep_reads := (ep_reads ep)\<lparr>
          rd_active_read_mode := (case sm_read_only meta of Some m \<Rightarrow> m
                                  | None \<Rightarrow> rd_active_read_mode (ep_reads ep)),
          rd_read_mode_migrated := (sm_read_only meta \<noteq> None \<or> rd_read_mode_migrated (ep_reads ep))\<rparr>,
        ep_split := (ep_split ep)\<lparr>sl_shape_gen := max (sl_shape_gen (ep_split ep)) (sm_shape_gen meta),
          sl_fork_id := (case sm_fork_id meta of Some f \<Rightarrow> Some f | None \<Rightarrow> sl_fork_id (ep_split ep))\<rparr>\<rparr>"

text \<open>The tracker, the ledgers and the events of an installed configuration.\<close>

definition adopt_membership ::
    "'i::linorder snapshot_meta \<Rightarrow> ('i, 'f, 'n, 'p, 'r) endpoint \<Rightarrow> ('i, 'f, 'n, 'p, 'r) endpoint" where
  "adopt_membership meta ep =
     (let removed = install_removed_members (sm_conf meta) ep;
          me = cfg_id (ep_config ep);
          ep = push_event (EvSnapshotInstalled meta) ep;
          ep = (if me |\<in>| removed then push_event (EvConfChanged (sm_last_index meta) (sm_conf meta)) ep else ep);
          tr = from_conf_state (sm_conf meta) (sm_last_index meta) (cfg_max_inflight_msgs (ep_config ep))
                 (cfg_max_inflight_bytes (ep_config ep));
          ep = ep\<lparr>ep_tracker := tr,
                  ep_pending_farewells := filter (\<lambda>(i, _). progress_of tr i = None) (ep_pending_farewells ep),
                  ep_courtesy_owed := filter (\<lambda>(i, _). progress_of tr i = None) (ep_courtesy_owed ep)\<rparr>
      in fold (\<lambda>peer. note_courtesy_debt_at_boundary peer (sm_last_index meta))
           (filter (\<lambda>peer. peer \<noteq> me) (btree_iter removed)) ep)"

definition clear_freeze_state :: "merge_state \<Rightarrow> merge_state" where
  "clear_freeze_state m =
     m\<lparr>me_frozen := False, me_freeze_index := None, me_freeze_term := None, me_frozen_for := None\<rparr>"

text \<open>The witnesses the walk saw up to the boundary, in the order of their entries.\<close>

definition planned_witnesses_upto ::
    "index \<Rightarrow> ((bytes \<times> u64) \<times> index) list \<Rightarrow> (index, bytes \<times> u64) btree_map" where
  "planned_witnesses_upto boundary ws =
     fold (\<lambda>(pair, at_i). bm_insert at_i pair) (filter (\<lambda>(_, at_i). at_i \<le> boundary) ws) []"

definition discharge_witnessed ::
    "index \<Rightarrow> ((bytes \<times> u64) \<times> index) list \<Rightarrow> ('i, 'f, 'n, 'p, 'r) endpoint \<Rightarrow>
     ('i, 'f, 'n, 'p, 'r) endpoint" where
  "discharge_witnessed boundary ws ep =
     fold (\<lambda>(_, source, g) ep. if abandoned_matches source g ep then clear_abandoned source ep else ep)
       (planned_witnesses_upto boundary ws) ep"

definition adopt_parked_union ::
    "('i::linorder, 'f, 'c, 'n, 'p, 'r, 'l, 's) env \<Rightarrow> 'i snapshot_meta \<Rightarrow> bytes \<Rightarrow>
     ('i, 'f, 'n, 'p, 'r) endpoint \<Rightarrow> bool \<times> ('i, 'f, 'n, 'p, 'r) endpoint" where
  "adopt_parked_union E meta data ep =
     (case me_pending_apply (ep_merge ep) of
        None \<Rightarrow> (False, ep)
      | Some park \<Rightarrow>
          let boundary = sm_last_index meta
          in if \<not> crossing_walk_covers boundary ep then (False, ep)
             else let absorb_high = (case crossing_absorb_at boundary ep of Some i \<Rightarrow> i | None \<Rightarrow> pa_at park)
                  in case decode_snapshot_data E data of
                       Err _ \<Rightarrow> (False, poison PR_SnapshotDecode ep)
                     | Ok snap \<Rightarrow>
                         if \<not> cs_is_valid (sm_conf meta) then (False, poison PR_InvalidConfState ep)
                         else if sm_shape_gen meta \<ge> HIGHEST_WORKING_GENERATION
                         then (False, poison PR_ReservedShapeGen ep)
                         else let witnesses = me_crossing_witnesses (ep_merge ep);
                                  ep = ep\<lparr>ep_merge := (clear_crossings ((ep_merge ep)
                                         \<lparr>me_pending_apply := None, me_park_unresolvable := False\<rparr>))
                                         \<lparr>me_adopt_capture_owed := Some (pa_source_bytes park, boundary)\<rparr>\<rparr>;
                                  (restored, fsm) = fsm_restore E snap (ep_fsm ep);
                                  ep = ep\<lparr>ep_fsm := fsm\<rparr>
                              in if \<not> is_ok restored then (False, poison PR_SnapshotRestore ep)
                                 else let m = clear_freeze_state (ep_merge ep);
                                          ep = ep\<lparr>ep_merge := m\<lparr>
                                                 me_absorb_index := Some (case me_absorb_index m of
                                                    None \<Rightarrow> absorb_high | Some prior \<Rightarrow> max prior absorb_high),
                                                 me_freeze_queue := filter (\<lambda>i. i > boundary) (me_freeze_queue m),
                                                 me_claim_cache :=
                                                   filter (\<lambda>(i, _). i > boundary) (me_claim_cache m)\<rparr>,
                                               ep_applied := boundary\<rparr>;
                                          ep = discharge_witnessed boundary witnesses ep;
                                          ep = note_abort_covered boundary Cover_Adopt ep;
                                          ep = adopt_read_mode meta ep
                                      in (True, adopt_membership meta ep))"

section \<open>The snapshot message\<close>

text \<open>A transfer of this sender's term that is ahead of the message makes it stale.\<close>

definition receiving_ahead :: "'i install_snapshot \<Rightarrow> ('i, 'f, 'n, 'p, 'r) endpoint \<Rightarrow> bool" where
  "receiving_ahead is ep =
     (case ss_snapshot_recv (ep_snapshot ep) of
        Some r \<Rightarrow> sv_sender_term r = ins_term is \<and> sm_last_index (sv_meta r) > sm_last_index (ins_snapshot is)
      | None \<Rightarrow> False)"

definition receiving_same :: "'i install_snapshot \<Rightarrow> ('i, 'f, 'n, 'p, 'r) endpoint \<Rightarrow> 'i snapshot_recv option" where
  "receiving_same is ep =
     (case ss_snapshot_recv (ep_snapshot ep) of
        Some r \<Rightarrow>
          if sv_sender_term r = ins_term is \<and> identity_eq (sv_meta r) (ins_snapshot is) \<and>
             sv_total_len r = ins_total_len is
          then Some r else None
      | None \<Rightarrow> None)"

definition commit_covered ::
    "('i::linorder, 'f, 'c, 'n, 'p, 'r, 'l, 's) env \<Rightarrow> 'l \<Rightarrow> 'i \<Rightarrow> index \<Rightarrow>
     ('i, 'f, 'n, 'p, 'r) endpoint \<Rightarrow> 's \<Rightarrow> ('i, 'f, 'n, 'p, 'r) endpoint \<times> 's" where
  "commit_covered E logs leader boundary ep stab =
     (if boundary > ep_commit ep
      then let ep = ep\<lparr>ep_commit := boundary\<rparr>;
               ep = (if ep_applied ep < ep_commit ep then snd (apply_committed E logs ep) else ep)
           in if is_poisoned ep then (ep, stab)
              else let (ep, stab) = persist_commit_floor E ep stab
                   in (send_or_gate_shortcut_snapshot_ack leader boundary ep, stab)
      else (send_or_gate_shortcut_snapshot_ack leader boundary ep, stab))"

definition install_redundant ::
    "('i::linorder, 'f, 'c, 'n, 'p, 'r, 'l, 's) env \<Rightarrow> 'l \<Rightarrow> 'i install_snapshot \<Rightarrow>
     ('i, 'f, 'n, 'p, 'r) endpoint \<Rightarrow> 's \<Rightarrow> ('i, 'f, 'n, 'p, 'r) endpoint \<times> 's" where
  "install_redundant E logs is ep stab =
     (if receiving_ahead is ep then (ep, stab)
      else let meta = ins_snapshot is;
               ep = set_snapshot_recv None ep;
               stab = st_discard_snapshot_staging E stab;
               adopts = (ins_total_len is = 0 \<and>
                  (case merge_park_unresolvable ep of Some park \<Rightarrow> sm_last_index meta \<ge> park | None \<Rightarrow> False) \<and>
                  crossing_walk_covers (sm_last_index meta) ep);
               (go, ep) = (if adopts then adopt_parked_union E meta (ins_data is) ep else (True, ep))
           in if \<not> go then (ep, stab)
              else commit_covered E logs (ins_leader is) (sm_last_index meta) ep stab)"

definition submit_install ::
    "('i, 'f, 'c, 'n, 'p, 'r, 'l, 's) env \<Rightarrow> 'i snapshot_meta \<Rightarrow> 'n \<Rightarrow> 'i \<Rightarrow> bytes \<Rightarrow>
     ('i, 'f, 'n, 'p, 'r) endpoint \<Rightarrow> 's \<Rightarrow> ('i, 'f, 'n, 'p, 'r) endpoint \<times> 's" where
  "submit_install E meta snap leader data ep stab =
     (let (ep, stab) = ensure_term_durable E ep stab;
          (opid, ep) = mint_op_id ep;
          stab = submit_snapshot E opid meta data ep stab
      in (ep\<lparr>ep_snapshot := (ep_snapshot ep)\<lparr>ss_pending_install := Some (opid, meta, snap, leader)\<rparr>\<rparr>, stab))"

definition install_whole ::
    "('i::linorder, 'f, 'c, 'n, 'p, 'r, 'l, 's) env \<Rightarrow> 'i install_snapshot \<Rightarrow>
     ('i, 'f, 'n, 'p, 'r) endpoint \<Rightarrow> 's \<Rightarrow> ('i, 'f, 'n, 'p, 'r) endpoint \<times> 's" where
  "install_whole E is ep stab =
     (if receiving_ahead is ep then (ep, stab)
      else let meta = ins_snapshot is;
               ep = set_snapshot_recv None ep;
               stab = st_discard_snapshot_staging E stab
           in if \<not> cs_is_valid (sm_conf meta) then (poison PR_InvalidConfState ep, stab)
              else case decode_snapshot_data E (ins_data is) of
                     Err _ \<Rightarrow> (poison PR_SnapshotDecode ep, stab)
                   | Ok snap \<Rightarrow> submit_install E meta snap (ins_leader is) (ins_data is) ep stab)"

text \<open>Staging one chunk that lies within the transfer.\<close>

definition stage_chunk ::
    "('i::linorder, 'f, 'c, 'n, 'p, 'r, 'l, 's) env \<Rightarrow> 'i install_snapshot \<Rightarrow>
     ('i, 'f, 'n, 'p, 'r) endpoint \<Rightarrow> 's \<Rightarrow> ('i, 'f, 'n, 'p, 'r) endpoint \<times> 's" where
  "stage_chunk E is ep stab =
     (let meta = ins_snapshot is; tot = ins_total_len is
      in case st_accept_snapshot_chunk E meta tot (ins_offset is) (ins_data is) stab of
           (Err _, stab) \<Rightarrow> (poison PR_StablePoll ep, stab)
         | (Ok got, stab) \<Rightarrow>
             let ep = set_snapshot_recv (map_option (\<lambda>r. r\<lparr>sv_contiguous_staged := got\<rparr>)
                        (ss_snapshot_recv (ep_snapshot ep))) ep
             in if got < tot
                then (send_snapshot_progress_ack (ins_leader is) got (sm_last_index meta) ep, stab)
                else case st_take_staged_snapshot E meta stab of
                       (None, stab) \<Rightarrow> (poison PR_SnapshotDecode ep, stab)
                     | (Some blob, stab) \<Rightarrow>
                         (case decode_snapshot_data E blob of
                            Err _ \<Rightarrow> (poison PR_SnapshotDecode ep, stab)
                          | Ok snap \<Rightarrow>
                              let (ep, stab) = submit_install E meta snap (ins_leader is) blob ep stab
                              in (set_snapshot_recv None ep, stab)))"

definition chunk_within :: "'i install_snapshot \<Rightarrow> bool" where
  "chunk_within is =
     (case checked_add (ins_offset is) (of_nat (length (ins_data is))) of
        Some end_o \<Rightarrow> end_o \<le> ins_total_len is | None \<Rightarrow> False)"

definition install_chunk ::
    "('i::linorder, 'f, 'c, 'n, 'p, 'r, 'l, 's) env \<Rightarrow> 'i install_snapshot \<Rightarrow>
     ('i, 'f, 'n, 'p, 'r) endpoint \<Rightarrow> 's \<Rightarrow> ('i, 'f, 'n, 'p, 'r) endpoint \<times> 's" where
  "install_chunk E is ep stab =
     (let meta = ins_snapshot is; tot = ins_total_len is
      in if ins_data is = []
         then if ins_offset is \<noteq> tot then (poison PR_SnapshotDecode ep, stab)
              else (send_snapshot_progress_ack (ins_leader is)
                      (case receiving_same is ep of Some r \<Rightarrow> sv_contiguous_staged r | None \<Rightarrow> 0)
                      (sm_last_index meta) ep, stab)
         else if receiving_same is ep = None \<and> receiving_ahead is ep then (ep, stab)
         else if receiving_same is ep = None \<and> \<not> cs_is_valid (sm_conf meta)
         then (poison PR_InvalidConfState ep, stab)
         else let (ep, stab) =
                (if receiving_same is ep = None
                 then (ep\<lparr>ep_snapshot := (ep_snapshot ep)\<lparr>ss_pending_install := None,
                            ss_snapshot_recv := Some \<lparr>sv_meta = meta, sv_total_len = tot,
                              sv_contiguous_staged = 0, sv_sender_term = ins_term is\<rparr>\<rparr>\<rparr>,
                       st_discard_snapshot_staging E stab)
                 else (ep, stab))
              in if \<not> chunk_within is then (poison PR_SnapshotDecode ep, stab)
                 else stage_chunk E is ep stab)"

definition visible_slot :: "('i, 'f, 'n, 'p, 'r) endpoint \<Rightarrow> index" where
  "visible_slot ep =
     max (max (du_durable_snapshot_index (ep_durable ep))
            (case ss_pending_compact (ep_snapshot ep) of Some (_, m) \<Rightarrow> sm_last_index m | None \<Rightarrow> 0))
       (case ss_pending_install (ep_snapshot ep) of Some (_, m, _, _) \<Rightarrow> sm_last_index m | None \<Rightarrow> 0)"

definition foreign_lineage ::
    "('i, 'f, 'c, 'n, 'p, 'r, 'l, 's) env \<Rightarrow> 'l \<Rightarrow> 's \<Rightarrow> 'i snapshot_meta \<Rightarrow>
     ('i, 'f, 'n, 'p, 'r) endpoint \<Rightarrow> bool" where
  "foreign_lineage E logs stab meta ep =
     (case sl_fork_id (ep_split ep) of
        Some existing \<Rightarrow> sm_fork_id meta \<noteq> Some existing
      | None \<Rightarrow>
          sm_fork_id meta \<noteq> None \<and>
          \<not> (log_last_index E logs = 0 \<and> log_first_index E logs = 1 \<and> ep_commit ep = 0 \<and>
              (case st_durable_snapshot E stab of
                 None \<Rightarrow> True | Some m \<Rightarrow> sm_fork_id m = sm_fork_id meta)))"

definition on_install_snapshot ::
    "('i::linorder, 'f, 'c, 'n, 'p, 'r, 'l, 's) env \<Rightarrow> now \<Rightarrow> 'l \<Rightarrow> 'i install_snapshot \<Rightarrow>
     ('i, 'f, 'n, 'p, 'r) endpoint \<Rightarrow> 's \<Rightarrow> ('i, 'f, 'n, 'p, 'r) endpoint \<times> 's" where
  "on_install_snapshot E now logs is ep stab =
     (let meta = ins_snapshot is
      in if is_poisoned ep then (ep, stab)
         else if \<not> conf_names_self (sm_conf meta) ep \<and> sm_shape_gen meta < sl_shape_gen (ep_split ep)
         then (ep\<lparr>ep_snapshot := (ep_snapshot ep)\<lparr>ss_refused_stale_removal_installs :=
                   saturating_add (ss_refused_stale_removal_installs (ep_snapshot ep)) 1\<rparr>\<rparr>, stab)
         else let ep = arm_election_timer E now (set_leader (Some (ins_leader is)) (ep\<lparr>ep_role := Follower\<rparr>))
              in if sm_last_index meta = u64_max then (poison PR_LogExhausted ep, stab)
                 else if sm_shape_gen meta \<ge> HIGHEST_WORKING_GENERATION
                 then (poison PR_ReservedShapeGen ep, stab)
                 else case reclaim_stale_snapshot_recv E logs ep stab of
                        (False, ep, stab) \<Rightarrow> (ep, stab)
                      | (True, ep, stab) \<Rightarrow>
                          let ep = raise_meta_floors meta ep
                          in if foreign_lineage E logs stab meta ep then (refuse_cross_lineage ep, stab)
                             else case covered_by_local_history E logs meta
                                         (min (ep_commit ep) (ack_watermark ep)) ep of
                                    (None, ep) \<Rightarrow> (ep, stab)
                                  | (Some True, ep) \<Rightarrow> install_redundant E logs is ep stab
                                  | (Some False, ep) \<Rightarrow>
                                      if (case ss_pending_install (ep_snapshot ep) of
                                            Some (_, pmeta, _, _) \<Rightarrow>
                                              sm_last_index pmeta > sm_last_index meta \<or> identity_eq pmeta meta
                                          | None \<Rightarrow> False)
                                      then (ep, stab)
                                      else if visible_slot ep > sm_last_index meta then (ep, stab)
                                      else if ins_total_len is = 0 then install_whole E is ep stab
                                      else install_chunk E is ep stab)"

section \<open>Installing\<close>

definition restore_rebaselined ::
    "('i, 'f, 'c, 'n, 'p, 'r, 'l, 's) env \<Rightarrow> 'l \<Rightarrow> index \<Rightarrow> raft_term \<Rightarrow> bool" where
  "restore_rebaselined E logs n t \<longleftrightarrow>
     log_first_index E logs = counter_next n \<and> log_last_index E logs = n \<and> log_read_term E logs n = Ok t"

definition is_cast_vote :: "'i Pending \<Rightarrow> bool" where
  "is_cast_vote p = (case p of CastVote _ _ \<Rightarrow> True | _ \<Rightarrow> False)"

text \<open>The state the restored machine stands on, the log not yet checked.\<close>

definition rebaseline ::
    "'i snapshot_meta \<Rightarrow> ('i, 'f, 'n, 'p, 'r) endpoint \<Rightarrow> ('i, 'f, 'n, 'p, 'r) endpoint" where
  "rebaseline meta ep =
     (let boundary = sm_last_index meta;
          ep = ep\<lparr>ep_pending_log := [],
                  ep_pending_stable := filter (\<lambda>(_, p). is_cast_vote p) (ep_pending_stable ep),
                  ep_snapshot := (ep_snapshot ep)\<lparr>ss_pending_compact := None\<rparr>,
                  ep_commit := boundary, ep_applied := boundary\<rparr>;
          ep = note_freeze_rebaselined (adopt_read_mode meta ep);
          ep = ep\<lparr>ep_merge := (clear_crossings ((clear_freeze_state (ep_merge ep))
                    \<lparr>me_pending_apply := None, me_park_unresolvable := False\<rparr>))
                    \<lparr>me_adopt_capture_owed := None\<rparr>\<rparr>;
          ep = note_abort_covered boundary Cover_Install ep;
          ep = note_fork_barrier_rebaselined boundary (note_debts_rebaselined ep);
          ep = ep\<lparr>ep_durable := (ep_durable ep)\<lparr>du_durable_index := boundary, du_inflight_append_upto := []\<rparr>\<rparr>
      in scrub_acks_above boundary ep)"

definition install_snapshot_now ::
    "('i::linorder, 'f, 'c, 'n, 'p, 'r, 'l, 's) env \<Rightarrow> 'i snapshot_meta \<Rightarrow> 'n \<Rightarrow> 'i \<Rightarrow>
     ('i, 'f, 'n, 'p, 'r) endpoint \<Rightarrow> 'l \<Rightarrow> 's \<Rightarrow> ('i, 'f, 'n, 'p, 'r) endpoint \<times> 'l \<times> 's" where
  "install_snapshot_now E meta snap leader ep logs stab =
     (if is_poisoned ep then (ep, logs, stab)
      else if ep_role ep \<noteq> Follower then (ep, logs, stab)
      else if sl_fork_id (ep_split ep) = None \<and> sm_fork_id meta \<noteq> None \<and>
              \<not> (log_last_index E logs = 0 \<and> ep_commit ep = 0)
      then (refuse_cross_lineage ep, logs, stab)
      else let boundary = sm_last_index meta;
               ep = raise_meta_floors meta (ep\<lparr>ep_durable := (ep_durable ep)
                      \<lparr>du_durable_snapshot_index := max (du_durable_snapshot_index (ep_durable ep)) boundary\<rparr>\<rparr>)
           in case covered_by_local_history E logs meta (ep_commit ep) ep of
                (None, ep) \<Rightarrow> (ep, logs, stab)
              | (Some True, ep) \<Rightarrow>
                  let (ep, stab) = commit_covered E logs leader boundary ep stab in (ep, logs, stab)
              | (Some False, ep) \<Rightarrow>
                  let (restored, fsm) = fsm_restore E snap (ep_fsm ep); ep = ep\<lparr>ep_fsm := fsm\<rparr>
                  in if \<not> is_ok restored then (poison PR_SnapshotRestore ep, logs, stab)
                     else let logs = log_restore E boundary (sm_last_term meta) logs; ep = rebaseline meta ep
                          in if \<not> restore_rebaselined E logs boundary (sm_last_term meta)
                             then (poison PR_SnapshotRebaseline ep, logs, stab)
                             else (send_or_gate_snapshot_ack leader boundary (adopt_membership meta ep), logs, stab))"

section \<open>The leader's side\<close>

definition courtesy_settled ::
    "'i \<Rightarrow> 'i snapshot_response \<Rightarrow> ('i, 'f, 'n, 'p, 'r) endpoint \<Rightarrow> bool" where
  "courtesy_settled from response ep \<longleftrightarrow>
     \<not> sr_reject response \<and> \<not> sr_progress response \<and>
     (case map_of (ep_courtesy_owed ep) from of
        Some debt \<Rightarrow> (case co_offered_index debt of Some fl \<Rightarrow> sr_match_index response \<ge> fl | None \<Rightarrow> False)
      | None \<Rightarrow> False)"

definition cure_settled ::
    "'i \<Rightarrow> 'i snapshot_response \<Rightarrow> ('i, 'f, 'n, 'p, 'r) endpoint \<Rightarrow> bool" where
  "cure_settled from response ep \<longleftrightarrow>
     \<not> sr_reject response \<and> \<not> sr_progress response \<and>
     (case map_of (ep_cure_owed ep) from of
        Some debt \<Rightarrow> sr_match_index response \<ge> cd_boundary debt | None \<Rightarrow> False)"

definition snapshot_cursor :: "progress option \<Rightarrow> u64 option" where
  "snapshot_cursor pr =
     (case pr of Some p \<Rightarrow> (case pr_state p of Snapshot _ acked _ \<Rightarrow> Some acked | _ \<Rightarrow> None) | None \<Rightarrow> None)"

text \<open>The next chunk, once the acknowledged offset moved; \<open>False\<close> ends the handler.\<close>

definition advance_transfer ::
    "('i::linorder, 'f, 'c, 'n, 'p, 'r, 'l, 's) env \<Rightarrow> now \<Rightarrow> 'i \<Rightarrow> 's \<Rightarrow> u64 \<Rightarrow>
     ('i, 'f, 'n, 'p, 'r) endpoint \<Rightarrow> bool \<times> ('i, 'f, 'n, 'p, 'r) endpoint" where
  "advance_transfer E now from stab offset ep =
     (let before = snapshot_cursor (progress_of (ep_tracker ep) from);
          ep = ep\<lparr>ep_tracker := progress_mut from (snapshot_acked offset) (ep_tracker ep)\<rparr>
      in case snapshot_cursor (progress_of (ep_tracker ep) from) of
           None \<Rightarrow> (True, ep)
         | Some acked \<Rightarrow>
             if before = Some acked then (True, ep)
             else case send_snapshot_chunk E from stab acked ep of
                    (CS_Sent, ep) \<Rightarrow>
                      (True, ep\<lparr>ep_snapshot := (ep_snapshot ep)\<lparr>ss_snapshot_resend_after :=
                         bm_insert from (instant_add (mono now) (cfg_election_timeout (ep_config ep)))
                           (ss_snapshot_resend_after (ep_snapshot ep))\<rparr>\<rparr>)
                  | (CS_Poisoned, ep) \<Rightarrow> (False, ep)
                  | (_, ep) \<Rightarrow>
                      (True, ep\<lparr>ep_snapshot := (ep_snapshot ep)\<lparr>ss_snapshot_resend_after :=
                         AList.delete from (ss_snapshot_resend_after (ep_snapshot ep))\<rparr>\<rparr>))"

definition on_snapshot_response ::
    "('i::linorder, 'f, 'c, 'n, 'p, 'r, 'l, 's) env \<Rightarrow> now \<Rightarrow> 'i \<Rightarrow> 'l \<Rightarrow> 's \<Rightarrow> 'i snapshot_response \<Rightarrow>
     ('i, 'f, 'n, 'p, 'r) endpoint \<Rightarrow> ('i, 'f, 'n, 'p, 'r) endpoint" where
  "on_snapshot_response E now from logs stab response ep =
     (if is_poisoned ep then ep
      else if courtesy_settled from response ep
      then ep\<lparr>ep_courtesy_owed := AList.delete from (ep_courtesy_owed ep)\<rparr>
      else let ep = (if cure_settled from response ep
                     then ep\<lparr>ep_cure_owed := AList.delete from (ep_cure_owed ep)\<rparr> else ep)
           in if ep_role ep \<noteq> Leader then ep
              else if progress_of (ep_tracker ep) from = None then ep
              else if sr_reject response
              then maybe_send_append E now from logs stab
                     (ep\<lparr>ep_tracker := progress_mut from become_probe (ep_tracker ep)\<rparr>)
              else if \<not> sr_progress response \<and> \<not> match_within_log E logs (sr_match_index response) then ep
              else let ep = (if sr_progress response then ep
                             else ep\<lparr>ep_tracker := progress_mut from
                                    (\<lambda>p. snd (maybe_update (sr_match_index response) p)) (ep_tracker ep)\<rparr>)
                   in case advance_transfer E now from stab (sr_acked_through response) ep of
                        (False, ep) \<Rightarrow> ep
                      | (True, ep) \<Rightarrow>
                          let ep = snd (apply_committed E logs (maybe_advance_commit E now logs ep))
                          in if is_poisoned ep then ep
                             else let ep = maybe_send_append E now from logs stab
                                             (maybe_flush_deferred_reads E now logs ep)
                                  in if is_poisoned ep then ep
                                     else maybe_hand_off_to_transferee E from logs ep)"

end
