(* ===== verification/Storage_Drain.thy ===== *)
theory Storage_Drain
  imports Snapshots
begin

text \<open>
  The storage crank of \<^verbatim>\<open>sailing-proto/src/endpoint/persistence.rs\<close>: draining the completions of
  the two stores within a budget, releasing what each completion owes, repairing completions that
  the stores report as durable without a notice, and the work that follows a drain.
\<close>

section \<open>Releasing what a completion owes\<close>

definition release_log_pending ::
    "('i::linorder, 'f, 'c, 'n, 'p, 'r, 'l, 's) env \<Rightarrow> now \<Rightarrow> 'l \<Rightarrow> OpId \<Rightarrow>
     ('i, 'f, 'n, 'p, 'r) endpoint \<Rightarrow> ('i, 'f, 'n, 'p, 'r) endpoint" where
  "release_log_pending E now logs opid ep =
     (case take_log_pending opid ep of
        (Some (FollowerAck to m), ep) \<Rightarrow> send_or_gate_append_ack to m ep
      | (Some (LeaderAppend up), ep) \<Rightarrow>
          if ep_role ep = Leader
          then let ep = ep\<lparr>ep_tracker := progress_mut (cfg_id (ep_config ep))
                              (\<lambda>p. snd (maybe_update up p)) (ep_tracker ep)\<rparr>;
                   ep = snd (apply_committed E logs (maybe_advance_commit E now logs ep))
               in maybe_flush_deferred_reads E now logs ep
          else ep
      | (_, ep) \<Rightarrow> ep)"

definition on_log_appended ::
    "('i::linorder, 'f, 'c, 'n, 'p, 'r, 'l, 's) env \<Rightarrow> now \<Rightarrow> 'l \<Rightarrow> OpId \<Rightarrow>
     ('i, 'f, 'n, 'p, 'r) endpoint \<Rightarrow> ('i, 'f, 'n, 'p, 'r) endpoint" where
  "on_log_appended E now logs opid ep =
     (let (up, q) = take_by_id opid (du_inflight_append_upto (ep_durable ep));
          du = (ep_durable ep)\<lparr>du_inflight_append_upto := q\<rparr>;
          du = (case up of Some u \<Rightarrow> du\<lparr>du_durable_index := max (du_durable_index du) u\<rparr> | None \<Rightarrow> du)
      in release_log_pending E now logs opid (ep\<lparr>ep_durable := du\<rparr>))"

definition release_stable_pending ::
    "('i::linorder, 'f, 'c, 'n, 'p, 'r, 'l, 's) env \<Rightarrow> now \<Rightarrow> 's \<Rightarrow> 'i Pending \<Rightarrow>
     ('i, 'f, 'n, 'p, 'r) endpoint \<Rightarrow> 'l \<Rightarrow> ('i, 'f, 'n, 'p, 'r) endpoint \<times> 'l" where
  "release_stable_pending E now stab pend ep logs =
     (case pend of
        CastVote to t \<Rightarrow>
          if t = ep_term ep \<and> ep_voted_for ep = Some to
          then (send to (vote_reply t False False ep) ep, logs) else (ep, logs)
      | Campaign t \<Rightarrow>
          if t = ep_term ep \<and> ep_role ep = Candidate \<and>
             tr_vote_result (ep_tracker ep) (map_of (ep_votes ep)) = Won
          then become_leader E now stab ep logs else (ep, logs)
      | _ \<Rightarrow> (ep, logs))"

definition note_stable_wrote :: "OpId \<Rightarrow> 'i durability \<Rightarrow> 'i durability" where
  "note_stable_wrote opid du =
     (let du = (if du_last_submitted_term du > du_durable_term du \<and> opid \<ge> du_term_persist_opid du
                then du\<lparr>du_durable_term := du_last_submitted_term du\<rparr> else du);
          du = (if du_last_submitted_commit du > du_durable_commit_index du \<and> opid \<ge> du_commit_persist_opid du
                then du\<lparr>du_durable_commit_index := du_last_submitted_commit du\<rparr> else du)
      in if option_gt (du_last_submitted_lease_support du) (du_durable_lease_support du) \<and>
            opid \<ge> du_lease_support_persist_opid du
         then du\<lparr>du_durable_lease_support := du_last_submitted_lease_support du\<rparr> else du)"

definition on_stable_wrote ::
    "('i::linorder, 'f, 'c, 'n, 'p, 'r, 'l, 's) env \<Rightarrow> now \<Rightarrow> 's \<Rightarrow> OpId \<Rightarrow>
     ('i, 'f, 'n, 'p, 'r) endpoint \<Rightarrow> 'l \<Rightarrow> ('i, 'f, 'n, 'p, 'r) endpoint \<times> 'l" where
  "on_stable_wrote E now stab opid ep logs =
     (let ep = ep\<lparr>ep_durable := note_stable_wrote opid (ep_durable ep)\<rparr>;
          (pend, ep) = take_stable_pending opid ep;
          (ep, logs) = (case pend of Some p \<Rightarrow> release_stable_pending E now stab p ep logs
                        | None \<Rightarrow> (ep, logs))
      in (flush_term_gated_acks ep, logs))"

section \<open>Completions the store reports as durable\<close>

text \<open>
  Each loop takes one element of its queue per turn and what it releases adds none, so the
  recursion is on the length the queue has at the start.
\<close>

fun release_covered ::
    "('i::linorder, 'f, 'c, 'n, 'p, 'r, 'l, 's) env \<Rightarrow> now \<Rightarrow> 'l \<Rightarrow> index \<Rightarrow> nat \<Rightarrow>
     ('i, 'f, 'n, 'p, 'r) endpoint \<Rightarrow> bool \<times> ('i, 'f, 'n, 'p, 'r) endpoint" where
  "release_covered E now logs cov 0 ep = (True, ep)"
| "release_covered E now logs cov (Suc n) ep =
     (case du_inflight_append_upto (ep_durable ep) of
        [] \<Rightarrow> (True, ep)
      | (opid, up) # rest \<Rightarrow>
          if up \<le> cov
          then let ep = release_log_pending E now logs opid
                          (ep\<lparr>ep_durable := (ep_durable ep)\<lparr>du_inflight_append_upto := rest\<rparr>\<rparr>)
               in if is_poisoned ep then (False, ep) else release_covered E now logs cov n ep
          else (True, ep))"

definition reconcile_durable_index ::
    "('i::linorder, 'f, 'c, 'n, 'p, 'r, 'l, 's) env \<Rightarrow> now \<Rightarrow> 'l \<Rightarrow>
     ('i, 'f, 'n, 'p, 'r) endpoint \<Rightarrow> bool \<times> ('i, 'f, 'n, 'p, 'r) endpoint" where
  "reconcile_durable_index E now logs ep =
     (if \<not> log_durability_outstanding ep \<or> log_has_pending E logs then (True, ep)
      else case log_durable_index E logs of
             None \<Rightarrow> (True, ep)
           | Some d \<Rightarrow>
               let cov = max (du_durable_index (ep_durable ep)) d;
                   ep = ep\<lparr>ep_durable := (ep_durable ep)\<lparr>du_durable_index := cov\<rparr>\<rparr>
               in release_covered E now logs cov (length (du_inflight_append_upto (ep_durable ep))) ep)"

definition covered_by_hard_state :: "'i \<Rightarrow> 'i hard_state \<Rightarrow> 'i Pending \<Rightarrow> bool" where
  "covered_by_hard_state me hs p =
     (case p of
        CastVote to t \<Rightarrow> t = hs_term hs \<and> hs_vote hs = Some to
      | Campaign t \<Rightarrow> t = hs_term hs \<and> hs_vote hs = Some me
      | _ \<Rightarrow> False)"

fun release_voted ::
    "('i::linorder, 'f, 'c, 'n, 'p, 'r, 'l, 's) env \<Rightarrow> now \<Rightarrow> 's \<Rightarrow> 'i \<Rightarrow> 'i hard_state \<Rightarrow> nat \<Rightarrow>
     ('i, 'f, 'n, 'p, 'r) endpoint \<Rightarrow> 'l \<Rightarrow> bool \<times> ('i, 'f, 'n, 'p, 'r) endpoint \<times> 'l" where
  "release_voted E now stab me hs 0 ep logs = (True, ep, logs)"
| "release_voted E now stab me hs (Suc n) ep logs =
     (let q = ep_pending_stable ep
      in case position (\<lambda>(_, p). covered_by_hard_state me hs p) q of
           None \<Rightarrow> (True, ep, logs)
         | Some i \<Rightarrow>
             let (ep, logs) = release_stable_pending E now stab (snd (q ! i))
                                (ep\<lparr>ep_pending_stable := take i q @ drop (Suc i) q\<rparr>) logs
             in if is_poisoned ep then (False, ep, logs)
                else release_voted E now stab me hs n ep logs)"

definition option_max :: "'a::linorder option \<Rightarrow> 'a option \<Rightarrow> 'a option" where
  "option_max a b = (if option_gt a b then a else b)"

definition reconcile_durable_hard_state ::
    "('i::linorder, 'f, 'c, 'n, 'p, 'r, 'l, 's) env \<Rightarrow> now \<Rightarrow> 's \<Rightarrow>
     ('i, 'f, 'n, 'p, 'r) endpoint \<Rightarrow> 'l \<Rightarrow> bool \<times> ('i, 'f, 'n, 'p, 'r) endpoint \<times> 'l" where
  "reconcile_durable_hard_state E now stab ep logs =
     (if \<not> stable_durability_outstanding ep \<or> st_has_pending E stab then (True, ep, logs)
      else case st_durable_hard_state E stab of
             None \<Rightarrow> (True, ep, logs)
           | Some hs \<Rightarrow>
               let ep = ep\<lparr>ep_durable := (ep_durable ep)\<lparr>
                      du_durable_term := max (du_durable_term (ep_durable ep)) (hs_term hs),
                      du_durable_commit_index := max (du_durable_commit_index (ep_durable ep)) (hs_commit hs),
                      du_durable_lease_support :=
                        option_max (du_durable_lease_support (ep_durable ep)) (promised (hs_lease_support hs))\<rparr>\<rparr>
               in case release_voted E now stab (cfg_id (ep_config ep)) hs
                         (length (ep_pending_stable ep)) ep logs of
                    (False, ep, logs) \<Rightarrow> (False, ep, logs)
                  | (True, ep, logs) \<Rightarrow> (True, flush_term_gated_acks ep, logs))"

section \<open>The drain\<close>

definition STORAGE_DRAIN_BUDGET :: nat where
  "STORAGE_DRAIN_BUDGET = 256"

text \<open>The flag of a drain is \<open>False\<close> where the endpoint poisoned and the crank returns.\<close>

fun drain_log ::
    "('i::linorder, 'f, 'c, 'n, 'p, 'r, 'l, 's) env \<Rightarrow> now \<Rightarrow> nat \<Rightarrow>
     ('i, 'f, 'n, 'p, 'r) endpoint \<Rightarrow> 'l \<Rightarrow> bool \<times> ('i, 'f, 'n, 'p, 'r) endpoint \<times> 'l" where
  "drain_log E now 0 ep logs = (True, ep, logs)"
| "drain_log E now (Suc budget) ep logs =
     (case log_poll E logs of
        (None, logs) \<Rightarrow> (True, ep, logs)
      | (Some (Err _), logs) \<Rightarrow> (False, poison PR_LogPoll ep, logs)
      | (Some (Ok (Compacted _)), logs) \<Rightarrow> drain_log E now budget ep logs
      | (Some (Ok (Appended opid)), logs) \<Rightarrow>
          let ep = on_log_appended E now logs opid ep
          in if is_poisoned ep then (False, ep, logs) else drain_log E now budget ep logs)"

text \<open>The capture's snapshot is durable: the log below it may go.\<close>

definition finish_compact ::
    "('i, 'f, 'c, 'n, 'p, 'r, 'l, 's) env \<Rightarrow> 'i snapshot_meta \<Rightarrow>
     ('i, 'f, 'n, 'p, 'r) endpoint \<Rightarrow> 'l \<Rightarrow> ('i, 'f, 'n, 'p, 'r) endpoint \<times> 'l" where
  "finish_compact E m ep logs =
     (ep\<lparr>ep_durable := (ep_durable ep)\<lparr>du_durable_snapshot_index :=
           max (du_durable_snapshot_index (ep_durable ep)) (sm_last_index m)\<rparr>,
         ep_snapshot := (ep_snapshot ep)\<lparr>ss_pending_compact := None\<rparr>\<rparr>,
      log_compact E (sm_last_index m) logs)"

text \<open>The pending install is taken and performed.\<close>

definition finish_install ::
    "('i::linorder, 'f, 'c, 'n, 'p, 'r, 'l, 's) env \<Rightarrow> 'i snapshot_meta \<Rightarrow> 'n \<Rightarrow> 'i \<Rightarrow>
     ('i, 'f, 'n, 'p, 'r) endpoint \<Rightarrow> 'l \<Rightarrow> 's \<Rightarrow> ('i, 'f, 'n, 'p, 'r) endpoint \<times> 'l \<times> 's" where
  "finish_install E meta snap leader ep logs stab =
     install_snapshot_now E meta snap leader
       (ep\<lparr>ep_snapshot := (ep_snapshot ep)\<lparr>ss_pending_install := None\<rparr>\<rparr>) logs stab"

definition on_snapshot_written ::
    "('i::linorder, 'f, 'c, 'n, 'p, 'r, 'l, 's) env \<Rightarrow> OpId \<Rightarrow>
     ('i, 'f, 'n, 'p, 'r) endpoint \<Rightarrow> 'l \<Rightarrow> 's \<Rightarrow> ('i, 'f, 'n, 'p, 'r) endpoint \<times> 'l \<times> 's" where
  "on_snapshot_written E opid ep logs stab =
     (let (ep, logs) = (case ss_pending_compact (ep_snapshot ep) of
                          Some (pid, m) \<Rightarrow> if pid = opid then finish_compact E m ep logs else (ep, logs)
                        | None \<Rightarrow> (ep, logs))
      in case ss_pending_install (ep_snapshot ep) of
           Some (pid, meta, snap, leader) \<Rightarrow>
             if pid = opid then finish_install E meta snap leader ep logs stab else (ep, logs, stab)
         | None \<Rightarrow> (ep, logs, stab))"

fun drain_stable ::
    "('i::linorder, 'f, 'c, 'n, 'p, 'r, 'l, 's) env \<Rightarrow> now \<Rightarrow> nat \<Rightarrow>
     ('i, 'f, 'n, 'p, 'r) endpoint \<Rightarrow> 'l \<Rightarrow> 's \<Rightarrow> bool \<times> ('i, 'f, 'n, 'p, 'r) endpoint \<times> 'l \<times> 's" where
  "drain_stable E now 0 ep logs stab = (True, ep, logs, stab)"
| "drain_stable E now (Suc budget) ep logs stab =
     (case st_poll E stab of
        (None, stab) \<Rightarrow> (True, ep, logs, stab)
      | (Some (Err _), stab) \<Rightarrow> (False, poison PR_StablePoll ep, logs, stab)
      | (Some (Ok (Wrote opid)), stab) \<Rightarrow>
          let (ep, logs) = on_stable_wrote E now stab opid ep logs
          in if is_poisoned ep then (False, ep, logs, stab) else drain_stable E now budget ep logs stab
      | (Some (Ok (SnapshotWritten opid)), stab) \<Rightarrow>
          let (ep, logs, stab) = on_snapshot_written E opid ep logs stab
          in if is_poisoned ep then (False, ep, logs, stab) else drain_stable E now budget ep logs stab)"

definition durable_is ::
    "('i::linorder, 'f, 'c, 'n, 'p, 'r, 'l, 's) env \<Rightarrow> 's \<Rightarrow> 'i snapshot_meta \<Rightarrow> bool" where
  "durable_is E stab m = (case st_durable_snapshot E stab of Some d \<Rightarrow> identity_eq d m | None \<Rightarrow> False)"

text \<open>A capture or an install whose blob the store already reports as durable.\<close>

definition reconcile_snapshots ::
    "('i::linorder, 'f, 'c, 'n, 'p, 'r, 'l, 's) env \<Rightarrow>
     ('i, 'f, 'n, 'p, 'r) endpoint \<Rightarrow> 'l \<Rightarrow> 's \<Rightarrow> ('i, 'f, 'n, 'p, 'r) endpoint \<times> 'l \<times> 's" where
  "reconcile_snapshots E ep logs stab =
     (let (ep, logs) = (case ss_pending_compact (ep_snapshot ep) of
                          Some (_, m) \<Rightarrow> if durable_is E stab m then finish_compact E m ep logs else (ep, logs)
                        | None \<Rightarrow> (ep, logs))
      in case ss_pending_install (ep_snapshot ep) of
           Some (_, meta, snap, leader) \<Rightarrow>
             if (case st_durable_snapshot E stab of Some m \<Rightarrow> identity_eq m meta | None \<Rightarrow> False)
             then finish_install E meta snap leader ep logs stab else (ep, logs, stab)
         | None \<Rightarrow> (ep, logs, stab))"

text \<open>The leave of a joint configuration the leader owes.\<close>

definition auto_leave_joint ::
    "('i, 'f, 'c, 'n, 'p, 'r, 'l, 's) env \<Rightarrow> now \<Rightarrow>
     ('i, 'f, 'n, 'p, 'r) endpoint \<Rightarrow> 'l \<Rightarrow> ('i, 'f, 'n, 'p, 'r) endpoint \<times> 'l" where
  "auto_leave_joint E now ep logs =
     (if ep_role ep = Leader \<and> tf_lead_transferee (ep_transfer ep) = None \<and> tr_is_joint (ep_tracker ep) \<and>
         tr_auto_leave (ep_tracker ep) \<and> ep_pending_conf_index ep \<le> ep_applied ep
      then case append_conf_change E now v2_leave_joint ep logs of
             (None, ep, logs) \<Rightarrow> (poison PR_LogExhausted ep, logs)
           | (Some _, ep, logs) \<Rightarrow> (ep, logs)
      else (ep, logs))"

text \<open>The work after both drains; the flag tells a budget cut of the apply path.\<close>

definition drain_tail ::
    "('i::linorder, 'f, 'c, 'n, 'p, 'r, 'l, 's) env \<Rightarrow> now \<Rightarrow>
     ('i, 'f, 'n, 'p, 'r) endpoint \<Rightarrow> 'l \<Rightarrow> 's \<Rightarrow>
     StorageProgress \<times> ('i, 'f, 'n, 'p, 'r) endpoint \<times> 'l \<times> 's" where
  "drain_tail E now ep logs stab =
     (let (apply_drain, ep) =
            (if \<not> is_poisoned ep \<and> ep_applied ep < ep_commit ep
             then let (verdict, ep) = apply_committed E logs ep
                  in (verdict, maybe_flush_deferred_reads E now logs ep)
             else (AD_Drained, ep))
      in if is_poisoned ep then (Drained, ep, logs, stab)
         else let (ep, stab) = maybe_snapshot E logs ep stab
              in if is_poisoned ep then (Drained, ep, logs, stab)
                 else let (ep, logs) = auto_leave_joint E now ep logs
                      in if is_poisoned ep then (Drained, ep, logs, stab)
                         else let (ep, stab) =
                                (if durable_commit ep > du_committed_persisted (ep_durable ep)
                                 then let (_, ep, stab) = persist_own_state E ep stab in (ep, stab)
                                 else (ep, stab));
                              ep = reconcile_election_timer E now (flush_shortcut_gated_ack ep)
                              in (if log_has_pending E logs \<or> st_has_pending E stab \<or> apply_drain = AD_BudgetCut
                                  then MorePending else Drained, ep, logs, stab))"

definition handle_storage ::
    "('i::linorder, 'f, 'c, 'n, 'p, 'r, 'l, 's) env \<Rightarrow> now \<Rightarrow>
     ('i, 'f, 'n, 'p, 'r) endpoint \<Rightarrow> 'l \<Rightarrow> 's \<Rightarrow>
     StorageProgress \<times> ('i, 'f, 'n, 'p, 'r) endpoint \<times> 'l \<times> 's" where
  "handle_storage E now ep logs stab =
     (if is_poisoned ep then (Drained, ep, logs, stab)
      else case drain_log E now STORAGE_DRAIN_BUDGET ep logs of
        (False, ep, logs) \<Rightarrow> (Drained, ep, logs, stab)
      | (True, ep, logs) \<Rightarrow>
          (case drain_stable E now STORAGE_DRAIN_BUDGET ep logs stab of
             (False, ep, logs, stab) \<Rightarrow> (Drained, ep, logs, stab)
           | (True, ep, logs, stab) \<Rightarrow>
               let (ep, logs, stab) = reconcile_snapshots E ep logs stab
               in if is_poisoned ep then (Drained, ep, logs, stab)
                  else case reconcile_durable_index E now logs ep of
                    (False, ep) \<Rightarrow> (Drained, ep, logs, stab)
                  | (True, ep) \<Rightarrow>
                      (case reconcile_durable_hard_state E now stab ep logs of
                         (False, ep, logs) \<Rightarrow> (Drained, ep, logs, stab)
                       | (True, ep, logs) \<Rightarrow>
                           (case reclaim_stale_snapshot_recv E logs ep stab of
                              (False, ep, stab) \<Rightarrow> (Drained, ep, logs, stab)
                            | (True, ep, stab) \<Rightarrow> drain_tail E now ep logs stab))))"

end
