(* ===== verification/Dispatch.thy ===== *)
theory Dispatch
  imports Storage_Drain
begin

text \<open>
  The two entry points of \<^verbatim>\<open>sailing-proto/src/endpoint/mod.rs\<close> beside the storage crank: the message
  dispatch with its term rules, and the timer dispatch.
\<close>

section \<open>Messages\<close>

text \<open>A pre-vote request, or a granted pre-vote: a term no node has entered.\<close>

definition advertised_prevote :: "'i message \<Rightarrow> bool" where
  "advertised_prevote msg =
     (case msg of
        MRequestVote rv \<Rightarrow> rv_pre_vote rv
      | MVoteResponse vr \<Rightarrow> vr_pre_vote vr \<and> \<not> vr_reject vr
      | _ \<Rightarrow> False)"

definition in_lease :: "now \<Rightarrow> ('i, 'f, 'n, 'p, 'r) endpoint \<Rightarrow> bool" where
  "in_lease now ep \<longleftrightarrow>
     (cfg_check_quorum (ep_config ep) \<or> cfg_pre_vote (ep_config ep)) \<and> ep_leader ep \<noteq> None \<and>
     (case ep_election_deadline ep of Some d \<Rightarrow> d > mono now | None \<Rightarrow> False)"

text \<open>A vote request a node that hears its leader ignores, its term included.\<close>

definition lease_ignores :: "now \<Rightarrow> 'i message \<Rightarrow> ('i, 'f, 'n, 'p, 'r) endpoint \<Rightarrow> bool" where
  "lease_ignores now msg ep =
     (case msg of MRequestVote rv \<Rightarrow> \<not> rv_leader_transfer rv \<and> in_lease now ep | _ \<Rightarrow> False)"

definition adopt_term ::
    "raft_term \<Rightarrow> ('i, 'f, 'n, 'p, 'r) endpoint \<Rightarrow> ('i, 'f, 'n, 'p, 'r) endpoint" where
  "adopt_term t ep =
     (let ep = set_leader None (ep\<lparr>ep_term := t, ep_role := Follower, ep_voted_for := None\<rparr>)
      in ep\<lparr>ep_pending_log := [], ep_pending_stable := [],
            ep_reads := (ep_reads ep)\<lparr>
              rd_read_only := ro_reset (rd_active_read_mode (ep_reads ep)) (rd_read_only (ep_reads ep)),
              rd_pending_reads := []\<rparr>,
            ep_transfer := (ep_transfer ep)\<lparr>tf_lead_transferee := None, tf_transfer_deadline := None\<rparr>\<rparr>)"

text \<open>The reply that makes a leader of an older term step down.\<close>

definition nudge_step_down ::
    "'i \<Rightarrow> 'i message \<Rightarrow> ('i, 'f, 'n, 'p, 'r) endpoint \<Rightarrow> ('i, 'f, 'n, 'p, 'r) endpoint" where
  "nudge_step_down from msg ep =
     (if (cfg_check_quorum (ep_config ep) \<or> cfg_pre_vote (ep_config ep)) \<and>
         (case msg of MHeartbeat _ \<Rightarrow> True | MAppendEntries _ \<Rightarrow> True | _ \<Rightarrow> False)
      then send from (MAppendResponse
             (append_response_new (ep_term ep) (cfg_id (ep_config ep)) True 0 0 0)) ep
      else ep)"

definition is_prevote_request :: "'i message \<Rightarrow> bool" where
  "is_prevote_request msg = (case msg of MRequestVote rv \<Rightarrow> rv_pre_vote rv | _ \<Rightarrow> False)"

text \<open>What a leader learns from any message: the sender is alive, or a removed peer still talks.\<close>

definition note_sender ::
    "('i::linorder, 'f, 'c, 'n, 'p, 'r, 'l, 's) env \<Rightarrow> now \<Rightarrow> 's \<Rightarrow> 'i \<Rightarrow> 'i message \<Rightarrow>
     ('i, 'f, 'n, 'p, 'r) endpoint \<Rightarrow> ('i, 'f, 'n, 'p, 'r) endpoint" where
  "note_sender E now stab from msg ep =
     (if ep_role ep \<noteq> Leader then ep
      else if progress_of (ep_tracker ep) from \<noteq> None
      then ep\<lparr>ep_tracker := progress_mut from (set_recent_active True) (ep_tracker ep)\<rparr>
      else if bm_contains (ep_courtesy_owed ep) from
      then let seen = sender_real_term msg
           in maybe_send_courtesy_snapshot E now from stab
                (ep\<lparr>ep_courtesy_owed := bm_update from (\<lambda>debt. debt\<lparr>co_last_seen_term :=
                       Some (case co_last_seen_term debt of None \<Rightarrow> seen | Some prev \<Rightarrow> max prev seen)\<rparr>)
                     (ep_courtesy_owed ep)\<rparr>)
      else ep)"

definition dispatch ::
    "('i::linorder, 'f, 'c, 'n, 'p, 'r, 'l, 's) env \<Rightarrow> now \<Rightarrow> 'i \<Rightarrow> 'i message \<Rightarrow>
     ('i, 'f, 'n, 'p, 'r) endpoint \<Rightarrow> 'l \<Rightarrow> 's \<Rightarrow> ('i, 'f, 'n, 'p, 'r) endpoint \<times> 'l \<times> 's" where
  "dispatch E now from msg ep logs stab =
     (case msg of
        MRequestVote rv \<Rightarrow> let (ep, stab) = on_request_vote E now logs rv ep stab in (ep, logs, stab)
      | MVoteResponse vr \<Rightarrow> on_vote_response E now vr ep logs stab
      | MHeartbeat hb \<Rightarrow> (on_heartbeat E now logs hb ep, logs, stab)
      | MAppendEntries ae \<Rightarrow> on_append_entries E now ae ep logs stab
      | MAppendResponse r \<Rightarrow> (on_append_response E now logs stab from r ep, logs, stab)
      | MHeartbeatResponse hr \<Rightarrow> (on_heartbeat_response E now from logs stab hr ep, logs, stab)
      | MReadIndex ri \<Rightarrow> (on_read_index E now logs ri ep, logs, stab)
      | MReadIndexResponse r \<Rightarrow> (on_read_index_response from r ep, logs, stab)
      | MInstallSnapshot is \<Rightarrow> let (ep, stab) = on_install_snapshot E now logs is ep stab in (ep, logs, stab)
      | MSnapshotResponse r \<Rightarrow> (on_snapshot_response E now from logs stab r ep, logs, stab)
      | MTimeoutNow tn \<Rightarrow> let (ep, stab) = on_timeout_now E now logs tn ep stab in (ep, logs, stab))"

definition handle_current ::
    "('i::linorder, 'f, 'c, 'n, 'p, 'r, 'l, 's) env \<Rightarrow> now \<Rightarrow> 'i \<Rightarrow> 'i message \<Rightarrow>
     ('i, 'f, 'n, 'p, 'r) endpoint \<Rightarrow> 'l \<Rightarrow> 's \<Rightarrow> ('i, 'f, 'n, 'p, 'r) endpoint \<times> 'l \<times> 's" where
  "handle_current E now from msg ep logs stab =
     (if msg_term msg < ep_term ep \<and> \<not> is_prevote_request msg
      then (nudge_step_down from msg ep, logs, stab)
      else let (ep, logs, stab) = dispatch E now from msg (note_sender E now stab from msg ep) logs stab;
               (ep, stab) = ensure_term_durable E ep stab
           in (reconcile_election_timer E now ep, logs, stab))"

definition handle_message ::
    "('i::linorder, 'f, 'c, 'n, 'p, 'r, 'l, 's) env \<Rightarrow> now \<Rightarrow> 'i \<Rightarrow> 'i message \<Rightarrow>
     ('i, 'f, 'n, 'p, 'r) endpoint \<Rightarrow> 'l \<Rightarrow> 's \<Rightarrow> ('i, 'f, 'n, 'p, 'r) endpoint \<times> 'l \<times> 's" where
  "handle_message E now from msg ep logs stab =
     (if is_poisoned ep then (ep, logs, stab)
      else if msg_from msg \<noteq> from then (ep, logs, stab)
      else if msg_term msg > ep_term ep \<and> \<not> advertised_prevote msg
      then if lease_ignores now msg ep then (ep, logs, stab)
           else handle_current E now from msg (adopt_term (msg_term msg) ep) logs stab
      else handle_current E now from msg ep logs stab)"

section \<open>Timers\<close>

definition due :: "now \<Rightarrow> instant option \<Rightarrow> bool" where
  "due now deadline = (case deadline of Some d \<Rightarrow> d \<le> mono now | None \<Rightarrow> False)"

text \<open>The no-op a read asked for when it found the lease expired.\<close>

definition refresh_wanted ::
    "('i, 'f, 'c, 'n, 'p, 'r, 'l, 's) env \<Rightarrow> now \<Rightarrow> bool \<Rightarrow>
     ('i, 'f, 'n, 'p, 'r) endpoint \<Rightarrow> 'l \<Rightarrow> ('i, 'f, 'n, 'p, 'r) endpoint \<times> 'l" where
  "refresh_wanted E now heartbeat_due ep logs =
     (if heartbeat_due \<and> lg_lease_refresh_wanted (ep_lease_guard ep)
      then let ep = ep\<lparr>ep_lease_guard := (ep_lease_guard ep)\<lparr>lg_lease_refresh_wanted := False\<rparr>\<rparr>;
               last_i = log_last_index E logs
           in if leaseguard_timing ep \<noteq> None \<and> \<not> merge_freeze_active ep \<and>
                 tf_lead_transferee (ep_transfer ep) = None \<and> last_i = ep_commit ep
              then let (live, ep) = lease_guard_read_live E now logs ep
                   in if live then (ep, logs)
                      else let (_, ep, logs) = append_leader_noop E now last_i ep logs in (ep, logs)
              else (ep, logs)
      else (ep, logs))"

text \<open>The no-op the refresh mode asks for.\<close>

definition refresh_by_mode ::
    "('i, 'f, 'c, 'n, 'p, 'r, 'l, 's) env \<Rightarrow> now \<Rightarrow> bool \<Rightarrow>
     ('i, 'f, 'n, 'p, 'r) endpoint \<Rightarrow> 'l \<Rightarrow> ('i, 'f, 'n, 'p, 'r) endpoint \<times> 'l" where
  "refresh_by_mode E now heartbeat_due ep logs =
     (let mode = cfg_lease_refresh (ep_config ep)
      in if heartbeat_due \<and> mode \<noteq> Off \<and> lg_read_since_anchor (ep_lease_guard ep) \<and>
            leaseguard_timing ep \<noteq> None \<and> \<not> merge_freeze_active ep \<and>
            tf_lead_transferee (ep_transfer ep) = None \<and> log_last_index E logs = ep_commit ep
         then let (fire, ep) = (case mode of
                     Continuous \<Rightarrow> (True, ep)
                   | OnExpiry \<Rightarrow> lease_near_expiry E now logs ep
                   | Off \<Rightarrow> (False, ep))
              in if fire
                 then let (_, ep, logs) = append_leader_noop E now (ep_commit ep) ep logs
                      in (ep\<lparr>ep_lease_refreshes := saturating_add (ep_lease_refreshes ep) 1\<rparr>, logs)
                 else (ep, logs)
         else (ep, logs))"

definition expire_transfer ::
    "now \<Rightarrow> ('i, 'f, 'n, 'p, 'r) endpoint \<Rightarrow> ('i, 'f, 'n, 'p, 'r) endpoint" where
  "expire_transfer now ep =
     (if tf_lead_transferee (ep_transfer ep) \<noteq> None \<and> due now (tf_transfer_deadline (ep_transfer ep))
      then ep\<lparr>ep_transfer := (ep_transfer ep)\<lparr>tf_lead_transferee := None, tf_transfer_deadline := None\<rparr>\<rparr>
      else ep)"

definition check_leader_quorum ::
    "('i::linorder, 'f, 'c, 'n, 'p, 'r, 'l, 's) env \<Rightarrow> now \<Rightarrow>
     ('i, 'f, 'n, 'p, 'r) endpoint \<Rightarrow> ('i, 'f, 'n, 'p, 'r) endpoint" where
  "check_leader_quorum E now ep =
     (if cfg_check_quorum (ep_config ep) \<and> due now (ep_election_deadline ep)
      then if \<not> quorum_active (ep_tracker ep) then step_down_to_follower E now ep
           else ep\<lparr>ep_tracker := reset_recent_active (cfg_id (ep_config ep)) (ep_tracker ep),
                   ep_election_deadline :=
                     Some (instant_add (mono now) (cfg_election_timeout (ep_config ep)))\<rparr>
      else ep)"

definition release_commit_wait ::
    "('i::linorder, 'f, 'c, 'n, 'p, 'r, 'l, 's) env \<Rightarrow> now \<Rightarrow> 'l \<Rightarrow>
     ('i, 'f, 'n, 'p, 'r) endpoint \<Rightarrow> ('i, 'f, 'n, 'p, 'r) endpoint" where
  "release_commit_wait E now logs ep =
     (if due now (lg_commit_wait_until (ep_lease_guard ep))
      then maybe_flush_deferred_reads E now logs (snd (apply_committed E logs (maybe_advance_commit E now logs ep)))
      else ep)"

text \<open>The leader's timers; the flag is \<open>False\<close> where the endpoint poisoned and the crank returns.\<close>

definition leader_timeout ::
    "('i::linorder, 'f, 'c, 'n, 'p, 'r, 'l, 's) env \<Rightarrow> now \<Rightarrow> 's \<Rightarrow>
     ('i, 'f, 'n, 'p, 'r) endpoint \<Rightarrow> 'l \<Rightarrow> bool \<times> ('i, 'f, 'n, 'p, 'r) endpoint \<times> 'l" where
  "leader_timeout E now stab ep logs =
     (let heartbeat_due = due now (ep_heartbeat_deadline ep);
          ep = (if heartbeat_due then arm_heartbeat_timer now (broadcast_heartbeat now ep) else ep);
          (ep, logs) = refresh_wanted E now heartbeat_due ep logs
      in if is_poisoned ep then (False, ep, logs)
         else let (ep, logs) = refresh_by_mode E now heartbeat_due ep logs
              in if is_poisoned ep then (False, ep, logs)
                 else let ep = release_commit_wait E now logs ep
                      in if is_poisoned ep then (False, ep, logs)
                         else let ep = check_leader_quorum E now (expire_transfer now ep);
                                  ep = drive_pending_farewells E now logs ep;
                                  ep = drive_cure_sweep E now stab (drive_courtesy_offers E now stab ep)
                              in (True, drive_parked_leader_handoff E now logs stab ep, logs))"

definition campaign_if_due ::
    "('i::linorder, 'f, 'c, 'n, 'p, 'r, 'l, 's) env \<Rightarrow> now \<Rightarrow> 'l \<Rightarrow>
     ('i, 'f, 'n, 'p, 'r) endpoint \<Rightarrow> 's \<Rightarrow> ('i, 'f, 'n, 'p, 'r) endpoint \<times> 's" where
  "campaign_if_due E now logs ep stab =
     (if due now (ep_election_deadline ep)
      then let ep = ep\<lparr>ep_election_deadline := None\<rparr>
           in if tr_is_voter (ep_tracker ep) (cfg_id (ep_config ep))
              then if cfg_pre_vote (ep_config ep)
                   then case become_pre_candidate E now logs ep of
                          (True, ep) \<Rightarrow> become_candidate E now logs False ep stab
                        | (False, ep) \<Rightarrow> (ep, stab)
                   else become_candidate E now logs False ep stab
              else (ep, stab)
      else (ep, stab))"

definition handle_timeout ::
    "('i::linorder, 'f, 'c, 'n, 'p, 'r, 'l, 's) env \<Rightarrow> now \<Rightarrow>
     ('i, 'f, 'n, 'p, 'r) endpoint \<Rightarrow> 'l \<Rightarrow> 's \<Rightarrow> ('i, 'f, 'n, 'p, 'r) endpoint \<times> 'l \<times> 's" where
  "handle_timeout E now ep logs stab =
     (if is_poisoned ep then (ep, logs, stab)
      else if ep_role ep = Leader
      then case leader_timeout E now stab ep logs of
             (False, ep, logs) \<Rightarrow> (ep, logs, stab)
           | (True, ep, logs) \<Rightarrow> (reconcile_election_timer E now ep, logs, stab)
      else let ep = drive_cure_sweep E now stab (drive_stuck_advertisement now ep);
               (ep, stab) = campaign_if_due E now logs ep stab
           in (reconcile_election_timer E now ep, logs, stab))"

end
