(* ===== verification/Restart.thy ===== *)
theory Restart
  imports Dispatch
begin

text \<open>
  Recovery, \<^verbatim>\<open>sailing-proto/src/endpoint/restart.rs\<close> with the pure reconcilers of \<^verbatim>\<open>endpoint/mod.rs\<close>
  and the adoption rule of \<^verbatim>\<open>multi/mod.rs\<close>: which snapshot a restart trusts, what it does to the
  log, the lease promise it re-arms, the scans of the retained log and the replay.
\<close>

section \<open>The pure reconcilers\<close>

record derived_lease_safety =
  dl_lease_support_floor :: "duration option"
  dl_fence_window :: "duration option"

datatype LeaseReconcile = LR_Ok derived_lease_safety | LR_Poison

definition reconcile_durable ::
    "LeaseSupport \<Rightarrow> bool \<Rightarrow> duration \<Rightarrow> duration option \<Rightarrow> LeaseReconcile" where
  "reconcile_durable recovered enforcing timeout assume_prior =
     (let this_run = (if enforcing then Some timeout else None);
          derived = (\<lambda>fl. LR_Ok \<lparr>dl_lease_support_floor = fl,
                       dl_fence_window = (case fl of Some d \<Rightarrow> if d \<noteq> 0 then Some d else None | None \<Rightarrow> None)\<rparr>)
      in case recovered of
           Recorded d \<Rightarrow> derived (option_max d this_run)
         | Unrecorded \<Rightarrow>
             if assume_prior \<noteq> None then derived (option_max this_run assume_prior) else LR_Poison)"

datatype RestartLogAction =
    RA_None | RA_Compact index | RA_Restore index raft_term | RA_Poison PoisonReason

definition reconcile_restart_log ::
    "(index \<times> raft_term) option \<Rightarrow> index \<Rightarrow> index \<Rightarrow> index \<Rightarrow> raft_term fallible option \<Rightarrow>
     RestartLogAction" where
  "reconcile_restart_log snap committed_in_log first_index last_index boundary_term =
     (if first_index > counter_next last_index then RA_Poison PR_OrphanedLog
      else case snap of
             None \<Rightarrow> if first_index > 1 then RA_Poison PR_OrphanedLog else RA_None
           | Some (n, t) \<Rightarrow>
               if first_index > counter_next n then RA_Poison PR_OrphanedLog
               else if last_index < n then RA_Restore n t
               else case boundary_term of
                      Some (Ok bt) \<Rightarrow>
                        if bt = t then if first_index = counter_next n then RA_None else RA_Compact n
                        else if committed_in_log \<ge> n then RA_Poison PR_OrphanedLog else RA_Restore n t
                    | _ \<Rightarrow> RA_Poison PR_LogTerm)"

definition snapshot_is_adopted ::
    "('i, 'f, 'c, 'n, 'p, 'r, 'l, 's) env \<Rightarrow> fork_id option \<Rightarrow> 'i snapshot_meta \<Rightarrow> 'l \<Rightarrow> bool" where
  "snapshot_is_adopted E hs_lin meta logs \<longleftrightarrow>
     hs_lin = sm_fork_id meta \<or>
     hs_lin = None \<and> log_first_index E logs = counter_next (sm_last_index meta) \<and>
     log_read_term E logs (sm_last_index meta) = Ok (sm_last_term meta)"

section \<open>The scans of the retained log\<close>

text \<open>
  The three scans fold a different reading over the same loop. The recursion is on a bound of the
  batches still to read; \<open>None\<close> is that bound exhausted, which stands for a loop that does not end
  and which \<open>scan_log_loop_returns\<close> excludes for a store whose batches start where they are asked to.
\<close>

fun scan_log_loop ::
    "('i, 'f, 'c, 'n, 'p, 'r, 'l, 's) env \<Rightarrow> 'l \<Rightarrow> (entry \<Rightarrow> u64 \<Rightarrow> u64) \<Rightarrow> index \<Rightarrow> nat \<Rightarrow> index \<Rightarrow> u64 \<Rightarrow>
     (u64, PoisonReason) result option" where
  "scan_log_loop E logs f last_i 0 idx acc = (if idx \<le> last_i then None else Some (Ok acc))"
| "scan_log_loop E logs f last_i (Suc fuel) idx acc =
     (if idx \<le> last_i
      then let read_end = min (counter_next last_i) (saturating_add idx MAX_READ_BATCH_ENTRIES)
           in case log_entries E logs idx read_end (2 ^ 20) of
                Ok (EntriesReady (e # es)) \<Rightarrow>
                  scan_log_loop E logs f last_i fuel (counter_next (en_index (List.last (e # es))))
                    (fold f (e # es) acc)
              | _ \<Rightarrow> Some (Err PR_LogRead)
      else Some (Ok acc))"

definition scan_log ::
    "('i, 'f, 'c, 'n, 'p, 'r, 'l, 's) env \<Rightarrow> (entry \<Rightarrow> u64 \<Rightarrow> u64) \<Rightarrow> 'l \<Rightarrow>
     (u64, PoisonReason) result option" where
  "scan_log E f logs =
     (let last_i = log_last_index E logs; idx = log_first_index E logs
      in scan_log_loop E logs f last_i (Suc (unat last_i) - unat idx) idx 0)"

definition scan_max_lease_window ::
    "('i, 'f, 'c, 'n, 'p, 'r, 'l, 's) env \<Rightarrow> 'l \<Rightarrow> (u64, PoisonReason) result option" where
  "scan_max_lease_window E = scan_log E (\<lambda>e m. max m (en_lease_window e))"

definition scan_max_wall_plus_window ::
    "('i, 'f, 'c, 'n, 'p, 'r, 'l, 's) env \<Rightarrow> 'l \<Rightarrow> (u64, PoisonReason) result option" where
  "scan_max_wall_plus_window E =
     scan_log E (\<lambda>e m. if en_wall_timestamp e \<noteq> 0 \<and> en_lease_window e > 0
                       then max m (saturating_add (en_wall_timestamp e) (en_lease_window e)) else m)"

definition scan_max_unwalled_lease_window ::
    "('i, 'f, 'c, 'n, 'p, 'r, 'l, 's) env \<Rightarrow> 'l \<Rightarrow> (u64, PoisonReason) result option" where
  "scan_max_unwalled_lease_window E =
     scan_log E (\<lambda>e m. if en_wall_timestamp e = 0 \<and> en_lease_window e > 0
                       then max m (en_lease_window e) else m)"

section \<open>Restart\<close>

text \<open>
  The poisoned flag and its reason are set together, so the local state carries the reason only. A
  scan is skipped, with 0, once a reason stands.
\<close>

definition scan_unless_poisoned ::
    "PoisonReason option \<Rightarrow> u64 \<Rightarrow> (u64, PoisonReason) result option \<Rightarrow> (u64 \<times> PoisonReason option) option" where
  "scan_unless_poisoned pr snap_value scan =
     (if pr \<noteq> None then Some (0, pr)
      else case scan of
             None \<Rightarrow> None
           | Some (Ok m) \<Rightarrow> Some (max snap_value m, None)
           | Some (Err reason) \<Rightarrow> Some (0, Some reason))"

text \<open>The snapshot a restart adopts, lineage first.\<close>

definition adopted_snapshot ::
    "('i, 'f, 'c, 'n, 'p, 'r, 'l, 's) env \<Rightarrow> 'i hard_state \<Rightarrow> 'l \<Rightarrow>
     ('i snapshot_meta \<times> bytes) option \<Rightarrow> PoisonReason option \<Rightarrow>
     ('i snapshot_meta \<times> bytes) option \<times> PoisonReason option" where
  "adopted_snapshot E hs logs snap pr =
     (case snap of
        Some (meta, data) \<Rightarrow>
          if snapshot_is_adopted E (hs_lineage hs) meta logs then (Some (meta, data), pr)
          else (None, if hs_lineage hs \<noteq> None then Some PR_LineageMismatch else pr)
      | None \<Rightarrow> (None, if hs_lineage hs \<noteq> None then Some PR_LineageMismatch else pr))"

definition restore_from_snapshot ::
    "('i::linorder, 'f, 'c, 'n, 'p, 'r, 'l, 's) env \<Rightarrow> 'i config \<Rightarrow>
     ('i snapshot_meta \<times> bytes) option \<Rightarrow> 'f \<Rightarrow> PoisonReason option \<Rightarrow>
     index \<times> 'i tracker \<times> 'f \<times> PoisonReason option" where
  "restore_from_snapshot E config snap fsm pr =
     (let seed = from_conf_state (cs_from_voters (cfg_voters config)) 0
                   (cfg_max_inflight_msgs config) (cfg_max_inflight_bytes config)
      in case snap of
           None \<Rightarrow> (0, seed, fsm, pr)
         | Some (meta, data) \<Rightarrow>
             if sm_last_index meta = u64_max then (0, seed, fsm, Some PR_LogExhausted)
             else if \<not> cs_is_valid (sm_conf meta) then (0, seed, fsm, Some PR_InvalidConfState)
             else if sm_shape_gen meta \<ge> HIGHEST_WORKING_GENERATION
             then (0, seed, fsm, Some PR_ReservedShapeGen)
             else case decode_snapshot_data E data of
                    Err _ \<Rightarrow> (0, seed, fsm, Some PR_SnapshotDecode)
                  | Ok s \<Rightarrow>
                      let (restored, fsm) = fsm_restore E s fsm
                      in if \<not> is_ok restored then (0, seed, fsm, Some PR_SnapshotRestore)
                         else (sm_last_index meta,
                               from_conf_state (sm_conf meta) (sm_last_index meta)
                                 (cfg_max_inflight_msgs config) (cfg_max_inflight_bytes config),
                               fsm, pr))"

definition boundary_term_of ::
    "('i, 'f, 'c, 'n, 'p, 'r, 'l, 's) env \<Rightarrow> 'l \<Rightarrow> (index \<times> raft_term) option \<Rightarrow> raft_term fallible option" where
  "boundary_term_of E logs snap_nt =
     (case snap_nt of
        Some (n, _) \<Rightarrow>
          if log_first_index E logs \<le> counter_next n \<and> n \<le> log_last_index E logs
          then Some (log_read_term E logs n) else None
      | None \<Rightarrow> None)"

definition reconcile_log ::
    "('i, 'f, 'c, 'n, 'p, 'r, 'l, 's) env \<Rightarrow> index \<Rightarrow> (index \<times> raft_term) option \<Rightarrow> PoisonReason option \<Rightarrow> 'l \<Rightarrow>
     PoisonReason option \<times> 'l" where
  "reconcile_log E hs_com snap_nt pr logs =
     (let pr = (if pr = None \<and> log_last_index E logs = u64_max then Some PR_LogExhausted else pr)
      in if pr \<noteq> None then (pr, logs)
         else case reconcile_restart_log snap_nt (min hs_com (log_last_index E logs))
                     (log_first_index E logs) (log_last_index E logs) (boundary_term_of E logs snap_nt) of
                RA_None \<Rightarrow> (None, logs)
              | RA_Compact n \<Rightarrow> (None, log_compact E n logs)
              | RA_Restore n t \<Rightarrow>
                  let logs = log_restore E n t logs
                  in (if restore_rebaselined E logs n t then None else Some PR_SnapshotRebaseline, logs)
              | RA_Poison reason \<Rightarrow> (Some reason, logs))"

text \<open>The endpoint a restart builds before it replays the log.\<close>

definition endpoint_recovered ::
    "'i::linorder config \<Rightarrow> instant \<Rightarrow> 'r \<Rightarrow> 'f \<Rightarrow> u64 \<Rightarrow> 'i hard_state \<Rightarrow> index \<Rightarrow> index \<Rightarrow> index \<Rightarrow> 'i tracker \<Rightarrow>
     duration option \<Rightarrow> instant option \<Rightarrow> u64 \<Rightarrow> u64 \<Rightarrow> u64 \<Rightarrow> 'i snapshot_meta option \<Rightarrow>
     PoisonReason option \<Rightarrow> ('i, 'f, 'n, 'p, 'r) endpoint" where
  "endpoint_recovered config now_mono rng fsm boot_epoch hs last_i applied commit tracker
       support_floor fence max_window max_wall_plus max_unwalled snap pr =
     (let ep = endpoint_fresh config now_mono rng fsm;
          snap_read_only = (case snap of Some m \<Rightarrow> sm_read_only m | None \<Rightarrow> None);
          mode = (case snap_read_only of Some m \<Rightarrow> m | None \<Rightarrow> cfg_read_only config);
          snap_gen = (case snap of Some m \<Rightarrow> sm_shape_gen m | None \<Rightarrow> 0);
          snap_fork = (case snap of Some m \<Rightarrow> sm_fork_id m | None \<Rightarrow> None)
      in ep\<lparr>ep_term := hs_term hs, ep_voted_for := hs_vote hs, ep_commit := commit, ep_applied := applied,
            ep_lease_guard := (ep_lease_guard ep)\<lparr>lg_max_lease_window := max_window,
              lg_max_wall_plus_window := max_wall_plus, lg_max_unwalled_lease_window := max_unwalled\<rparr>,
            ep_next_op_id := first_of_epoch boot_epoch,
            ep_poison := \<lparr>po_poisoned = pr \<noteq> None, po_poison_reason = pr\<rparr>,
            ep_durable := (ep_durable ep)\<lparr>du_durable_term := hs_term hs, du_last_submitted_term := hs_term hs,
              du_lease_support_floor := support_floor,
              du_last_submitted_lease_support := promised (hs_lease_support hs),
              du_last_submitted_vote := hs_vote hs,
              du_durable_lease_support := promised (hs_lease_support hs),
              du_committed_persisted := commit, du_durable_commit_index := commit,
              du_last_submitted_commit := commit, du_durable_index := last_i,
              du_lease_vote_fence_until := fence\<rparr>,
            ep_tracker := tracker,
            ep_split := (if pr \<noteq> None then split_state_new 0 0 None
                         else split_state_new (max snap_gen (hs_founding_gen hs)) (hs_founding_gen hs) snap_fork),
            ep_reads := (ep_reads ep)\<lparr>rd_read_only := ro_new mode, rd_active_read_mode := mode,
              rd_read_mode_migrated := (snap_read_only \<noteq> None), rd_forwarded_reads := fr_new boot_epoch\<rparr>\<rparr>)"

text \<open>
  The replay runs the apply path until it is not cut by its budget. The recursion is on a bound of
  the cuts; \<open>None\<close> is that bound exhausted, which \<open>replay_loop_returns\<close> excludes: every cut applied
  an entry.
\<close>

fun replay_loop ::
    "('i::linorder, 'f, 'c, 'n, 'p, 'r, 'l, 's) env \<Rightarrow> 'l \<Rightarrow> nat \<Rightarrow>
     ('i, 'f, 'n, 'p, 'r) endpoint \<Rightarrow> ('i, 'f, 'n, 'p, 'r) endpoint option" where
  "replay_loop E logs 0 ep = None"
| "replay_loop E logs (Suc fuel) ep =
     (case apply_committed E logs ep of
        (AD_BudgetCut, ep) \<Rightarrow> replay_loop E logs fuel ep
      | (_, ep) \<Rightarrow> Some ep)"

definition replay ::
    "('i::linorder, 'f, 'c, 'n, 'p, 'r, 'l, 's) env \<Rightarrow> 'l \<Rightarrow>
     ('i, 'f, 'n, 'p, 'r) endpoint \<Rightarrow> ('i, 'f, 'n, 'p, 'r) endpoint option" where
  "replay E logs ep =
     (if is_poisoned ep then Some ep
      else case scan_freeze_pending E logs (ep_applied ep) of
             None \<Rightarrow> None
           | Some (Err reason) \<Rightarrow> Some (poison reason ep)
           | Some (Ok queue) \<Rightarrow>
               let ep = ep\<lparr>ep_merge := (ep_merge ep)\<lparr>me_freeze_queue := queue\<rparr>\<rparr>
               in replay_loop E logs (Suc (unat (ep_commit ep) - unat (ep_applied ep))) ep)"

text \<open>The lease promise of this run is made durable where the recovered one is lower.\<close>

definition finish_restart ::
    "('i, 'f, 'c, 'n, 'p, 'r, 'l, 's) env \<Rightarrow> now \<Rightarrow> ('i, 'f, 'n, 'p, 'r) endpoint \<Rightarrow> 's \<Rightarrow>
     ('i, 'f, 'n, 'p, 'r) endpoint \<times> 's" where
  "finish_restart E now ep stab =
     (let (ep, stab) =
            (if \<not> is_poisoned ep \<and>
                option_gt (du_lease_support_floor (ep_durable ep)) (du_durable_lease_support (ep_durable ep))
             then let (opid, ep) = mint_op_id ep in submit_write E opid (st_hard_state E stab) ep stab
             else (ep, stab));
          ep = ep\<lparr>ep_outputs := (ep_outputs ep)\<lparr>ou_events := []\<rparr>\<rparr>
      in (arm_election_timer E now ep, stab))"

definition lease_of_restart ::
    "'i hard_state \<Rightarrow> 'i config \<Rightarrow> now \<Rightarrow> duration option \<Rightarrow> PoisonReason option \<Rightarrow>
     duration option \<times> instant option \<times> PoisonReason option" where
  "lease_of_restart hs config now assume_prior pr =
     (case reconcile_durable (hs_lease_support hs) (cfg_check_quorum config \<or> cfg_pre_vote config)
             (cfg_election_timeout config) assume_prior of
        LR_Ok d \<Rightarrow> (dl_lease_support_floor d, map_option (instant_add (mono now)) (dl_fence_window d), pr)
      | LR_Poison \<Rightarrow> (None, None, if pr = None then Some PR_LegacyLeaseUnrecoverable else pr))"

definition restart_inner ::
    "('i::linorder, 'f, 'c, 'n, 'p, 'r, 'l, 's) env \<Rightarrow> 'i config \<Rightarrow> now \<Rightarrow> 'r \<Rightarrow> 'f \<Rightarrow> u64 \<Rightarrow>
     duration option \<Rightarrow> 'l \<Rightarrow> 's \<Rightarrow> (('i, 'f, 'n, 'p, 'r) endpoint \<times> 'l \<times> 's) option" where
  "restart_inner E config now rng fsm boot_epoch assume_prior logs stab =
     (let hs = st_hard_state E stab;
          stab = st_discard_snapshot_staging E stab;
          pr = (if hs_founding_gen hs \<ge> HIGHEST_WORKING_GENERATION then Some PR_ReservedShapeGen else None);
          (snap, pr) = adopted_snapshot E hs logs (st_snapshot E stab) pr;
          meta = map_option fst snap;
          (applied, tracker, fsm, pr) = restore_from_snapshot E config snap fsm pr;
          (pr, logs) = reconcile_log E (hs_commit hs)
                         (map_option (\<lambda>m. (sm_last_index m, sm_last_term m)) meta) pr logs;
          commit = max (min (hs_commit hs) (log_last_index E logs)) applied;
          (support_floor, fence, pr) = lease_of_restart hs config now assume_prior pr
      in Option.bind (scan_unless_poisoned pr (case meta of Some m \<Rightarrow> sm_max_lease_window m | None \<Rightarrow> 0)
                        (scan_max_lease_window E logs)) (\<lambda>(window, pr).
         Option.bind (scan_unless_poisoned pr (case meta of Some m \<Rightarrow> sm_max_wall_plus_window m | None \<Rightarrow> 0)
                        (scan_max_wall_plus_window E logs)) (\<lambda>(wall_plus, pr).
         Option.bind (scan_unless_poisoned pr (case meta of Some m \<Rightarrow> sm_max_unwalled_lease_window m | None \<Rightarrow> 0)
                        (scan_max_unwalled_lease_window E logs)) (\<lambda>(unwalled, pr).
         Option.bind (replay E logs (endpoint_recovered config (mono now) rng fsm boot_epoch hs
                        (log_last_index E logs) applied commit tracker support_floor fence
                        window wall_plus unwalled meta pr)) (\<lambda>ep.
         let (ep, stab) = finish_restart E now ep stab in Some (ep, logs, stab))))))"

definition restart_with_rng ::
    "('i::linorder, 'f, 'c, 'n, 'p, 'r, 'l, 's) env \<Rightarrow> 'i config \<Rightarrow> now \<Rightarrow> 'r \<Rightarrow> 'f \<Rightarrow> u64 \<Rightarrow>
     'l \<Rightarrow> 's \<Rightarrow> (('i, 'f, 'n, 'p, 'r) endpoint \<times> 'l \<times> 's) option" where
  "restart_with_rng E config now rng fsm boot_epoch = restart_inner E config now rng fsm boot_epoch None"

definition restart ::
    "('i::linorder, 'f, 'c, 'n, 'p, prng, 'l, 's) env \<Rightarrow> 'i config \<Rightarrow> now \<Rightarrow> u64 \<Rightarrow> 'f \<Rightarrow> u64 \<Rightarrow>
     'l \<Rightarrow> 's \<Rightarrow> (('i, 'f, 'n, 'p, prng) endpoint \<times> 'l \<times> 's) option" where
  "restart E config now seed = restart_with_rng E config now (prng_new seed)"

definition restart_migrating ::
    "('i::linorder, 'f, 'c, 'n, 'p, prng, 'l, 's) env \<Rightarrow> 'i config \<Rightarrow> now \<Rightarrow> u64 \<Rightarrow> 'f \<Rightarrow> u64 \<Rightarrow>
     duration option \<Rightarrow> 'l \<Rightarrow> 's \<Rightarrow> (('i, 'f, 'n, 'p, prng) endpoint \<times> 'l \<times> 's) option" where
  "restart_migrating E config now seed = restart_inner E config now (prng_new seed)"

end
