(* ===== verification/Protocol_Core.thy ===== *)
theory Protocol_Core
  imports Restart
begin

text \<open>
  An abstract specification of the endpoint: the part of its state the safety of the protocol is
  about, the steps that may change that part, and the simulation. Every entry point of the endpoint
  (a message, a timer, a storage crank) is a sequence of these steps on the abstraction of its state.
\<close>

named_theorems core_abs \<open>observations of the endpoint in terms of its abstraction\<close>
named_theorems core_frame \<open>what an operation does to the abstraction\<close>
named_theorems core_sim \<open>operations that are sequences of abstract steps\<close>

section \<open>The abstract state\<close>

record 'i core_state =
  c_id :: 'i
  c_term :: raft_term
  c_vote :: "'i option"
  c_commit :: index
  c_applied :: index
  c_durable_index :: index
  c_durable_snapshot :: index
  c_durable_term :: raft_term
  c_out :: "'i outgoing list"
  c_fork :: "fork_id option"
  c_pending :: "'i snapshot_meta option"
  c_poisoned :: bool

definition pending_meta :: "('i, 'n) snapshot_state \<Rightarrow> 'i snapshot_meta option" where
  "pending_meta s = map_option (\<lambda>(_, m, _, _). m) (ss_pending_install s)"

definition core :: "('i, 'f, 'n, 'p, 'r) endpoint \<Rightarrow> 'i core_state" where
  "core ep =
     \<lparr>c_id = cfg_id (ep_config ep), c_term = ep_term ep, c_vote = ep_voted_for ep,
      c_commit = ep_commit ep, c_applied = ep_applied ep,
      c_durable_index = du_durable_index (ep_durable ep),
      c_durable_snapshot = du_durable_snapshot_index (ep_durable ep),
      c_durable_term = du_durable_term (ep_durable ep),
      c_out = ou_outgoing (ep_outputs ep),
      c_fork = sl_fork_id (ep_split ep),
      c_pending = pending_meta (ep_snapshot ep),
      c_poisoned = is_poisoned ep\<rparr>"

text \<open>Every observation of the endpoint the specification makes, read off the abstraction.\<close>

lemma core_observed [core_abs]:
  "cfg_id (ep_config ep) = c_id (core ep)"
  "ep_term ep = c_term (core ep)"
  "ep_voted_for ep = c_vote (core ep)"
  "ep_commit ep = c_commit (core ep)"
  "ep_applied ep = c_applied (core ep)"
  "du_durable_index (ep_durable ep) = c_durable_index (core ep)"
  "du_durable_snapshot_index (ep_durable ep) = c_durable_snapshot (core ep)"
  "du_durable_term (ep_durable ep) = c_durable_term (core ep)"
  "ou_outgoing (ep_outputs ep) = c_out (core ep)"
  "sl_fork_id (ep_split ep) = c_fork (core ep)"
  "pending_meta (ep_snapshot ep) = c_pending (core ep)"
  "is_poisoned ep = c_poisoned (core ep)"
  by (simp_all add: core_def)

text \<open>The fields the abstraction forgets.\<close>

lemma core_inert [core_frame]:
  "core (ep_fsm_update g1 ep) = core ep"
  "core (ep_role_update g2 ep) = core ep"
  "core (ep_leader_update g3 ep) = core ep"
  "core (ep_rng_update g4 ep) = core ep"
  "core (ep_votes_update g5 ep) = core ep"
  "core (ep_election_deadline_update g6 ep) = core ep"
  "core (ep_heartbeat_deadline_update g7 ep) = core ep"
  "core (ep_lease_guard_update g8 ep) = core ep"
  "core (ep_cold_read_defers_update g9 ep) = core ep"
  "core (ep_lease_refreshes_update g10 ep) = core ep"
  "core (ep_wall_stamp_degradations_update g11 ep) = core ep"
  "core (ep_tracker_update g12 ep) = core ep"
  "core (ep_next_op_id_update g13 ep) = core ep"
  "core (ep_pending_log_update g14 ep) = core ep"
  "core (ep_pending_stable_update g15 ep) = core ep"
  "core (ep_pending_conf_index_update g16 ep) = core ep"
  "core (ep_reads_update g17 ep) = core ep"
  "core (ep_merge_update g18 ep) = core ep"
  "core (ep_check_quorum_lease_update g19 ep) = core ep"
  "core (ep_transfer_update g20 ep) = core ep"
  "core (ep_peers_scratch_update g21 ep) = core ep"
  "core (ep_replication_pending_update g22 ep) = core ep"
  "core (ep_term_start_index_update g23 ep) = core ep"
  "core (ep_pending_farewells_update g24 ep) = core ep"
  "core (ep_courtesy_owed_update g25 ep) = core ep"
  "core (ep_cure_owed_update g26 ep) = core ep"
  "core (ep_cure_send_gate_update g27 ep) = core ep"
  "core (ep_cure_cursor_update g28 ep) = core ep"
  "core (ep_cure_served_update g29 ep) = core ep"
  by (simp_all add: core_def is_poisoned_def)

text \<open>The fields it keeps.\<close>

lemma core_kept [core_frame]:
  "core (ep_term_update g ep) = c_term_update g (core ep)"
  "core (ep_voted_for_update hv ep) = c_vote_update hv (core ep)"
  "core (ep_commit_update g ep) = c_commit_update g (core ep)"
  "core (ep_applied_update g ep) = c_applied_update g (core ep)"
  "core (ep_durable_update h ep) =
     (core ep)\<lparr>c_durable_index := du_durable_index (h (ep_durable ep)),
       c_durable_snapshot := du_durable_snapshot_index (h (ep_durable ep)),
       c_durable_term := du_durable_term (h (ep_durable ep))\<rparr>"
  "core (ep_outputs_update ho ep) = (core ep)\<lparr>c_out := ou_outgoing (ho (ep_outputs ep))\<rparr>"
  "core (ep_split_update hs ep) = (core ep)\<lparr>c_fork := sl_fork_id (hs (ep_split ep))\<rparr>"
  "core (ep_snapshot_update hn ep) = (core ep)\<lparr>c_pending := pending_meta (hn (ep_snapshot ep))\<rparr>"
  "core (ep_poison_update hp ep) = (core ep)\<lparr>c_poisoned := po_poisoned (hp (ep_poison ep))\<rparr>"
  by (simp_all add: core_def is_poisoned_def)

lemma pending_meta_update [core_frame]:
  "pending_meta (s\<lparr>ss_snapshot_recv := a\<rparr>) = pending_meta s"
  "pending_meta (s\<lparr>ss_pending_compact := b\<rparr>) = pending_meta s"
  "pending_meta (s\<lparr>ss_snapshot_resend_after := d\<rparr>) = pending_meta s"
  "pending_meta (s\<lparr>ss_unsendable_meta_frames := e\<rparr>) = pending_meta s"
  "pending_meta (s\<lparr>ss_refused_cross_lineage_installs := k\<rparr>) = pending_meta s"
  "pending_meta (s\<lparr>ss_refused_stale_removal_installs := l\<rparr>) = pending_meta s"
  "pending_meta (s\<lparr>ss_pending_install := p\<rparr>) = map_option (\<lambda>(_, m, _, _). m) p"
  by (simp_all add: pending_meta_def)

lemma core_state_same [core_frame]:
  "c\<lparr>c_durable_index := c_durable_index c\<rparr> = c"
  "c\<lparr>c_durable_snapshot := c_durable_snapshot c\<rparr> = c"
  "c\<lparr>c_durable_term := c_durable_term c\<rparr> = c"
  "c\<lparr>c_out := c_out c\<rparr> = c"
  "c\<lparr>c_fork := c_fork c\<rparr> = c"
  "c\<lparr>c_pending := c_pending c\<rparr> = c"
  "c\<lparr>c_poisoned := c_poisoned c\<rparr> = c"
  by (cases c; simp)+

section \<open>The abstract steps\<close>

definition watermark :: "'i core_state \<Rightarrow> index" where
  "watermark c = max (c_durable_index c) (c_durable_snapshot c)"

definition core_ack :: "'i core_state \<Rightarrow> index \<Rightarrow> 'i message" where
  "core_ack c proven =
     MAppendResponse (append_response_new (c_term c) (c_id c) False 0 0 (min proven (watermark c)))"

definition core_grant :: "'i core_state \<Rightarrow> 'i message" where
  "core_grant c =
     MVoteResponse \<lparr>vr_term = c_term c, vr_from = c_id c, vr_pre_vote = False, vr_reject = False\<rparr>"

text \<open>The messages that promise nothing of this node's disk: neither an acknowledgement nor a vote.\<close>

definition quiet :: "'i message \<Rightarrow> bool" where
  "quiet m =
     (case m of
        MAppendResponse r \<Rightarrow> ar_reject r
      | MVoteResponse v \<Rightarrow> vr_pre_vote v \<or> vr_reject v
      | _ \<Rightarrow> True)"

definition core_send :: "'i \<Rightarrow> 'i message \<Rightarrow> 'i core_state \<Rightarrow> 'i core_state" where
  "core_send to m c = c\<lparr>c_out := c_out c @ [(to, m)]\<rparr>"

definition core_scrub :: "index \<Rightarrow> 'i core_state \<Rightarrow> 'i core_state" where
  "core_scrub b c = c\<lparr>c_out := filter (\<lambda>out. \<not> acks_above b out) (c_out c)\<rparr>"

definition same_lineage :: "'i snapshot_meta \<Rightarrow> 'i core_state \<Rightarrow> bool" where
  "same_lineage m c \<longleftrightarrow> c_fork c = None \<or> sm_fork_id m = c_fork c"

inductive core_step :: "bool \<Rightarrow> 'i core_state \<Rightarrow> 'i core_state \<Rightarrow> bool" where
  step_adopt: "c_term c < t \<Longrightarrow> core_step w c (c\<lparr>c_term := t, c_vote := None\<rparr>)"
| step_campaign: "c_term c < t \<Longrightarrow> core_step w c (c\<lparr>c_term := t, c_vote := Some (c_id c)\<rparr>)"
| step_vote: "c_vote c = None \<or> c_vote c = Some v \<Longrightarrow> core_step w c (c\<lparr>c_vote := Some v\<rparr>)"
| step_commit: "c_commit c \<le> i \<Longrightarrow> core_step w c (c\<lparr>c_commit := i\<rparr>)"
| step_apply: "i \<le> c_commit c \<Longrightarrow> core_step w c (c\<lparr>c_applied := i\<rparr>)"
| step_send: "quiet m \<Longrightarrow> core_step w c (core_send to m c)"
| step_ack: "c_term c \<le> c_durable_term c \<Longrightarrow> core_step w c (core_send to (core_ack c proven) c)"
| step_grant: "c_vote c = Some to \<Longrightarrow> core_step True c (core_send to (core_grant c) c)"
| step_durable_index: "c_durable_index c \<le> i \<Longrightarrow> core_step True c (c\<lparr>c_durable_index := i\<rparr>)"
| step_durable_snapshot: "c_durable_snapshot c \<le> s \<Longrightarrow> core_step True c (c\<lparr>c_durable_snapshot := s\<rparr>)"
| step_durable_term: "c_durable_term c \<le> t \<Longrightarrow> core_step True c (c\<lparr>c_durable_term := t\<rparr>)"
| step_truncate:
    "c_commit c \<le> b \<Longrightarrow>
     core_step w c (core_scrub b (c\<lparr>c_durable_index := min (c_durable_index c) b\<rparr>))"
| step_rebaseline:
    "c_commit c \<le> b \<Longrightarrow> b \<le> c_durable_snapshot c \<Longrightarrow> c_pending c = None \<Longrightarrow>
     core_step True c (core_scrub b (c\<lparr>c_commit := b, c_applied := b, c_durable_index := b, c_fork := f\<rparr>))"
| step_receive: "same_lineage m c \<Longrightarrow> core_step w c (c\<lparr>c_pending := Some m\<rparr>)"
| step_taken: "core_step w c (c\<lparr>c_pending := None\<rparr>)"
| step_poison: "core_step w c (c\<lparr>c_poisoned := True, c_fork := None\<rparr>)"

abbreviation core_steps :: "bool \<Rightarrow> 'i core_state \<Rightarrow> 'i core_state \<Rightarrow> bool" where
  "core_steps w \<equiv> (core_step w)\<^sup>*\<^sup>*"

section \<open>Invariants\<close>

text \<open>The snapshot whose install is pending is of this node's lineage, where the node has one.\<close>

definition lineage_ok :: "'i core_state \<Rightarrow> bool" where
  "lineage_ok c = (case c_pending c of Some m \<Rightarrow> same_lineage m c | None \<Rightarrow> True)"

lemma lineage_ok_step: "core_step w c d \<Longrightarrow> lineage_ok c \<Longrightarrow> lineage_ok d"
  by (induction rule: core_step.induct)
    (auto simp: lineage_ok_def same_lineage_def core_send_def core_scrub_def split: option.splits)

lemma lineage_ok_steps: "core_steps w c d \<Longrightarrow> lineage_ok c \<Longrightarrow> lineage_ok d"
  by (induction rule: rtranclp_induct) (auto intro: lineage_ok_step)

end
