(* ===== verification/Simulation.thy ===== *)
theory Simulation
  imports Protocol_Core
begin

text \<open>
  The simulation of the endpoint by the abstract steps of \<^verbatim>\<open>Protocol_Core\<close>, for everything up to the
  elections. An operation that leaves the abstraction alone has a lemma \<open>_core\<close> in \<open>core_frame\<close>; an
  operation that changes it has a lemma \<open>_sim\<close> in \<open>core_sim\<close>, which says that it is a sequence of
  abstract steps; \<open>_fixed\<close> says which fields an operation never touches. Both collections are
  rewrite rules, so the lemma of an operation follows from those of the operations it calls.
\<close>

section \<open>The rules\<close>

declare Let_def [core_frame] case_prod_beta [core_frame]

lemmas sim_splits =
  option.split result.split list.split EntriesRead.split SnapshotChunkRead.split ChunkSend.split
  bool.split Pending.split

lemma sim_step: "core_steps w c d \<Longrightarrow> core_step w d e \<Longrightarrow> core_steps w c e"
  by (rule rtranclp.rtrancl_into_rtrancl)

lemma poison_sim [core_sim]: "core_steps w c (core ep) \<Longrightarrow> core_steps w c (core (poison r ep))"
  by (simp add: poison_def core_frame sim_step [OF _ step_poison])

lemma poison_fixed [core_frame]:
  "c_id (core (poison r ep)) = c_id (core ep)"
  "c_term (core (poison r ep)) = c_term (core ep)"
  "c_vote (core (poison r ep)) = c_vote (core ep)"
  "c_commit (core (poison r ep)) = c_commit (core ep)"
  "c_applied (core (poison r ep)) = c_applied (core ep)"
  "c_poisoned (core (poison r ep))"
  by (simp_all add: poison_def core_frame)

lemma poison_lineage [core_sim]: "same_lineage m (core (poison r ep))"
  by (simp add: poison_def same_lineage_def core_frame)

lemma send_core: "core (send to m ep) = (if c_poisoned (core ep) then core ep else core_send to m (core ep))"
  by (simp add: send_def core_frame core_abs core_send_def)

lemma send_fields [core_frame]:
  "c_id (core (send to m ep)) = c_id (core ep)"
  "c_term (core (send to m ep)) = c_term (core ep)"
  "c_vote (core (send to m ep)) = c_vote (core ep)"
  "c_commit (core (send to m ep)) = c_commit (core ep)"
  "c_applied (core (send to m ep)) = c_applied (core ep)"
  "c_durable_index (core (send to m ep)) = c_durable_index (core ep)"
  "c_durable_snapshot (core (send to m ep)) = c_durable_snapshot (core ep)"
  "c_durable_term (core (send to m ep)) = c_durable_term (core ep)"
  "c_fork (core (send to m ep)) = c_fork (core ep)"
  "c_pending (core (send to m ep)) = c_pending (core ep)"
  "c_poisoned (core (send to m ep)) = c_poisoned (core ep)"
  by (simp_all add: send_core core_send_def)

lemma send_sim [core_sim]:
  "core_steps w c (core ep) \<Longrightarrow> quiet m \<Longrightarrow> core_steps w c (core (send to m ep))"
  by (simp add: send_core sim_step [OF _ step_send])

lemma quiet_simps [simp]:
  "quiet (MAppendResponse r) = ar_reject r"
  "quiet (MVoteResponse v) \<longleftrightarrow> vr_pre_vote v \<or> vr_reject v"
  "quiet (MRequestVote a)" "quiet (MHeartbeat b)" "quiet (MAppendEntries d)" "quiet (MHeartbeatResponse e)"
  "quiet (MReadIndex f)" "quiet (MReadIndexResponse g)" "quiet (MInstallSnapshot h)"
  "quiet (MSnapshotResponse i)" "quiet (MTimeoutNow j)"
  by (simp_all add: quiet_def)

lemma fold_sim [core_sim]:
  "(\<And>x ep. core_steps w c (core ep) \<Longrightarrow> core_steps w c (core (f x ep))) \<Longrightarrow>
   core_steps w c (core ep) \<Longrightarrow> core_steps w c (core (fold f xs ep))"
  by (induction xs arbitrary: ep) simp_all

lemma fold_core [core_frame]:
  "(\<And>x ep. core (f x ep) = core ep) \<Longrightarrow> core (fold f xs ep) = core ep"
  by (induction xs arbitrary: ep) simp_all

lemma field_sim [core_sim]:
  "core_steps w c d \<Longrightarrow> quiet m \<Longrightarrow> core_steps w c (d\<lparr>c_out := c_out d @ [(to, m)]\<rparr>)"
  "core_steps w c d \<Longrightarrow> c_commit d \<le> i \<Longrightarrow> core_steps w c (d\<lparr>c_commit := i\<rparr>)"
  "core_steps w c d \<Longrightarrow> i \<le> c_commit d \<Longrightarrow> core_steps w c (d\<lparr>c_applied := i\<rparr>)"
  "core_steps w c d \<Longrightarrow> c_vote d = None \<or> c_vote d = Some v \<Longrightarrow> core_steps w c (d\<lparr>c_vote := Some v\<rparr>)"
  "core_steps w c d \<Longrightarrow> c_term d < t \<Longrightarrow> core_steps w c (d\<lparr>c_term := t, c_vote := None\<rparr>)"
  "core_steps w c d \<Longrightarrow> c_term d < t \<Longrightarrow> c_id d = v \<Longrightarrow> core_steps w c (d\<lparr>c_term := t, c_vote := Some v\<rparr>)"
  by (auto intro: sim_step core_step.intros sim_step [OF _ step_send, unfolded core_send_def])

lemma ar_reject_new [simp]: "ar_reject (append_response_new t i r h ht m) = r"
  by (simp add: append_response_new_def)

lemma scrub_core [core_frame]: "core (scrub_acks_above b ep) = core_scrub b (core ep)"
  by (simp add: scrub_acks_above_def core_scrub_def core_frame core_abs)

lemma core_scrub_fields [core_frame]:
  "c_id (core_scrub b c) = c_id c"
  "c_term (core_scrub b c) = c_term c"
  "c_vote (core_scrub b c) = c_vote c"
  "c_commit (core_scrub b c) = c_commit c"
  "c_durable_index (core_scrub b c) = c_durable_index c"
  "c_durable_snapshot (core_scrub b c) = c_durable_snapshot c"
  "c_durable_term (core_scrub b c) = c_durable_term c"
  "c_fork (core_scrub b c) = c_fork c"
  "c_pending (core_scrub b c) = c_pending c"
  by (simp_all add: core_scrub_def)

lemma core_scrub_durable [core_frame]:
  "(core_scrub b c)\<lparr>c_durable_index := i\<rparr> = core_scrub b (c\<lparr>c_durable_index := i\<rparr>)"
  "(core_scrub b c)\<lparr>c_durable_snapshot := i\<rparr> = core_scrub b (c\<lparr>c_durable_snapshot := i\<rparr>)"
  "(core_scrub b c)\<lparr>c_durable_term := t\<rparr> = core_scrub b (c\<lparr>c_durable_term := t\<rparr>)"
  by (simp_all add: core_scrub_def)

lemma durable_same [core_frame]:
  "c\<lparr>c_durable_index := i, c_durable_snapshot := c_durable_snapshot c\<rparr> = c\<lparr>c_durable_index := i\<rparr>"
  "c\<lparr>c_durable_index := i, c_durable_term := c_durable_term c\<rparr> = c\<lparr>c_durable_index := i\<rparr>"
  "c\<lparr>c_durable_snapshot := s, c_durable_term := c_durable_term c\<rparr> = c\<lparr>c_durable_snapshot := s\<rparr>"
  by (cases c; simp)+

lemma durable_sim [core_sim]:
  "core_steps True c d \<Longrightarrow> c_durable_index d \<le> i \<Longrightarrow> core_steps True c (d\<lparr>c_durable_index := i\<rparr>)"
  "core_steps True c d \<Longrightarrow> c_durable_snapshot d \<le> s \<Longrightarrow> core_steps True c (d\<lparr>c_durable_snapshot := s\<rparr>)"
  "core_steps True c d \<Longrightarrow> c_durable_term d \<le> t \<Longrightarrow> core_steps True c (d\<lparr>c_durable_term := t\<rparr>)"
  by (auto intro: sim_step core_step.intros)

lemma list_all_True [simp]: "list_all (\<lambda>_. True) xs"
  by (simp add: list.pred_True)

lemma truncate_sim [core_sim]:
  "core_steps w c d \<Longrightarrow> c_commit d \<le> b \<Longrightarrow>
   core_steps w c (core_scrub b (d\<lparr>c_durable_index := min (c_durable_index d) b\<rparr>))"
  by (rule sim_step [OF _ step_truncate])

lemma below_pred: "\<not> i \<le> k \<Longrightarrow> k \<le> i - 1" for i k :: u64
  by uint_arith

section \<open>The endpoint kernel\<close>

lemma mint_op_id_sim [core_sim]:
  "core_steps w c (core ep) \<Longrightarrow> core_steps w c (core (snd (mint_op_id ep)))"
  by (simp add: mint_op_id_def core_frame core_abs core_sim split: sim_splits)

lemma mint_op_id_fixed [core_frame]:
  "c_id (core (snd (mint_op_id ep))) = c_id (core ep)"
  "c_term (core (snd (mint_op_id ep))) = c_term (core ep)"
  "c_vote (core (snd (mint_op_id ep))) = c_vote (core ep)"
  "c_commit (core (snd (mint_op_id ep))) = c_commit (core ep)"
  "c_applied (core (snd (mint_op_id ep))) = c_applied (core ep)"
  by (simp_all add: mint_op_id_def core_frame core_abs split: sim_splits)

lemma mint_op_id_lineage [core_sim]:
  "same_lineage m (core ep) \<Longrightarrow> same_lineage m (core (snd (mint_op_id ep)))"
  by (simp add: mint_op_id_def core_frame core_abs core_sim split: sim_splits)

lemma log_term_sim [core_sim]:
  "core_steps w c (core ep) \<Longrightarrow> core_steps w c (core (snd (log_term E logs idx ep)))"
  by (simp add: log_term_def core_frame core_abs core_sim split: sim_splits)

lemma log_term_fixed [core_frame]:
  "c_id (core (snd (log_term E logs idx ep))) = c_id (core ep)"
  "c_term (core (snd (log_term E logs idx ep))) = c_term (core ep)"
  "c_vote (core (snd (log_term E logs idx ep))) = c_vote (core ep)"
  "c_commit (core (snd (log_term E logs idx ep))) = c_commit (core ep)"
  "c_applied (core (snd (log_term E logs idx ep))) = c_applied (core ep)"
  by (simp_all add: log_term_def core_frame core_abs split: sim_splits)

lemma log_term_lineage [core_sim]:
  "same_lineage m (core ep) \<Longrightarrow> same_lineage m (core (snd (log_term E logs idx ep)))"
  by (simp add: log_term_def core_frame core_abs core_sim split: sim_splits)

lemma last_log_sim [core_sim]:
  "core_steps w c (core ep) \<Longrightarrow> core_steps w c (core (snd (last_log E logs ep)))"
  by (simp add: last_log_def core_frame core_abs core_sim split: sim_splits)

lemma last_log_fixed [core_frame]:
  "c_id (core (snd (last_log E logs ep))) = c_id (core ep)"
  "c_term (core (snd (last_log E logs ep))) = c_term (core ep)"
  "c_vote (core (snd (last_log E logs ep))) = c_vote (core ep)"
  "c_commit (core (snd (last_log E logs ep))) = c_commit (core ep)"
  "c_applied (core (snd (last_log E logs ep))) = c_applied (core ep)"
  by (simp_all add: last_log_def core_frame core_abs split: sim_splits)

lemma push_event_core [core_frame]: "core (push_event ev ep) = core ep"
  by (simp add: push_event_def core_frame core_abs split: sim_splits)

lemma poll_event_core [core_frame]: "core (snd (poll_event ep)) = core ep"
  by (simp add: poll_event_def core_frame core_abs split: sim_splits)

lemma set_leader_core [core_frame]: "core (set_leader leader ep) = core ep"
  by (simp add: set_leader_def core_frame core_abs split: sim_splits)

lemma arm_election_timer_core [core_frame]: "core (arm_election_timer E now ep) = core ep"
  by (simp add: arm_election_timer_def core_frame core_abs split: sim_splits)

lemma reconcile_election_timer_core [core_frame]: "core (reconcile_election_timer E now ep) = core ep"
  by (simp add: reconcile_election_timer_def core_frame core_abs split: sim_splits)

lemma lease_wall_stamp_core [core_frame]: "core (snd (lease_wall_stamp now ep)) = core ep"
  by (simp add: lease_wall_stamp_def core_frame core_abs split: sim_splits)

section \<open>Splits\<close>

lemma note_fork_barrier_rebaselined_core [core_frame]:
  "core (note_fork_barrier_rebaselined boundary ep) = core ep"
  by (simp add: note_fork_barrier_rebaselined_def core_frame core_abs split: sim_splits)

section \<open>Merges\<close>

lemma pop_applied_freeze_core [core_frame]: "core (pop_applied_freeze idx ep) = core ep"
  by (simp add: pop_applied_freeze_def core_frame core_abs split: sim_splits)

lemma clear_freeze_queue_core [core_frame]: "core (clear_freeze_queue ep) = core ep"
  by (simp add: clear_freeze_queue_def core_frame core_abs split: sim_splits)

lemma note_freeze_appended_core [core_frame]: "core (note_freeze_appended idx ep) = core ep"
  by (simp add: note_freeze_appended_def core_frame core_abs split: sim_splits)

lemma note_freeze_truncated_core [core_frame]: "core (note_freeze_truncated truncate_from ep) = core ep"
  by (simp add: note_freeze_truncated_def core_frame core_abs split: sim_splits)

lemma note_freeze_rebaselined_core [core_frame]: "core (note_freeze_rebaselined ep) = core ep"
  by (simp add: note_freeze_rebaselined_def core_frame core_abs split: sim_splits)

lemma note_abandoned_core [core_frame]:
  "core (note_abandoned source_bytes source_gen_after at_i ep) = core ep"
  by (simp add: note_abandoned_def core_frame core_abs split: sim_splits)

lemma note_discharged_core [core_frame]: "core (note_discharged source ep) = core ep"
  by (simp add: note_discharged_def core_frame core_abs split: sim_splits)

lemma clear_abandoned_core [core_frame]: "core (clear_abandoned source ep) = core ep"
  by (simp add: clear_abandoned_def core_frame core_abs split: sim_splits)

lemma note_abort_covered_core [core_frame]: "core (note_abort_covered boundary cover ep) = core ep"
  by (simp add: note_abort_covered_def core_frame core_abs split: sim_splits)

lemma scan_freeze_claims_core [core_frame]: "core (snd (scan_freeze_claims E logs ep)) = core ep"
  by (simp add: scan_freeze_claims_def core_frame core_abs split: sim_splits)

lemma note_debts_rebaselined_core [core_frame]: "core (note_debts_rebaselined ep) = core ep"
  by (simp add: note_debts_rebaselined_def core_frame core_abs split: sim_splits)

lemma note_thaw_appended_core [core_frame]: "core (note_thaw_appended idx ep) = core ep"
  by (simp add: note_thaw_appended_def core_frame core_abs split: sim_splits)

lemma note_witness_appended_core [core_frame]: "core (note_witness_appended idx ep) = core ep"
  by (simp add: note_witness_appended_def core_frame core_abs split: sim_splits)

section \<open>Persistence\<close>

lemma durability_core [core_abs]:
  "ack_watermark ep = watermark (core ep)"
  "term_is_durable ep \<longleftrightarrow> c_term (core ep) \<le> c_durable_term (core ep)"
  "append_ack ep proven = core_ack (core ep) proven"
  by (simp_all add: ack_watermark_def watermark_def term_is_durable_def append_ack_def core_ack_def core_abs)

lemma ack_sim [core_sim]:
  "core_steps w c (core ep) \<Longrightarrow> d = core ep \<Longrightarrow> c_term d \<le> c_durable_term d \<Longrightarrow>
   core_steps w c (core (send to (core_ack d proven) ep))"
  by (simp add: send_core sim_step [OF _ step_ack])

lemma quiet_snapshot_ack [simp]: "quiet (snapshot_ack ep proven)"
  by (simp add: snapshot_ack_def)

lemma note_submitted_core [core_frame]:
  "du_durable_index (note_submitted opid hs du) = du_durable_index du"
  "du_durable_snapshot_index (note_submitted opid hs du) = du_durable_snapshot_index du"
  "du_durable_term (note_submitted opid hs du) = du_durable_term du"
  by (simp_all add: note_submitted_def Let_def)

lemma push_pending_core [core_frame]: "core (push_pending opid action ep) = core ep"
  by (simp add: push_pending_def core_frame core_abs split: sim_splits)

lemma take_log_pending_core [core_frame]: "core (snd (take_log_pending opid ep)) = core ep"
  by (simp add: take_log_pending_def core_frame core_abs split: sim_splits)

lemma take_stable_pending_core [core_frame]: "core (snd (take_stable_pending opid ep)) = core ep"
  by (simp add: take_stable_pending_def core_frame core_abs split: sim_splits)

lemma submit_append_core [core_frame]: "core (fst (submit_append E opid es ep logs)) = core ep"
  by (simp add: submit_append_def core_frame core_abs split: sim_splits)

lemma submit_write_core [core_frame]: "core (fst (submit_write E opid hs ep stab)) = core ep"
  by (simp add: submit_write_def core_frame core_abs split: sim_splits)

lemma persist_own_state_sim [core_sim]:
  "core_steps w c (core ep) \<Longrightarrow> core_steps w c (core (fst (snd (persist_own_state E ep stab))))"
  by (simp add: persist_own_state_def core_frame core_abs core_sim split: sim_splits)

lemma persist_own_state_fixed [core_frame]:
  "c_id (core (fst (snd (persist_own_state E ep stab)))) = c_id (core ep)"
  "c_term (core (fst (snd (persist_own_state E ep stab)))) = c_term (core ep)"
  "c_vote (core (fst (snd (persist_own_state E ep stab)))) = c_vote (core ep)"
  "c_commit (core (fst (snd (persist_own_state E ep stab)))) = c_commit (core ep)"
  "c_applied (core (fst (snd (persist_own_state E ep stab)))) = c_applied (core ep)"
  by (simp_all add: persist_own_state_def core_frame core_abs split: sim_splits)

lemma persist_own_state_lineage [core_sim]:
  "same_lineage m (core ep) \<Longrightarrow> same_lineage m (core (fst (snd (persist_own_state E ep stab))))"
  by (simp add: persist_own_state_def core_frame core_abs core_sim split: sim_splits)

lemma send_or_gate_append_ack_sim [core_sim]:
  "core_steps w c (core ep) \<Longrightarrow> core_steps w c (core (send_or_gate_append_ack to proven ep))"
  by (simp add: send_or_gate_append_ack_def core_frame core_abs core_sim split: sim_splits)

lemma send_or_gate_snapshot_ack_sim [core_sim]:
  "core_steps w c (core ep) \<Longrightarrow> core_steps w c (core (send_or_gate_snapshot_ack to proven ep))"
  by (simp add: send_or_gate_snapshot_ack_def core_frame core_abs core_sim split: sim_splits)

lemma persist_commit_floor_sim [core_sim]:
  "core_steps w c (core ep) \<Longrightarrow> core_steps w c (core (fst (persist_commit_floor E ep stab)))"
  by (simp add: persist_commit_floor_def core_frame core_abs core_sim split: sim_splits)

lemma send_or_gate_shortcut_snapshot_ack_sim [core_sim]:
  "core_steps w c (core ep) \<Longrightarrow> core_steps w c (core (send_or_gate_shortcut_snapshot_ack to boundary ep))"
  by (simp add: send_or_gate_shortcut_snapshot_ack_def core_frame core_abs core_sim split: sim_splits)

lemma flush_shortcut_gated_ack_sim [core_sim]:
  "core_steps w c (core ep) \<Longrightarrow> core_steps w c (core (flush_shortcut_gated_ack ep))"
  by (simp add: flush_shortcut_gated_ack_def core_frame core_abs core_sim split: sim_splits)

lemma flush_term_gated_acks_sim [core_sim]:
  "core_steps w c (core ep) \<Longrightarrow> core_steps w c (core (flush_term_gated_acks ep))"
  by (simp add: flush_term_gated_acks_def core_frame core_abs core_sim split: sim_splits)

lemma ensure_term_durable_sim [core_sim]:
  "core_steps w c (core ep) \<Longrightarrow> core_steps w c (core (fst (ensure_term_durable E ep stab)))"
  by (simp add: ensure_term_durable_def core_frame core_abs core_sim split: sim_splits)

lemma ensure_term_durable_fixed [core_frame]:
  "c_id (core (fst (ensure_term_durable E ep stab))) = c_id (core ep)"
  "c_term (core (fst (ensure_term_durable E ep stab))) = c_term (core ep)"
  "c_vote (core (fst (ensure_term_durable E ep stab))) = c_vote (core ep)"
  "c_commit (core (fst (ensure_term_durable E ep stab))) = c_commit (core ep)"
  "c_applied (core (fst (ensure_term_durable E ep stab))) = c_applied (core ep)"
  by (simp_all add: ensure_term_durable_def core_frame core_abs split: sim_splits)

lemma ensure_term_durable_lineage [core_sim]:
  "same_lineage m (core ep) \<Longrightarrow> same_lineage m (core (fst (ensure_term_durable E ep stab)))"
  by (simp add: ensure_term_durable_def core_frame core_abs core_sim split: sim_splits)

section \<open>Leases\<close>

lemma note_campaign_floor_provability_core [core_frame]: "core (note_campaign_floor_provability ep) = core ep"
  by (simp add: note_campaign_floor_provability_def core_frame core_abs split: sim_splits)

lemma commit_entry_sim [core_sim]:
  "core_steps w c (core ep) \<Longrightarrow> core_steps w c (core (snd (commit_entry E logs ep)))"
  by (simp add: commit_entry_def core_frame core_abs core_sim split: sim_splits)

lemma lease_guard_read_live_sim [core_sim]:
  "core_steps w c (core ep) \<Longrightarrow> core_steps w c (core (snd (lease_guard_read_live E now logs ep)))"
  by (simp add: lease_guard_read_live_def core_frame core_abs core_sim split: sim_splits)

lemma lease_near_expiry_sim [core_sim]:
  "core_steps w c (core ep) \<Longrightarrow> core_steps w c (core (snd (lease_near_expiry E now logs ep)))"
  by (simp add: lease_near_expiry_def core_frame core_abs core_sim split: sim_splits)

section \<open>Sending\<close>

lemma send_all_sim [core_sim]:
  "core_steps w c (core ep) \<Longrightarrow> list_all (\<lambda>(_, m). quiet m) msgs \<Longrightarrow>
   core_steps w c (core (send_all msgs ep))"
  unfolding send_all_def by (induction msgs arbitrary: ep) (auto simp: core_sim)

lemma quiet_map [simp]:
  "list_all (\<lambda>(_, m). quiet m) (map f xs) \<longleftrightarrow> list_all (\<lambda>x. quiet (snd (f x))) xs"
  by (simp add: list.pred_map comp_def case_prod_beta)

lemma quiet_heartbeats [simp]: "list_all (\<lambda>(_, m). quiet m) (heartbeats ctx ep)"
  by (simp add: heartbeats_def Let_def case_prod_beta list.pred_True)

lemma arm_heartbeat_timer_core [core_frame]: "core (arm_heartbeat_timer now ep) = core ep"
  by (simp add: arm_heartbeat_timer_def core_frame core_abs split: sim_splits)

lemma broadcast_heartbeat_sim [core_sim]:
  "core_steps w c (core ep) \<Longrightarrow> core_steps w c (core (broadcast_heartbeat now ep))"
  by (simp add: broadcast_heartbeat_def core_frame core_abs core_sim split: sim_splits)

lemma broadcast_heartbeat_with_ctx_sim [core_sim]:
  "core_steps w c (core ep) \<Longrightarrow> core_steps w c (core (broadcast_heartbeat_with_ctx now ctx ep))"
  by (simp add: broadcast_heartbeat_with_ctx_def core_frame core_abs core_sim split: sim_splits)

lemma send_chunk_data_sim [core_sim]:
  "core_steps w c (core ep) \<Longrightarrow> core_steps w c (core (snd (send_chunk_data peer meta start tot chunk_len chunk_read ep)))"
  by (simp add: send_chunk_data_def core_frame core_abs core_sim split: sim_splits)

lemma send_snapshot_chunk_sim [core_sim]:
  "core_steps w c (core ep) \<Longrightarrow> core_steps w c (core (snd (send_snapshot_chunk E peer stab from_offset ep)))"
  by (simp add: send_snapshot_chunk_def core_frame core_abs core_sim split: sim_splits)

lemma resend_snapshot_sim [core_sim]:
  "core_steps w c (core ep) \<Longrightarrow> core_steps w c (core (snd (resend_snapshot E peer stab ep)))"
  by (simp add: resend_snapshot_def core_frame core_abs core_sim split: sim_splits)

lemma send_entries_sim [core_sim]:
  "core_steps w c (core ep) \<Longrightarrow> core_steps w c (core (send_entries E peer logs prev_index prev_term s ep))"
  by (simp add: send_entries_def core_frame core_abs core_sim split: sim_splits)

lemma send_snapshot_instead_sim [core_sim]:
  "core_steps w c (core ep) \<Longrightarrow> core_steps w c (core (send_snapshot_instead E now peer stab ep))"
  by (simp add: send_snapshot_instead_def core_frame core_abs core_sim split: sim_splits)

lemma maybe_send_append_shared_sim [core_sim]:
  "core_steps w c (core ep) \<Longrightarrow> core_steps w c (core (fst (maybe_send_append_shared E now peer logs stab shared ep)))"
  by (simp add: maybe_send_append_shared_def core_frame core_abs core_sim split: sim_splits)

lemma maybe_send_append_sim [core_sim]:
  "core_steps w c (core ep) \<Longrightarrow> core_steps w c (core (maybe_send_append E now peer logs stab ep))"
  by (simp add: maybe_send_append_def core_frame core_abs core_sim split: sim_splits)

lemma pump_loop_sim [core_sim]:
  "core_steps w c (core ep) \<Longrightarrow> core_steps w c (core (pump_loop E now peer logs stab fuel ep))"
  by (induction fuel arbitrary: ep) (simp_all add: core_frame core_abs core_sim split: sim_splits)

lemma pump_appends_sim [core_sim]:
  "core_steps w c (core ep) \<Longrightarrow> core_steps w c (core (pump_appends E now peer logs stab ep))"
  by (simp add: pump_appends_def core_frame core_abs core_sim split: sim_splits)

lemma flush_loop_sim [core_sim]:
  "core_steps w c (core ep) \<Longrightarrow> core_steps w c (core (flush_loop E now logs stab ps shared ep))"
  by (induction ps arbitrary: shared ep) (simp_all add: core_frame core_abs core_sim split: sim_splits)

lemma flush_appends_sim [core_sim]:
  "core_steps w c (core ep) \<Longrightarrow> core_steps w c (core (flush_appends E now logs stab ep))"
  by (simp add: flush_appends_def core_frame core_abs core_sim split: sim_splits)

section \<open>The ledgers\<close>

lemma send_farewell_append_sim [core_sim]:
  "core_steps w c (core ep) \<Longrightarrow> core_steps w c (core (snd (send_farewell_append E logs peer matched removal ep)))"
  by (simp add: send_farewell_append_def core_frame core_abs core_sim split: sim_splits)

lemma send_farewell_append_fixed [core_frame]:
  "c_id (core (snd (send_farewell_append E logs peer matched removal ep))) = c_id (core ep)"
  "c_term (core (snd (send_farewell_append E logs peer matched removal ep))) = c_term (core ep)"
  "c_vote (core (snd (send_farewell_append E logs peer matched removal ep))) = c_vote (core ep)"
  "c_commit (core (snd (send_farewell_append E logs peer matched removal ep))) = c_commit (core ep)"
  "c_applied (core (snd (send_farewell_append E logs peer matched removal ep))) = c_applied (core ep)"
  by (simp_all add: send_farewell_append_def core_frame core_abs split: sim_splits)

lemma send_farewell_sim [core_sim]:
  "core_steps w c (core ep) \<Longrightarrow> core_steps w c (core (send_farewell E logs peer matched idx ep))"
  by (simp add: send_farewell_def core_frame core_abs core_sim split: sim_splits)

lemma send_farewell_fixed [core_frame]:
  "c_id (core (send_farewell E logs peer matched idx ep)) = c_id (core ep)"
  "c_term (core (send_farewell E logs peer matched idx ep)) = c_term (core ep)"
  "c_vote (core (send_farewell E logs peer matched idx ep)) = c_vote (core ep)"
  "c_commit (core (send_farewell E logs peer matched idx ep)) = c_commit (core ep)"
  "c_applied (core (send_farewell E logs peer matched idx ep)) = c_applied (core ep)"
  by (simp_all add: send_farewell_def core_frame core_abs split: sim_splits)

lemma sweep_farewells_sim [core_sim]:
  "core_steps w c (core ep) \<Longrightarrow> core_steps w c (core (snd (sweep_farewells E logs t d rs ep)))"
  by (induction rs arbitrary: ep) (auto simp add: core_frame core_abs core_sim split: sim_splits)

lemma drive_pending_farewells_sim [core_sim]:
  "core_steps w c (core ep) \<Longrightarrow> core_steps w c (core (drive_pending_farewells E now logs ep))"
  by (simp add: drive_pending_farewells_def core_frame core_abs core_sim split: sim_splits)

lemma note_courtesy_debt_core [core_frame]: "core (note_courtesy_debt peer removal_index ep) = core ep"
  by (simp add: note_courtesy_debt_def core_frame core_abs split: sim_splits)

lemma note_courtesy_debt_at_boundary_core [core_frame]:
  "core (note_courtesy_debt_at_boundary peer boundary ep) = core ep"
  by (simp add: note_courtesy_debt_at_boundary_def core_frame core_abs split: sim_splits)

lemma maybe_send_courtesy_snapshot_sim [core_sim]:
  "core_steps w c (core ep) \<Longrightarrow> core_steps w c (core (maybe_send_courtesy_snapshot E now peer stab ep))"
  by (simp add: maybe_send_courtesy_snapshot_def core_frame core_abs core_sim split: sim_splits)

lemma drive_courtesy_offers_sim [core_sim]:
  "core_steps w c (core ep) \<Longrightarrow> core_steps w c (core (drive_courtesy_offers E now stab ep))"
  by (simp add: drive_courtesy_offers_def core_frame core_abs core_sim split: sim_splits)

lemma note_cure_debt_core [core_frame]: "core (note_cure_debt now peer boundary ep) = core ep"
  by (simp add: note_cure_debt_def core_frame core_abs split: sim_splits)

lemma deliver_cure_sim [core_sim]:
  "core_steps w c (core ep) \<Longrightarrow> core_steps w c (core (deliver_cure E now peer boundary meta tot blob ep))"
  by (simp add: deliver_cure_def core_frame core_abs core_sim split: sim_splits)

lemma maybe_send_cure_snapshot_sim [core_sim]:
  "core_steps w c (core ep) \<Longrightarrow> core_steps w c (core (maybe_send_cure_snapshot E now peer stab ep))"
  by (simp add: maybe_send_cure_snapshot_def core_frame core_abs core_sim split: sim_splits)

lemma drive_cure_sweep_sim [core_sim]:
  "core_steps w c (core ep) \<Longrightarrow> core_steps w c (core (drive_cure_sweep E now stab ep))"
  by (simp add: drive_cure_sweep_def core_frame core_abs core_sim split: sim_splits)

section \<open>The leader and its log\<close>

lemma stamped_entry_core [core_frame]: "core (snd (stamped_entry now idx kind data ep)) = core ep"
  by (simp add: stamped_entry_def core_frame core_abs split: sim_splits)

lemma append_own_sim [core_sim]:
  "core_steps w c (core ep) \<Longrightarrow> core_steps w c (core (fst (append_own E e ep logs)))"
  by (simp add: append_own_def core_frame core_abs core_sim split: sim_splits)

lemma append_leader_noop_sim [core_sim]:
  "core_steps w c (core ep) \<Longrightarrow> core_steps w c (core (fst (snd (append_leader_noop E now last_i ep logs))))"
  by (simp add: append_leader_noop_def core_frame core_abs core_sim split: sim_splits)

lemma propose_sim [core_sim]:
  "core_steps w c (core ep) \<Longrightarrow> core_steps w c (core (fst (snd (propose E now cmd ep logs))))"
  by (simp add: propose_def core_frame core_abs core_sim split: sim_splits)

lemma propose_split_entry_sim [core_sim]:
  "core_steps w c (core ep) \<Longrightarrow> core_steps w c (core (fst (snd (propose_split_entry E now child_bytes payload ep logs))))"
  by (simp add: propose_split_entry_def core_frame core_abs core_sim split: sim_splits)

lemma propose_merge_entry_sim [core_sim]:
  "core_steps w c (core ep) \<Longrightarrow> core_steps w c (core (fst (snd (propose_merge_entry E now kind payload ep logs))))"
  by (simp add: propose_merge_entry_def core_frame core_abs core_sim split: sim_splits)

lemma ensure_merge_seal_sim [core_sim]:
  "core_steps w c (core ep) \<Longrightarrow> core_steps w c (core (fst (snd (ensure_merge_seal E now ep logs))))"
  by (simp add: ensure_merge_seal_def core_frame core_abs core_sim split: sim_splits)

lemma append_conf_change_sim [core_sim]:
  "core_steps w c (core ep) \<Longrightarrow> core_steps w c (core (fst (snd (append_conf_change E now cc ep logs))))"
  by (simp add: append_conf_change_def core_frame core_abs core_sim split: sim_splits)

lemma propose_conf_change_v2_sim [core_sim]:
  "core_steps w c (core ep) \<Longrightarrow> core_steps w c (core (fst (snd (propose_conf_change_v2 E now cc ep logs))))"
  by (simp add: propose_conf_change_v2_def core_frame core_abs core_sim split: sim_splits)

lemma propose_conf_change_sim [core_sim]:
  "core_steps w c (core ep) \<Longrightarrow> core_steps w c (core (fst (snd (propose_conf_change E now cc ep logs))))"
  by (simp add: propose_conf_change_def core_frame core_abs core_sim split: sim_splits)

lemma propose_read_mode_change_sim [core_sim]:
  "core_steps w c (core ep) \<Longrightarrow> core_steps w c (core (fst (snd (propose_read_mode_change E now mode ep logs))))"
  by (simp add: propose_read_mode_change_def core_frame core_abs core_sim split: sim_splits)

lemma commit_wait_gate_sim [core_sim]:
  "core_steps w c (core ep) \<Longrightarrow> core_steps w c (core (snd (commit_wait_gate now ep)))"
  by (simp add: commit_wait_gate_def core_frame core_abs core_sim split: sim_splits)

lemma maybe_advance_commit_sim [core_sim]:
  "core_steps w c (core ep) \<Longrightarrow> core_steps w c (core (maybe_advance_commit E now logs ep))"
  by (simp add: maybe_advance_commit_def core_frame core_abs less_imp_le core_sim split: sim_splits)

section \<open>Applying\<close>

lemma apply_normal_sim [core_sim]:
  "core_steps w c (core ep) \<Longrightarrow> core_steps w c (core (snd (apply_normal E e ep)))"
  by (simp add: apply_normal_def core_frame core_abs core_sim split: sim_splits)

lemma apply_normal_fixed [core_frame]:
  "c_id (core (snd (apply_normal E e ep))) = c_id (core ep)"
  "c_term (core (snd (apply_normal E e ep))) = c_term (core ep)"
  "c_vote (core (snd (apply_normal E e ep))) = c_vote (core ep)"
  "c_commit (core (snd (apply_normal E e ep))) = c_commit (core ep)"
  "c_applied (core (snd (apply_normal E e ep))) = c_applied (core ep)"
  by (simp_all add: apply_normal_def core_frame core_abs split: sim_splits)

lemma raise_shape_gen_core [core_frame]: "core (raise_shape_gen g ep) = core ep"
  by (simp add: raise_shape_gen_def core_frame core_abs split: sim_splits)

lemma stage_fork_sim [core_sim]:
  "core_steps w c (core ep) \<Longrightarrow> core_steps w c (core (stage_fork E e p child blob ep))"
  by (simp add: stage_fork_def core_frame core_abs core_sim split: sim_splits)

lemma stage_fork_fixed [core_frame]:
  "c_id (core (stage_fork E e p child blob ep)) = c_id (core ep)"
  "c_term (core (stage_fork E e p child blob ep)) = c_term (core ep)"
  "c_vote (core (stage_fork E e p child blob ep)) = c_vote (core ep)"
  "c_commit (core (stage_fork E e p child blob ep)) = c_commit (core ep)"
  "c_applied (core (stage_fork E e p child blob ep)) = c_applied (core ep)"
  by (simp_all add: stage_fork_def core_frame core_abs split: sim_splits)

lemma apply_split_sim [core_sim]:
  "core_steps w c (core ep) \<Longrightarrow> core_steps w c (core (snd (apply_split E e ep)))"
  by (simp add: apply_split_def core_frame core_abs core_sim split: sim_splits)

lemma apply_split_fixed [core_frame]:
  "c_id (core (snd (apply_split E e ep))) = c_id (core ep)"
  "c_term (core (snd (apply_split E e ep))) = c_term (core ep)"
  "c_vote (core (snd (apply_split E e ep))) = c_vote (core ep)"
  "c_commit (core (snd (apply_split E e ep))) = c_commit (core ep)"
  "c_applied (core (snd (apply_split E e ep))) = c_applied (core ep)"
  by (simp_all add: apply_split_def core_frame core_abs split: sim_splits)

lemma apply_prepare_merge_sim [core_sim]:
  "core_steps w c (core ep) \<Longrightarrow> core_steps w c (core (snd (apply_prepare_merge E e ep)))"
  by (simp add: apply_prepare_merge_def core_frame core_abs core_sim split: sim_splits)

lemma apply_prepare_merge_fixed [core_frame]:
  "c_id (core (snd (apply_prepare_merge E e ep))) = c_id (core ep)"
  "c_term (core (snd (apply_prepare_merge E e ep))) = c_term (core ep)"
  "c_vote (core (snd (apply_prepare_merge E e ep))) = c_vote (core ep)"
  "c_commit (core (snd (apply_prepare_merge E e ep))) = c_commit (core ep)"
  "c_applied (core (snd (apply_prepare_merge E e ep))) = c_applied (core ep)"
  by (simp_all add: apply_prepare_merge_def core_frame core_abs split: sim_splits)

lemma apply_commit_merge_sim [core_sim]:
  "core_steps w c (core ep) \<Longrightarrow> core_steps w c (core (snd (apply_commit_merge E e ep)))"
  by (simp add: apply_commit_merge_def core_frame core_abs core_sim split: sim_splits)

lemma apply_commit_merge_fixed [core_frame]:
  "c_id (core (snd (apply_commit_merge E e ep))) = c_id (core ep)"
  "c_term (core (snd (apply_commit_merge E e ep))) = c_term (core ep)"
  "c_vote (core (snd (apply_commit_merge E e ep))) = c_vote (core ep)"
  "c_commit (core (snd (apply_commit_merge E e ep))) = c_commit (core ep)"
  "c_applied (core (snd (apply_commit_merge E e ep))) = c_applied (core ep)"
  by (simp_all add: apply_commit_merge_def core_frame core_abs split: sim_splits)

lemma apply_rollback_merge_sim [core_sim]:
  "core_steps w c (core ep) \<Longrightarrow> core_steps w c (core (snd (apply_rollback_merge E e ep)))"
  by (simp add: apply_rollback_merge_def core_frame core_abs core_sim split: sim_splits)

lemma apply_rollback_merge_fixed [core_frame]:
  "c_id (core (snd (apply_rollback_merge E e ep))) = c_id (core ep)"
  "c_term (core (snd (apply_rollback_merge E e ep))) = c_term (core ep)"
  "c_vote (core (snd (apply_rollback_merge E e ep))) = c_vote (core ep)"
  "c_commit (core (snd (apply_rollback_merge E e ep))) = c_commit (core ep)"
  "c_applied (core (snd (apply_rollback_merge E e ep))) = c_applied (core ep)"
  by (simp_all add: apply_rollback_merge_def core_frame core_abs split: sim_splits)

lemma apply_thaw_discharged_sim [core_sim]:
  "core_steps w c (core ep) \<Longrightarrow> core_steps w c (core (snd (apply_thaw_discharged E e ep)))"
  by (simp add: apply_thaw_discharged_def core_frame core_abs core_sim split: sim_splits)

lemma apply_thaw_discharged_fixed [core_frame]:
  "c_id (core (snd (apply_thaw_discharged E e ep))) = c_id (core ep)"
  "c_term (core (snd (apply_thaw_discharged E e ep))) = c_term (core ep)"
  "c_vote (core (snd (apply_thaw_discharged E e ep))) = c_vote (core ep)"
  "c_commit (core (snd (apply_thaw_discharged E e ep))) = c_commit (core ep)"
  "c_applied (core (snd (apply_thaw_discharged E e ep))) = c_applied (core ep)"
  by (simp_all add: apply_thaw_discharged_def core_frame core_abs split: sim_splits)

lemma drop_lease_core [core_frame]: "core (drop_lease ep) = core ep"
  by (simp add: drop_lease_def core_frame core_abs split: sim_splits)

lemma apply_set_read_mode_sim [core_sim]:
  "core_steps w c (core ep) \<Longrightarrow> core_steps w c (core (snd (apply_set_read_mode e ep)))"
  by (simp add: apply_set_read_mode_def core_frame core_abs core_sim split: sim_splits)

lemma apply_set_read_mode_fixed [core_frame]:
  "c_id (core (snd (apply_set_read_mode e ep))) = c_id (core ep)"
  "c_term (core (snd (apply_set_read_mode e ep))) = c_term (core ep)"
  "c_vote (core (snd (apply_set_read_mode e ep))) = c_vote (core ep)"
  "c_commit (core (snd (apply_set_read_mode e ep))) = c_commit (core ep)"
  "c_applied (core (snd (apply_set_read_mode e ep))) = c_applied (core ep)"
  by (simp_all add: apply_set_read_mode_def core_frame core_abs split: sim_splits)

lemma farewell_removed_sim [core_sim]:
  "core_steps w c (core ep) \<Longrightarrow> core_steps w c (core (farewell_removed E logs idx gated ps ep))"
  by (induction ps arbitrary: ep) (auto simp add: core_frame core_abs core_sim split: sim_splits)

lemma farewell_removed_fixed [core_frame]:
  "c_id (core (farewell_removed E logs idx gated ps ep)) = c_id (core ep)"
  "c_term (core (farewell_removed E logs idx gated ps ep)) = c_term (core ep)"
  "c_vote (core (farewell_removed E logs idx gated ps ep)) = c_vote (core ep)"
  "c_commit (core (farewell_removed E logs idx gated ps ep)) = c_commit (core ep)"
  "c_applied (core (farewell_removed E logs idx gated ps ep)) = c_applied (core ep)"
  by (induction ps arbitrary: ep) (auto simp add: core_frame core_abs)

lemma part_with_sim [core_sim]:
  "core_steps w c (core ep) \<Longrightarrow> core_steps w c (core (part_with E logs idx new_tracker ep))"
  by (simp add: part_with_def core_frame core_abs core_sim split: sim_splits)

lemma part_with_fixed [core_frame]:
  "c_id (core (part_with E logs idx new_tracker ep)) = c_id (core ep)"
  "c_term (core (part_with E logs idx new_tracker ep)) = c_term (core ep)"
  "c_vote (core (part_with E logs idx new_tracker ep)) = c_vote (core ep)"
  "c_commit (core (part_with E logs idx new_tracker ep)) = c_commit (core ep)"
  "c_applied (core (part_with E logs idx new_tracker ep)) = c_applied (core ep)"
  by (simp_all add: part_with_def core_frame core_abs split: sim_splits)

lemma install_tracker_core [core_frame]: "core (install_tracker tr ep) = core ep"
  by (simp add: install_tracker_def core_frame core_abs split: sim_splits)

lemma clear_transfer_core [core_frame]: "core (clear_transfer ep) = core ep"
  by (simp add: clear_transfer_def core_frame core_abs split: sim_splits)

lemma step_down_if_removed_core [core_frame]: "core (step_down_if_removed ep) = core ep"
  by (simp add: step_down_if_removed_def core_frame core_abs split: sim_splits)

lemma apply_conf_change_sim [core_sim]:
  "core_steps w c (core ep) \<Longrightarrow> core_steps w c (core (snd (apply_conf_change E logs e ep)))"
  by (simp add: apply_conf_change_def core_frame core_abs core_sim split: sim_splits)

lemma apply_conf_change_fixed [core_frame]:
  "c_id (core (snd (apply_conf_change E logs e ep))) = c_id (core ep)"
  "c_term (core (snd (apply_conf_change E logs e ep))) = c_term (core ep)"
  "c_vote (core (snd (apply_conf_change E logs e ep))) = c_vote (core ep)"
  "c_commit (core (snd (apply_conf_change E logs e ep))) = c_commit (core ep)"
  "c_applied (core (snd (apply_conf_change E logs e ep))) = c_applied (core ep)"
  by (simp_all add: apply_conf_change_def core_frame core_abs split: sim_splits)

lemma apply_entry_sim [core_sim]:
  "core_steps w c (core ep) \<Longrightarrow> core_steps w c (core (snd (apply_entry E logs e ep)))"
  by (simp add: apply_entry_def core_frame core_abs core_sim split: sim_splits EntryKind.split)

lemma apply_entry_fixed [core_frame]:
  "c_id (core (snd (apply_entry E logs e ep))) = c_id (core ep)"
  "c_term (core (snd (apply_entry E logs e ep))) = c_term (core ep)"
  "c_vote (core (snd (apply_entry E logs e ep))) = c_vote (core ep)"
  "c_commit (core (snd (apply_entry E logs e ep))) = c_commit (core ep)"
  "c_applied (core (snd (apply_entry E logs e ep))) = c_applied (core ep)"
  by (simp_all add: apply_entry_def core_frame core_abs split: sim_splits EntryKind.split)

lemma apply_batch_sim [core_sim]:
  "core_steps w c (core ep) \<Longrightarrow> core_steps w c (core (snd (snd (apply_batch E logs es k ep))))"
  by (induction es arbitrary: k ep)
    (simp_all add: not_less case_prod_beta core_frame core_abs core_sim split: ApplyOutcome.split)

lemma apply_batch_run:
  "apply_batch E logs es k ep = (b, k', ep') \<Longrightarrow> core_steps w c (core ep) \<Longrightarrow> core_steps w c (core ep')"
  using apply_batch_sim [of w c ep E logs es k] by simp

lemma apply_loop_sim:
  "core_steps w c (core ep) \<Longrightarrow> apply_loop E logs n k ep = Some r \<Longrightarrow> core_steps w c (core (snd r))"
proof (induction n arbitrary: k ep)
  case (Suc n)
  then show ?case
    by (auto simp: core_inert core_sim simp del: apply_batch.simps dest: apply_batch_run
        split: if_splits result.splits EntriesRead.splits list.splits prod.splits bool.splits)
qed (auto split: if_splits)

lemma apply_committed_sim [core_sim]:
  "core_steps w c (core ep) \<Longrightarrow> core_steps w c (core (snd (apply_committed E logs ep)))"
  by (auto simp: apply_committed_def simp del: apply_loop.simps dest: apply_loop_sim split: option.split)

section \<open>Reads\<close>

lemma has_current_term_commit_sim [core_sim]:
  "core_steps w c (core ep) \<Longrightarrow> core_steps w c (core (snd (has_current_term_commit E logs ep)))"
  by (simp add: has_current_term_commit_def core_frame core_abs core_sim split: sim_splits)

lemma emit_read_state_core [core_frame]: "core (emit_read_state idx context ep) = core ep"
  by (simp add: emit_read_state_def core_frame core_abs split: sim_splits)

lemma quiet_read_response [simp]: "quiet (read_response idx context b ep)"
  by (simp add: read_response_def)

lemma emit_or_reply_read_sim [core_sim]:
  "core_steps w c (core ep) \<Longrightarrow> core_steps w c (core (emit_or_reply_read idx context from ep))"
  by (simp add: emit_or_reply_read_def core_frame core_abs core_sim split: sim_splits)

lemma answer_confirmed_sim [core_sim]:
  "core_steps w c (core ep) \<Longrightarrow> core_steps w c (core (answer_confirmed confirmed ep))"
  by (simp add: answer_confirmed_def core_frame core_abs core_sim split: sim_splits)

lemma do_safe_read_sim [core_sim]:
  "core_steps w c (core ep) \<Longrightarrow> core_steps w c (core (do_safe_read now context from ep))"
  by (simp add: do_safe_read_def core_frame core_abs core_sim split: sim_splits)

lemma do_leader_read_sim [core_sim]:
  "core_steps w c (core ep) \<Longrightarrow> core_steps w c (core (do_leader_read E now logs context from ep))"
  by (simp add: do_leader_read_def core_frame core_abs core_sim split: sim_splits ReadOnlyOption.split)

lemma serve_deferred_sim [core_sim]:
  "core_steps w c (core ep) \<Longrightarrow> core_steps w c (core (serve_deferred E now logs rs ep))"
  by (induction rs arbitrary: ep) (auto simp add: core_frame core_abs core_sim split: sim_splits)

lemma flush_deferred_reads_sim [core_sim]:
  "core_steps w c (core ep) \<Longrightarrow> core_steps w c (core (flush_deferred_reads E now logs ep))"
  by (simp add: flush_deferred_reads_def core_frame core_abs core_sim split: sim_splits)

lemma maybe_flush_deferred_reads_sim [core_sim]:
  "core_steps w c (core ep) \<Longrightarrow> core_steps w c (core (maybe_flush_deferred_reads E now logs ep))"
  by (simp add: maybe_flush_deferred_reads_def core_frame core_abs core_sim split: sim_splits)

lemma defer_read_core [core_frame]: "core (defer_read context from ep) = core ep"
  by (simp add: defer_read_def core_frame core_abs split: sim_splits)

lemma read_index_sim [core_sim]:
  "core_steps w c (core ep) \<Longrightarrow> core_steps w c (core (snd (read_index E now logs context ep)))"
  by (simp add: read_index_def core_frame core_abs core_sim split: sim_splits Role.split)

lemma on_read_index_sim [core_sim]:
  "core_steps w c (core ep) \<Longrightarrow> core_steps w c (core (on_read_index E now logs ri ep))"
  by (simp add: on_read_index_def core_frame core_abs core_sim split: sim_splits)

lemma on_read_index_response_core [core_frame]: "core (on_read_index_response from response ep) = core ep"
  by (simp add: on_read_index_response_def core_frame core_abs split: sim_splits)

section \<open>Replication\<close>

lemma conflict_walk_sim [core_sim]:
  "core_steps w c (core ep) \<Longrightarrow> core_steps w c (core (snd (conflict_walk E logs t n idx ep)))"
  by (induction n arbitrary: idx ep) (simp_all add: core_frame core_abs core_sim split: sim_splits)

lemma find_conflict_by_term_sim [core_sim]:
  "core_steps w c (core ep) \<Longrightarrow> core_steps w c (core (snd (find_conflict_by_term E logs idx term ep)))"
  by (simp add: find_conflict_by_term_def core_frame core_abs core_sim split: sim_splits)

lemma note_stuck_advertised_core [core_frame]: "core (note_stuck_advertised now ep) = core ep"
  by (simp add: note_stuck_advertised_def core_frame core_abs split: sim_splits)

lemma drive_stuck_advertisement_sim [core_sim]:
  "core_steps w c (core ep) \<Longrightarrow> core_steps w c (core (drive_stuck_advertisement now ep))"
  by (simp add: drive_stuck_advertisement_def core_frame core_abs core_sim split: sim_splits)

lemma advertise_support_core [core_frame]: "core (snd (advertise_support ep)) = core ep"
  by (simp add: advertise_support_def core_frame core_abs split: sim_splits)

lemma on_heartbeat_sim [core_sim]:
  "core_steps w c (core ep) \<Longrightarrow> core_steps w c (core (on_heartbeat E now logs hb ep))"
  by (simp add: on_heartbeat_def core_frame core_abs less_imp_le core_sim split: sim_splits)

lemma append_consistent_sim [core_sim]:
  "core_steps w c (core ep) \<Longrightarrow> core_steps w c (core (snd (append_consistent E logs ae ep)))"
  by (simp add: append_consistent_def core_frame core_abs core_sim split: sim_splits)

lemma reject_append_sim [core_sim]:
  "core_steps w c (core ep) \<Longrightarrow> core_steps w c (core (reject_append E logs ae ep))"
  by (simp add: reject_append_def core_frame core_abs core_sim split: sim_splits)

lemma first_conflict_sim [core_sim]:
  "core_steps w c (core ep) \<Longrightarrow> core_steps w c (core (snd (first_conflict E logs es ep)))"
  by (induction es arbitrary: ep) (simp_all add: core_frame core_abs core_sim split: sim_splits)

lemma write_suffix_sim [core_sim]:
  "core_steps w c (core ep) \<Longrightarrow> c_commit (core ep) \<le> truncate_from - 1 \<Longrightarrow>
   core_steps w c (core (fst (snd (write_suffix E truncate_from suffix ep logs stab))))"
  by (simp add: write_suffix_def core_frame core_abs core_sim)

lemma raise_lease_window_core [core_frame]: "core (raise_lease_window es ep) = core ep"
  by (simp add: raise_lease_window_def core_frame core_abs split: sim_splits)

lemma finish_append_sim [core_sim]:
  "core_steps w c (core ep) \<Longrightarrow> core_steps w c (core (finish_append E logs ae last_new appended ep))"
  by (simp add: finish_append_def core_frame core_abs less_imp_le core_sim split: sim_splits)

lemma on_append_entries_sim [core_sim]:
  "core_steps w c (core ep) \<Longrightarrow> core_steps w c (core (fst (on_append_entries E now ae ep logs stab)))"
  by (simp add: on_append_entries_def core_frame core_abs below_pred core_sim split: sim_splits)

lemma count_lease_ack_core [core_frame]: "core (count_lease_ack from response ep) = core ep"
  by (simp add: count_lease_ack_def core_frame core_abs split: sim_splits)

lemma resend_if_due_sim [core_sim]:
  "core_steps w c (core ep) \<Longrightarrow> core_steps w c (core (snd (resend_if_due E now from stab ep)))"
  by (simp add: resend_if_due_def core_frame core_abs core_sim split: sim_splits)

lemma acknowledge_read_sim [core_sim]:
  "core_steps w c (core ep) \<Longrightarrow> core_steps w c (core (acknowledge_read from ctx ep))"
  by (simp add: acknowledge_read_def core_frame core_abs core_sim split: sim_splits)

lemma on_heartbeat_response_sim [core_sim]:
  "core_steps w c (core ep) \<Longrightarrow> core_steps w c (core (on_heartbeat_response E now from logs stab response ep))"
  by (simp add: on_heartbeat_response_def core_frame core_abs core_sim split: sim_splits)

lemma maybe_hand_off_to_transferee_sim [core_sim]:
  "core_steps w c (core ep) \<Longrightarrow> core_steps w c (core (maybe_hand_off_to_transferee E from logs ep))"
  by (simp add: maybe_hand_off_to_transferee_def core_frame core_abs core_sim split: sim_splits)

lemma on_append_rejected_sim [core_sim]:
  "core_steps w c (core ep) \<Longrightarrow> core_steps w c (core (on_append_rejected E now from logs stab response pr ep))"
  by (simp add: on_append_rejected_def core_frame core_abs core_sim split: sim_splits ProgressState.split)

lemma on_append_accepted_sim [core_sim]:
  "core_steps w c (core ep) \<Longrightarrow> core_steps w c (core (on_append_accepted E now from logs stab response pr ep))"
  by (simp add: on_append_accepted_def core_frame core_abs core_sim split: sim_splits)

lemma on_append_response_sim [core_sim]:
  "core_steps w c (core ep) \<Longrightarrow> core_steps w c (core (on_append_response E now logs stab from response ep))"
  by (simp add: on_append_response_def core_frame core_abs core_sim split: sim_splits)

section \<open>Elections\<close>

lemma step_down_to_follower_core [core_frame]: "core (step_down_to_follower E now ep) = core ep"
  by (simp add: step_down_to_follower_def core_frame core_abs split: sim_splits)

lemma quiet_vote_reply [simp]: "quiet (vote_reply t p r ep) \<longleftrightarrow> p \<or> r"
  by (simp add: vote_reply_def)

lemma on_request_vote_sim [core_sim]:
  "core_steps w c (core ep) \<Longrightarrow> core_steps w c (core (fst (on_request_vote E now logs rv ep stab)))"
  by (simp add: on_request_vote_def core_frame core_abs core_sim split: sim_splits)

lemma request_votes_sim [core_sim]:
  "core_steps w c (core ep) \<Longrightarrow> core_steps w c (core (request_votes term last_index last_term pre_vote transfer ep))"
  by (simp add: request_votes_def core_frame core_abs core_sim split: sim_splits)

lemma next_moves: "counter_next v \<noteq> v \<Longrightarrow> v < counter_next v"
  by (simp add: order.not_eq_order_implies_strict)

lemma become_candidate_sim [core_sim]:
  "core_steps w c (core ep) \<Longrightarrow> core_steps w c (core (fst (become_candidate E now logs transfer ep stab)))"
  by (simp add: become_candidate_def core_frame core_abs next_moves core_sim split: sim_splits)

lemma become_pre_candidate_sim [core_sim]:
  "core_steps w c (core ep) \<Longrightarrow> core_steps w c (core (snd (become_pre_candidate E now logs ep)))"
  by (simp add: become_pre_candidate_def core_frame core_abs core_sim split: sim_splits)

lemma committed_anchor_at_election_sim [core_sim]:
  "core_steps w c (core ep) \<Longrightarrow> core_steps w c (core (snd (committed_anchor_at_election E logs ep)))"
  by (simp add: committed_anchor_at_election_def core_frame core_abs core_sim split: sim_splits)

lemma reset_leader_state_core [core_frame]: "core (reset_leader_state now last_i ep) = core ep"
  by (simp add: reset_leader_state_def core_frame core_abs split: sim_splits)

lemma arm_inherited_wait_sim [core_sim]:
  "core_steps w c (core ep) \<Longrightarrow> core_steps w c (core (arm_inherited_wait now ep))"
  by (simp add: arm_inherited_wait_def core_frame core_abs core_sim split: sim_splits)

lemma anchor_inherited_lease_sim [core_sim]:
  "core_steps w c (core ep) \<Longrightarrow> core_steps w c (core (anchor_inherited_lease E now last_i logs ep))"
  by (simp add: anchor_inherited_lease_def core_frame core_abs core_sim split: sim_splits)

lemma become_leader_sim [core_sim]:
  "core_steps w c (core ep) \<Longrightarrow> core_steps w c (core (fst (become_leader E now stab ep logs)))"
  by (simp add: become_leader_def core_frame core_abs core_sim split: sim_splits)

lemma on_vote_response_sim [core_sim]:
  "core_steps w c (core ep) \<Longrightarrow> core_steps w c (core (fst (on_vote_response E now vr ep logs stab)))"
  by (simp add: on_vote_response_def core_frame core_abs core_sim split: sim_splits)

lemma transfer_leader_sim [core_sim]:
  "core_steps w c (core ep) \<Longrightarrow> core_steps w c (core (snd (transfer_leader E now logs stab to ep)))"
  by (simp add: transfer_leader_def core_frame core_abs core_sim split: sim_splits)

lemma on_timeout_now_sim [core_sim]:
  "core_steps w c (core ep) \<Longrightarrow> core_steps w c (core (fst (on_timeout_now E now logs tn ep stab)))"
  by (simp add: on_timeout_now_def core_frame core_abs core_sim split: sim_splits)

lemma drive_parked_leader_handoff_sim [core_sim]:
  "core_steps w c (core ep) \<Longrightarrow> core_steps w c (core (drive_parked_leader_handoff E now logs stab ep))"
  by (simp add: drive_parked_leader_handoff_def core_frame core_abs core_sim split: sim_splits)

end
