(* ===== verification/Simulation_Cranks.thy ===== *)
theory Simulation_Cranks
  imports Simulation
begin

text \<open>
  The simulation of the endpoint by the abstract steps, for the snapshots, the storage crank and the
  two dispatchers. The install of a snapshot relies on the invariant \<open>lineage_ok\<close>: the pending
  install is of the node's own lineage, so it never moves the commit index back.
\<close>

section \<open>Snapshots\<close>

lemma submit_capture_sim [core_sim]:
  "core_steps w c (core ep) \<Longrightarrow> core_steps w c (core (fst (submit_capture E last_term data ep stab)))"
  by (simp add: submit_capture_def core_frame core_abs core_sim split: sim_splits)

lemma submit_capture_fixed [core_frame]:
  "c_id (core (fst (submit_capture E last_term data ep stab))) = c_id (core ep)"
  "c_term (core (fst (submit_capture E last_term data ep stab))) = c_term (core ep)"
  "c_vote (core (fst (submit_capture E last_term data ep stab))) = c_vote (core ep)"
  "c_commit (core (fst (submit_capture E last_term data ep stab))) = c_commit (core ep)"
  "c_applied (core (fst (submit_capture E last_term data ep stab))) = c_applied (core ep)"
  by (simp_all add: submit_capture_def core_frame core_abs split: sim_splits)

lemma maybe_snapshot_sim [core_sim]:
  "core_steps w c (core ep) \<Longrightarrow> core_steps w c (core (fst (maybe_snapshot E logs ep stab)))"
  by (simp add: maybe_snapshot_def core_frame core_abs core_sim split: sim_splits)

lemma capture_absorb_snapshot_sim [core_sim]:
  "core_steps w c (core ep) \<Longrightarrow> core_steps w c (core (fst (snd (capture_absorb_snapshot E logs ep stab))))"
  by (simp add: capture_absorb_snapshot_def core_frame core_abs core_sim split: sim_splits)

lemma advance_commit_on_freeze_identity_sim [core_sim]:
  "core_steps w c (core ep) \<Longrightarrow> core_steps w c (core (snd (advance_commit_on_freeze_identity E logs boundary freeze_term ep)))"
  by (simp add: advance_commit_on_freeze_identity_def core_frame core_abs core_sim split: sim_splits)

lemma covered_by_local_history_sim [core_sim]:
  "core_steps w c (core ep) \<Longrightarrow> core_steps w c (core (snd (covered_by_local_history E logs meta committed_bound ep)))"
  by (simp add: covered_by_local_history_def core_frame core_abs core_sim split: sim_splits)

lemma covered_by_local_history_fixed [core_frame]:
  "c_id (core (snd (covered_by_local_history E logs meta committed_bound ep))) = c_id (core ep)"
  "c_term (core (snd (covered_by_local_history E logs meta committed_bound ep))) = c_term (core ep)"
  "c_vote (core (snd (covered_by_local_history E logs meta committed_bound ep))) = c_vote (core ep)"
  "c_commit (core (snd (covered_by_local_history E logs meta committed_bound ep))) = c_commit (core ep)"
  "c_applied (core (snd (covered_by_local_history E logs meta committed_bound ep))) = c_applied (core ep)"
  by (simp_all add: covered_by_local_history_def core_frame core_abs split: sim_splits)

lemma covered_unchanged:
  "covered_by_local_history E logs meta b ep = (Some r, ep') \<Longrightarrow> ep' = ep"
  by (auto simp: covered_by_local_history_def log_term_def
      split: if_splits prod.splits option.splits result.splits)

lemma covered_lineage:
  "covered_by_local_history E logs meta b ep = (Some True, ep') \<Longrightarrow> sm_fork_id meta = c_fork (core ep)"
  by (auto simp: covered_by_local_history_def core_abs split: if_splits)

lemma uncovered_above:
  "covered_by_local_history E logs meta b ep = (Some False, ep') \<Longrightarrow> sm_fork_id meta = c_fork (core ep) \<Longrightarrow>
   b < sm_last_index meta"
  by (auto simp: covered_by_local_history_def core_abs not_le split: if_splits)

lemma set_snapshot_recv_core [core_frame]: "core (set_snapshot_recv r ep) = core ep"
  by (simp add: set_snapshot_recv_def core_frame core_abs split: sim_splits)

lemma reclaim_stale_snapshot_recv_sim [core_sim]:
  "core_steps w c (core ep) \<Longrightarrow> core_steps w c (core (fst (snd (reclaim_stale_snapshot_recv E logs ep stab))))"
  by (simp add: reclaim_stale_snapshot_recv_def case_prod_beta core_frame core_abs core_sim
      split: option.split bool.split)

lemma raise_meta_floors_core [core_frame]: "core (raise_meta_floors meta ep) = core ep"
  by (simp add: raise_meta_floors_def core_frame core_abs split: sim_splits)

lemma refuse_cross_lineage_core [core_frame]: "core (refuse_cross_lineage ep) = core ep"
  by (simp add: refuse_cross_lineage_def core_frame core_abs split: sim_splits)

lemma send_snapshot_progress_ack_sim [core_sim]:
  "core_steps w c (core ep) \<Longrightarrow> core_steps w c (core (send_snapshot_progress_ack to acked boundary ep))"
  by (simp add: send_snapshot_progress_ack_def core_frame core_abs core_sim split: sim_splits)

lemma adopt_read_mode_core [core_frame]:
  "core (adopt_read_mode meta ep) =
     (core ep)\<lparr>c_fork := (case sm_fork_id meta of Some f \<Rightarrow> Some f | None \<Rightarrow> c_fork (core ep))\<rparr>"
  by (simp add: adopt_read_mode_def core_frame core_abs split: option.split)

lemma adopt_membership_core [core_frame]: "core (adopt_membership meta ep) = core ep"
  by (simp add: adopt_membership_def core_frame core_abs split: sim_splits)

lemma discharge_witnessed_core [core_frame]: "core (discharge_witnessed boundary ws ep) = core ep"
  by (simp add: discharge_witnessed_def core_frame core_abs split: sim_splits)

lemma adopt_parked_union_core:
  "adopt_parked_union E meta data ep = (True, ep') \<Longrightarrow> sm_fork_id meta = c_fork (core ep) \<Longrightarrow>
   core ep' = (core ep)\<lparr>c_applied := sm_last_index meta\<rparr>"
  by (auto simp: adopt_parked_union_def core_frame core_abs
      split: option.splits if_splits result.splits)

lemma adopt_parked_union_fails:
  "adopt_parked_union E meta data ep = (False, ep') \<Longrightarrow> core_steps w c (core ep) \<Longrightarrow> core_steps w c (core ep')"
  by (auto simp: adopt_parked_union_def core_frame core_abs core_sim
      split: option.splits if_splits result.splits)

lemma commit_covered_sim [core_sim]:
  "core_steps w c (core ep) \<Longrightarrow> core_steps w c (core (fst (commit_covered E logs leader boundary ep stab)))"
  by (simp add: commit_covered_def core_frame core_abs less_imp_le core_sim split: sim_splits)

lemma commit_covered_adopted_sim:
  assumes "core_steps w c (core ep)" and "core ep' = (core ep)\<lparr>c_applied := b\<rparr>"
  shows "core_steps w c (core (fst (commit_covered E logs ldr b ep' stab)))"
proof (cases "c_commit (core ep) < b")
  case True
  have "core_steps w c ((core ep)\<lparr>c_commit := b, c_applied := b\<rparr>)"
    using assms(1) True by (simp add: core_sim)
  moreover have "(core ep)\<lparr>c_commit := b, c_applied := b\<rparr> = (core ep)\<lparr>c_applied := b, c_commit := b\<rparr>"
    by simp
  ultimately have "core_steps w c (core (ep'\<lparr>ep_commit := b\<rparr>))"
    using assms(2) by (simp add: core_frame)
  then show ?thesis
    using True assms(2)
    by (simp add: commit_covered_def core_frame core_abs core_sim)
next
  case False
  have "core_steps w c (core ep')"
    using assms False by (simp add: core_sim)
  then show ?thesis
    using False assms(2)
    by (simp add: commit_covered_def core_frame core_abs core_sim)
qed

lemma install_redundant_sim [core_sim]:
  assumes "core_steps w c (core ep)" and lineage: "sm_fork_id (ins_snapshot is) = c_fork (core ep)"
  shows "core_steps w c (core (fst (install_redundant E logs is ep stab)))"
proof -
  let ?meta = "ins_snapshot is"
  have union: "core_steps w c (core (fst (commit_covered E logs ldr (sm_last_index ?meta) ep' stab')))"
    if "adopt_parked_union E ?meta data (set_snapshot_recv None ep) = (True, ep')" for ep' ldr data stab'
  proof -
    have [simp]: "core ep' = (core ep)\<lparr>c_applied := sm_last_index ?meta\<rparr>"
      using adopt_parked_union_core [OF that] lineage by (simp add: core_frame)
    show ?thesis
      using assms(1) by (rule commit_covered_adopted_sim) simp_all
  qed
  have plain: "core_steps w c (core (fst (commit_covered E logs ldr b (set_snapshot_recv None ep) stab')))" for ldr b stab'
    using assms(1) by (intro commit_covered_sim) (simp add: core_frame)
  obtain go ep' where r: "adopt_parked_union E ?meta (ins_data is) (set_snapshot_recv None ep) = (go, ep')"
    by (cases "adopt_parked_union E ?meta (ins_data is) (set_snapshot_recv None ep)")
  have "core_steps w c (core ep')" if "\<not> go"
    using adopt_parked_union_fails [of E ?meta "ins_data is" _ ep' w c] r that assms(1) by (simp add: core_frame)
  then show ?thesis
    using assms(1) union plain r by (auto simp: install_redundant_def Let_def)
qed

lemma submit_install_sim [core_sim]:
  "core_steps w c (core ep) \<Longrightarrow> same_lineage meta (core ep) \<Longrightarrow>
   core_steps w c (core (fst (submit_install E meta snap leader data ep stab)))"
  by (simp add: submit_install_def core_frame core_abs core_sim
      sim_step [OF _ step_receive])

lemma install_whole_sim [core_sim]:
  "core_steps w c (core ep) \<Longrightarrow> same_lineage (ins_snapshot is) (core ep) \<Longrightarrow>
   core_steps w c (core (fst (install_whole E is ep stab)))"
  by (simp add: install_whole_def core_frame core_abs core_sim split: result.split)

lemma stage_chunk_sim [core_sim]:
  "core_steps w c (core ep) \<Longrightarrow> same_lineage (ins_snapshot is) (core ep) \<Longrightarrow>
   core_steps w c (core (fst (stage_chunk E is ep stab)))"
  by (simp add: stage_chunk_def core_frame core_abs core_sim
      split: result.split option.split)

lemma same_lineage_pending [core_sim]:
  "same_lineage m c \<Longrightarrow> same_lineage m (c\<lparr>c_pending := p\<rparr>)"
  by (simp add: same_lineage_def)

lemma taken_sim [core_sim]:
  "core_steps w c d \<Longrightarrow> core_steps w c (d\<lparr>c_pending := None\<rparr>)"
  by (rule sim_step [OF _ step_taken])

lemma install_chunk_sim [core_sim]:
  "core_steps w c (core ep) \<Longrightarrow> same_lineage (ins_snapshot is) (core ep) \<Longrightarrow>
   core_steps w c (core (fst (install_chunk E is ep stab)))"
  by (simp add: install_chunk_def core_frame core_abs core_sim split: option.split)

lemma lineage_of_not_foreign:
  "\<not> foreign_lineage E logs stab meta ep \<Longrightarrow> same_lineage meta (core ep)"
  by (auto simp: foreign_lineage_def same_lineage_def core_abs split: option.splits)

lemma covered_install_sim:
  assumes "core_steps w c (core ep)" and "same_lineage (ins_snapshot is) (core ep)"
  shows "core_steps w c (core (fst (case covered_by_local_history E logs (ins_snapshot is) b ep of
           (None, ep) \<Rightarrow> (ep, stab)
         | (Some True, ep) \<Rightarrow> install_redundant E logs is ep stab
         | (Some False, ep) \<Rightarrow>
             if p ep then (ep, stab) else if q ep then (ep, stab)
             else if ins_total_len is = 0 then install_whole E is ep stab else install_chunk E is ep stab)))"
proof -
  obtain r ep' where cov: "covered_by_local_history E logs (ins_snapshot is) b ep = (r, ep')"
    by (cases "covered_by_local_history E logs (ins_snapshot is) b ep")
  have steps: "core_steps w c (core ep')"
    using covered_by_local_history_sim [OF assms(1), of E logs "ins_snapshot is" b] cov by simp
  show ?thesis
  proof (cases r)
    case (Some v)
    have [simp]: "ep' = ep"
      using covered_unchanged [OF cov [unfolded Some]] .
    show ?thesis
    proof (cases v)
      case True
      then have "sm_fork_id (ins_snapshot is) = c_fork (core ep)"
        using cov Some by (intro covered_lineage) simp
      then show ?thesis
        using True cov Some install_redundant_sim [OF assms(1)] by simp
    next
      case False
      then show ?thesis
        using cov Some assms by (simp add: install_whole_sim install_chunk_sim)
    qed
  qed (simp add: cov steps)
qed

lemma received_sim:
  assumes "core_steps w c (core ep)"
  shows "core_steps w c (core (fst (let ep = raise_meta_floors (ins_snapshot is) ep
           in if foreign_lineage E logs stab (ins_snapshot is) ep then (refuse_cross_lineage ep, stab)
              else case covered_by_local_history E logs (ins_snapshot is) (b ep) ep of
                     (None, ep) \<Rightarrow> (ep, stab)
                   | (Some True, ep) \<Rightarrow> install_redundant E logs is ep stab
                   | (Some False, ep) \<Rightarrow>
                       if p ep then (ep, stab) else if q ep then (ep, stab)
                       else if ins_total_len is = 0 then install_whole E is ep stab
                       else install_chunk E is ep stab)))"
proof (cases "foreign_lineage E logs stab (ins_snapshot is) (raise_meta_floors (ins_snapshot is) ep)")
  case True
  then show ?thesis
    using assms by (simp add: core_frame)
next
  case False
  then have "same_lineage (ins_snapshot is) (core (raise_meta_floors (ins_snapshot is) ep))"
    by (rule lineage_of_not_foreign)
  moreover have "core_steps w c (core (raise_meta_floors (ins_snapshot is) ep))"
    using assms by (simp add: core_frame)
  ultimately show ?thesis
    unfolding Let_def if_not_P [OF False] by (intro covered_install_sim)
qed

lemma on_install_snapshot_sim [core_sim]:
  assumes "core_steps w c (core ep)"
  shows "core_steps w c (core (fst (on_install_snapshot E now logs is ep stab)))"
proof -
  let ?ep = "arm_election_timer E now (set_leader (Some (ins_leader is)) (ep\<lparr>ep_role := Follower\<rparr>))"
  obtain go ep' stab' where r: "reclaim_stale_snapshot_recv E logs ?ep stab = (go, ep', stab')"
    by (cases "reclaim_stale_snapshot_recv E logs ?ep stab")
  have "core_steps w c (core ep')"
    using reclaim_stale_snapshot_recv_sim [of w c ?ep E logs stab] assms r by (simp add: core_frame)
  then have "core_steps w c (core (fst (case (go, ep', stab') of (False, ep, stab) \<Rightarrow> (ep, stab)
      | (True, ep, stab) \<Rightarrow> R ep stab)))"
    if "\<And>ep stab. core_steps w c (core ep) \<Longrightarrow> core_steps w c (core (fst (R ep stab)))" for R
    using that by (cases go) simp_all
  then show ?thesis
    unfolding on_install_snapshot_def Let_def [of "ins_snapshot is"] Let_def [of ?ep] r
    using assms by (simp add: core_observed core_inert core_kept pending_meta_update core_state_same
        arm_election_timer_core set_leader_core poison_sim received_sim del: split_paired_All prod.case)
qed

lemma rebaseline_core:
  "core (rebaseline meta ep) =
     core_scrub (sm_last_index meta)
       ((core ep)\<lparr>c_commit := sm_last_index meta, c_applied := sm_last_index meta,
          c_durable_index := sm_last_index meta,
          c_fork := (case sm_fork_id meta of Some f \<Rightarrow> Some f | None \<Rightarrow> c_fork (core ep))\<rparr>)"
  by (simp add: rebaseline_def core_frame core_abs core_scrub_def split: option.split)

lemma install_snapshot_now_sim:
  assumes steps: "core_steps True c (core ep)" and none: "c_pending (core ep) = None"
    and lineage: "same_lineage meta (core ep)"
  shows "core_steps True c (core (fst (install_snapshot_now E meta snap leader ep logs stab)))"
proof -
  let ?b = "sm_last_index meta"
  define ep1 where "ep1 = raise_meta_floors meta (ep\<lparr>ep_durable := (ep_durable ep)
    \<lparr>du_durable_snapshot_index := max (du_durable_snapshot_index (ep_durable ep)) ?b\<rparr>\<rparr>)"
  have core1: "core ep1 = (core ep)\<lparr>c_durable_snapshot := max (c_durable_snapshot (core ep)) ?b\<rparr>"
    by (simp add: ep1_def core_frame core_abs)
  have steps1: "core_steps True c (core ep1)"
    unfolding core1 using steps by (simp add: core_sim)
  obtain r ep2 where cov: "covered_by_local_history E logs meta (ep_commit ep1) ep1 = (r, ep2)"
    by (cases "covered_by_local_history E logs meta (ep_commit ep1) ep1")
  have steps2: "core_steps True c (core ep2)"
    using covered_by_local_history_sim [OF steps1, of E logs meta "ep_commit ep1"] cov by simp
  have rebased: "core_steps True c (core (rebaseline meta (ep1\<lparr>ep_fsm := fsm\<rparr>)))"
    if "r = Some False" and "\<not> (c_fork (core ep) = None \<and> sm_fork_id meta \<noteq> None \<and> c_commit (core ep) \<noteq> 0)" for fsm
  proof -
    have "c_commit (core ep) \<le> ?b"
    proof (cases "sm_fork_id meta = c_fork (core ep)")
      case True
      then show ?thesis
        using uncovered_above [OF cov [unfolded that(1)]] by (simp add: core1 core_abs)
    next
      case False
      then show ?thesis
        using lineage that(2) by (auto simp: same_lineage_def)
    qed
    then show ?thesis
      unfolding rebaseline_core
      by (intro sim_step [OF _ step_rebaseline]) (simp_all add: core_frame steps1 [unfolded core1] core1 none)
  qed
  show ?thesis
  proof (cases r)
    case (Some v)
    have [simp]: "ep2 = ep1"
      using covered_unchanged [OF cov [unfolded Some]] .
    show ?thesis
      unfolding install_snapshot_now_def Let_def ep1_def [symmetric] cov Some
      using steps steps1 rebased Some by (cases v) (auto simp: case_prod_beta core_frame core_abs core_sim)
  next
    case None
    show ?thesis
      unfolding install_snapshot_now_def Let_def ep1_def [symmetric] cov None
      using steps steps2 by (auto simp: core_frame)
  qed
qed

lemma advance_transfer_sim [core_sim]:
  "core_steps w c (core ep) \<Longrightarrow> core_steps w c (core (snd (advance_transfer E now from stab offset ep)))"
  by (simp add: advance_transfer_def core_frame core_abs core_sim split: sim_splits)

lemma on_snapshot_response_sim [core_sim]:
  "core_steps w c (core ep) \<Longrightarrow> core_steps w c (core (on_snapshot_response E now from logs stab response ep))"
  by (simp add: on_snapshot_response_def core_frame core_abs core_sim split: sim_splits)

section \<open>The storage crank\<close>

lemma release_log_pending_sim [core_sim]:
  "core_steps True c (core ep) \<Longrightarrow> core_steps True c (core (release_log_pending E now logs opid ep))"
  by (simp add: release_log_pending_def core_frame core_abs core_sim split: sim_splits)

lemma on_log_appended_sim [core_sim]:
  "core_steps True c (core ep) \<Longrightarrow> core_steps True c (core (on_log_appended E now logs opid ep))"
  by (simp add: on_log_appended_def core_frame core_abs core_sim split: sim_splits)

lemma grant_sim [core_sim]:
  "core_steps True c (core ep) \<Longrightarrow> c_vote (core ep) = Some to \<Longrightarrow> t = c_term (core ep) \<Longrightarrow>
   core_steps True c (core (send to (vote_reply t False False ep) ep))"
  using sim_step [OF _ step_grant, of c "core ep" to]
  by (simp add: send_core vote_reply_def core_grant_def core_abs)

lemma release_stable_pending_sim [core_sim]:
  "core_steps True c (core ep) \<Longrightarrow> core_steps True c (core (fst (release_stable_pending E now stab pend ep logs)))"
  by (simp add: release_stable_pending_def core_frame core_abs core_sim split: sim_splits)

lemma note_stable_wrote_core [core_frame]:
  "du_durable_index (note_stable_wrote opid du) = du_durable_index du"
  "du_durable_snapshot_index (note_stable_wrote opid du) = du_durable_snapshot_index du"
  by (simp_all add: note_stable_wrote_def Let_def)

lemma note_stable_wrote_term:
  "c_durable_term (core ep) \<le> du_durable_term (note_stable_wrote opid (ep_durable ep))"
  by (simp add: note_stable_wrote_def Let_def core_observed less_imp_le)

lemma on_stable_wrote_sim [core_sim]:
  "core_steps True c (core ep) \<Longrightarrow> core_steps True c (core (fst (on_stable_wrote E now stab opid ep logs)))"
  by (simp add: on_stable_wrote_def core_frame core_abs note_stable_wrote_term core_sim split: sim_splits)

lemma release_covered_sim [core_sim]:
  "core_steps True c (core ep) \<Longrightarrow> core_steps True c (core (snd (release_covered E now logs cov n ep)))"
  by (induction n arbitrary: ep) (simp_all add: core_frame core_abs core_sim split: list.split)

lemma reconcile_durable_index_sim [core_sim]:
  "core_steps True c (core ep) \<Longrightarrow> core_steps True c (core (snd (reconcile_durable_index E now logs ep)))"
  by (simp add: reconcile_durable_index_def core_frame core_abs core_sim split: sim_splits)

lemma release_voted_sim [core_sim]:
  "core_steps True c (core ep) \<Longrightarrow> core_steps True c (core (fst (snd (release_voted E now stab me hs n ep logs))))"
  by (induction n arbitrary: ep logs) (simp_all add: core_frame core_abs core_sim split: option.split)

lemma reconcile_durable_hard_state_sim [core_sim]:
  "core_steps True c (core ep) \<Longrightarrow> core_steps True c (core (fst (snd (reconcile_durable_hard_state E now stab ep logs))))"
  by (simp add: reconcile_durable_hard_state_def core_frame core_abs core_sim split: sim_splits)

lemma drain_log_sim [core_sim]:
  "core_steps True c (core ep) \<Longrightarrow> core_steps True c (core (fst (snd (drain_log E now n ep logs))))"
  by (induction n arbitrary: ep logs)
    (simp_all add: core_frame core_abs core_sim split: option.split result.split LogDone.split)

lemma finish_compact_sim [core_sim]:
  "core_steps True c (core ep) \<Longrightarrow> core_steps True c (core (fst (finish_compact E m ep logs)))"
  by (simp add: finish_compact_def core_frame core_abs core_sim split: sim_splits)

lemma finish_install_sim:
  assumes "core_steps True c (core ep)" and "lineage_ok c"
    and "ss_pending_install (ep_snapshot ep) = Some (pid, meta, snap, leader)"
  shows "core_steps True c (core (fst (finish_install E meta snap leader ep logs stab)))"
proof -
  have "c_pending (core ep) = Some meta"
    using assms(3) by (simp add: core_def pending_meta_def)
  then have "same_lineage meta (core ep)"
    using lineage_ok_steps [OF assms(1,2)] by (simp add: lineage_ok_def)
  then show ?thesis
    using assms(1) unfolding finish_install_def
    by (intro install_snapshot_now_sim) (simp_all add: core_frame core_sim)
qed

lemma finish_compact_run:
  "finish_compact E m ep logs = (ep', logs') \<Longrightarrow> core_steps True c (core ep) \<Longrightarrow> core_steps True c (core ep')"
  using finish_compact_sim [of c ep E m logs] by simp

lemma on_snapshot_written_sim [core_sim]:
  "core_steps True c (core ep) \<Longrightarrow> lineage_ok c \<Longrightarrow>
   core_steps True c (core (fst (on_snapshot_written E opid ep logs stab)))"
  unfolding on_snapshot_written_def
  by (auto split: option.split prod.split intro: finish_install_sim dest: finish_compact_run)

lemma reconcile_snapshots_sim [core_sim]:
  "core_steps True c (core ep) \<Longrightarrow> lineage_ok c \<Longrightarrow>
   core_steps True c (core (fst (reconcile_snapshots E ep logs stab)))"
  unfolding reconcile_snapshots_def
  by (auto split: option.split prod.split intro: finish_install_sim dest: finish_compact_run)

lemma drain_stable_sim [core_sim]:
  "core_steps True c (core ep) \<Longrightarrow> lineage_ok c \<Longrightarrow>
   core_steps True c (core (fst (snd (drain_stable E now n ep logs stab))))"
  by (induction n arbitrary: ep logs stab)
    (simp_all add: core_frame core_abs core_sim split: option.split result.split StableDone.split)

lemma auto_leave_joint_sim [core_sim]:
  "core_steps True c (core ep) \<Longrightarrow> core_steps True c (core (fst (auto_leave_joint E now ep logs)))"
  by (simp add: auto_leave_joint_def core_frame core_abs core_sim split: sim_splits)

lemma drain_tail_sim [core_sim]:
  "core_steps True c (core ep) \<Longrightarrow> core_steps True c (core (fst (snd (drain_tail E now ep logs stab))))"
  by (simp add: drain_tail_def core_frame core_abs core_sim split: sim_splits)

lemma handle_storage_sim [core_sim]:
  "core_steps True c (core ep) \<Longrightarrow> lineage_ok c \<Longrightarrow>
   core_steps True c (core (fst (snd (handle_storage E now ep logs stab))))"
  by (simp add: handle_storage_def core_frame core_abs core_sim split: sim_splits)

section \<open>Dispatch\<close>

lemma adopt_term_sim [core_sim]:
  "core_steps w c (core ep) \<Longrightarrow> c_term (core ep) < t \<Longrightarrow>
   core_steps w c (core (adopt_term t ep))"
  by (simp add: adopt_term_def core_frame core_abs core_sim split: sim_splits)

lemma nudge_step_down_sim [core_sim]:
  "core_steps w c (core ep) \<Longrightarrow> core_steps w c (core (nudge_step_down from msg ep))"
  by (simp add: nudge_step_down_def core_frame core_abs core_sim split: sim_splits)

lemma note_sender_sim [core_sim]:
  "core_steps w c (core ep) \<Longrightarrow> core_steps w c (core (note_sender E now stab from msg ep))"
  by (simp add: note_sender_def core_frame core_abs core_sim split: sim_splits)

lemma dispatch_sim [core_sim]:
  "core_steps w c (core ep) \<Longrightarrow> core_steps w c (core (fst (dispatch E now from msg ep logs stab)))"
  by (simp add: dispatch_def core_frame core_abs core_sim split: sim_splits message.split)

lemma handle_current_sim [core_sim]:
  "core_steps w c (core ep) \<Longrightarrow> core_steps w c (core (fst (handle_current E now from msg ep logs stab)))"
  by (simp add: handle_current_def core_frame core_abs core_sim split: sim_splits)

lemma handle_message_sim [core_sim]:
  "core_steps w c (core ep) \<Longrightarrow> core_steps w c (core (fst (handle_message E now from msg ep logs stab)))"
  by (simp add: handle_message_def core_frame core_abs core_sim split: sim_splits)

lemma refresh_wanted_sim [core_sim]:
  "core_steps w c (core ep) \<Longrightarrow> core_steps w c (core (fst (refresh_wanted E now heartbeat_due ep logs)))"
  by (simp add: refresh_wanted_def core_frame core_abs core_sim split: sim_splits)

lemma refresh_by_mode_sim [core_sim]:
  "core_steps w c (core ep) \<Longrightarrow> core_steps w c (core (fst (refresh_by_mode E now heartbeat_due ep logs)))"
  by (simp add: refresh_by_mode_def core_frame core_abs core_sim split: sim_splits LeaseRefresh.split)

lemma expire_transfer_core [core_frame]: "core (expire_transfer now ep) = core ep"
  by (simp add: expire_transfer_def core_frame core_abs split: sim_splits)

lemma check_leader_quorum_core [core_frame]: "core (check_leader_quorum E now ep) = core ep"
  by (simp add: check_leader_quorum_def core_frame core_abs split: sim_splits)

lemma release_commit_wait_sim [core_sim]:
  "core_steps w c (core ep) \<Longrightarrow> core_steps w c (core (release_commit_wait E now logs ep))"
  by (simp add: release_commit_wait_def core_frame core_abs core_sim split: sim_splits)

lemma leader_timeout_sim [core_sim]:
  "core_steps w c (core ep) \<Longrightarrow> core_steps w c (core (fst (snd (leader_timeout E now stab ep logs))))"
  by (simp add: leader_timeout_def core_frame core_abs core_sim split: sim_splits)

lemma campaign_if_due_sim [core_sim]:
  "core_steps w c (core ep) \<Longrightarrow> core_steps w c (core (fst (campaign_if_due E now logs ep stab)))"
  by (simp add: campaign_if_due_def core_frame core_abs core_sim split: sim_splits)

lemma handle_timeout_sim [core_sim]:
  "core_steps w c (core ep) \<Longrightarrow> core_steps w c (core (fst (handle_timeout E now ep logs stab)))"
  by (simp add: handle_timeout_def core_frame core_abs core_sim split: sim_splits)

end
