(* ===== verification/Loops.thy ===== *)
theory Loops
  imports Simulation_Cranks
begin

text \<open>
  Termination of the apply path: the apply loop and the replay, which the model bounds by fuel, end
  within the fuel they are given, for every store, since an entry that is not the next one poisons
  the node.  What an apply call leaves behind is stated with it: everything committed is applied
  unless the node is poisoned, parked at a merge or cut by the budget.
\<close>

section \<open>The apply loop\<close>

lemma apply_break_poisons: "apply_entry E logs e ep = (AE_Break, ep') \<Longrightarrow> is_poisoned ep'"
  by (auto simp: apply_entry_def apply_normal_def apply_split_def apply_prepare_merge_def
      apply_commit_merge_def apply_rollback_merge_def apply_thaw_discharged_def apply_set_read_mode_def
      apply_conf_change_def Let_def case_prod_beta core_observed core_frame
      split: EntryKind.splits result.splits option.splits if_splits)

lemma apply_entry_keeps:
  "apply_entry E logs e ep = (out, ep') \<Longrightarrow> ep_commit ep' = ep_commit ep \<and> ep_applied ep' = ep_applied ep"
  using apply_entry_fixed(4,5) [of E logs e ep] by (simp add: core_observed)

lemma apply_batch_keeps:
  "apply_batch E logs es k ep = (parked, k', ep') \<Longrightarrow>
   ep_commit ep' = ep_commit ep \<and> ep_applied ep \<le> ep_applied ep' \<and>
   (ep_applied ep \<le> ep_commit ep \<longrightarrow> ep_applied ep' \<le> ep_commit ep)"
proof (induction es arbitrary: k ep)
  case (Cons e es)
  show ?case
  proof (cases "en_index e \<noteq> counter_next (ep_applied ep) \<or> en_index e > ep_commit ep")
    case True
    with Cons.prems show ?thesis
      by (auto simp: core_observed core_frame)
  next
    case False
    obtain out ep1 where one: "apply_entry E logs e ep = (out, ep1)"
      by (cases "apply_entry E logs e ep")
    note kept = apply_entry_keeps [OF one]
    show ?thesis
    proof (cases out)
      case AE_Applied
      then have "apply_batch E logs es (k + 1) (ep1\<lparr>ep_applied := en_index e\<rparr>) = (parked, k', ep')"
        using Cons.prems False one by simp
      from Cons.IH [OF this] show ?thesis
        using kept False by (auto simp: not_less intro: order.trans [OF counter_next_ge])
    qed (use Cons.prems False one kept in auto)
  qed
qed simp

text \<open>A batch that does not park applies an entry or poisons.\<close>

lemma apply_batch_progress:
  assumes "apply_batch E logs (e # es) k ep = (False, k', ep')" and "ep_applied ep < ep_commit ep"
  shows "is_poisoned ep' \<or> ep_applied ep < ep_applied ep'"
proof (cases "en_index e \<noteq> counter_next (ep_applied ep) \<or> en_index e > ep_commit ep")
  case True
  with assms(1) show ?thesis
    by (auto simp: core_observed core_frame)
next
  case False
  obtain out ep1 where one: "apply_entry E logs e ep = (out, ep1)"
    by (cases "apply_entry E logs e ep")
  show ?thesis
  proof (cases out)
    case AE_Applied
    then have "apply_batch E logs es (k + 1) (ep1\<lparr>ep_applied := en_index e\<rparr>) = (False, k', ep')"
      using assms(1) False one by simp
    from apply_batch_keeps [OF this] have "en_index e \<le> ep_applied ep'" by simp
    moreover have "ep_applied ep < en_index e"
      using False assms(2) word_order.extremum_strict [of "ep_commit ep"]
      by (auto simp: less_counter_next)
    ultimately show ?thesis by auto
  next
    case AE_Break
    then show ?thesis using assms(1) False one apply_break_poisons [of E logs e ep] by auto
  qed (use assms(1) False one in auto)
qed

lemma apply_loop_returns:
  "unat (ep_commit ep) - unat (ep_applied ep) < n \<or> is_poisoned ep \<and> 0 < n \<Longrightarrow>
   apply_loop E logs n k ep \<noteq> None"
proof (induction n arbitrary: k ep)
  case (Suc n)
  have again: "apply_loop E logs n k' ep' \<noteq> None"
    if b: "apply_batch E logs (e # es) k ep = (False, k', ep')" and less: "ep_applied ep < ep_commit ep"
      and np: "\<not> is_poisoned ep" for e es k' ep'
  proof (rule Suc.IH)
    have d: "unat (ep_applied ep) < unat (ep_commit ep)"
      using less by (simp add: word_less_nat_alt)
    show "unat (ep_commit ep') - unat (ep_applied ep') < n \<or> is_poisoned ep' \<and> 0 < n"
    proof (cases "is_poisoned ep'")
      case False
      with apply_batch_progress [OF b less] have "unat (ep_applied ep) < unat (ep_applied ep')"
        by (simp add: word_less_nat_alt)
      then show ?thesis
        using apply_batch_keeps [OF b] Suc.prems np d by auto
    qed (use Suc.prems np d in auto)
  qed
  show ?case
    using again by (auto simp del: apply_batch.simps split: result.splits EntriesRead.splits list.splits
        prod.splits bool.splits)
qed simp

text \<open>The loop of a call always returns, whatever the store answers.\<close>

lemma apply_call_returns:
  "apply_loop E logs (Suc (unat (ep_commit ep) - unat (ep_applied ep))) k ep \<noteq> None"
  by (rule apply_loop_returns) simp

text \<open>
  What a call leaves: the commit index as it was, nothing unapplied; drained means that everything
  committed is applied or the node is poisoned, and a budget cut means that entries were applied and
  entries remain.
\<close>

definition apply_result ::
    "('i, 'f, 'n, 'p, 'r) endpoint \<Rightarrow> ApplyDrain \<Rightarrow> ('i, 'f, 'n, 'p, 'r) endpoint \<Rightarrow> bool" where
  "apply_result ep v ep' \<longleftrightarrow>
     ep_commit ep' = ep_commit ep \<and> ep_applied ep \<le> ep_applied ep' \<and>
     (v = AD_Drained \<longrightarrow> is_poisoned ep' \<or> ep_commit ep \<le> ep_applied ep') \<and>
     (v = AD_BudgetCut \<longrightarrow> ep_applied ep < ep_applied ep' \<and> ep_applied ep' < ep_commit ep)"

lemma apply_result_trans:
  "ep_commit ep1 = ep_commit ep \<Longrightarrow> ep_applied ep \<le> ep_applied ep1 \<Longrightarrow> apply_result ep1 v ep' \<Longrightarrow>
   apply_result ep v ep'"
  using order.trans [of "ep_applied ep" "ep_applied ep1" "ep_applied ep'"]
    order.strict_trans1 [of "ep_applied ep" "ep_applied ep1" "ep_applied ep'"]
  by (simp add: apply_result_def)

lemma apply_turn_outcome:
  assumes b: "apply_batch E logs (e # es) k ep = (parked, k', ep1)"
    and less: "ep_applied ep < ep_commit ep"
    and rest: "\<And>v ep'. apply_loop E logs n k' ep1 = Some (v, ep') \<Longrightarrow> apply_result ep1 v ep'"
    and r: "(if parked then Some (AD_Waiting, ep1)
             else if \<not> is_poisoned ep1 \<and> k' \<ge> APPLY_BUDGET_ENTRIES \<and> ep_applied ep1 < ep_commit ep1
             then Some (AD_BudgetCut, ep1) else apply_loop E logs n k' ep1) = Some (v, ep')"
  shows "apply_result ep v ep'"
proof -
  have kept: "ep_commit ep1 = ep_commit ep" "ep_applied ep \<le> ep_applied ep1"
    using apply_batch_keeps [OF b] by auto
  show ?thesis
  proof (cases parked)
    case False
    note live = this
    let ?cut = "\<not> is_poisoned ep1 \<and> k' \<ge> APPLY_BUDGET_ENTRIES \<and> ep_applied ep1 < ep_commit ep1"
    show ?thesis
    proof (cases ?cut)
      case True
      then show ?thesis
        using r live kept apply_batch_progress [of E logs e es k ep k' ep1] b less
        by (auto simp: apply_result_def)
    next
      case False
      then have "apply_loop E logs n k' ep1 = Some (v, ep')"
        using r [unfolded if_not_P [OF False]] live by simp
      from apply_result_trans [OF kept rest [OF this]] show ?thesis .
    qed
  qed (use r kept in \<open>auto simp: apply_result_def\<close>)
qed

lemma apply_loop_outcome:
  "apply_loop E logs n k ep = Some (v, ep') \<Longrightarrow> apply_result ep v ep'"
proof (induction n arbitrary: k ep v ep')
  case (Suc n)
  show ?case
  proof (cases "ep_applied ep < ep_commit ep \<and> \<not> is_poisoned ep")
    case True
    let ?rd = "log_entries E logs (counter_next (ep_applied ep))
      (apply_read_span (ep_applied ep) (ep_commit ep) k) APPLY_READ_MAX_BYTES"
    consider e es where "?rd = Ok (EntriesReady (e # es))"
      | "?rd = Ok (EntriesReady [])" | "?rd = Ok EntriesPending" | x where "?rd = Err x"
      by (metis result.exhaust EntriesRead.exhaust list.exhaust)
    then show ?thesis
    proof cases
      case (1 e es)
      obtain parked k' ep1 where b: "apply_batch E logs (e # es) k ep = (parked, k', ep1)"
        by (cases "apply_batch E logs (e # es) k ep")
      have r: "(if parked then Some (AD_Waiting, ep1)
             else if \<not> is_poisoned ep1 \<and> k' \<ge> APPLY_BUDGET_ENTRIES \<and> ep_applied ep1 < ep_commit ep1
             then Some (AD_BudgetCut, ep1) else apply_loop E logs n k' ep1) = Some (v, ep')"
        using Suc.prems True 1 b by (cases parked) (simp_all del: apply_batch.simps)
      show ?thesis by (rule apply_turn_outcome [OF b _ Suc.IH r]) (use True in simp)
    qed (use True Suc.prems in \<open>auto simp: apply_result_def core_observed core_frame\<close>)
  next
    case False
    then show ?thesis using Suc.prems by (auto simp: apply_result_def split: if_splits)
  qed
qed (auto simp: apply_result_def split: if_splits)

lemma apply_committed_outcome:
  "apply_result ep (fst (apply_committed E logs ep)) (snd (apply_committed E logs ep)) \<or>
   me_pending_apply (ep_merge ep) \<noteq> None"
proof -
  let ?loop = "apply_loop E logs (Suc (unat (ep_commit ep) - unat (ep_applied ep))) 0 ep"
  obtain v ep' where "?loop = Some (v, ep')"
    using apply_call_returns [of E logs ep 0] by (cases ?loop) (auto simp del: apply_loop.simps)
  with apply_loop_outcome [OF this] show ?thesis
    by (simp add: apply_committed_def apply_result_def del: apply_loop.simps)
qed

text \<open>The replay of a restart.\<close>

lemma replay_loop_returns:
  "unat (ep_commit ep) - unat (ep_applied ep) < n \<Longrightarrow> replay_loop E logs n ep \<noteq> None"
proof (induction n arbitrary: ep)
  case (Suc n)
  obtain v ep' where r: "apply_committed E logs ep = (v, ep')"
    by (cases "apply_committed E logs ep")
  show ?case
  proof (cases v)
    case AD_BudgetCut
    with r have "me_pending_apply (ep_merge ep) = None"
      by (auto simp: apply_committed_def simp del: apply_loop.simps split: if_splits)
    then have "unat (ep_commit ep') - unat (ep_applied ep') < n"
      using apply_committed_outcome [of ep E logs] Suc.prems r AD_BudgetCut
      by (auto simp: apply_result_def word_less_nat_alt)
    then show ?thesis using Suc.IH r AD_BudgetCut by simp
  qed (use r in simp_all)
qed simp

end
