(* ===== verification/Engine.thy ===== *)
theory Engine
  imports Lineage Btree
begin

text \<open>
  The reference storage engine of \<^verbatim>\<open>sailing-proto/src/multi/engine/mod.rs\<close>: the in-memory log and
  stable store of one group, whose writes are visible at once and durable at the next barrier, and
  the engine that holds the stores of all groups with their lineage records and boot epochs.
\<close>

section \<open>The log\<close>

datatype StagedLog = SL_Appended OpId index | SL_Compacted index

record engine_log =
  el_entries :: "entry list"
  el_offset :: index
  el_compacted_term :: raft_term
  el_staged :: "StagedLog list"
  el_ready :: "LogDone list"
  el_shape_contribs :: "(index \<times> u64) list"
  el_shape_faults :: "(index \<times> ShapeFault) list"

definition el_new :: engine_log where
  "el_new =
     \<lparr>el_entries = [], el_offset = 0, el_compacted_term = 0, el_staged = [], el_ready = [],
      el_shape_contribs = [], el_shape_faults = []\<rparr>"

definition el_shape_ceiling :: "engine_log \<Rightarrow> u64" where
  "el_shape_ceiling l = fold max (map snd (el_shape_contribs l)) 0"

definition el_shape_faulted :: "engine_log \<Rightarrow> bool" where
  "el_shape_faulted l \<longleftrightarrow> el_shape_faults l \<noteq> []"

definition staged_done :: "StagedLog \<Rightarrow> LogDone" where
  "staged_done s = (case s of SL_Appended opid _ \<Rightarrow> Appended opid | SL_Compacted i \<Rightarrow> Compacted i)"

definition el_release_staged :: "engine_log \<Rightarrow> nat \<times> engine_log" where
  "el_release_staged l =
     (length (el_staged l), l\<lparr>el_ready := el_ready l @ map staged_done (el_staged l), el_staged := []\<rparr>)"

definition el_has_staged :: "engine_log \<Rightarrow> bool" where
  "el_has_staged l \<longleftrightarrow> el_staged l \<noteq> []"

definition el_first_index :: "engine_log \<Rightarrow> index" where
  "el_first_index l = el_offset l + 1"

definition el_last_index :: "engine_log \<Rightarrow> index" where
  "el_last_index l = el_offset l + of_nat (length (el_entries l))"

definition el_term :: "engine_log \<Rightarrow> index \<Rightarrow> raft_term fallible" where
  "el_term l idx =
     (if idx = el_offset l then Ok (el_compacted_term l)
      else if idx < el_offset l \<or> idx > el_last_index l then Ok 0
      else Ok (en_term (el_entries l ! unat (idx - el_offset l - 1))))"

definition el_read :: "engine_log \<Rightarrow> index \<Rightarrow> index \<Rightarrow> u64 \<Rightarrow> entry EntriesRead fallible" where
  "el_read l start stop byte_cap =
     (let offset = el_offset l; n = length (el_entries l);
          lo = (if start \<le> offset then 0 else unat (start - offset - 1));
          hi = (if stop \<le> offset then 0 else unat (min (stop - offset - 1) (of_nat n)));
          lo = min lo n;
          hi = min (max hi lo) n
      in Ok (EntriesReady (take (hi - lo) (drop lo (el_entries l)))))"

text \<open>The marks of the retained shape entries, from the back down to the truncation.\<close>

definition pop_back_from :: "index \<Rightarrow> (index \<times> 'a) list \<Rightarrow> (index \<times> 'a) list" where
  "pop_back_from fi q = rev (dropWhile (\<lambda>(i, _). i \<ge> fi) (rev q))"

definition pop_front_upto :: "index \<Rightarrow> (index \<times> 'a) list \<Rightarrow> (index \<times> 'a) list" where
  "pop_front_upto i q = dropWhile (\<lambda>(j, _). j \<le> i) q"

definition staged_below :: "index \<Rightarrow> StagedLog \<Rightarrow> bool" where
  "staged_below fi s = (case s of SL_Appended _ u \<Rightarrow> u < fi | SL_Compacted _ \<Rightarrow> True)"

definition el_truncate :: "index \<Rightarrow> engine_log \<Rightarrow> engine_log" where
  "el_truncate fi l =
     (let offset = el_offset l;
          from = (if fi \<le> offset + 1 then 0 else unat (fi - offset - 1))
      in l\<lparr>el_entries := take from (el_entries l),
           el_staged := filter (staged_below fi) (el_staged l),
           el_shape_contribs := pop_back_from fi (el_shape_contribs l),
           el_shape_faults := pop_back_from fi (el_shape_faults l)\<rparr>)"

definition el_note_shape ::
    "('i, 'f, 'c, 'n, 'p, 'r, 'x, 'y) env \<Rightarrow> entry \<Rightarrow> engine_log \<Rightarrow> engine_log" where
  "el_note_shape A e l =
     (case shape_entry_move A e of
        NotShape \<Rightarrow> l
      | ValidMove g \<Rightarrow>
          if g \<noteq> 0 then l\<lparr>el_shape_contribs := el_shape_contribs l @ [(en_index e, g)]\<rparr> else l
      | InvalidMove fault \<Rightarrow> l\<lparr>el_shape_faults := el_shape_faults l @ [(en_index e, fault)]\<rparr>)"

definition el_submit_append ::
    "('i, 'f, 'c, 'n, 'p, 'r, 'x, 'y) env \<Rightarrow> OpId \<Rightarrow> entry list \<Rightarrow> engine_log \<Rightarrow> engine_log" where
  "el_submit_append A opid es l =
     (let l = (case es of [] \<Rightarrow> l | e # _ \<Rightarrow> el_truncate (en_index e) l);
          l = fold (el_note_shape A) es l;
          l = l\<lparr>el_entries := el_entries l @ es\<rparr>
      in l\<lparr>el_staged := el_staged l @ [SL_Appended opid (el_last_index l)]\<rparr>)"

definition unwrap_or_zero :: "u64 fallible \<Rightarrow> u64" where
  "unwrap_or_zero r = (case r of Ok t \<Rightarrow> t | Err _ \<Rightarrow> 0)"

definition el_compact :: "index \<Rightarrow> engine_log \<Rightarrow> engine_log" where
  "el_compact up l =
     (if up \<le> el_offset l \<or> el_entries l = [] then l
      else let up = (if up > el_last_index l then el_last_index l else up);
               boundary_term = unwrap_or_zero (el_term l up);
               drain_count = min (unat (up - el_offset l)) (length (el_entries l))
           in l\<lparr>el_entries := drop drain_count (el_entries l), el_offset := up,
                el_compacted_term := boundary_term,
                el_shape_contribs := pop_front_upto up (el_shape_contribs l),
                el_shape_faults := pop_front_upto up (el_shape_faults l),
                el_staged := el_staged l @ [SL_Compacted up]\<rparr>)"

definition el_restore :: "index \<Rightarrow> raft_term \<Rightarrow> engine_log \<Rightarrow> engine_log" where
  "el_restore last_i last_t l =
     l\<lparr>el_entries := [], el_staged := [], el_ready := [], el_shape_contribs := [],
       el_shape_faults := [], el_offset := last_i, el_compacted_term := last_t\<rparr>"

definition el_poll :: "engine_log \<Rightarrow> LogDone fallible option \<times> engine_log" where
  "el_poll l =
     (case el_ready l of
        [] \<Rightarrow> (None, l)
      | d # ds \<Rightarrow> (Some (Ok d), l\<lparr>el_ready := ds\<rparr>))"

definition el_has_pending :: "engine_log \<Rightarrow> bool" where
  "el_has_pending l \<longleftrightarrow> el_ready l \<noteq> []"

section \<open>The stable store\<close>

record 'i engine_stable =
  es_visible :: "'i hard_state"
  es_durable :: "'i hard_state"
  es_snapshot :: "('i snapshot_meta \<times> bytes) option"
  es_durable_snapshot :: "'i snapshot_meta option"
  es_staged :: "StableDone list"
  es_ready :: "StableDone list"
  es_staging :: "('i snapshot_meta \<times> snapshot_staging) option"
  es_staging_cap :: nat
  es_visible_meta_gen :: u64
  es_durable_meta_gen :: u64

definition es_new :: "nat \<Rightarrow> 'i engine_stable" where
  "es_new staging_cap =
     \<lparr>es_visible = hs_initial, es_durable = hs_initial, es_snapshot = None, es_durable_snapshot = None,
      es_staged = [], es_ready = [], es_staging = None, es_staging_cap = staging_cap,
      es_visible_meta_gen = 0, es_durable_meta_gen = 0\<rparr>"

definition es_meta_ceiling :: "'i engine_stable \<Rightarrow> u64" where
  "es_meta_ceiling s = max (es_visible_meta_gen s) (es_durable_meta_gen s)"

definition es_release_staged :: "'i engine_stable \<Rightarrow> nat \<times> 'i engine_stable" where
  "es_release_staged s =
     (if es_staged s = [] then (0, s)
      else (length (es_staged s),
            s\<lparr>es_durable := es_visible s, es_durable_snapshot := map_option fst (es_snapshot s),
              es_durable_meta_gen := es_visible_meta_gen s,
              es_ready := es_ready s @ es_staged s, es_staged := []\<rparr>))"

definition es_has_staged :: "'i engine_stable \<Rightarrow> bool" where
  "es_has_staged s \<longleftrightarrow> es_staged s \<noteq> []"

definition es_hard_state :: "'i engine_stable \<Rightarrow> 'i hard_state" where
  "es_hard_state s = es_durable s"

definition es_submit_write :: "OpId \<Rightarrow> 'i hard_state \<Rightarrow> 'i engine_stable \<Rightarrow> 'i engine_stable" where
  "es_submit_write opid hs s = s\<lparr>es_visible := hs, es_staged := es_staged s @ [Wrote opid]\<rparr>"

definition es_submit_snapshot ::
    "OpId \<Rightarrow> 'i snapshot_meta \<Rightarrow> bytes \<Rightarrow> 'i engine_stable \<Rightarrow> 'i engine_stable" where
  "es_submit_snapshot opid meta data s =
     s\<lparr>es_visible_meta_gen := sm_shape_gen meta, es_snapshot := Some (meta, data),
       es_staged := es_staged s @ [SnapshotWritten opid]\<rparr>"

definition es_snapshot_chunk ::
    "'i engine_stable \<Rightarrow> u64 \<Rightarrow> u64 \<Rightarrow> ('i snapshot_meta \<times> u64 \<times> SnapshotChunkRead) fallible option" where
  "es_snapshot_chunk s = resident_snapshot_chunk (es_snapshot s)"

text \<open>
  Whether the allocator grants the staging buffer is the parameter of \<^const>\<open>staging_new\<close>. An error is
  the store's \<^verbatim>\<open>StagingUnallocatable\<close>.
\<close>

definition es_accept_snapshot_chunk ::
    "(nat \<Rightarrow> bool) \<Rightarrow> 'i snapshot_meta \<Rightarrow> u64 \<Rightarrow> u64 \<Rightarrow> bytes \<Rightarrow> 'i engine_stable \<Rightarrow>
     u64 fallible \<times> 'i engine_stable" where
  "es_accept_snapshot_chunk can_reserve meta total_len offset data s =
     (let boundary = sm_last_index meta
      in if (case es_staging s of Some (m, _) \<Rightarrow> sm_last_index m > boundary | None \<Rightarrow> False) then (Ok 0, s)
         else let s = (case es_staging s of
                         Some (m, stg) \<Rightarrow>
                           if \<not> identity_eq m meta \<or> staging_total_len stg \<noteq> total_len
                           then s\<lparr>es_staging := None\<rparr> else s
                       | None \<Rightarrow> s);
                  fresh = (case es_staging s of
                             Some x \<Rightarrow> Some x
                           | None \<Rightarrow> map_option (Pair meta)
                                       (staging_new can_reserve boundary total_len (es_staging_cap s)))
              in case fresh of
                   None \<Rightarrow> (Err (), s)
                 | Some (m, stg) \<Rightarrow>
                     (case staging_accept offset data stg of
                        (Some c, stg) \<Rightarrow> (Ok c, s\<lparr>es_staging := Some (m, stg)\<rparr>)
                      | (None, _) \<Rightarrow> (Ok 0, s\<lparr>es_staging := None\<rparr>)))"

definition es_take_staged_snapshot ::
    "'i snapshot_meta \<Rightarrow> 'i engine_stable \<Rightarrow> bytes option \<times> 'i engine_stable" where
  "es_take_staged_snapshot meta s =
     (case es_staging s of
        Some (m, stg) \<Rightarrow>
          if identity_eq m meta \<and> is_complete stg then (Some (stg_buf stg), s\<lparr>es_staging := None\<rparr>)
          else (None, s)
      | None \<Rightarrow> (None, s))"

definition es_discard_snapshot_staging :: "'i engine_stable \<Rightarrow> 'i engine_stable" where
  "es_discard_snapshot_staging s = s\<lparr>es_staging := None\<rparr>"

definition es_poll :: "'i engine_stable \<Rightarrow> StableDone fallible option \<times> 'i engine_stable" where
  "es_poll s =
     (case es_ready s of
        [] \<Rightarrow> (None, s)
      | d # ds \<Rightarrow> (Some (Ok d), s\<lparr>es_ready := ds\<rparr>))"

definition es_has_pending :: "'i engine_stable \<Rightarrow> bool" where
  "es_has_pending s \<longleftrightarrow> es_ready s \<noteq> []"

section \<open>The engine\<close>

record 'i group_storage =
  gs_log :: engine_log
  gs_stable :: "'i engine_stable"

definition gs_new :: "nat \<Rightarrow> 'i group_storage" where
  "gs_new staging_cap = \<lparr>gs_log = el_new, gs_stable = es_new staging_cap\<rparr>"

record lineage_record =
  lr_generation :: u64
  lr_floor :: u64
  lr_ceiling :: u64

definition lr_default :: lineage_record where
  "lr_default = \<lparr>lr_generation = 0, lr_floor = 0, lr_ceiling = 0\<rparr>"

definition lr_fold :: "lineage_record \<Rightarrow> lineage_record \<Rightarrow> lineage_record" where
  "lr_fold other r =
     \<lparr>lr_generation = max (lr_generation r) (lr_generation other),
      lr_floor = max (lr_floor r) (lr_floor other),
      lr_ceiling = max (lr_ceiling r) (lr_ceiling other)\<rparr>"

record ('g, 'i) group_engine =
  ge_groups :: "('g, 'i group_storage) btree_map"
  ge_lineage :: "('g, lineage_record) btree_map"
  ge_lineage_staged :: "('g, lineage_record) btree_map"
  ge_boot_epochs :: "('g, u64) btree_map"
  ge_barriers :: u64
  ge_ops_batched :: u64
  ge_staging_cap :: nat

definition ge_new :: "('g, 'i) group_engine" where
  "ge_new =
     \<lparr>ge_groups = [], ge_lineage = [], ge_lineage_staged = [], ge_boot_epochs = [], ge_barriers = 0,
      ge_ops_batched = 0, ge_staging_cap = 2 ^ 64 - 1\<rparr>"

text \<open>\<^verbatim>\<open>entry(gid).or_default()\<close> and a change of what it holds.\<close>

definition or_default ::
    "'g::linorder \<Rightarrow> 'v \<Rightarrow> ('v \<Rightarrow> 'v) \<Rightarrow> ('g, 'v) btree_map \<Rightarrow> ('g, 'v) btree_map" where
  "or_default g d f m = bm_insert g (f (case map_of m g of Some v \<Rightarrow> v | None \<Rightarrow> d)) m"

definition set_snapshot_staging_cap :: "nat \<Rightarrow> ('g, 'i) group_engine \<Rightarrow> ('g, 'i) group_engine" where
  "set_snapshot_staging_cap cap ge =
     ge\<lparr>ge_staging_cap := cap,
        ge_groups := map (\<lambda>(g, s). (g, s\<lparr>gs_stable := (gs_stable s)\<lparr>es_staging_cap := cap\<rparr>\<rparr>)) (ge_groups ge)\<rparr>"

definition ge_has_staged :: "('g, 'i) group_engine \<Rightarrow> bool" where
  "ge_has_staged ge \<longleftrightarrow>
     list_ex (\<lambda>(_, s). el_has_staged (gs_log s) \<or> es_has_staged (gs_stable s)) (ge_groups ge) \<or>
     ge_lineage_staged ge \<noteq> []"

definition gs_release :: "'i group_storage \<Rightarrow> nat \<times> 'i group_storage" where
  "gs_release s =
     (let (n, l) = el_release_staged (gs_log s); (m, st) = es_release_staged (gs_stable s)
      in (n + m, \<lparr>gs_log = l, gs_stable = st\<rparr>))"

text \<open>The barrier.\<close>

definition flush :: "('g::linorder, 'i) group_engine \<Rightarrow> nat \<times> ('g, 'i) group_engine" where
  "flush ge =
     (let rs = map (\<lambda>(g, s). (g, gs_release s)) (ge_groups ge);
          released = sum_list (map (\<lambda>(_, r). fst r) rs) + length (ge_lineage_staged ge)
      in (released,
          ge\<lparr>ge_groups := map (\<lambda>(g, r). (g, snd r)) rs,
             ge_lineage := fold (\<lambda>(g, staged_rec). or_default g lr_default (lr_fold staged_rec))
                             (ge_lineage_staged ge) (ge_lineage ge),
             ge_lineage_staged := [],
             ge_barriers := ge_barriers ge + 1,
             ge_ops_batched := ge_ops_batched ge + of_nat released\<rparr>))"

definition add_group :: "'g::linorder \<Rightarrow> ('g, 'i) group_engine \<Rightarrow> bool \<times> ('g, 'i) group_engine" where
  "add_group g ge =
     (if bm_contains (ge_groups ge) g then (False, ge)
      else (True, ge\<lparr>ge_groups := bm_insert g (gs_new (ge_staging_cap ge)) (ge_groups ge)\<rparr>))"

definition remove_group :: "'g::linorder \<Rightarrow> ('g, 'i) group_engine \<Rightarrow> bool \<times> ('g, 'i) group_engine" where
  "remove_group g ge =
     (case map_of (ge_groups ge) g of
        None \<Rightarrow> (False, ge)
      | Some s \<Rightarrow>
          let ge = ge\<lparr>ge_groups := AList.delete g (ge_groups ge)\<rparr>;
              inherited = max (el_shape_ceiling (gs_log s)) (es_meta_ceiling (gs_stable s))
          in (True,
              if inherited \<noteq> 0
              then ge\<lparr>ge_lineage_staged :=
                     or_default g lr_default (\<lambda>r. r\<lparr>lr_ceiling := max (lr_ceiling r) inherited\<rparr>)
                       (ge_lineage_staged ge)\<rparr>
              else ge))"

definition contains_group :: "'g \<Rightarrow> ('g, 'i) group_engine \<Rightarrow> bool" where
  "contains_group g ge = bm_contains (ge_groups ge) g"

definition stores_of :: "'g \<Rightarrow> ('g, 'i) group_engine \<Rightarrow> (engine_log \<times> 'i engine_stable) option" where
  "stores_of g ge = map_option (\<lambda>s. (gs_log s, gs_stable s)) (map_of (ge_groups ge) g)"

definition next_boot_epoch :: "'g::linorder \<Rightarrow> ('g, 'i) group_engine \<Rightarrow> u64 option \<times> ('g, 'i) group_engine" where
  "next_boot_epoch g ge =
     (if \<not> bm_contains (ge_groups ge) g then (None, ge)
      else let counter = (case map_of (ge_boot_epochs ge) g of Some c \<Rightarrow> c | None \<Rightarrow> 0)
           in case checked_add counter 1 of
                None \<Rightarrow> (None, ge\<lparr>ge_boot_epochs := bm_insert g counter (ge_boot_epochs ge)\<rparr>)
              | Some n \<Rightarrow> (Some n, ge\<lparr>ge_boot_epochs := bm_insert g n (ge_boot_epochs ge)\<rparr>))"

definition record_field :: "(lineage_record \<Rightarrow> u64) \<Rightarrow> 'g \<Rightarrow> ('g, lineage_record) btree_map \<Rightarrow> u64" where
  "record_field f g m = (case map_of m g of Some r \<Rightarrow> f r | None \<Rightarrow> 0)"

definition group_floor :: "'g \<Rightarrow> ('g, 'i) group_engine \<Rightarrow> u64" where
  "group_floor g ge = max (record_field lr_floor g (ge_lineage ge)) (record_field lr_floor g (ge_lineage_staged ge))"

definition group_gen :: "'g \<Rightarrow> ('g, 'i) group_engine \<Rightarrow> u64" where
  "group_gen g ge =
     max (record_field lr_generation g (ge_lineage ge)) (record_field lr_generation g (ge_lineage_staged ge))"

definition set_group_floor :: "'g::linorder \<Rightarrow> u64 \<Rightarrow> ('g, 'i) group_engine \<Rightarrow> ('g, 'i) group_engine" where
  "set_group_floor g flr ge =
     (if flr = 0 then ge
      else ge\<lparr>ge_lineage_staged :=
             or_default g lr_default (\<lambda>r. r\<lparr>lr_floor := max (lr_floor r) flr\<rparr>) (ge_lineage_staged ge)\<rparr>)"

definition set_group_gen :: "'g::linorder \<Rightarrow> u64 \<Rightarrow> ('g, 'i) group_engine \<Rightarrow> ('g, 'i) group_engine" where
  "set_group_gen g gen ge =
     (if gen = 0 then ge
      else ge\<lparr>ge_lineage_staged :=
             or_default g lr_default (\<lambda>r. r\<lparr>lr_generation := max (lr_generation r) gen\<rparr>) (ge_lineage_staged ge)\<rparr>)"

text \<open>The floor that fences every generation the group's records and stores name.\<close>

definition storage_ceiling :: "'g \<Rightarrow> ('g, 'i) group_engine \<Rightarrow> u64" where
  "storage_ceiling g ge =
     (case map_of (ge_groups ge) g of
        Some s \<Rightarrow> max (el_shape_ceiling (gs_log s)) (es_meta_ceiling (gs_stable s))
      | None \<Rightarrow> 0)"

definition removal_ceiling :: "'g \<Rightarrow> ('g, 'i) group_engine \<Rightarrow> u64" where
  "removal_ceiling g ge =
     max (max (group_gen g ge)
            (max (record_field lr_ceiling g (ge_lineage ge)) (record_field lr_ceiling g (ge_lineage_staged ge))))
       (storage_ceiling g ge)"

definition removal_floor :: "'g \<Rightarrow> ('g, 'i) group_engine \<Rightarrow> u64" where
  "removal_floor g ge =
     (if (case map_of (ge_groups ge) g of Some s \<Rightarrow> el_shape_faulted (gs_log s) | None \<Rightarrow> False)
      then HIGHEST_WORKING_GENERATION
      else let ceiling = removal_ceiling g ge
           in if ceiling = 0 then 0
              else min (saturating_add ceiling 1) HIGHEST_WORKING_GENERATION)"

end
