(* ===== verification/Engine_Laws.thy ===== *)
theory Engine_Laws
  imports Engine
begin

text \<open>
  The representation invariant of the engine's log and the laws its operations obey: the entries are
  numbered one by one from the offset, the shape marks are those of the entries the log retains, and
  every operation keeps it so. The reads then answer the range they are asked for, and the ceiling of
  the shape marks is a function of the log's content.
\<close>

section \<open>The representation invariant\<close>

text \<open>The marks a list of entries leaves.\<close>

definition shape_mark :: "('i, 'f, 'c, 'n, 'p, 'r, 'x, 'y) env \<Rightarrow> entry \<Rightarrow> (index \<times> u64) option" where
  "shape_mark A e =
     (case shape_entry_move A e of ValidMove g \<Rightarrow> if g \<noteq> 0 then Some (en_index e, g) else None | _ \<Rightarrow> None)"

definition fault_mark :: "('i, 'f, 'c, 'n, 'p, 'r, 'x, 'y) env \<Rightarrow> entry \<Rightarrow> (index \<times> ShapeFault) option" where
  "fault_mark A e = (case shape_entry_move A e of InvalidMove x \<Rightarrow> Some (en_index e, x) | _ \<Rightarrow> None)"

text \<open>The entries that follow an index one by one, without reaching the end of the counter.\<close>

definition numbered :: "index \<Rightarrow> entry list \<Rightarrow> bool" where
  "numbered offset es \<longleftrightarrow>
     unat offset + length es < 2 ^ 64 - 1 \<and>
     (\<forall>k < length es. unat (en_index (es ! k)) = Suc (unat offset + k))"

definition el_ok :: "('i, 'f, 'c, 'n, 'p, 'r, 'x, 'y) env \<Rightarrow> engine_log \<Rightarrow> bool" where
  "el_ok A l \<longleftrightarrow>
     numbered (el_offset l) (el_entries l) \<and>
     el_shape_contribs l = List.map_filter (shape_mark A) (el_entries l) \<and>
     el_shape_faults l = List.map_filter (fault_mark A) (el_entries l)"

lemma numbered_Nil [simp]: "numbered offset [] \<longleftrightarrow> unat offset < 2 ^ 64 - 1"
  by (simp add: numbered_def)

lemma numbered_bound: "numbered offset es \<Longrightarrow> unat offset + length es < 2 ^ 64 - 1"
  by (simp add: numbered_def)

lemma numbered_nth: "numbered offset es \<Longrightarrow> k < length es \<Longrightarrow> unat (en_index (es ! k)) = Suc (unat offset + k)"
  by (simp add: numbered_def)

lemma numbered_range:
  "numbered offset es \<Longrightarrow> e \<in> set es \<Longrightarrow>
   unat offset < unat (en_index e) \<and> unat (en_index e) \<le> unat offset + length es"
  by (auto simp: in_set_conv_nth numbered_nth)

lemma numbered_Cons:
  "numbered offset (e # es) \<longleftrightarrow>
   unat offset + 1 < 2 ^ 64 - 1 \<and> unat (en_index e) = Suc (unat offset) \<and> numbered (en_index e) es"
  by (auto simp: numbered_def nth_Cons less_Suc_eq_0_disj split: nat.splits)

lemma unat_bound: "unat x < 2 ^ 64" for x :: u64
  using unsigned_less [of x, where ?'a = nat] by simp

lemma unat_gap: "a < b \<Longrightarrow> unat (b - a - 1) = unat b - unat a - 1" for a b :: u64
  by (simp add: unat_sub word_le_nat_alt word_less_nat_alt)

lemma unat_of_offset:
  "numbered offset es \<Longrightarrow> unat (offset + of_nat (length es)) = unat offset + length es"
  using numbered_bound [of offset es] by (simp add: unat_word_ariths unat_of_nat)

lemma unat_el_last_index [simp]:
  "el_ok A l \<Longrightarrow> unat (el_last_index l) = unat (el_offset l) + length (el_entries l)"
  by (simp add: el_ok_def el_last_index_def unat_of_offset)

lemma unat_el_first_index [simp]: "el_ok A l \<Longrightarrow> unat (el_first_index l) = Suc (unat (el_offset l))"
  using numbered_bound [of "el_offset l" "el_entries l"]
  by (simp add: el_ok_def el_first_index_def unat_word_ariths)

section \<open>Cutting a numbered list\<close>

lemma numbered_take_filter:
  "numbered offset es \<Longrightarrow> take k es = filter (\<lambda>e. unat (en_index e) \<le> unat offset + k) es"
proof (induction es arbitrary: offset k)
  case (Cons e es)
  have e: "unat (en_index e) = Suc (unat offset)" and n: "numbered (en_index e) es"
    using Cons.prems by (simp_all add: numbered_Cons)
  note ih = Cons.IH [OF n]
  show ?case
  proof (cases k)
    case 0
    then show ?thesis using e numbered_range [OF n] by (fastforce intro!: filter_False [symmetric])
  next
    case (Suc j)
    then show ?thesis using e ih [of j] by simp
  qed
qed simp

lemma numbered_drop_filter:
  assumes "numbered offset es"
  shows "drop k es = filter (\<lambda>e. unat offset + k < unat (en_index e)) es"
  using assms
proof (induction es arbitrary: offset k)
  case (Cons e es)
  have e: "unat (en_index e) = Suc (unat offset)" and n: "numbered (en_index e) es"
    using Cons.prems by (simp_all add: numbered_Cons)
  note ih = Cons.IH [OF n]
  show ?case
  proof (cases k)
    case 0
    then show ?thesis using e numbered_range [OF n] by (fastforce intro!: filter_True [symmetric])
  next
    case (Suc j)
    then show ?thesis using e ih [of j] by simp
  qed
qed simp

lemma numbered_take: "numbered offset es \<Longrightarrow> numbered offset (take k es)"
  by (auto simp: numbered_def)

lemma numbered_drop:
  "numbered offset es \<Longrightarrow> k \<le> length es \<Longrightarrow> unat offset' = unat offset + k \<Longrightarrow> numbered offset' (drop k es)"
  by (auto simp: numbered_def)

lemma numbered_append:
  "numbered offset xs \<Longrightarrow> unat offset' = unat offset + length xs \<Longrightarrow> numbered offset' ys \<Longrightarrow>
   numbered offset (xs @ ys)"
  by (auto simp: numbered_def nth_append)

text \<open>Ascending marks are cut by a filter.\<close>

lemma map_filter_marks:
  assumes "\<And>e x. f e = Some x \<Longrightarrow> fst x = en_index e"
  shows "List.map_filter f (filter (\<lambda>e. P (en_index e)) es) = filter (\<lambda>x. P (fst x)) (List.map_filter f es)"
  using assms by (induction es) (auto simp: List.map_filter_simps split: option.splits)

lemma map_filter_append: "List.map_filter f (xs @ ys) = List.map_filter f xs @ List.map_filter f ys"
  by (simp add: List.map_filter_def)

lemma shape_mark_index: "shape_mark A e = Some x \<Longrightarrow> fst x = en_index e"
  by (auto simp: shape_mark_def split: ShapeMove.splits if_splits)

lemma fault_mark_index: "fault_mark A e = Some x \<Longrightarrow> fst x = en_index e"
  by (auto simp: fault_mark_def split: ShapeMove.splits)

lemma marks_filtered:
  "List.map_filter (shape_mark A) (filter (\<lambda>e. P (en_index e)) es) =
     filter (\<lambda>x. P (fst x)) (List.map_filter (shape_mark A) es)"
  "List.map_filter (fault_mark A) (filter (\<lambda>e. P (en_index e)) es) =
     filter (\<lambda>x. P (fst x)) (List.map_filter (fault_mark A) es)"
  by (rule map_filter_marks, erule shape_mark_index) (rule map_filter_marks, erule fault_mark_index)

lemma marks_ascending:
  assumes "numbered offset es" and "\<And>e x. f e = Some x \<Longrightarrow> fst x = en_index e"
  shows "sorted_wrt (<) (map fst (List.map_filter f es))"
  using assms(1)
proof (induction es arbitrary: offset)
  case (Cons e es)
  have "e' \<in> set es \<Longrightarrow> en_index e < en_index e'" for e'
    using Cons.prems numbered_range [of "en_index e" es e'] by (simp add: numbered_Cons word_less_nat_alt)
  moreover have "\<exists>e' \<in> set es. fst x = en_index e'" if "x \<in> set (List.map_filter f es)" for x
    using that assms(2) by (fastforce simp: List.map_filter_def)
  ultimately have "x \<in> set (List.map_filter f es) \<Longrightarrow> en_index e < fst x" for x
    by fastforce
  then show ?case
    using Cons.IH [of "en_index e"] Cons.prems assms(2) [of e]
    by (cases "f e") (simp_all add: List.map_filter_simps numbered_Cons)
qed (simp add: List.map_filter_simps)

lemma pop_back_filter:
  "sorted_wrt (<) (map fst q) \<Longrightarrow> pop_back_from fi q = filter (\<lambda>x. fst x < fi) q"
proof (induction q rule: rev_induct)
  case (snoc x q)
  have "filter (\<lambda>y. fst y < fi) q = q" if "fst x < fi"
    using snoc.prems that by (fastforce simp: sorted_wrt_append intro: filter_True)
  then show ?case
    using snoc by (cases x) (auto simp: pop_back_from_def sorted_wrt_append not_less)
qed (simp add: pop_back_from_def)

lemma pop_front_filter:
  "sorted_wrt (<) (map fst q) \<Longrightarrow> pop_front_upto i q = filter (\<lambda>x. i < fst x) q"
proof (induction q)
  case (Cons x q)
  have "filter (\<lambda>y. i < fst y) q = q" if "i < fst x"
    using Cons.prems that by (fastforce intro: filter_True)
  then show ?case
    using Cons by (cases x) (auto simp: pop_front_upto_def not_le)
qed (simp add: pop_front_upto_def)

section \<open>The operations keep the invariant\<close>

lemma el_new_ok [simp]: "el_ok A el_new"
  by (simp add: el_ok_def el_new_def List.map_filter_simps)

lemma el_restore_ok: "unat i < 2 ^ 64 - 1 \<Longrightarrow> el_ok A (el_restore i t l)"
  by (simp add: el_ok_def el_restore_def List.map_filter_simps)

lemma el_release_staged_ok [simp]: "el_ok A (snd (el_release_staged l)) = el_ok A l"
  by (simp add: el_ok_def el_release_staged_def)

lemma el_poll_ok [simp]: "el_ok A (snd (el_poll l)) = el_ok A l"
  by (simp add: el_ok_def el_poll_def split: list.split)

lemma el_cut_ok:
  assumes "el_ok A l"
    and "el_entries l' = filter (\<lambda>e. P (en_index e)) (el_entries l)" and "numbered (el_offset l') (el_entries l')"
    and "el_shape_contribs l' = filter (\<lambda>x. P (fst x)) (el_shape_contribs l)"
    and "el_shape_faults l' = filter (\<lambda>x. P (fst x)) (el_shape_faults l)"
  shows "el_ok A l'"
  using assms by (simp add: el_ok_def marks_filtered)

lemma el_marks_cut:
  assumes "el_ok A l"
  shows "pop_back_from fi (el_shape_contribs l) = filter (\<lambda>x. fst x < fi) (el_shape_contribs l)"
    "pop_back_from fi (el_shape_faults l) = filter (\<lambda>x. fst x < fi) (el_shape_faults l)"
    "pop_front_upto fi (el_shape_contribs l) = filter (\<lambda>x. fi < fst x) (el_shape_contribs l)"
    "pop_front_upto fi (el_shape_faults l) = filter (\<lambda>x. fi < fst x) (el_shape_faults l)"
  using assms marks_ascending [OF _ shape_mark_index] marks_ascending [OF _ fault_mark_index]
  by (auto simp: el_ok_def intro!: pop_back_filter pop_front_filter)

text \<open>A truncation keeps exactly the entries below it.\<close>

lemma el_truncate_take:
  assumes "el_ok A l" and "el_offset l < fi"
  shows "el_entries (el_truncate fi l) = take (unat fi - unat (el_offset l) - 1) (el_entries l)"
proof -
  have "unat (el_offset l + 1) = Suc (unat (el_offset l))"
    using unat_el_first_index [OF assms(1)] by (simp add: el_first_index_def)
  then have "(if fi \<le> el_offset l + 1 then 0 else unat (fi - el_offset l - 1)) = unat fi - unat (el_offset l) - 1"
    using unat_gap [OF assms(2)] by (auto simp: word_le_nat_alt)
  then show ?thesis by (simp add: el_truncate_def Let_def)
qed

lemma el_truncate_entries:
  assumes "el_ok A l" and "el_offset l < fi"
  shows "el_entries (el_truncate fi l) = filter (\<lambda>e. en_index e < fi) (el_entries l)"
proof -
  have "numbered (el_offset l) (el_entries l)" using assms(1) by (simp add: el_ok_def)
  then show ?thesis
    using assms(2) numbered_take_filter [of "el_offset l" "el_entries l" "unat fi - unat (el_offset l) - 1"]
    by (auto simp: el_truncate_take [OF assms] word_less_nat_alt intro!: filter_cong)
qed

lemma el_truncate_ok:
  assumes "el_ok A l" and "el_offset l < fi"
  shows "el_ok A (el_truncate fi l)"
proof (rule el_cut_ok [OF assms(1) el_truncate_entries [OF assms]])
  show "numbered (el_offset (el_truncate fi l)) (el_entries (el_truncate fi l))"
    using assms(1) by (simp add: el_ok_def el_truncate_def Let_def numbered_take)
qed (simp_all add: el_truncate_def Let_def el_marks_cut [OF assms(1)])

lemma el_note_shapes:
  "fold (el_note_shape A) es l =
     l\<lparr>el_shape_contribs := el_shape_contribs l @ List.map_filter (shape_mark A) es,
       el_shape_faults := el_shape_faults l @ List.map_filter (fault_mark A) es\<rparr>"
  by (induction es arbitrary: l)
    (simp_all add: List.map_filter_simps el_note_shape_def shape_mark_def fault_mark_def split: ShapeMove.split)

text \<open>
  An append the core may submit: entries numbered one by one, from above the offset and from at most
  one above the last index.
\<close>

definition append_ok :: "entry list \<Rightarrow> engine_log \<Rightarrow> bool" where
  "append_ok es l =
     (case es of
        [] \<Rightarrow> True
      | e # _ \<Rightarrow> el_offset l < en_index e \<and> unat (en_index e) \<le> Suc (unat (el_last_index l)) \<and>
          numbered (en_index e - 1) es)"

lemma el_truncate_length:
  assumes "el_ok A l" and "el_offset l < fi" and "unat fi \<le> Suc (unat (el_last_index l))"
  shows "unat (el_offset l) + length (el_entries (el_truncate fi l)) = unat fi - 1"
  using assms by (simp add: el_truncate_take [OF assms(1,2)] word_less_nat_alt)

lemma el_submit_append_entries:
  "el_entries (el_submit_append A opid es l) =
     (case es of [] \<Rightarrow> el_entries l | e # _ \<Rightarrow> el_entries (el_truncate (en_index e) l) @ es)"
  by (simp add: el_submit_append_def Let_def el_note_shapes split: list.split)

lemma el_submit_append_offset [simp]: "el_offset (el_submit_append A opid es l) = el_offset l"
  by (simp add: el_submit_append_def Let_def el_note_shapes el_truncate_def split: list.split)

lemma el_submit_append_ok:
  assumes "el_ok A l" and "append_ok es l"
  shows "el_ok A (el_submit_append A opid es l)"
proof (cases es)
  case Nil
  then show ?thesis using assms(1) by (simp add: el_submit_append_def el_ok_def)
next
  case (Cons e xs)
  let ?t = "el_truncate (en_index e) l"
  have t: "el_ok A ?t" and off: "el_offset ?t = el_offset l"
    using assms Cons by (auto simp: append_ok_def el_truncate_ok) (simp add: el_truncate_def Let_def)
  have "unat (en_index e - 1) = unat (en_index e) - 1"
    using assms(2) Cons by (simp add: append_ok_def unat_sub word_le_nat_alt word_less_nat_alt)
  then have "numbered (el_offset l) (el_entries ?t @ es)"
    using numbered_append [of "el_offset l" "el_entries ?t" "en_index e - 1" es] t off assms Cons
      el_truncate_length [of A l "en_index e"]
    by (auto simp: el_ok_def append_ok_def)
  moreover have c: "(case es of [] \<Rightarrow> l | e # _ \<Rightarrow> el_truncate (en_index e) l) = ?t"
    using Cons by simp
  ultimately show ?thesis
    using t off by (simp add: el_ok_def el_submit_append_def c Let_def el_note_shapes map_filter_append)
qed

text \<open>A compaction keeps exactly the entries above it.\<close>

lemma el_compact_ok:
  assumes "el_ok A l"
  shows "el_ok A (el_compact up l)"
proof (cases "up \<le> el_offset l \<or> el_entries l = []")
  case False
  define b where "b = (if up > el_last_index l then el_last_index l else up)"
  have n: "numbered (el_offset l) (el_entries l)" using assms by (simp add: el_ok_def)
  have b: "el_offset l < b" "unat b \<le> unat (el_offset l) + length (el_entries l)"
    using False assms by (auto simp: b_def word_less_nat_alt word_le_nat_alt)
  let ?k = "min (unat (b - el_offset l)) (length (el_entries l))"
  have k: "?k = unat b - unat (el_offset l)"
    using b by (simp add: unat_sub word_less_nat_alt word_le_nat_alt)
  have entries: "el_entries (el_compact up l) = drop ?k (el_entries l)" and off: "el_offset (el_compact up l) = b"
    using False by (auto simp: el_compact_def Let_def b_def)
  show ?thesis
  proof (rule el_cut_ok [OF assms, where P = "\<lambda>i. b < i"])
    show "el_entries (el_compact up l) = filter (\<lambda>e. b < en_index e) (el_entries l)"
      using b k by (simp add: entries numbered_drop_filter [OF n] word_less_nat_alt)
    show "numbered (el_offset (el_compact up l)) (el_entries (el_compact up l))"
      using n b k by (simp add: entries off numbered_drop word_less_nat_alt)
  qed (use False in \<open>simp_all add: el_compact_def Let_def b_def [symmetric] el_marks_cut [OF assms]\<close>)
qed (use assms in \<open>auto simp: el_compact_def\<close>)

section \<open>Reads\<close>

lemma range_low: "o' < i \<Longrightarrow> i \<le> o' + n \<Longrightarrow> o' + min (l - o' - 1) n < i \<longleftrightarrow> l \<le> i" for i :: nat
  by (simp add: min_def) linarith

lemma range_high: "o' < i \<Longrightarrow> i \<le> o' + n \<Longrightarrow> i \<le> o' + min (h - o' - 1) n \<longleftrightarrow> i < h" for i :: nat
  by (simp add: min_def) linarith

text \<open>A read is the entries of the range, whatever the range.\<close>

lemma el_read_entries:
  assumes "el_ok A l"
  shows "el_read l lo hi cap = Ok (EntriesReady (filter (\<lambda>e. lo \<le> en_index e \<and> en_index e < hi) (el_entries l)))"
proof -
  let ?es = "el_entries l" and ?o = "unat (el_offset l)"
  have n: "numbered (el_offset l) ?es" using assms by (simp add: el_ok_def)
  define a where "a = min (if lo \<le> el_offset l then 0 else unat (lo - el_offset l - 1)) (length ?es)"
  define h where "h = (if hi \<le> el_offset l then 0 else unat (min (hi - el_offset l - 1) (of_nat (length ?es))))"
  have len: "unat (of_nat (length ?es) :: u64) = length ?es"
    using numbered_bound [OF n] by (simp add: unat_of_nat)
  have a: "a = min (unat lo - ?o - 1) (length ?es)"
    using unat_gap [of "el_offset l" lo] by (auto simp: a_def not_le word_le_nat_alt word_less_nat_alt)
  have h: "h = min (unat hi - ?o - 1) (length ?es)"
    using unat_gap [of "el_offset l" hi] len
    by (auto simp: h_def not_le word_le_nat_alt word_less_nat_alt min_def)
  have "take (min (max h a) (length ?es) - a) (drop a ?es) = filter (\<lambda>e. lo \<le> en_index e \<and> en_index e < hi) ?es"
  proof -
    have "take (min (max h a) (length ?es) - a) (drop a ?es) = drop a (take (max h a) ?es)"
      by (simp add: drop_take min_def a_def)
    also have "\<dots> = filter (\<lambda>e. ?o + a < unat (en_index e)) (filter (\<lambda>e. unat (en_index e) \<le> ?o + max h a) ?es)"
      using numbered_take_filter [OF n] numbered_drop_filter [OF numbered_take [OF n]] by simp
    also have "\<dots> = filter (\<lambda>e. lo \<le> en_index e \<and> en_index e < hi) ?es"
      unfolding filter_filter
    proof (rule filter_cong [OF refl])
      fix e assume "e \<in> set ?es"
      with numbered_range [OF n] have r: "?o < unat (en_index e)" "unat (en_index e) \<le> ?o + length ?es" by auto
      have "unat (en_index e) \<le> ?o + max h a \<and> ?o + a < unat (en_index e) \<longleftrightarrow>
          unat (en_index e) \<le> ?o + h \<and> ?o + a < unat (en_index e)" by (auto simp: max_def)
      then show "(unat (en_index e) \<le> ?o + max h a \<and> ?o + a < unat (en_index e)) =
          (lo \<le> en_index e \<and> en_index e < hi)"
        unfolding word_le_nat_alt word_less_nat_alt a h
        using range_low [OF r, of "unat lo"] range_high [OF r, of "unat hi"] by auto
    qed
    finally show ?thesis .
  qed
  then show ?thesis
    by (simp add: el_read_def Let_def a_def h_def)
qed

end
