(* ===== verification/Log_Store.thy ===== *)
theory Log_Store
  imports Loops Engine_Laws
begin

text \<open>
  The contract of \<^verbatim>\<open>sailing-proto/src/storage.rs\<close> (the trait \<^verbatim>\<open>LogStore\<close>) that the scans of a
  restart rely on, as a locale: reads in the domain are aligned with the range they were asked for,
  and a compaction and a restore keep the store well formed. A store that is resident answers every
  read of its domain with entries. Under the contract every scan ends within the bound the model gives
  it; the log of the multi-group engine meets it.
\<close>

section \<open>The contract\<close>

locale log_store =
  fixes E :: "('i::linorder, 'f, 'c, 'n, 'p, 'r, 'l, 's) env" and ok :: "'l \<Rightarrow> bool"
  assumes entries_aligned:
      "ok l \<Longrightarrow> log_first_index E l \<le> lo \<Longrightarrow> hi \<le> counter_next (log_last_index E l) \<Longrightarrow>
       log_entries E l lo hi budget = Ok (EntriesReady es) \<Longrightarrow> k < length es \<Longrightarrow>
       unat (en_index (es ! k)) = unat lo + k \<and> en_index (es ! k) < hi"
    and compact_keeps: "ok l \<Longrightarrow> ok (log_compact E n l)"
    and compact_bounds:
      "ok l \<Longrightarrow> log_first_index E l \<le> n \<Longrightarrow> n \<le> log_last_index E l \<Longrightarrow>
       log_first_index E (log_compact E n l) = counter_next n \<and>
       log_last_index E (log_compact E n l) = log_last_index E l"
    and restore_keeps: "ok l \<Longrightarrow> n \<noteq> u64_max \<Longrightarrow> ok (log_restore E n t l)"
begin

text \<open>A batch advances: it ends at or above its start, below its end.\<close>

lemma batch_end:
  assumes "ok l" "log_first_index E l \<le> lo" "hi \<le> counter_next (log_last_index E l)"
    and "log_entries E l lo hi budget = Ok (EntriesReady (e # es))"
  shows "lo \<le> en_index (List.last (e # es))" "en_index (List.last (e # es)) < hi"
  using entries_aligned [OF assms, of "length es"] last_conv_nth [of "e # es"]
  by (simp_all add: word_le_nat_alt del: last.simps)

lemma batch_next:
  assumes "ok l" "log_first_index E l \<le> lo" "hi \<le> counter_next (log_last_index E l)"
    and "log_entries E l lo hi budget = Ok (EntriesReady (e # es))"
  shows "unat lo < unat (counter_next (en_index (List.last (e # es))))"
proof -
  let ?x = "en_index (List.last (e # es))"
  have "?x \<noteq> u64_max"
    using batch_end(2) [OF assms] word_order.extremum_strict [of hi] by auto
  then have "?x < counter_next ?x" by (simp add: less_counter_next)
  with batch_end(1) [OF assms] show ?thesis
    using order.strict_trans1 by (auto simp: word_less_nat_alt [symmetric])
qed

section \<open>The scans end\<close>

lemma scan_log_loop_returns:
  assumes "ok l" and "log_first_index E l \<le> idx"
    and "Suc (unat (log_last_index E l)) - unat idx \<le> fuel"
  shows "scan_log_loop E l f (log_last_index E l) fuel idx acc \<noteq> None"
  using assms(2,3)
proof (induction fuel arbitrary: idx acc)
  case (Suc fuel)
  let ?hi = "min (counter_next (log_last_index E l)) (saturating_add idx MAX_READ_BATCH_ENTRIES)"
  have again: "scan_log_loop E l f (log_last_index E l) fuel
      (counter_next (en_index (List.last (e # es)))) acc' \<noteq> None"
    if r: "log_entries E l idx ?hi (2 ^ 20) = Ok (EntriesReady (e # es))"
    for e es acc'
  proof (rule Suc.IH)
    have d: "unat idx < unat (counter_next (en_index (List.last (e # es))))"
      by (rule batch_next [OF assms(1) Suc.prems(1) _ r]) simp
    then show "log_first_index E l \<le> counter_next (en_index (List.last (e # es)))"
      using Suc.prems(1) by (simp add: word_le_nat_alt)
    show "Suc (unat (log_last_index E l)) - unat (counter_next (en_index (List.last (e # es)))) \<le> fuel"
      using d Suc.prems(2) by linarith
  qed
  show ?case
    using again by (auto simp: Let_def split: result.splits EntriesRead.splits list.splits)
qed (simp add: word_le_nat_alt)

lemma scan_log_returns: "ok l \<Longrightarrow> scan_log E f l \<noteq> None"
  unfolding scan_log_def Let_def by (rule scan_log_loop_returns) simp_all

lemma scan_freeze_loop_returns:
  assumes "ok l" and "log_first_index E l \<le> idx"
    and "Suc (unat (log_last_index E l)) - unat idx \<le> fuel"
  shows "scan_freeze_loop E l (log_last_index E l) fuel idx queue \<noteq> None"
  using assms(2,3)
proof (induction fuel arbitrary: idx queue)
  case (Suc fuel)
  let ?hi = "min (counter_next (log_last_index E l)) (saturating_add idx MAX_READ_BATCH_ENTRIES)"
  have again: "scan_freeze_loop E l (log_last_index E l) fuel
      (counter_next (en_index (List.last (e # es)))) queue' \<noteq> None"
    if r: "log_entries E l idx ?hi (2 ^ 20) = Ok (EntriesReady (e # es))"
    for e es queue'
  proof (rule Suc.IH)
    have d: "unat idx < unat (counter_next (en_index (List.last (e # es))))"
      by (rule batch_next [OF assms(1) Suc.prems(1) _ r]) simp
    then show "log_first_index E l \<le> counter_next (en_index (List.last (e # es)))"
      using Suc.prems(1) by (simp add: word_le_nat_alt)
    show "Suc (unat (log_last_index E l)) - unat (counter_next (en_index (List.last (e # es)))) \<le> fuel"
      using d Suc.prems(2) by linarith
  qed
  show ?case
    using again by (auto simp: Let_def split: result.splits EntriesRead.splits list.splits)
qed (simp add: word_le_nat_alt)

lemma scan_freeze_pending_returns:
  "ok l \<Longrightarrow> log_first_index E l \<le> counter_next applied \<Longrightarrow> scan_freeze_pending E l applied \<noteq> None"
  unfolding scan_freeze_pending_def Let_def by (rule scan_freeze_loop_returns) simp_all

text \<open>So does the walk a candidate makes over the committed entries above a park.\<close>

lemma superseded_loop_returns:
  assumes "ok l" and "log_first_index E l \<le> cursor" and "stop \<le> counter_next (log_last_index E l)"
    and "unat stop - unat cursor \<le> fuel"
  shows "superseded_loop E l stop fuel cursor \<noteq> None"
  using assms(2,4)
proof (induction fuel arbitrary: cursor)
  case (Suc fuel)
  have again: "superseded_loop E l stop fuel (counter_next (en_index (List.last (e # es)))) \<noteq> None"
    if r: "log_entries E l cursor stop (2 ^ 20) = Ok (EntriesReady (e # es))" for e es
  proof (rule Suc.IH)
    have d: "unat cursor < unat (counter_next (en_index (List.last (e # es))))"
      by (rule batch_next [OF assms(1) Suc.prems(1) assms(3) r])
    then show "log_first_index E l \<le> counter_next (en_index (List.last (e # es)))"
      using Suc.prems(1) by (simp add: word_le_nat_alt)
    show "unat stop - unat (counter_next (en_index (List.last (e # es)))) \<le> fuel"
      using d Suc.prems(2) by linarith
  qed
  show ?case
    using again by (auto split: result.splits EntriesRead.splits list.splits)
qed (simp add: word_less_nat_alt)

end

section \<open>What a restart reads is in the domain\<close>

lemma restore_from_snapshot_applied:
  "restore_from_snapshot E config snap fsm pr = (applied, tr, fsm', None) \<Longrightarrow>
   pr = None \<and>
   (case snap of None \<Rightarrow> applied = 0 | Some (meta, _) \<Rightarrow> applied = sm_last_index meta \<and> applied \<noteq> u64_max)"
  by (auto simp: restore_from_snapshot_def Let_def split: option.splits if_splits result.splits prod.splits)

lemma scan_unless_poisoned_returns:
  "(pr = None \<Longrightarrow> scan \<noteq> None) \<Longrightarrow> scan_unless_poisoned pr v scan \<noteq> None"
  by (auto simp: scan_unless_poisoned_def split: option.splits result.splits)

lemma scan_unless_poisoned_clean:
  "scan_unless_poisoned pr v scan = Some (m, None) \<Longrightarrow> pr = None"
  by (auto simp: scan_unless_poisoned_def split: if_splits)

lemma lease_of_restart_clean:
  "lease_of_restart hs config now prior pr = (fl, fence, None) \<Longrightarrow> pr = None"
  by (auto simp: lease_of_restart_def split: LeaseReconcile.splits if_splits)

lemma endpoint_recovered_poisoned [simp]:
  "is_poisoned (endpoint_recovered config t rng fsm be hs last_i applied commit tr sf fence mw mp mu snap pr)
     \<longleftrightarrow> pr \<noteq> None"
  by (simp add: endpoint_recovered_def Let_def is_poisoned_def)

lemma endpoint_recovered_applied [simp]:
  "ep_applied (endpoint_recovered config t rng fsm be hs last_i applied commit tr sf fence mw mp mu snap pr) = applied"
  "ep_commit (endpoint_recovered config t rng fsm be hs last_i applied commit tr sf fence mw mp mu snap pr) = commit"
  "ep_term (endpoint_recovered config t rng fsm be hs last_i applied commit tr sf fence mw mp mu snap pr) = hs_term hs"
  "ep_voted_for (endpoint_recovered config t rng fsm be hs last_i applied commit tr sf fence mw mp mu snap pr) = hs_vote hs"
  by (simp_all add: endpoint_recovered_def Let_def)

context log_store
begin

text \<open>After the reconciliation the log starts at or below the first entry to apply and holds the snapshot's end.\<close>

lemma reconcile_log_domain:
  assumes "ok l" and "reconcile_log E hc nt None l = (None, l')"
    and "\<And>n t. nt = Some (n, t) \<Longrightarrow> n \<noteq> u64_max"
  defines "applied \<equiv> (case nt of None \<Rightarrow> 0 | Some (n, _) \<Rightarrow> n)"
  shows "ok l' \<and> log_first_index E l' \<le> counter_next applied \<and> applied \<le> log_last_index E l'"
proof (cases nt)
  case None
  then show ?thesis
    using assms(1,2)
    by (auto simp: applied_def reconcile_log_def reconcile_restart_log_def Let_def counter_next_eq not_less
        split: if_splits)
next
  case (Some nt')
  obtain n t where nt: "nt = Some (n, t)" using Some by (cases nt') auto
  have n: "n \<noteq> u64_max" by (rule assms(3) [OF nt])
  have restored: "ok (log_restore E n t l)" by (rule restore_keeps [OF assms(1) n])
  have compacted: "log_first_index E (log_compact E n l) = counter_next n \<and>
      log_last_index E (log_compact E n l) = log_last_index E l"
    if "\<not> counter_next n < log_first_index E l" "log_first_index E l \<noteq> counter_next n"
      "\<not> log_last_index E l < n"
    using that compact_bounds [OF assms(1), of n] n
    by (auto simp: less_counter_next_iff [symmetric] not_less)
  show ?thesis
    using assms(1,2) nt restored compacted compact_keeps [OF assms(1), of n]
    by (auto simp: applied_def reconcile_log_def reconcile_restart_log_def restore_rebaselined_def Let_def
        not_less split: if_splits option.splits result.splits RestartLogAction.splits)
qed

lemma replay_returns:
  assumes "\<not> is_poisoned ep \<Longrightarrow> ok l \<and> log_first_index E l \<le> counter_next (ep_applied ep)"
  shows "replay E l ep \<noteq> None"
proof (cases "is_poisoned ep")
  case False
  then have "scan_freeze_pending E l (ep_applied ep) \<noteq> None"
    using assms by (intro scan_freeze_pending_returns) auto
  then obtain r where r: "scan_freeze_pending E l (ep_applied ep) = Some r" by blast
  show ?thesis
  proof (cases r)
    case (Ok queue)
    let ?ep = "ep\<lparr>ep_merge := (ep_merge ep)\<lparr>me_freeze_queue := queue\<rparr>\<rparr>"
    have "replay_loop E l (Suc (unat (ep_commit ep) - unat (ep_applied ep))) ?ep \<noteq> None"
      by (rule replay_loop_returns) simp
    then show ?thesis
      using False r Ok by (simp add: replay_def Let_def del: replay_loop.simps)
  qed (use False r in \<open>simp add: replay_def\<close>)
qed (simp add: replay_def)

text \<open>One scan of a restart returns, and a clean outcome means that nothing was poisoned before it.\<close>

lemma scan_step:
  assumes "pr = None \<Longrightarrow> ok l"
  shows "\<exists>m pr'. scan_unless_poisoned pr v (scan_log E f l) = Some (m, pr') \<and> (pr' = None \<longrightarrow> pr = None)"
proof -
  have "scan_unless_poisoned pr v (scan_log E f l) \<noteq> None"
    using assms scan_log_returns by (intro scan_unless_poisoned_returns) auto
  then show ?thesis
    using scan_unless_poisoned_clean [of pr v "scan_log E f l"] by fastforce
qed

lemmas scans_return =
  scan_step [of _ _ _ "\<lambda>e m. max m (en_lease_window e)",
    folded scan_max_lease_window_def]
  scan_step [of _ _ _ "\<lambda>e m. if en_wall_timestamp e \<noteq> 0 \<and> en_lease_window e > 0 then max m (saturating_add (en_wall_timestamp e) (en_lease_window e)) else m",
    folded scan_max_wall_plus_window_def]
  scan_step [of _ _ _ "\<lambda>e m. if en_wall_timestamp e = 0 \<and> en_lease_window e > 0 then max m (en_lease_window e) else m",
    folded scan_max_unwalled_lease_window_def]

text \<open>The log a restart goes on with, unless it poisons.\<close>

lemma restart_domain:
  assumes "ok l"
    and b: "restore_from_snapshot E config snap fsm pr1 = (applied, tr, fsm', pr2)"
    and c: "reconcile_log E hc (map_option (\<lambda>m. (sm_last_index m, sm_last_term m)) (map_option fst snap)) pr2 l = (pr3, l')"
    and d: "lease_of_restart hs config now prior pr3 = (sf, fence, None)"
  shows "ok l' \<and> log_first_index E l' \<le> counter_next applied \<and>
    max (min hc (log_last_index E l')) applied \<le> log_last_index E l'"
proof -
  let ?nt = "map_option (\<lambda>m. (sm_last_index m, sm_last_term m)) (map_option fst snap)"
  have pr3: "pr3 = None" using lease_of_restart_clean d by metis
  then have pr2: "pr2 = None" using c by (auto simp: reconcile_log_def Let_def split: if_splits)
  note snapped = restore_from_snapshot_applied [OF b [unfolded pr2]]
  have "ok l' \<and> log_first_index E l' \<le> counter_next (case ?nt of None \<Rightarrow> 0 | Some (n, _) \<Rightarrow> n) \<and>
      (case ?nt of None \<Rightarrow> 0 | Some (n, _) \<Rightarrow> n) \<le> log_last_index E l'"
    by (rule reconcile_log_domain [OF assms(1) c [unfolded pr2 pr3]]) (use snapped in auto)
  moreover have "(case ?nt of None \<Rightarrow> 0 | Some (n, _) \<Rightarrow> n) = applied"
    using snapped by (auto split: option.splits)
  ultimately show ?thesis by simp
qed

text \<open>
  A restart builds an endpoint from the durable state, replays the log on it and finishes. Unless the
  node is poisoned the replay reads only what the log holds.
\<close>

lemma restart_inner_shape:
  assumes "ok l"
  obtains ep ep' l' stab' where
    "restart_inner E config now rng fsm be prior l stab =
       Some (fst (finish_restart E now ep' stab'), l', snd (finish_restart E now ep' stab'))"
    "replay E l' ep = Some ep'"
    "ep_term ep = hs_term (st_hard_state E stab)" "ep_voted_for ep = hs_vote (st_hard_state E stab)"
    "ep_applied ep \<le> ep_commit ep"
    "\<not> is_poisoned ep \<Longrightarrow> ok l' \<and> log_first_index E l' \<le> counter_next (ep_applied ep) \<and>
       ep_commit ep \<le> log_last_index E l'"
proof -
  let ?hs = "st_hard_state E stab"
  define stab' where "stab' = st_discard_snapshot_staging E stab"
  define pr0 where "pr0 = (if hs_founding_gen ?hs \<ge> HIGHEST_WORKING_GENERATION then Some PR_ReservedShapeGen else None)"
  obtain snap pr1 where a: "adopted_snapshot E ?hs l (st_snapshot E stab') pr0 = (snap, pr1)"
    by fastforce
  obtain applied tr fsm' pr2 where b: "restore_from_snapshot E config snap fsm pr1 = (applied, tr, fsm', pr2)"
    by (metis prod_cases4)
  obtain pr3 l' where c: "reconcile_log E (hs_commit ?hs)
      (map_option (\<lambda>m. (sm_last_index m, sm_last_term m)) (map_option fst snap)) pr2 l = (pr3, l')" by fastforce
  define commit where "commit = max (min (hs_commit ?hs) (log_last_index E l')) applied"
  obtain sf fence pr4 where d: "lease_of_restart ?hs config now prior pr3 = (sf, fence, pr4)"
    by (metis prod_cases3)
  have dom: "ok l' \<and> log_first_index E l' \<le> counter_next applied \<and> commit \<le> log_last_index E l'"
    if "pr4 = None"
    unfolding commit_def by (rule restart_domain [OF assms b c d [unfolded that]])
  obtain w1 pr5 where s1: "scan_unless_poisoned pr4 (case map_option fst snap of Some m \<Rightarrow> sm_max_lease_window m | None \<Rightarrow> 0)
      (scan_max_lease_window E l') = Some (w1, pr5)" and k1: "pr5 = None \<longrightarrow> pr4 = None"
    using scans_return(1) [of pr4 l'] dom by blast
  obtain w2 pr6 where s2: "scan_unless_poisoned pr5 (case map_option fst snap of Some m \<Rightarrow> sm_max_wall_plus_window m | None \<Rightarrow> 0)
      (scan_max_wall_plus_window E l') = Some (w2, pr6)" and k2: "pr6 = None \<longrightarrow> pr5 = None"
    using scans_return(2) [of pr5 l'] dom k1 by blast
  obtain w3 pr7 where s3: "scan_unless_poisoned pr6 (case map_option fst snap of Some m \<Rightarrow> sm_max_unwalled_lease_window m | None \<Rightarrow> 0)
      (scan_max_unwalled_lease_window E l') = Some (w3, pr7)" and k3: "pr7 = None \<longrightarrow> pr6 = None"
    using scans_return(3) [of pr6 l'] dom k1 k2 by blast
  define ep :: "('i, 'f, 'n, 'p, 'r) endpoint" where
    "ep = endpoint_recovered config (mono now) rng fsm' be ?hs (log_last_index E l') applied commit tr sf fence
       w1 w2 w3 (map_option fst snap) pr7"
  have live: "\<not> is_poisoned ep \<Longrightarrow> ok l' \<and> log_first_index E l' \<le> counter_next (ep_applied ep) \<and>
      ep_commit ep \<le> log_last_index E l'"
    using dom k1 k2 k3 by (simp add: ep_def)
  then obtain ep' where r: "replay E l' ep = Some ep'"
    using replay_returns [of ep l'] by blast
  show ?thesis
  proof (rule that [of ep' stab' l' ep])
    show "restart_inner E config now rng fsm be prior l stab =
        Some (fst (finish_restart E now ep' stab'), l', snd (finish_restart E now ep' stab'))"
      using r
      by (simp add: restart_inner_def Let_def a b c d s1 s2 s3 case_prod_beta ep_def commit_def
          del: case_map_option flip: stab'_def pr0_def)
  qed (use r live in \<open>simp_all add: ep_def commit_def\<close>)
qed

end

section \<open>A resident log applies what is committed\<close>

lemma apply_parks: "apply_entry E logs e ep = (AE_Parked, ep') \<Longrightarrow> me_pending_apply (ep_merge ep') \<noteq> None"
  by (auto simp: apply_entry_def apply_normal_def apply_split_def apply_prepare_merge_def
      apply_commit_merge_def apply_rollback_merge_def apply_thaw_discharged_def apply_set_read_mode_def
      apply_conf_change_def Let_def case_prod_beta
      split: EntryKind.splits result.splits option.splits if_splits)

lemma apply_batch_parks:
  "apply_batch E logs es k ep = (True, k', ep') \<Longrightarrow> me_pending_apply (ep_merge ep') \<noteq> None"
proof (induction es arbitrary: k ep)
  case (Cons e es)
  then show ?case
    by (auto split: if_splits prod.splits ApplyOutcome.splits dest: apply_parks)
qed simp

text \<open>Below its budget the apply loop asks for a range that is not empty.\<close>

lemma unat_max: "unat u64_max = 2 ^ 64 - 1"
  by (simp add: unsigned_minus_1_eq_mask mask_eq_exp_minus_1)

lemma apply_read_span_open:
  assumes "applied < commit" and "commit \<noteq> u64_max" and "k < APPLY_BUDGET_ENTRIES"
  shows "counter_next applied < apply_read_span applied commit k"
    "apply_read_span applied commit k \<le> counter_next commit"
proof -
  let ?width = "min MAX_READ_BATCH_ENTRIES (saturating_sub APPLY_BUDGET_ENTRIES k)"
  have "?width \<noteq> 0"
    using assms(3) by (auto simp: saturating_sub_def MAX_READ_BATCH_ENTRIES_def min_def)
  then have "1 \<le> unat ?width" by (simp only: unat_gt_0 [symmetric] Suc_le_eq One_nat_def)
  moreover have "commit < u64_max" using assms(2) by (simp add: word_order.not_eq_extremum)
  then have "unat applied < unat commit" "unat commit < 2 ^ 64 - 1"
    using assms(1) by (simp_all add: word_less_nat_alt unat_max)
  ultimately show "counter_next applied < apply_read_span applied commit k"
    by (auto simp: apply_read_span_def Let_def counter_next_def unat_saturating_add word_less_nat_alt min_def)
  show "apply_read_span applied commit k \<le> counter_next commit"
    by (simp add: apply_read_span_def Let_def)
qed

text \<open>
  A resident log answers every read of its domain with entries, and a log is never filled to the last
  index.
\<close>

locale resident_log = log_store +
  assumes resident:
      "ok l \<Longrightarrow> log_first_index E l \<le> lo \<Longrightarrow> hi \<le> counter_next (log_last_index E l) \<Longrightarrow> lo < hi \<Longrightarrow>
       \<exists>e es. log_entries E l lo hi budget = Ok (EntriesReady (e # es))"
    and unexhausted: "ok l \<Longrightarrow> log_last_index E l \<noteq> u64_max"
begin

lemma apply_loop_waits:
  assumes "ok l"
  shows "apply_loop E l n k ep = Some (AD_Waiting, ep') \<Longrightarrow>
    log_first_index E l \<le> counter_next (ep_applied ep) \<Longrightarrow> ep_commit ep \<le> log_last_index E l \<Longrightarrow>
    (ep_applied ep < ep_commit ep \<Longrightarrow> \<not> is_poisoned ep \<Longrightarrow> k < APPLY_BUDGET_ENTRIES) \<Longrightarrow>
    me_pending_apply (ep_merge ep') \<noteq> None"
proof (induction n arbitrary: k ep)
  case (Suc n)
  have act: "ep_applied ep < ep_commit ep" "\<not> is_poisoned ep"
    using Suc.prems(1) by (auto split: if_splits)
  have "ep_commit ep \<noteq> u64_max"
    using unexhausted [OF assms] Suc.prems(3) by (metis word_order.extremum_unique)
  note span = apply_read_span_open [OF act(1) this Suc.prems(4) [OF act]]
  obtain e es where r: "log_entries E l (counter_next (ep_applied ep))
      (apply_read_span (ep_applied ep) (ep_commit ep) k) APPLY_READ_MAX_BYTES = Ok (EntriesReady (e # es))"
    using resident [OF assms Suc.prems(2) _ span(1)] order.trans [OF span(2) counter_next_mono [OF Suc.prems(3)]]
    by blast
  obtain parked k' ep1 where b: "apply_batch E l (e # es) k ep = (parked, k', ep1)"
    by (cases "apply_batch E l (e # es) k ep")
  have kept: "ep_commit ep1 = ep_commit ep" "ep_applied ep \<le> ep_applied ep1"
    using apply_batch_keeps [OF b] by auto
  show ?case
  proof (cases parked)
    case True
    then show ?thesis
      using apply_batch_parks [of E l "e # es" k ep k' ep1] Suc.prems(1) act r b by simp
  next
    case False
    then have go: "apply_loop E l n k' ep1 = Some (AD_Waiting, ep')"
      "ep_applied ep1 < ep_commit ep1 \<Longrightarrow> \<not> is_poisoned ep1 \<Longrightarrow> k' < APPLY_BUDGET_ENTRIES"
      using Suc.prems(1) act r b by (auto simp del: apply_batch.simps split: if_splits)
    show ?thesis
      by (rule Suc.IH [OF go(1) _ _ go(2)])
        (use Suc.prems(2,3) kept order.trans [OF _ counter_next_mono [OF kept(2)]] in auto)
  qed
qed (simp split: if_splits)

lemma apply_committed_waits:
  assumes "ok l" "log_first_index E l \<le> counter_next (ep_applied ep)" "ep_commit ep \<le> log_last_index E l"
    and "apply_committed E l ep = (AD_Waiting, ep')"
  shows "me_pending_apply (ep_merge ep') \<noteq> None"
proof (cases "me_pending_apply (ep_merge ep) = None")
  case True
  then have "apply_loop E l (Suc (unat (ep_commit ep) - unat (ep_applied ep))) 0 ep = Some (AD_Waiting, ep')"
    using assms(4) by (auto simp: apply_committed_def simp del: apply_loop.simps split: if_splits option.splits)
  from apply_loop_waits [OF assms(1) this assms(2,3)] show ?thesis
    by (simp add: APPLY_BUDGET_ENTRIES_def MAX_READ_BATCH_ENTRIES_def)
next
  case False
  then show ?thesis using assms(4) by (auto simp: apply_committed_def split: if_splits)
qed

text \<open>A replay ends with everything committed applied, unless a merge parks it or the node is poisoned.\<close>

lemma replay_loop_applies:
  assumes "ok l"
  shows "replay_loop E l n ep = Some ep' \<Longrightarrow> log_first_index E l \<le> counter_next (ep_applied ep) \<Longrightarrow>
    ep_commit ep \<le> log_last_index E l \<Longrightarrow>
    is_poisoned ep' \<or> me_pending_apply (ep_merge ep') \<noteq> None \<or> ep_commit ep' \<le> ep_applied ep'"
proof (induction n arbitrary: ep)
  case (Suc n)
  obtain v ep1 where r: "apply_committed E l ep = (v, ep1)"
    by (cases "apply_committed E l ep")
  show ?case
  proof (cases "me_pending_apply (ep_merge ep) = None")
    case True
    with r apply_committed_outcome [of ep E l] have out: "apply_result ep v ep1" by simp
    show ?thesis
    proof (cases v)
      case AD_BudgetCut
      with out have "ep_commit ep1 = ep_commit ep" "counter_next (ep_applied ep) \<le> counter_next (ep_applied ep1)"
        by (auto simp: apply_result_def intro: counter_next_mono)
      then show ?thesis
        using Suc.IH [of ep1] Suc.prems r AD_BudgetCut by auto
    next
      case AD_Waiting
      then show ?thesis using apply_committed_waits [OF assms Suc.prems(2,3)] Suc.prems(1) r by simp
    next
      case AD_Drained
      then show ?thesis using out Suc.prems(1) r by (auto simp: apply_result_def)
    qed
  next
    case False
    then show ?thesis
      using Suc.prems(1) by (auto simp: apply_committed_def split: if_splits)
  qed
qed simp

lemma replay_applies:
  assumes "replay E l ep = Some ep'"
    and "\<not> is_poisoned ep \<Longrightarrow> ok l \<and> log_first_index E l \<le> counter_next (ep_applied ep) \<and>
      ep_commit ep \<le> log_last_index E l"
  shows "is_poisoned ep' \<or> me_pending_apply (ep_merge ep') \<noteq> None \<or> ep_commit ep' \<le> ep_applied ep'"
proof (cases "is_poisoned ep")
  case False
  with assms show ?thesis
    using replay_loop_applies [of l _ _ ep']
    by (auto simp: replay_def Let_def core_observed core_frame simp del: replay_loop.simps
        split: option.splits result.splits)
qed (use assms(1) in \<open>simp add: replay_def\<close>)

end

end
