(* ===== verification/Endpoint_Runs.thy ===== *)
theory Endpoint_Runs
  imports Simulation_Cranks
begin

text \<open>
  Runs of one endpoint: every sequence of the calls its driver may make (a message, a timer, a
  storage crank, a proposal, a read, a transfer, a flush of the appends, a poll of the outgoing
  queue), each with its own instant. The simulation makes every run a run of the abstract steps, and
  the invariants of those, proved by induction over the steps, are the safety of the endpoint: one
  vote a term, acknowledgements only of what is durable, a commit index that never moves back.
\<close>

section \<open>Invariants of the abstract steps\<close>

definition is_grant :: "'i outgoing \<Rightarrow> bool" where
  "is_grant out =
     (case out of (_, MVoteResponse v) \<Rightarrow> \<not> vr_pre_vote v \<and> \<not> vr_reject v | _ \<Rightarrow> False)"

definition grant_term :: "'i outgoing \<Rightarrow> raft_term" where
  "grant_term out = (case out of (_, MVoteResponse v) \<Rightarrow> vr_term v | _ \<Rightarrow> 0)"

text \<open>The candidates a node's messages grant the vote of a term to.\<close>

definition votes_granted :: "raft_term \<Rightarrow> 'i outgoing list \<Rightarrow> 'i list" where
  "votes_granted t outs = map fst (filter (\<lambda>out. is_grant out \<and> grant_term out = t) outs)"

text \<open>The votes sent so far are of past terms, or the vote the node holds in its term.\<close>

definition vote_of :: "raft_term \<Rightarrow> 'i option \<Rightarrow> 'i outgoing \<Rightarrow> bool" where
  "vote_of t v out \<longleftrightarrow> grant_term out < t \<or> grant_term out = t \<and> v = Some (fst out)"

definition votes_ok :: "'i outgoing list \<Rightarrow> 'i core_state \<Rightarrow> bool" where
  "votes_ok sent c \<longleftrightarrow>
     list_all (vote_of (c_term c) (c_vote c)) (filter is_grant (sent @ c_out c)) \<and>
     (\<forall>t. card (set (votes_granted t (sent @ c_out c))) \<le> 1)"

text \<open>A positive acknowledgement of an append is of a durable term and of durable entries.\<close>

definition ack_covered :: "raft_term \<Rightarrow> index \<Rightarrow> 'i outgoing \<Rightarrow> bool" where
  "ack_covered t w out =
     (case out of
        (_, MAppendResponse a) \<Rightarrow> ar_reject a \<or> ar_term a \<le> t \<and> ar_match_index a \<le> w
      | _ \<Rightarrow> True)"

definition acks_ok :: "'i core_state \<Rightarrow> bool" where
  "acks_ok c \<longleftrightarrow> list_all (ack_covered (c_durable_term c) (watermark c)) (c_out c)"

lemma is_grant_simps [simp]:
  "quiet m \<Longrightarrow> \<not> is_grant (to, m)"
  "\<not> is_grant (to, core_ack c proven)"
  "is_grant (to, core_grant c)"
  "grant_term (to, core_grant c) = c_term c"
  by (auto simp: quiet_def is_grant_def grant_term_def core_ack_def core_grant_def split: message.splits)

lemma acks_above_not_grant: "acks_above b out \<Longrightarrow> \<not> is_grant out"
  by (auto simp: acks_above_def is_grant_def split: prod.splits message.splits)

lemma ack_covered_simps [simp]:
  "quiet m \<Longrightarrow> ack_covered t w (to, m)"
  "ack_covered t w (to, core_grant c)"
  "ack_covered t w (to, core_ack c proven) \<longleftrightarrow> c_term c \<le> t \<and> min proven (watermark c) \<le> w"
  by (auto simp: quiet_def ack_covered_def core_ack_def core_grant_def append_response_new_def split: message.splits)

lemma grants_scrubbed [simp]:
  "filter (\<lambda>out. \<not> acks_above b out \<and> is_grant out) outs = filter is_grant outs"
  by (rule filter_cong) (auto simp: acks_above_not_grant)

lemma votes_granted_append [simp]: "votes_granted t (xs @ ys) = votes_granted t xs @ votes_granted t ys"
  by (simp add: votes_granted_def)

lemma votes_granted_grants: "votes_granted t outs = map fst (filter (\<lambda>out. grant_term out = t) (filter is_grant outs))"
  by (simp add: votes_granted_def)

text \<open>What no message and no timer does: grant a vote, or advance a mark of what is durable.\<close>

lemma unprivileged_step:
  "core_step w c d \<Longrightarrow> \<not> w \<Longrightarrow>
   filter is_grant (c_out d) = filter is_grant (c_out c) \<and>
   c_durable_index d \<le> c_durable_index c \<and> c_durable_snapshot d = c_durable_snapshot c \<and>
   c_durable_term d = c_durable_term c"
  by (induction rule: core_step.induct) (simp_all add: core_send_def core_scrub_def)

lemma unprivileged_steps:
  assumes "core_steps False c d"
  shows "filter is_grant (c_out d) = filter is_grant (c_out c) \<and>
    c_durable_index d \<le> c_durable_index c \<and> c_durable_snapshot d = c_durable_snapshot c \<and>
    c_durable_term d = c_durable_term c"
  using assms by (induction rule: rtranclp_induct) (auto dest!: unprivileged_step intro: order.trans)

text \<open>One vote a term.\<close>

lemma votes_ok_cong:
  "filter is_grant (c_out d) = filter is_grant (c_out c) \<Longrightarrow> c_term d = c_term c \<Longrightarrow> c_vote d = c_vote c \<Longrightarrow>
   votes_ok sent d = votes_ok sent c"
  by (simp add: votes_ok_def votes_granted_grants)

lemma votes_ok_raised:
  "votes_ok sent c \<Longrightarrow> c_out d = c_out c \<Longrightarrow>
   (\<And>out. vote_of (c_term c) (c_vote c) out \<Longrightarrow> vote_of (c_term d) (c_vote d) out) \<Longrightarrow> votes_ok sent d"
  by (auto simp: votes_ok_def list_all_iff)

lemma votes_ok_grant:
  assumes "votes_ok sent c" and vote: "c_vote c = Some to"
  shows "votes_ok sent (core_send to (core_grant c) c)"
proof -
  have "votes_granted (c_term c) (sent @ c_out c @ [(to, core_grant c)]) =
      votes_granted (c_term c) (sent @ c_out c) @ [to]"
    by (simp add: votes_granted_def)
  moreover have "set (votes_granted (c_term c) (sent @ c_out c)) \<subseteq> {to}"
  proof
    fix x assume "x \<in> set (votes_granted (c_term c) (sent @ c_out c))"
    then obtain m where "(x, m) \<in> set (filter is_grant (sent @ c_out c))" "grant_term (x, m) = c_term c"
      unfolding votes_granted_def by auto blast+
    with assms have "vote_of (c_term c) (Some to) (x, m)"
      unfolding votes_ok_def list_all_iff by metis
    with \<open>grant_term (x, m) = c_term c\<close> show "x \<in> {to}" by (simp add: vote_of_def)
  qed
  ultimately have "card (set (votes_granted (c_term c) (sent @ c_out c @ [(to, core_grant c)]))) \<le> 1"
    by (metis Un_absorb1 card_1_singleton_iff le_refl list.set(1,2) set_append One_nat_def)
  moreover have "votes_granted t (sent @ c_out c @ [(to, core_grant c)]) = votes_granted t (sent @ c_out c)"
    if "t \<noteq> c_term c" for t
    using that by (simp add: votes_granted_def)
  ultimately show ?thesis
    using assms unfolding votes_ok_def
    by (auto simp: core_send_def vote_of_def list_all_iff simp del: votes_granted_append) metis
qed

lemma votes_ok_step: "core_step w c d \<Longrightarrow> votes_ok sent c \<Longrightarrow> votes_ok sent d"
proof (induction rule: core_step.induct)
  case (step_adopt c t w)
  then show ?case by (elim votes_ok_raised) (auto simp: vote_of_def)
next
  case (step_campaign c t w)
  then show ?case by (elim votes_ok_raised) (auto simp: vote_of_def)
next
  case (step_vote c v w)
  then show ?case by (elim votes_ok_raised) (auto simp: vote_of_def)
next
  case (step_grant c to)
  then show ?case by (intro votes_ok_grant)
qed (auto simp: core_send_def core_scrub_def elim!: votes_ok_cong [THEN iffD2, rotated 3])

text \<open>Acknowledgements of what is durable.\<close>

lemma ack_covered_mono: "ack_covered t w out \<Longrightarrow> t \<le> t' \<Longrightarrow> w \<le> w' \<Longrightarrow> ack_covered t' w' out"
  by (auto simp: ack_covered_def split: prod.splits message.splits)

lemma ack_covered_below: "ack_covered t w out \<Longrightarrow> \<not> acks_above b out \<Longrightarrow> ack_covered t (min w b) out"
  by (auto simp: ack_covered_def acks_above_def split: prod.splits message.splits)

lemma acks_ok_step: "core_step w c d \<Longrightarrow> acks_ok c \<Longrightarrow> acks_ok d"
proof (induction rule: core_step.induct)
  case (step_truncate c b w)
  have "min (max (c_durable_index c) (c_durable_snapshot c)) b
      \<le> max (min (c_durable_index c) b) (c_durable_snapshot c)" by (auto simp: min_def max_def)
  with step_truncate show ?case
    by (auto simp: acks_ok_def core_scrub_def list_all_iff watermark_def
        intro: ack_covered_mono [OF ack_covered_below])
next
  case (step_rebaseline c b f)
  then show ?case
    by (auto simp: acks_ok_def core_scrub_def list_all_iff watermark_def
        intro: ack_covered_mono [OF ack_covered_below] min.coboundedI2)
qed (auto simp: acks_ok_def core_send_def list_all_iff watermark_def max.coboundedI1 max.coboundedI2
    intro: ack_covered_mono)

text \<open>The invariant of an endpoint that has sent the given messages.\<close>

definition core_inv :: "'i outgoing list \<Rightarrow> 'i core_state \<Rightarrow> bool" where
  "core_inv sent c \<longleftrightarrow> votes_ok sent c \<and> acks_ok c \<and> lineage_ok c \<and> c_applied c \<le> c_commit c"

lemma applied_step: "core_step w c d \<Longrightarrow> c_applied c \<le> c_commit c \<Longrightarrow> c_applied d \<le> c_commit d"
  by (induction rule: core_step.induct) (auto simp: core_send_def core_scrub_def)

lemma core_inv_steps: "core_steps w c d \<Longrightarrow> core_inv sent c \<Longrightarrow> core_inv sent d"
  by (induction rule: rtranclp_induct)
    (auto simp: core_inv_def intro: votes_ok_step acks_ok_step lineage_ok_step applied_step)

text \<open>What never goes back.\<close>

definition core_le :: "'i core_state \<Rightarrow> 'i core_state \<Rightarrow> bool" where
  "core_le c d \<longleftrightarrow>
     c_id c = c_id d \<and> c_term c \<le> c_term d \<and> c_commit c \<le> c_commit d \<and>
     c_durable_snapshot c \<le> c_durable_snapshot d \<and> c_durable_term c \<le> c_durable_term d \<and>
     (c_poisoned c \<longrightarrow> c_poisoned d)"

lemma core_le_refl [simp]: "core_le c c"
  by (simp add: core_le_def)

lemma core_le_trans: "core_le c d \<Longrightarrow> core_le d e \<Longrightarrow> core_le c e"
  by (auto simp: core_le_def intro: order.trans)

lemma core_le_step: "core_step w c d \<Longrightarrow> core_le c d"
  by (induction rule: core_step.induct) (auto simp: core_le_def core_send_def core_scrub_def)

lemma core_le_steps: "core_steps w c d \<Longrightarrow> core_le c d"
  by (induction rule: rtranclp_induct) (auto intro: core_le_trans core_le_step)

section \<open>Runs\<close>

datatype ('i, 'c) input =
    In_Message 'i "'i message"
  | In_Timeout
  | In_Storage
  | In_Propose 'c
  | In_ConfChange "'i conf_change"
  | In_ConfChangeV2 "'i conf_change_v2"
  | In_ReadMode ReadOnlyOption
  | In_ReadIndex bytes
  | In_Transfer 'i
  | In_Flush
  | In_Poll

text \<open>The endpoint, its stores, and the messages its driver has taken from it.\<close>

record ('i, 'f, 'n, 'p, 'r, 'l, 's) node =
  nd_ep :: "('i, 'f, 'n, 'p, 'r) endpoint"
  nd_log :: 'l
  nd_stable :: 's
  nd_sent :: "'i outgoing list"

definition with_all ::
    "('i, 'f, 'n, 'p, 'r) endpoint \<times> 'l \<times> 's \<Rightarrow> ('i, 'f, 'n, 'p, 'r, 'l, 's) node \<Rightarrow>
     ('i, 'f, 'n, 'p, 'r, 'l, 's) node" where
  "with_all r nd = nd\<lparr>nd_ep := fst r, nd_log := fst (snd r), nd_stable := snd (snd r)\<rparr>"

definition with_log ::
    "('i, 'f, 'n, 'p, 'r) endpoint \<times> 'l \<Rightarrow> ('i, 'f, 'n, 'p, 'r, 'l, 's) node \<Rightarrow>
     ('i, 'f, 'n, 'p, 'r, 'l, 's) node" where
  "with_log r nd = nd\<lparr>nd_ep := fst r, nd_log := snd r\<rparr>"

definition crank ::
    "('i::linorder, 'f, 'c, 'n, 'p, 'r, 'l, 's) env \<Rightarrow> now \<times> ('i, 'c) input \<Rightarrow>
     ('i, 'f, 'n, 'p, 'r, 'l, 's) node \<Rightarrow> ('i, 'f, 'n, 'p, 'r, 'l, 's) node" where
  "crank E call nd =
     (let now = fst call; ep = nd_ep nd; logs = nd_log nd; stab = nd_stable nd
      in case snd call of
           In_Message from msg \<Rightarrow> with_all (handle_message E now from msg ep logs stab) nd
         | In_Timeout \<Rightarrow> with_all (handle_timeout E now ep logs stab) nd
         | In_Storage \<Rightarrow> with_all (snd (handle_storage E now ep logs stab)) nd
         | In_Propose cmd \<Rightarrow> with_log (snd (propose E now cmd ep logs)) nd
         | In_ConfChange cc \<Rightarrow> with_log (snd (propose_conf_change E now cc ep logs)) nd
         | In_ConfChangeV2 cc \<Rightarrow> with_log (snd (propose_conf_change_v2 E now cc ep logs)) nd
         | In_ReadMode mode \<Rightarrow> with_log (snd (propose_read_mode_change E now mode ep logs)) nd
         | In_ReadIndex ctx \<Rightarrow> nd\<lparr>nd_ep := snd (read_index E now logs ctx ep)\<rparr>
         | In_Transfer to \<Rightarrow> nd\<lparr>nd_ep := snd (transfer_leader E now logs stab to ep)\<rparr>
         | In_Flush \<Rightarrow> nd\<lparr>nd_ep := flush_appends E now logs stab ep\<rparr>
         | In_Poll \<Rightarrow>
             (case poll_message ep of
                (None, ep) \<Rightarrow> nd\<lparr>nd_ep := ep\<rparr>
              | (Some out, ep) \<Rightarrow> nd\<lparr>nd_ep := ep, nd_sent := nd_sent nd @ [out]\<rparr>))"

definition run ::
    "('i::linorder, 'f, 'c, 'n, 'p, 'r, 'l, 's) env \<Rightarrow> (now \<times> ('i, 'c) input) list \<Rightarrow>
     ('i, 'f, 'n, 'p, 'r, 'l, 's) node \<Rightarrow> ('i, 'f, 'n, 'p, 'r, 'l, 's) node" where
  "run E calls nd = fold (crank E) calls nd"

text \<open>A node that starts on the given stores, with nothing sent.\<close>

definition boot ::
    "('i::linorder, 'f, 'c, 'n, 'p, 'r, 'l, 's) env \<Rightarrow> 'i config \<Rightarrow> now \<Rightarrow> 'r \<Rightarrow> 'f \<Rightarrow> 'l \<Rightarrow> 's \<Rightarrow>
     ('i, 'f, 'n, 'p, 'r, 'l, 's) node" where
  "boot E config now rng fsm logs stab =
     \<lparr>nd_ep = new_with_rng E config now rng fsm, nd_log = logs, nd_stable = stab, nd_sent = []\<rparr>"

definition node_inv :: "('i, 'f, 'n, 'p, 'r, 'l, 's) node \<Rightarrow> bool" where
  "node_inv nd \<longleftrightarrow> core_inv (nd_sent nd) (core (nd_ep nd))"

text \<open>Every call but a poll is a sequence of abstract steps.\<close>

lemma crank_sim:
  assumes "node_inv nd" and "snd call \<noteq> In_Poll"
  shows "core_steps True (core (nd_ep nd)) (core (nd_ep (crank E call nd)))"
  using assms
  by (cases "snd call")
    (simp_all add: crank_def with_all_def with_log_def Let_def core_sim node_inv_def core_inv_def)

lemma crank_sent: "snd call \<noteq> In_Poll \<Longrightarrow> nd_sent (crank E call nd) = nd_sent nd"
  by (cases "snd call") (simp_all add: crank_def with_all_def with_log_def Let_def)

text \<open>A poll takes the head of the queue.\<close>

inductive core_poll :: "'i core_state \<Rightarrow> 'i core_state \<Rightarrow> bool" where
  taken: "c_out c = out # outs \<Longrightarrow> core_poll c (c\<lparr>c_out := outs\<rparr>)"

lemma poll_message_core:
  "poll_message ep = (None, ep') \<Longrightarrow> ep' = ep"
  "poll_message ep = (Some out, ep') \<Longrightarrow>
     \<exists>outs. c_out (core ep) = out # outs \<and> core ep' = (core ep)\<lparr>c_out := outs\<rparr>"
  by (auto simp: poll_message_def core_observed core_kept split: if_splits list.splits)

lemma poll_inv:
  "core_inv sent c \<Longrightarrow> c_out c = out # outs \<Longrightarrow> core_inv (sent @ [out]) (c\<lparr>c_out := outs\<rparr>)"
  by (simp add: core_inv_def votes_ok_def acks_ok_def lineage_ok_def same_lineage_def watermark_def
      votes_granted_def split: option.splits)

lemma crank_refines:
  assumes "node_inv nd"
  shows "(sup (core_step True) core_poll)\<^sup>*\<^sup>* (core (nd_ep nd)) (core (nd_ep (crank E call nd)))"
proof (cases "snd call = In_Poll")
  case True
  obtain r ep' where r: "poll_message (nd_ep nd) = (r, ep')"
    by (cases "poll_message (nd_ep nd)")
  show ?thesis
    using True r poll_message_core [of "nd_ep nd"]
    by (cases r) (auto simp: crank_def Let_def intro!: r_into_rtranclp core_poll.intros)
next
  case False
  have "(core_step True)\<^sup>*\<^sup>* \<le> (sup (core_step True) core_poll)\<^sup>*\<^sup>*"
    by (rule rtranclp_mono) auto
  then show ?thesis
    using crank_sim [OF assms False, of E] by blast
qed

lemma crank_inv: "node_inv nd \<Longrightarrow> node_inv (crank E call nd)"
proof (cases "snd call = In_Poll")
  case True
  assume inv: "node_inv nd"
  obtain r ep' where r: "poll_message (nd_ep nd) = (r, ep')"
    by (cases "poll_message (nd_ep nd)")
  show ?thesis
    using True r inv poll_message_core [of "nd_ep nd"] poll_inv
    by (cases r) (auto simp: crank_def Let_def node_inv_def)
next
  case False
  assume "node_inv nd"
  then show ?thesis
    using core_inv_steps [OF crank_sim [OF _ False], of nd "nd_sent nd" E]
    by (simp add: node_inv_def crank_sent [OF False])
qed

lemma run_inv: "node_inv nd \<Longrightarrow> node_inv (run E calls nd)"
  unfolding run_def by (induction calls arbitrary: nd) (auto intro: crank_inv)

lemma run_refines:
  "node_inv nd \<Longrightarrow>
   (sup (core_step True) core_poll)\<^sup>*\<^sup>* (core (nd_ep nd)) (core (nd_ep (run E calls nd)))"
  unfolding run_def
  by (induction calls arbitrary: nd) (auto intro: crank_inv rtranclp_trans [OF crank_refines])

lemma core_le_poll: "core_poll c d \<Longrightarrow> core_le c d"
  by (auto simp: core_poll.simps core_le_def)

lemma core_le_run: "(sup (core_step True) core_poll)\<^sup>*\<^sup>* c d \<Longrightarrow> core_le c d"
  by (induction rule: rtranclp_induct) (auto intro: core_le_trans core_le_step core_le_poll)

lemma core_inv_fresh:
  "c_out c = [] \<Longrightarrow> c_pending c = None \<Longrightarrow> c_applied c \<le> c_commit c \<Longrightarrow> core_inv [] c"
  by (simp add: core_inv_def votes_ok_def acks_ok_def lineage_ok_def votes_granted_def)

lemma endpoint_fresh_core [core_frame]:
  "core (endpoint_fresh config t rng fsm) =
     \<lparr>c_id = cfg_id config, c_term = 0, c_vote = None, c_commit = 0, c_applied = 0, c_durable_index = 0,
      c_durable_snapshot = 0, c_durable_term = 0, c_out = [], c_fork = None, c_pending = None,
      c_poisoned = False\<rparr>"
  by (simp add: core_def endpoint_fresh_def pending_meta_def is_poisoned_def split_state_new_def)

lemma boot_inv [simp]: "node_inv (boot E config now rng fsm logs stab)"
  by (simp add: node_inv_def boot_def core_inv_fresh new_with_rng_def core_frame)

lemma run_append: "run E (calls @ later) nd = run E later (run E calls nd)"
  by (simp add: run_def)

text \<open>What the invariant says of the messages taken.\<close>

lemma votes_sent_once:
  assumes "node_inv nd"
  shows "card (set (votes_granted t (nd_sent nd))) \<le> 1"
proof -
  have "card (set (votes_granted t (nd_sent nd @ c_out (core (nd_ep nd))))) \<le> 1"
    using assms by (simp add: node_inv_def core_inv_def votes_ok_def)
  moreover have "set (votes_granted t (nd_sent nd)) \<subseteq>
      set (votes_granted t (nd_sent nd @ c_out (core (nd_ep nd))))" by auto
  ultimately show ?thesis
    by (meson card_mono List.finite_set order.trans)
qed

section \<open>The safety of the endpoint\<close>

text \<open>
  C2: Every run of an endpoint is a run of the abstract protocol. Whatever the driver calls, in any
  order, with any clock, any stores and any state machine, the term, the vote, the commit and applied
  indices, the durable marks and the outgoing queue change only by the steps of \<open>core_step\<close> and by
  polls: a vote is cast once a term, a grant leaves only for the vote cast, an acknowledgement leaves
  only for a durable term and durable entries, nothing at or below the commit index is truncated, and
  a snapshot replaces the log only from the commit index on.
\<close>

theorem endpoint_refines_core:
  "(sup (core_step True) core_poll)\<^sup>*\<^sup>*
     (core (new_with_rng E config now rng fsm))
     (core (nd_ep (run E calls (boot E config now rng fsm logs stab))))"
  using run_refines [OF boot_inv [of E config now rng fsm logs stab], of E calls] by (simp add: boot_def)

text \<open>
  C1: One vote a term. In every run of an endpoint, whatever it receives and however its stores
  answer, the granted votes the driver takes from it go to at most one candidate in each term.
\<close>

theorem one_vote_per_term:
  "card (set (votes_granted t (nd_sent (run E calls (boot E config now rng fsm logs stab))))) \<le> 1"
  by (rule votes_sent_once) (simp add: run_inv)

text \<open>
  C3: Persist before acknowledge. At every point of every run, each positive acknowledgement of an
  append in the outgoing queue carries a term the node has made durable and a match index that is at
  or below what is durable, of the log or of a snapshot.
\<close>

theorem acks_are_durable:
  "let ep = nd_ep (run E calls (boot E config now rng fsm logs stab))
   in list_all (ack_covered (du_durable_term (ep_durable ep)) (ack_watermark ep)) (ou_outgoing (ep_outputs ep))"
  using run_inv [OF boot_inv [of E config now rng fsm logs stab], of E calls]
  by (simp add: Let_def node_inv_def core_inv_def acks_ok_def core_observed durability_core)

text \<open>
  C4: What never goes back. Along every run of an endpoint its term and its commit index never
  decrease, a poisoned endpoint stays poisoned, and what is applied never runs ahead of what is
  committed: not by messages, timers, proposals or storage completions, and not by an installed
  snapshot either.
\<close>

theorem term_and_commit_monotone:
  "let nd = boot E config now rng fsm logs stab;
       ep = nd_ep (run E calls nd); ep' = nd_ep (run E (calls @ later) nd)
   in ep_term ep \<le> ep_term ep' \<and> ep_commit ep \<le> ep_commit ep' \<and> ep_applied ep' \<le> ep_commit ep' \<and>
      (is_poisoned ep \<le> is_poisoned ep')"
proof -
  let ?nd = "boot E config now rng fsm logs stab"
  have inv: "node_inv (run E calls ?nd)" "node_inv (run E (calls @ later) ?nd)"
    by (simp_all add: run_inv)
  then have "core_le (core (nd_ep (run E calls ?nd))) (core (nd_ep (run E (calls @ later) ?nd)))"
    by (simp add: run_append core_le_run run_refines)
  then show ?thesis
    using inv(2) by (simp add: Let_def core_le_def core_observed node_inv_def core_inv_def)
qed

text \<open>
  C5: Persist before vote. Handling a message and handling a timer never queue a granted vote and
  never advance a mark of what is durable: those belong to the storage crank, which acts on the
  completions of the stores. The grants already queued stay.
\<close>

theorem messages_and_timers_grant_nothing:
  "(let ep' = fst (handle_message E now from msg ep logs stab)
    in filter is_grant (ou_outgoing (ep_outputs ep')) = filter is_grant (ou_outgoing (ep_outputs ep)) \<and>
       du_durable_index (ep_durable ep') \<le> du_durable_index (ep_durable ep) \<and>
       du_durable_snapshot_index (ep_durable ep') = du_durable_snapshot_index (ep_durable ep) \<and>
       du_durable_term (ep_durable ep') = du_durable_term (ep_durable ep)) \<and>
   (let ep' = fst (handle_timeout E now ep logs stab)
    in filter is_grant (ou_outgoing (ep_outputs ep')) = filter is_grant (ou_outgoing (ep_outputs ep)) \<and>
       du_durable_index (ep_durable ep') \<le> du_durable_index (ep_durable ep) \<and>
       du_durable_snapshot_index (ep_durable ep') = du_durable_snapshot_index (ep_durable ep) \<and>
       du_durable_term (ep_durable ep') = du_durable_term (ep_durable ep))"
  unfolding Let_def core_observed
  by (rule conjI [OF unprivileged_steps [OF handle_message_sim [OF rtranclp.rtrancl_refl]]
        unprivileged_steps [OF handle_timeout_sim [OF rtranclp.rtrancl_refl]]])

end
