(* ===== verification/Recovery.thy ===== *)
theory Recovery
  imports Log_Store Endpoint_Runs
begin

text \<open>
  Recovery on the storage engine. The engine's log and stable store are the stores of an endpoint's
  environment; its log meets the contract of the log stores, so a restart on it returns and replays
  everything committed. A vote survives the crash: whatever a recovered endpoint goes on to do, it
  grants no vote that contradicts the one it had made durable.
\<close>

section \<open>The engine as an endpoint's stores\<close>

text \<open>
  The environment with the stores of the engine in place of its own. The engine answers neither of the
  two optional probes of a store's durable state. The state machine, the codecs and the generator are
  those of the given environment, whose own stores play no part.
\<close>

definition engine_env ::
    "(nat \<Rightarrow> bool) \<Rightarrow> ('i, 'f, 'c, 'n, 'p, 'r, 'x, 'y) env \<Rightarrow>
     ('i, 'f, 'c, 'n, 'p, 'r, engine_log, 'i engine_stable) env" where
  "engine_env can_reserve A =
     \<lparr>next_u64 = next_u64 A,
      log_first_index = el_first_index, log_last_index = el_last_index, log_durable_index = (\<lambda>_. None),
      log_read_term = el_term, log_entries = el_read, log_submit_append = el_submit_append A,
      log_compact = el_compact, log_restore = el_restore, log_poll = el_poll, log_has_pending = el_has_pending,
      st_hard_state = es_hard_state, st_durable_hard_state = (\<lambda>_. None), st_submit_write = es_submit_write,
      st_submit_snapshot = es_submit_snapshot, st_snapshot = es_snapshot,
      st_durable_snapshot = es_durable_snapshot, st_snapshot_chunk = es_snapshot_chunk,
      st_accept_snapshot_chunk = es_accept_snapshot_chunk can_reserve,
      st_take_staged_snapshot = es_take_staged_snapshot,
      st_discard_snapshot_staging = es_discard_snapshot_staging, st_poll = es_poll,
      st_has_pending = es_has_pending,
      fsm_apply = fsm_apply A, fsm_snapshot = fsm_snapshot A, fsm_restore = fsm_restore A,
      fsm_split = fsm_split A, fsm_absorb = fsm_absorb A,
      decode_command = decode_command A, encode_command = encode_command A,
      encode_snapshot_data = encode_snapshot_data A, decode_snapshot_data = decode_snapshot_data A,
      decode_conf_change_v2 = decode_conf_change_v2 A, encode_conf_change_v2 = encode_conf_change_v2 A,
      decode_split_payload = decode_split_payload A,
      decode_prepare_merge_payload = decode_prepare_merge_payload A,
      decode_commit_merge_payload = decode_commit_merge_payload A,
      decode_rollback_merge_payload = decode_rollback_merge_payload A,
      decode_thaw_discharged_payload = decode_thaw_discharged_payload A,
      encode_node_id = encode_node_id A, buffa_varint_len = buffa_varint_len A,
      buffa_uint64_encoded_len = buffa_uint64_encoded_len A,
      buffa_bytes_encoded_len = buffa_bytes_encoded_len A,
      buffa_bool_encoded_len = buffa_bool_encoded_len A\<rparr>"

lemma engine_env_sel [simp]:
  "log_first_index (engine_env R A) = el_first_index" "log_last_index (engine_env R A) = el_last_index"
  "log_read_term (engine_env R A) = el_term" "log_entries (engine_env R A) = el_read"
  "log_submit_append (engine_env R A) = el_submit_append A"
  "log_compact (engine_env R A) = el_compact" "log_restore (engine_env R A) = el_restore"
  "st_hard_state (engine_env R A) = es_hard_state"
  by (simp_all add: engine_env_def)

text \<open>A read of the domain is a slice of the entries, numbered from the start of the range.\<close>

lemma el_range_slice:
  assumes ok: "el_ok A l" and lo: "el_first_index l \<le> lo"
  shows "filter (\<lambda>e. lo \<le> en_index e \<and> en_index e < hi) (el_entries l) =
    take (unat hi - unat lo) (drop (unat lo - unat (el_offset l) - 1) (el_entries l))"
proof -
  let ?es = "el_entries l" and ?o = "unat (el_offset l)"
  let ?a = "unat lo - ?o - 1"
  have n: "numbered (el_offset l) ?es" using ok by (simp add: el_ok_def)
  have lo': "?o < unat lo" using lo ok by (simp add: word_le_nat_alt)
  have d: "drop ?a ?es = filter (\<lambda>e. lo \<le> en_index e) ?es"
    unfolding numbered_drop_filter [OF n] by (rule filter_cong) (use lo' in \<open>auto simp: word_le_nat_alt\<close>)
  show ?thesis
  proof (cases "?a \<le> length ?es")
    case True
    have "lo \<noteq> 0" using lo' by auto
    then have pred: "unat (lo - 1) = unat lo - 1" by (rule unat_minus_one)
    have "numbered (lo - 1) (drop ?a ?es)"
      by (rule numbered_drop [OF n True]) (use lo' pred in simp)
    then have "take (unat hi - unat lo) (drop ?a ?es) =
        filter (\<lambda>e. unat (en_index e) \<le> unat (lo - 1) + (unat hi - unat lo)) (drop ?a ?es)"
      by (rule numbered_take_filter)
    also have "\<dots> = filter (\<lambda>e. lo \<le> en_index e \<and> en_index e < hi) ?es"
      unfolding d filter_filter pred
      by (rule filter_cong) (use lo' in \<open>auto simp: word_le_nat_alt word_less_nat_alt\<close>)
    finally show ?thesis ..
  next
    case False
    then have "filter (\<lambda>e. lo \<le> en_index e) ?es = []" using d by simp
    then show ?thesis using False by (auto simp: filter_empty_conv)
  qed
qed

lemma el_range_nth:
  assumes ok: "el_ok A l" and lo: "el_first_index l \<le> lo"
    and k: "k < length (filter (\<lambda>e. lo \<le> en_index e \<and> en_index e < hi) (el_entries l))"
  shows "unat (en_index (filter (\<lambda>e. lo \<le> en_index e \<and> en_index e < hi) (el_entries l) ! k)) = unat lo + k"
proof -
  let ?a = "unat lo - unat (el_offset l) - 1"
  have n: "numbered (el_offset l) (el_entries l)" using ok by (simp add: el_ok_def)
  have lo': "unat (el_offset l) < unat lo" using lo ok by (simp add: word_le_nat_alt)
  have "?a + k < length (el_entries l)" using k lo' by (simp add: el_range_slice [OF ok lo]) linarith
  from numbered_nth [OF n this] this show ?thesis
    using k lo' nth_drop [of ?a "el_entries l" k] by (simp add: el_range_slice [OF ok lo])
qed

lemma el_range_resident:
  assumes ok: "el_ok A l" and lo: "el_first_index l \<le> lo" and hi: "lo < hi" "lo \<le> el_last_index l"
  shows "filter (\<lambda>e. lo \<le> en_index e \<and> en_index e < hi) (el_entries l) \<noteq> []"
proof -
  have "Suc (unat (el_offset l)) \<le> unat lo" "unat lo < unat hi"
    "unat lo \<le> unat (el_offset l) + length (el_entries l)"
    using ok lo hi by (simp_all add: word_le_nat_alt word_less_nat_alt)
  then show ?thesis unfolding el_range_slice [OF ok lo] by simp
qed

lemma el_last_unexhausted: "el_ok A l \<Longrightarrow> el_last_index l \<noteq> u64_max"
  using numbered_bound [of "el_offset l" "el_entries l"] unat_max
  by (metis el_ok_def less_irrefl unat_el_last_index)

lemma el_compact_bounds:
  assumes ok: "el_ok A l" and n: "el_first_index l \<le> n" "n \<le> el_last_index l"
  shows "el_first_index (el_compact n l) = counter_next n" "el_last_index (el_compact n l) = el_last_index l"
proof -
  have u: "unat (el_offset l) < unat n" "unat n \<le> unat (el_offset l) + length (el_entries l)"
    using ok n by (simp_all add: word_le_nat_alt)
  then have act: "\<not> (n \<le> el_offset l \<or> el_entries l = [])" "\<not> el_last_index l < n"
    using n(2) by (auto simp: word_le_nat_alt not_less)
  have "n \<noteq> u64_max" using el_last_unexhausted [OF ok] n(2) by (metis word_order.extremum_unique)
  then show "el_first_index (el_compact n l) = counter_next n"
    using act by (simp add: el_compact_def el_first_index_def counter_next_eq Let_def)
  have "unat (n - el_offset l) = unat n - unat (el_offset l)"
    using u by (simp add: unat_sub word_le_nat_alt)
  then have "el_last_index (el_compact n l) = n + of_nat (length (el_entries l) - (unat n - unat (el_offset l)))"
    using act u by (simp add: el_compact_def el_last_index_def Let_def)
  also have "unat \<dots> = unat (el_last_index l)"
    using u ok numbered_bound [of "el_offset l" "el_entries l"]
    by (simp add: el_ok_def unat_word_ariths unat_of_nat)
  finally show "el_last_index (el_compact n l) = el_last_index l" by (simp add: word_unat_eq_iff)
qed

interpretation eng: resident_log "engine_env R A" "el_ok A"
  for R :: "nat \<Rightarrow> bool" and A :: "('i::linorder, 'f, 'c, 'n, 'p, 'r, 'x, 'y) env"
proof (standard, goal_cases)
  case (1 l lo hi budget es k)
  then have es: "es = filter (\<lambda>e. lo \<le> en_index e \<and> en_index e < hi) (el_entries l)"
    by (simp add: el_read_entries)
  have "es ! k \<in> set es" using 1 by simp
  with es have "en_index (es ! k) < hi" by auto
  then show ?case using 1 es el_range_nth [of A l lo k hi] by simp
next
  case (2 l n)
  then show ?case by (simp add: el_compact_ok)
next
  case (3 l n)
  then show ?case by (simp add: el_compact_bounds)
next
  case (4 l n t)
  then have "n < u64_max" by (simp add: word_order.not_eq_extremum)
  then show ?case by (simp add: el_restore_ok word_less_nat_alt unat_max)
next
  case (5 l lo hi budget)
  then have "lo \<le> el_last_index l"
    using el_last_unexhausted [OF 5(1)] less_counter_next_iff [of "el_last_index l" lo] by auto
  with 5 show ?case
    using el_range_resident [of A l lo hi] by (auto simp: el_read_entries neq_Nil_conv)
next
  case (6 l)
  then show ?case by (simp add: el_last_unexhausted)
qed

section \<open>A restart on the engine\<close>

lemma finish_restart_merge [simp]: "ep_merge (fst (finish_restart E now ep stab)) = ep_merge ep"
  by (simp add: finish_restart_def arm_election_timer_def submit_write_def mint_op_id_def poison_def
      Let_def case_prod_beta split: option.split)

lemma finish_restart_keeps:
  "core_steps w c (core ep) \<Longrightarrow> core_steps w c (core (fst (finish_restart E now ep stab)))"
  "c_poisoned (core ep) \<Longrightarrow> c_poisoned (core (fst (finish_restart E now ep stab)))"
  "c_applied (core (fst (finish_restart E now ep stab))) = c_applied (core ep)"
  "c_commit (core (fst (finish_restart E now ep stab))) = c_commit (core ep)"
  "c_term (core (fst (finish_restart E now ep stab))) = c_term (core ep)"
  "c_vote (core (fst (finish_restart E now ep stab))) = c_vote (core ep)"
  by (simp_all add: finish_restart_def Let_def case_prod_beta core_sim core_frame core_observed)

lemma apply_batch_fixed:
  "apply_batch E logs es k ep = (b, k', ep') \<Longrightarrow> ep_term ep' = ep_term ep \<and> ep_voted_for ep' = ep_voted_for ep"
proof (induction es arbitrary: k ep)
  case (Cons e es)
  obtain out ep1 where one: "apply_entry E logs e ep = (out, ep1)"
    by (cases "apply_entry E logs e ep")
  have kept: "ep_term ep1 = ep_term ep" "ep_voted_for ep1 = ep_voted_for ep"
    using apply_entry_fixed(2,3) [of E logs e ep] one by (simp_all add: core_observed)
  show ?case
    using Cons.prems Cons.IH [of "k + 1" "ep1\<lparr>ep_applied := en_index e\<rparr>"] one kept
    by (auto simp: core_observed core_frame split: if_splits ApplyOutcome.splits)
qed simp

lemma apply_loop_fixed:
  "apply_loop E logs n k ep = Some (v, ep') \<Longrightarrow> ep_term ep' = ep_term ep \<and> ep_voted_for ep' = ep_voted_for ep"
proof (induction n arbitrary: k ep)
  case (Suc n)
  then show ?case
    by (auto simp: poison_def simp del: apply_batch.simps dest!: apply_batch_fixed
        split: if_splits result.splits EntriesRead.splits list.splits prod.splits bool.splits)
qed (simp split: if_splits)

lemma apply_committed_fixed:
  "ep_term (snd (apply_committed E logs ep)) = ep_term ep"
  "ep_voted_for (snd (apply_committed E logs ep)) = ep_voted_for ep"
  by (auto simp: apply_committed_def simp del: apply_loop.simps dest!: apply_loop_fixed split: option.split)

lemma replay_loop_fixed:
  "replay_loop E logs n ep = Some ep' \<Longrightarrow> ep_term ep' = ep_term ep \<and> ep_voted_for ep' = ep_voted_for ep"
proof (induction n arbitrary: ep)
  case (Suc n)
  then show ?case
    using apply_committed_fixed [of E logs ep]
    by (cases "apply_committed E logs ep") (auto split: ApplyDrain.splits)
qed simp

lemma replay_loop_sim:
  "core_steps w c (core ep) \<Longrightarrow> replay_loop E logs n ep = Some ep' \<Longrightarrow> core_steps w c (core ep')"
proof (induction n arbitrary: ep)
  case (Suc n)
  then show ?case
    using apply_committed_sim [of w c ep E logs]
    by (cases "apply_committed E logs ep") (auto split: ApplyDrain.splits)
qed simp

lemma applied_steps: "core_steps w c d \<Longrightarrow> c_applied c \<le> c_commit c \<Longrightarrow> c_applied d \<le> c_commit d"
  by (induction rule: rtranclp_induct) (auto intro: applied_step)

lemma replay_fixed:
  "replay E logs ep = Some ep' \<Longrightarrow> ep_term ep' = ep_term ep \<and> ep_voted_for ep' = ep_voted_for ep"
  by (auto simp: replay_def Let_def poison_def simp del: replay_loop.simps dest!: replay_loop_fixed
      split: if_splits option.splits result.splits)

lemma replay_sim: "core_steps w c (core ep) \<Longrightarrow> replay E logs ep = Some ep' \<Longrightarrow> core_steps w c (core ep')"
  by (auto simp: replay_def Let_def poison_sim core_inert simp del: replay_loop.simps elim!: replay_loop_sim [rotated]
      split: if_splits option.splits result.splits)

text \<open>The abstract state a restart starts from.\<close>

lemma endpoint_recovered_core:
  "core (endpoint_recovered config t rng fsm be hs last_i applied commit tr sf fence mw mp mu snap pr) =
     \<lparr>c_id = cfg_id config, c_term = hs_term hs, c_vote = hs_vote hs, c_commit = commit, c_applied = applied,
      c_durable_index = last_i, c_durable_snapshot = 0, c_durable_term = hs_term hs, c_out = [],
      c_fork = (if pr \<noteq> None then None else case snap of Some m \<Rightarrow> sm_fork_id m | None \<Rightarrow> None),
      c_pending = None, c_poisoned = (pr \<noteq> None)\<rparr>"
  by (simp add: core_def endpoint_recovered_def endpoint_fresh_def Let_def pending_meta_def is_poisoned_def
      split_state_new_def)

text \<open>Whatever the stores, a restart that returns starts at the durable term and vote with nothing queued.\<close>

lemma restart_inner_core:
  assumes "restart_inner E config now rng fsm be prior logs stab = Some (ep, logs', stab')"
  obtains c where "c_term c = hs_term (st_hard_state E stab)" "c_vote c = hs_vote (st_hard_state E stab)"
    "c_out c = []" "core_inv [] c" "core_steps True c (core ep)"
proof -
  obtain fsm' last_i applied commit tr sf fence mw mp mu snap pr ep0 ep1 stab1 where
    e: "ep0 = endpoint_recovered config (mono now) rng fsm' be (st_hard_state E stab) last_i applied commit
      tr sf fence mw mp mu snap pr"
    and r: "replay E logs' ep0 = Some ep1" and f: "finish_restart E now ep1 stab1 = (ep, stab')"
    and le: "applied \<le> commit"
    using assms
    by (auto simp: restart_inner_def Let_def split: prod.splits bind_splits option.splits)
  note steps = finish_restart_keeps(1) [OF replay_sim [OF rtranclp.rtrancl_refl r], of True E now stab1, unfolded f fst_conv]
  show ?thesis
    by (rule that [OF _ _ _ _ steps]) (use le in \<open>simp_all add: e endpoint_recovered_core core_inv_fresh\<close>)
qed

section \<open>The durable vote\<close>

text \<open>A grant that does not contradict the vote of a term.\<close>

definition respects_vote :: "raft_term \<Rightarrow> 'i option \<Rightarrow> 'i outgoing \<Rightarrow> bool" where
  "respects_vote t v out \<longleftrightarrow>
     t < grant_term out \<or> t = grant_term out \<and> (v = None \<or> v = Some (fst out))"

definition vote_kept :: "raft_term \<Rightarrow> 'i option \<Rightarrow> 'i outgoing list \<Rightarrow> 'i core_state \<Rightarrow> bool" where
  "vote_kept t v sent c \<longleftrightarrow>
     list_all (respects_vote t v) (filter is_grant (sent @ c_out c)) \<and> t \<le> c_term c \<and>
     (c_term c = t \<and> v \<noteq> None \<longrightarrow> c_vote c = v)"

lemma vote_kept_step: "core_step w c d \<Longrightarrow> vote_kept t v sent c \<Longrightarrow> vote_kept t v sent d"
  by (induction rule: core_step.induct)
    (auto simp: vote_kept_def core_send_def core_scrub_def respects_vote_def)

lemma vote_kept_steps: "core_steps w c d \<Longrightarrow> vote_kept t v sent c \<Longrightarrow> vote_kept t v sent d"
  by (induction rule: rtranclp_induct) (auto intro: vote_kept_step)

lemma vote_kept_crank:
  assumes inv: "node_inv nd" and kept: "vote_kept t v (nd_sent nd) (core (nd_ep nd))"
  shows "vote_kept t v (nd_sent (crank E call nd)) (core (nd_ep (crank E call nd)))"
proof (cases "snd call = In_Poll")
  case True
  obtain r ep' where r: "poll_message (nd_ep nd) = (r, ep')"
    by (cases "poll_message (nd_ep nd)")
  show ?thesis
    using True r kept poll_message_core [of "nd_ep nd"]
    by (cases r) (auto simp: crank_def Let_def vote_kept_def)
next
  case False
  then show ?thesis
    using vote_kept_steps [OF crank_sim [OF inv False] kept] by (simp add: crank_sent)
qed

lemma vote_kept_run:
  "node_inv nd \<Longrightarrow> vote_kept t v (nd_sent nd) (core (nd_ep nd)) \<Longrightarrow>
   vote_kept t v (nd_sent (run E calls nd)) (core (nd_ep (run E calls nd)))"
  unfolding run_def
proof (induction calls arbitrary: nd)
  case (Cons call calls)
  then show ?case using Cons.IH [OF crank_inv vote_kept_crank] by simp
qed simp

text \<open>The node a restart leaves, with nothing sent yet.\<close>

definition recovered ::
    "('i, 'f, 'n, 'p, 'r) endpoint \<times> 'l \<times> 's \<Rightarrow> ('i, 'f, 'n, 'p, 'r, 'l, 's) node" where
  "recovered r = \<lparr>nd_ep = fst r, nd_log = fst (snd r), nd_stable = snd (snd r), nd_sent = []\<rparr>"

lemma recovered_inv:
  assumes "restart_inner E config now rng fsm be prior logs stab = Some r"
  shows "node_inv (recovered r)"
    "vote_kept (hs_term (st_hard_state E stab)) (hs_vote (st_hard_state E stab)) [] (core (nd_ep (recovered r)))"
proof -
  obtain ep logs' stab' where r: "r = (ep, logs', stab')" by (cases r)
  obtain c where c: "c_term c = hs_term (st_hard_state E stab)" "c_vote c = hs_vote (st_hard_state E stab)"
    "c_out c = []" "core_inv [] c" "core_steps True c (core ep)"
    using restart_inner_core [OF assms [unfolded r]] .
  show "node_inv (recovered r)"
    using core_inv_steps [OF c(5,4)] by (simp add: r node_inv_def recovered_def)
  have "vote_kept (hs_term (st_hard_state E stab)) (hs_vote (st_hard_state E stab)) [] c"
    using c by (simp add: vote_kept_def)
  from vote_kept_steps [OF c(5) this]
  show "vote_kept (hs_term (st_hard_state E stab)) (hs_vote (st_hard_state E stab)) [] (core (nd_ep (recovered r)))"
    by (simp add: r recovered_def)
qed

section \<open>The properties of recovery\<close>

text \<open>
  C6: A vote survives a crash. Whatever the stores hold, and whatever the driver does with an endpoint
  recovered from them, no vote it goes on to grant contradicts the durable hard state it was recovered
  from: none is of an earlier term, and one of the durable term goes to the candidate the durable vote
  names. Votes of later terms again go to one candidate each.
\<close>

theorem durable_vote_survives_restart:
  "case restart_inner E config now rng fsm be prior logs stab of
     None \<Rightarrow> True
   | Some r \<Rightarrow>
       let sent = nd_sent (run E calls (recovered r)); hs = st_hard_state E stab
       in list_all (respects_vote (hs_term hs) (hs_vote hs)) (filter is_grant sent) \<and>
          card (set (votes_granted t sent)) \<le> 1"
proof (cases "restart_inner E config now rng fsm be prior logs stab")
  case (Some r)
  let ?nd = "run E calls (recovered r)" and ?hs = "st_hard_state E stab"
  have inv: "node_inv ?nd" by (rule run_inv [OF recovered_inv(1) [OF Some]])
  have "vote_kept (hs_term ?hs) (hs_vote ?hs) (nd_sent ?nd) (core (nd_ep ?nd))"
    by (rule vote_kept_run [OF recovered_inv(1) [OF Some]])
      (use recovered_inv(2) [OF Some] in \<open>simp add: recovered_def\<close>)
  then show ?thesis
    using Some votes_sent_once [OF inv] by (simp add: vote_kept_def Let_def)
qed simp

lemma one_entry_ok: "el_ok A (el_submit_append A opid [entry_new 1 1 EK_Normal []] el_new)"
  by (rule el_submit_append_ok [OF el_new_ok])
    (simp add: append_ok_def el_new_def el_last_index_def numbered_def entry_new_def)

text \<open>
  C7: A restart on the engine recovers the durable state and replays what is committed. The recovered
  endpoint has the term and the vote of the durable hard state, and unless it is poisoned, or parked at
  a merge that waits for its source, every entry it knows to be committed has been applied.
\<close>

theorem engine_restart_replays:
  assumes "el_ok A l"
  shows "\<exists>ep l' stab'. restart_inner (engine_env can_reserve A) config now rng fsm be prior l stab = Some (ep, l', stab') \<and>
    ep_term ep = hs_term (es_durable stab) \<and> ep_voted_for ep = hs_vote (es_durable stab) \<and>
    (is_poisoned ep \<or> me_pending_apply (ep_merge ep) \<noteq> None \<or> ep_applied ep = ep_commit ep)"
proof -
  let ?E = "engine_env can_reserve A"
  obtain ep ep' l' stab' where
    r: "restart_inner ?E config now rng fsm be prior l stab =
      Some (fst (finish_restart ?E now ep' stab'), l', snd (finish_restart ?E now ep' stab'))"
    and p: "replay ?E l' ep = Some ep'"
    and t: "ep_term ep = hs_term (es_durable stab)" "ep_voted_for ep = hs_vote (es_durable stab)"
    and le: "ep_applied ep \<le> ep_commit ep"
    and dom: "\<not> is_poisoned ep \<Longrightarrow> el_ok A l' \<and> el_first_index l' \<le> counter_next (ep_applied ep) \<and>
      ep_commit ep \<le> el_last_index l'"
    by (rule eng.restart_inner_shape [OF assms, where R = can_reserve and config = config and now = now
          and rng = rng and fsm = fsm and be = be and prior = prior and stab = stab])
      (simp add: es_hard_state_def)
  have "is_poisoned ep' \<or> me_pending_apply (ep_merge ep') \<noteq> None \<or> ep_commit ep' \<le> ep_applied ep'"
    by (rule eng.replay_applies [OF p]) (use dom in auto)
  moreover have "ep_applied ep' \<le> ep_commit ep'"
    using applied_steps [OF replay_sim [OF rtranclp.rtrancl_refl p]] le by (simp add: core_observed)
  ultimately have "is_poisoned ep' \<or> me_pending_apply (ep_merge ep') \<noteq> None \<or> ep_applied ep' = ep_commit ep'"
    by auto
  then show ?thesis
    using replay_fixed [OF p] t finish_restart_keeps(2) [of ep' ?E now stab']
    unfolding r by (auto simp: core_observed finish_restart_keeps)
qed

lemma es_new_state: "hs_term (es_durable (es_new cap)) = 0" "hs_vote (es_durable (es_new cap)) = None"
  by (simp_all add: es_new_def hs_initial_def)

theorem engine_restart_replays_witness:
  "\<forall>A config now rng fsm be prior cap. \<exists>ep l' stab'.
     restart_inner (engine_env (\<lambda>_. True) A) config now rng fsm be prior
       (el_submit_append A (OpId 1 0) [entry_new 1 1 EK_Normal []] el_new) (es_new cap) = Some (ep, l', stab') \<and>
     ep_term ep = 0 \<and> ep_voted_for ep = None \<and>
     (is_poisoned ep \<or> me_pending_apply (ep_merge ep) \<noteq> None \<or> ep_applied ep = ep_commit ep)"
  by (intro allI engine_restart_replays [OF one_entry_ok, where stab = "es_new cap" for cap, unfolded es_new_state])

end
