(* ===== verification/Engine_Fence.thy ===== *)
theory Engine_Fence
  imports Engine_Laws
begin

text \<open>
  What the engine promises of a group id across its lives: the log it keeps is well formed after any
  sequence of its operations, the ceiling it maintains over the shape entries is the one a scan of the
  retained log would find, and the floors, generations and boot epochs of an id never go back, whatever
  is flushed, removed or added again.
\<close>

section \<open>The logs the engine can hold\<close>

inductive el_reachable :: "('i, 'f, 'c, 'n, 'p, 'r, 'x, 'y) env \<Rightarrow> engine_log \<Rightarrow> bool" for A where
  fresh: "el_reachable A el_new"
| append: "el_reachable A l \<Longrightarrow> append_ok es l \<Longrightarrow> el_reachable A (el_submit_append A opid es l)"
| compact: "el_reachable A l \<Longrightarrow> el_reachable A (el_compact up_to l)"
| restore: "el_reachable A l \<Longrightarrow> last_i \<noteq> u64_max \<Longrightarrow> el_reachable A (el_restore last_i last_t l)"
| release: "el_reachable A l \<Longrightarrow> el_reachable A (snd (el_release_staged l))"
| poll: "el_reachable A l \<Longrightarrow> el_reachable A (snd (el_poll l))"

lemma unat_below_max: "i \<noteq> u64_max \<Longrightarrow> unat i < 2 ^ 64 - 1"
proof -
  assume "i \<noteq> u64_max"
  then have "i < u64_max" by (simp add: word_order.not_eq_extremum)
  then show ?thesis by (simp add: word_less_nat_alt unsigned_minus_1_eq_mask mask_eq_exp_minus_1)
qed

lemma el_reachable_ok: "el_reachable A l \<Longrightarrow> el_ok A l"
  by (induction rule: el_reachable.induct)
    (simp_all add: el_submit_append_ok el_compact_ok el_restore_ok [OF unat_below_max])

text \<open>The generation an entry names, and the ceiling a scan of the log would find.\<close>

definition named_generation :: "('i, 'f, 'c, 'n, 'p, 'r, 'x, 'y) env \<Rightarrow> entry \<Rightarrow> u64" where
  "named_generation A e = (case shape_entry_move A e of ValidMove g \<Rightarrow> g | _ \<Rightarrow> 0)"

definition refused_shape :: "('i, 'f, 'c, 'n, 'p, 'r, 'x, 'y) env \<Rightarrow> entry \<Rightarrow> bool" where
  "refused_shape A e = (case shape_entry_move A e of InvalidMove _ \<Rightarrow> True | _ \<Rightarrow> False)"

lemma el_shape_ceiling_exact:
  "el_ok A l \<Longrightarrow> el_shape_ceiling l = fold max (map (named_generation A) (el_entries l)) 0"
proof -
  have "fold max (map snd (List.map_filter (shape_mark A) es)) b = fold max (map (named_generation A) es) b" for es b
    by (induction es arbitrary: b)
      (auto simp: List.map_filter_simps shape_mark_def named_generation_def split: ShapeMove.splits)
  then show "el_ok A l \<Longrightarrow> ?thesis"
    by (simp add: el_ok_def el_shape_ceiling_def)
qed

lemma el_shape_faulted_exact: "el_ok A l \<Longrightarrow> el_shape_faulted l = list_ex (refused_shape A) (el_entries l)"
proof -
  have "List.map_filter (fault_mark A) es \<noteq> [] \<longleftrightarrow> list_ex (refused_shape A) es" for es
    by (induction es) (auto simp: List.map_filter_simps fault_mark_def refused_shape_def split: ShapeMove.splits)
  then show "el_ok A l \<Longrightarrow> ?thesis" by (simp add: el_ok_def el_shape_faulted_def)
qed

lemma fold_max_out: "fold max xs (max a b) = max a (fold max xs (b :: u64))"
proof (induction xs arbitrary: b)
  case (Cons x xs)
  have "max x (max a b) = max a (max x b)" by (rule max.left_commute)
  then show ?case using Cons.IH [of "max x b"] by simp
qed simp

lemma fold_max_from: "fold max xs b = max b (fold max xs (0 :: u64))"
  using fold_max_out [of xs b 0] by simp

text \<open>The generations of the two snapshot slots of a stable store.\<close>

definition slot_gen :: "'i snapshot_meta option \<Rightarrow> u64" where
  "slot_gen slot = (case slot of Some m \<Rightarrow> sm_shape_gen m | None \<Rightarrow> 0)"

inductive es_reachable :: "'i engine_stable \<Rightarrow> bool" where
  es_fresh: "es_reachable (es_new cap)"
| es_write: "es_reachable s \<Longrightarrow> es_reachable (es_submit_write opid hs s)"
| es_snap: "es_reachable s \<Longrightarrow> es_reachable (es_submit_snapshot opid meta data s)"
| es_accept: "es_reachable s \<Longrightarrow> es_reachable (snd (es_accept_snapshot_chunk can_reserve meta total_len offset data s))"
| es_take: "es_reachable s \<Longrightarrow> es_reachable (snd (es_take_staged_snapshot meta s))"
| es_discard: "es_reachable s \<Longrightarrow> es_reachable (es_discard_snapshot_staging s)"
| es_release: "es_reachable s \<Longrightarrow> es_reachable (snd (es_release_staged s))"
| es_polled: "es_reachable s \<Longrightarrow> es_reachable (snd (es_poll s))"

lemma es_accept_slots:
  "es_visible_meta_gen (snd (es_accept_snapshot_chunk R meta n off data s)) = es_visible_meta_gen s"
  "es_durable_meta_gen (snd (es_accept_snapshot_chunk R meta n off data s)) = es_durable_meta_gen s"
  "es_snapshot (snd (es_accept_snapshot_chunk R meta n off data s)) = es_snapshot s"
  "es_durable_snapshot (snd (es_accept_snapshot_chunk R meta n off data s)) = es_durable_snapshot s"
  unfolding es_accept_snapshot_chunk_def Let_def case_prod_unfold
  by (simp_all split: option.split)

lemma es_reachable_gens:
  "es_reachable s \<Longrightarrow>
   es_visible_meta_gen s = slot_gen (map_option fst (es_snapshot s)) \<and>
   es_durable_meta_gen s = slot_gen (es_durable_snapshot s)"
  by (induction rule: es_reachable.induct)
    (simp_all add: es_new_def es_submit_write_def es_submit_snapshot_def es_accept_slots
      es_take_staged_snapshot_def es_discard_snapshot_staging_def es_release_staged_def es_poll_def slot_gen_def
      split: option.split list.split prod.split)

section \<open>The lives of a group id\<close>

text \<open>
  What a host does to its engine. The stores of a hosted group change as its endpoint and the driver
  please.
\<close>

datatype ('g, 'i) engine_op =
    Op_Add 'g
  | Op_Remove 'g
  | Op_Flush
  | Op_Cap nat
  | Op_Epoch 'g
  | Op_Floor 'g u64
  | Op_Gen 'g u64
  | Op_Stores 'g "'i group_storage \<Rightarrow> 'i group_storage"

definition engine_step :: "('g::linorder, 'i) engine_op \<Rightarrow> ('g, 'i) group_engine \<Rightarrow> ('g, 'i) group_engine" where
  "engine_step op ge =
     (case op of
        Op_Add g \<Rightarrow> snd (add_group g ge)
      | Op_Remove g \<Rightarrow> snd (remove_group g ge)
      | Op_Flush \<Rightarrow> snd (flush ge)
      | Op_Cap n \<Rightarrow> set_snapshot_staging_cap n ge
      | Op_Epoch g \<Rightarrow> snd (next_boot_epoch g ge)
      | Op_Floor g flr \<Rightarrow> set_group_floor g flr ge
      | Op_Gen g gen \<Rightarrow> set_group_gen g gen ge
      | Op_Stores g f \<Rightarrow> ge\<lparr>ge_groups := bm_update g f (ge_groups ge)\<rparr>)"

definition engine_run :: "('g::linorder, 'i) engine_op list \<Rightarrow> ('g, 'i) group_engine \<Rightarrow> ('g, 'i) group_engine" where
  "engine_run ops ge = fold engine_step ops ge"

text \<open>A field of a lineage record, folded by maximum.\<close>

definition record_of :: "'g \<Rightarrow> ('g, lineage_record) btree_map \<Rightarrow> lineage_record" where
  "record_of g m = (case map_of m g of Some r \<Rightarrow> r | None \<Rightarrow> lr_default)"

definition lr_le :: "lineage_record \<Rightarrow> lineage_record \<Rightarrow> bool" where
  "lr_le a b \<longleftrightarrow> lr_generation a \<le> lr_generation b \<and> lr_floor a \<le> lr_floor b \<and> lr_ceiling a \<le> lr_ceiling b"

lemma lr_le_refl [simp]: "lr_le a a"
  by (simp add: lr_le_def)

lemma lr_le_trans: "lr_le a b \<Longrightarrow> lr_le b c \<Longrightarrow> lr_le a c"
  by (auto simp: lr_le_def)

lemma lr_le_default [simp]: "lr_le lr_default a"
  by (simp add: lr_le_def lr_default_def)

lemma lr_le_fold [simp]: "lr_le a (lr_fold b a)" "lr_le b (lr_fold b a)"
  by (simp_all add: lr_le_def lr_fold_def)

lemma record_of_or_default:
  "bm_ok m \<Longrightarrow> record_of g (or_default g' lr_default f m) = (if g = g' then f (record_of g m) else record_of g m)"
  by (simp add: record_of_def or_default_def)

lemma bm_ok_or_default [simp]: "bm_ok m \<Longrightarrow> bm_ok (or_default g d f m)"
  by (simp add: or_default_def)

lemma record_of_flush:
  "bm_ok m \<Longrightarrow> lr_le (record_of g m) (record_of g (fold (\<lambda>(g, r). or_default g lr_default (lr_fold r)) st m)) \<and>
   lr_le (record_of g st) (record_of g (fold (\<lambda>(g, r). or_default g lr_default (lr_fold r)) st m))"
proof (induction st arbitrary: m)
  case (Cons x st)
  obtain g' r where x: "x = (g', r)" by (cases x)
  let ?m = "or_default g' lr_default (lr_fold r) m"
  have "lr_le (record_of g m) (record_of g ?m)" "g = g' \<Longrightarrow> lr_le r (record_of g ?m)"
    using Cons.prems by (simp_all add: record_of_or_default)
  moreover have "record_of g (x # st) = (if g = g' then r else record_of g st)"
    by (simp add: x record_of_def)
  ultimately show ?case
    using Cons.IH [of ?m] Cons.prems by (auto simp: x intro: lr_le_trans)
qed (simp add: record_of_def)

text \<open>What an engine knows of an id, durable and staged together.\<close>

definition known :: "'g \<Rightarrow> ('g, 'i) group_engine \<Rightarrow> lineage_record" where
  "known g ge = lr_fold (record_of g (ge_lineage_staged ge)) (record_of g (ge_lineage ge))"

lemma known_sel:
  "lr_floor (known g ge) = group_floor g ge" "lr_generation (known g ge) = group_gen g ge"
  "lr_ceiling (known g ge) =
     max (record_field lr_ceiling g (ge_lineage ge)) (record_field lr_ceiling g (ge_lineage_staged ge))"
  by (simp_all add: known_def lr_fold_def group_floor_def group_gen_def record_field_def record_of_def lr_default_def
      split: option.split)

lemma lr_fold_mono: "lr_le a a' \<Longrightarrow> lr_le b b' \<Longrightarrow> lr_le (lr_fold a b) (lr_fold a' b')"
  by (auto simp: lr_le_def lr_fold_def max.coboundedI1 max.coboundedI2)

lemma lr_fold_lub: "lr_le a c \<Longrightarrow> lr_le b c \<Longrightarrow> lr_le (lr_fold a b) c"
  by (simp add: lr_le_def lr_fold_def)

text \<open>The maps of an engine are in key order.\<close>

definition ge_ok :: "('g::linorder, 'i) group_engine \<Rightarrow> bool" where
  "ge_ok ge \<longleftrightarrow>
     bm_ok (ge_groups ge) \<and> bm_ok (ge_lineage ge) \<and> bm_ok (ge_lineage_staged ge) \<and> bm_ok (ge_boot_epochs ge)"

lemma bm_ok_flushed: "bm_ok m \<Longrightarrow> bm_ok (fold (\<lambda>(g, r). or_default g lr_default (lr_fold r)) st m)"
  by (induction st arbitrary: m) (auto simp: case_prod_beta)

lemma bm_ok_keys: "map fst m' = map fst m \<Longrightarrow> bm_ok m \<Longrightarrow> bm_ok m'"
  by (simp add: bm_ok_def)

lemma ge_ok_step: "ge_ok ge \<Longrightarrow> ge_ok (engine_step op ge)"
  by (cases op)
    (auto simp: ge_ok_def engine_step_def add_group_def remove_group_def flush_def set_snapshot_staging_cap_def
      next_boot_epoch_def set_group_floor_def set_group_gen_def Let_def comp_def case_prod_unfold
      bm_ok_flushed [unfolded case_prod_unfold] intro: bm_ok_keys [of _ "ge_groups ge"] split: option.split)

lemma ge_ok_run: "ge_ok ge \<Longrightarrow> ge_ok (engine_run ops ge)"
  unfolding engine_run_def by (induction ops arbitrary: ge) (auto intro: ge_ok_step)

lemma ge_ok_new [simp]: "ge_ok ge_new"
  by (simp add: ge_ok_def ge_new_def)

lemma known_step:
  assumes "ge_ok ge"
  shows "lr_le (known g ge) (known g (engine_step op ge))"
proof (cases op)
  case Op_Flush
  have "lr_le (known g ge) (record_of g (ge_lineage (snd (flush ge))))"
    unfolding known_def using record_of_flush [of "ge_lineage ge" g "ge_lineage_staged ge"]
    assms by (intro lr_fold_lub) (simp_all add: flush_def Let_def ge_ok_def)
  then show ?thesis
    using lr_le_trans lr_le_fold(1) Op_Flush unfolding known_def engine_step_def by fastforce
qed (use assms in \<open>auto simp: ge_ok_def engine_step_def known_def add_group_def remove_group_def set_snapshot_staging_cap_def
    next_boot_epoch_def set_group_floor_def set_group_gen_def Let_def record_of_or_default
    intro!: lr_fold_mono split: option.split\<close>, auto simp: lr_le_def)

lemma known_run: "ge_ok ge \<Longrightarrow> lr_le (known g ge) (known g (engine_run ops ge))"
  unfolding engine_run_def
  by (induction ops arbitrary: ge) (auto intro: lr_le_trans known_step ge_ok_step)

text \<open>The boot epochs of an id.\<close>

definition epoch :: "'g \<Rightarrow> ('g, 'i) group_engine \<Rightarrow> u64" where
  "epoch g ge = (case map_of (ge_boot_epochs ge) g of Some c \<Rightarrow> c | None \<Rightarrow> 0)"

lemma epoch_step: "ge_ok ge \<Longrightarrow> epoch g ge \<le> epoch g (engine_step op ge)"
  by (cases op)
    (auto simp: epoch_def ge_ok_def engine_step_def add_group_def remove_group_def flush_def set_snapshot_staging_cap_def
      next_boot_epoch_def set_group_floor_def set_group_gen_def checked_add_1 inc_gt less_imp_le
      Let_def split: option.split)

lemma epoch_run: "ge_ok ge \<Longrightarrow> epoch g ge \<le> epoch g (engine_run ops ge)"
  unfolding engine_run_def
  by (induction ops arbitrary: ge) (auto intro: order.trans [OF epoch_step] ge_ok_step)

lemma next_boot_epoch_above:
  "ge_ok ge \<Longrightarrow> next_boot_epoch g ge = (Some n, ge') \<Longrightarrow> epoch g ge < n \<and> epoch g ge' = n"
  by (auto simp: epoch_def ge_ok_def next_boot_epoch_def checked_add_1 inc_gt Let_def split: if_splits option.splits)

text \<open>Below the highest working generation the cap on the fence is the identity.\<close>

lemma working_ceiling_next:
  assumes "c < HIGHEST_WORKING_GENERATION"
  shows "min (saturating_add c 1) HIGHEST_WORKING_GENERATION = c + 1" "c < c + 1"
    "c + 1 \<le> HIGHEST_WORKING_GENERATION"
proof -
  have "c \<noteq> u64_max" using assms word_order.extremum_strict [of HIGHEST_WORKING_GENERATION] by auto
  then have "saturating_add c 1 = c + 1" by (simp add: saturating_add_1)
  moreover show "c < c + 1" using \<open>c \<noteq> u64_max\<close> by (rule inc_gt)
  moreover show "c + 1 \<le> HIGHEST_WORKING_GENERATION" using assms by (rule inc_le)
  ultimately show "min (saturating_add c 1) HIGHEST_WORKING_GENERATION = c + 1" by simp
qed

text \<open>The fence is above a ceiling that was minted, or the highest one.\<close>

lemma removal_floor_above:
  assumes "removal_ceiling g ge \<noteq> 0" "removal_ceiling g ge < HIGHEST_WORKING_GENERATION"
  shows "removal_ceiling g ge < removal_floor g ge \<and> removal_floor g ge \<le> HIGHEST_WORKING_GENERATION"
  using assms working_ceiling_next [OF assms(2)] by (simp add: removal_floor_def Let_def)

section \<open>The properties of the engine\<close>

text \<open>
  C8: The engine's log is well formed. After every sequence of appends, compactions, restores,
  barriers and polls the entries are numbered one by one from the offset, the shape marks are those of
  the retained entries, and a read returns exactly the retained entries of the range it is asked for.
\<close>

theorem engine_log_well_formed:
  assumes "el_reachable A l"
  shows "el_ok A l \<and>
    el_read l lo hi cap = Ok (EntriesReady (filter (\<lambda>e. lo \<le> en_index e \<and> en_index e < hi) (el_entries l)))"
  using el_reachable_ok [OF assms] by (simp add: el_read_entries)

theorem engine_log_well_formed_witness:
  "\<forall>A. el_ok A (el_compact 1 (el_submit_append A (OpId 1 0) [entry_new 1 1 EK_Normal [], entry_new 1 2 EK_Normal []] el_new))"
  by (intro allI engine_log_well_formed [THEN conjunct1] el_reachable.intros)
    (simp add: append_ok_def el_new_def el_last_index_def numbered_def entry_new_def nth_Cons' less_Suc_eq)

text \<open>
  C9: The maintained removal fence is exact. Whenever a scan of the retained log and of the two
  snapshot slots, joined with the lineage records, finds a ceiling below the highest working
  generation, the floor a removal must persist is one above that ceiling (or none for a ceiling of
  zero), for every state the stores' own operations can leave: an entry that was truncated, compacted
  or restored away no longer counts. A log that holds an entry the apply path will refuse yields the
  highest working generation as the fence instead.
\<close>

theorem removal_floor_exact:
  assumes "map_of (ge_groups ge) g = Some s" and "el_reachable A (gs_log s)" and "es_reachable (gs_stable s)"
    and "c = fold max (map (named_generation A) (el_entries (gs_log s)))
                (max (lr_ceiling (known g ge)) (max (group_gen g ge)
                  (max (slot_gen (map_option fst (es_snapshot (gs_stable s))))
                       (slot_gen (es_durable_snapshot (gs_stable s))))))"
    and "c < HIGHEST_WORKING_GENERATION"
  shows "removal_floor g ge =
    (if list_ex (refused_shape A) (el_entries (gs_log s)) then HIGHEST_WORKING_GENERATION
     else if c = 0 then 0 else c + 1)"
proof -
  note ok = el_reachable_ok [OF assms(2)]
  let ?v = "slot_gen (map_option fst (es_snapshot (gs_stable s)))" and ?d = "slot_gen (es_durable_snapshot (gs_stable s))"
  have ac: "max (max a b) (max t (max d e)) = max (max b (max a (max d e))) t" for a b t d e :: u64
    by (simp add: max.assoc max.commute max.left_commute)
  have meta: "es_meta_ceiling (gs_stable s) = max ?v ?d"
    using es_reachable_gens [OF assms(3)] by (simp add: es_meta_ceiling_def)
  have "removal_ceiling g ge = max (max (group_gen g ge) (lr_ceiling (known g ge)))
      (max (el_shape_ceiling (gs_log s)) (max ?v ?d))"
    unfolding removal_ceiling_def storage_ceiling_def known_sel assms(1) option.case meta by (rule refl)
  then have "removal_ceiling g ge = c"
    unfolding assms(4) fold_max_from [of _ "max _ _"] el_shape_ceiling_exact [OF ok] ac .
  then show ?thesis
    unfolding removal_floor_def assms(1) option.case el_shape_faulted_exact [OF ok]
    using working_ceiling_next [OF assms(5)] by (simp add: Let_def)
qed

theorem removal_floor_exact_witness:
  "\<forall>A. removal_floor (3::nat) ((set_group_gen 3 5 ge_new)\<lparr>ge_groups :=
      [(3, \<lparr>gs_log = el_submit_append A (OpId 1 0) [entry_new 1 1 EK_Normal []] el_new, gs_stable = es_new 9\<rparr>)]\<rparr>) = 6"
  (is "\<forall>A. removal_floor _ (?ge A) = 6")
proof
  fix A :: "('a, 'b, 'c, 'd, 'e, 'f, 'g, 'h) env"
  have r: "el_reachable A (el_submit_append A (OpId 1 0) [entry_new 1 1 EK_Normal []] el_new)"
    by (intro el_reachable.intros)
      (simp add: append_ok_def el_new_def el_last_index_def numbered_def entry_new_def)
  show "removal_floor 3 (?ge A) = 6"
    using removal_floor_exact [of "?ge A" 3 "\<lparr>gs_log = el_submit_append A (OpId 1 0) [entry_new 1 1 EK_Normal []] el_new,
        gs_stable = es_new 9\<rparr>" A 5] r es_fresh [of 9]
    by (simp add: refused_shape_def named_generation_def shape_entry_move_def entry_new_def el_submit_append_entries
        el_truncate_def el_new_def known_sel record_field_def set_group_gen_def ge_new_def group_gen_def or_default_def
        lr_default_def slot_gen_def es_new_def saturating_add_def HIGHEST_WORKING_GENERATION_def MERGED_FLOOR_def)
qed

text \<open>
  C10: A removed group stays fenced. Whatever an engine went through, if the ceiling of a group is a
  generation that was minted (neither zero nor the highest working generation, which no admission gate
  lets in), the floor that its removal persists outlives the removal: after any further flushes,
  removals, additions and lineage writes no generation that the removed incarnation could have minted
  is admitted, and the floor is not the terminal one that would read as a proof of absorption.
\<close>

theorem removed_group_stays_fenced:
  assumes "x \<le> removal_ceiling g (engine_run before ge_new)" and "removal_ceiling g (engine_run before ge_new) \<noteq> 0"
    and "removal_ceiling g (engine_run before ge_new) < HIGHEST_WORKING_GENERATION"
  shows "let ge = engine_run before ge_new; flr = removal_floor g ge;
      ge' = engine_run after (snd (remove_group g (set_group_floor g flr ge)))
    in flr \<le> group_floor g ge' \<and> \<not> floor_admits (group_floor g ge') x \<and> flr \<noteq> MERGED_FLOOR"
proof -
  let ?ge = "engine_run before ge_new"
  define flr where "flr = removal_floor g ?ge"
  define ge' where "ge' = engine_run after (snd (remove_group g (set_group_floor g flr ?ge)))"
  have ok: "ge_ok ?ge" by (simp add: ge_ok_run)
  have "ge' = engine_run (Op_Remove g # after) (engine_step (Op_Floor g flr) ?ge)"
    by (simp add: ge'_def engine_run_def engine_step_def)
  then have "lr_floor (known g (engine_step (Op_Floor g flr) ?ge)) \<le> group_floor g ge'"
    using known_run [OF ge_ok_step [OF ok], of g "Op_Floor g flr" "Op_Remove g # after"]
    by (simp add: lr_le_def known_sel)
  moreover have "flr \<le> lr_floor (known g (engine_step (Op_Floor g flr) ?ge))"
    using ok by (auto simp: known_def lr_fold_def engine_step_def set_group_floor_def record_of_or_default ge_ok_def
        max.coboundedI2)
  ultimately have le: "flr \<le> group_floor g ge'" by simp
  have fence: "removal_ceiling g ?ge < flr \<and> flr \<le> HIGHEST_WORKING_GENERATION"
    using removal_floor_above [OF assms(2,3)] by (simp add: flr_def)
  moreover have "HIGHEST_WORKING_GENERATION < MERGED_FLOOR"
    by (simp add: HIGHEST_WORKING_GENERATION_def MERGED_FLOOR_def)
  ultimately show ?thesis
    using le assms(1) unfolding Let_def flr_def [symmetric] ge'_def [symmetric] floor_admits_def generation_is_working_def
    by auto
qed

theorem removed_group_stays_fenced_witness:
  "let ge = engine_run [Op_Add 3, Op_Gen 3 5] (ge_new :: (nat, nat) group_engine)
   in removal_floor 3 ge = 6 \<and>
      \<not> floor_admits (group_floor 3 (engine_run [Op_Flush, Op_Add 3]
        (snd (remove_group 3 (set_group_floor 3 6 ge))))) 5"
proof -
  have e: "engine_run [Op_Add 3, Op_Gen 3 5] (ge_new :: (nat, nat) group_engine) =
      ge_new\<lparr>ge_groups := [(3, gs_new (2 ^ 64 - 1))], ge_lineage_staged := [(3, \<lparr>lr_generation = 5, lr_floor = 0, lr_ceiling = 0\<rparr>)]\<rparr>"
    by (simp add: engine_run_def engine_step_def add_group_def set_group_gen_def ge_new_def bm_contains_def
        or_default_def lr_default_def)
  have c: "removal_ceiling 3 (engine_run [Op_Add 3, Op_Gen 3 5] (ge_new :: (nat, nat) group_engine)) = 5"
    unfolding e by (simp add: removal_ceiling_def group_gen_def record_field_def storage_ceiling_def ge_new_def gs_new_def
        el_new_def es_new_def el_shape_ceiling_def es_meta_ceiling_def)
  have f: "removal_floor 3 (engine_run [Op_Add 3, Op_Gen 3 5] (ge_new :: (nat, nat) group_engine)) = 6"
    unfolding removal_floor_def c unfolding e
    by (simp add: ge_new_def gs_new_def el_new_def el_shape_faulted_def saturating_add_def
        HIGHEST_WORKING_GENERATION_def MERGED_FLOOR_def)
  show ?thesis
    using removed_group_stays_fenced [of 5 3 "[Op_Add 3, Op_Gen 3 5] :: (nat, nat) engine_op list" "[Op_Flush, Op_Add 3]"]
    by (simp add: c f Let_def HIGHEST_WORKING_GENERATION_def MERGED_FLOOR_def)
qed

end
