(* ===== verification/Multi_State.thy ===== *)
theory Multi_State
  imports Restart Dispatch Lineage Frame
begin

text \<open>
  The group container \<^verbatim>\<open>MultiRaft\<close> (\<^verbatim>\<open>multi/mod.rs\<close>): many endpoints on one host, keyed
  by group id, with the queues that tell a driver which of them have output.  This theory
  holds the container's data, the questions one group asks about the others, the dirty
  queues with their polls, and the removal of a group.

  The record \<open>multi_env\<close> collects what the container takes from outside: the group id
  codec, the state machine's capability flags, the stores of each group and the store
  provider's fences.  Debug assertions are not part of the model: they have no effect in a
  release build.
\<close>

section \<open>What the container takes from outside\<close>

record ('g, 'i, 'f, 'c, 'n, 'p, 'r, 'l, 's, 'k) multi_env =
  mx_env :: "('i, 'f, 'c, 'n, 'p, 'r, 'l, 's) env"
  gid_encode :: "'g \<Rightarrow> bytes"
  gid_decode_exact :: "bytes \<Rightarrow> 'g fallible"
  fsm_supports_split :: "'f \<Rightarrow> bool"
  fsm_supports_absorb :: "'f \<Rightarrow> bool"
  encode_split_payload :: "split_payload \<Rightarrow> bytes"
  encode_prepare_merge_payload :: "prepare_merge_payload \<Rightarrow> bytes"
  encode_commit_merge_payload :: "commit_merge_payload \<Rightarrow> bytes"
  encode_rollback_merge_payload :: "rollback_merge_payload \<Rightarrow> bytes"
  encode_thaw_discharged_payload :: "thaw_discharged_payload \<Rightarrow> bytes"
  stores_at :: "'g \<Rightarrow> 'k \<Rightarrow> ('l \<times> 's) option"
  put_stores :: "'g \<Rightarrow> 'l \<Rightarrow> 's \<Rightarrow> 'k \<Rightarrow> 'k"
  eng_floor :: "'g \<Rightarrow> 'k \<Rightarrow> u64"
  eng_lineage :: "'g \<Rightarrow> 'k \<Rightarrow> u64"
  eng_contains_group :: "'g \<Rightarrow> 'k \<Rightarrow> bool"
  eng_add_group :: "'g \<Rightarrow> 'k \<Rightarrow> bool \<times> 'k"
  eng_next_boot_epoch :: "'g \<Rightarrow> 'k \<Rightarrow> u64 option \<times> 'k"
  eng_remove_group :: "'g \<Rightarrow> 'k \<Rightarrow> 'k"

text \<open>A gate answers which group ids are already spoken for and above which floor a
generation must lie.\<close>

record 'g fork_gate =
  gate_contains_group :: "'g \<Rightarrow> bool"
  gate_floor :: "'g \<Rightarrow> u64"

definition NoHold :: "'g fork_gate" where
  "NoHold = \<lparr>gate_contains_group = (\<lambda>_. False), gate_floor = (\<lambda>_. 0)\<rparr>"

definition engine_fork_gate ::
    "('g, 'i, 'f, 'c, 'n, 'p, 'r, 'l, 's, 'k) multi_env \<Rightarrow> 'k \<Rightarrow> 'g fork_gate \<Rightarrow> 'g fork_gate" where
  "engine_fork_gate X engine extra =
     \<lparr>gate_contains_group = (\<lambda>g. eng_contains_group X g engine \<or> gate_contains_group extra g),
      gate_floor = (\<lambda>g. max (eng_floor X g engine) (gate_floor extra g))\<rparr>"

section \<open>The state\<close>

datatype ParkCause = PC_HostedChild | PC_Blocked

datatype 'g MergeResolution =
    MR_Merged 'g 'g
  | MR_Absorbed 'g 'g
  | MR_Aborted 'g 'g
  | MR_Retired 'g
  | MR_CaptureFailed 'g 'g

datatype MergeBlockedCause =
    SourceUnhosted | SourceBehind | CrossedHostedSource | ForkFence | AbortFence | BlockedFrozen

record 'g merge_blocked =
  mb_target :: 'g
  mb_source :: 'g
  mb_boundary :: index
  mb_cause :: MergeBlockedCause

record ('g, 'i) yield_plan =
  yp_child :: 'g
  yp_child_gen :: u64
  yp_parent_gen_after :: u64
  yp_split_index :: index
  yp_split_term :: raft_term
  yp_child_bytes :: bytes
  yp_config :: "'i config"

datatype ('g, 'i) HeadFork = HF_Empty | HF_Resolved | HF_Parked | HF_Yield "('g, 'i) yield_plan"

datatype ('g, 'i) DrainOutcome =
    DO_Yieldable 'g "('g, 'i) yield_plan"
  | DO_Refused
  | DO_Held
  | DO_Empty

datatype ('g, 'i) InstallOutcome =
    IO_Installed 'g 'g u64 u64 index "'i config"
  | IO_Refused
  | IO_Held
  | IO_NotYieldable
  | IO_Empty

datatype ('g, 'i) PrepareOutcome =
    PO_Ready 'g "('g, 'i) yield_plan" u64 "'i config"
  | PO_Done "('g, 'i) InstallOutcome"

datatype RemoveError =
    RE_OwesThaw | RE_Frozen | RE_MergeParked | RE_OwesCapture | RE_OwesRecovery | RE_SpokenFor | RE_Claimed

record ('g, 'i, 'f, 'n, 'p, 'r) multi_raft =
  mr_groups :: "('g, ('i, 'f, 'n, 'p, 'r) endpoint) btree_map"
  mr_dirty_msgs :: "'g list"
  mr_dirty_msgs_set :: "'g btree_set"
  mr_dirty_events :: "'g list"
  mr_dirty_events_set :: "'g btree_set"
  mr_dirty_forks :: "'g list"
  mr_dirty_forks_set :: "'g btree_set"
  mr_parked :: "('g, ParkCause) btree_map"
  mr_conflicts :: "('g \<times> 'g) list"
  mr_refusals :: "('g \<times> 'g) list"
  mr_guard_advances :: "('g \<times> u64) list"
  mr_merge_blocked_seen :: "('g, MergeBlockedCause \<times> 'g \<times> index) btree_map"
  mr_merge_blocked_attempts :: "('g, MergeBlockedCause \<times> 'g \<times> index) btree_map"
  mr_merge_blocked :: "'g merge_blocked list"
  mr_poisoned_seen :: "'g btree_set"
  mr_poisoned_pending :: "'g list"
  mr_lineage :: "('g, u64) btree_map"
  mr_host_id :: "'i option"

definition mr_new :: "('g, 'i, 'f, 'n, 'p, 'r) multi_raft" where
  "mr_new =
     \<lparr>mr_groups = [], mr_dirty_msgs = [], mr_dirty_msgs_set = {||}, mr_dirty_events = [],
      mr_dirty_events_set = {||}, mr_dirty_forks = [], mr_dirty_forks_set = {||}, mr_parked = [],
      mr_conflicts = [], mr_refusals = [], mr_guard_advances = [], mr_merge_blocked_seen = [],
      mr_merge_blocked_attempts = [], mr_merge_blocked = [], mr_poisoned_seen = {||},
      mr_poisoned_pending = [], mr_lineage = [], mr_host_id = None\<rparr>"

definition mr_len :: "('g, 'i, 'f, 'n, 'p, 'r) multi_raft \<Rightarrow> nat" where
  "mr_len m = length (mr_groups m)"

definition mr_is_empty :: "('g, 'i, 'f, 'n, 'p, 'r) multi_raft \<Rightarrow> bool" where
  "mr_is_empty m \<longleftrightarrow> mr_groups m = []"

definition mr_contains_group :: "'g \<Rightarrow> ('g, 'i, 'f, 'n, 'p, 'r) multi_raft \<Rightarrow> bool" where
  "mr_contains_group gid m = bm_contains (mr_groups m) gid"

definition mr_group :: "'g \<Rightarrow> ('g, 'i, 'f, 'n, 'p, 'r) multi_raft \<Rightarrow> ('i, 'f, 'n, 'p, 'r) endpoint option" where
  "mr_group gid m = map_of (mr_groups m) gid"

definition mr_group_ids :: "('g, 'i, 'f, 'n, 'p, 'r) multi_raft \<Rightarrow> 'g list" where
  "mr_group_ids m = map fst (mr_groups m)"

text \<open>The state changes every operation is written in: the endpoint of one group, a queue
with its membership set.\<close>

definition on_group ::
    "'g \<Rightarrow> (('i, 'f, 'n, 'p, 'r) endpoint \<Rightarrow> ('i, 'f, 'n, 'p, 'r) endpoint) \<Rightarrow>
     ('g, 'i, 'f, 'n, 'p, 'r) multi_raft \<Rightarrow> ('g, 'i, 'f, 'n, 'p, 'r) multi_raft" where
  "on_group gid f m = m\<lparr>mr_groups := bm_update gid f (mr_groups m)\<rparr>"

definition on_groups ::
    "(('i, 'f, 'n, 'p, 'r) endpoint \<Rightarrow> ('i, 'f, 'n, 'p, 'r) endpoint) \<Rightarrow>
     ('g, 'i, 'f, 'n, 'p, 'r) multi_raft \<Rightarrow> ('g, 'i, 'f, 'n, 'p, 'r) multi_raft" where
  "on_groups f m = m\<lparr>mr_groups := map (\<lambda>(g, ep). (g, f ep)) (mr_groups m)\<rparr>"

definition any_group ::
    "('g \<Rightarrow> ('i, 'f, 'n, 'p, 'r) endpoint \<Rightarrow> bool) \<Rightarrow> ('g, 'i, 'f, 'n, 'p, 'r) multi_raft \<Rightarrow> bool" where
  "any_group P m = list_ex (\<lambda>(g, ep). P g ep) (mr_groups m)"

definition group_is ::
    "'g \<Rightarrow> (('i, 'f, 'n, 'p, 'r) endpoint \<Rightarrow> bool) \<Rightarrow> ('g, 'i, 'f, 'n, 'p, 'r) multi_raft \<Rightarrow> bool" where
  "group_is gid P m = (case mr_group gid m of Some ep \<Rightarrow> P ep | None \<Rightarrow> False)"

definition schedule_msgs :: "'g \<Rightarrow> ('g, 'i, 'f, 'n, 'p, 'r) multi_raft \<Rightarrow> ('g, 'i, 'f, 'n, 'p, 'r) multi_raft" where
  "schedule_msgs gid m =
     (if gid |\<in>| mr_dirty_msgs_set m then m
      else m\<lparr>mr_dirty_msgs_set := finsert gid (mr_dirty_msgs_set m), mr_dirty_msgs := mr_dirty_msgs m @ [gid]\<rparr>)"

definition schedule_events :: "'g \<Rightarrow> ('g, 'i, 'f, 'n, 'p, 'r) multi_raft \<Rightarrow> ('g, 'i, 'f, 'n, 'p, 'r) multi_raft" where
  "schedule_events gid m =
     (if gid |\<in>| mr_dirty_events_set m then m
      else m\<lparr>mr_dirty_events_set := finsert gid (mr_dirty_events_set m),
             mr_dirty_events := mr_dirty_events m @ [gid]\<rparr>)"

definition schedule_forks :: "'g \<Rightarrow> ('g, 'i, 'f, 'n, 'p, 'r) multi_raft \<Rightarrow> ('g, 'i, 'f, 'n, 'p, 'r) multi_raft" where
  "schedule_forks gid m =
     (if gid |\<in>| mr_dirty_forks_set m then m
      else m\<lparr>mr_dirty_forks_set := finsert gid (mr_dirty_forks_set m),
             mr_dirty_forks := mr_dirty_forks m @ [gid]\<rparr>)"

definition note_if_poisoned :: "'g \<Rightarrow> ('g, 'i, 'f, 'n, 'p, 'r) multi_raft \<Rightarrow> ('g, 'i, 'f, 'n, 'p, 'r) multi_raft" where
  "note_if_poisoned gid m =
     (if group_is gid is_poisoned m \<and> gid |\<notin>| mr_poisoned_seen m
      then m\<lparr>mr_poisoned_seen := finsert gid (mr_poisoned_seen m),
             mr_poisoned_pending := mr_poisoned_pending m @ [gid]\<rparr>
      else m)"

definition mark_dirty :: "'g \<Rightarrow> ('g, 'i, 'f, 'n, 'p, 'r) multi_raft \<Rightarrow> ('g, 'i, 'f, 'n, 'p, 'r) multi_raft" where
  "mark_dirty gid m = note_if_poisoned gid (schedule_forks gid (schedule_events gid (schedule_msgs gid m)))"

definition mr_fail_stop_query_panicked ::
    "'g \<Rightarrow> ('g, 'i, 'f, 'n, 'p, 'r) multi_raft \<Rightarrow> ('g, 'i, 'f, 'n, 'p, 'r) multi_raft" where
  "mr_fail_stop_query_panicked gid m = note_if_poisoned gid (on_group gid fail_stop_query_panicked m)"

text \<open>The plane-wide fail-stop walks the groups in key order, poisoning each and announcing it
once.\<close>

definition fail_stop_plane_unattributable_panic ::
    "('g, 'i, 'f, 'n, 'p, 'r) multi_raft \<Rightarrow> ('g, 'i, 'f, 'n, 'p, 'r) multi_raft" where
  "fail_stop_plane_unattributable_panic m =
     fold mr_fail_stop_query_panicked (mr_group_ids m) m"

section \<open>Generations and reservations\<close>

definition mr_group_gen :: "'g \<Rightarrow> ('g, 'i, 'f, 'n, 'p, 'r) multi_raft \<Rightarrow> u64" where
  "mr_group_gen gid m =
     max (case mr_group gid m of Some ep \<Rightarrow> sl_shape_gen (ep_split ep) | None \<Rightarrow> 0)
         (case map_of (mr_lineage m) gid of Some g \<Rightarrow> g | None \<Rightarrow> 0)"

definition split_reserved ::
    "('g, 'i, 'f, 'c, 'n, 'p, 'r, 'l, 's, 'k) multi_env \<Rightarrow> 'g \<Rightarrow> ('g, 'i, 'f, 'n, 'p, 'r) multi_raft \<Rightarrow> bool" where
  "split_reserved X gid m = any_group (\<lambda>_ ep. split_reserves (gid_encode X gid) ep) m"

definition fork_derivation_volatile :: "'g \<Rightarrow> ('g, 'i, 'f, 'n, 'p, 'r) multi_raft \<Rightarrow> bool" where
  "fork_derivation_volatile gid m =
     group_is gid (\<lambda>ep. fork_obligations_standing ep \<and> \<not> fork_barrier_standing ep) m"

section \<open>What one group asks about the others\<close>

definition some_target_owes_thaw_to ::
    "('g, 'i, 'f, 'c, 'n, 'p, 'r, 'l, 's, 'k) multi_env \<Rightarrow> 'g \<Rightarrow> ('g, 'i, 'f, 'n, 'p, 'r) multi_raft \<Rightarrow> bool" where
  "some_target_owes_thaw_to X gid m =
     (case mr_group gid m of
        None \<Rightarrow> False
      | Some ep \<Rightarrow>
          let live_gen = sl_shape_gen (ep_split ep); key = gid_encode X gid
          in any_group (\<lambda>g ep. g \<noteq> gid \<and> owes_live_thaw_for key ep = Some live_gen) m)"

definition owes_only_covered_dead_ends ::
    "('g, 'i, 'f, 'c, 'n, 'p, 'r, 'l, 's, 'k) multi_env \<Rightarrow> 'g \<Rightarrow> ('g, 'i, 'f, 'n, 'p, 'r) multi_raft \<Rightarrow> bool" where
  "owes_only_covered_dead_ends X gid m =
     group_is gid (\<lambda>ep. list_all (\<lambda>(source_bytes, ob). ab_is_covered ob \<and>
       (case gid_decode_exact X source_bytes of Ok source \<Rightarrow> \<not> mr_contains_group source m | Err _ \<Rightarrow> False))
       (live_obligations ep)) m"

definition park_names_source ::
    "('g, 'i, 'f, 'c, 'n, 'p, 'r, 'l, 's, 'k) multi_env \<Rightarrow> 'g \<Rightarrow> ('g, 'i, 'f, 'n, 'p, 'r) multi_raft \<Rightarrow> bool" where
  "park_names_source X gid m =
     (let key = gid_encode X gid
      in any_group (\<lambda>g ep. g \<noteq> gid \<and>
           ((case me_pending_apply (ep_merge ep) of Some p \<Rightarrow> pa_source_bytes p = key | None \<Rightarrow> False) \<or>
            debt_names_source key ep)) m)"

definition obligation_names_hosted_unadvanced ::
    "('g, 'i, 'f, 'c, 'n, 'p, 'r, 'l, 's, 'k) multi_env \<Rightarrow> 'g \<Rightarrow> ('g, 'i, 'f, 'n, 'p, 'r) multi_raft \<Rightarrow> bool" where
  "obligation_names_hosted_unadvanced X tgid m =
     (case mr_group tgid m of
        None \<Rightarrow> False
      | Some tep \<Rightarrow>
          list_ex (\<lambda>(sb, ob).
            case gid_decode_exact X sb of
              Err _ \<Rightarrow> False
            | Ok source \<Rightarrow>
                group_is source (\<lambda>sep. merge_freeze_active sep \<or> sl_shape_gen (ep_split sep) \<le> ab_generation ob) m)
            (live_obligations tep))"

definition clear_unresolvable_hints_naming ::
    "('g, 'i, 'f, 'c, 'n, 'p, 'r, 'l, 's, 'k) multi_env \<Rightarrow> 'g \<Rightarrow> ('g, 'i, 'f, 'n, 'p, 'r) multi_raft \<Rightarrow>
     ('g, 'i, 'f, 'n, 'p, 'r) multi_raft" where
  "clear_unresolvable_hints_naming X gid m =
     (let key = gid_encode X gid
      in on_groups (\<lambda>ep.
           if (case me_pending_apply (ep_merge ep) of Some p \<Rightarrow> pa_source_bytes p = key | None \<Rightarrow> False) \<or>
              list_ex (\<lambda>(b, _). b = key) (me_crossings (ep_merge ep)) \<or>
              list_ex (\<lambda>(sb, _). sb = key) (live_obligations ep)
           then note_merge_park_unresolvable False ep else ep) m)"

definition debt_names ::
    "('g, 'i, 'f, 'c, 'n, 'p, 'r, 'l, 's, 'k) multi_env \<Rightarrow> 'g \<Rightarrow> ('g, 'i, 'f, 'n, 'p, 'r) multi_raft \<Rightarrow> bool" where
  "debt_names X gid m = any_group (\<lambda>_ ep. debt_names_source (gid_encode X gid) ep) m"

text \<open>One obligation of the walk that asks whether a thaw can be driven: it poisons the
source when the obligation names bytes that are no group id.\<close>

definition drivable_obligation ::
    "('g, 'i, 'f, 'c, 'n, 'p, 'r, 'l, 's, 'k) multi_env \<Rightarrow> 'g \<Rightarrow> bytes \<times> abandoned_merge \<Rightarrow>
     bool \<times> ('g, 'i, 'f, 'n, 'p, 'r) multi_raft \<Rightarrow> bool \<times> ('g, 'i, 'f, 'n, 'p, 'r) multi_raft" where
  "drivable_obligation X source = (\<lambda>(owed, ob) (drivable, m).
     if ab_discharged ob then (True, m)
     else case gid_decode_exact X owed of
            Ok g \<Rightarrow> (if mr_contains_group g m then True else drivable, m)
          | Err _ \<Rightarrow> (True, note_if_poisoned source (on_group source (poison PR_MergeDecode) m)))"

definition owes_a_drivable_thaw ::
    "('g, 'i, 'f, 'c, 'n, 'p, 'r, 'l, 's, 'k) multi_env \<Rightarrow> 'g \<Rightarrow> ('g, 'i, 'f, 'n, 'p, 'r) multi_raft \<Rightarrow>
     bool \<times> ('g, 'i, 'f, 'n, 'p, 'r) multi_raft" where
  "owes_a_drivable_thaw X source m =
     fold (drivable_obligation X source)
       (case mr_group source m of Some ep \<Rightarrow> me_abandoned (ep_merge ep) | None \<Rightarrow> []) (False, m)"

definition some_source_applied_claims_target ::
    "('g, 'i, 'f, 'c, 'n, 'p, 'r, 'l, 's, 'k) multi_env \<Rightarrow> 'g \<Rightarrow> ('g, 'i, 'f, 'n, 'p, 'r) multi_raft \<Rightarrow> bool" where
  "some_source_applied_claims_target X gid m =
     any_group (\<lambda>g ep. g \<noteq> gid \<and> me_frozen_for (ep_merge ep) = Some (gid_encode X gid)) m"

text \<open>The claims scan visits the groups in key order and stops at the first claim; each
visited endpoint keeps what its scan cached.\<close>

fun claims_walk ::
    "('g, 'i, 'f, 'c, 'n, 'p, 'r, 'l, 's, 'k) multi_env \<Rightarrow> 'k \<Rightarrow> 'g \<Rightarrow>
     ('g, ('i, 'f, 'n, 'p, 'r) endpoint) btree_map \<Rightarrow> bool \<times> ('g, ('i, 'f, 'n, 'p, 'r) endpoint) btree_map" where
  "claims_walk X k gid [] = (False, [])"
| "claims_walk X k gid ((g, ep) # rest) =
     (if g = gid \<or> freeze_pending ep = None
      then let (b, rest) = claims_walk X k gid rest in (b, (g, ep) # rest)
      else case stores_at X g k of
             None \<Rightarrow> (True, (g, ep) # rest)
           | Some (logs, _) \<Rightarrow>
               case scan_freeze_claims (mx_env X) logs ep of
                 (Ok claims, ep) \<Rightarrow>
                   if gid_encode X gid \<in> set claims then (True, (g, ep) # rest)
                   else let (b, rest) = claims_walk X k gid rest in (b, (g, ep) # rest)
               | (Err _, ep) \<Rightarrow> (True, (g, ep) # rest))"

definition some_source_claims_target ::
    "('g, 'i, 'f, 'c, 'n, 'p, 'r, 'l, 's, 'k) multi_env \<Rightarrow> 'g \<Rightarrow> 'k \<Rightarrow> ('g, 'i, 'f, 'n, 'p, 'r) multi_raft \<Rightarrow>
     bool \<times> ('g, 'i, 'f, 'n, 'p, 'r) multi_raft" where
  "some_source_claims_target X gid k m =
     (if some_source_applied_claims_target X gid m then (True, m)
      else let (b, groups) = claims_walk X k gid (mr_groups m) in (b, m\<lparr>mr_groups := groups\<rparr>))"

definition some_source_claims_target_unresolved ::
    "('g, 'i, 'f, 'c, 'n, 'p, 'r, 'l, 's, 'k) multi_env \<Rightarrow> 'g \<Rightarrow> ('g, 'i, 'f, 'n, 'p, 'r) multi_raft \<Rightarrow> bool" where
  "some_source_claims_target_unresolved X gid m =
     any_group (\<lambda>g ep. g \<noteq> gid \<and> me_frozen_for (ep_merge ep) = Some (gid_encode X gid) \<and>
       (case mr_group gid m of None \<Rightarrow> True
        | Some t \<Rightarrow> owes_live_thaw_for (gid_encode X g) t = None)) m"

section \<open>Fork relays\<close>

definition mint_fork_id ::
    "('g, 'i, 'f, 'c, 'n, 'p, 'r, 'l, 's, 'k) multi_env \<Rightarrow> 'g \<Rightarrow> u64 \<Rightarrow> index \<Rightarrow> raft_term \<Rightarrow> bytes \<Rightarrow> u64 \<Rightarrow> fork_id" where
  "mint_fork_id X parent parent_gen_after split_index split_term child_bytes child_gen =
     \<lparr>fk_parent = gid_encode X parent, fk_parent_incarnation = parent_gen_after, fk_split_index = split_index,
      fk_split_term = split_term, fk_child = child_bytes, fk_child_gen = child_gen\<rparr>"

definition fork_token ::
    "('g, 'i, 'f, 'c, 'n, 'p, 'r, 'l, 's, 'k) multi_env \<Rightarrow> 'g \<Rightarrow> 'i pending_fork \<Rightarrow> fork_id" where
  "fork_token X parent fork =
     mint_fork_id X parent (pf_parent_gen_after fork) (pf_index fork) (pf_split_term fork)
       (pf_child_bytes fork) (pf_child_gen fork)"

definition unpark :: "'g \<Rightarrow> ('g, 'i, 'f, 'n, 'p, 'r) multi_raft \<Rightarrow> ('g, 'i, 'f, 'n, 'p, 'r) multi_raft" where
  "unpark gid m =
     (if bm_contains (mr_parked m) gid
      then m\<lparr>mr_parked := AList.delete gid (mr_parked m),
             mr_conflicts := filter (\<lambda>(parent, _). parent \<noteq> gid) (mr_conflicts m)\<rparr>
      else m)"

definition advance_relay_guard ::
    "'g::linorder \<Rightarrow> u64 \<Rightarrow> ('g, 'i, 'f, 'n, 'p, 'r) multi_raft \<Rightarrow> ('g, 'i, 'f, 'n, 'p, 'r) multi_raft" where
  "advance_relay_guard gid parent_gen_after m =
     (let guard = (case map_of (mr_lineage m) gid of Some g \<Rightarrow> max g parent_gen_after | None \<Rightarrow> parent_gen_after)
      in m\<lparr>mr_lineage := bm_insert gid guard (mr_lineage m),
           mr_guard_advances := mr_guard_advances m @ [(gid, parent_gen_after)]\<rparr>)"

text \<open>The head fork popped and its barrier lifted: the popped fork's \<open>parent_gen_after\<close> and
child, and the endpoint without it.\<close>

definition consume_head_fork ::
    "('i, 'f, 'n, 'p, 'r) endpoint \<Rightarrow> 'i pending_fork option \<times> ('i, 'f, 'n, 'p, 'r) endpoint" where
  "consume_head_fork ep =
     (case pop_pending_fork ep of
        (None, ep) \<Rightarrow> (None, ep)
      | (Some (fork, _), ep) \<Rightarrow> (Some fork, resolve_fork (pf_index fork) ep))"

definition consume_group_fork ::
    "'g \<Rightarrow> ('g, 'i, 'f, 'n, 'p, 'r) multi_raft \<Rightarrow>
     'i pending_fork option \<times> ('g, 'i, 'f, 'n, 'p, 'r) multi_raft" where
  "consume_group_fork gid m =
     (case mr_group gid m of
        None \<Rightarrow> (None, m)
      | Some ep \<Rightarrow> let (fork, ep) = consume_head_fork ep in (fork, on_group gid (\<lambda>_. ep) m))"

definition consume_abandoned_head_fork ::
    "('g::linorder, 'i, 'f, 'c, 'n, 'p, 'r, 'l, 's, 'k) multi_env \<Rightarrow> 'g \<Rightarrow> ('g, 'i, 'f, 'n, 'p, 'r) multi_raft \<Rightarrow>
     ('g, 'i) HeadFork \<times> ('g, 'i, 'f, 'n, 'p, 'r) multi_raft" where
  "consume_abandoned_head_fork X gid m =
     (case consume_group_fork gid m of
        (None, m) \<Rightarrow> (HF_Empty, m)
      | (Some fork, m) \<Rightarrow>
          let m = advance_relay_guard gid (pf_parent_gen_after fork) m
          in case gid_decode_exact X (pf_child_bytes fork) of
               Ok child \<Rightarrow> (HF_Resolved, m\<lparr>mr_refusals := mr_refusals m @ [(gid, child)]\<rparr>)
             | Err _ \<Rightarrow> (HF_Resolved, m))"

text \<open>The first staged fork, over the groups in key order and each group's forks in queue
order, whose token is the removed child's: its parent, the fork, and whether it is the head.\<close>

fun find_map :: "('a \<Rightarrow> 'b option) \<Rightarrow> 'a list \<Rightarrow> 'b option" where
  "find_map f [] = None"
| "find_map f (x # xs) = (case f x of Some y \<Rightarrow> Some y | None \<Rightarrow> find_map f xs)"

definition fork_descended_from ::
    "('g, 'i, 'f, 'c, 'n, 'p, 'r, 'l, 's, 'k) multi_env \<Rightarrow> bytes \<Rightarrow> fork_id \<Rightarrow> ('g, 'i, 'f, 'n, 'p, 'r) multi_raft \<Rightarrow>
     ('g \<times> index \<times> u64 \<times> bool) option" where
  "fork_descended_from X child_key token m =
     find_map (\<lambda>(parent, ep).
       let head = map_option pf_index (peek_pending_fork ep)
       in find_map (\<lambda>fork.
            if pf_child_bytes fork = child_key \<and> fork_token X parent fork = token
            then Some (parent, pf_index fork, pf_parent_gen_after fork, head = Some (pf_index fork))
            else None) (sl_pending_forks (ep_split ep))) (mr_groups m)"

definition abandon_fork_this_removal_descends_from ::
    "('g::linorder, 'i, 'f, 'c, 'n, 'p, 'r, 'l, 's, 'k) multi_env \<Rightarrow> 'g \<Rightarrow> ('i, 'f, 'n, 'p, 'r) endpoint option \<Rightarrow>
     ('g, 'i, 'f, 'n, 'p, 'r) multi_raft \<Rightarrow> ('g, 'i, 'f, 'n, 'p, 'r) multi_raft" where
  "abandon_fork_this_removal_descends_from X gid removed m =
     (case removed of
        None \<Rightarrow> m
      | Some ep \<Rightarrow>
          if is_poisoned ep then m
          else case sl_fork_id (ep_split ep) of
                 None \<Rightarrow> m
               | Some token \<Rightarrow>
                   case fork_descended_from X (gid_encode X gid) token m of
                     None \<Rightarrow> m
                   | Some (parent, split_index, parent_gen_after, at_head) \<Rightarrow>
                       if \<not> at_head then on_group parent (mark_fork_abandoned split_index) m
                       else let (_, m) = consume_group_fork parent m;
                                m = advance_relay_guard parent parent_gen_after m;
                                m = schedule_forks parent (unpark parent m)
                            in m\<lparr>mr_refusals := mr_refusals m @ [(parent, gid)]\<rparr>)"

section \<open>Removing a group\<close>

definition remove_group_inner ::
    "('g::linorder, 'i, 'f, 'c, 'n, 'p, 'r, 'l, 's, 'k) multi_env \<Rightarrow> 'g \<Rightarrow> ('g, 'i, 'f, 'n, 'p, 'r) multi_raft \<Rightarrow>
     ('i, 'f, 'n, 'p, 'r) endpoint option \<times> ('g, 'i, 'f, 'n, 'p, 'r) multi_raft" where
  "remove_group_inner X gid m =
     (let m = unpark gid m;
          m = m\<lparr>mr_poisoned_seen := btree_remove gid (mr_poisoned_seen m),
                mr_poisoned_pending := filter (\<lambda>g. g \<noteq> gid) (mr_poisoned_pending m),
                mr_merge_blocked_seen :=
                  filter (\<lambda>(_, _, src, _). src \<noteq> gid) (AList.delete gid (mr_merge_blocked_seen m)),
                mr_merge_blocked :=
                  filter (\<lambda>b. mb_target b \<noteq> gid \<and> mb_source b \<noteq> gid) (mr_merge_blocked m)\<rparr>;
          removed = mr_group gid m;
          m = m\<lparr>mr_groups := AList.delete gid (mr_groups m)\<rparr>;
          m = (if removed \<noteq> None \<and> any_group (\<lambda>_ ep. me_abandoned (ep_merge ep) \<noteq> []) m
               then on_groups (clear_abandoned (gid_encode X gid)) m else m)
      in (removed, abandon_fork_this_removal_descends_from X gid removed m))"

definition mr_remove_group ::
    "('g::linorder, 'i, 'f, 'c, 'n, 'p, 'r, 'l, 's, 'k) multi_env \<Rightarrow> 'g \<Rightarrow> 'k \<Rightarrow> ('g, 'i, 'f, 'n, 'p, 'r) multi_raft \<Rightarrow>
     (('i, 'f, 'n, 'p, 'r) endpoint option, RemoveError) result \<times> ('g, 'i, 'f, 'n, 'p, 'r) multi_raft" where
  "mr_remove_group X gid k m =
     (if group_is gid (\<lambda>ep. (owes_live_thaw ep \<and> \<not> owes_only_covered_dead_ends X gid m) \<or> holds_witness_debt ep) m
      then (Err RE_OwesThaw, m)
      else if \<not> some_target_owes_thaw_to X gid m \<and> group_is gid merge_freeze_active m
      then (Err RE_Frozen, m)
      else if group_is gid (\<lambda>ep. me_pending_apply (ep_merge ep) \<noteq> None) m then (Err RE_MergeParked, m)
      else if group_is gid (\<lambda>ep. me_capture_debt (ep_merge ep) \<noteq> None) m then (Err RE_OwesCapture, m)
      else if group_is gid (\<lambda>ep. me_recovery_pins (ep_merge ep) \<noteq> []) m then (Err RE_OwesRecovery, m)
      else if park_names_source X gid m then (Err RE_SpokenFor, m)
      else if mr_contains_group gid m
      then case some_source_claims_target X gid k m of
             (True, m) \<Rightarrow> (Err RE_Claimed, m)
           | (False, m) \<Rightarrow> (let (removed, m) = remove_group_inner X gid m in (Ok removed, m))
      else let (removed, m) = remove_group_inner X gid m in (Ok removed, m))"

section \<open>Polling\<close>

text \<open>Both output polls walk their queue from the front, dropping the groups that have
nothing left, until one yields.\<close>

fun poll_message_loop ::
    "'g list \<Rightarrow> ('g, 'i, 'f, 'n, 'p, 'r) multi_raft \<Rightarrow>
     ('g \<times> 'i outgoing) option \<times> ('g, 'i, 'f, 'n, 'p, 'r) multi_raft" where
  "poll_message_loop [] m = (None, m\<lparr>mr_dirty_msgs := []\<rparr>)"
| "poll_message_loop (gid # queue) m =
     (case map_option poll_message (mr_group gid m) of
        Some (Some msg, ep) \<Rightarrow> (Some (gid, msg), (on_group gid (\<lambda>_. ep) m)\<lparr>mr_dirty_msgs := gid # queue\<rparr>)
      | _ \<Rightarrow> poll_message_loop queue (m\<lparr>mr_dirty_msgs_set := btree_remove gid (mr_dirty_msgs_set m)\<rparr>))"

definition mr_poll_message ::
    "('g, 'i, 'f, 'n, 'p, 'r) multi_raft \<Rightarrow>
     ('g \<times> 'i outgoing) option \<times> ('g, 'i, 'f, 'n, 'p, 'r) multi_raft" where
  "mr_poll_message m = poll_message_loop (mr_dirty_msgs m) m"

fun poll_event_loop ::
    "'g list \<Rightarrow> ('g, 'i, 'f, 'n, 'p, 'r) multi_raft \<Rightarrow>
     ('g \<times> ('i, 'p) event) option \<times> ('g, 'i, 'f, 'n, 'p, 'r) multi_raft" where
  "poll_event_loop [] m = (None, m\<lparr>mr_dirty_events := []\<rparr>)"
| "poll_event_loop (gid # queue) m =
     (case map_option poll_event (mr_group gid m) of
        Some (Some ev, ep) \<Rightarrow> (Some (gid, ev), (on_group gid (\<lambda>_. ep) m)\<lparr>mr_dirty_events := gid # queue\<rparr>)
      | _ \<Rightarrow> poll_event_loop queue (m\<lparr>mr_dirty_events_set := btree_remove gid (mr_dirty_events_set m)\<rparr>))"

definition mr_poll_event ::
    "('g, 'i, 'f, 'n, 'p, 'r) multi_raft \<Rightarrow>
     ('g \<times> ('i, 'p) event) option \<times> ('g, 'i, 'f, 'n, 'p, 'r) multi_raft" where
  "mr_poll_event m = poll_event_loop (mr_dirty_events m) m"

definition deadlines :: "('g, 'i, 'f, 'n, 'p, 'r) multi_raft \<Rightarrow> ('g \<times> instant) list" where
  "deadlines m = List.map_filter (\<lambda>(gid, ep). map_option (Pair gid) (poll_timeout ep)) (mr_groups m)"

definition mr_poll_timeout :: "('g, 'i, 'f, 'n, 'p, 'r) multi_raft \<Rightarrow> instant option" where
  "mr_poll_timeout m =
     (case List.map_filter (\<lambda>(_, ep). poll_timeout ep) (mr_groups m) of
        [] \<Rightarrow> None | d # ds \<Rightarrow> Some (fold min ds d))"

text \<open>The signal queues are polled from the front.\<close>

definition pop_front :: "'a list \<Rightarrow> 'a option \<times> 'a list" where
  "pop_front q = (case q of [] \<Rightarrow> (None, []) | x # xs \<Rightarrow> (Some x, xs))"

definition peek_split_conflict :: "('g, 'i, 'f, 'n, 'p, 'r) multi_raft \<Rightarrow> ('g \<times> 'g) option" where
  "peek_split_conflict m = fst (pop_front (mr_conflicts m))"

definition poll_split_conflict ::
    "('g, 'i, 'f, 'n, 'p, 'r) multi_raft \<Rightarrow> ('g \<times> 'g) option \<times> ('g, 'i, 'f, 'n, 'p, 'r) multi_raft" where
  "poll_split_conflict m = (let (x, q) = pop_front (mr_conflicts m) in (x, m\<lparr>mr_conflicts := q\<rparr>))"

definition fork_relay_pending :: "'g \<Rightarrow> ('g, 'i, 'f, 'n, 'p, 'r) multi_raft \<Rightarrow> bool" where
  "fork_relay_pending gid m \<longleftrightarrow>
     bm_contains (mr_parked m) gid \<or> list_ex (\<lambda>(parent, _). parent = gid) (mr_conflicts m) \<or>
     list_ex (\<lambda>(parent, _). parent = gid) (mr_refusals m)"

definition peek_split_refusal :: "('g, 'i, 'f, 'n, 'p, 'r) multi_raft \<Rightarrow> ('g \<times> 'g) option" where
  "peek_split_refusal m = fst (pop_front (mr_refusals m))"

definition poll_split_refusal ::
    "('g, 'i, 'f, 'n, 'p, 'r) multi_raft \<Rightarrow> ('g \<times> 'g) option \<times> ('g, 'i, 'f, 'n, 'p, 'r) multi_raft" where
  "poll_split_refusal m = (let (x, q) = pop_front (mr_refusals m) in (x, m\<lparr>mr_refusals := q\<rparr>))"

definition poll_relay_guard_advance ::
    "('g, 'i, 'f, 'n, 'p, 'r) multi_raft \<Rightarrow> ('g \<times> u64) option \<times> ('g, 'i, 'f, 'n, 'p, 'r) multi_raft" where
  "poll_relay_guard_advance m = (let (x, q) = pop_front (mr_guard_advances m) in (x, m\<lparr>mr_guard_advances := q\<rparr>))"

definition poll_poisoned ::
    "('g, 'i, 'f, 'n, 'p, 'r) multi_raft \<Rightarrow> 'g option \<times> ('g, 'i, 'f, 'n, 'p, 'r) multi_raft" where
  "poll_poisoned m = (let (x, q) = pop_front (mr_poisoned_pending m) in (x, m\<lparr>mr_poisoned_pending := q\<rparr>))"

definition poll_merge_blocked ::
    "('g, 'i, 'f, 'n, 'p, 'r) multi_raft \<Rightarrow> 'g merge_blocked option \<times> ('g, 'i, 'f, 'n, 'p, 'r) multi_raft" where
  "poll_merge_blocked m = (let (x, q) = pop_front (mr_merge_blocked m) in (x, m\<lparr>mr_merge_blocked := q\<rparr>))"

definition peek_merge_blocked :: "('g, 'i, 'f, 'n, 'p, 'r) multi_raft \<Rightarrow> 'g merge_blocked option" where
  "peek_merge_blocked m = fst (pop_front (mr_merge_blocked m))"

definition note_merge_blocked ::
    "'g::linorder \<Rightarrow> 'g \<Rightarrow> index \<Rightarrow> MergeBlockedCause \<Rightarrow> ('g, 'i, 'f, 'n, 'p, 'r) multi_raft \<Rightarrow>
     ('g, 'i, 'f, 'n, 'p, 'r) multi_raft" where
  "note_merge_blocked target source boundary cause m =
     (let observation = (cause, source, boundary);
          m = m\<lparr>mr_merge_blocked_attempts := bm_insert target observation (mr_merge_blocked_attempts m)\<rparr>
      in if map_of (mr_merge_blocked_seen m) target = Some observation then m
         else m\<lparr>mr_merge_blocked_seen := bm_insert target observation (mr_merge_blocked_seen m),
                mr_merge_blocked := filter (\<lambda>b. mb_target b \<noteq> target) (mr_merge_blocked m) @
                  [\<lparr>mb_target = target, mb_source = source, mb_boundary = boundary, mb_cause = cause\<rparr>]\<rparr>)"

definition lift_fork_barrier ::
    "'g \<Rightarrow> index \<Rightarrow> ('g, 'i, 'f, 'n, 'p, 'r) multi_raft \<Rightarrow> ('g, 'i, 'f, 'n, 'p, 'r) multi_raft" where
  "lift_fork_barrier parent split_index m = on_group parent (resolve_fork split_index) m"

definition raise_relay_guard ::
    "'g \<Rightarrow> u64 \<Rightarrow> ('g, 'i, 'f, 'n, 'p, 'r) multi_raft \<Rightarrow> ('g, 'i, 'f, 'n, 'p, 'r) multi_raft" where
  "raise_relay_guard gid lin m =
     (if mr_contains_group gid m then m\<lparr>mr_lineage := bm_update gid (\<lambda>g. max g lin) (mr_lineage m)\<rparr> else m)"

end
