(* ===== verification/Multi_Fork.thy ===== *)
theory Multi_Fork
  imports Multi_State
begin

text \<open>
  How a container gains a group (\<^verbatim>\<open>multi/mod.rs\<close>): the checks on a new group, its creation, its
  restoration from its own stores, and the relay of a fork that a parent's split staged
  (examining the head fork, draining to one that can be installed, installing it).

  The drain loop is a total function: each turn either drops a queued group or consumes one
  of the finitely many staged forks.  Restarting an endpoint is partial in the model, so the
  operations that restart one return an option; \<open>None\<close> also stands for the panic of a fork
  queue whose state-machine half is missing, which \<open>fork_queues_ok\<close> rules out.
\<close>

section \<open>Checks on a new group\<close>

definition reshape_born_prevention :: "'i config \<Rightarrow> 'i config" where
  "reshape_born_prevention config = config\<lparr>cfg_pre_vote := True, cfg_check_quorum := True\<rparr>"

definition validate_boot_epoch :: "u64 \<Rightarrow> (unit, CreateGroupError) result" where
  "validate_boot_epoch boot_epoch = (if boot_epoch = 0 then Err InvalidBootEpoch else Ok ())"

definition stores_hold_state :: "('i, 'f, 'c, 'n, 'p, 'r, 'l, 's) env \<Rightarrow> 'l \<Rightarrow> 's \<Rightarrow> bool" where
  "stores_hold_state E logs stab \<longleftrightarrow>
     st_hard_state E stab \<noteq> hs_initial \<or> st_snapshot E stab \<noteq> None \<or>
     log_last_index E logs > 0 \<or> log_first_index E logs > 1"

definition validate_virgin_stores ::
    "('i, 'f, 'c, 'n, 'p, 'r, 'l, 's) env \<Rightarrow> 'l \<Rightarrow> 's \<Rightarrow> (unit, CreateGroupError) result" where
  "validate_virgin_stores E logs stab = (if stores_hold_state E logs stab then Err StorageInUse else Ok ())"

definition adopted_shape_gen :: "('i, 'f, 'c, 'n, 'p, 'r, 'l, 's) env \<Rightarrow> 'l \<Rightarrow> 's \<Rightarrow> u64" where
  "adopted_shape_gen E logs stab =
     (case st_snapshot E stab of
        Some (meta, _) \<Rightarrow>
          if snapshot_is_adopted E (hs_lineage (st_hard_state E stab)) meta logs then sm_shape_gen meta else 0
      | None \<Rightarrow> 0)"

definition validate_restore ::
    "('i, 'f, 'c, 'n, 'p, 'r, 'l, 's) env \<Rightarrow> u64 \<Rightarrow> u64 \<Rightarrow> u64 \<Rightarrow> 'l \<Rightarrow> 's \<Rightarrow> (unit, CreateGroupError) result" where
  "validate_restore E recorded flr generation logs stab =
     (if generation < recorded then Err (BelowLineageRecord recorded)
      else if (recorded \<noteq> 0 \<or> flr \<noteq> 0 \<or> generation \<noteq> 0) \<and> \<not> stores_hold_state E logs stab
      then Err NoStoredState
      else if (recorded > 0 \<or> generation > 0) \<and> stores_hold_state E logs stab \<and>
              st_hard_state E stab = hs_initial
      then Err (IncarnationUnrecoverable recorded)
      else let recoverable = max (max recorded (hs_founding_gen (st_hard_state E stab)))
                               (adopted_shape_gen E logs stab)
           in if flr > 0 \<and> recoverable < flr then Err (StoredStateBelowFloor flr recoverable) else Ok ())"

definition park_speaks_for :: "bytes \<Rightarrow> ('i, 'f, 'n, 'p, 'r) endpoint \<Rightarrow> bool" where
  "park_speaks_for key ep =
     (case me_pending_apply (ep_merge ep) of
        Some p \<Rightarrow> pa_window_closed p \<and> pa_source_bytes p = key
      | None \<Rightarrow> False)"

definition validate_new_group ::
    "('g, 'i, 'f, 'c, 'n, 'p, 'r, 'l, 's, 'k) multi_env \<Rightarrow> 'g \<Rightarrow> 'i config \<Rightarrow>
     ('g, 'i, 'f, 'n, 'p, 'r) multi_raft \<Rightarrow> (unit, CreateGroupError) result" where
  "validate_new_group X gid config m =
     (let encoded = gid_encode X gid
      in if mr_contains_group gid m then Err GroupExists
         else if encoded = [] \<or> length encoded > MAX_GROUP_ID_LEN then Err InvalidGroupId
         else if mr_host_id m \<noteq> None \<and> mr_host_id m \<noteq> Some (cfg_id config) then Err NodeIdMismatch
         else if any_group (\<lambda>_ ep. debt_names_source encoded ep) m then Err AbsorbPending
         else if any_group (\<lambda>_ ep. park_speaks_for encoded ep) m then Err AbsorbPending
         else Ok ())"

definition group_seed :: "('g, 'i, 'f, 'c, 'n, 'p, 'r, 'l, 's, 'k) multi_env \<Rightarrow> u64 \<Rightarrow> 'g \<Rightarrow> u64" where
  "group_seed X base gid =
     fold (\<lambda>b h. (h XOR ucast b) * 0x100000001b3) (gid_encode X gid) (0xcbf29ce484222325 XOR base)"

definition FORK_BASE_INDEX :: index where
  "FORK_BASE_INDEX = 1"

definition FORK_BASE_TERM :: raft_term where
  "FORK_BASE_TERM = 1"

text \<open>The baseline a forked group starts from: a hard state and a snapshot at the base
coordinates, and a log rebased on them.\<close>

definition fork_baseline_meta :: "'i config \<Rightarrow> u64 \<Rightarrow> ReadOnlyOption option \<Rightarrow> fork_id option \<Rightarrow> 'i snapshot_meta" where
  "fork_baseline_meta config generation ro fork_id =
     (snapshot_meta_new FORK_BASE_INDEX FORK_BASE_TERM (cs_from_voters (cfg_voters config)))
       \<lparr>sm_shape_gen := generation, sm_read_only := ro, sm_fork_id := fork_id\<rparr>"

definition write_fork_baseline ::
    "('i, 'f, 'c, 'n, 'p, 'r, 'l, 's) env \<Rightarrow> 'i config \<Rightarrow> bytes \<Rightarrow> u64 \<Rightarrow> ReadOnlyOption option \<Rightarrow>
     fork_id option \<Rightarrow> u64 \<Rightarrow> 'l \<Rightarrow> 's \<Rightarrow> 'l \<times> 's" where
  "write_fork_baseline E config snapshot generation ro fork_id boot_epoch logs stab =
     (let opid = first_of_epoch (saturating_sub boot_epoch 1);
          stab = st_submit_write E opid
                   (hs_initial\<lparr>hs_term := FORK_BASE_TERM, hs_commit := FORK_BASE_INDEX, hs_lineage := fork_id\<rparr>) stab;
          stab = st_submit_snapshot E (opid_next opid) (fork_baseline_meta config generation ro fork_id) snapshot stab
      in (log_restore E FORK_BASE_INDEX FORK_BASE_TERM logs, stab))"

section \<open>Creating and restoring a group\<close>

definition adopt_host_id :: "'i config \<Rightarrow> ('g, 'i, 'f, 'n, 'p, 'r) multi_raft \<Rightarrow> ('g, 'i, 'f, 'n, 'p, 'r) multi_raft" where
  "adopt_host_id config m =
     (case mr_host_id m of None \<Rightarrow> m\<lparr>mr_host_id := Some (cfg_id config)\<rparr> | Some _ \<Rightarrow> m)"

definition host_group ::
    "('g::linorder, 'i, 'f, 'c, 'n, 'p, 'r, 'l, 's, 'k) multi_env \<Rightarrow> 'g \<Rightarrow> u64 \<Rightarrow> ('i, 'f, 'n, 'p, 'r) endpoint \<Rightarrow>
     ('g, 'i, 'f, 'n, 'p, 'r) multi_raft \<Rightarrow> ('g, 'i, 'f, 'n, 'p, 'r) multi_raft" where
  "host_group X gid lin ep m =
     (let m = clear_unresolvable_hints_naming X gid (m\<lparr>mr_lineage := bm_insert gid lin (mr_lineage m)\<rparr>)
      in m\<lparr>mr_groups := bm_insert gid ep (mr_groups m)\<rparr>)"

definition create_group_with_rng ::
    "('g::linorder, 'i::linorder, 'f, 'c, 'n, 'p, 'r, 'l, 's, 'k) multi_env \<Rightarrow> 'g \<Rightarrow> u64 \<Rightarrow> 'i config \<Rightarrow> now \<Rightarrow> 'r \<Rightarrow> 'f \<Rightarrow>
     ('g, 'i, 'f, 'n, 'p, 'r) multi_raft \<Rightarrow> (unit, CreateGroupError) result \<times> ('g, 'i, 'f, 'n, 'p, 'r) multi_raft" where
  "create_group_with_rng X gid generation config now rng fsm m =
     (case and_then (validate_new_group X gid config m) (\<lambda>_. and_then (validate_working_generation generation)
             (\<lambda>_. if generation \<noteq> 0 then Err FoundingNeedsStore else Ok ())) of
        Err e \<Rightarrow> (Err e, m)
      | Ok _ \<Rightarrow>
          let m = adopt_host_id config m;
              ep = seed_lineage generation (new_with_rng (mx_env X) config now rng fsm)
          in (Ok (), host_group X gid generation ep m))"

definition create_group ::
    "('g::linorder, 'i::linorder, 'f, 'c, 'n, 'p, prng, 'l, 's, 'k) multi_env \<Rightarrow> 'g \<Rightarrow> u64 \<Rightarrow> 'i config \<Rightarrow> now \<Rightarrow> u64 \<Rightarrow> 'f \<Rightarrow>
     ('g, 'i, 'f, 'n, 'p, prng) multi_raft \<Rightarrow> (unit, CreateGroupError) result \<times> ('g, 'i, 'f, 'n, 'p, prng) multi_raft" where
  "create_group X gid generation config now seed fsm m =
     create_group_with_rng X gid generation config now (prng_new (group_seed X seed gid)) fsm m"

definition create_group_founded_at_with_rng ::
    "('g::linorder, 'i::linorder, 'f, 'c, 'n, 'p, 'r, 'l, 's, 'k) multi_env \<Rightarrow> 'g \<Rightarrow> u64 \<Rightarrow> 'i config \<Rightarrow> now \<Rightarrow> 'r \<Rightarrow> 'f \<Rightarrow>
     u64 \<Rightarrow> 'l \<Rightarrow> 's \<Rightarrow> ('g, 'i, 'f, 'n, 'p, 'r) multi_raft \<Rightarrow>
     (unit, CreateGroupError) result \<times> 's \<times> ('g, 'i, 'f, 'n, 'p, 'r) multi_raft" where
  "create_group_founded_at_with_rng X gid generation config now rng fsm boot_epoch logs stab m =
     (case and_then (validate_new_group X gid config m) (\<lambda>_. and_then (validate_working_generation generation)
             (\<lambda>_. and_then (validate_boot_epoch boot_epoch) (\<lambda>_. validate_virgin_stores (mx_env X) logs stab))) of
        Err e \<Rightarrow> (Err e, stab, m)
      | Ok _ \<Rightarrow>
          let m = adopt_host_id config m;
              ep = seed_boot_epoch boot_epoch (new_with_rng (mx_env X) config now rng fsm);
              (ep, stab) = submit_founding_stamp (mx_env X) (seed_lineage generation ep) stab
          in (Ok (), stab, host_group X gid generation ep m))"

definition create_group_founded_at ::
    "('g::linorder, 'i::linorder, 'f, 'c, 'n, 'p, prng, 'l, 's, 'k) multi_env \<Rightarrow> 'g \<Rightarrow> u64 \<Rightarrow> 'i config \<Rightarrow> now \<Rightarrow> u64 \<Rightarrow> 'f \<Rightarrow>
     u64 \<Rightarrow> 'l \<Rightarrow> 's \<Rightarrow> ('g, 'i, 'f, 'n, 'p, prng) multi_raft \<Rightarrow>
     (unit, CreateGroupError) result \<times> 's \<times> ('g, 'i, 'f, 'n, 'p, prng) multi_raft" where
  "create_group_founded_at X gid generation config now seed fsm boot_epoch logs stab m =
     create_group_founded_at_with_rng X gid generation config now (prng_new (group_seed X seed gid)) fsm boot_epoch logs stab m"

text \<open>Hosting a restarted endpoint: its guard starts at the lineage it restored, and it is
marked dirty because the replay may have produced output.\<close>

definition host_restarted ::
    "('g::linorder, 'i, 'f, 'c, 'n, 'p, 'r, 'l, 's, 'k) multi_env \<Rightarrow> 'g \<Rightarrow> ('i, 'f, 'n, 'p, 'r) endpoint \<Rightarrow>
     ('g, 'i, 'f, 'n, 'p, 'r) multi_raft \<Rightarrow> ('g, 'i, 'f, 'n, 'p, 'r) multi_raft" where
  "host_restarted X gid ep m = mark_dirty gid (host_group X gid (sl_restored_lineage (ep_split ep)) ep m)"

definition restore_group_migrating_with_rng_unchecked ::
    "('g::linorder, 'i::linorder, 'f, 'c, 'n, 'p, 'r, 'l, 's, 'k) multi_env \<Rightarrow> 'g \<Rightarrow> 'i config \<Rightarrow> now \<Rightarrow> 'r \<Rightarrow> 'f \<Rightarrow>
     u64 \<Rightarrow> duration option \<Rightarrow> 'l \<Rightarrow> 's \<Rightarrow> ('g, 'i, 'f, 'n, 'p, 'r) multi_raft \<Rightarrow>
     ((unit, CreateGroupError) result \<times> 'l \<times> 's \<times> ('g, 'i, 'f, 'n, 'p, 'r) multi_raft) option" where
  "restore_group_migrating_with_rng_unchecked X gid config now rng fsm boot_epoch assume_prior logs stab m =
     (case validate_new_group X gid config m of
        Err e \<Rightarrow> Some (Err e, logs, stab, m)
      | Ok _ \<Rightarrow>
          let m = adopt_host_id config m
          in case restart_inner (mx_env X) config now rng fsm boot_epoch assume_prior logs stab of
               None \<Rightarrow> None
             | Some (ep, logs, stab) \<Rightarrow> Some (Ok (), logs, stab, host_restarted X gid ep m))"

definition restore_group_with_rng_unchecked ::
    "('g::linorder, 'i::linorder, 'f, 'c, 'n, 'p, 'r, 'l, 's, 'k) multi_env \<Rightarrow> 'g \<Rightarrow> 'i config \<Rightarrow> now \<Rightarrow> 'r \<Rightarrow> 'f \<Rightarrow>
     u64 \<Rightarrow> 'l \<Rightarrow> 's \<Rightarrow> ('g, 'i, 'f, 'n, 'p, 'r) multi_raft \<Rightarrow>
     ((unit, CreateGroupError) result \<times> 'l \<times> 's \<times> ('g, 'i, 'f, 'n, 'p, 'r) multi_raft) option" where
  "restore_group_with_rng_unchecked X gid config now rng fsm boot_epoch logs stab m =
     (case validate_new_group X gid config m of
        Err e \<Rightarrow> Some (Err e, logs, stab, m)
      | Ok _ \<Rightarrow>
          let m = adopt_host_id config m
          in case restart_with_rng (mx_env X) config now rng fsm boot_epoch logs stab of
               None \<Rightarrow> None
             | Some (ep, logs, stab) \<Rightarrow> Some (Ok (), logs, stab, host_restarted X gid ep m))"

definition restore_group_unchecked ::
    "('g::linorder, 'i::linorder, 'f, 'c, 'n, 'p, prng, 'l, 's, 'k) multi_env \<Rightarrow> 'g \<Rightarrow> 'i config \<Rightarrow> now \<Rightarrow> u64 \<Rightarrow> 'f \<Rightarrow>
     u64 \<Rightarrow> 'l \<Rightarrow> 's \<Rightarrow> ('g, 'i, 'f, 'n, 'p, prng) multi_raft \<Rightarrow>
     ((unit, CreateGroupError) result \<times> 'l \<times> 's \<times> ('g, 'i, 'f, 'n, 'p, prng) multi_raft) option" where
  "restore_group_unchecked X gid config now seed fsm boot_epoch logs stab m =
     restore_group_with_rng_unchecked X gid config now (prng_new (group_seed X seed gid)) fsm boot_epoch logs stab m"

definition restore_group_migrating_unchecked ::
    "('g::linorder, 'i::linorder, 'f, 'c, 'n, 'p, prng, 'l, 's, 'k) multi_env \<Rightarrow> 'g \<Rightarrow> 'i config \<Rightarrow> now \<Rightarrow> u64 \<Rightarrow> 'f \<Rightarrow>
     u64 \<Rightarrow> duration option \<Rightarrow> 'l \<Rightarrow> 's \<Rightarrow> ('g, 'i, 'f, 'n, 'p, prng) multi_raft \<Rightarrow>
     ((unit, CreateGroupError) result \<times> 'l \<times> 's \<times> ('g, 'i, 'f, 'n, 'p, prng) multi_raft) option" where
  "restore_group_migrating_unchecked X gid config now seed fsm boot_epoch assume_prior logs stab m =
     restore_group_migrating_with_rng_unchecked X gid config now (prng_new (group_seed X seed gid)) fsm boot_epoch
       assume_prior logs stab m"

definition create_group_from_fork_with_rng_unreserved ::
    "('g::linorder, 'i::linorder, 'f, 'c, 'n, 'p, 'r, 'l, 's, 'k) multi_env \<Rightarrow> 'g \<Rightarrow> u64 \<Rightarrow> 'i config \<Rightarrow> now \<Rightarrow> 'r \<Rightarrow> 'f \<Rightarrow>
     bytes \<Rightarrow> ReadOnlyOption option \<Rightarrow> fork_id option \<Rightarrow> u64 \<Rightarrow> 'l \<Rightarrow> 's \<Rightarrow> ('g, 'i, 'f, 'n, 'p, 'r) multi_raft \<Rightarrow>
     ((unit, CreateGroupError) result \<times> 'l \<times> 's \<times> ('g, 'i, 'f, 'n, 'p, 'r) multi_raft) option" where
  "create_group_from_fork_with_rng_unreserved X gid generation config now rng fsm snapshot ro fork_id boot_epoch logs stab m =
     (case and_then (validate_boot_epoch boot_epoch) (\<lambda>_. and_then (validate_working_generation generation)
             (\<lambda>_. and_then (validate_new_group X gid config m) (\<lambda>_. validate_virgin_stores (mx_env X) logs stab))) of
        Err e \<Rightarrow> Some (Err e, logs, stab, m)
      | Ok _ \<Rightarrow>
          let m = adopt_host_id config m;
              (logs, stab) = write_fork_baseline (mx_env X) config snapshot generation ro fork_id boot_epoch logs stab
          in case restart_with_rng (mx_env X) config now rng fsm boot_epoch logs stab of
               None \<Rightarrow> None
             | Some (ep, logs, stab) \<Rightarrow> Some (Ok (), logs, stab, host_restarted X gid ep m))"

definition create_group_from_fork_with_rng ::
    "('g::linorder, 'i::linorder, 'f, 'c, 'n, 'p, 'r, 'l, 's, 'k) multi_env \<Rightarrow> 'g \<Rightarrow> u64 \<Rightarrow> 'i config \<Rightarrow> now \<Rightarrow> 'r \<Rightarrow> 'f \<Rightarrow>
     bytes \<Rightarrow> ReadOnlyOption option \<Rightarrow> u64 \<Rightarrow> 'l \<Rightarrow> 's \<Rightarrow> ('g, 'i, 'f, 'n, 'p, 'r) multi_raft \<Rightarrow>
     ((unit, CreateGroupError) result \<times> 'l \<times> 's \<times> ('g, 'i, 'f, 'n, 'p, 'r) multi_raft) option" where
  "create_group_from_fork_with_rng X gid generation config now rng fsm snapshot ro boot_epoch logs stab m =
     (if split_reserved X gid m then Some (Err SplitReserved, logs, stab, m)
      else create_group_from_fork_with_rng_unreserved X gid generation config now rng fsm snapshot ro None boot_epoch
             logs stab m)"

definition create_group_from_fork_unreserved ::
    "('g::linorder, 'i::linorder, 'f, 'c, 'n, 'p, prng, 'l, 's, 'k) multi_env \<Rightarrow> 'g \<Rightarrow> u64 \<Rightarrow> 'i config \<Rightarrow> now \<Rightarrow> u64 \<Rightarrow> 'f \<Rightarrow>
     bytes \<Rightarrow> ReadOnlyOption option \<Rightarrow> fork_id option \<Rightarrow> u64 \<Rightarrow> 'l \<Rightarrow> 's \<Rightarrow> ('g, 'i, 'f, 'n, 'p, prng) multi_raft \<Rightarrow>
     ((unit, CreateGroupError) result \<times> 'l \<times> 's \<times> ('g, 'i, 'f, 'n, 'p, prng) multi_raft) option" where
  "create_group_from_fork_unreserved X gid generation config now seed =
     create_group_from_fork_with_rng_unreserved X gid generation config now (prng_new (group_seed X seed gid))"

definition create_group_from_fork ::
    "('g::linorder, 'i::linorder, 'f, 'c, 'n, 'p, prng, 'l, 's, 'k) multi_env \<Rightarrow> 'g \<Rightarrow> u64 \<Rightarrow> 'i config \<Rightarrow> now \<Rightarrow> u64 \<Rightarrow> 'f \<Rightarrow>
     bytes \<Rightarrow> ReadOnlyOption option \<Rightarrow> u64 \<Rightarrow> 'l \<Rightarrow> 's \<Rightarrow> ('g, 'i, 'f, 'n, 'p, prng) multi_raft \<Rightarrow>
     ((unit, CreateGroupError) result \<times> 'l \<times> 's \<times> ('g, 'i, 'f, 'n, 'p, prng) multi_raft) option" where
  "create_group_from_fork X gid generation config now seed fsm snapshot ro boot_epoch logs stab m =
     (if split_reserved X gid m then Some (Err SplitReserved, logs, stab, m)
      else create_group_from_fork_unreserved X gid generation config now seed fsm snapshot ro None boot_epoch logs stab m)"

section \<open>Examining the head fork\<close>

datatype 'g ForkVerdict =
    V_Poison
  | V_Resolve
  | V_Park 'g
  | V_Redundant
  | V_Yield 'g
  | V_Hold 'g
  | V_Terminal 'g

text \<open>The verdict on a fork whose child is not hosted: the child's configuration, its
generation against the floor, the checks on a new group, and the gate.\<close>

definition unhosted_verdict ::
    "('g, 'i, 'f, 'c, 'n, 'p, 'r, 'l, 's, 'k) multi_env \<Rightarrow> 'g fork_gate \<Rightarrow> 'g \<Rightarrow> ('i, 'f, 'n, 'p, 'r) endpoint \<Rightarrow>
     'i pending_fork \<Rightarrow> ('g, 'i, 'f, 'n, 'p, 'r) multi_raft \<Rightarrow> 'g ForkVerdict" where
  "unhosted_verdict X gate child ep fork m =
     (let flr = gate_floor gate child
      in case with_voter_set (pf_voters fork) (ep_config ep) of
           Err _ \<Rightarrow> V_Terminal child
         | Ok child_config \<Rightarrow>
             case and_then (validate_working_generation (pf_child_gen fork))
                    (\<lambda>_. and_then (if floor_admits flr (pf_child_gen fork) then Ok () else Err (BelowFloor flr))
                    (\<lambda>_. validate_new_group X child child_config m)) of
               Ok _ \<Rightarrow> if gate_contains_group gate child then V_Hold child else V_Yield child
             | Err ReservedGeneration \<Rightarrow> V_Terminal child
             | Err (BelowFloor _) \<Rightarrow> V_Terminal child
             | Err InvalidGroupId \<Rightarrow> V_Terminal child
             | Err NodeIdMismatch \<Rightarrow> V_Terminal child
             | Err AbsorbPending \<Rightarrow>
                 (let names_this_child = park_speaks_for (pf_child_bytes fork) ep;
                      below_the_park = (case me_pending_apply (ep_merge ep) of
                                          Some p \<Rightarrow> pf_index fork < pa_at p | None \<Rightarrow> False)
                  in if names_this_child \<and> below_the_park then V_Terminal child else V_Hold child)
             | Err _ \<Rightarrow> V_Hold child)"

definition fork_verdict ::
    "('g, 'i, 'f, 'c, 'n, 'p, 'r, 'l, 's, 'k) multi_env \<Rightarrow> 'g fork_gate \<Rightarrow> 'g \<Rightarrow> ('i, 'f, 'n, 'p, 'r) endpoint \<Rightarrow>
     'i pending_fork \<Rightarrow> ('g, 'i, 'f, 'n, 'p, 'r) multi_raft \<Rightarrow> 'g ForkVerdict" where
  "fork_verdict X gate gid ep fork m =
     (case gid_decode_exact X (pf_child_bytes fork) of
        Err _ \<Rightarrow> V_Poison
      | Ok child \<Rightarrow>
          let in_voters = (case mr_host_id m of Some host \<Rightarrow> host \<in> set (pf_voters fork) | None \<Rightarrow> False);
              guard = (case map_of (mr_lineage m) gid of Some g \<Rightarrow> g | None \<Rightarrow> 0)
          in if \<not> in_voters \<or> pf_parent_gen_after fork \<le> guard then V_Resolve
             else case mr_group child m of
                    Some hosted \<Rightarrow>
                      if sl_fork_id (ep_split hosted) = Some (fork_token X gid fork) \<and> \<not> is_poisoned hosted
                      then V_Redundant else V_Park child
                  | None \<Rightarrow> unhosted_verdict X gate child ep fork m)"

text \<open>A poisoned group's remaining forks are popped until none is left.\<close>

definition drop_all_forks :: "('i, 'f, 'n, 'p, 'r) endpoint \<Rightarrow> ('i, 'f, 'n, 'p, 'r) endpoint" where
  "drop_all_forks ep = ((\<lambda>ep. snd (pop_pending_fork ep)) ^^ length (sl_pending_forks (ep_split ep))) ep"

definition park_fork ::
    "'g::linorder \<Rightarrow> ParkCause \<Rightarrow> 'g \<Rightarrow> ('g, 'i, 'f, 'n, 'p, 'r) multi_raft \<Rightarrow> ('g, 'i, 'f, 'n, 'p, 'r) multi_raft" where
  "park_fork gid cause child m =
     (let fresh = (\<not> bm_contains (mr_parked m) gid);
          m = m\<lparr>mr_parked := bm_insert gid cause (mr_parked m)\<rparr>
      in if fresh then m\<lparr>mr_conflicts := mr_conflicts m @ [(gid, child)]\<rparr> else m)"

definition yield_plan_of :: "'g \<Rightarrow> ('i, 'f, 'n, 'p, 'r) endpoint \<Rightarrow> ('g, 'i) yield_plan option" where
  "yield_plan_of child ep =
     (case peek_pending_fork ep of
        None \<Rightarrow> None
      | Some fork \<Rightarrow>
          case with_voter_set (pf_voters fork) (ep_config ep) of
            Err _ \<Rightarrow> None
          | Ok config \<Rightarrow> Some \<lparr>yp_child = child, yp_child_gen = pf_child_gen fork,
              yp_parent_gen_after = pf_parent_gen_after fork, yp_split_index = pf_index fork,
              yp_split_term = pf_split_term fork, yp_child_bytes = pf_child_bytes fork, yp_config = config\<rparr>)"

definition act_on_verdict ::
    "'g::linorder \<Rightarrow> 'g ForkVerdict \<Rightarrow> ('g, 'i, 'f, 'n, 'p, 'r) multi_raft \<Rightarrow>
     ('g, 'i) HeadFork \<times> ('g, 'i, 'f, 'n, 'p, 'r) multi_raft" where
  "act_on_verdict gid verdict m =
     (case verdict of
        V_Poison \<Rightarrow> (HF_Empty, note_if_poisoned gid (on_group gid (\<lambda>ep. drop_all_forks (poison PR_SplitDecode ep)) m))
      | V_Resolve \<Rightarrow> (HF_Resolved, snd (consume_group_fork gid m))
      | V_Redundant \<Rightarrow>
          (case consume_group_fork gid m of
             (Some fork, m) \<Rightarrow> (HF_Resolved, advance_relay_guard gid (pf_parent_gen_after fork) m)
           | (None, m) \<Rightarrow> (HF_Resolved, m))
      | V_Park child \<Rightarrow> (HF_Parked, park_fork gid PC_HostedChild child m)
      | V_Hold child \<Rightarrow> (HF_Parked, park_fork gid PC_Blocked child m)
      | V_Terminal child \<Rightarrow>
          (let (_, m) = consume_group_fork gid m
           in (HF_Resolved, m\<lparr>mr_refusals := mr_refusals m @ [(gid, child)]\<rparr>))
      | V_Yield child \<Rightarrow>
          (case Option.bind (mr_group gid m) (yield_plan_of child) of
             Some plan \<Rightarrow> (HF_Yield plan, m)
           | None \<Rightarrow>
               case consume_group_fork gid m of
                 (None, m) \<Rightarrow> (HF_Empty, m)
               | (Some fork, m) \<Rightarrow>
                   let m = advance_relay_guard gid (pf_parent_gen_after fork) m
                   in (HF_Resolved, m\<lparr>mr_refusals := mr_refusals m @ [(gid, child)]\<rparr>)))"

definition examine_head_fork ::
    "('g::linorder, 'i, 'f, 'c, 'n, 'p, 'r, 'l, 's, 'k) multi_env \<Rightarrow> 'g \<Rightarrow> 'g fork_gate \<Rightarrow>
     ('g, 'i, 'f, 'n, 'p, 'r) multi_raft \<Rightarrow> ('g, 'i) HeadFork \<times> ('g, 'i, 'f, 'n, 'p, 'r) multi_raft" where
  "examine_head_fork X gid gate m =
     (if group_is gid head_fork_is_abandoned m then consume_abandoned_head_fork X gid m
      else case mr_group gid m of
             None \<Rightarrow> (HF_Empty, m)
           | Some ep \<Rightarrow>
               case peek_pending_fork ep of
                 None \<Rightarrow> (HF_Empty, m)
               | Some fork \<Rightarrow> act_on_verdict gid (fork_verdict X gate gid ep fork m) m)"

text \<open>The forks still staged anywhere: what the drain consumes.\<close>

definition staged_count :: "'g \<Rightarrow> ('g, 'i, 'f, 'n, 'p, 'r) multi_raft \<Rightarrow> nat" where
  "staged_count gid m = (case mr_group gid m of Some ep \<Rightarrow> length (sl_pending_forks (ep_split ep)) | None \<Rightarrow> 0)"

definition staged_total :: "('g, 'i, 'f, 'n, 'p, 'r) multi_raft \<Rightarrow> nat" where
  "staged_total m = (\<Sum>g\<in>set (mr_group_ids m). staged_count g m)"

subsection \<open>What examining a head fork changes\<close>

named_theorems multi_defs \<open>the container's primitive state changes\<close>

lemmas multi_state_defs [multi_defs] =
  on_group_def mr_group_def mr_group_ids_def group_is_def note_if_poisoned_def schedule_msgs_def
  schedule_events_def schedule_forks_def unpark_def park_fork_def advance_relay_guard_def Let_def

lemma mr_group_on_group [simp]:
  "mr_group g (on_group gid f m) = (if g = gid then map_option f (mr_group g m) else mr_group g m)"
  by (simp add: multi_defs)

lemma mr_group_ids_on_group [simp]: "mr_group_ids (on_group gid f m) = mr_group_ids m"
  by (simp add: multi_defs)

lemma mr_group_Some_in_ids: "mr_group g m = Some ep \<Longrightarrow> g \<in> set (mr_group_ids m)"
  by (auto simp: mr_group_def mr_group_ids_def dest: map_of_SomeD intro: rev_image_eqI)

text \<open>Consuming a group's head fork touches that group's endpoint only.\<close>

definition only_group ::
    "'g \<Rightarrow> ('g, 'i, 'f, 'n, 'p, 'r) multi_raft \<Rightarrow> ('g, 'i, 'f, 'n, 'p, 'r) multi_raft \<Rightarrow> bool" where
  "only_group gid m m' \<longleftrightarrow>
     mr_group_ids m' = mr_group_ids m \<and> mr_dirty_forks m' = mr_dirty_forks m \<and>
     mr_dirty_forks_set m' = mr_dirty_forks_set m \<and> mr_dirty_msgs m' = mr_dirty_msgs m \<and>
     mr_dirty_msgs_set m' = mr_dirty_msgs_set m \<and> mr_dirty_events m' = mr_dirty_events m \<and>
     mr_dirty_events_set m' = mr_dirty_events_set m \<and> mr_host_id m' = mr_host_id m \<and>
     (\<forall>g. g \<noteq> gid \<longrightarrow> mr_group g m' = mr_group g m)"

lemma only_group_refl [simp]: "only_group gid m m"
  by (simp add: only_group_def)

lemma only_group_on_group [simp]: "only_group gid m (on_group gid f m)"
  by (simp add: only_group_def) (simp add: multi_defs)

lemma only_group_trans: "only_group gid m m' \<Longrightarrow> only_group gid m' m'' \<Longrightarrow> only_group gid m m''"
  by (simp add: only_group_def)

lemma only_group_signals [simp]:
  "only_group gid m (m'\<lparr>mr_refusals := q\<rparr>) = only_group gid m m'"
  "only_group gid m (advance_relay_guard g l m') = only_group gid m m'"
  "only_group gid m (note_if_poisoned g m') = only_group gid m m'"
  "only_group gid m (park_fork g c ch m') = only_group gid m m'"
  by (simp_all add: only_group_def multi_defs)

lemma staged_count_signals [simp]:
  "staged_count gid (m\<lparr>mr_refusals := q\<rparr>) = staged_count gid m"
  "staged_count gid (advance_relay_guard g l m) = staged_count gid m"
  "staged_count gid (note_if_poisoned g m) = staged_count gid m"
  "staged_count gid (park_fork g c ch m) = staged_count gid m"
  by (simp_all add: staged_count_def multi_defs)

lemma pop_pending_fork_cases:
  "pop_pending_fork ep =
     (case sl_pending_forks (ep_split ep) of
        [] \<Rightarrow> (None, ep)
      | fork # _ \<Rightarrow> (Some (fork, fst (pop_front (sl_forked_fsms (ep_split ep)))), snd (pop_pending_fork ep)))"
  by (auto simp: pop_pending_fork_def pop_front_def Let_def split: list.splits)

lemma forks_after_pop [simp]:
  "sl_pending_forks (ep_split (snd (pop_pending_fork ep))) = tl (sl_pending_forks (ep_split ep))"
  by (auto simp: pop_pending_fork_def Let_def split: list.splits)

lemma consume_head_fork_eq:
  "fst (consume_head_fork ep) = peek_pending_fork ep"
  "sl_pending_forks (ep_split (snd (consume_head_fork ep))) = tl (sl_pending_forks (ep_split ep))"
  by (auto simp: consume_head_fork_def pop_pending_fork_def peek_pending_fork_def resolve_fork_def Let_def
      split: list.splits)

lemma consume_group_fork_eq:
  "fst (consume_group_fork gid m) = Option.bind (mr_group gid m) peek_pending_fork"
  "only_group gid m (snd (consume_group_fork gid m))"
  "staged_count gid (snd (consume_group_fork gid m)) = staged_count gid m - 1"
  by (auto simp: consume_group_fork_def consume_head_fork_eq staged_count_def case_prod_beta split: option.splits)

lemma consumed_fork_shrinks:
  assumes "consume_group_fork gid m = (Some fork, m')"
  shows "only_group gid m m'" "staged_count gid m' < staged_count gid m"
proof -
  show "only_group gid m m'" using consume_group_fork_eq(2) [of gid m] assms by simp
  have "staged_count gid m' = staged_count gid m - 1"
    using consume_group_fork_eq(3) [of gid m] assms by simp
  moreover have "staged_count gid m > 0"
    using consume_group_fork_eq(1) [of gid m] assms
    by (cases "mr_group gid m") (auto simp: staged_count_def peek_pending_fork_def split: list.splits)
  ultimately show "staged_count gid m' < staged_count gid m" by simp
qed

lemma unconsumed_fork:
  assumes "consume_group_fork gid m = (None, m')"
  shows "only_group gid m m'" "staged_count gid m' \<le> staged_count gid m"
  using consume_group_fork_eq(2,3) [of gid m] assms by simp_all

lemma forks_after_pops:
  "sl_pending_forks (ep_split (((\<lambda>ep. snd (pop_pending_fork ep)) ^^ n) ep)) = drop n (sl_pending_forks (ep_split ep))"
  by (induction n) (simp_all add: drop_Suc tl_drop)

lemma forks_after_drop_all [simp]: "sl_pending_forks (ep_split (drop_all_forks ep)) = []"
  by (simp add: drop_all_forks_def forks_after_pops)

lemma staged_count_dropped [simp]:
  "staged_count gid (on_group gid (\<lambda>ep. drop_all_forks (f ep)) m) = 0"
  by (simp add: staged_count_def split: option.splits)

lemma act_on_verdict_shrinks:
  assumes "act_on_verdict gid v m = (h, m')"
    and "mr_group gid m = Some ep" "peek_pending_fork ep = Some fork"
  shows "only_group gid m m' \<and> staged_count gid m' \<le> staged_count gid m \<and>
         (h = HF_Resolved \<longrightarrow> staged_count gid m' < staged_count gid m)"
proof -
  obtain fork' m1 where c: "consume_group_fork gid m = (Some fork', m1)"
    using consume_group_fork_eq(1) [of gid m] assms(2,3) by (cases "consume_group_fork gid m") auto
  note shr = consumed_fork_shrinks [OF c]
  show ?thesis
    using assms(1) shr c
    by (cases v) (auto simp: act_on_verdict_def Let_def split: option.splits)
qed

lemma examine_shrinks:
  assumes "examine_head_fork X gid gate m = (h, m')"
  shows "only_group gid m m'" "staged_count gid m' \<le> staged_count gid m"
    and "h = HF_Resolved \<Longrightarrow> staged_count gid m' < staged_count gid m"
proof -
  have "only_group gid m m' \<and> staged_count gid m' \<le> staged_count gid m \<and>
        (h = HF_Resolved \<longrightarrow> staged_count gid m' < staged_count gid m)"
  proof (cases "group_is gid head_fork_is_abandoned m")
    case True
    obtain f m1 where c: "consume_group_fork gid m = (f, m1)" by fastforce
    show ?thesis
      using assms True c unconsumed_fork [of gid m m1] consumed_fork_shrinks [of gid m _ m1]
      by (auto simp: examine_head_fork_def consume_abandoned_head_fork_def Let_def
          split: option.splits result.splits)
  next
    case False
    with assms show ?thesis
      by (auto simp: examine_head_fork_def split: option.splits dest: act_on_verdict_shrinks)
  qed
  then show "only_group gid m m'" "staged_count gid m' \<le> staged_count gid m"
    "h = HF_Resolved \<Longrightarrow> staged_count gid m' < staged_count gid m" by auto
qed

lemma staged_count_mono:
  assumes "only_group gid m m'" "staged_count gid m' \<le> staged_count gid m"
  shows "staged_count g m' \<le> staged_count g m"
  using assms by (cases "g = gid") (auto simp: only_group_def staged_count_def)

lemma staged_total_shrinks:
  assumes "only_group gid m m'" "staged_count gid m' < staged_count gid m"
  shows "staged_total m' < staged_total m"
proof -
  have "gid \<in> set (mr_group_ids m)"
    using assms(2) by (auto simp: staged_count_def dest: mr_group_Some_in_ids split: option.splits)
  moreover have "\<forall>g\<in>set (mr_group_ids m). staged_count g m' \<le> staged_count g m"
    using staged_count_mono [OF assms(1)] assms(2) by (meson less_imp_le_nat)
  ultimately have "(\<Sum>g\<in>set (mr_group_ids m). staged_count g m') < (\<Sum>g\<in>set (mr_group_ids m). staged_count g m)"
    using assms(2) by (intro sum_strict_mono_ex1) auto
  then show ?thesis using assms(1) by (simp add: staged_total_def only_group_def)
qed

lemma staged_total_mono:
  assumes "only_group gid m m'" "staged_count gid m' \<le> staged_count gid m"
  shows "staged_total m' \<le> staged_total m"
proof -
  have "(\<Sum>g\<in>set (mr_group_ids m). staged_count g m') \<le> (\<Sum>g\<in>set (mr_group_ids m). staged_count g m)"
    by (intro sum_mono staged_count_mono [OF assms])
  then show ?thesis using assms(1) by (simp add: staged_total_def only_group_def)
qed

section \<open>Draining to a fork that can be installed\<close>

fun drain_parked ::
    "('g::linorder, 'i, 'f, 'c, 'n, 'p, 'r, 'l, 's, 'k) multi_env \<Rightarrow> 'g fork_gate \<Rightarrow> 'g list \<Rightarrow> bool \<Rightarrow>
     ('g, 'i, 'f, 'n, 'p, 'r) multi_raft \<Rightarrow>
     ('g \<times> ('g, 'i) yield_plan) option \<times> bool \<times> ('g, 'i, 'f, 'n, 'p, 'r) multi_raft" where
  "drain_parked X gate [] held m = (None, held, m)"
| "drain_parked X gate (gid # rest) held m =
     (case examine_head_fork X gid gate m of
        (HF_Empty, m) \<Rightarrow> drain_parked X gate rest held (unpark gid m)
      | (HF_Resolved, m) \<Rightarrow> drain_parked X gate rest held (schedule_forks gid (unpark gid m))
      | (HF_Parked, m) \<Rightarrow> drain_parked X gate rest True m
      | (HF_Yield plan, m) \<Rightarrow> (Some (gid, plan), held, schedule_forks gid (unpark gid m)))"

definition pop_dirty_fork ::
    "'g \<Rightarrow> ('g, 'i, 'f, 'n, 'p, 'r) multi_raft \<Rightarrow> ('g, 'i, 'f, 'n, 'p, 'r) multi_raft" where
  "pop_dirty_fork gid m =
     m\<lparr>mr_dirty_forks := tl (mr_dirty_forks m), mr_dirty_forks_set := btree_remove gid (mr_dirty_forks_set m)\<rparr>"

lemma staged_total_pop_dirty_fork [simp]: "staged_total (pop_dirty_fork gid m) = staged_total m"
  by (simp add: staged_total_def staged_count_def pop_dirty_fork_def multi_defs)

lemma dirty_forks_pop_dirty_fork [simp]: "mr_dirty_forks (pop_dirty_fork gid m) = tl (mr_dirty_forks m)"
  by (simp add: pop_dirty_fork_def)

function drain_dirty ::
    "('g::linorder, 'i, 'f, 'c, 'n, 'p, 'r, 'l, 's, 'k) multi_env \<Rightarrow> 'g fork_gate \<Rightarrow> bool \<Rightarrow>
     ('g, 'i, 'f, 'n, 'p, 'r) multi_raft \<Rightarrow>
     ('g \<times> ('g, 'i) yield_plan) option \<times> bool \<times> ('g, 'i, 'f, 'n, 'p, 'r) multi_raft" where
  "drain_dirty X gate held m =
     (case mr_dirty_forks m of
        [] \<Rightarrow> (None, held, m)
      | gid # _ \<Rightarrow>
          if bm_contains (mr_parked m) gid then drain_dirty X gate held (pop_dirty_fork gid m)
          else case examine_head_fork X gid gate m of
                 (HF_Empty, m') \<Rightarrow> drain_dirty X gate held (pop_dirty_fork gid m')
               | (HF_Parked, m') \<Rightarrow> drain_dirty X gate True (pop_dirty_fork gid m')
               | (HF_Resolved, m') \<Rightarrow> drain_dirty X gate held m'
               | (HF_Yield plan, m') \<Rightarrow> (Some (gid, plan), held, m'))"
  by pat_completeness auto

lemma drain_dirty_popped:
  assumes "mr_dirty_forks m = gid # q" "(h, m') = examine_head_fork X gid gate m"
  shows "staged_total m' + (length (mr_dirty_forks m') - Suc 0) < Suc (staged_total m + length q)"
  using staged_total_mono [OF examine_shrinks(1,2) [OF assms(2) [symmetric]]]
    examine_shrinks(1) [OF assms(2) [symmetric]] assms(1)
  by (simp add: only_group_def pop_dirty_fork_def)

lemma drain_dirty_resolved:
  assumes "mr_dirty_forks m = gid # q" "(HF_Resolved, m') = examine_head_fork X gid gate m"
  shows "staged_total m' + length (mr_dirty_forks m') < Suc (staged_total m + length q)"
  using staged_total_shrinks [OF examine_shrinks(1,3) [OF assms(2) [symmetric]]]
    examine_shrinks(1) [OF assms(2) [symmetric]] assms(1)
  by (simp add: only_group_def)

termination drain_dirty
  by (relation "measure (\<lambda>(_, _, _, m). staged_total m + length (mr_dirty_forks m))")
    (auto intro: drain_dirty_popped drain_dirty_resolved)

declare drain_dirty.simps [simp del]

definition drain_to_yieldable ::
    "('g::linorder, 'i, 'f, 'c, 'n, 'p, 'r, 'l, 's, 'k) multi_env \<Rightarrow> 'g fork_gate \<Rightarrow>
     ('g, 'i, 'f, 'n, 'p, 'r) multi_raft \<Rightarrow> ('g, 'i) DrainOutcome \<times> ('g, 'i, 'f, 'n, 'p, 'r) multi_raft" where
  "drain_to_yieldable X gate m =
     (let refusals_before = length (mr_refusals m)
      in case drain_parked X gate (map fst (mr_parked m)) False m of
           (Some (parent, plan), _, m) \<Rightarrow> (DO_Yieldable parent plan, m)
         | (None, held, m) \<Rightarrow>
             case drain_dirty X gate held m of
               (Some (parent, plan), _, m) \<Rightarrow> (DO_Yieldable parent plan, m)
             | (None, held, m) \<Rightarrow>
                 (if length (mr_refusals m) \<noteq> refusals_before then DO_Refused
                  else if held then DO_Held else DO_Empty, m))"

definition peek_yieldable_fork ::
    "('g::linorder, 'i, 'f, 'c, 'n, 'p, 'r, 'l, 's, 'k) multi_env \<Rightarrow> 'g fork_gate \<Rightarrow>
     ('g, 'i, 'f, 'n, 'p, 'r) multi_raft \<Rightarrow>
     ('g \<times> ('g, 'i) yield_plan) option \<times> ('g, 'i, 'f, 'n, 'p, 'r) multi_raft" where
  "peek_yieldable_fork X gate m =
     (case drain_to_yieldable X gate m of
        (DO_Yieldable parent plan, m) \<Rightarrow> (Some (parent, plan), m)
      | (_, m) \<Rightarrow> (None, m))"

section \<open>Installing a fork\<close>

definition install_refusal ::
    "('g, 'i, 'f, 'c, 'n, 'p, 'r, 'l, 's, 'k) multi_env \<Rightarrow> 'g \<Rightarrow> u64 \<Rightarrow> u64 \<Rightarrow> 'i config \<Rightarrow> 'k \<Rightarrow>
     ('g, 'i, 'f, 'n, 'p, 'r) multi_raft \<Rightarrow> (unit, CreateGroupError) result" where
  "install_refusal X child epoch child_gen config engine m =
     and_then (validate_boot_epoch epoch) (\<lambda>_. and_then (validate_working_generation child_gen)
       (\<lambda>_. and_then (validate_new_group X child config m)
       (\<lambda>_. case stores_at X child engine of
              Some (logs, stab) \<Rightarrow> validate_virgin_stores (mx_env X) logs stab
            | None \<Rightarrow> Err StorageInUse)))"

definition prepare_fork_install ::
    "('g::linorder, 'i, 'f, 'c, 'n, 'p, 'r, 'l, 's, 'k) multi_env \<Rightarrow> 'g \<Rightarrow> 'g \<Rightarrow> 'k \<Rightarrow> 'g fork_gate \<Rightarrow>
     ('g, 'i, 'f, 'n, 'p, 'r) multi_raft \<Rightarrow> ('g, 'i) PrepareOutcome \<times> 'k \<times> ('g, 'i, 'f, 'n, 'p, 'r) multi_raft" where
  "prepare_fork_install X parent child engine extra m =
     (case examine_head_fork X parent (engine_fork_gate X engine extra) m of
        (HF_Empty, m) \<Rightarrow> (PO_Done IO_Empty, engine, m)
      | (HF_Resolved, m) \<Rightarrow> (PO_Done IO_Refused, engine, m)
      | (HF_Parked, m) \<Rightarrow> (PO_Done IO_Held, engine, m)
      | (HF_Yield plan, m) \<Rightarrow>
          if yp_child plan \<noteq> child then (PO_Done IO_NotYieldable, engine, m)
          else let (added, engine) = eng_add_group X child engine
               in case eng_next_boot_epoch X child engine of
                    (None, engine) \<Rightarrow>
                      (PO_Done IO_Held, if added then eng_remove_group X child engine else engine, m)
                  | (Some epoch, engine) \<Rightarrow>
                      let config = reshape_born_prevention (yp_config plan)
                      in case install_refusal X child epoch (yp_child_gen plan) config engine m of
                           Err _ \<Rightarrow> (PO_Done IO_Held, if added then eng_remove_group X child engine else engine, m)
                         | Ok _ \<Rightarrow> (PO_Ready parent plan epoch config, engine, m))"

definition install_yieldable_fork_with_rng ::
    "('g::linorder, 'i::linorder, 'f, 'c, 'n, 'p, 'r, 'l, 's, 'k) multi_env \<Rightarrow> 'g \<Rightarrow> 'g \<Rightarrow> 'k \<Rightarrow> 'g fork_gate \<Rightarrow> now \<Rightarrow> 'r \<Rightarrow>
     ('g, 'i, 'f, 'n, 'p, 'r) multi_raft \<Rightarrow>
     (('g, 'i) InstallOutcome \<times> 'k \<times> ('g, 'i, 'f, 'n, 'p, 'r) multi_raft) option" where
  "install_yieldable_fork_with_rng X parent child engine extra now rng m =
     (case prepare_fork_install X parent child engine extra m of
        (PO_Done outcome, engine, m) \<Rightarrow> Some (outcome, engine, m)
      | (PO_Ready parent plan epoch config, engine, m) \<Rightarrow>
          case stores_at X child engine of
            None \<Rightarrow> Some (IO_Held, eng_remove_group X child engine, m)
          | Some (logs, stab) \<Rightarrow>
              case map_option pop_pending_fork (mr_group parent m) of
                None \<Rightarrow> Some (IO_Empty, eng_remove_group X child engine, m)
              | Some (None, _) \<Rightarrow> Some (IO_Empty, eng_remove_group X child engine, m)
              | Some (Some (_, None), _) \<Rightarrow> None
              | Some (Some (fork, Some fsm), ep) \<Rightarrow>
                  let m = on_group parent (\<lambda>_. ep) m;
                      fork_id = mint_fork_id X parent (yp_parent_gen_after plan) (yp_split_index plan)
                                  (yp_split_term plan) (yp_child_bytes plan) (yp_child_gen plan);
                      m = adopt_host_id config m;
                      (logs, stab) = write_fork_baseline (mx_env X) config (pf_blob fork) (yp_child_gen plan)
                                       (pf_read_only fork) (Some fork_id) epoch logs stab
                  in case restart_with_rng (mx_env X) config now rng fsm epoch logs stab of
                       None \<Rightarrow> None
                     | Some (ep, logs, stab) \<Rightarrow>
                         let m = m\<lparr>mr_lineage := bm_insert parent (yp_parent_gen_after plan) (mr_lineage m)\<rparr>
                         in Some (IO_Installed parent child (yp_child_gen plan) (yp_parent_gen_after plan)
                                    (yp_split_index plan) config,
                                  put_stores X child logs stab engine, host_restarted X child ep m))"

definition install_yieldable_fork ::
    "('g::linorder, 'i::linorder, 'f, 'c, 'n, 'p, prng, 'l, 's, 'k) multi_env \<Rightarrow> 'g \<Rightarrow> 'g \<Rightarrow> 'k \<Rightarrow> 'g fork_gate \<Rightarrow> now \<Rightarrow> u64 \<Rightarrow>
     ('g, 'i, 'f, 'n, 'p, prng) multi_raft \<Rightarrow>
     (('g, 'i) InstallOutcome \<times> 'k \<times> ('g, 'i, 'f, 'n, 'p, prng) multi_raft) option" where
  "install_yieldable_fork X parent child engine extra now seed m =
     install_yieldable_fork_with_rng X parent child engine extra now (prng_new (group_seed X seed child)) m"

end
