(* ===== verification/Multi_Group.thy ===== *)
theory Multi_Group
  imports Multi_Fork
begin

text \<open>
  The operations of one hosted group (\<^verbatim>\<open>multi/mod.rs\<close>): each looks the group up, calls its
  endpoint, stores the endpoint back and marks the group dirty; the conf-change fence, the
  split proposal and the merge verbs (\<open>prepare_merge\<close>, \<open>commit_merge\<close>, \<open>rollback_merge\<close>, the
  thaws and the thaw witness) add the guards that need more than one group.
  The first component of every result is the \<^verbatim>\<open>Option\<close> of the source: \<open>None\<close> when no such
  group is hosted.
\<close>

datatype 'i SplitError =
    SE_NotLeader "'i option"
  | SE_JointConfig
  | SE_SplitInFlight
  | SE_ChildExists
  | SE_ChildRetired
  | SE_InvalidChild
  | SE_BelowFloor u64
  | SE_ReservedGeneration
  | SE_CrossPlane
  | SE_Frozen
  | SE_LineageExhausted
  | SE_Unsupported
  | SE_Propose "'i ProposeError"

datatype 'i MergeError =
    ME_NotLeader "'i option"
  | ME_SelfMerge
  | ME_DirectionInverted
  | ME_TargetMissing
  | ME_SourceMissing
  | ME_VoterSetsDiffer
  | ME_LearnersPresent
  | ME_JointConfig
  | ME_ReadModesDiffer
  | ME_ConfChangeInFlight
  | ME_SplitInFlight
  | ME_RollbackInFlight
  | ME_AlreadyFrozen
  | ME_AlreadyPending
  | ME_SourceNotReady
  | ME_SourceBarrierPending
  | ME_SourceOwesThaw
  | ME_SourceClaimedAsTarget
  | ME_TargetOwesThaw
  | ME_BelowFloor u64
  | ME_CrossPlane
  | ME_NotFrozen
  | ME_SourceClaimed
  | ME_SourceBehindFreeze u64 u64
  | ME_StaleThaw u64 u64
  | ME_SourceAbsorbParked
  | ME_UnbackedThaw
  | ME_LineageExhausted
  | ME_Unsupported
  | ME_Propose "'i ProposeError"

definition map_err :: "('e \<Rightarrow> 'd) \<Rightarrow> ('a, 'e) result \<Rightarrow> ('a, 'd) result" where
  "map_err f r = (case r of Ok x \<Rightarrow> Ok x | Err e \<Rightarrow> Err (f e))"

section \<open>Driving one group\<close>

definition store_group ::
    "'g \<Rightarrow> ('i, 'f, 'n, 'p, 'r) endpoint \<Rightarrow> ('g, 'i, 'f, 'n, 'p, 'r) multi_raft \<Rightarrow> ('g, 'i, 'f, 'n, 'p, 'r) multi_raft" where
  "store_group gid ep m = mark_dirty gid (on_group gid (\<lambda>_. ep) m)"

definition hosted_crossing ::
    "('g, 'i, 'f, 'c, 'n, 'p, 'r, 'l, 's, 'k) multi_env \<Rightarrow> 'g \<Rightarrow> ('g, 'i, 'f, 'n, 'p, 'r) multi_raft \<Rightarrow> bool" where
  "hosted_crossing X gid m =
     group_is gid (\<lambda>t. list_ex (\<lambda>(b, _). case gid_decode_exact X b of
        Ok g \<Rightarrow> mr_contains_group g m | Err _ \<Rightarrow> True) (me_crossings (ep_merge t))) m"

definition mr_handle_message ::
    "('g, 'i::linorder, 'f, 'c, 'n, 'p, 'r, 'l, 's, 'k) multi_env \<Rightarrow> 'g \<Rightarrow> now \<Rightarrow> 'i \<Rightarrow> 'i message \<Rightarrow> 'l \<Rightarrow> 's \<Rightarrow>
     ('g, 'i, 'f, 'n, 'p, 'r) multi_raft \<Rightarrow> unit option \<times> 'l \<times> 's \<times> ('g, 'i, 'f, 'n, 'p, 'r) multi_raft" where
  "mr_handle_message X gid now from msg logs stab m =
     (if (case msg of MInstallSnapshot _ \<Rightarrow> True | _ \<Rightarrow> False) \<and>
         group_is gid (\<lambda>ep. me_pending_apply (ep_merge ep) \<noteq> None) m \<and>
         (hosted_crossing X gid m \<or> obligation_names_hosted_unadvanced X gid m)
      then (Some (), logs, stab, on_group gid (note_merge_park_unresolvable False) m)
      else case mr_group gid m of
             None \<Rightarrow> (None, logs, stab, m)
           | Some ep \<Rightarrow>
               let (ep, logs, stab) = handle_message (mx_env X) now from msg ep logs stab
               in (Some (), logs, stab, store_group gid ep m))"

definition mr_handle_timeout ::
    "('g, 'i::linorder, 'f, 'c, 'n, 'p, 'r, 'l, 's, 'k) multi_env \<Rightarrow> 'g \<Rightarrow> now \<Rightarrow> 'l \<Rightarrow> 's \<Rightarrow>
     ('g, 'i, 'f, 'n, 'p, 'r) multi_raft \<Rightarrow> unit option \<times> 'l \<times> 's \<times> ('g, 'i, 'f, 'n, 'p, 'r) multi_raft" where
  "mr_handle_timeout X gid now logs stab m =
     (case mr_group gid m of
        None \<Rightarrow> (None, logs, stab, m)
      | Some ep \<Rightarrow>
          let (ep, logs, stab) = handle_timeout (mx_env X) now ep logs stab
          in (Some (), logs, stab, store_group gid ep m))"

definition mr_handle_storage ::
    "('g, 'i::linorder, 'f, 'c, 'n, 'p, 'r, 'l, 's, 'k) multi_env \<Rightarrow> 'g \<Rightarrow> now \<Rightarrow> 'l \<Rightarrow> 's \<Rightarrow>
     ('g, 'i, 'f, 'n, 'p, 'r) multi_raft \<Rightarrow>
     StorageProgress option \<times> 'l \<times> 's \<times> ('g, 'i, 'f, 'n, 'p, 'r) multi_raft" where
  "mr_handle_storage X gid now logs stab m =
     (case mr_group gid m of
        None \<Rightarrow> (None, logs, stab, m)
      | Some ep \<Rightarrow>
          let (progress, ep, logs, stab) = handle_storage (mx_env X) now ep logs stab
          in (Some progress, logs, stab, store_group gid ep m))"

definition mr_propose ::
    "('g, 'i, 'f, 'c, 'n, 'p, 'r, 'l, 's, 'k) multi_env \<Rightarrow> 'g \<Rightarrow> now \<Rightarrow> 'l \<Rightarrow> 'c \<Rightarrow>
     ('g, 'i, 'f, 'n, 'p, 'r) multi_raft \<Rightarrow>
     (index, 'i ProposeError) result option \<times> 'l \<times> ('g, 'i, 'f, 'n, 'p, 'r) multi_raft" where
  "mr_propose X gid now logs cmd m =
     (case mr_group gid m of
        None \<Rightarrow> (None, logs, m)
      | Some ep \<Rightarrow>
          let (r, ep, logs) = propose (mx_env X) now cmd ep logs
          in (Some r, logs, store_group gid ep m))"

definition mr_flush_appends ::
    "('g, 'i::linorder, 'f, 'c, 'n, 'p, 'r, 'l, 's, 'k) multi_env \<Rightarrow> 'g \<Rightarrow> now \<Rightarrow> 'l \<Rightarrow> 's \<Rightarrow>
     ('g, 'i, 'f, 'n, 'p, 'r) multi_raft \<Rightarrow> unit option \<times> ('g, 'i, 'f, 'n, 'p, 'r) multi_raft" where
  "mr_flush_appends X gid now logs stab m =
     (case mr_group gid m of
        None \<Rightarrow> (None, m)
      | Some ep \<Rightarrow> (Some (), store_group gid (flush_appends (mx_env X) now logs stab ep) m))"

definition conf_change_moves_voters :: "ConfChangeType \<Rightarrow> bool" where
  "conf_change_moves_voters ty = (case ty of AddNode \<Rightarrow> True | RemoveNode \<Rightarrow> True | AddLearnerNode \<Rightarrow> False)"

definition mr_propose_conf_change ::
    "('g, 'i::linorder, 'f, 'c, 'n, 'p, 'r, 'l, 's, 'k) multi_env \<Rightarrow> 'g \<Rightarrow> now \<Rightarrow> 'l \<Rightarrow> 'i conf_change \<Rightarrow>
     ('g, 'i, 'f, 'n, 'p, 'r) multi_raft \<Rightarrow>
     (index, 'i ProposeError) result option \<times> 'l \<times> ('g, 'i, 'f, 'n, 'p, 'r) multi_raft" where
  "mr_propose_conf_change X gid now logs cc m =
     (case mr_group gid m of
        None \<Rightarrow> (None, logs, m)
      | Some ep \<Rightarrow>
          if conf_change_moves_voters (cc_ty cc) \<and> some_source_claims_target_unresolved X gid m
          then (Some (Err PE_MergeInFlight), logs, m)
          else let (r, ep, logs) = propose_conf_change (mx_env X) now cc ep logs
               in (Some r, logs, store_group gid ep m))"

definition mr_propose_conf_change_v2 ::
    "('g, 'i::linorder, 'f, 'c, 'n, 'p, 'r, 'l, 's, 'k) multi_env \<Rightarrow> 'g \<Rightarrow> now \<Rightarrow> 'l \<Rightarrow> 'i conf_change_v2 \<Rightarrow>
     ('g, 'i, 'f, 'n, 'p, 'r) multi_raft \<Rightarrow>
     (index, 'i ProposeError) result option \<times> 'l \<times> ('g, 'i, 'f, 'n, 'p, 'r) multi_raft" where
  "mr_propose_conf_change_v2 X gid now logs cc m =
     (case mr_group gid m of
        None \<Rightarrow> (None, logs, m)
      | Some ep \<Rightarrow>
          if list_ex (\<lambda>c. conf_change_moves_voters (ccs_ty c)) (v2_changes cc) \<and>
             some_source_claims_target_unresolved X gid m
          then (Some (Err PE_MergeInFlight), logs, m)
          else let (r, ep, logs) = propose_conf_change_v2 (mx_env X) now cc ep logs
               in (Some r, logs, store_group gid ep m))"

definition mr_propose_read_mode_change ::
    "('g, 'i, 'f, 'c, 'n, 'p, 'r, 'l, 's, 'k) multi_env \<Rightarrow> 'g \<Rightarrow> now \<Rightarrow> 'l \<Rightarrow> ReadOnlyOption \<Rightarrow>
     ('g, 'i, 'f, 'n, 'p, 'r) multi_raft \<Rightarrow>
     (index, 'i ProposeError) result option \<times> 'l \<times> ('g, 'i, 'f, 'n, 'p, 'r) multi_raft" where
  "mr_propose_read_mode_change X gid now logs mode m =
     (case mr_group gid m of
        None \<Rightarrow> (None, logs, m)
      | Some ep \<Rightarrow>
          let (r, ep, logs) = propose_read_mode_change (mx_env X) now mode ep logs
          in (Some r, logs, store_group gid ep m))"

definition mr_read_index ::
    "('g, 'i::linorder, 'f, 'c, 'n, 'p, 'r, 'l, 's, 'k) multi_env \<Rightarrow> 'g \<Rightarrow> now \<Rightarrow> 'l \<Rightarrow> bytes \<Rightarrow>
     ('g, 'i, 'f, 'n, 'p, 'r) multi_raft \<Rightarrow>
     (unit, ReadIndexError) result option \<times> ('g, 'i, 'f, 'n, 'p, 'r) multi_raft" where
  "mr_read_index X gid now logs context m =
     (case mr_group gid m of
        None \<Rightarrow> (None, m)
      | Some ep \<Rightarrow>
          let (r, ep) = read_index (mx_env X) now logs context ep in (Some r, store_group gid ep m))"

definition mr_transfer_leader ::
    "('g, 'i::linorder, 'f, 'c, 'n, 'p, 'r, 'l, 's, 'k) multi_env \<Rightarrow> 'g \<Rightarrow> now \<Rightarrow> 'l \<Rightarrow> 's \<Rightarrow> 'i \<Rightarrow>
     ('g, 'i, 'f, 'n, 'p, 'r) multi_raft \<Rightarrow>
     (unit, 'i TransferError) result option \<times> ('g, 'i, 'f, 'n, 'p, 'r) multi_raft" where
  "mr_transfer_leader X gid now logs stab to m =
     (case mr_group gid m of
        None \<Rightarrow> (None, m)
      | Some ep \<Rightarrow>
          let (r, ep) = transfer_leader (mx_env X) now logs stab to ep in (Some r, store_group gid ep m))"

section \<open>Splitting\<close>

definition split_guard ::
    "('g, 'i::linorder, 'f, 'c, 'n, 'p, 'r, 'l, 's, 'k) multi_env \<Rightarrow> ('i, 'f, 'n, 'p, 'r) endpoint \<Rightarrow> 'i SplitError option" where
  "split_guard X ep =
     (if is_poisoned ep then Some (SE_Propose PE_Poisoned)
      else if ep_role ep \<noteq> Leader then Some (SE_NotLeader (ep_leader ep))
      else if \<not> fsm_supports_split X (ep_fsm ep) then Some SE_Unsupported
      else if merge_freeze_active ep then Some (SE_Propose PE_Frozen)
      else if cs_is_joint (ep_conf_state ep) then Some SE_JointConfig
      else if split_in_flight ep then Some SE_SplitInFlight
      else None)"

definition propose_split ::
    "('g, 'i::linorder, 'f, 'c, 'n, 'p, 'r, 'l, 's, 'k) multi_env \<Rightarrow> 'g \<Rightarrow> now \<Rightarrow> 'l \<Rightarrow> 'g \<Rightarrow> u64 \<Rightarrow> bytes \<Rightarrow>
     ('g, 'i, 'f, 'n, 'p, 'r) multi_raft \<Rightarrow>
     (index, 'i SplitError) result option \<times> 'l \<times> ('g, 'i, 'f, 'n, 'p, 'r) multi_raft" where
  "propose_split X gid now logs child child_gen instruction m =
     (case mr_group gid m of
        None \<Rightarrow> (None, logs, m)
      | Some ep \<Rightarrow>
          let child_bytes = gid_encode X child
          in case split_guard X ep of
               Some e \<Rightarrow> (Some (Err e), logs, m)
             | None \<Rightarrow>
                 if mr_contains_group child m then (Some (Err SE_ChildExists), logs, m)
                 else if child_bytes = [] \<or> length child_bytes > MAX_GROUP_ID_LEN
                 then (Some (Err SE_InvalidChild), logs, m)
                 else case next_lineage (sl_shape_gen (ep_split ep)) of
                        None \<Rightarrow> (Some (Err SE_LineageExhausted), logs, m)
                      | Some parent_gen_after \<Rightarrow>
                          if \<not> is_ok (validate_working_generation child_gen)
                          then (Some (Err SE_ReservedGeneration), logs, m)
                          else let payload = encode_split_payload X
                                     \<lparr>sp_child_bytes = child_bytes, sp_child_gen = child_gen,
                                      sp_parent_gen_after = parent_gen_after, sp_instruction = instruction\<rparr>;
                                   (r, ep, logs) = propose_split_entry (mx_env X) now child_bytes payload ep logs
                               in (Some (map_err SE_Propose r), logs, store_group gid ep m))"

section \<open>The merge verbs\<close>

text \<open>The configurations of a merge's two groups must agree.\<close>

definition prepare_merge_guard ::
    "('i::linorder, 'f, 'n, 'p, 'r) endpoint \<Rightarrow> ('i, 'f, 'n, 'p, 'r) endpoint \<Rightarrow> 'i MergeError option" where
  "prepare_merge_guard sep tep =
     (if is_poisoned sep then Some (ME_Propose PE_Poisoned)
      else if ep_role sep \<noteq> Leader then Some (ME_NotLeader (ep_leader sep))
      else if merge_freeze_active sep then Some ME_AlreadyFrozen
      else if split_in_flight sep \<or> fork_obligations_standing sep then Some ME_SplitInFlight
      else if commit_merge_in_flight sep \<or> me_pending_apply (ep_merge sep) \<noteq> None \<or>
              me_capture_debt (ep_merge sep) \<noteq> None then Some ME_AlreadyPending
      else if owes_live_thaw sep \<or> holds_witness_debt sep then Some ME_SourceOwesThaw
      else if cs_is_joint (ep_conf_state sep) \<or> cs_is_joint (ep_conf_state tep) then Some ME_JointConfig
      else if conf_change_in_flight sep \<or> conf_change_in_flight tep then Some ME_ConfChangeInFlight
      else if cs_voters (ep_conf_state sep) \<noteq> cs_voters (ep_conf_state tep) then Some ME_VoterSetsDiffer
      else if cs_learners (ep_conf_state sep) \<noteq> {||} \<or> cs_learners (ep_conf_state tep) \<noteq> {||}
      then Some ME_LearnersPresent
      else if rd_active_read_mode (ep_reads sep) \<noteq> rd_active_read_mode (ep_reads tep) then Some ME_ReadModesDiffer
      else None)"

definition prepare_merge ::
    "('g, 'i::linorder, 'f, 'c, 'n, 'p, 'r, 'l, 's, 'k) multi_env \<Rightarrow> 'g \<Rightarrow> now \<Rightarrow> 'k \<Rightarrow> 'g \<Rightarrow>
     ('g, 'i, 'f, 'n, 'p, 'r) multi_raft \<Rightarrow>
     (index, 'i MergeError) result option \<times> 'k \<times> ('g, 'i, 'f, 'n, 'p, 'r) multi_raft" where
  "prepare_merge X source now stores target m =
     (case mr_group source m of
        None \<Rightarrow> (None, stores, m)
      | Some sep \<Rightarrow>
          if source = target then (Some (Err ME_SelfMerge), stores, m)
          else if gid_encode X source \<le> gid_encode X target then (Some (Err ME_DirectionInverted), stores, m)
          else case mr_group target m of
            None \<Rightarrow> (Some (Err ME_TargetMissing), stores, m)
          | Some tep \<Rightarrow>
              if merge_freeze_active tep then (Some (Err ME_AlreadyFrozen), stores, m)
              else if \<not> fsm_supports_absorb X (ep_fsm tep) then (Some (Err ME_Unsupported), stores, m)
              else case prepare_merge_guard sep tep of
                Some e \<Rightarrow> (Some (Err e), stores, m)
              | None \<Rightarrow>
                  case next_lineage (sl_shape_gen (ep_split sep)) of
                    None \<Rightarrow> (Some (Err ME_LineageExhausted), stores, m)
                  | Some source_gen_after \<Rightarrow>
                      case some_source_claims_target X source stores m of
                        (True, m) \<Rightarrow> (Some (Err ME_SourceClaimedAsTarget), stores, m)
                      | (False, m) \<Rightarrow>
                          let payload = encode_prepare_merge_payload X
                                \<lparr>pm_target_bytes = gid_encode X target, pm_source_gen_after = source_gen_after\<rparr>
                          in case (stores_at X source stores, mr_group source m) of
                               (Some (logs, stab), Some sep) \<Rightarrow>
                                 let (r, sep, logs) = propose_merge_entry (mx_env X) now EK_PrepareMerge payload sep logs
                                 in (Some (map_err ME_Propose r), put_stores X source logs stab stores,
                                     store_group source sep m)
                             | _ \<Rightarrow> (None, stores, m))"

text \<open>What \<open>commit_merge\<close> asks of the target and of the frozen source, in the code's order.\<close>

definition commit_merge_guard ::
    "('g, 'i::linorder, 'f, 'c, 'n, 'p, 'r, 'l, 's, 'k) multi_env \<Rightarrow> 'g \<Rightarrow> 'g \<Rightarrow> ('i, 'f, 'n, 'p, 'r) endpoint \<Rightarrow>
     ('i, 'f, 'n, 'p, 'r) endpoint \<Rightarrow> 'i MergeError option" where
  "commit_merge_guard X target source sep tep =
     (let frozen_ready = (me_frozen (ep_merge sep) \<and>
            (case me_freeze_index (ep_merge sep) of Some f \<Rightarrow> ep_applied sep \<ge> f | None \<Rightarrow> False));
          barrier_met = (ep_role sep = Leader \<and>
            (case me_freeze_index (ep_merge sep) of Some f \<Rightarrow> peers_matched_through f sep | None \<Rightarrow> False))
      in if is_poisoned tep then Some (ME_Propose PE_Poisoned)
         else if ep_role tep \<noteq> Leader then Some (ME_NotLeader (ep_leader tep))
         else if commit_merge_in_flight tep \<or> me_pending_apply (ep_merge tep) \<noteq> None \<or>
                 me_capture_debt (ep_merge tep) \<noteq> None then Some ME_AlreadyPending
         else if merge_freeze_active tep then Some ME_AlreadyFrozen
         else if \<not> fsm_supports_absorb X (ep_fsm tep) then Some ME_Unsupported
         else if split_in_flight tep then Some ME_SplitInFlight
         else if rollback_in_flight tep then Some ME_RollbackInFlight
         else if \<not> frozen_ready then Some ME_SourceNotReady
         else if me_frozen_for (ep_merge sep) \<noteq> Some (gid_encode X target) then Some ME_SourceClaimed
         else if owes_live_thaw_for (gid_encode X source) tep = Some (sl_shape_gen (ep_split sep))
         then Some ME_TargetOwesThaw
         else if cs_is_joint (ep_conf_state sep) \<or> cs_is_joint (ep_conf_state tep) then Some ME_JointConfig
         else if conf_change_in_flight tep then Some ME_ConfChangeInFlight
         else if cs_voters (ep_conf_state sep) \<noteq> cs_voters (ep_conf_state tep) then Some ME_VoterSetsDiffer
         else if cs_learners (ep_conf_state sep) \<noteq> {||} \<or> cs_learners (ep_conf_state tep) \<noteq> {||}
         then Some ME_LearnersPresent
         else if rd_active_read_mode (ep_reads sep) \<noteq> rd_active_read_mode (ep_reads tep) then Some ME_ReadModesDiffer
         else if \<not> barrier_met then Some ME_SourceBarrierPending
         else None)"

text \<open>The outer option is the panic of a source whose freeze has an index and no term, which
the apply path never produces.\<close>

definition commit_merge ::
    "('g, 'i::linorder, 'f, 'c, 'n, 'p, 'r, 'l, 's, 'k) multi_env \<Rightarrow> 'g \<Rightarrow> now \<Rightarrow> 'l \<Rightarrow> 'g \<Rightarrow>
     ('g, 'i, 'f, 'n, 'p, 'r) multi_raft \<Rightarrow>
     ((index, 'i MergeError) result option \<times> 'l \<times> ('g, 'i, 'f, 'n, 'p, 'r) multi_raft) option" where
  "commit_merge X target now logs source m =
     (case mr_group target m of
        None \<Rightarrow> Some (None, logs, m)
      | Some tep \<Rightarrow>
          if source = target then Some (Some (Err ME_SelfMerge), logs, m)
          else case mr_group source m of
            None \<Rightarrow> Some (Some (Err ME_SourceMissing), logs, m)
          | Some sep \<Rightarrow>
              case commit_merge_guard X target source sep tep of
                Some e \<Rightarrow> Some (Some (Err e), logs, m)
              | None \<Rightarrow>
                  case next_lineage (sl_shape_gen (ep_split tep)) of
                    None \<Rightarrow> Some (Some (Err ME_LineageExhausted), logs, m)
                  | Some target_gen_after \<Rightarrow>
                      case (me_freeze_index (ep_merge sep), me_freeze_term (ep_merge sep)) of
                        (Some freeze_index, Some freeze_term) \<Rightarrow>
                          (let payload = encode_commit_merge_payload X
                                 \<lparr>cm_source_bytes = gid_encode X source, cm_freeze_index = freeze_index,
                                  cm_freeze_term = freeze_term, cm_source_gen_after = sl_shape_gen (ep_split sep),
                                  cm_target_gen_after = target_gen_after\<rparr>;
                               (r, tep, logs) = propose_merge_entry (mx_env X) now EK_CommitMerge payload tep logs
                           in Some (Some (map_err ME_Propose r), logs, store_group target tep m))
                      | _ \<Rightarrow> None)"

definition rollback_merge_guard ::
    "('g, 'i, 'f, 'c, 'n, 'p, 'r, 'l, 's, 'k) multi_env \<Rightarrow> 'l \<Rightarrow> 'g \<Rightarrow> 'g \<Rightarrow> ('i, 'f, 'n, 'p, 'r) endpoint \<Rightarrow>
     ('i, 'f, 'n, 'p, 'r) endpoint \<Rightarrow> 'i MergeError option" where
  "rollback_merge_guard X logs target source sep tep =
     (if is_poisoned tep then Some (ME_Propose PE_Poisoned)
      else if ep_role tep \<noteq> Leader then Some (ME_NotLeader (ep_leader tep))
      else if merge_freeze_active tep then Some ME_AlreadyFrozen
      else if \<not> me_frozen (ep_merge sep) then Some ME_NotFrozen
      else if me_frozen_for (ep_merge sep) \<noteq> Some (gid_encode X target) then Some ME_SourceClaimed
      else if split_in_flight tep then Some ME_SplitInFlight
      else if rollback_in_flight tep then Some ME_RollbackInFlight
      else case me_pending_apply (ep_merge tep) of
             Some park \<Rightarrow>
               if pa_source_bytes park = gid_encode X source \<and> pa_source_gen_after park = sl_shape_gen (ep_split sep)
               then None else Some ME_AlreadyPending
           | None \<Rightarrow>
               if commit_merge_in_flight tep \<and>
                  pending_commit_source (mx_env X) logs tep \<noteq> Some (gid_encode X source, sl_shape_gen (ep_split sep))
               then Some ME_AlreadyPending else None)"

definition rollback_merge ::
    "('g, 'i, 'f, 'c, 'n, 'p, 'r, 'l, 's, 'k) multi_env \<Rightarrow> 'g \<Rightarrow> now \<Rightarrow> 'l \<Rightarrow> 'g \<Rightarrow>
     ('g, 'i, 'f, 'n, 'p, 'r) multi_raft \<Rightarrow>
     (index, 'i MergeError) result option \<times> 'l \<times> ('g, 'i, 'f, 'n, 'p, 'r) multi_raft" where
  "rollback_merge X target now logs source m =
     (case mr_group target m of
        None \<Rightarrow> (None, logs, m)
      | Some tep \<Rightarrow>
          if source = target then (Some (Err ME_SelfMerge), logs, m)
          else case mr_group source m of
            None \<Rightarrow> (Some (Err ME_SourceMissing), logs, m)
          | Some sep \<Rightarrow>
              case rollback_merge_guard X logs target source sep tep of
                Some e \<Rightarrow> (Some (Err e), logs, m)
              | None \<Rightarrow>
                  case next_lineage (sl_shape_gen (ep_split tep)) of
                    None \<Rightarrow> (Some (Err ME_LineageExhausted), logs, m)
                  | Some target_gen_after \<Rightarrow>
                      let payload = encode_rollback_merge_payload X
                            (rb_abort (gid_encode X source) (sl_shape_gen (ep_split sep)) target_gen_after);
                          (r, tep, logs) = propose_merge_entry (mx_env X) now EK_RollbackMerge payload tep logs
                      in (Some (map_err ME_Propose r), logs, store_group target tep m))"

section \<open>Thaws and their witness\<close>

text \<open>Appending the unfreeze that ends a freeze of generation \<open>freeze_gen\<close>, or naming the one
in flight.\<close>

definition append_unfreeze ::
    "('g, 'i, 'f, 'c, 'n, 'p, 'r, 'l, 's, 'k) multi_env \<Rightarrow> 'g \<Rightarrow> now \<Rightarrow> 'l \<Rightarrow> u64 \<Rightarrow> ('i, 'f, 'n, 'p, 'r) endpoint \<Rightarrow>
     ('g, 'i, 'f, 'n, 'p, 'r) multi_raft \<Rightarrow>
     (index, 'i MergeError) result option \<times> 'l \<times> ('g, 'i, 'f, 'n, 'p, 'r) multi_raft" where
  "append_unfreeze X source now logs freeze_gen ep m =
     (case thaw_in_flight ep of
        Some idx \<Rightarrow> (Some (Ok idx), logs, m)
      | None \<Rightarrow>
          case next_lineage freeze_gen of
            None \<Rightarrow> (Some (Err ME_LineageExhausted), logs, m)
          | Some source_gen_after \<Rightarrow>
              let payload = encode_rollback_merge_payload X (rb_unfreeze source_gen_after);
                  (r, ep, logs) = propose_merge_entry (mx_env X) now EK_RollbackMerge payload ep logs;
                  ep = (case r of Ok idx \<Rightarrow> note_thaw_appended idx ep | Err _ \<Rightarrow> ep)
              in (Some (map_err ME_Propose r), logs, store_group source ep m))"

definition propose_merge_unfreeze ::
    "('g, 'i, 'f, 'c, 'n, 'p, 'r, 'l, 's, 'k) multi_env \<Rightarrow> 'g \<Rightarrow> now \<Rightarrow> 'l \<Rightarrow> 'g \<Rightarrow> u64 \<Rightarrow>
     ('g, 'i, 'f, 'n, 'p, 'r) multi_raft \<Rightarrow>
     (index, 'i MergeError) result option \<times> 'l \<times> ('g, 'i, 'f, 'n, 'p, 'r) multi_raft" where
  "propose_merge_unfreeze X source now logs claimed_by expected_gen m =
     (case mr_group source m of
        None \<Rightarrow> (None, logs, m)
      | Some ep \<Rightarrow>
          let seen = sl_shape_gen (ep_split ep)
          in if is_poisoned ep then (Some (Err (ME_Propose PE_Poisoned)), logs, m)
             else if seen > expected_gen then (Some (Err (ME_StaleThaw expected_gen seen)), logs, m)
             else if seen < expected_gen
             then (if merge_freeze_active ep then (Some (Err (ME_SourceBehindFreeze expected_gen seen)), logs, m)
                   else (Some (Err ME_NotFrozen), logs, m))
             else if \<not> me_frozen (ep_merge ep) then (Some (Err ME_NotFrozen), logs, m)
             else if ep_role ep \<noteq> Leader then (Some (Err (ME_NotLeader (ep_leader ep))), logs, m)
             else if me_frozen_for (ep_merge ep) \<noteq> Some (gid_encode X claimed_by)
             then (Some (Err ME_SourceClaimed), logs, m)
             else if \<not> group_is claimed_by (abandoned_matches (gid_encode X source) expected_gen) m
             then (Some (Err ME_UnbackedThaw), logs, m)
             else append_unfreeze X source now logs expected_gen ep m)"

definition propose_dead_target_thaw ::
    "('g, 'i, 'f, 'c, 'n, 'p, 'r, 'l, 's, 'k) multi_env \<Rightarrow> 'g \<Rightarrow> now \<Rightarrow> 'l \<Rightarrow> 'g \<Rightarrow>
     ('g, 'i, 'f, 'n, 'p, 'r) multi_raft \<Rightarrow>
     (index, 'i MergeError) result option \<times> 'l \<times> ('g, 'i, 'f, 'n, 'p, 'r) multi_raft" where
  "propose_dead_target_thaw X source now logs target m =
     (case mr_group source m of
        None \<Rightarrow> (None, logs, m)
      | Some ep \<Rightarrow>
          if is_poisoned ep then (Some (Err (ME_Propose PE_Poisoned)), logs, m)
          else if \<not> me_frozen (ep_merge ep) then (Some (Err ME_NotFrozen), logs, m)
          else if ep_role ep \<noteq> Leader then (Some (Err (ME_NotLeader (ep_leader ep))), logs, m)
          else if me_frozen_for (ep_merge ep) \<noteq> Some (gid_encode X target)
          then (Some (Err ME_SourceClaimed), logs, m)
          else if park_names_source X source m then (Some (Err ME_SourceAbsorbParked), logs, m)
          else append_unfreeze X source now logs (sl_shape_gen (ep_split ep)) ep m)"

definition propose_thaw_witness ::
    "('g, 'i, 'f, 'c, 'n, 'p, 'r, 'l, 's, 'k) multi_env \<Rightarrow> 'g \<Rightarrow> bytes \<Rightarrow> u64 \<Rightarrow> now \<Rightarrow> 'l \<Rightarrow>
     ('g, 'i, 'f, 'n, 'p, 'r) multi_raft \<Rightarrow>
     (index, 'i MergeError) result option \<times> 'l \<times> ('g, 'i, 'f, 'n, 'p, 'r) multi_raft" where
  "propose_thaw_witness X target source_bytes generation now logs m =
     (case mr_group target m of
        None \<Rightarrow> (None, logs, m)
      | Some ep \<Rightarrow>
          case witness_in_flight ep of
            Some idx \<Rightarrow> (Some (Ok idx), logs, m)
          | None \<Rightarrow>
              let payload = encode_thaw_discharged_payload X \<lparr>td_source_bytes = source_bytes, td_generation = generation\<rparr>;
                  (r, ep, logs) = propose_merge_entry (mx_env X) now EK_ThawDischarged payload ep logs;
                  ep = (case r of Ok idx \<Rightarrow> note_witness_appended idx ep | Err _ \<Rightarrow> ep)
              in (Some (map_err ME_Propose r), logs, store_group target ep m))"

end
