(* ===== verification/Multi_Merge.thy ===== *)
theory Multi_Merge
  imports Multi_Group Snapshots
begin

text \<open>
  The merge service of the container (\<^verbatim>\<open>multi/mod.rs\<close>, \<open>service_merge_applies\<close>): one crank that
  resolves the parked absorbs, drives the thaws that aborted merges owe, retires the husks
  of absorbed sources, thaws the sources of dead targets, discharges the capture debts and
  the captures an adoption owes, and finally forgets the blocked reports this crank did not
  repeat.  Each pass is a fold over the group ids it collected at its start; the accumulator
  holds the resolutions so far, the stores and the container.
\<close>

type_synonym ('g, 'i, 'f, 'n, 'p, 'r, 'k) service =
  "'g MergeResolution list \<times> 'k \<times> ('g, 'i, 'f, 'n, 'p, 'r) multi_raft"

section \<open>Parked absorbs\<close>

datatype park_verdict = PV_Resolve | PV_Abort | PV_Wait | PV_AdvanceSource

definition poison_group ::
    "PoisonReason \<Rightarrow> 'g \<Rightarrow> ('g, 'i, 'f, 'n, 'p, 'r) multi_raft \<Rightarrow> ('g, 'i, 'f, 'n, 'p, 'r) multi_raft" where
  "poison_group reason gid m = note_if_poisoned gid (on_group gid (poison reason) m)"

text \<open>The window of the park, sealing it while it is open and latching it once closed.\<close>

definition park_window ::
    "('g, 'i::linorder, 'f, 'c, 'n, 'p, 'r, 'l, 's, 'k) multi_env \<Rightarrow> now \<Rightarrow> 'g \<Rightarrow> ('i, 'f, 'n, 'p, 'r) endpoint \<Rightarrow> 'k \<Rightarrow>
     ('g, 'i, 'f, 'n, 'p, 'r) multi_raft \<Rightarrow> MergeWindow option \<times> 'k \<times> ('g, 'i, 'f, 'n, 'p, 'r) multi_raft" where
  "park_window X now tgid tep stores m =
     (case stores_at X tgid stores of
        None \<Rightarrow> (None, stores, m)
      | Some (logs, stab) \<Rightarrow>
          let w = merge_abort_window (mx_env X) logs tep
          in case w of
               MW_Open \<Rightarrow>
                 (let (sealed, ep, logs) = ensure_merge_seal (mx_env X) now tep logs
                  in (Some w, put_stores X tgid logs stab stores,
                      if sealed then store_group tgid (flush_appends (mx_env X) now logs stab ep) m
                      else on_group tgid (\<lambda>_. ep) m))
             | MW_Closed \<Rightarrow> (Some w, stores, on_group tgid latch_merge_window_closed m)
             | _ \<Rightarrow> (Some w, stores, m))"

text \<open>The verdict, and whether the park cannot be resolved from what this host holds.\<close>

definition park_verdict_of ::
    "('g, 'i, 'f, 'c, 'n, 'p, 'r, 'l, 's, 'k) multi_env \<Rightarrow> 'g \<Rightarrow> 'g \<Rightarrow> u64 \<Rightarrow> MergeWindow \<Rightarrow> 'k \<Rightarrow>
     ('g, 'i, 'f, 'n, 'p, 'r) multi_raft \<Rightarrow> park_verdict \<times> bool" where
  "park_verdict_of X tgid source expected window stores m =
     (case window of
        MW_Abort \<Rightarrow> (PV_Abort, False)
      | MW_Open \<Rightarrow> (PV_Wait, False)
      | MW_Stall \<Rightarrow> (PV_Wait, False)
      | MW_Closed \<Rightarrow>
          (case mr_group source m of
             Some sep \<Rightarrow>
               if sl_shape_gen (ep_split sep) = expected
               then (if me_frozen_for (ep_merge sep) \<noteq> Some (gid_encode X tgid) then PV_Abort else PV_Resolve, False)
               else (PV_AdvanceSource, False)
           | None \<Rightarrow> if eng_floor X source stores = MERGED_FLOOR then (PV_Abort, False) else (PV_Wait, True)))"

text \<open>The crossed sources of a target, in order, up to the first that is hosted here; the flag
is set when bytes before it are no group id.\<close>

fun find_hosted_crossing ::
    "('g, 'i, 'f, 'c, 'n, 'p, 'r, 'l, 's, 'k) multi_env \<Rightarrow> ('g, 'i, 'f, 'n, 'p, 'r) multi_raft \<Rightarrow>
     (bytes \<times> index) list \<Rightarrow> bool \<times> 'g option" where
  "find_hosted_crossing X m [] = (False, None)"
| "find_hosted_crossing X m ((b, _) # rest) =
     (case gid_decode_exact X b of
        Ok g \<Rightarrow> if mr_contains_group g m then (False, Some g) else find_hosted_crossing X m rest
      | Err _ \<Rightarrow> (True, snd (find_hosted_crossing X m rest)))"

definition advance_park_scan ::
    "('g, 'i, 'f, 'c, 'n, 'p, 'r, 'l, 's, 'k) multi_env \<Rightarrow> 'g \<Rightarrow> 'k \<Rightarrow>
     ('g, 'i, 'f, 'n, 'p, 'r) multi_raft \<Rightarrow> ('g, 'i, 'f, 'n, 'p, 'r) multi_raft" where
  "advance_park_scan X tgid stores m =
     (case stores_at X tgid stores of
        Some (logs, _) \<Rightarrow> on_group tgid (advance_crossing_scan (mx_env X) logs) m
      | None \<Rightarrow> m)"

text \<open>The sources a group's capture debts name, up to the first that is no group id.\<close>

fun decode_debts ::
    "('g, 'i, 'f, 'c, 'n, 'p, 'r, 'l, 's, 'k) multi_env \<Rightarrow> merged list \<Rightarrow> 'g list fallible" where
  "decode_debts X [] = Ok []"
| "decode_debts X (d # ds) =
     (case gid_decode_exact X (mg_source d) of
        Ok prior \<Rightarrow> (case decode_debts X ds of Ok priors \<Rightarrow> Ok (prior # priors) | Err e \<Rightarrow> Err e)
      | Err e \<Rightarrow> Err e)"

definition inherited_sources ::
    "('g, 'i, 'f, 'c, 'n, 'p, 'r, 'l, 's, 'k) multi_env \<Rightarrow> 'g \<Rightarrow> ('g, 'i, 'f, 'n, 'p, 'r) multi_raft \<Rightarrow> 'g list fallible" where
  "inherited_sources X gid m =
     (case mr_group gid m of Some ep \<Rightarrow> decode_debts X (capture_debt_chain ep) | None \<Rightarrow> Ok [])"

definition recovery_pin_keys ::
    "('g, 'i, 'f, 'c, 'n, 'p, 'r, 'l, 's, 'k) multi_env \<Rightarrow> 'g \<Rightarrow> merged list \<Rightarrow> bytes list" where
  "recovery_pin_keys X source inherited = gid_encode X source # map mg_source inherited"

text \<open>Capturing a group's state behind an absorb: whether a snapshot was staged.  A group
without stores is poisoned.\<close>

definition capture_group ::
    "('g, 'i::linorder, 'f, 'c, 'n, 'p, 'r, 'l, 's, 'k) multi_env \<Rightarrow> 'g \<Rightarrow> 'k \<Rightarrow>
     ('g, 'i, 'f, 'n, 'p, 'r) multi_raft \<Rightarrow> bool \<times> 'k \<times> ('g, 'i, 'f, 'n, 'p, 'r) multi_raft" where
  "capture_group X gid stores m =
     (case stores_at X gid stores of
        None \<Rightarrow> (False, stores, on_group gid (poison PR_SnapshotCapture) m)
      | Some (logs, stab) \<Rightarrow>
          case mr_group gid m of
            None \<Rightarrow> (False, stores, m)
          | Some ep \<Rightarrow>
              let (staged, ep, stab) = capture_absorb_snapshot (mx_env X) logs ep stab
              in (staged, put_stores X gid logs stab stores, on_group gid (\<lambda>_. ep) m))"

text \<open>The absorb itself: the source leaves the container, the target takes its state machine
over, and the capture of the result is staged, deferred, or fails.\<close>

definition absorb_source ::
    "('g::linorder, 'i::linorder, 'f, 'c, 'n, 'p, 'r, 'l, 's, 'k) multi_env \<Rightarrow> 'g \<Rightarrow> 'g \<Rightarrow> AbsorbCaptureBlock \<Rightarrow> 'g list \<Rightarrow>
     ('g, 'i, 'f, 'n, 'p, 'r, 'k) service \<Rightarrow> ('g, 'i, 'f, 'n, 'p, 'r, 'k) service" where
  "absorb_source X tgid source block priors = (\<lambda>(res, stores, m).
     case remove_group_inner X source m of
       (None, m) \<Rightarrow> (res, stores, m)
     | (Some sep, m) \<Rightarrow>
         let (inherited, sep) = take_capture_debts sep
         in case mr_group tgid m of
              None \<Rightarrow> (res, stores, m)
            | Some tep \<Rightarrow>
                let (merged, tep) = resolve_pending_merge (mx_env X) (ep_fsm sep) tep;
                    m = on_group tgid (\<lambda>_. tep) m
                in if is_poisoned tep
                   then let m = on_group tgid (pin_failed_capture (recovery_pin_keys X source inherited)) m
                        in (res @ [MR_CaptureFailed source tgid], stores, note_if_poisoned tgid (mark_dirty tgid m))
                   else if block = ACB_Defer
                   then (case merged of
                           Some d \<Rightarrow>
                             (res @ [MR_Absorbed source tgid], stores,
                              mark_dirty tgid (on_group tgid
                                (\<lambda>ep. adopt_inherited_debts inherited (mint_capture_debt d ep)) m))
                         | None \<Rightarrow> (res, stores, mark_dirty tgid m))
                   else let (staged, stores, m) = capture_group X tgid stores m;
                            m = mark_dirty tgid m
                        in if staged
                           then (res @ MR_Merged source tgid # map (\<lambda>prior. MR_Merged prior tgid) priors, stores,
                                 case merged of Some d \<Rightarrow> on_group tgid (emit_merged d) m | None \<Rightarrow> m)
                           else (res @ [MR_CaptureFailed source tgid], stores,
                                 note_if_poisoned tgid
                                   (on_group tgid (pin_failed_capture (recovery_pin_keys X source inherited)) m)))"

definition resolve_park ::
    "('g::linorder, 'i::linorder, 'f, 'c, 'n, 'p, 'r, 'l, 's, 'k) multi_env \<Rightarrow> 'g \<Rightarrow> 'g \<Rightarrow> index \<Rightarrow>
     ('g, 'i, 'f, 'n, 'p, 'r, 'k) service \<Rightarrow> ('g, 'i, 'f, 'n, 'p, 'r, 'k) service" where
  "resolve_park X tgid source park_at = (\<lambda>(res, stores, m).
     case mr_group tgid m of
       None \<Rightarrow> (res, stores, m)
     | Some tep \<Rightarrow>
         let block = absorb_capture_block tep
         in if block = ACB_Hold
            then (res, stores,
                  if capture_fence_at park_at tep = Some CF_Frozen
                  then note_merge_blocked tgid source park_at BlockedFrozen m else m)
            else case owes_a_drivable_thaw X source m of
              (True, m) \<Rightarrow> (res, stores, m)
            | (False, m) \<Rightarrow>
                if group_is source fork_obligations_standing m
                then (res, stores, note_merge_blocked tgid source park_at ForkFence m)
                else case inherited_sources X source m of
                       Err _ \<Rightarrow> (res, stores, mark_dirty source (poison_group PR_MergeDecode source m))
                     | Ok priors \<Rightarrow> absorb_source X tgid source block priors (res, stores, m))"

definition advance_source ::
    "('g::linorder, 'i::linorder, 'f, 'c, 'n, 'p, 'r, 'l, 's, 'k) multi_env \<Rightarrow> 'g \<Rightarrow> index \<Rightarrow> raft_term \<Rightarrow> 'k \<Rightarrow>
     ('g, 'i, 'f, 'n, 'p, 'r) multi_raft \<Rightarrow> ('g, 'i, 'f, 'n, 'p, 'r) multi_raft" where
  "advance_source X source boundary freeze_term stores m =
     (case (stores_at X source stores, mr_group source m) of
        (Some (logs, _), Some sep) \<Rightarrow>
          let (advanced, sep) = advance_commit_on_freeze_identity (mx_env X) logs boundary freeze_term sep
          in note_if_poisoned source (if advanced then store_group source sep m else on_group source (\<lambda>_. sep) m)
      | _ \<Rightarrow> m)"

text \<open>Acting on the verdict once the crossing scan of an unresolvable park has run: the blocked
reports, whether the park is advertised as unresolvable, and the verdict's own step.\<close>

definition act_on_park ::
    "('g::linorder, 'i::linorder, 'f, 'c, 'n, 'p, 'r, 'l, 's, 'k) multi_env \<Rightarrow> 'g \<Rightarrow> 'g \<Rightarrow> pending_merge_apply \<Rightarrow>
     park_verdict \<Rightarrow> bool \<Rightarrow> 'g option \<Rightarrow>
     ('g, 'i, 'f, 'n, 'p, 'r, 'k) service \<Rightarrow> ('g, 'i, 'f, 'n, 'p, 'r, 'k) service" where
  "act_on_park X tgid source park verdict unresolvable crossing = (\<lambda>(res, stores, m).
     let blocks = (unresolvable \<and> group_is tgid (\<lambda>t. \<not> me_crossing_scan_current (ep_merge t)) m \<or> crossing \<noteq> None);
         advertise = (unresolvable \<and> \<not> blocks \<and>
           group_is tgid (\<lambda>t. me_crossing_scan_current (ep_merge t) \<and> \<not> fork_barrier_standing t) m \<and>
           \<not> obligation_names_hosted_unadvanced X tgid m);
         m = (case crossing of Some g \<Rightarrow> note_merge_blocked tgid g (pa_at park) CrossedHostedSource m | None \<Rightarrow> m);
         m = on_group tgid (note_merge_park_unresolvable advertise) m
     in case verdict of
          PV_Wait \<Rightarrow>
            (res, stores, if unresolvable \<and> crossing = None
                          then note_merge_blocked tgid source (pa_at park) SourceUnhosted m else m)
        | PV_AdvanceSource \<Rightarrow>
            (res, stores, advance_source X source (pa_freeze_index park) (pa_freeze_term park) stores
                            (note_merge_blocked tgid source (pa_at park) SourceBehind m))
        | PV_Abort \<Rightarrow>
            (res @ [MR_Aborted source tgid], stores,
             mark_dirty tgid (on_group tgid resolve_pending_merge_aborted m))
        | PV_Resolve \<Rightarrow> resolve_park X tgid source (pa_at park) (res, stores, m))"

definition service_park ::
    "('g::linorder, 'i::linorder, 'f, 'c, 'n, 'p, 'r, 'l, 's, 'k) multi_env \<Rightarrow> now \<Rightarrow> 'g \<Rightarrow>
     ('g, 'i, 'f, 'n, 'p, 'r, 'k) service \<Rightarrow> ('g, 'i, 'f, 'n, 'p, 'r, 'k) service" where
  "service_park X now tgid = (\<lambda>(res, stores, m).
     case mr_group tgid m of
       None \<Rightarrow> (res, stores, m)
     | Some tep \<Rightarrow>
         case me_pending_apply (ep_merge tep) of
           None \<Rightarrow> (res, stores, m)
         | Some park \<Rightarrow>
             case gid_decode_exact X (pa_source_bytes park) of
               Err _ \<Rightarrow> (res, stores, poison_group PR_MergeDecode tgid m)
             | Ok source \<Rightarrow>
                 case park_window X now tgid tep stores m of
                   (None, stores, m) \<Rightarrow> (res, stores, m)
                 | (Some window, stores, m) \<Rightarrow>
                     let (verdict, unresolvable) =
                           park_verdict_of X tgid source (pa_source_gen_after park) window stores m;
                         m = (if unresolvable then advance_park_scan X tgid stores m else m)
                     in if unresolvable \<and> stores_at X tgid stores \<noteq> None \<and> group_is tgid is_poisoned m
                        then (res, stores, note_if_poisoned tgid m)
                        else let (corrupt, crossing) =
                                   (if unresolvable
                                    then (case mr_group tgid m of
                                            Some t \<Rightarrow> find_hosted_crossing X m (me_crossings (ep_merge t))
                                          | None \<Rightarrow> (False, None))
                                    else (False, None))
                             in if corrupt then (res, stores, poison_group PR_MergeDecode tgid m)
                                else act_on_park X tgid source park verdict unresolvable crossing (res, stores, m))"

section \<open>The thaws that aborted merges owe\<close>

text \<open>Whether an obligation is over: on this host (its source is past it, or can never come
back at its generation), and provably everywhere.\<close>

definition thaw_retired ::
    "('g, 'i, 'f, 'c, 'n, 'p, 'r, 'l, 's, 'k) multi_env \<Rightarrow> 'g \<Rightarrow> abandoned_merge \<Rightarrow> 'k \<Rightarrow>
     ('g, 'i, 'f, 'n, 'p, 'r) multi_raft \<Rightarrow> bool \<times> bool" where
  "thaw_retired X source ob stores m =
     (let expected = ab_generation ob; flr = eng_floor X source stores; lineage_past = (eng_lineage X source stores > expected)
      in case mr_group source m of
           Some sep \<Rightarrow>
             let seen_past = (sl_shape_gen (ep_split sep) > expected);
                 idle = (\<not> merge_freeze_active sep);
                 mirror_past = (idle \<and> lineage_past);
                 terminal = (flr = MERGED_FLOOR \<and> \<not> is_poisoned sep);
                 removed_below = (flr \<noteq> MERGED_FLOOR \<and> \<not> floor_admits flr expected)
             in (seen_past \<or> mirror_past \<or> terminal \<or> (idle \<and> \<not> ab_is_covered ob \<and> removed_below),
                 seen_past \<or> mirror_past \<or> terminal)
         | None \<Rightarrow>
             let terminal = (flr = MERGED_FLOOR)
             in (lineage_past \<or> terminal \<or> (\<not> ab_is_covered ob \<and> \<not> floor_admits flr expected),
                 lineage_past \<or> terminal))"

definition serve_obligation ::
    "('g, 'i, 'f, 'c, 'n, 'p, 'r, 'l, 's, 'k) multi_env \<Rightarrow> now \<Rightarrow> 'g \<Rightarrow> bytes \<Rightarrow> 'g \<Rightarrow> abandoned_merge \<Rightarrow>
     'k \<times> ('g, 'i, 'f, 'n, 'p, 'r) multi_raft \<Rightarrow> 'k \<times> ('g, 'i, 'f, 'n, 'p, 'r) multi_raft" where
  "serve_obligation X now tgid source_key source ob = (\<lambda>(stores, m).
     let expected = ab_generation ob;
         (locally_retired, global_proof) = thaw_retired X source ob stores m;
         holder_defers = group_is tgid (\<lambda>t. ep_role t = Leader \<and> me_pending_apply (ep_merge t) = None) m;
         latched_mintable = (ab_discharged ob \<and>
           (case mr_group source m of
              None \<Rightarrow> True
            | Some sep \<Rightarrow> \<not> merge_freeze_active sep \<or> sl_shape_gen (ep_split sep) > expected))
     in if global_proof \<or> latched_mintable
        then let m = (if \<not> ab_discharged ob then on_group tgid (note_discharged source_key) m else m)
             in (case (holder_defers, stores_at X tgid stores) of
                   (True, Some (logs, stab)) \<Rightarrow>
                     (let (_, logs, m) = propose_thaw_witness X tgid source_key expected now logs m
                      in (put_stores X tgid logs stab stores, m))
                 | _ \<Rightarrow> (stores, m))
        else if ab_discharged ob then (stores, m)
        else if locally_retired then (stores, on_group tgid (clear_abandoned source_key) m)
        else case stores_at X source stores of
               None \<Rightarrow> (stores, m)
             | Some (logs, stab) \<Rightarrow>
                 let (_, logs, m) = propose_merge_unfreeze X source now logs tgid expected m
                 in (put_stores X source logs stab stores, m))"

fun serve_obligations ::
    "('g, 'i, 'f, 'c, 'n, 'p, 'r, 'l, 's, 'k) multi_env \<Rightarrow> now \<Rightarrow> 'g \<Rightarrow> (bytes \<times> abandoned_merge) list \<Rightarrow>
     'k \<times> ('g, 'i, 'f, 'n, 'p, 'r) multi_raft \<Rightarrow> 'k \<times> ('g, 'i, 'f, 'n, 'p, 'r) multi_raft" where
  "serve_obligations X now tgid [] st = st"
| "serve_obligations X now tgid ((source_key, ob) # rest) st =
     (case gid_decode_exact X source_key of
        Err _ \<Rightarrow> (fst st, poison_group PR_MergeDecode tgid (snd st))
      | Ok source \<Rightarrow> serve_obligations X now tgid rest (serve_obligation X now tgid source_key source ob st))"

definition service_abandoned ::
    "('g, 'i, 'f, 'c, 'n, 'p, 'r, 'l, 's, 'k) multi_env \<Rightarrow> now \<Rightarrow> 'g \<Rightarrow>
     ('g, 'i, 'f, 'n, 'p, 'r, 'k) service \<Rightarrow> ('g, 'i, 'f, 'n, 'p, 'r, 'k) service" where
  "service_abandoned X now tgid = (\<lambda>(res, stores, m).
     case mr_group tgid m of
       None \<Rightarrow> (res, stores, m)
     | Some tep \<Rightarrow>
         let (stores, m) = serve_obligations X now tgid (me_abandoned (ep_merge tep)) (stores, m)
         in (res, stores, m))"

section \<open>Husks and dead targets\<close>

definition service_husk ::
    "('g::linorder, 'i, 'f, 'c, 'n, 'p, 'r, 'l, 's, 'k) multi_env \<Rightarrow> bytes set \<Rightarrow> 'g \<Rightarrow>
     ('g, 'i, 'f, 'n, 'p, 'r, 'k) service \<Rightarrow> ('g, 'i, 'f, 'n, 'p, 'r, 'k) service" where
  "service_husk X park_named gid = (\<lambda>(res, stores, m).
     if gid_encode X gid \<in> park_named then (res, stores, m)
     else case owes_a_drivable_thaw X gid m of
       (True, m) \<Rightarrow> (res, stores, m)
     | (False, m) \<Rightarrow>
         if group_is gid fork_obligations_standing m then (res, stores, m)
         else case inherited_sources X gid m of
                Err _ \<Rightarrow> (res, stores, mark_dirty gid (poison_group PR_MergeDecode gid m))
              | Ok priors \<Rightarrow>
                  case remove_group_inner X gid m of
                    (None, m) \<Rightarrow> (res, stores, m)
                  | (Some _, m) \<Rightarrow>
                      (res @ map (\<lambda>prior. MR_Merged prior gid) priors @ [MR_Retired gid], stores, mark_dirty gid m))"

definition service_frozen ::
    "('g, 'i, 'f, 'c, 'n, 'p, 'r, 'l, 's, 'k) multi_env \<Rightarrow> now \<Rightarrow> 'g \<Rightarrow>
     ('g, 'i, 'f, 'n, 'p, 'r, 'k) service \<Rightarrow> ('g, 'i, 'f, 'n, 'p, 'r, 'k) service" where
  "service_frozen X now sgid = (\<lambda>(res, stores, m).
     case Option.bind (mr_group sgid m) (\<lambda>sep. me_frozen_for (ep_merge sep)) of
       None \<Rightarrow> (res, stores, m)
     | Some claim \<Rightarrow>
         case gid_decode_exact X claim of
           Err _ \<Rightarrow> (res, stores, poison_group PR_MergeDecode sgid m)
         | Ok target \<Rightarrow>
             if mr_contains_group target m \<or> eng_floor X target stores \<noteq> MERGED_FLOOR then (res, stores, m)
             else case stores_at X sgid stores of
                    None \<Rightarrow> (res, stores, m)
                  | Some (logs, stab) \<Rightarrow>
                      let (_, logs, m) = propose_dead_target_thaw X sgid now logs target m
                      in (res, put_stores X sgid logs stab stores, m))"

section \<open>Capture debts\<close>

definition capture_settled ::
    "('g, 'i, 'f, 'c, 'n, 'p, 'r, 'l, 's, 'k) multi_env \<Rightarrow> 'g \<Rightarrow> index \<Rightarrow> ('i, 'f, 'n, 'p, 'r) endpoint \<Rightarrow> 'k \<Rightarrow> bool" where
  "capture_settled X gid boundary ep stores \<longleftrightarrow>
     (case pending_compact_boundary ep of Some b \<Rightarrow> b \<ge> boundary | None \<Rightarrow> False) \<or>
     durable_snapshot_covers boundary ep \<and>
     (case stores_at X gid stores of Some (logs, _) \<Rightarrow> \<not> merge_conf_fence (mx_env X) logs ep | None \<Rightarrow> False)"

text \<open>Which group a blocked capture is reported against.\<close>

definition fence_report ::
    "('g, 'i, 'f, 'c, 'n, 'p, 'r, 'l, 's, 'k) multi_env \<Rightarrow> 'g option \<Rightarrow> index \<Rightarrow> CaptureFence \<Rightarrow>
     ('i, 'f, 'n, 'p, 'r) endpoint \<Rightarrow> MergeBlockedCause \<times> 'g option" where
  "fence_report X own idx fence ep =
     (case fence of
        CF_Frozen \<Rightarrow> (BlockedFrozen, own)
      | CF_Fork \<Rightarrow> (ForkFence, own)
      | CF_Abort \<Rightarrow>
          (AbortFence,
           case abort_fence_source_at idx ep of
             Some key \<Rightarrow> (case gid_decode_exact X key of Ok g \<Rightarrow> Some g | Err _ \<Rightarrow> None)
           | None \<Rightarrow> None))"

definition report_fence ::
    "('g::linorder, 'i, 'f, 'c, 'n, 'p, 'r, 'l, 's, 'k) multi_env \<Rightarrow> 'g \<Rightarrow> 'g option \<Rightarrow> index \<Rightarrow>
     ('i, 'f, 'n, 'p, 'r) endpoint \<Rightarrow> ('g, 'i, 'f, 'n, 'p, 'r) multi_raft \<Rightarrow> ('g, 'i, 'f, 'n, 'p, 'r) multi_raft" where
  "report_fence X gid own boundary ep m =
     (case capture_fence_at (ep_applied ep) ep of
        None \<Rightarrow> m
      | Some fence \<Rightarrow>
          case fence_report X own (ep_applied ep) fence ep of
            (cause, Some named) \<Rightarrow> note_merge_blocked gid named boundary cause m
          | (_, None) \<Rightarrow> m)"

text \<open>The resolutions of the debts a discharged target inherited, until one names no group.\<close>

fun push_inherited ::
    "('g, 'i, 'f, 'c, 'n, 'p, 'r, 'l, 's, 'k) multi_env \<Rightarrow> 'g \<Rightarrow> merged list \<Rightarrow>
     ('g, 'i, 'f, 'n, 'p, 'r, 'k) service \<Rightarrow> ('g, 'i, 'f, 'n, 'p, 'r, 'k) service" where
  "push_inherited X tgid [] st = st"
| "push_inherited X tgid (d # ds) (res, stores, m) =
     (case gid_decode_exact X (mg_source d) of
        Ok prior \<Rightarrow> push_inherited X tgid ds (res @ [MR_Merged prior tgid], stores, m)
      | Err _ \<Rightarrow> (res, stores, poison_group PR_MergeDecode tgid m))"

definition discharge_debt ::
    "('g, 'i, 'f, 'c, 'n, 'p, 'r, 'l, 's, 'k) multi_env \<Rightarrow> 'g \<Rightarrow> 'g \<Rightarrow>
     ('g, 'i, 'f, 'n, 'p, 'r, 'k) service \<Rightarrow> ('g, 'i, 'f, 'n, 'p, 'r, 'k) service" where
  "discharge_debt X tgid source = (\<lambda>(res, stores, m).
     let (inherited, m) =
           (case map_option discharge_capture_debt (mr_group tgid m) of
              Some (Some d, ep) \<Rightarrow>
                (let (inherited, ep) = take_inherited_debts (emit_merged d ep)
                 in (inherited, on_group tgid (\<lambda>_. ep) m))
            | Some (None, ep) \<Rightarrow> ([], on_group tgid (\<lambda>_. ep) m)
            | None \<Rightarrow> ([], m))
     in push_inherited X tgid inherited (res @ [MR_Merged source tgid], stores, mark_dirty tgid m))"

definition service_debtor ::
    "('g::linorder, 'i::linorder, 'f, 'c, 'n, 'p, 'r, 'l, 's, 'k) multi_env \<Rightarrow> 'g \<Rightarrow>
     ('g, 'i, 'f, 'n, 'p, 'r, 'k) service \<Rightarrow> ('g, 'i, 'f, 'n, 'p, 'r, 'k) service" where
  "service_debtor X tgid = (\<lambda>(res, stores, m).
     case mr_group tgid m of
       None \<Rightarrow> (res, stores, m)
     | Some tep \<Rightarrow>
         case me_capture_debt (ep_merge tep) of
           None \<Rightarrow> (res, stores, m)
         | Some debt \<Rightarrow>
             case gid_decode_exact X (mg_source debt) of
               Err _ \<Rightarrow> (res, stores, poison_group PR_MergeDecode tgid m)
             | Ok source \<Rightarrow>
                 if capture_settled X tgid (mg_index debt) tep stores
                 then discharge_debt X tgid source (res, stores, m)
                 else if capture_blocked_at (ep_applied tep) tep
                 then (res, stores, report_fence X tgid (Some source) (mg_index debt) tep m)
                 else let (staged, stores, m) = capture_group X tgid stores m
                      in if staged then discharge_debt X tgid source (res, stores, m)
                         else (res @ [MR_CaptureFailed source tgid], stores,
                               mark_dirty tgid (note_if_poisoned tgid m)))"

definition service_adopt_ower ::
    "('g::linorder, 'i::linorder, 'f, 'c, 'n, 'p, 'r, 'l, 's, 'k) multi_env \<Rightarrow> 'g \<Rightarrow>
     ('g, 'i, 'f, 'n, 'p, 'r, 'k) service \<Rightarrow> ('g, 'i, 'f, 'n, 'p, 'r, 'k) service" where
  "service_adopt_ower X gid = (\<lambda>(res, stores, m).
     case mr_group gid m of
       None \<Rightarrow> (res, stores, m)
     | Some ep \<Rightarrow>
         if capture_settled X gid (ep_applied ep) ep stores
         then (res, stores, on_group gid clear_adopt_capture_owed m)
         else if capture_blocked_at (ep_applied ep) ep
         then (res, stores,
               case me_adopt_capture_owed (ep_merge ep) of
                 Some (own, boundary) \<Rightarrow>
                   if bm_contains (mr_merge_blocked_attempts m) gid then m
                   else report_fence X gid
                          (case gid_decode_exact X own of Ok g \<Rightarrow> Some g | Err _ \<Rightarrow> None) boundary ep m
               | None \<Rightarrow> m)
         else let (staged, stores, m) = capture_group X gid stores m
              in (res, stores,
                  mark_dirty gid (if staged then on_group gid clear_adopt_capture_owed m
                                  else note_if_poisoned gid m)))"

section \<open>The service\<close>

definition groups_where ::
    "('g \<Rightarrow> ('i, 'f, 'n, 'p, 'r) endpoint \<Rightarrow> bool) \<Rightarrow> ('g, 'i, 'f, 'n, 'p, 'r) multi_raft \<Rightarrow> 'g list" where
  "groups_where P m = map fst (filter (\<lambda>(g, ep). P g ep) (mr_groups m))"

definition park_named_sources :: "('g, 'i, 'f, 'n, 'p, 'r) multi_raft \<Rightarrow> bytes set" where
  "park_named_sources m =
     set (List.map_filter (\<lambda>(_, ep). map_option pa_source_bytes (me_pending_apply (ep_merge ep))) (mr_groups m))"

definition settle_blocked ::
    "('g, 'i, 'f, 'n, 'p, 'r) multi_raft \<Rightarrow> ('g, 'i, 'f, 'n, 'p, 'r) multi_raft" where
  "settle_blocked m =
     (let attempts = mr_merge_blocked_attempts m
      in m\<lparr>mr_merge_blocked_attempts := [],
           mr_merge_blocked_seen := filter (\<lambda>(g, obs). map_of attempts g = Some obs) (mr_merge_blocked_seen m),
           mr_merge_blocked := filter (\<lambda>b. map_of attempts (mb_target b) =
                                 Some (mb_cause b, mb_source b, mb_boundary b)) (mr_merge_blocked m)\<rparr>)"

definition service_merge_applies ::
    "('g::linorder, 'i::linorder, 'f, 'c, 'n, 'p, 'r, 'l, 's, 'k) multi_env \<Rightarrow> now \<Rightarrow> 'k \<Rightarrow>
     ('g, 'i, 'f, 'n, 'p, 'r) multi_raft \<Rightarrow> ('g, 'i, 'f, 'n, 'p, 'r, 'k) service" where
  "service_merge_applies X now stores m =
     (let (res, stores, m) = fold (service_park X now)
            (groups_where (\<lambda>_ ep. me_pending_apply (ep_merge ep) \<noteq> None) m) ([], stores, m);
          (res, stores, m) = fold (service_abandoned X now)
            (groups_where (\<lambda>_ ep. me_abandoned (ep_merge ep) \<noteq> []) m) (res, stores, m);
          (res, stores, m) = fold (service_husk X (park_named_sources m))
            (groups_where (\<lambda>g ep. me_frozen (ep_merge ep) \<and> \<not> is_poisoned ep \<and>
                                  eng_floor X g stores = MERGED_FLOOR) m) (res, stores, m);
          (res, stores, m) = fold (service_frozen X now)
            (groups_where (\<lambda>_ ep. me_frozen (ep_merge ep) \<and> \<not> is_poisoned ep) m) (res, stores, m);
          (res, stores, m) = fold (service_debtor X)
            (groups_where (\<lambda>_ ep. me_capture_debt (ep_merge ep) \<noteq> None \<and> \<not> is_poisoned ep) m) (res, stores, m);
          (res, stores, m) = fold (service_adopt_ower X)
            (groups_where (\<lambda>_ ep. me_adopt_capture_owed (ep_merge ep) \<noteq> None \<and> \<not> is_poisoned ep) m) (res, stores, m)
      in (res, stores, settle_blocked m))"

end
