(* ===== verification/Multi_Inv.thy ===== *)
theory Multi_Inv
  imports Multi_Merge
begin

text \<open>
  The invariant of the group container and its preservation by the container's primitive
  steps: the ordered maps are ordered, every queue agrees with its membership set and holds
  no group twice, a conflict is queued only for a parked parent, every group with output or
  staged forks is scheduled, and the poison signals name exactly poisoned hosted groups.

  A step of one group is \<open>calm\<close> when it creates no output and no fork and poisons nothing,
  \<open>hush\<close> when it may only poison, \<open>lively\<close> when it never clears a poison: a calm step needs no
  bookkeeping, a hushed one a poison note, a lively one the mark of \<open>mark_dirty\<close>.
\<close>

section \<open>The invariant\<close>

definition pollable_message :: "('i, 'f, 'n, 'p, 'r) endpoint \<Rightarrow> bool" where
  "pollable_message ep \<longleftrightarrow> \<not> is_poisoned ep \<and> ou_outgoing (ep_outputs ep) \<noteq> []"

definition pollable_event :: "('i, 'f, 'n, 'p, 'r) endpoint \<Rightarrow> bool" where
  "pollable_event ep \<longleftrightarrow> \<not> is_poisoned ep \<and> ou_events (ep_outputs ep) \<noteq> []"

definition forks_staged :: "('i, 'f, 'n, 'p, 'r) endpoint \<Rightarrow> bool" where
  "forks_staged ep \<longleftrightarrow> sl_pending_forks (ep_split ep) \<noteq> []"

text \<open>A target parked at the last index a log can hold may poison itself while sealing its
window without a signal; every other poisoned group is announced.\<close>

definition sealed_out :: "('i, 'f, 'n, 'p, 'r) endpoint \<Rightarrow> bool" where
  "sealed_out ep =
     (case me_pending_apply (ep_merge ep) of Some p \<Rightarrow> next_log_index (pa_at p) = None | None \<Rightarrow> False)"

definition owes_signal :: "('i, 'f, 'n, 'p, 'r) endpoint \<Rightarrow> bool" where
  "owes_signal ep \<longleftrightarrow> is_poisoned ep \<and> \<not> sealed_out ep"

definition queues_ok :: "('g::linorder, 'i, 'f, 'n, 'p, 'r) multi_raft \<Rightarrow> bool" where
  "queues_ok m \<longleftrightarrow>
     bm_ok (mr_groups m) \<and> bm_ok (mr_parked m) \<and> bm_ok (mr_lineage m) \<and>
     bm_ok (mr_merge_blocked_seen m) \<and> bm_ok (mr_merge_blocked_attempts m) \<and>
     distinct (mr_dirty_msgs m) \<and> fset (mr_dirty_msgs_set m) = set (mr_dirty_msgs m) \<and>
     distinct (mr_dirty_events m) \<and> fset (mr_dirty_events_set m) = set (mr_dirty_events m) \<and>
     distinct (mr_dirty_forks m) \<and> fset (mr_dirty_forks_set m) = set (mr_dirty_forks m) \<and>
     (\<forall>(parent, _)\<in>set (mr_conflicts m). bm_contains (mr_parked m) parent) \<and>
     (\<forall>g. bm_contains (mr_parked m) g \<longrightarrow> mr_contains_group g m)"

definition signals_true :: "('g::linorder, 'i, 'f, 'n, 'p, 'r) multi_raft \<Rightarrow> bool" where
  "signals_true m \<longleftrightarrow>
     distinct (mr_poisoned_pending m) \<and> set (mr_poisoned_pending m) \<subseteq> fset (mr_poisoned_seen m) \<and>
     (\<forall>g. g |\<in>| mr_poisoned_seen m \<longrightarrow> group_is g is_poisoned m)"

text \<open>What the container's bookkeeping owes a group with the given endpoint.\<close>

definition duly :: "'g::linorder \<Rightarrow> ('g, 'i, 'f, 'n, 'p, 'r) multi_raft \<Rightarrow> ('i, 'f, 'n, 'p, 'r) endpoint \<Rightarrow> bool" where
  "duly g m ep \<longleftrightarrow>
     (pollable_message ep \<longrightarrow> g |\<in>| mr_dirty_msgs_set m) \<and>
     (pollable_event ep \<longrightarrow> g |\<in>| mr_dirty_events_set m) \<and>
     (forks_staged ep \<longrightarrow> g |\<in>| mr_dirty_forks_set m \<or> bm_contains (mr_parked m) g) \<and>
     (owes_signal ep \<longrightarrow> g |\<in>| mr_poisoned_seen m)"

definition attended :: "'g::linorder \<Rightarrow> ('g, 'i, 'f, 'n, 'p, 'r) multi_raft \<Rightarrow> bool" where
  "attended g m \<longleftrightarrow> (\<forall>ep. mr_group g m = Some ep \<longrightarrow> duly g m ep)"

definition inv_but :: "'g::linorder set \<Rightarrow> ('g, 'i, 'f, 'n, 'p, 'r) multi_raft \<Rightarrow> bool" where
  "inv_but G m \<longleftrightarrow> queues_ok m \<and> signals_true m \<and> (\<forall>g. g \<notin> G \<longrightarrow> attended g m)"

definition lively :: "('i, 'f, 'n, 'p, 'r) endpoint \<Rightarrow> ('i, 'f, 'n, 'p, 'r) endpoint \<Rightarrow> bool" where
  "lively ep ep' \<longleftrightarrow> (is_poisoned ep \<longrightarrow> is_poisoned ep')"

definition hush :: "('i, 'f, 'n, 'p, 'r) endpoint \<Rightarrow> ('i, 'f, 'n, 'p, 'r) endpoint \<Rightarrow> bool" where
  "hush ep ep' \<longleftrightarrow>
     lively ep ep' \<and> (pollable_message ep' \<longrightarrow> pollable_message ep) \<and>
     (pollable_event ep' \<longrightarrow> pollable_event ep) \<and> (forks_staged ep' \<longrightarrow> forks_staged ep)"

definition calm :: "('i, 'f, 'n, 'p, 'r) endpoint \<Rightarrow> ('i, 'f, 'n, 'p, 'r) endpoint \<Rightarrow> bool" where
  "calm ep ep' \<longleftrightarrow> hush ep ep' \<and> (owes_signal ep' \<longrightarrow> owes_signal ep)"

lemmas calm_defs = calm_def hush_def lively_def pollable_message_def pollable_event_def forks_staged_def
  owes_signal_def sealed_out_def is_poisoned_def

lemma calm_refl [simp]: "calm ep ep" "hush ep ep" "lively ep ep"
  by (simp_all add: calm_defs)

lemma calm_hush [intro]: "calm ep ep' \<Longrightarrow> hush ep ep'"
  by (simp add: calm_def)

lemma hush_lively [intro]: "hush ep ep' \<Longrightarrow> lively ep ep'"
  by (simp add: hush_def)

lemma lively_trans: "lively a b \<Longrightarrow> lively b c \<Longrightarrow> lively a c"
  by (simp add: lively_def)

lemma hush_trans: "hush a b \<Longrightarrow> hush b c \<Longrightarrow> hush a c"
  by (auto simp: hush_def lively_def)

lemma calm_trans: "calm a b \<Longrightarrow> calm b c \<Longrightarrow> calm a c"
  unfolding calm_def using hush_trans by blast

section \<open>The primitive steps\<close>

lemmas inv_defs = inv_but_def queues_ok_def signals_true_def attended_def duly_def group_is_def mr_contains_group_def mr_group_def

lemma group_is_on_group [simp]:
  "group_is g P (on_group gid f m) = group_is g (\<lambda>ep. P (if g = gid then f ep else ep)) m"
  by (cases "g = gid"; cases "mr_group gid m") (simp_all add: group_is_def)

lemma mr_contains_group_iff: "mr_contains_group g m \<longleftrightarrow> mr_group g m \<noteq> None"
  by (simp add: mr_contains_group_def mr_group_def bm_contains_def)

lemma bm_contains_update [simp]: "bm_contains (bm_update k f p) h = bm_contains p h"
  by (simp add: bm_contains_def)

lemma on_group_fields [simp]:
  "mr_dirty_msgs_set (on_group gid f m) = mr_dirty_msgs_set m"
  "mr_dirty_events_set (on_group gid f m) = mr_dirty_events_set m"
  "mr_dirty_forks_set (on_group gid f m) = mr_dirty_forks_set m"
  "mr_parked (on_group gid f m) = mr_parked m"
  "mr_poisoned_seen (on_group gid f m) = mr_poisoned_seen m"
  "mr_poisoned_pending (on_group gid f m) = mr_poisoned_pending m"
  "mr_contains_group g (on_group gid f m) = mr_contains_group g m"
  by (simp_all add: on_group_def mr_contains_group_def)

lemma queues_ok_on_group [simp]: "queues_ok (on_group gid f m) = queues_ok m"
  by (simp add: queues_ok_def on_group_def mr_contains_group_def)

lemma signals_true_on_group:
  assumes "signals_true m" "\<And>ep. mr_group gid m = Some ep \<Longrightarrow> lively ep (f ep)"
  shows "signals_true (on_group gid f m)"
proof -
  have "group_is g is_poisoned (on_group gid f m)" if "group_is g is_poisoned m" for g
    using that assms(2) by (cases "mr_group g m") (auto simp: group_is_def lively_def)
  with assms(1) show ?thesis by (simp add: signals_true_def del: group_is_on_group)
qed

lemma duly_on_group [simp]: "duly g (on_group gid f m) = duly g m"
  by (rule ext) (simp add: duly_def)

lemma attended_on_group:
  "attended g (on_group gid f m) =
     (if g = gid then \<forall>ep. mr_group g m = Some ep \<longrightarrow> duly g m (f ep) else attended g m)"
  by (auto simp: attended_def)

lemma duly_calm: "duly g m ep \<Longrightarrow> calm ep ep' \<Longrightarrow> duly g m ep'"
  by (auto simp: duly_def calm_def hush_def)

lemma inv_lively:
  assumes "inv_but G m" "\<And>ep. mr_group gid m = Some ep \<Longrightarrow> lively ep (f ep)"
  shows "inv_but (insert gid G) (on_group gid f m)"
  using assms(1) signals_true_on_group [of m gid f] assms(2) by (simp add: inv_but_def attended_on_group)

lemma inv_calm:
  assumes "inv_but G m" "\<And>ep. mr_group gid m = Some ep \<Longrightarrow> calm ep (f ep)"
  shows "inv_but G (on_group gid f m)"
proof -
  have "attended g (on_group gid f m)" if "attended g m" for g
    using that assms(2) by (cases "g = gid"; cases "mr_group gid m")
      (auto simp: attended_on_group attended_def [of gid] intro: duly_calm)
  moreover have "signals_true (on_group gid f m)"
    using assms by (auto simp: inv_but_def intro!: signals_true_on_group)
  ultimately show ?thesis using assms(1) by (simp add: inv_but_def)
qed

lemma inv_mono: "inv_but G m \<Longrightarrow> G \<subseteq> H \<Longrightarrow> inv_but H m"
  by (auto simp: inv_but_def)

lemma inv_close: "inv_but (insert gid G) m \<Longrightarrow> (gid \<notin> G \<Longrightarrow> attended gid m) \<Longrightarrow> inv_but G m"
  by (auto simp: inv_but_def) metis

text \<open>Noting a poison.\<close>

lemma note_fields [simp]:
  "mr_group g (note_if_poisoned gid m) = mr_group g m"
  "queues_ok (note_if_poisoned gid m) = queues_ok m"
  "mr_dirty_msgs_set (note_if_poisoned gid m) = mr_dirty_msgs_set m"
  "mr_dirty_events_set (note_if_poisoned gid m) = mr_dirty_events_set m"
  "mr_dirty_forks_set (note_if_poisoned gid m) = mr_dirty_forks_set m"
  "mr_parked (note_if_poisoned gid m) = mr_parked m"
  "mr_contains_group g (note_if_poisoned gid m) = mr_contains_group g m"
  by (simp_all add: note_if_poisoned_def mr_group_def queues_ok_def mr_contains_group_def)

lemma seen_note [simp]:
  "fset (mr_poisoned_seen (note_if_poisoned gid m)) =
     (if group_is gid is_poisoned m then insert gid (fset (mr_poisoned_seen m)) else fset (mr_poisoned_seen m))"
  by (auto simp: note_if_poisoned_def)

lemma signals_true_note: "signals_true m \<Longrightarrow> signals_true (note_if_poisoned gid m)"
  by (cases "group_is gid is_poisoned m \<and> gid |\<notin>| mr_poisoned_seen m")
    (auto simp: signals_true_def note_if_poisoned_def group_is_def mr_group_def)

lemma duly_note: "duly g m ep \<Longrightarrow> duly g (note_if_poisoned gid m) ep"
  by (auto simp: duly_def)

lemma inv_note: "inv_but G m \<Longrightarrow> inv_but G (note_if_poisoned gid m)"
  by (simp add: inv_but_def signals_true_note attended_def) (auto intro: duly_note split: option.splits)

lemma inv_hush:
  assumes "inv_but G m" "\<And>ep. mr_group gid m = Some ep \<Longrightarrow> hush ep (f ep)"
  shows "inv_but G (note_if_poisoned gid (on_group gid f m))"
proof (rule inv_close)
  show "inv_but (insert gid G) (note_if_poisoned gid (on_group gid f m))"
    using assms by (intro inv_note inv_lively) (auto dest: hush_lively)
  assume "gid \<notin> G"
  then have "attended gid m" using assms(1) by (simp add: inv_but_def)
  then show "attended gid (note_if_poisoned gid (on_group gid f m))"
    using assms(2) by (cases "mr_group gid m")
      (auto simp: attended_def duly_def hush_def owes_signal_def group_is_def)
qed

text \<open>Marking a group dirty.\<close>

lemma schedule_fields [simp]:
  "mr_group g (schedule_msgs gid m) = mr_group g m" "mr_group g (schedule_events gid m) = mr_group g m"
  "mr_group g (schedule_forks gid m) = mr_group g m"
  "group_is g P (schedule_msgs gid m) = group_is g P m" "group_is g P (schedule_events gid m) = group_is g P m"
  "group_is g P (schedule_forks gid m) = group_is g P m"
  "signals_true (schedule_msgs gid m) = signals_true m" "signals_true (schedule_events gid m) = signals_true m"
  "signals_true (schedule_forks gid m) = signals_true m"
  by (simp_all add: schedule_msgs_def schedule_events_def schedule_forks_def mr_group_def group_is_def signals_true_def)

lemma queues_ok_schedule:
  "queues_ok m \<Longrightarrow> queues_ok (schedule_msgs gid m)" "queues_ok m \<Longrightarrow> queues_ok (schedule_events gid m)"
  "queues_ok m \<Longrightarrow> queues_ok (schedule_forks gid m)"
  by (auto simp: schedule_msgs_def schedule_events_def schedule_forks_def queues_ok_def mr_contains_group_def)

lemma duly_schedule:
  "duly g m ep \<Longrightarrow> duly g (schedule_msgs gid m) ep" "duly g m ep \<Longrightarrow> duly g (schedule_events gid m) ep"
  "duly g m ep \<Longrightarrow> duly g (schedule_forks gid m) ep"
  by (auto simp: schedule_msgs_def schedule_events_def schedule_forks_def duly_def)

lemma inv_schedule:
  "inv_but G m \<Longrightarrow> inv_but G (schedule_msgs gid m)" "inv_but G m \<Longrightarrow> inv_but G (schedule_events gid m)"
  "inv_but G m \<Longrightarrow> inv_but G (schedule_forks gid m)"
  by (simp_all add: inv_but_def queues_ok_schedule attended_def)
    (auto intro: duly_schedule split: option.splits)

lemma inv_mark_dirty: "inv_but G m \<Longrightarrow> inv_but (G - {gid}) (mark_dirty gid m)"
proof (rule inv_close [where gid = gid])
  assume "inv_but G m"
  then show "inv_but (insert gid (G - {gid})) (mark_dirty gid m)"
    unfolding mark_dirty_def by (intro inv_note inv_schedule) (auto intro: inv_mono)
  have "gid |\<in>| mr_dirty_msgs_set (mark_dirty gid m)" "gid |\<in>| mr_dirty_events_set (mark_dirty gid m)"
    "gid |\<in>| mr_dirty_forks_set (mark_dirty gid m)"
    by (simp_all add: mark_dirty_def schedule_msgs_def schedule_events_def schedule_forks_def)
  moreover have "gid |\<in>| mr_poisoned_seen (mark_dirty gid m)" if "group_is gid is_poisoned m"
    using that by (simp add: mark_dirty_def)
  ultimately show "attended gid (mark_dirty gid m)"
    by (cases "mr_group gid m")
      (auto simp: attended_def duly_def mark_dirty_def owes_signal_def group_is_def)
qed

lemma inv_stored:
  assumes "inv_but G m" "\<And>ep. mr_group gid m = Some ep \<Longrightarrow> lively ep (f ep)"
  shows "inv_but (G - {gid}) (mark_dirty gid (on_group gid f m))"
  using inv_mark_dirty [OF inv_lively [OF assms], of gid] by (rule inv_mono) auto

section \<open>Steps that touch no group\<close>

lemma inv_frame [simp]:
  "inv_but G (m\<lparr>mr_refusals := q\<rparr>) = inv_but G m"
  "inv_but G (m\<lparr>mr_guard_advances := a\<rparr>) = inv_but G m"
  "inv_but G (m\<lparr>mr_merge_blocked := b\<rparr>) = inv_but G m"
  "inv_but G (m\<lparr>mr_host_id := h\<rparr>) = inv_but G m"
  by (simp_all add: inv_defs)

lemma inv_ordered:
  "inv_but G m \<Longrightarrow> bm_ok l \<Longrightarrow> inv_but G (m\<lparr>mr_lineage := l\<rparr>)"
  "inv_but G m \<Longrightarrow> bm_ok sn \<Longrightarrow> inv_but G (m\<lparr>mr_merge_blocked_seen := sn\<rparr>)"
  "inv_but G m \<Longrightarrow> bm_ok sn \<Longrightarrow> inv_but G (m\<lparr>mr_merge_blocked_attempts := sn\<rparr>)"
proof -
  let ?ms = "[m\<lparr>mr_lineage := l\<rparr>, m\<lparr>mr_merge_blocked_seen := sn\<rparr>, m\<lparr>mr_merge_blocked_attempts := sn\<rparr>]"
  have "\<forall>m'\<in>set ?ms. signals_true m' = signals_true m \<and> (\<forall>g. attended g m' = attended g m)"
    by (simp add: signals_true_def attended_def duly_def group_is_def mr_group_def)
  moreover have "queues_ok m \<Longrightarrow> bm_ok l \<Longrightarrow> queues_ok (m\<lparr>mr_lineage := l\<rparr>)"
    "queues_ok m \<Longrightarrow> bm_ok sn \<Longrightarrow> queues_ok (m\<lparr>mr_merge_blocked_seen := sn\<rparr>)"
    "queues_ok m \<Longrightarrow> bm_ok sn \<Longrightarrow> queues_ok (m\<lparr>mr_merge_blocked_attempts := sn\<rparr>)"
    by (simp_all add: queues_ok_def mr_contains_group_def)
  ultimately show "inv_but G m \<Longrightarrow> bm_ok l \<Longrightarrow> inv_but G (m\<lparr>mr_lineage := l\<rparr>)"
    "inv_but G m \<Longrightarrow> bm_ok sn \<Longrightarrow> inv_but G (m\<lparr>mr_merge_blocked_seen := sn\<rparr>)"
    "inv_but G m \<Longrightarrow> bm_ok sn \<Longrightarrow> inv_but G (m\<lparr>mr_merge_blocked_attempts := sn\<rparr>)"
    by (simp_all add: inv_but_def)
qed

lemma inv_bm_ok:
  "inv_but G m \<Longrightarrow> bm_ok (mr_groups m)" "inv_but G m \<Longrightarrow> bm_ok (mr_parked m)" "inv_but G m \<Longrightarrow> bm_ok (mr_lineage m)"
  "inv_but G m \<Longrightarrow> bm_ok (mr_merge_blocked_seen m)" "inv_but G m \<Longrightarrow> bm_ok (mr_merge_blocked_attempts m)"
  by (simp_all add: inv_but_def queues_ok_def)

lemma inv_advance_relay_guard [intro]: "inv_but G m \<Longrightarrow> inv_but G (advance_relay_guard gid l m)"
  by (simp add: advance_relay_guard_def Let_def inv_ordered inv_bm_ok)

lemma inv_raise_relay_guard: "inv_but G m \<Longrightarrow> inv_but G (raise_relay_guard gid l m)"
  by (simp add: raise_relay_guard_def inv_ordered inv_bm_ok)

lemma inv_adopt_host_id: "inv_but G m \<Longrightarrow> inv_but G (adopt_host_id config m)"
  by (simp add: adopt_host_id_def split: option.split)

lemma inv_note_merge_blocked [intro]: "inv_but G m \<Longrightarrow> inv_but G (note_merge_blocked t s b c m)"
  by (simp add: note_merge_blocked_def Let_def inv_ordered inv_bm_ok)

lemma inv_settle_blocked: "inv_but G m \<Longrightarrow> inv_but G (settle_blocked m)"
  by (simp add: settle_blocked_def Let_def inv_ordered inv_bm_ok)

lemma queue_frames [simp]:
  "queues_ok (m\<lparr>mr_poisoned_pending := q\<rparr>) = queues_ok m" "attended g (m\<lparr>mr_poisoned_pending := q\<rparr>) = attended g m"
  "signals_true (m\<lparr>mr_conflicts := c\<rparr>) = signals_true m" "attended g (m\<lparr>mr_conflicts := c\<rparr>) = attended g m"
  by (simp_all add: inv_defs)

lemma inv_signal_polls:
  assumes "inv_but G m"
  shows "inv_but G (snd (poll_split_conflict m))" "inv_but G (snd (poll_split_refusal m))"
    "inv_but G (snd (poll_relay_guard_advance m))" "inv_but G (snd (poll_poisoned m))"
    "inv_but G (snd (poll_merge_blocked m))"
proof -
  have "signals_true (m\<lparr>mr_poisoned_pending := snd (pop_front (mr_poisoned_pending m))\<rparr>)" if "signals_true m"
    using that by (cases "mr_poisoned_pending m") (auto simp: signals_true_def pop_front_def group_is_def mr_group_def)
  moreover have "queues_ok (m\<lparr>mr_conflicts := snd (pop_front (mr_conflicts m))\<rparr>)" if "queues_ok m"
    using that by (cases "mr_conflicts m") (simp_all add: queues_ok_def pop_front_def mr_contains_group_def)
  ultimately show "inv_but G (snd (poll_split_conflict m))" "inv_but G (snd (poll_poisoned m))"
    using assms
    by (simp_all add: poll_split_conflict_def poll_poisoned_def case_prod_beta inv_but_def)
qed (use assms in \<open>simp_all add: poll_split_refusal_def poll_relay_guard_advance_def poll_merge_blocked_def case_prod_beta\<close>)

section \<open>Parking\<close>

lemma inv_park:
  assumes "inv_but G m" "mr_contains_group gid m"
  shows "inv_but G (park_fork gid cause child m)"
proof -
  let ?m = "m\<lparr>mr_parked := bm_insert gid cause (mr_parked m)\<rparr>"
  have contains: "bm_contains (bm_insert gid cause (mr_parked m)) g \<longleftrightarrow> g = gid \<or> bm_contains (mr_parked m) g" for g
    using inv_bm_ok(2) [OF assms(1)] by (simp add: bm_contains_def)
  have "queues_ok (park_fork gid cause child m)"
    using assms contains
    by (auto simp: inv_but_def queues_ok_def park_fork_def Let_def mr_contains_group_def)
  moreover have "signals_true (park_fork gid cause child m) = signals_true m"
    by (simp add: signals_true_def park_fork_def Let_def group_is_def mr_group_def)
  moreover have "attended g (park_fork gid cause child m)" if "attended g m" for g
    using that contains by (auto simp: attended_def duly_def park_fork_def Let_def mr_group_def)
  ultimately show ?thesis using assms(1) by (auto simp: inv_but_def)
qed

lemma bm_contains_delete [simp]: "bm_contains (AList.delete k p) g \<longleftrightarrow> g \<noteq> k \<and> bm_contains p g"
  by (simp add: bm_contains_def delete_conv)

lemma unpark_fields [simp]:
  "mr_group g (unpark gid m) = mr_group g m"
  "mr_dirty_msgs_set (unpark gid m) = mr_dirty_msgs_set m" "mr_dirty_events_set (unpark gid m) = mr_dirty_events_set m"
  "mr_dirty_forks_set (unpark gid m) = mr_dirty_forks_set m" "mr_poisoned_seen (unpark gid m) = mr_poisoned_seen m"
  "signals_true (unpark gid m) = signals_true m"
  "bm_contains (mr_parked (unpark gid m)) g \<longleftrightarrow> g \<noteq> gid \<and> bm_contains (mr_parked m) g"
  by (auto simp: unpark_def mr_group_def signals_true_def group_is_def)

lemma queues_ok_unpark: "queues_ok m \<Longrightarrow> queues_ok (unpark gid m)"
  by (auto simp: queues_ok_def unpark_def mr_contains_group_def)

lemma inv_unpark: "inv_but G m \<Longrightarrow> inv_but (insert gid G) (unpark gid m)"
  by (simp add: inv_but_def queues_ok_unpark attended_def duly_def)

lemma inv_unpark_quiet:
  assumes "inv_but G m" "\<not> group_is gid forks_staged m"
  shows "inv_but G (unpark gid m)"
proof (rule inv_close)
  show "inv_but (insert gid G) (unpark gid m)" using assms(1) by (rule inv_unpark)
  assume "gid \<notin> G"
  with assms show "attended gid (unpark gid m)"
    by (auto simp: inv_but_def attended_def duly_def group_is_def)
qed

lemma inv_unpark_schedule:
  assumes "inv_but G m"
  shows "inv_but G (schedule_forks gid (unpark gid m))"
proof (rule inv_close)
  show "inv_but (insert gid G) (schedule_forks gid (unpark gid m))" using assms by (intro inv_schedule inv_unpark)
  assume "gid \<notin> G"
  then have "attended gid m" using assms by (simp add: inv_but_def)
  then show "attended gid (schedule_forks gid (unpark gid m))"
    by (auto simp: attended_def duly_def schedule_forks_def mr_group_def unpark_def)
qed

section \<open>Steps of every group\<close>

lemma map_of_on_groups: "map_of (map (\<lambda>(g, ep). (g, f ep)) l) g = map_option f (map_of l g)"
  by (induction l) auto

lemma on_groups_fields [simp]:
  "mr_group g (on_groups f m) = map_option f (mr_group g m)"
  "mr_dirty_msgs_set (on_groups f m) = mr_dirty_msgs_set m" "mr_dirty_events_set (on_groups f m) = mr_dirty_events_set m"
  "mr_dirty_forks_set (on_groups f m) = mr_dirty_forks_set m" "mr_poisoned_seen (on_groups f m) = mr_poisoned_seen m"
  "mr_parked (on_groups f m) = mr_parked m"
  by (simp_all add: on_groups_def mr_group_def map_of_on_groups)

lemma queues_ok_on_groups [simp]: "queues_ok (on_groups f m) = queues_ok m"
proof -
  have "bm_ok (map (\<lambda>(g, ep). (g, f ep)) (mr_groups m)) = bm_ok (mr_groups m)"
    by (simp add: bm_ok_def comp_def case_prod_beta)
  then show ?thesis
    by (simp add: queues_ok_def on_groups_def mr_contains_group_def bm_contains_def map_of_on_groups)
qed

lemma inv_calm_all:
  assumes "inv_but G m" "\<And>ep. calm ep (f ep)"
  shows "inv_but G (on_groups f m)"
proof -
  have "group_is g is_poisoned (on_groups f m)" if "group_is g is_poisoned m" for g
    using that assms(2) by (cases "mr_group g m") (auto simp: group_is_def calm_def hush_def lively_def)
  then have "signals_true (on_groups f m)"
    using assms(1) by (simp add: inv_but_def signals_true_def on_groups_def)
  moreover have "attended g (on_groups f m)" if "attended g m" for g
    using that duly_calm [OF _ assms(2)] by (auto simp: attended_def duly_def)
  ultimately show ?thesis using assms(1) by (simp add: inv_but_def)
qed

lemma inv_on_groups_field:
  assumes "inv_but G m" "bm_ok gs" "\<And>g. rel_option calm (mr_group g m) (map_of gs g)"
  shows "inv_but G (m\<lparr>mr_groups := gs\<rparr>)"
proof -
  let ?m = "m\<lparr>mr_groups := gs\<rparr>"
  have g: "mr_group g ?m = map_of gs g" for g by (simp add: mr_group_def)
  have "mr_contains_group g ?m = mr_contains_group g m" for g
    using assms(3) [of g] by (cases "mr_group g m") (auto simp: mr_contains_group_iff g option_rel_Some1)
  then have "queues_ok ?m" using assms(1,2) by (simp add: inv_but_def queues_ok_def)
  moreover have "group_is g is_poisoned ?m" if "group_is g is_poisoned m" for g
    using that assms(3) [of g] by (cases "mr_group g m") (auto simp: g group_is_def option_rel_Some1 calm_def hush_def lively_def)
  then have "signals_true ?m" using assms(1) by (simp add: inv_but_def signals_true_def)
  moreover have "attended g ?m" if "attended g m" for g
  proof -
    have "duly g m ep'" if "map_of gs g = Some ep'" for ep'
      using assms(3) [of g] that \<open>attended g m\<close> by (auto simp: attended_def option_rel_Some2 intro: duly_calm)
    then show ?thesis by (simp add: attended_def g duly_def)
  qed
  ultimately show ?thesis using assms(1) by (simp add: inv_but_def)
qed

end
