(* ===== verification/Multi_Steps.thy ===== *)
theory Multi_Steps
  imports Multi_Inv Endpoint_Runs
begin

text \<open>
  The container's operations keep its invariant: the fork drain, the hosting and the removal of
  a group, the polls, and every operation that drives one group.  That a driven endpoint never
  loses its poison comes from its simulation by the abstract protocol steps.
\<close>

section \<open>Steps of an endpoint\<close>

lemma calm_merge_fields [simp]:
  "calm ep (note_merge_park_unresolvable b ep)" "calm ep (clear_abandoned k ep)" "calm ep (note_discharged k ep)"
  "calm ep (clear_adopt_capture_owed ep)" "calm ep (pin_failed_capture ks ep)"
  "calm ep (resolve_fork i ep)" "calm ep (mark_fork_abandoned i ep)" "calm ep (snd (scan_freeze_claims E logs ep))"
  by (simp_all add: calm_defs note_merge_park_unresolvable_def clear_abandoned_def note_discharged_def
      clear_adopt_capture_owed_def pin_failed_capture_def resolve_fork_def
      mark_fork_abandoned_def scan_freeze_claims_def case_prod_beta)

lemma calm_latch [simp]: "calm ep (latch_merge_window_closed ep)"
  by (cases "me_pending_apply (ep_merge ep)") (simp_all add: calm_defs latch_merge_window_closed_def)

lemma calm_pop [simp]: "calm ep (snd (pop_pending_fork ep))"
  by (auto simp: calm_defs pop_pending_fork_def Let_def split: list.splits)

lemma calm_pops [simp]: "calm ep (((\<lambda>ep. snd (pop_pending_fork ep)) ^^ n) ep)"
  by (induction n) (auto intro: calm_trans)

lemma calm_drop_all [simp]: "calm ep (drop_all_forks ep)"
  by (simp add: drop_all_forks_def)

lemma calm_consume [simp]: "calm ep (snd (consume_head_fork ep))"
  using calm_pop [of ep] by (cases "pop_pending_fork ep") (auto simp: consume_head_fork_def split: option.splits intro: calm_trans)

lemma hush_poison [simp]: "hush ep (poison r ep)"
  by (simp add: calm_defs poison_def)

lemma hush_poison_drop [simp]: "hush ep (drop_all_forks (poison r ep))"
  by (rule hush_trans [OF hush_poison calm_hush [OF calm_drop_all]])

section \<open>Examining a head fork\<close>

lemma inv_consume:
  assumes "inv_but G m"
  shows "inv_but G (snd (consume_group_fork gid m))"
proof (cases "mr_group gid m")
  case (Some ep)
  have "inv_but G (on_group gid (\<lambda>_. snd (consume_head_fork ep)) m)"
    using assms Some by (intro inv_calm) auto
  with Some show ?thesis by (simp add: consume_group_fork_def case_prod_beta)
qed (use assms in \<open>simp add: consume_group_fork_def\<close>)

lemma inv_consume_abandoned:
  assumes "inv_but G m"
  shows "inv_but G (snd (consume_abandoned_head_fork X gid m))"
  using inv_consume [OF assms, of gid]
  by (auto simp: consume_abandoned_head_fork_def Let_def split: prod.splits option.splits result.splits)

lemma inv_act_on_verdict:
  assumes "inv_but G m" "mr_contains_group gid m"
  shows "inv_but G (snd (act_on_verdict gid v m))"
proof (cases v)
  case V_Poison
  have "inv_but G (note_if_poisoned gid (on_group gid (\<lambda>ep. drop_all_forks (poison PR_SplitDecode ep)) m))"
    using assms(1) by (rule inv_hush) simp
  then show ?thesis by (simp add: act_on_verdict_def V_Poison)
qed (use assms inv_consume [OF assms(1), of gid] in \<open>auto simp: act_on_verdict_def Let_def case_prod_beta
    intro!: inv_park split: prod.splits option.splits\<close>)

lemma inv_examine:
  assumes "inv_but G m"
  shows "inv_but G (snd (examine_head_fork X gid gate m))"
  using inv_consume_abandoned [OF assms, of X gid] inv_act_on_verdict [OF assms, of gid] assms
  by (simp add: examine_head_fork_def mr_contains_group_iff split: option.split)

lemma consumed_to_empty:
  "consume_group_fork gid m = (None, m') \<Longrightarrow> \<not> group_is gid forks_staged m'"
  using consume_group_fork_eq(1) [of gid m]
  by (cases "mr_group gid m")
    (auto simp: consume_group_fork_def consume_head_fork_def pop_pending_fork_def group_is_def forks_staged_def Let_def
      split: list.splits)

lemma examine_empty:
  assumes "examine_head_fork X gid gate m = (HF_Empty, m')"
  shows "\<not> group_is gid forks_staged m'"
proof (cases "group_is gid head_fork_is_abandoned m")
  case True
  then show ?thesis using assms
    by (auto simp: examine_head_fork_def consume_abandoned_head_fork_def Let_def consumed_to_empty
        split: prod.splits option.splits result.splits)
next
  case False
  have poisoned: "\<not> group_is gid forks_staged
      (note_if_poisoned gid (on_group gid (\<lambda>ep. drop_all_forks (poison PR_SplitDecode ep)) m))"
    by (simp add: group_is_def forks_staged_def split: option.split)
  have "\<not> group_is gid forks_staged m'" if "act_on_verdict gid v m = (HF_Empty, m')" for v
    using that poisoned by (cases v) (auto simp: act_on_verdict_def Let_def consumed_to_empty
        split: prod.splits option.splits)
  moreover have "\<not> group_is gid forks_staged m" if "Option.bind (mr_group gid m) peek_pending_fork = None"
    using that by (cases "mr_group gid m") (auto simp: group_is_def forks_staged_def peek_pending_fork_def split: list.splits)
  ultimately show ?thesis using False assms
    by (simp add: examine_head_fork_def split: option.splits)
qed

lemma parks: "bm_ok (mr_parked m) \<Longrightarrow> bm_contains (mr_parked (park_fork gid c child m)) gid"
  by (simp add: park_fork_def Let_def bm_contains_def)

lemma examine_parked:
  assumes "examine_head_fork X gid gate m = (HF_Parked, m')" "bm_ok (mr_parked m)"
  shows "bm_contains (mr_parked m') gid"
proof -
  have "bm_contains (mr_parked m') gid" if "act_on_verdict gid v m = (HF_Parked, m')" for v
    using that parks [OF assms(2)] by (cases v) (auto simp: act_on_verdict_def Let_def split: prod.splits option.splits)
  with assms(1) show ?thesis
    by (auto simp: examine_head_fork_def consume_abandoned_head_fork_def Let_def
        split: prod.splits option.splits result.splits if_splits)
qed

section \<open>The fork drain\<close>

lemma inv_pop_dirty_fork:
  assumes "inv_but G m" "mr_dirty_forks m = gid # q"
    "group_is gid forks_staged m \<Longrightarrow> bm_contains (mr_parked m) gid"
  shows "inv_but G (pop_dirty_fork gid m)"
proof -
  have "queues_ok (pop_dirty_fork gid m)"
    using assms(1,2) by (auto simp: inv_but_def queues_ok_def pop_dirty_fork_def mr_contains_group_def)
  moreover have "signals_true (pop_dirty_fork gid m) = signals_true m"
    by (simp add: signals_true_def pop_dirty_fork_def group_is_def mr_group_def)
  moreover have "attended g (pop_dirty_fork gid m)" if "attended g m" for g
    using that assms(3) by (auto simp: attended_def duly_def pop_dirty_fork_def group_is_def mr_group_def)
  ultimately show ?thesis using assms(1) by (auto simp: inv_but_def)
qed

lemma inv_drain_parked:
  "inv_but G m \<Longrightarrow> inv_but G (snd (snd (drain_parked X gate gids held m)))"
proof (induction X gate gids held m rule: drain_parked.induct)
  case (2 X gate gid rest held m)
  obtain h m' where ex: "examine_head_fork X gid gate m = (h, m')" by fastforce
  have inv: "inv_but G m'" using inv_examine [OF "2.prems", of X gid gate] ex by simp
  show ?case
  proof (cases h)
    case HF_Empty
    then have "inv_but G (unpark gid m')" using inv examine_empty [OF ex [unfolded HF_Empty]] by (intro inv_unpark_quiet)
    with 2(1) [OF ex [symmetric] HF_Empty] show ?thesis by (simp add: ex HF_Empty)
  next
    case HF_Resolved
    with 2(2) [OF ex [symmetric] HF_Resolved inv_unpark_schedule [OF inv]] show ?thesis by (simp add: ex)
  next
    case HF_Parked
    with 2(3) [OF ex [symmetric] HF_Parked inv] show ?thesis by (simp add: ex)
  next
    case (HF_Yield plan)
    then show ?thesis using inv_unpark_schedule [OF inv] by (simp add: ex)
  qed
qed simp

lemma inv_drain_dirty:
  "inv_but G m \<Longrightarrow> inv_but G (snd (snd (drain_dirty X gate held m)))"
proof (induction X gate held m rule: drain_dirty.induct)
  case (1 X gate held m)
  show ?case
  proof (cases "mr_dirty_forks m")
    case (Cons gid q)
    show ?thesis
    proof (cases "bm_contains (mr_parked m) gid")
      case True
      then have "inv_but G (pop_dirty_fork gid m)" using "1.prems" Cons by (intro inv_pop_dirty_fork) auto
      with 1(1) [OF Cons True] True Cons show ?thesis by (subst drain_dirty.simps) simp
    next
      case False
      obtain h m' where ex: "examine_head_fork X gid gate m = (h, m')" by fastforce
      have inv: "inv_but G m'" using inv_examine [OF "1.prems", of X gid gate] ex by simp
      have q: "mr_dirty_forks m' = gid # q" using examine_shrinks(1) [OF ex] Cons by (simp add: only_group_def)
      show ?thesis
      proof (cases h)
        case HF_Empty
        then have "inv_but G (pop_dirty_fork gid m')" using inv q examine_empty [OF ex [unfolded HF_Empty]] by (intro inv_pop_dirty_fork) simp_all
        with 1(2) [OF Cons False ex [symmetric] HF_Empty] Cons False ex HF_Empty show ?thesis
          by (subst drain_dirty.simps) simp
      next
        case HF_Parked
        then have "inv_but G (pop_dirty_fork gid m')"
          using inv q examine_parked [OF ex [unfolded HF_Parked] inv_bm_ok(2) [OF "1.prems"]] by (intro inv_pop_dirty_fork)
        with 1(4) [OF Cons False ex [symmetric] HF_Parked] Cons False ex HF_Parked show ?thesis
          by (subst drain_dirty.simps) simp
      next
        case HF_Resolved
        with 1(3) [OF Cons False ex [symmetric] HF_Resolved inv] Cons False ex show ?thesis
          by (subst drain_dirty.simps) simp
      next
        case (HF_Yield plan)
        with inv Cons False ex show ?thesis by (subst drain_dirty.simps) simp
      qed
    qed
  qed (use "1.prems" in \<open>subst drain_dirty.simps, simp\<close>)
qed

lemma inv_drain:
  assumes "inv_but G m"
  shows "inv_but G (snd (drain_to_yieldable X gate m))"
proof -
  obtain y held m1 where p: "drain_parked X gate (map fst (mr_parked m)) False m = (y, held, m1)"
    by (cases "drain_parked X gate (map fst (mr_parked m)) False m")
  obtain y' held' m2 where d: "drain_dirty X gate held m1 = (y', held', m2)"
    by (cases "drain_dirty X gate held m1")
  have "inv_but G m1" using inv_drain_parked [OF assms, of X gate "map fst (mr_parked m)" False] p by simp
  moreover from this have "inv_but G m2" using inv_drain_dirty [of G m1 X gate held] d by simp
  ultimately show ?thesis using p d by (simp add: drain_to_yieldable_def split: option.split)
qed

lemma inv_peek_yieldable: "inv_but G m \<Longrightarrow> inv_but G (snd (peek_yieldable_fork X gate m))"
  using inv_drain [of G m X gate] by (auto simp: peek_yieldable_fork_def split: prod.splits DrainOutcome.splits)

section \<open>Hosting a group\<close>

lemma inv_clear_hints: "inv_but G m \<Longrightarrow> inv_but G (clear_unresolvable_hints_naming X gid m)"
  unfolding clear_unresolvable_hints_naming_def Let_def by (rule inv_calm_all) auto

lemma inv_insert_group:
  assumes "inv_but G m" "\<not> mr_contains_group gid m"
  shows "inv_but (insert gid G) (m\<lparr>mr_groups := bm_insert gid ep (mr_groups m)\<rparr>)"
proof -
  let ?m = "m\<lparr>mr_groups := bm_insert gid ep (mr_groups m)\<rparr>"
  have g: "mr_group g ?m = (if g = gid then Some ep else mr_group g m)" for g
    using inv_bm_ok(1) [OF assms(1)] by (simp add: mr_group_def)
  have "queues_ok ?m"
    using assms(1) by (auto simp: inv_but_def queues_ok_def mr_contains_group_def bm_contains_def)
  moreover have "signals_true ?m"
    using assms by (auto simp: inv_but_def signals_true_def group_is_def g mr_contains_group_iff split: option.splits)
  moreover have "attended h ?m" if "attended h m" "h \<noteq> gid" for h
    using that by (simp add: attended_def duly_def g)
  ultimately show ?thesis using assms(1) by (simp add: inv_but_def)
qed

lemma contains_clear_hints [simp]:
  "mr_contains_group g (clear_unresolvable_hints_naming X gid m) = mr_contains_group g m"
  by (simp add: clear_unresolvable_hints_naming_def Let_def mr_contains_group_iff)

lemma contains_frames [simp]:
  "mr_contains_group g (m\<lparr>mr_lineage := l\<rparr>) = mr_contains_group g m"
  "mr_contains_group g (adopt_host_id config m) = mr_contains_group g m"
  by (simp_all add: mr_contains_group_def adopt_host_id_def split: option.split)

lemma inv_host_group:
  "inv_but G m \<Longrightarrow> \<not> mr_contains_group gid m \<Longrightarrow> inv_but (insert gid G) (host_group X gid lin ep m)"
  unfolding host_group_def Let_def by (intro inv_insert_group inv_clear_hints inv_ordered) (simp_all add: inv_bm_ok)

lemma inv_host_restarted:
  "inv_but G m \<Longrightarrow> \<not> mr_contains_group gid m \<Longrightarrow> inv_but G (host_restarted X gid ep m)"
  unfolding host_restarted_def using inv_mark_dirty [OF inv_host_group, of G m gid gid]
  by (rule inv_mono) auto

text \<open>A fresh endpoint has nothing to attend to.\<close>

definition idle :: "('i, 'f, 'n, 'p, 'r) endpoint \<Rightarrow> bool" where
  "idle ep \<longleftrightarrow> ou_outgoing (ep_outputs ep) = [] \<and> ou_events (ep_outputs ep) = [] \<and>
     sl_pending_forks (ep_split ep) = [] \<and> \<not> is_poisoned ep"

lemma idle_duly: "idle ep \<Longrightarrow> duly g m ep"
  by (simp add: idle_def duly_def pollable_message_def pollable_event_def forks_staged_def owes_signal_def)

lemma idle_fresh: "idle (seed_lineage gen (new_with_rng E config now rng fsm))"
  by (simp add: idle_def seed_lineage_def new_with_rng_def endpoint_fresh_def arm_election_timer_def is_poisoned_def
      split_state_new_def split: option.split)

lemma idle_founded:
  "idle (fst (submit_founding_stamp E
     (seed_lineage gen (seed_boot_epoch epoch (new_with_rng E config now rng fsm))) stab))"
  by (simp add: idle_def seed_lineage_def new_with_rng_def endpoint_fresh_def arm_election_timer_def is_poisoned_def
      split_state_new_def submit_founding_stamp_def mint_op_id_def submit_write_def seed_boot_epoch_def Let_def
      opid_next_def first_of_epoch_def saturating_add_1 split: option.split)

lemma group_hosted:
  assumes "bm_ok (mr_groups m)"
  shows "mr_group gid (host_group X gid lin ep m) = Some ep"
proof -
  have "bm_ok (map (\<lambda>(g, ep). (g, f ep)) (mr_groups m))" for f :: "('b, 'c, 'd, 'e, 'f) endpoint \<Rightarrow> ('b, 'c, 'd, 'e, 'f) endpoint"
    using assms by (simp add: bm_ok_def comp_def case_prod_beta)
  then show ?thesis
    by (simp add: host_group_def Let_def mr_group_def clear_unresolvable_hints_naming_def on_groups_def)
qed

lemma inv_host_idle:
  assumes "inv_but G m" "\<not> mr_contains_group gid m" "idle ep"
  shows "inv_but G (host_group X gid lin ep m)"
proof (rule inv_close)
  show "inv_but (insert gid G) (host_group X gid lin ep m)" using assms(1,2) by (rule inv_host_group)
  show "attended gid (host_group X gid lin ep m)"
    using assms(3) by (simp add: attended_def group_hosted inv_bm_ok [OF assms(1)] idle_duly)
qed

section \<open>Removing a group\<close>

lemma inv_abandon:
  assumes "inv_but G m"
  shows "inv_but G (abandon_fork_this_removal_descends_from X gid removed m)"
proof -
  have "inv_but G (on_group p (mark_fork_abandoned i) m)" for p i using assms by (rule inv_calm) simp
  moreover have "inv_but G (schedule_forks p (unpark p (advance_relay_guard p l (snd (consume_group_fork p m)))))" for p l
    by (intro inv_unpark_schedule inv_advance_relay_guard inv_consume assms)
  ultimately show ?thesis using assms
    by (simp add: abandon_fork_this_removal_descends_from_def Let_def case_prod_beta split: option.split)
qed

definition forget_group :: "'g \<Rightarrow> ('g, 'i, 'f, 'n, 'p, 'r) multi_raft \<Rightarrow> ('g, 'i, 'f, 'n, 'p, 'r) multi_raft" where
  "forget_group gid m =
     m\<lparr>mr_poisoned_seen := btree_remove gid (mr_poisoned_seen m),
       mr_poisoned_pending := filter (\<lambda>g. g \<noteq> gid) (mr_poisoned_pending m),
       mr_groups := AList.delete gid (mr_groups m)\<rparr>"

lemma inv_forget:
  assumes "inv_but G m" "\<not> bm_contains (mr_parked m) gid"
  shows "inv_but (G - {gid}) (forget_group gid m)"
proof -
  have g: "mr_group h (forget_group gid m) = (if h = gid then None else mr_group h m)" for h
    by (simp add: forget_group_def mr_group_def delete_conv)
  have fields: "mr_dirty_msgs_set (forget_group gid m) = mr_dirty_msgs_set m"
    "mr_dirty_events_set (forget_group gid m) = mr_dirty_events_set m"
    "mr_dirty_forks_set (forget_group gid m) = mr_dirty_forks_set m"
    "mr_parked (forget_group gid m) = mr_parked m"
    "mr_poisoned_seen (forget_group gid m) = btree_remove gid (mr_poisoned_seen m)"
    "mr_poisoned_pending (forget_group gid m) = filter (\<lambda>g. g \<noteq> gid) (mr_poisoned_pending m)"
    by (simp_all add: forget_group_def)
  have "queues_ok (forget_group gid m)"
    using assms by (auto simp: inv_but_def queues_ok_def forget_group_def mr_contains_group_def)
  moreover have "signals_true (forget_group gid m)"
    using assms(1) by (auto simp: inv_but_def signals_true_def group_is_def g fields)
  moreover have "attended h (forget_group gid m)" if "h \<notin> G - {gid}" for h
    using that assms(1) by (auto simp: inv_but_def attended_def g duly_def fields)
  ultimately show ?thesis by (simp add: inv_but_def)
qed

lemma inv_remove_inner:
  assumes "inv_but G m"
  shows "inv_but (G - {gid}) (snd (remove_group_inner X gid m))"
proof -
  define m1 where "m1 = unpark gid m"
  define m2 where "m2 = (forget_group gid m1)
      \<lparr>mr_merge_blocked_seen := filter (\<lambda>(_, _, src, _). src \<noteq> gid) (AList.delete gid (mr_merge_blocked_seen m1)),
       mr_merge_blocked := filter (\<lambda>b. mb_target b \<noteq> gid \<and> mb_source b \<noteq> gid) (mr_merge_blocked m1)\<rparr>"
  have "inv_but (insert gid G) m1" unfolding m1_def using assms by (rule inv_unpark)
  moreover have "inv_but (insert gid G - {gid}) (forget_group gid m1)"
    by (rule inv_forget) (use calculation in \<open>simp_all add: m1_def\<close>)
  ultimately have inv: "inv_but (G - {gid}) m2"
    unfolding m2_def by (simp add: inv_ordered inv_bm_ok(4))
  have "m2 = m1\<lparr>mr_poisoned_seen := btree_remove gid (mr_poisoned_seen m1),
        mr_poisoned_pending := filter (\<lambda>g. g \<noteq> gid) (mr_poisoned_pending m1),
        mr_merge_blocked_seen := filter (\<lambda>(_, _, src, _). src \<noteq> gid) (AList.delete gid (mr_merge_blocked_seen m1)),
        mr_merge_blocked := filter (\<lambda>b. mb_target b \<noteq> gid \<and> mb_source b \<noteq> gid) (mr_merge_blocked m1),
        mr_groups := AList.delete gid (mr_groups m1)\<rparr>"
    by (simp add: m2_def forget_group_def)
  then have "snd (remove_group_inner X gid m) =
      abandon_fork_this_removal_descends_from X gid (mr_group gid m1)
        (if mr_group gid m1 \<noteq> None \<and> any_group (\<lambda>_ ep. me_abandoned (ep_merge ep) \<noteq> []) m2
         then on_groups (clear_abandoned (gid_encode X gid)) m2 else m2)"
    unfolding remove_group_inner_def Let_def m1_def [symmetric] snd_conv by (simp add: mr_group_def)
  then show ?thesis using inv by (simp add: inv_abandon inv_calm_all)
qed

lemma claims_walk_keys [simp]: "map fst (snd (claims_walk X k gid gs)) = map fst gs"
  by (induction gs) (auto simp: case_prod_beta split: option.split result.split)

lemma claims_walk_calm: "rel_option calm (map_of gs g) (map_of (snd (claims_walk X k gid gs)) g)"
proof (induction gs)
  case (Cons a rest)
  have "rel_option calm (map_of rest g) (map_of rest g)" by (rule option.rel_refl) simp
  with Cons show ?case
    by (cases a) (simp add: case_prod_beta split: option.split result.split)
qed simp

lemma inv_claims:
  assumes "inv_but G m"
  shows "inv_but G (snd (some_source_claims_target X gid k m))"
proof -
  let ?gs = "snd (claims_walk X k gid (mr_groups m))"
  have "bm_ok ?gs" using inv_bm_ok(1) [OF assms] by (simp only: bm_ok_def claims_walk_keys)
  then have "inv_but G (m\<lparr>mr_groups := ?gs\<rparr>)"
    using assms claims_walk_calm by (intro inv_on_groups_field) (simp_all only: mr_group_def)
  with assms show ?thesis by (simp add: some_source_claims_target_def case_prod_beta)
qed

lemma inv_remove_group:
  assumes "inv_but G m"
  shows "inv_but G (snd (mr_remove_group X gid k m))"
proof -
  have removed: "inv_but G (snd (remove_group_inner X gid m'))" if "inv_but G m'" for m'
    using inv_remove_inner [OF that, of gid X] by (rule inv_mono) auto
  obtain b m1 where c: "some_source_claims_target X gid k m = (b, m1)" by fastforce
  then have "inv_but G m1" using inv_claims [OF assms, of X gid k] by simp
  then show ?thesis using assms removed [OF assms] removed [of m1] c
    by (cases b) (simp_all add: mr_remove_group_def case_prod_beta)
qed

section \<open>Polling\<close>

lemma on_group_commutes:
  "(on_group gid f m)\<lparr>mr_dirty_msgs := q\<rparr> = on_group gid f (m\<lparr>mr_dirty_msgs := q\<rparr>)"
  "(on_group gid f m)\<lparr>mr_dirty_events := q\<rparr> = on_group gid f (m\<lparr>mr_dirty_events := q\<rparr>)"
  by (cases m; simp add: on_group_def)+

lemma inv_poll_message_loop:
  "inv_but G (m\<lparr>mr_dirty_msgs := q\<rparr>) \<Longrightarrow> inv_but G (snd (poll_message_loop q m))"
proof (induction q m rule: poll_message_loop.induct)
  case (2 gid queue m)
  let ?m = "m\<lparr>mr_dirty_msgs := gid # queue\<rparr>"
  show ?case
  proof (cases "\<exists>ep msg ep'. mr_group gid m = Some ep \<and> poll_message ep = (Some msg, ep')")
    case True
    then obtain ep msg ep' where ep: "mr_group gid m = Some ep" and poll: "poll_message ep = (Some msg, ep')" by blast
    have "calm ep ep'" using poll by (auto simp: poll_message_def calm_defs split: if_splits list.splits)
    then have "inv_but G (on_group gid (\<lambda>_. ep') ?m)"
      using "2.prems" ep by (intro inv_calm) (auto simp: mr_group_def)
    then show ?thesis using ep poll by (simp add: on_group_commutes)
  next
    case False
    let ?m' = "m\<lparr>mr_dirty_msgs_set := btree_remove gid (mr_dirty_msgs_set m)\<rparr>"
    have quiet: "\<not> pollable_message ep" if "mr_group gid m = Some ep" for ep
      using that False by (cases "is_poisoned ep"; cases "ou_outgoing (ep_outputs ep)")
        (auto simp: poll_message_def pollable_message_def)
    have "queues_ok (?m'\<lparr>mr_dirty_msgs := queue\<rparr>)"
      using "2.prems" by (auto simp: inv_but_def queues_ok_def mr_contains_group_def)
    moreover have "signals_true (?m'\<lparr>mr_dirty_msgs := queue\<rparr>) = signals_true ?m"
      by (simp add: signals_true_def group_is_def mr_group_def)
    moreover have "attended g (?m'\<lparr>mr_dirty_msgs := queue\<rparr>)" if "attended g ?m" for g
      using that quiet by (auto simp: attended_def duly_def mr_group_def)
    ultimately have inv: "inv_but G (?m'\<lparr>mr_dirty_msgs := queue\<rparr>)" using "2.prems" by (simp add: inv_but_def)
    have "poll_message_loop (gid # queue) m = poll_message_loop queue ?m'"
      using False by (auto split: option.split prod.split)
    then show ?thesis using "2.IH" inv False by (auto split: option.splits prod.splits)
  qed
qed simp

lemma inv_poll_event_loop:
  "inv_but G (m\<lparr>mr_dirty_events := q\<rparr>) \<Longrightarrow> inv_but G (snd (poll_event_loop q m))"
proof (induction q m rule: poll_event_loop.induct)
  case (2 gid queue m)
  let ?m = "m\<lparr>mr_dirty_events := gid # queue\<rparr>"
  show ?case
  proof (cases "\<exists>ep ev ep'. mr_group gid m = Some ep \<and> poll_event ep = (Some ev, ep')")
    case True
    then obtain ep ev ep' where ep: "mr_group gid m = Some ep" and poll: "poll_event ep = (Some ev, ep')" by blast
    have "calm ep ep'" using poll by (auto simp: poll_event_def calm_defs split: if_splits list.splits)
    then have "inv_but G (on_group gid (\<lambda>_. ep') ?m)"
      using "2.prems" ep by (intro inv_calm) (auto simp: mr_group_def)
    then show ?thesis using ep poll by (simp add: on_group_commutes)
  next
    case False
    let ?m' = "m\<lparr>mr_dirty_events_set := btree_remove gid (mr_dirty_events_set m)\<rparr>"
    have quiet: "\<not> pollable_event ep" if "mr_group gid m = Some ep" for ep
      using that False by (cases "is_poisoned ep"; cases "ou_events (ep_outputs ep)")
        (auto simp: poll_event_def pollable_event_def)
    have "queues_ok (?m'\<lparr>mr_dirty_events := queue\<rparr>)"
      using "2.prems" by (auto simp: inv_but_def queues_ok_def mr_contains_group_def)
    moreover have "signals_true (?m'\<lparr>mr_dirty_events := queue\<rparr>) = signals_true ?m"
      by (simp add: signals_true_def group_is_def mr_group_def)
    moreover have "attended g (?m'\<lparr>mr_dirty_events := queue\<rparr>)" if "attended g ?m" for g
      using that quiet by (auto simp: attended_def duly_def mr_group_def)
    ultimately have inv: "inv_but G (?m'\<lparr>mr_dirty_events := queue\<rparr>)" using "2.prems" by (simp add: inv_but_def)
    have "poll_event_loop (gid # queue) m = poll_event_loop queue ?m'"
      using False by (auto split: option.split prod.split)
    then show ?thesis using "2.IH" inv False by (auto split: option.splits prod.splits)
  qed
qed simp

lemma inv_polls:
  assumes "inv_but G m"
  shows "inv_but G (snd (mr_poll_message m))" "inv_but G (snd (mr_poll_event m))"
  using assms by (simp_all add: mr_poll_message_def mr_poll_event_def inv_poll_message_loop inv_poll_event_loop)

end
