(* ===== verification/Multi_Drive.thy ===== *)
theory Multi_Drive
  imports Multi_Steps
begin

text \<open>
  The container's operations that create a group, install a fork or drive one group keep its
  invariant.
\<close>

section \<open>Creating groups\<close>

lemma new_group_absent: "validate_new_group X gid config m = Ok u \<Longrightarrow> \<not> mr_contains_group gid m"
  by (auto simp: validate_new_group_def Let_def split: if_splits)

lemma inv_create_group_with_rng:
  assumes "inv_but G m"
  shows "inv_but G (snd (create_group_with_rng X gid generation config now rng fsm m))"
proof -
  have "inv_but G (host_group X gid l (seed_lineage generation (new_with_rng (mx_env X) config now rng fsm))
      (adopt_host_id config m))" if "validate_new_group X gid config m = Ok u" for u l
    using new_group_absent [OF that] by (intro inv_host_idle inv_adopt_host_id assms idle_fresh) simp
  then show ?thesis using assms
    by (auto simp: create_group_with_rng_def Let_def split: result.split)
qed

lemma inv_create_group_founded_at_with_rng:
  assumes "inv_but G m"
  shows "inv_but G (snd (snd (create_group_founded_at_with_rng X gid generation config now rng fsm epoch logs stab m)))"
proof -
  have "inv_but G (host_group X gid l (fst (submit_founding_stamp (mx_env X)
        (seed_lineage generation (seed_boot_epoch epoch (new_with_rng (mx_env X) config now rng fsm))) stab))
      (adopt_host_id config m))" if "validate_new_group X gid config m = Ok u" for u l
    using new_group_absent [OF that] by (intro inv_host_idle inv_adopt_host_id assms idle_founded) simp
  then show ?thesis using assms
    by (auto simp: create_group_founded_at_with_rng_def Let_def case_prod_beta split: result.split)
qed

lemma inv_restored:
  assumes "inv_but G m" "validate_new_group X gid config m = Ok u"
  shows "inv_but G (host_restarted X gid ep (adopt_host_id config m))"
  using new_group_absent [OF assms(2)] by (intro inv_host_restarted inv_adopt_host_id assms(1)) simp

lemma inv_restore:
  assumes "inv_but G m"
  shows "restore_group_migrating_with_rng_unchecked X gid config now rng fsm epoch prior logs stab m = Some r \<Longrightarrow>
      inv_but G (snd (snd (snd r)))"
    "restore_group_with_rng_unchecked X gid config now rng fsm epoch logs stab m = Some r \<Longrightarrow>
      inv_but G (snd (snd (snd r)))"
    "create_group_from_fork_with_rng_unreserved X gid generation config now rng fsm snapshot ro fid epoch logs stab m = Some r \<Longrightarrow>
      inv_but G (snd (snd (snd r)))"
  using assms
  by (auto simp: restore_group_migrating_with_rng_unchecked_def restore_group_with_rng_unchecked_def
      create_group_from_fork_with_rng_unreserved_def Let_def case_prod_beta intro: inv_restored
      split: result.splits option.splits prod.splits)

lemma inv_create_from_fork:
  assumes "inv_but G m"
    "create_group_from_fork_with_rng X gid generation config now rng fsm snapshot ro epoch logs stab m = Some r"
  shows "inv_but G (snd (snd (snd r)))"
  using assms by (auto simp: create_group_from_fork_with_rng_def dest: inv_restore(3) split: if_splits)

section \<open>Installing a fork\<close>

lemma prepared_absent:
  assumes "prepare_fork_install X parent child engine extra m = (PO_Ready p plan epoch config, engine', m')"
  shows "\<not> mr_contains_group child m'"
  using assms by (auto simp: prepare_fork_install_def install_refusal_def Let_def
      split: prod.splits HeadFork.splits if_splits option.splits result.splits dest: new_group_absent)

lemma inv_prepare:
  assumes "inv_but G m"
  shows "inv_but G (snd (snd (prepare_fork_install X parent child engine extra m)))"
  using inv_examine [OF assms, of X parent "engine_fork_gate X engine extra"]
  by (auto simp: prepare_fork_install_def Let_def split: prod.splits HeadFork.splits option.splits result.splits)

lemma inv_install:
  assumes "inv_but G m" "install_yieldable_fork_with_rng X parent child engine extra now rng m = Some r"
  shows "inv_but G (snd (snd r))"
proof -
  obtain po engine' m' where p: "prepare_fork_install X parent child engine extra m = (po, engine', m')"
    by (cases "prepare_fork_install X parent child engine extra m")
  have inv: "inv_but G m'" using inv_prepare [OF assms(1), of X parent child engine extra] p by simp
  show ?thesis
  proof (cases po)
    case (PO_Ready parent' plan epoch config)
    have "\<not> mr_contains_group child m'" by (rule prepared_absent [OF p [unfolded PO_Ready]])
    moreover have "inv_but G (on_group parent' (\<lambda>_. ep') m')"
      if "mr_group parent' m' = Some ep" "pop_pending_fork ep = (x, ep')" for ep ep' x
      using inv that calm_pop [of ep] by (intro inv_calm) auto
    ultimately have "inv_but G (host_restarted X child e
        (adopt_host_id config (on_group parent' (\<lambda>_. ep') m')\<lparr>mr_lineage := bm_insert parent' g
           (mr_lineage (adopt_host_id config (on_group parent' (\<lambda>_. ep') m')))\<rparr>))"
      if "mr_group parent' m' = Some ep" "pop_pending_fork ep = (x, ep')" for ep ep' x e g
      using that by (intro inv_host_restarted inv_ordered inv_adopt_host_id bm_ok_insert inv_bm_ok(3)) auto
    then show ?thesis using assms(2) p PO_Ready inv
      by (auto simp: install_yieldable_fork_with_rng_def Let_def split: option.splits prod.splits)
  next
    case (PO_Done outcome)
    then show ?thesis using assms(2) p inv by (auto simp: install_yieldable_fork_with_rng_def)
  qed
qed

section \<open>Driving one group\<close>

lemma lively_sim: "core_steps w (core ep) (core ep') \<Longrightarrow> lively ep ep'"
  using core_le_steps [of w "core ep" "core ep'"] by (simp add: lively_def core_le_def core_observed)

lemma lively_calls [simp]:
  "lively ep (fst (handle_message E now from msg ep logs stab))"
  "lively ep (fst (handle_timeout E now ep logs stab))"
  "lively ep (fst (snd (propose_conf_change E now cc ep logs)))"
  "lively ep (fst (snd (propose_conf_change_v2 E now cc2 ep logs)))"
  "lively ep (snd (read_index E now logs context ep))"
  "lively ep (snd (transfer_leader E now logs stab to ep))"
  "lively ep (flush_appends E now logs stab ep)"
  "lively ep (fst (snd (capture_absorb_snapshot E logs ep stab)))"
  "lively ep (snd (advance_commit_on_freeze_identity E logs boundary freeze_term ep))"
  by (rule lively_sim [where w = False], simp add: core_sim)+

lemma lively_proposals [simp]:
  "lively ep (fst (snd (propose E now cmd ep logs)))"
  "lively ep (fst (snd (propose_read_mode_change E now mode ep logs)))"
  "lively ep (fst (snd (propose_split_entry E now child_bytes payload ep logs)))"
  "lively ep (fst (snd (propose_merge_entry E now kind payload ep logs)))"
  "lively ep (fst (snd (ensure_merge_seal E now ep logs)))"
  by (rule lively_sim [where w = False], simp add: core_sim)+

lemma lively_handle_storage [simp]: "lively ep (fst (snd (handle_storage E now ep logs stab)))"
  by (simp add: lively_def handle_storage_def)

lemma inv_store_group:
  assumes "inv_but G m" "mr_group gid m = Some ep" "lively ep ep'"
  shows "inv_but G (store_group gid ep' m)"
  unfolding store_group_def by (rule inv_mono [OF inv_stored [OF assms(1)]]) (use assms in auto)

lemma inv_drive:
  assumes "inv_but G m"
  shows "inv_but G (snd (snd (snd (mr_handle_message X gid now from msg logs stab m))))"
    "inv_but G (snd (snd (snd (mr_handle_timeout X gid now logs stab m))))"
    "inv_but G (snd (snd (snd (mr_handle_storage X gid now logs stab m))))"
    "inv_but G (snd (snd (mr_propose X gid now logs cmd m)))"
    "inv_but G (snd (mr_flush_appends X gid now logs stab m))"
    "inv_but G (snd (snd (mr_propose_conf_change X gid now logs cc m)))"
    "inv_but G (snd (snd (mr_propose_conf_change_v2 X gid now logs cc2 m)))"
    "inv_but G (snd (snd (mr_propose_read_mode_change X gid now logs mode m)))"
    "inv_but G (snd (mr_read_index X gid now logs context m))"
    "inv_but G (snd (mr_transfer_leader X gid now logs stab to m))"
    "inv_but G (snd (snd (propose_split X gid now logs child child_gen instruction m)))"
proof -
  have "inv_but G (on_group gid (note_merge_park_unresolvable False) m)" using assms by (rule inv_calm) simp
  then show "inv_but G (snd (snd (snd (mr_handle_message X gid now from msg logs stab m))))"
    using assms by (auto simp: mr_handle_message_def case_prod_beta intro: inv_store_group split: option.split)
qed (use assms in \<open>auto simp: mr_handle_timeout_def mr_handle_storage_def mr_propose_def mr_flush_appends_def
    mr_propose_conf_change_def mr_propose_conf_change_v2_def mr_propose_read_mode_change_def mr_read_index_def
    mr_transfer_leader_def propose_split_def Let_def case_prod_beta intro: inv_store_group split: option.split\<close>)

lemma lively_noted [simp]:
  "lively ep (note_thaw_appended i ep') = lively ep ep'" "lively ep (note_witness_appended i ep') = lively ep ep'"
  by (simp_all add: lively_def is_poisoned_def note_thaw_appended_def note_witness_appended_def)

lemma inv_append_unfreeze:
  assumes "inv_but G m" "mr_group source m = Some ep"
  shows "inv_but G (snd (snd (append_unfreeze X source now logs freeze_gen ep m)))"
  using assms by (auto simp: append_unfreeze_def Let_def case_prod_beta intro!: inv_store_group split: option.split result.split)

lemma inv_merge_verbs:
  assumes "inv_but G m"
  shows "inv_but G (snd (snd (prepare_merge X gid now stores other m)))"
    "commit_merge X gid now logs other m = Some r \<Longrightarrow> inv_but G (snd (snd r))"
    "inv_but G (snd (snd (rollback_merge X gid now logs other m)))"
    "inv_but G (snd (snd (propose_merge_unfreeze X gid now logs other gen m)))"
    "inv_but G (snd (snd (propose_dead_target_thaw X gid now logs other m)))"
    "inv_but G (snd (snd (propose_thaw_witness X gid key gen now logs m)))"
proof -
  obtain b m1 where c: "some_source_claims_target X gid stores m = (b, m1)" by fastforce
  then have inv1: "inv_but G m1" using inv_claims [OF assms, of X gid stores] by simp
  then have "inv_but G (snd (snd (case (stores_at X gid stores, mr_group gid m1) of
      (Some (logs, stab), Some sep) \<Rightarrow>
        let (r, sep, logs) = propose_merge_entry (mx_env X) now EK_PrepareMerge payload sep logs
        in (Some (map_err ME_Propose r), put_stores X gid logs stab stores, store_group gid sep m1)
    | _ \<Rightarrow> (None, stores, m1))))" for payload
    by (auto simp: case_prod_beta intro: inv_store_group split: option.split)
  then show "inv_but G (snd (snd (prepare_merge X gid now stores other m)))"
    using assms inv1 c by (simp add: prepare_merge_def Let_def split: option.split bool.split)
  show "commit_merge X gid now logs other m = Some r \<Longrightarrow> inv_but G (snd (snd r))"
    using assms by (auto simp: commit_merge_def Let_def case_prod_beta intro!: inv_store_group split: option.splits if_splits)
  show "inv_but G (snd (snd (rollback_merge X gid now logs other m)))"
    using assms by (auto simp: rollback_merge_def Let_def case_prod_beta intro: inv_store_group split: option.split)
  show "inv_but G (snd (snd (propose_merge_unfreeze X gid now logs other gen m)))"
    using assms by (auto simp: propose_merge_unfreeze_def Let_def intro: inv_append_unfreeze split: option.split)
  show "inv_but G (snd (snd (propose_dead_target_thaw X gid now logs other m)))"
    using assms by (auto simp: propose_dead_target_thaw_def Let_def intro: inv_append_unfreeze split: option.split)
  show "inv_but G (snd (snd (propose_thaw_witness X gid key gen now logs m)))"
    using assms by (auto simp: propose_thaw_witness_def Let_def case_prod_beta intro!: inv_store_group split: option.split result.split)
qed

section \<open>Poisons the driver asks for\<close>

lemma inv_poison_group: "inv_but G m \<Longrightarrow> inv_but G (poison_group r gid m)"
  unfolding poison_group_def by (rule inv_hush) simp_all

lemma inv_fail_stop:
  assumes "inv_but G m"
  shows "inv_but G (mr_fail_stop_query_panicked gid m)" "inv_but G (fail_stop_plane_unattributable_panic m)"
proof -
  have one: "inv_but G (mr_fail_stop_query_panicked gid m)" if "inv_but G m" for gid and m :: "('a, 'b, 'c, 'd, 'e, 'f) multi_raft"
    unfolding mr_fail_stop_query_panicked_def using that by (rule inv_hush) (simp add: fail_stop_query_panicked_def)
  then show "inv_but G (mr_fail_stop_query_panicked gid m)" using assms .
  have "inv_but G (fold mr_fail_stop_query_panicked gids m)" if "inv_but G m" for gids and m :: "('a, 'b, 'c, 'd, 'e, 'f) multi_raft"
    using that by (induction gids arbitrary: m) (simp_all add: one)
  then show "inv_but G (fail_stop_plane_unattributable_panic m)"
    unfolding fail_stop_plane_unattributable_panic_def using assms .
qed

lemma inv_lift_fork_barrier: "inv_but G m \<Longrightarrow> inv_but G (lift_fork_barrier parent i m)"
  unfolding lift_fork_barrier_def by (rule inv_calm) simp_all

end
