(* ===== verification/Multi_Service.thy ===== *)
theory Multi_Service
  imports Multi_Drive
begin

text \<open>
  The merge service keeps the container's invariant: each of its passes does, and a pass is a fold
  of its step over the groups it collected.
\<close>

section \<open>Steps of an endpoint in the service\<close>

lemma calm_unpoisoned: "hush ep ep' \<Longrightarrow> \<not> is_poisoned ep' \<Longrightarrow> calm ep ep'"
  by (simp add: calm_def owes_signal_def)

lemma hush_merge_fields [simp]:
  "hush ep (ep'\<lparr>ep_merge := x\<rparr>) = hush ep ep'" "hush ep (set_crossing_current b ep') = hush ep ep'"
  by (simp_all add: calm_defs set_crossing_current_def)

lemma hush_poisoned: "hush ep ep' \<Longrightarrow> hush ep (poison r ep')"
  by (rule hush_trans [OF _ hush_poison])

lemma hush_crossing_entries: "hush ep ep' \<Longrightarrow> hush ep (snd (crossing_entries E es ep'))"
proof (induction es arbitrary: ep')
  case (Cons e es)
  then show ?case
    by (cases "en_kind e") (simp_all add: Let_def hush_poisoned split: result.split)
qed simp

lemma hush_crossing_scan: "hush ep ep' \<Longrightarrow> hush ep (crossing_scan E logs last_i chunks idx ep')"
proof (induction chunks arbitrary: idx ep')
  case (Suc chunks)
  have "hush ep x" if "crossing_entries E es ep' = (b, x)" for es b x
    using hush_crossing_entries [OF Suc.prems, of E es] that by simp
  with Suc show ?case
    by (simp add: Let_def hush_poisoned del: crossing_entries.simps split: result.split EntriesRead.split list.split bool.split prod.split)
qed simp

lemma hush_advance_crossing_scan [simp]: "hush ep (advance_crossing_scan E logs ep)"
  by (simp add: advance_crossing_scan_def hush_crossing_scan split: option.split)

text \<open>A seal that is not appended leaves the endpoint alone, or finds the log exhausted.\<close>

lemma calm_unsealed:
  assumes "ensure_merge_seal E now ep logs = (False, ep', logs')"
  shows "calm ep ep'"
proof -
  have "calm ep (poison r ep)" if "me_pending_apply (ep_merge ep) = Some pend" "next_log_index (pa_at pend) = None" for r pend
    using that by (simp add: calm_defs poison_def)
  with assms show ?thesis
    by (auto simp: ensure_merge_seal_def append_leader_noop_def Let_def split: if_splits option.splits prod.splits)
qed

lemma hush_not_advanced:
  "advance_commit_on_freeze_identity E logs b t ep = (False, ep') \<Longrightarrow> hush ep ep'"
  by (auto simp: advance_commit_on_freeze_identity_def log_term_def Let_def split: if_splits result.splits)

lemma lively_merge_steps [simp]:
  "lively ep (resolve_pending_merge_aborted ep)" "lively ep (snd (resolve_pending_merge E f ep))"
  "lively ep (emit_merged d ep)" "lively ep (adopt_inherited_debts ds (mint_capture_debt d ep))"
  "lively ep (snd (discharge_capture_debt ep))"
  "lively ep (snd (take_inherited_debts (emit_merged d (snd (discharge_capture_debt ep)))))"
  by (auto simp: lively_def is_poisoned_def resolve_pending_merge_aborted_def push_event_def resolve_pending_merge_def
      poison_def emit_merged_def adopt_inherited_debts_def mint_capture_debt_def discharge_capture_debt_def
      take_inherited_debts_def Let_def split: option.split prod.split)

section \<open>Steps of the container in the service\<close>

lemma inv_marked: "inv_but (insert gid G) m \<Longrightarrow> inv_but G (mark_dirty gid m)"
  by (rule inv_mono [OF inv_mark_dirty]) auto

text \<open>An event may be pushed once its group is scheduled.\<close>

lemma inv_emit:
  assumes "inv_but G (mark_dirty gid m)"
  shows "inv_but G (on_group gid (emit_merged d) (mark_dirty gid m))"
proof (rule inv_close)
  show "inv_but (insert gid G) (on_group gid (emit_merged d) (mark_dirty gid m))"
    using assms by (rule inv_lively) simp
  assume "gid \<notin> G"
  with assms have "attended gid (mark_dirty gid m)" by (simp add: inv_but_def)
  moreover have "gid |\<in>| mr_dirty_events_set (mark_dirty gid m)"
    by (simp add: mark_dirty_def schedule_msgs_def schedule_events_def schedule_forks_def)
  ultimately show "attended gid (on_group gid (emit_merged d) (mark_dirty gid m))"
    by (auto simp: attended_def duly_def emit_merged_def push_event_def pollable_message_def forks_staged_def
        owes_signal_def is_poisoned_def sealed_out_def)
qed

lemma inv_owes_a_drivable_thaw:
  assumes "inv_but G m"
  shows "inv_but G (snd (owes_a_drivable_thaw X source m))"
proof -
  have "inv_but G (snd (drivable_obligation X source o1 st))" if "inv_but G (snd st)" for o1 st
    using that inv_poison_group [of G "snd st" PR_MergeDecode source]
    by (auto simp: drivable_obligation_def poison_group_def case_prod_beta split: result.split)
  then have "inv_but G (snd (fold (drivable_obligation X source) os st))" if "inv_but G (snd st)" for os st
    using that by (induction os arbitrary: st) simp_all
  from this [of "(False, m)"] show ?thesis using assms by (simp add: owes_a_drivable_thaw_def)
qed

lemma inv_capture_group:
  assumes "inv_but G m"
  shows "inv_but (insert gid G) (snd (snd (capture_group X gid stores m)))"
proof -
  have "inv_but (insert gid G) (on_group gid (poison PR_SnapshotCapture) m)"
    by (rule inv_lively [OF assms]) (simp add: hush_lively)
  moreover have "inv_but (insert gid G) (on_group gid (\<lambda>_. fst (snd (capture_absorb_snapshot (mx_env X) logs ep stab))) m)"
    if "mr_group gid m = Some ep" for logs ep stab
    by (rule inv_lively [OF assms]) (use that in simp)
  ultimately show ?thesis using inv_mono [OF assms, of "insert gid G"]
    by (auto simp: capture_group_def Let_def case_prod_beta split: option.split)
qed

lemma inv_park_window:
  assumes "inv_but G m" "mr_group tgid m = Some tep"
  shows "inv_but G (snd (snd (park_window X now tgid tep stores m)))"
proof -
  have "inv_but G (on_group tgid latch_merge_window_closed m)" using assms(1) by (rule inv_calm) simp
  moreover have "inv_but G (on_group tgid (\<lambda>_. ep) m)"
    if "ensure_merge_seal (mx_env X) now tep l = (False, ep, l')" for ep l l'
    using assms calm_unsealed [OF that] by (intro inv_calm) auto
  moreover have "inv_but G (store_group tgid (flush_appends (mx_env X) now l' stab ep) m)"
    if "ensure_merge_seal (mx_env X) now tep l = (s, ep, l')" for s ep l l' stab
  proof -
    have "lively tep ep" using lively_proposals(5) [of tep "mx_env X" now l] that by simp
    then show ?thesis by (rule inv_store_group [OF assms lively_trans]) simp
  qed
  ultimately show ?thesis
    using assms(1) by (auto simp: park_window_def Let_def split: option.split MergeWindow.split prod.split)
qed

lemma inv_advance_source:
  assumes "inv_but G m"
  shows "inv_but G (advance_source X source boundary t stores m)"
proof -
  have "inv_but G (note_if_poisoned source (on_group source (\<lambda>_. ep') m))"
    if "mr_group source m = Some ep" "advance_commit_on_freeze_identity (mx_env X) logs boundary t ep = (False, ep')" for ep ep' logs
    using assms that hush_not_advanced [OF that(2)] by (intro inv_hush) auto
  moreover have "inv_but G (note_if_poisoned source (store_group source ep' m))"
    if "mr_group source m = Some ep" "advance_commit_on_freeze_identity (mx_env X) logs boundary t ep = (a, ep')" for ep a ep' logs
    using inv_store_group [OF assms that(1), of ep'] lively_calls(9) [of ep "mx_env X" logs boundary t] that(2)
    by (simp add: inv_note)
  ultimately show ?thesis using assms
    by (auto simp: advance_source_def Let_def split: option.split prod.split)
qed

lemma inv_removed_inner: "inv_but G m \<Longrightarrow> inv_but G (snd (remove_group_inner X gid m))"
  by (rule inv_mono [OF inv_remove_inner]) auto

lemma inv_absorb_source:
  assumes "inv_but G (snd (snd st))"
  shows "inv_but G (snd (snd (absorb_source X tgid source block priors st)))"
proof -
  obtain res stores m where st: "st = (res, stores, m)" by (cases st) auto
  obtain sep m1 where rm: "remove_group_inner X source m = (sep, m1)" by force
  have m1: "inv_but G m1" using inv_removed_inner [of G m X source] assms by (simp add: st rm)
  have resolved: "inv_but (insert tgid G) (on_group tgid (\<lambda>_. snd (resolve_pending_merge (mx_env X) f tep)) m1)"
    if "mr_group tgid m1 = Some tep" for f tep
    by (rule inv_lively [OF m1]) (use that in simp)
  have pinned: "inv_but H (on_group tgid (pin_failed_capture ks) m')" if "inv_but H m'" for H ks and m' :: "('a, 'b, 'c, 'd, 'e, 'f) multi_raft"
    using that by (rule inv_calm) simp
  have adopted: "inv_but (insert tgid H) (on_group tgid (\<lambda>ep. adopt_inherited_debts ds (mint_capture_debt d ep)) m')"
    if "inv_but H m'" for H ds d and m' :: "('a, 'b, 'c, 'd, 'e, 'f) multi_raft"
    using that by (rule inv_lively) simp
  show ?thesis
  proof (cases sep)
    case (Some sep')
    show ?thesis
    proof (cases "mr_group tgid m1")
      case t: (Some tep)
      obtain inh sep'' where inh: "take_capture_debts sep' = (inh, sep'')" by force
      obtain d tep' where d: "resolve_pending_merge (mx_env X) (ep_fsm sep'') tep = (d, tep')" by force
      define m2 where "m2 = on_group tgid (\<lambda>_. tep') m1"
      have m2: "inv_but (insert tgid G) m2" using resolved [OF t, of "ep_fsm sep''"] by (simp add: d m2_def)
      obtain staged stores' m3 where cap: "capture_group X tgid stores m2 = (staged, stores', m3)" by (cases "capture_group X tgid stores m2")
      have m3: "inv_but G (mark_dirty tgid m3)"
        using inv_capture_group [OF m2, of tgid X stores] by (intro inv_marked) (simp add: cap)
      show ?thesis
        using inv_emit [OF m3] inv_note [OF pinned [OF m3]] m3 inv_note [OF inv_marked [OF pinned [OF m2]]]
          inv_marked [OF m2] inv_marked [of tgid G, OF inv_mono [OF adopted [OF m2], of "insert tgid G"]]
        by (simp add: absorb_source_def st rm Some t inh d Let_def cap flip: m2_def split: option.split)
    qed (simp add: absorb_source_def st rm Some m1 case_prod_beta)
  qed (simp add: absorb_source_def st rm m1)
qed

lemma inv_resolve_park:
  assumes "inv_but G (snd (snd st))"
  shows "inv_but G (snd (snd (resolve_park X tgid source idx st)))"
proof -
  obtain res stores m where st: "st = (res, stores, m)" by (cases st) auto
  obtain thaw m1 where m1_eq: "owes_a_drivable_thaw X source m = (thaw, m1)" by force
  have m: "inv_but G m" using assms by (simp add: st)
  have m1: "inv_but G m1" using inv_owes_a_drivable_thaw [OF m, of X source] by (simp add: m1_eq)
  have "inv_but G (mark_dirty source (poison_group r source m1))" for r
    using inv_poison_group [OF m1] by (intro inv_marked) (rule inv_mono, auto)
  then show ?thesis
    using m m1 inv_absorb_source [where st = "(res, stores, m1)" and G = G]
    by (auto simp: resolve_park_def st m1_eq Let_def split: option.split bool.split result.split)
qed

lemma inv_act_on_park:
  assumes "inv_but G (snd (snd st))"
  shows "inv_but G (snd (snd (act_on_park X tgid source park verdict unresolvable crossing st)))"
proof -
  obtain res stores m where st: "st = (res, stores, m)" by (cases st) auto
  define m1 where "m1 = (case crossing of Some g \<Rightarrow> note_merge_blocked tgid g (pa_at park) CrossedHostedSource m | None \<Rightarrow> m)"
  have "inv_but G m1" using assms by (auto simp: st m1_def split: option.split)
  then have m2: "inv_but G (on_group tgid (note_merge_park_unresolvable b) m1)" for b
    by (rule inv_calm) simp
  have m3: "inv_but G (on_group tgid (note_merge_park_unresolvable b) m)" for b
    using assms by (intro inv_calm) (simp_all add: st)
  have "inv_but G (mark_dirty tgid (on_group tgid resolve_pending_merge_aborted (on_group tgid (note_merge_park_unresolvable b) m1)))" for b
    by (rule inv_marked, rule inv_lively [OF m2]) simp
  then show ?thesis
    using m2 inv_note_merge_blocked [OF m3] inv_advance_source [OF inv_note_merge_blocked [OF m2]] inv_resolve_park [where st = "(res, stores, _)" and G = G, simplified, OF m2]
    by (cases verdict) (auto simp: act_on_park_def st Let_def simp flip: m1_def)
qed

lemma inv_service_park:
  assumes "inv_but G (snd (snd st))"
  shows "inv_but G (snd (snd (service_park X now tgid st)))"
proof -
  obtain res stores m where st: "st = (res, stores, m)" by (cases st) auto
  have m: "inv_but G m" using assms by (simp add: st)
  show ?thesis
  proof (cases "mr_group tgid m")
    case t: (Some tep)
    obtain w stores' m1 where pw: "park_window X now tgid tep stores m = (w, stores', m1)"
      by (cases "park_window X now tgid tep stores m")
    have m1: "inv_but G m1" using inv_park_window [OF m t, of X now stores] by (simp add: pw)
    define m2 where "m2 = advance_park_scan X tgid stores' m1"
    have noted: "inv_but G (note_if_poisoned tgid m2)"
      using inv_hush [OF m1, of tgid] inv_note [OF m1] by (auto simp: m2_def advance_park_scan_def split: option.split)
    have m2: "inv_but G m2" if "stores_at X tgid stores' = None \<or> \<not> group_is tgid is_poisoned m2"
    proof (cases "stores_at X tgid stores'")
      case None then show ?thesis using m1 by (simp add: m2_def advance_park_scan_def)
    next
      case (Some ls)
      have "inv_but G (on_group tgid (advance_crossing_scan (mx_env X) (fst ls)) m1)"
        using m1 by (rule inv_calm)
          (use that Some in \<open>auto simp: m2_def advance_park_scan_def group_is_def case_prod_beta intro: calm_unpoisoned\<close>)
      then show ?thesis using Some by (simp add: m2_def advance_park_scan_def case_prod_beta)
    qed
    have act: "inv_but G (snd (snd (act_on_park X tgid source park v u c (res, stores', m'))))" if "inv_but G m'" for source park v u c m'
      by (rule inv_act_on_park) (simp add: that)
    show ?thesis
    proof (cases "stores_at X tgid stores' \<noteq> None \<and> group_is tgid is_poisoned m2")
      case True
      then show ?thesis
        using m m1 noted inv_poison_group [OF m, of PR_MergeDecode tgid] act [OF m1]
        by (simp add: service_park_def st t pw Let_def flip: m2_def split: option.split result.split prod.split)
    next
      case False
      then have "inv_but G m2" by (intro m2) auto
      then show ?thesis
        using False m m1 inv_poison_group [OF m, of PR_MergeDecode tgid] act [OF m1] act [OF \<open>inv_but G m2\<close>]
          inv_poison_group [OF \<open>inv_but G m2\<close>, of PR_MergeDecode tgid]
        by (auto simp: service_park_def st t pw Let_def simp flip: m2_def split: option.split result.split prod.split)
    qed
  qed (simp add: service_park_def st m)
qed

lemma calm_discharged [simp]: "calm ep (note_discharged k ep)" "calm ep (clear_abandoned k ep)" "calm ep (clear_adopt_capture_owed ep)"
  by (simp_all add: calm_defs note_discharged_def clear_abandoned_def clear_adopt_capture_owed_def)

lemma inv_serve_obligation:
  fixes st :: "'k \<times> ('g::linorder, 'i::linorder, 'f, 'n, 'p, 'r) multi_raft"
  assumes "inv_but G (snd st)"
  shows "inv_but G (snd (serve_obligation X now tgid key source ob st))"
proof -
  obtain stores m where st: "st = (stores, m)" by (cases st) auto
  have m: "inv_but G m" using assms by (simp add: st)
  define m1 where "m1 = (if \<not> ab_discharged ob then on_group tgid (note_discharged key) m else m)"
  have m1: "inv_but G m1" using inv_calm [OF m, of tgid] m by (simp add: m1_def)
  have "inv_but G (on_group tgid (clear_abandoned key) m)" using m by (rule inv_calm) simp
  then show ?thesis
    using m m1
    by (simp add: serve_obligation_def st Let_def case_prod_beta inv_merge_verbs(4) [OF m] inv_merge_verbs(6) [OF m1]
        flip: m1_def split: option.split bool.split)
qed

lemma inv_serve_obligations:
  fixes st :: "'k \<times> ('g::linorder, 'i::linorder, 'f, 'n, 'p, 'r) multi_raft"
  assumes "inv_but G (snd st)"
  shows "inv_but G (snd (serve_obligations X now tgid obs st))"
  using assms
proof (induction obs arbitrary: st)
  case (Cons o1 obs)
  then show ?case
    by (cases o1) (auto simp: inv_poison_group inv_serve_obligation split: result.split)
qed simp

lemma inv_service_abandoned:
  fixes st :: "('g::linorder, 'i::linorder, 'f, 'n, 'p, 'r, 'k) service"
  assumes "inv_but G (snd (snd st))"
  shows "inv_but G (snd (snd (service_abandoned X now tgid st)))"
  using assms inv_serve_obligations [where st = "snd st" and G = G and X = X and now = now and tgid = tgid]
  by (cases st) (auto simp: service_abandoned_def case_prod_beta split: option.split)

lemma inv_service_husk:
  assumes "inv_but G (snd (snd st))"
  shows "inv_but G (snd (snd (service_husk X named gid st)))"
proof -
  obtain res stores m where st: "st = (res, stores, m)" by (cases st) auto
  have m: "inv_but G m" using assms by (simp add: st)
  obtain thaw m1 where m1_eq: "owes_a_drivable_thaw X gid m = (thaw, m1)" by force
  have m1: "inv_but G m1" using inv_owes_a_drivable_thaw [OF m, of X gid] by (simp add: m1_eq)
  obtain ep m2 where rm: "remove_group_inner X gid m1 = (ep, m2)" by force
  have m2: "inv_but G m2" using inv_removed_inner [OF m1, of X gid] by (simp add: rm)
  have marked: "inv_but G (mark_dirty gid m')" if "inv_but G m'" for m' :: "('a, 'b, 'c, 'd, 'e, 'f) multi_raft"
    by (rule inv_marked, rule inv_mono [OF that]) auto
  show ?thesis
    using m m1 m2 marked [OF m2] marked [OF inv_poison_group [OF m1], of PR_MergeDecode gid]
    by (simp add: service_husk_def st m1_eq rm split: bool.split result.split option.split)
qed

lemma inv_service_frozen:
  fixes st :: "('g::linorder, 'i::linorder, 'f, 'n, 'p, 'r, 'k) service"
  assumes "inv_but G (snd (snd st))"
  shows "inv_but G (snd (snd (service_frozen X now sgid st)))"
proof -
  obtain res stores m where st: "st = (res, stores, m)" by (cases st) auto
  have m: "inv_but G m" using assms by (simp add: st)
  have "inv_but G (snd (snd (propose_dead_target_thaw X sgid now logs target m)))" for logs target
    using m by (rule inv_merge_verbs(5))
  with m inv_poison_group [OF m, of PR_MergeDecode sgid] show ?thesis
    by (auto simp: service_frozen_def st Let_def case_prod_beta split: option.split result.split)
qed

lemma inv_report_fence: "inv_but G m \<Longrightarrow> inv_but G (report_fence X gid own boundary ep m)"
  by (auto simp: report_fence_def split: option.split prod.split)

lemma inv_push_inherited:
  "inv_but G (snd (snd st)) \<Longrightarrow> inv_but G (snd (snd (push_inherited X tgid ds st)))"
proof (induction ds arbitrary: st)
  case (Cons d ds)
  then show ?case by (cases st) (auto simp: inv_poison_group split: result.split)
qed simp

lemma inv_discharge_debt:
  assumes "inv_but (insert tgid G) (snd (snd st))"
  shows "inv_but G (snd (snd (discharge_debt X tgid source st)))"
proof -
  obtain res stores m where st: "st = (res, stores, m)" by (cases st) auto
  have m: "inv_but (insert tgid G) m" using assms by (simp add: st)
  have set: "inv_but G (mark_dirty tgid (on_group tgid (\<lambda>_. ep') m))" if "mr_group tgid m = Some ep" "lively ep ep'" for ep ep'
    using that by (intro inv_marked inv_mono [OF inv_lively [OF m, of tgid]]) auto
  have "inv_but G (snd (snd (push_inherited X tgid ds (res @ [MR_Merged source tgid], stores, mark_dirty tgid m'))))"
    if "inv_but G (mark_dirty tgid m')" for ds m'
    by (rule inv_push_inherited) (simp add: that)
  then show ?thesis
    using set inv_marked [OF m]
    by (auto simp: discharge_debt_def st Let_def case_prod_beta split: option.split prod.split)
qed

lemma inv_service_debtor:
  assumes "inv_but G (snd (snd st))"
  shows "inv_but G (snd (snd (service_debtor X tgid st)))"
proof -
  obtain res stores m where st: "st = (res, stores, m)" by (cases st) auto
  have m: "inv_but G m" using assms by (simp add: st)
  obtain staged stores' m1 where cap: "capture_group X tgid stores m = (staged, stores', m1)" by (cases "capture_group X tgid stores m")
  have m1: "inv_but (insert tgid G) m1" using inv_capture_group [OF m, of tgid X stores] by (simp add: cap)
  have "inv_but G (snd (snd (discharge_debt X tgid source (res, stores', m1))))" for source
    by (rule inv_discharge_debt) (simp add: m1)
  moreover have "inv_but G (snd (snd (discharge_debt X tgid source (res, stores, m))))" for source
    by (rule inv_discharge_debt) (auto intro: inv_mono [OF m])
  ultimately show ?thesis
    using m inv_poison_group [OF m, of PR_MergeDecode tgid] inv_marked [OF inv_note [OF m1], of tgid]
    by (simp add: service_debtor_def st cap inv_report_fence split: option.split result.split)
qed

lemma inv_service_adopt_ower:
  assumes "inv_but G (snd (snd st))"
  shows "inv_but G (snd (snd (service_adopt_ower X gid st)))"
proof -
  obtain res stores m where st: "st = (res, stores, m)" by (cases st) auto
  have m: "inv_but G m" using assms by (simp add: st)
  obtain staged stores' m1 where cap: "capture_group X gid stores m = (staged, stores', m1)" by (cases "capture_group X gid stores m")
  have m1: "inv_but (insert gid G) m1" using inv_capture_group [OF m, of gid X stores] by (simp add: cap)
  have "inv_but G (mark_dirty gid (on_group gid clear_adopt_capture_owed m1))"
    by (rule inv_marked, rule inv_calm [OF m1]) simp
  moreover have "inv_but G (on_group gid clear_adopt_capture_owed m)"
    using m by (rule inv_calm) simp
  ultimately show ?thesis
    using m inv_marked [OF inv_note [OF m1], of gid]
    by (auto simp: service_adopt_ower_def st cap inv_report_fence split: option.split)
qed

section \<open>The service\<close>

lemma inv_service_fold:
  assumes "\<And>g st. inv_but G (snd (snd st)) \<Longrightarrow> inv_but G (snd (snd (f g st)))" "inv_but G (snd (snd st))"
  shows "inv_but G (snd (snd (fold f gs st)))"
  using assms(2) by (induction gs arbitrary: st) (simp_all add: assms(1))

lemma inv_service_merge_applies:
  fixes m :: "('g::linorder, 'i::linorder, 'f, 'n, 'p, 'r) multi_raft"
  assumes "inv_but G m"
  shows "inv_but G (snd (snd (service_merge_applies X now stores m)))"
  unfolding service_merge_applies_def Let_def case_prod_beta snd_conv prod.collapse
  by (intro inv_settle_blocked inv_service_fold inv_service_park inv_service_abandoned inv_service_husk
      inv_service_frozen inv_service_debtor inv_service_adopt_ower) (simp_all add: assms)

end
