(* ===== verification/Multi_Runs.thy ===== *)
theory Multi_Runs
  imports Multi_Service
begin

text \<open>
  The runs of the group container (\<^verbatim>\<open>multi/mod.rs\<close>): any sequence of its public calls, with any
  arguments and any stores at each call.  Every container of a run satisfies the invariant, so no
  output and no staged fork is ever out of reach of the polls that drain them.

  The seeded constructors (\<open>create_group\<close>, \<open>restore_group_unchecked\<close>, \<open>install_yieldable_fork\<close> and
  the others) are the calls below with the generator they seed; a call that panics has no result
  and takes no step.
\<close>

section \<open>Runs\<close>

inductive container_run ::
    "('g::linorder, 'i::linorder, 'f, 'c, 'n, 'p, 'r, 'l, 's, 'k) multi_env \<Rightarrow>
     ('g, 'i, 'f, 'n, 'p, 'r) multi_raft \<Rightarrow> bool" for X where
  run_new: "container_run X mr_new"
| run_create: "container_run X m \<Longrightarrow>
    container_run X (snd (create_group_with_rng X gid generation config now rng fsm m))"
| run_create_founded: "container_run X m \<Longrightarrow>
    container_run X (snd (snd (create_group_founded_at_with_rng X gid generation config now rng fsm epoch logs stab m)))"
| run_restore: "container_run X m \<Longrightarrow>
    restore_group_with_rng_unchecked X gid config now rng fsm epoch logs stab m = Some (r, logs', stab', m') \<Longrightarrow>
    container_run X m'"
| run_restore_migrating: "container_run X m \<Longrightarrow>
    restore_group_migrating_with_rng_unchecked X gid config now rng fsm epoch prior logs stab m = Some (r, logs', stab', m') \<Longrightarrow>
    container_run X m'"
| run_create_from_fork: "container_run X m \<Longrightarrow>
    create_group_from_fork_with_rng X gid generation config now rng fsm snapshot ro epoch logs stab m =
      Some (r, logs', stab', m') \<Longrightarrow>
    container_run X m'"
| run_install: "container_run X m \<Longrightarrow>
    install_yieldable_fork_with_rng X parent child engine extra now rng m = Some (outcome, engine', m') \<Longrightarrow>
    container_run X m'"
| run_remove: "container_run X m \<Longrightarrow> container_run X (snd (mr_remove_group X gid stores m))"
| run_message: "container_run X m \<Longrightarrow>
    container_run X (snd (snd (snd (mr_handle_message X gid now from msg logs stab m))))"
| run_timeout: "container_run X m \<Longrightarrow> container_run X (snd (snd (snd (mr_handle_timeout X gid now logs stab m))))"
| run_storage: "container_run X m \<Longrightarrow> container_run X (snd (snd (snd (mr_handle_storage X gid now logs stab m))))"
| run_propose: "container_run X m \<Longrightarrow> container_run X (snd (snd (mr_propose X gid now logs cmd m)))"
| run_flush: "container_run X m \<Longrightarrow> container_run X (snd (mr_flush_appends X gid now logs stab m))"
| run_conf_change: "container_run X m \<Longrightarrow> container_run X (snd (snd (mr_propose_conf_change X gid now logs cc m)))"
| run_conf_change_v2: "container_run X m \<Longrightarrow>
    container_run X (snd (snd (mr_propose_conf_change_v2 X gid now logs cc2 m)))"
| run_read_mode: "container_run X m \<Longrightarrow>
    container_run X (snd (snd (mr_propose_read_mode_change X gid now logs mode m)))"
| run_read_index: "container_run X m \<Longrightarrow> container_run X (snd (mr_read_index X gid now logs context m))"
| run_transfer: "container_run X m \<Longrightarrow> container_run X (snd (mr_transfer_leader X gid now logs stab to m))"
| run_split: "container_run X m \<Longrightarrow>
    container_run X (snd (snd (propose_split X gid now logs child child_gen instruction m)))"
| run_prepare_merge: "container_run X m \<Longrightarrow> container_run X (snd (snd (prepare_merge X gid now stores target m)))"
| run_commit_merge: "container_run X m \<Longrightarrow> commit_merge X gid now logs source m = Some (r, logs', m') \<Longrightarrow>
    container_run X m'"
| run_rollback_merge: "container_run X m \<Longrightarrow> container_run X (snd (snd (rollback_merge X gid now logs source m)))"
| run_service: "container_run X m \<Longrightarrow> container_run X (snd (snd (service_merge_applies X now stores m)))"
| run_peek_fork: "container_run X m \<Longrightarrow> container_run X (snd (peek_yieldable_fork X gate m))"
| run_poll_message: "container_run X m \<Longrightarrow> container_run X (snd (mr_poll_message m))"
| run_poll_event: "container_run X m \<Longrightarrow> container_run X (snd (mr_poll_event m))"
| run_poll_conflict: "container_run X m \<Longrightarrow> container_run X (snd (poll_split_conflict m))"
| run_poll_refusal: "container_run X m \<Longrightarrow> container_run X (snd (poll_split_refusal m))"
| run_poll_guard: "container_run X m \<Longrightarrow> container_run X (snd (poll_relay_guard_advance m))"
| run_poll_poisoned: "container_run X m \<Longrightarrow> container_run X (snd (poll_poisoned m))"
| run_poll_blocked: "container_run X m \<Longrightarrow> container_run X (snd (poll_merge_blocked m))"
| run_query_panicked: "container_run X m \<Longrightarrow> container_run X (mr_fail_stop_query_panicked gid m)"
| run_plane_panicked: "container_run X m \<Longrightarrow> container_run X (fail_stop_plane_unattributable_panic m)"
| run_lift_barrier: "container_run X m \<Longrightarrow> container_run X (lift_fork_barrier parent split_index m)"
| run_raise_guard: "container_run X m \<Longrightarrow> container_run X (raise_relay_guard gid lin m)"

lemma inv_new: "inv_but G mr_new"
  by (simp add: inv_but_def queues_ok_def signals_true_def attended_def mr_group_def mr_new_def bm_ok_def bm_contains_def)

lemma container_inv: "container_run X m \<Longrightarrow> inv_but {} m"
proof (induction rule: container_run.induct)
  case run_new show ?case by (rule inv_new)
next
  case run_create then show ?case by (intro inv_create_group_with_rng)
next
  case run_create_founded then show ?case by (intro inv_create_group_founded_at_with_rng)
next
  case run_restore then show ?case using inv_restore(2) by fastforce
next
  case run_restore_migrating then show ?case using inv_restore(1) by fastforce
next
  case run_create_from_fork then show ?case using inv_create_from_fork by fastforce
next
  case run_install then show ?case using inv_install by fastforce
next
  case run_remove then show ?case by (intro inv_remove_group)
next
  case run_commit_merge then show ?case using inv_merge_verbs(2) by fastforce
next
  case run_service then show ?case by (intro inv_service_merge_applies)
next
  case run_peek_fork then show ?case by (intro inv_peek_yieldable)
next
  case run_lift_barrier then show ?case by (intro inv_lift_fork_barrier)
next
  case run_raise_guard then show ?case by (intro inv_raise_relay_guard)
qed (simp_all add: inv_drive inv_merge_verbs inv_polls inv_signal_polls inv_fail_stop)

section \<open>The output polls\<close>

lemma poll_message_loop_None:
  "fst (poll_message_loop q m) = None \<longleftrightarrow> (\<forall>g\<in>set q. \<forall>ep. mr_group g m = Some ep \<longrightarrow> \<not> pollable_message ep)"
proof (induction q arbitrary: m)
  case (Cons gid q)
  have "mr_group g (m\<lparr>mr_dirty_msgs_set := s\<rparr>) = mr_group g m" for g s by (simp add: mr_group_def)
  then show ?case
    using Cons by (cases "mr_group gid m")
      (auto simp: pollable_message_def poll_message_def split: prod.split option.split list.split)
qed simp

lemma poll_event_loop_None:
  "fst (poll_event_loop q m) = None \<longleftrightarrow> (\<forall>g\<in>set q. \<forall>ep. mr_group g m = Some ep \<longrightarrow> \<not> pollable_event ep)"
proof (induction q arbitrary: m)
  case (Cons gid q)
  have "mr_group g (m\<lparr>mr_dirty_events_set := s\<rparr>) = mr_group g m" for g s by (simp add: mr_group_def)
  then show ?case
    using Cons by (cases "mr_group gid m")
      (auto simp: pollable_event_def poll_event_def split: prod.split option.split list.split)
qed simp

section \<open>The fork drain\<close>

text \<open>A fork a drain hands out: the head fork of a hosted group, above the group's relay guard, of
which this host is a voter, whose child is neither hosted nor fenced nor held back by the gate.\<close>

definition yieldable ::
    "('g::linorder, 'i, 'f, 'c, 'n, 'p, 'r, 'l, 's, 'k) multi_env \<Rightarrow> 'g fork_gate \<Rightarrow> 'g \<Rightarrow> ('g, 'i) yield_plan \<Rightarrow>
     ('g, 'i, 'f, 'n, 'p, 'r) multi_raft \<Rightarrow> bool" where
  "yieldable X gate parent plan m \<longleftrightarrow>
     (case Option.bind (mr_group parent m) peek_pending_fork of
        None \<Rightarrow> False
      | Some fork \<Rightarrow>
          \<not> group_is parent head_fork_is_abandoned m \<and>
          gid_decode_exact X (pf_child_bytes fork) = Ok (yp_child plan) \<and>
          yp_parent_gen_after plan = pf_parent_gen_after fork \<and> yp_child_gen plan = pf_child_gen fork \<and>
          yp_parent_gen_after plan > (case map_of (mr_lineage m) parent of Some g \<Rightarrow> g | None \<Rightarrow> 0) \<and>
          (case mr_host_id m of Some host \<Rightarrow> host \<in> set (pf_voters fork) | None \<Rightarrow> False) \<and>
          \<not> mr_contains_group (yp_child plan) m \<and>
          floor_admits (gate_floor gate (yp_child plan)) (yp_child_gen plan) \<and>
          \<not> gate_contains_group gate (yp_child plan))"

lemma fork_verdict_yield:
  assumes "fork_verdict X gate gid ep fork m = V_Yield child"
  shows "gid_decode_exact X (pf_child_bytes fork) = Ok child"
    "pf_parent_gen_after fork > (case map_of (mr_lineage m) gid of Some g \<Rightarrow> g | None \<Rightarrow> 0)"
    "case mr_host_id m of Some host \<Rightarrow> host \<in> set (pf_voters fork) | None \<Rightarrow> False"
    "mr_group child m = None"
    "floor_admits (gate_floor gate child) (pf_child_gen fork)" "\<not> gate_contains_group gate child"
  using assms by (auto simp: fork_verdict_def unhosted_verdict_def Let_def linorder_not_le
      split: result.splits if_splits option.splits CreateGroupError.splits)

lemma examine_yield:
  assumes "examine_head_fork X gid gate m = (HF_Yield plan, m')"
  shows "m' = m" "yieldable X gate gid plan m"
proof -
  obtain ep fork where e: "mr_group gid m = Some ep" "peek_pending_fork ep = Some fork" "\<not> group_is gid head_fork_is_abandoned m"
      "act_on_verdict gid (fork_verdict X gate gid ep fork m) m = (HF_Yield plan, m')"
    using assms by (auto simp: examine_head_fork_def consume_abandoned_head_fork_def Let_def
        split: if_splits option.splits prod.splits result.splits)
  then obtain child where v: "fork_verdict X gate gid ep fork m = V_Yield child" "yield_plan_of child ep = Some plan" "m' = m"
    by (auto simp: act_on_verdict_def Let_def split: ForkVerdict.splits option.splits prod.splits)
  then show "m' = m" by simp
  have "yp_child plan = child" "yp_parent_gen_after plan = pf_parent_gen_after fork" "yp_child_gen plan = pf_child_gen fork"
    using v(2) e(2) by (auto simp: yield_plan_of_def split: result.splits)
  with e(1-3) fork_verdict_yield [OF v(1)] show "yieldable X gate gid plan m"
    by (simp add: yieldable_def mr_contains_group_iff)
qed

lemma yieldable_frame [simp]: "yieldable X gate g plan (schedule_forks h (unpark k m)) = yieldable X gate g plan m"
proof -
  let ?m = "schedule_forks h (unpark k m)"
  have "mr_groups ?m = mr_groups m" "mr_lineage ?m = mr_lineage m" "mr_host_id ?m = mr_host_id m"
    by (simp_all add: schedule_forks_def unpark_def)
  then show ?thesis by (simp only: yieldable_def mr_group_def group_is_def mr_contains_group_def)
qed

lemma examine_parked_kept:
  assumes "examine_head_fork X gid gate m = (h, m')" "h \<noteq> HF_Parked"
  shows "mr_parked m' = mr_parked m"
  using assms by (auto simp: examine_head_fork_def consume_abandoned_head_fork_def consume_group_fork_def
      act_on_verdict_def note_if_poisoned_def advance_relay_guard_def Let_def
      split: if_splits option.splits prod.splits result.splits ForkVerdict.splits)

lemma drain_parked_yield:
  "drain_parked X gate gs held m = (Some (parent, plan), held', m') \<Longrightarrow> yieldable X gate parent plan m'"
proof (induction gs arbitrary: held m)
  case (Cons gid gs)
  obtain h m1 where e: "examine_head_fork X gid gate m = (h, m1)" by force
  show ?case using Cons e examine_yield [of X gid gate m] by (cases h) auto
qed simp

lemma drain_dirty_yield:
  "drain_dirty X gate held m = (Some (parent, plan), held', m') \<Longrightarrow> yieldable X gate parent plan m'"
proof (induction X gate held m rule: drain_dirty.induct)
  case (1 X gate held m)
  from "1.prems" show ?case
    by (subst (asm) drain_dirty.simps)
      (auto split: list.splits if_splits prod.splits HeadFork.splits dest: "1.IH" examine_yield)
qed

lemma mr_parked_frames [simp]:
  "mr_parked (pop_dirty_fork gid m) = mr_parked m" "mr_parked (schedule_forks gid m) = mr_parked m"
  by (simp_all add: pop_dirty_fork_def schedule_forks_def)

lemma drain_dirty_empties: "drain_dirty X gate held m = (None, held', m') \<Longrightarrow> mr_dirty_forks m' = []"
proof (induction X gate held m rule: drain_dirty.induct)
  case (1 X gate held m)
  from "1.prems" show ?case
    by (subst (asm) drain_dirty.simps)
      (auto split: list.splits if_splits prod.splits HeadFork.splits dest: "1.IH")
qed

lemma drain_dirty_done:
  "drain_dirty X gate held m = (None, False, m') \<Longrightarrow> \<not> held \<and> mr_parked m' = mr_parked m"
proof (induction X gate held m rule: drain_dirty.induct)
  case (1 X gate held m)
  note unfold = drain_dirty.simps [of X gate held m]
  show ?case
  proof (cases "mr_dirty_forks m")
    case (Cons gid q)
    obtain h m1 where e: "examine_head_fork X gid gate m = (h, m1)" by force
    show ?thesis
      using "1.prems" "1.IH" [OF Cons] e examine_parked_kept [OF e]
      by (cases "bm_contains (mr_parked m) gid"; cases h) (simp_all add: unfold Cons)
  qed (use "1.prems" in \<open>simp add: unfold\<close>)
qed

lemma bm_contains_unpark: "bm_contains (mr_parked (unpark gid m)) g \<longleftrightarrow> bm_contains (mr_parked m) g \<and> g \<noteq> gid"
  by (auto simp: unpark_def bm_contains_def delete_conv')

lemma drain_parked_done:
  "drain_parked X gate gs held m = (None, False, m') \<Longrightarrow>
     \<not> held \<and> (\<forall>g. bm_contains (mr_parked m') g \<longrightarrow> bm_contains (mr_parked m) g \<and> g \<notin> set gs)"
proof (induction gs arbitrary: held m)
  case (Cons gid gs)
  obtain h m1 where e: "examine_head_fork X gid gate m = (h, m1)" by force
  show ?case using Cons.prems e examine_parked_kept [OF e]
    by (cases h) (auto simp: bm_contains_unpark dest!: Cons.IH)
qed simp

section \<open>Properties\<close>

text \<open>
  C11: the output polls miss nothing. In every run of the container, whatever calls were made on it and
  with whatever stores, a poll for a message answers none exactly when no healthy hosted group has a
  message queued, and likewise for events: a healthy group with output is never left off the queue the
  poll walks.
\<close>

theorem container_polls_complete:
  assumes "container_run X m"
  shows "(fst (mr_poll_message m) = None \<longleftrightarrow>
      (\<forall>g ep. mr_group g m = Some ep \<longrightarrow> is_poisoned ep \<or> ou_outgoing (ep_outputs ep) = [])) \<and>
    (fst (mr_poll_event m) = None \<longleftrightarrow>
      (\<forall>g ep. mr_group g m = Some ep \<longrightarrow> is_poisoned ep \<or> ou_events (ep_outputs ep) = []))"
proof -
  have inv: "queues_ok m" "\<And>g ep. mr_group g m = Some ep \<Longrightarrow> duly g m ep"
    using container_inv [OF assms] by (simp_all add: inv_but_def attended_def)
  have msgs: "g \<in> set (mr_dirty_msgs m)" if "mr_group g m = Some ep" "pollable_message ep" for g ep
    using inv(1) inv(2) [OF that(1)] that(2) by (auto simp: queues_ok_def duly_def)
  have events: "g \<in> set (mr_dirty_events m)" if "mr_group g m = Some ep" "pollable_event ep" for g ep
    using inv(1) inv(2) [OF that(1)] that(2) by (auto simp: queues_ok_def duly_def)
  have "fst (mr_poll_message m) = None \<longleftrightarrow> (\<forall>g ep. mr_group g m = Some ep \<longrightarrow> \<not> pollable_message ep)"
    "fst (mr_poll_event m) = None \<longleftrightarrow> (\<forall>g ep. mr_group g m = Some ep \<longrightarrow> \<not> pollable_event ep)"
    unfolding mr_poll_message_def mr_poll_event_def poll_message_loop_None poll_event_loop_None
    using msgs events by blast+
  then show ?thesis by (simp add: pollable_message_def pollable_event_def)
qed

text \<open>
  C12: the fork drain strands no fork. From every container of a run and under every gate, the drain
  returns; what it hands out is the head fork of a hosted group above that group's relay guard, with
  this host among its voters and a child that is not hosted, not fenced by the floor and not held by
  the gate; when it hands out nothing, every group that still has a fork staged is parked, where the
  next drain examines it again; and when it reports that it is empty, no group has a fork staged.
\<close>

theorem drain_strands_no_fork:
  assumes "container_run X m" "drain_to_yieldable X gate m = (outcome, m')"
  shows "case outcome of
      DO_Yieldable parent plan \<Rightarrow> yieldable X gate parent plan m'
    | DO_Empty \<Rightarrow> \<forall>g ep. mr_group g m' = Some ep \<longrightarrow> sl_pending_forks (ep_split ep) = []
    | _ \<Rightarrow> \<forall>g ep. mr_group g m' = Some ep \<longrightarrow> sl_pending_forks (ep_split ep) = [] \<or> bm_contains (mr_parked m') g"
proof -
  obtain y held m1 where p: "drain_parked X gate (map fst (mr_parked m)) False m = (y, held, m1)"
    by (cases "drain_parked X gate (map fst (mr_parked m)) False m")
  obtain y' held' m2 where d: "drain_dirty X gate held m1 = (y', held', m2)"
    by (cases "drain_dirty X gate held m1")
  have "inv_but {} m'" using inv_drain [OF container_inv [OF assms(1)], of X gate] assms(2) by simp
  then have inv: "queues_ok m'" "\<And>g ep. mr_group g m' = Some ep \<Longrightarrow> duly g m' ep"
    by (simp_all add: inv_but_def attended_def)
  show ?thesis
  proof (cases "y = None \<and> y' = None")
    case True
    then have m': "m' = m2" "mr_dirty_forks m' = []" "\<And>parent plan. outcome \<noteq> DO_Yieldable parent plan"
      "outcome = DO_Empty \<Longrightarrow> \<not> held'"
      using assms(2) d drain_dirty_empties [of X gate held m1 held' m2]
      by (auto simp: drain_to_yieldable_def p Let_def split: if_splits)
    have staged: "bm_contains (mr_parked m') g" if "mr_group g m' = Some ep" "sl_pending_forks (ep_split ep) \<noteq> []" for g ep
      using inv(1) inv(2) [OF that(1)] that(2) m'(2) by (auto simp: queues_ok_def duly_def forks_staged_def)
    have unparked: "\<not> bm_contains (mr_parked m') g" if "\<not> held'" for g
      using drain_dirty_done [of X gate held m1 m2] drain_parked_done [of X gate "map fst (mr_parked m)" False m m1]
        that True d p m'(1) by (auto simp: bm_contains_def map_of_eq_None_iff)
    show ?thesis
    proof (cases outcome)
      case DO_Empty
      with staged unparked [OF m'(4)] show ?thesis by auto
    qed (use staged m'(3) in auto)
  next
    case False
    then have "\<exists>parent plan. outcome = DO_Yieldable parent plan \<and> yieldable X gate parent plan m'"
      using assms(2) d drain_parked_yield [of X gate "map fst (mr_parked m)" False m] drain_dirty_yield [of X gate held m1]
      by (auto simp: drain_to_yieldable_def p Let_def split: option.splits)
    then show ?thesis by auto
  qed
qed

text \<open>A container that hosts one group, and the same after a pre-vote request.\<close>

definition hosted_example ::
    "(nat, nat, 'f, 'c, 'n, 'p, 'r, 'l, 's, 'k) multi_env \<Rightarrow> nat config \<Rightarrow> now \<Rightarrow> 'r \<Rightarrow> 'f \<Rightarrow>
     (nat, nat, 'f, 'n, 'p, 'r) multi_raft" where
  "hosted_example X config now rng fsm =
     snd (create_group_with_rng (X\<lparr>gid_encode := (\<lambda>g. [of_nat g])\<rparr>) 7 0 config now rng fsm mr_new)"

lemma working_zero: "generation_is_working 0"
  by code_simp

lemma hosted_example_eq:
  "mr_group g (hosted_example X config now rng fsm) =
     (if g = 7 then Some (seed_lineage 0 (new_with_rng (mx_env X) config now rng fsm)) else None)"
  "mr_dirty_forks (hosted_example X config now rng fsm) = []" "mr_parked (hosted_example X config now rng fsm) = []"
  "mr_refusals (hosted_example X config now rng fsm) = []"
  by (simp_all add: hosted_example_def create_group_with_rng_def validate_new_group_def and_then_def
      validate_working_generation_def working_zero frame_consts mr_new_def mr_contains_group_def any_group_def adopt_host_id_def
      host_group_def clear_unresolvable_hints_naming_def on_groups_def mr_group_def bm_contains_def Let_def)

definition pre_vote_request :: "nat message" where
  "pre_vote_request = MRequestVote \<lparr>rv_term = 1, rv_candidate = 2, rv_last_log_index = 0, rv_last_log_term = 0,
     rv_pre_vote = True, rv_leader_transfer = False\<rparr>"

definition empty_log_env ::
    "(nat, nat, 'f, 'c, 'n, 'p, 'r, 'l, 's, 'k) multi_env \<Rightarrow> (nat, nat, 'f, 'c, 'n, 'p, 'r, 'l, 's, 'k) multi_env" where
  "empty_log_env X = X\<lparr>gid_encode := (\<lambda>g. [of_nat g]),
     mx_env := (mx_env X)\<lparr>log_last_index := (\<lambda>_. 0), log_read_term := (\<lambda>_ _. Ok 0)\<rparr>\<rparr>"

lemma timer_outputs [simp]:
  "ep_outputs (reconcile_election_timer E now ep) = ep_outputs ep" "ep_poison (reconcile_election_timer E now ep) = ep_poison ep"
  by (simp_all add: reconcile_election_timer_def arm_election_timer_def split: option.split)

lemma pre_vote_answered:
  assumes "\<not> is_poisoned ep" "ep_role ep = Follower" "ep_term ep = 0" "ep_voted_for ep = None"
    "ss_snapshot_recv (ep_snapshot ep) = None" "ss_pending_install (ep_snapshot ep) = None"
    "du_last_submitted_term (ep_durable ep) = 0" "du_last_submitted_vote (ep_durable ep) = None"
    "du_last_submitted_lease_support (ep_durable ep) = None" "du_lease_support_floor (ep_durable ep) = None"
  shows "\<exists>ep' reply stab'. handle_message (mx_env (empty_log_env X)) now 2 pre_vote_request ep logs stab = (ep', logs, stab') \<and>
    \<not> is_poisoned ep' \<and> ou_outgoing (ep_outputs ep') = ou_outgoing (ep_outputs ep) @ [(2, reply)] \<and>
    ou_events (ep_outputs ep') = ou_events (ep_outputs ep)"
proof -
  let ?E = "mx_env (empty_log_env X)"
  define g where "g = pre_vote_granted now \<lparr>rv_term = 1, rv_candidate = 2, rv_last_log_index = 0, rv_last_log_term = 0,
     rv_pre_vote = True, rv_leader_transfer = False\<rparr> True ep"
  let ?ep = "send 2 (vote_reply (if g then 1 else 0) True (\<not> g) ep) ep"
  have "dispatch ?E now 2 pre_vote_request ep logs stab = (?ep, logs, stab)"
    using assms by (simp add: dispatch_def pre_vote_request_def on_request_vote_def last_log_def log_term_def empty_log_env_def
        vote_position_def ahead_of_def g_def)
  moreover have "ensure_term_durable ?E ?ep stab = (?ep, stab)"
    using assms by (simp add: ensure_term_durable_def send_def Let_def)
  ultimately have "handle_message ?E now 2 pre_vote_request ep logs stab = (reconcile_election_timer ?E now ?ep, logs, stab)"
    using assms by (simp add: handle_message_def handle_current_def note_sender_def pre_vote_request_def
        advertised_prevote_def is_prevote_request_def msg_from_def msg_term_def)
  then show ?thesis using assms(1) by (simp add: is_poisoned_def send_def)
qed

text \<open>After a pre-vote request the group has an answer queued, and the container's poll finds it.\<close>

theorem container_polls_complete_witness:
  "\<forall>(X :: (nat, nat, 'f, 'c, 'n, 'p, 'r, 'l, 's, 'k) multi_env) config now rng fsm logs stab.
     let X = empty_log_env X; m = hosted_example X config now rng fsm;
         m' = snd (snd (snd (mr_handle_message X 7 now 2 pre_vote_request logs stab m)))
     in fst (mr_poll_message m) = None \<and> fst (mr_poll_message m') \<noteq> None"
proof (intro allI)
  fix X :: "(nat, nat, 'f, 'c, 'n, 'p, 'r, 'l, 's, 'k) multi_env" and config now rng fsm logs stab
  let ?X = "empty_log_env X"
  define m where "m = hosted_example ?X config now rng fsm"
  define m' where "m' = snd (snd (snd (mr_handle_message ?X 7 now 2 pre_vote_request logs stab m)))"
  have "?X\<lparr>gid_encode := (\<lambda>g. [of_nat g])\<rparr> = ?X" by (simp add: empty_log_env_def)
  then have run: "container_run ?X m"
    unfolding m_def hosted_example_def by (metis run_create [OF run_new])
  have run': "container_run ?X m'" unfolding m'_def by (rule run_message [OF run])
  have idle: "mr_group g m = Some ep \<Longrightarrow> ou_outgoing (ep_outputs ep) = []" for g ep
    by (auto simp: m_def hosted_example_eq seed_lineage_def new_with_rng_def arm_election_timer_def endpoint_fresh_def split: if_splits option.splits)
  define ep where "ep = seed_lineage 0 (new_with_rng (mx_env ?X) config now rng fsm)"
  have fresh: "\<not> is_poisoned ep" "ep_role ep = Follower" "ep_term ep = 0" "ep_voted_for ep = None"
      "ss_snapshot_recv (ep_snapshot ep) = None" "ss_pending_install (ep_snapshot ep) = None"
      "du_last_submitted_term (ep_durable ep) = 0" "du_last_submitted_vote (ep_durable ep) = None"
      "du_last_submitted_lease_support (ep_durable ep) = None" "du_lease_support_floor (ep_durable ep) = None"
    by (simp_all add: ep_def seed_lineage_def new_with_rng_def arm_election_timer_def endpoint_fresh_def is_poisoned_def
        split: option.split)
  have "mr_group 7 m = Some ep" by (simp add: m_def hosted_example_eq ep_def)
  moreover obtain ep' reply stab' where "handle_message (mx_env ?X) now 2 pre_vote_request ep logs stab = (ep', logs, stab')"
      "\<not> is_poisoned ep'" "ou_outgoing (ep_outputs ep') \<noteq> []"
    using pre_vote_answered [OF fresh, of X now logs stab] by auto
  ultimately have "mr_group 7 m' = Some ep'" "\<not> is_poisoned ep'" "ou_outgoing (ep_outputs ep') \<noteq> []"
    by (simp_all add: m'_def mr_handle_message_def pre_vote_request_def store_group_def mark_dirty_def)
  then show "let X = ?X; m = hosted_example X config now rng fsm;
         m' = snd (snd (snd (mr_handle_message X 7 now 2 pre_vote_request logs stab m)))
     in fst (mr_poll_message m) = None \<and> fst (mr_poll_message m') \<noteq> None"
    using container_polls_complete [OF run] container_polls_complete [OF run'] idle
    by (auto simp: Let_def simp flip: m_def m'_def)
qed

theorem drain_strands_no_fork_witness:
  "\<forall>(X :: (nat, nat, 'f, 'c, 'n, 'p, 'r, 'l, 's, 'k) multi_env) config now rng fsm gate.
     let m = hosted_example X config now rng fsm; X = X\<lparr>gid_encode := (\<lambda>g. [of_nat g])\<rparr>
     in drain_to_yieldable X gate m = (DO_Empty, m) \<and>
        map_option (\<lambda>ep. sl_pending_forks (ep_split ep)) (mr_group 7 m) = Some []"
proof (intro allI)
  fix X :: "(nat, nat, 'f, 'c, 'n, 'p, 'r, 'l, 's, 'k) multi_env" and config now rng fsm gate
  let ?X = "X\<lparr>gid_encode := (\<lambda>g. [of_nat g])\<rparr>" and ?m = "hosted_example X config now rng fsm"
  have run: "container_run ?X ?m" unfolding hosted_example_def by (rule run_create [OF run_new])
  have drained: "drain_to_yieldable ?X gate ?m = (DO_Empty, ?m)"
    by (simp add: drain_to_yieldable_def hosted_example_eq drain_dirty.simps)
  show "let m = ?m; X = ?X in drain_to_yieldable X gate m = (DO_Empty, m) \<and>
      map_option (\<lambda>ep. sl_pending_forks (ep_split ep)) (mr_group 7 m) = Some []"
    using drain_strands_no_fork [OF run drained] drained by (simp add: hosted_example_eq)
qed

end
