(* ===== verification/Spec2Isabelle.thy ===== *)
theory Spec2Isabelle
  imports Quorum Progress Confchange Read_Only Frame Config Forwarded_Reads Recovery Engine_Fence Multi_Runs
begin

text \<open>
  Verification of the consensus core of \<^verbatim>\<open>sailing\<close>, a Raft library without input or output:
  the crate \<^verbatim>\<open>sailing-proto\<close> under \<^verbatim>\<open>src/\<close>.  File names below are relative to
  \<^verbatim>\<open>src/sailing-proto/src\<close>.

  \<^bold>\<open>The program.\<close>  An \<^emph>\<open>endpoint\<close> is one replica of one Raft group.  Its driver calls it with
  messages, timer expiries, storage completions and client requests; it answers by queueing
  messages and events and by submitting writes to a log store and a stable store.  Nothing is
  sent before the write it depends on is durable.  Around the endpoint lie the quorum and
  configuration arithmetic, the per-peer progress, the pending reads, the lease clocks and the
  frame codec.  A \<^emph>\<open>container\<close> (\<^verbatim>\<open>MultiRaft\<close>) hosts many endpoints of different groups, relays the
  forks of a split group and resolves the merges of two groups; a \<^emph>\<open>group engine\<close> holds the
  stores of all groups in memory and the fences that keep a removed group from coming back.

  \<^bold>\<open>Conventions.\<close>  \<^verbatim>\<open>u64\<close> counters are \<open>64 word\<close> with the source's checked, saturating or
  wrapping arithmetic; \<^verbatim>\<open>usize\<close> and durations are \<open>nat\<close>; node and group ids are linearly ordered
  types; \<^verbatim>\<open>BTreeSet\<close> is a finite set and \<^verbatim>\<open>BTreeMap\<close> an association list in key order (\<open>Btree\<close>);
  \<^verbatim>\<open>Result\<close> is the type \<open>result\<close>, a panic or an unfinished loop is \<open>None\<close> of an option.  A struct is
  a record with a field prefix, an enum a datatype, a method a function that takes the state last
  and returns it updated.  Code outside the crate (the state machine, the stores, the random
  generator, the generated codec) is a parameter: the record \<open>env\<close> of \<open>Endpoint_State\<close>, argument
  \<open>E\<close> of every handler, and the record \<open>multi_env\<close> of \<open>Multi_State\<close>, argument \<open>X\<close>.  Loops whose
  recursion is not structural carry a fuel argument or a termination proof; see below.

  \<^bold>\<open>The theories, by component.\<close>

  \<^item> \<open>Sailing_Prelude\<close>, \<open>Counters\<close>, \<open>Btree\<close>: machine integers, results, ordered containers, terms,
    indices and clocks (\<^verbatim>\<open>num.rs\<close>, \<^verbatim>\<open>time.rs\<close>).
  \<^item> \<open>Quorum\<close> (\<^verbatim>\<open>quorum/mod.rs\<close>), \<open>Progress\<close> (\<^verbatim>\<open>inflights.rs\<close>, \<^verbatim>\<open>progress/mod.rs\<close>), \<open>Conf\<close>
    (\<^verbatim>\<open>conf/mod.rs\<close>), \<open>Progress_Map\<close>, \<open>Tracker\<close> and \<open>Confchange\<close> (\<^verbatim>\<open>tracker/mod.rs\<close>): membership
    and replication bookkeeping.  Joint quorums commit and elect exactly as the two majorities
    say, two winners of a live configuration are equal, a winner and a committed index share a
    voter; configuration changes refine a relation on voter sets whose consecutive quorums meet.
  \<^item> \<open>Read_Only\<close> (\<^verbatim>\<open>read_only/mod.rs\<close> and the forwarded reads of \<^verbatim>\<open>endpoint/mod.rs\<close>): rounds of
    linearizable reads; tokens are never reused, reads are confirmed in order.  \<open>Forwarded_Reads\<close>
    follows the table of forwarded reads through the operations that write it: it is bounded,
    free of duplicates, and each token completes its own read.
  \<^item> \<open>Varint\<close>, \<open>Frame\<close> (\<^verbatim>\<open>transport/frame/mod.rs\<close>), \<open>Wire\<close> (the sizers of \<^verbatim>\<open>wire/mod.rs\<close>): round
    trips, independence of the chunking of the input, the latch of an oversized frame.
  \<^item> \<open>Config\<close> (\<^verbatim>\<open>config/mod.rs\<close>, \<^verbatim>\<open>prng.rs\<close>): validation, the commit-wait window of a lease, the
    range of the election draw, agreement of the validation with the gates read at run time.
  \<^item> \<open>Storage\<close>, \<open>Message\<close> (\<^verbatim>\<open>storage.rs\<close>, \<^verbatim>\<open>entry.rs\<close>, \<^verbatim>\<open>hard_state.rs\<close>, \<^verbatim>\<open>message/mod.rs\<close>,
    \<^verbatim>\<open>event.rs\<close>): the values that travel, and the staging that reassembles a snapshot.
  \<^item> \<open>Endpoint_State\<close>, \<open>Endpoint\<close>, \<open>Split\<close>, \<open>Merge\<close>, \<open>Lineage\<close>, \<open>Persistence\<close>, \<open>Lease\<close>, \<open>Sending\<close>,
    \<open>Ledgers\<close>, \<open>Leader_Log\<close>, \<open>Apply\<close>, \<open>Reads\<close>, \<open>Replication\<close>, \<open>Election\<close>, \<open>Snapshots\<close>,
    \<open>Storage_Drain\<close>, \<open>Dispatch\<close>, \<open>Restart\<close>: the endpoint (\<^verbatim>\<open>endpoint/*.rs\<close>).  The record
    \<open>endpoint\<close> is \<^verbatim>\<open>struct Endpoint\<close> with its nested state; \<open>handle_message\<close>, \<open>handle_timeout\<close>,
    \<open>handle_storage\<close>, \<open>propose\<close>, \<open>read_index\<close>, \<open>transfer_leader\<close>, \<open>flush_appends\<close>, \<open>poll_message\<close>,
    \<open>poll_event\<close> and \<open>restart_inner\<close> are its entry points, whole.
  \<^item> \<open>Engine\<close>, \<open>Engine_Laws\<close>, \<open>Engine_Fence\<close> (\<^verbatim>\<open>multi/engine/mod.rs\<close>): the stores of a group and
    the engine over all groups; the log stays well formed, the removal floor equals a scan of
    what is retained, and a floor once persisted survives every later operation.
  \<^item> \<open>Multi_State\<close>, \<open>Multi_Fork\<close>, \<open>Multi_Group\<close>, \<open>Multi_Merge\<close> (\<^verbatim>\<open>multi/mod.rs\<close>): the container.
    The record \<open>multi_raft\<close> is \<^verbatim>\<open>struct MultiRaft\<close>; its methods are the definitions of the same
    name, with the prefix \<open>mr_\<close> where an endpoint operation has the name already.
    \<open>Multi_Inv\<close>, \<open>Multi_Steps\<close>, \<open>Multi_Drive\<close> and \<open>Multi_Service\<close> show that each of these methods
    keeps the container's invariant (the queues agree with their membership sets, every healthy
    group with output is queued, every staged fork is queued or parked, the poison signals name
    poisoned groups); \<open>Multi_Runs\<close> concludes for any sequence of calls that the output polls miss
    nothing and that the fork drain strands no fork.  A target parked at the last index a log can
    hold is the one group whose poisoning may go without a signal.
  \<^bold>\<open>The specification and the refinement.\<close>  \<open>Protocol_Core\<close> defines an abstract state (term, vote,
  commit, applied, durable marks, the outgoing queue) and its steps; \<open>Simulation\<close> and
  \<open>Simulation_Cranks\<close> show that every handler is a sequence of these steps; \<open>Endpoint_Runs\<close> lifts
  this to runs of arbitrary calls and proves on the abstract steps that a node grants one vote a
  term, acknowledges only durable entries at a durable term, and never moves its term or commit
  index back.  \<open>Recovery\<close> instantiates the environment with the engine's stores and shows that a
  restart returns, replays what is committed, and respects the durable vote.

  \<^bold>\<open>Interfaces.\<close>  \<open>Log_Store\<close> states the contract of a log store as the locale \<open>log_store\<close>,
  extended by \<open>resident_log\<close> for stores that answer at once; the scans and the replay are proved to
  end under it, and \<open>Recovery\<close> interprets it on the engine's log (\<open>eng\<close>).

  \<^bold>\<open>Bounds.\<close>  \<open>apply_loop\<close> and \<open>replay_loop\<close> have fuel for one turn per committed index and are
  proved to return (\<open>Loops\<close>).  \<open>scan_log_loop\<close>, \<open>scan_freeze_loop\<close> and \<open>superseded_loop\<close> have fuel
  for one turn per index of the log and are proved to return under the store contract
  (\<open>Log_Store\<close>).  \<open>crossing_scan\<close>, \<open>drain_log\<close> and \<open>drain_stable\<close> take the source's own budget per
  call.  \<open>release_covered\<close>, \<open>release_voted\<close> and \<open>pump_loop\<close> take the length of the queue, or the
  number of log indices, at their start: each turn removes one element or advances one index.
  \<open>drain_dirty\<close> of the container is a total function, by the number of staged forks and queued
  groups.  The frame decoder's loop is a partial function proved to return.

  \<^bold>\<open>Not modelled.\<close>  The protobuf codec (generated at build time), TLS and QUIC (third-party
  libraries), the connection tables and coordinators of the transports, the drivers and their
  runtimes (sockets, timers, channels), the storage conformance suite, the simulation, the test
  kit and the benchmarks: input and output, generated code, or code that only tests the crate.
  Debug assertions, which have no effect in a release build, are left out.
\<close>

end
